(* ===== verification/PyFloat.thy ===== *)
theory PyFloat
  imports Complex_Main
begin

text \<open>
  Python floats. A finite float is a rational number; \<open>fl\<close> is the rounding of IEEE 754
  binary64 (53 significant bits, ties to even, subnormals down to \<open>2 powi -1074\<close>), and
  the float operations of the source are the exact rational operations followed by
  \<open>fl\<close>. The one deviation: above the largest binary64 number the exponent goes on, so
  the model has no overflow to infinity; the code's floats are epoch seconds and
  measurements, far below that. The conversion of an \<open>int\<close> to a float, which raises
  above that number, is modelled with its exception in \<open>PyValue\<close>.
\<close>

section \<open>Bit lengths\<close>

fun bit_length :: "nat \<Rightarrow> nat" where
  "bit_length n = (if n = 0 then 0 else Suc (bit_length (n div 2)))"

declare bit_length.simps [simp del]

lemma bit_length_0 [simp]: "bit_length 0 = 0"
  by (simp add: bit_length.simps)

lemma bit_length_Suc_0 [simp]: "bit_length (Suc 0) = Suc 0"
  by (simp add: bit_length.simps)

lemma bit_length_pos: "0 < n \<Longrightarrow> 0 < bit_length n"
  by (subst bit_length.simps) simp

lemma bit_length_upper: "n < 2 ^ bit_length n"
proof (induction n rule: bit_length.induct)
  case (1 n)
  show ?case
  proof (cases "n = 0")
    case False
    with 1 have "n div 2 < 2 ^ bit_length (n div 2)" by simp
    with False show ?thesis by (subst bit_length.simps) simp
  qed simp
qed

lemma bit_length_lower: "0 < n \<Longrightarrow> 2 ^ (bit_length n - 1) \<le> n"
proof (induction n rule: bit_length.induct)
  case (1 n)
  show ?case
  proof (cases "n div 2 = 0")
    case True
    with 1 have "n = 1" by simp
    then show ?thesis by simp
  next
    case False
    with 1 have le: "2 ^ (bit_length (n div 2) - 1) \<le> n div 2" by simp
    from False have "bit_length (n div 2) > 0" by (simp add: bit_length_pos)
    with le have "2 ^ bit_length (n div 2) \<le> 2 * (n div 2)"
      by (cases "bit_length (n div 2)") auto
    with 1 show ?thesis by (subst bit_length.simps) simp
  qed
qed

section \<open>Rounding\<close>

text \<open>The exponent of the leading bit of a positive rational.\<close>

definition log2_floor :: "rat \<Rightarrow> int" where
  "log2_floor q =
     (let (n, d) = quotient_of q;
          k = int (bit_length (nat n)) - int (bit_length (nat d))
      in if 2 powi k \<le> q then k else k - 1)"

definition round_half_even :: "rat \<Rightarrow> int" where
  "round_half_even x =
     (let f = \<lfloor>x\<rfloor>; r = x - of_int f
      in if r < 1 / 2 then f
         else if 1 / 2 < r then f + 1
         else if even f then f else f + 1)"

definition ulp :: "rat \<Rightarrow> rat" where
  "ulp q = 2 powi (max (log2_floor \<bar>q\<bar> - 52) (-1074))"

definition fl :: "rat \<Rightarrow> rat" where
  "fl q = (if q = 0 then 0 else of_int (round_half_even (q / ulp q)) * ulp q)"

definition fadd :: "rat \<Rightarrow> rat \<Rightarrow> rat" where
  "fadd a b = fl (a + b)"

definition fsub :: "rat \<Rightarrow> rat \<Rightarrow> rat" where
  "fsub a b = fl (a - b)"

subsection \<open>Exactness on integers below 2 to the power 53\<close>

lemma round_half_even_of_int [simp]: "round_half_even (of_int i) = i"
  by (simp add: round_half_even_def)

lemma ulp_pos [simp]: "0 < ulp q"
  by (simp add: ulp_def)

lemma log2_floor_of_int:
  assumes "0 < i"
  shows "log2_floor (of_int i) = int (bit_length (nat i)) - 1"
proof -
  let ?b = "bit_length (nat i)"
  have "nat i < 2 ^ ?b" by (rule bit_length_upper)
  then have "i < 2 ^ ?b" using assms by (simp add: nat_less_iff)
  then have "(of_int i :: rat) < of_int (2 ^ ?b)" by (simp only: of_int_less_iff)
  then have up: "(of_int i :: rat) < 2 ^ ?b" by simp
  have "2 ^ (?b - 1) \<le> nat i" using assms by (intro bit_length_lower) simp
  then have "2 ^ (?b - 1) \<le> i" using assms by (metis le_nat_iff of_nat_numeral of_nat_power order_less_imp_le)
  then have "(of_int (2 ^ (?b - 1)) :: rat) \<le> of_int i" by (simp only: of_int_le_iff)
  then have lo: "(2 :: rat) ^ (?b - 1) \<le> of_int i" by simp
  have b: "0 < ?b" using assms by (simp add: bit_length_pos)
  have k: "int ?b - 1 = int (?b - 1)" using b by simp
  have "(2 :: rat) powi (int ?b - 1) = 2 ^ (?b - 1)" by (simp only: k power_int_of_nat)
  with lo have "(2 :: rat) powi (int ?b - 1) \<le> of_int i" by simp
  then show ?thesis by (simp add: log2_floor_def Let_def)
qed

lemma ulp_of_int:
  assumes "i \<noteq> 0" "\<bar>i\<bar> < 2 ^ 53"
  obtains n where "ulp (of_int i) = 1 / 2 ^ n"
proof -
  let ?b = "bit_length (nat \<bar>i\<bar>)"
  have pos: "0 < \<bar>i\<bar>" using assms by simp
  have "\<bar>of_int i :: rat\<bar> = of_int \<bar>i\<bar>" by simp
  then have l: "log2_floor \<bar>of_int i :: rat\<bar> = int ?b - 1"
    using log2_floor_of_int [OF pos] by (simp only:)
  have "2 ^ (?b - 1) \<le> nat \<bar>i\<bar>" using pos by (intro bit_length_lower) simp
  moreover have "nat \<bar>i\<bar> < 2 ^ 53" using assms by (simp add: nat_less_iff)
  ultimately have "(2 :: nat) ^ (?b - 1) < 2 ^ 53" by (rule le_less_trans)
  then have "?b - 1 < 53" by (rule power_less_imp_less_exp [rotated]) simp
  moreover have "0 < ?b" using pos by (simp add: bit_length_pos)
  ultimately have m: "max (int ?b - 1 - 52) (-1074) = - int (53 - ?b)" by auto
  have "ulp (of_int i) = 1 / 2 ^ (53 - ?b)"
    unfolding ulp_def l m by (simp add: power_int_minus field_simps)
  then show ?thesis by (rule that)
qed

lemma fl_0 [simp]: "fl 0 = 0"
  by (simp add: fl_def)

lemma fl_of_int: "\<bar>i\<bar> < 2 ^ 53 \<Longrightarrow> fl (of_int i) = of_int i"
proof (cases "i = 0")
  case False
  assume "\<bar>i\<bar> < 2 ^ 53"
  with False obtain n where n: "ulp (of_int i) = 1 / 2 ^ n" by (rule ulp_of_int)
  have "of_int i / ulp (of_int i) = (of_int (i * 2 ^ n) :: rat)"
    by (simp add: n)
  then have "round_half_even (of_int i / ulp (of_int i)) = i * 2 ^ n"
    by (simp only: round_half_even_of_int)
  then show ?thesis using False by (simp add: fl_def n)
qed simp

lemma fl_numeral [simp]: "(numeral w :: int) < 2 ^ 53 \<Longrightarrow> fl (numeral w) = numeral w"
  using fl_of_int [of "numeral w"] by simp

lemma fl_neg_numeral [simp]: "(numeral w :: int) < 2 ^ 53 \<Longrightarrow> fl (- numeral w) = - numeral w"
  using fl_of_int [of "- numeral w"] by simp

lemma fl_1 [simp]: "fl 1 = 1"
  using fl_of_int [of 1] by simp

subsection \<open>Rounding keeps the sign\<close>

lemma round_half_even_nonneg: "0 \<le> x \<Longrightarrow> 0 \<le> round_half_even x"
  by (simp add: round_half_even_def Let_def)

lemma round_half_even_nonpos:
  assumes "x \<le> 0"
  shows "round_half_even x \<le> 0"
proof (cases "x - of_int \<lfloor>x\<rfloor> < 1 / 2")
  case True
  then have "round_half_even x = \<lfloor>x\<rfloor>" by (simp add: round_half_even_def Let_def)
  then show ?thesis using assms by (simp add: floor_le_iff)
next
  case False
  have "\<lfloor>x\<rfloor> < 0"
  proof (rule ccontr)
    assume "\<not> \<lfloor>x\<rfloor> < 0"
    with assms have "x = 0" by (simp add: not_less)
    with False show False by simp
  qed
  then show ?thesis by (simp add: round_half_even_def Let_def)
qed

lemma fl_nonneg: "0 \<le> q \<Longrightarrow> 0 \<le> fl q"
  by (simp add: fl_def round_half_even_nonneg order_less_imp_le)

lemma fl_nonpos: "q \<le> 0 \<Longrightarrow> fl q \<le> 0"
  by (simp add: fl_def round_half_even_nonpos mult_nonpos_nonneg divide_nonpos_pos order_less_imp_le)

lemma fsub_self [simp]: "fsub a a = 0"
  by (simp add: fsub_def)

lemma fsub_nonneg: "b \<le> a \<Longrightarrow> 0 \<le> fsub a b"
  by (simp add: fsub_def fl_nonneg)

lemma fsub_nonpos: "a \<le> b \<Longrightarrow> fsub a b \<le> 0"
  by (simp add: fsub_def fl_nonpos)

subsection \<open>Rounding stays below an integer bound\<close>

lemma log2_floor_lower:
  assumes "0 < q"
  shows "2 powi log2_floor q \<le> q"
proof -
  obtain n d where nd: "quotient_of q = (n, d)" by (cases "quotient_of q")
  have d: "0 < d" and q: "q = of_int n / of_int d"
    using quotient_of_denom_pos [OF nd] quotient_of_div [OF nd] by simp_all
  with assms have n: "0 < n" by (simp add: zero_less_divide_iff)
  let ?a = "bit_length (nat n)" and ?b = "bit_length (nat d)"
  have "2 ^ (?a - 1) \<le> nat n" using n by (intro bit_length_lower) simp
  then have "2 ^ (?a - 1) \<le> n" using n by (metis le_nat_iff of_nat_numeral of_nat_power order_less_imp_le)
  then have lo: "(2 :: rat) ^ (?a - 1) \<le> of_int n" using of_int_le_iff [where 'a = rat, of "2 ^ (?a - 1)" n] by simp
  have "nat d < 2 ^ ?b" by (rule bit_length_upper)
  then have "d < 2 ^ ?b" using d by (simp add: nat_less_iff)
  then have up: "(of_int d :: rat) \<le> 2 ^ ?b" using of_int_le_iff [where 'a = rat, of d "2 ^ ?b"] by simp
  have a: "int ?a - int ?b - 1 = int (?a - 1) - int ?b" using bit_length_pos [of "nat n"] n by simp
  have "(2 :: rat) powi (int ?a - int ?b - 1) = 2 ^ (?a - 1) / 2 ^ ?b"
    unfolding a by (simp add: power_int_diff)
  also have "\<dots> \<le> of_int n / of_int d" using lo up d n by (intro frac_le) simp_all
  finally have "2 powi (int ?a - int ?b - 1) \<le> q" by (simp only: q)
  then show ?thesis by (simp add: log2_floor_def nd Let_def)
qed

lemma round_half_even_le: "x \<le> of_int m \<Longrightarrow> round_half_even x \<le> m"
proof -
  assume x: "x \<le> of_int m"
  show ?thesis
  proof (cases "\<lfloor>x\<rfloor> < m")
    case True
    then show ?thesis by (simp add: round_half_even_def Let_def)
  next
    case False
    with x have "x = of_int m" by (simp add: not_less le_floor_iff)
    then show ?thesis by simp
  qed
qed

lemma fl_le_of_int:
  assumes "0 \<le> q" "q \<le> of_int n" "n < 2 ^ 53"
  shows "fl q \<le> of_int n"
proof (cases "q = 0")
  case False
  with assms have q: "0 < q" by simp
  have "(2 :: rat) powi log2_floor q < 2 powi 53"
  proof -
    have "(of_int n :: rat) < of_int (2 ^ 53)" using assms(3) by (simp only: of_int_less_iff)
    then show ?thesis using log2_floor_lower [OF q] assms(2) by simp
  qed
  then have l: "log2_floor q < 53"
    using power_int_increasing [of 53 "log2_floor q" "2 :: rat"] by (simp add: not_less) (metis not_less)
  define k where "k = nat (- max (log2_floor q - 52) (-1074))"
  have "max (log2_floor q - 52) (-1074) = - int k" using l by (simp add: k_def)
  then have u: "ulp q = 1 / 2 ^ k" using q by (simp add: ulp_def power_int_minus field_simps)
  have "q / ulp q \<le> of_int (n * 2 ^ k)" using assms(2) by (simp add: u)
  then have "round_half_even (q / ulp q) \<le> n * 2 ^ k" by (rule round_half_even_le)
  then have "(of_int (round_half_even (q / ulp q)) :: rat) \<le> of_int n * 2 ^ k"
    using of_int_le_iff [where 'a = rat, of "round_half_even (q / ulp q)" "n * 2 ^ k"] by simp
  then show ?thesis using q by (simp add: fl_def u field_simps)
qed (use assms in simp)

subsection \<open>Rounding is monotone\<close>

lemma log2_floor_upper:
  assumes "0 < q"
  shows "q < 2 powi (log2_floor q + 1)"
proof -
  obtain n d where nd: "quotient_of q = (n, d)" by (cases "quotient_of q")
  have d: "0 < d" and q: "q = of_int n / of_int d"
    using quotient_of_denom_pos [OF nd] quotient_of_div [OF nd] by simp_all
  with assms have n: "0 < n" by (simp add: zero_less_divide_iff)
  let ?a = "bit_length (nat n)" and ?b = "bit_length (nat d)"
  have "nat n < 2 ^ ?a" by (rule bit_length_upper)
  then have "n < 2 ^ ?a" using n by (simp add: nat_less_iff)
  then have up: "(of_int n :: rat) < 2 ^ ?a" using of_int_less_iff [where 'a = rat, of n "2 ^ ?a"] by simp
  have "2 ^ (?b - 1) \<le> nat d" using d by (intro bit_length_lower) simp
  then have "2 ^ (?b - 1) \<le> d" using d by (metis le_nat_iff of_nat_numeral of_nat_power order_less_imp_le)
  then have lo: "(2 :: rat) ^ (?b - 1) \<le> of_int d" using of_int_le_iff [where 'a = rat, of "2 ^ (?b - 1)" d] by simp
  have b: "int ?a - int ?b + 1 = int ?a - int (?b - 1)" using bit_length_pos [of "nat d"] d by simp
  have "of_int n / of_int d < (2 :: rat) ^ ?a / 2 ^ (?b - 1)" using lo up n by (intro frac_less) simp_all
  then have "q < 2 powi (int ?a - int ?b + 1)" unfolding q b by (simp add: power_int_diff)
  then show ?thesis by (auto simp: log2_floor_def nd Let_def)
qed

lemma round_half_even_mono: "x \<le> y \<Longrightarrow> round_half_even x \<le> round_half_even y"
proof -
  assume xy: "x \<le> y"
  show ?thesis
  proof (cases "\<lfloor>x\<rfloor> = \<lfloor>y\<rfloor>")
    case True
    with xy show ?thesis by (simp add: round_half_even_def Let_def)
  next
    case False
    with xy have "\<lfloor>x\<rfloor> + 1 \<le> \<lfloor>y\<rfloor>" using floor_mono [of x y] by simp
    moreover have "round_half_even x \<le> \<lfloor>x\<rfloor> + 1" "\<lfloor>y\<rfloor> \<le> round_half_even y"
      by (simp_all add: round_half_even_def Let_def)
    ultimately show ?thesis by simp
  qed
qed

lemma log2_floor_mono: "0 < a \<Longrightarrow> a \<le> b \<Longrightarrow> log2_floor a \<le> log2_floor b"
proof (rule ccontr)
  assume "0 < a" "a \<le> b" "\<not> log2_floor a \<le> log2_floor b"
  then have "(2 :: rat) powi (log2_floor b + 1) \<le> 2 powi log2_floor a" by (intro power_int_increasing) simp_all
  also have "\<dots> \<le> a" using \<open>0 < a\<close> by (rule log2_floor_lower)
  also have "\<dots> < 2 powi (log2_floor b + 1)" using log2_floor_upper [of b] \<open>0 < a\<close> \<open>a \<le> b\<close> by simp
  finally show False by simp
qed

lemma fl_le_power:
  assumes "0 < a" "a \<le> 2 powi l" "log2_floor a < l" "-1074 \<le> l"
  shows "fl a \<le> 2 powi l"
proof -
  let ?e = "max (log2_floor a - 52) (-1074)"
  define k where "k = nat (l - ?e)"
  have l: "l = ?e + int k" using assms(3,4) by (simp add: k_def)
  have u: "ulp a = 2 powi ?e" using assms(1) by (simp add: ulp_def)
  have p: "(2 :: rat) powi l = of_int (2 ^ k) * ulp a"
    unfolding u by (subst l) (simp add: power_int_add)
  have "a / ulp a \<le> of_int (2 ^ k)" using assms(2) unfolding p by (simp add: divide_le_eq)
  then have "round_half_even (a / ulp a) \<le> 2 ^ k" by (rule round_half_even_le)
  then have "(of_int (round_half_even (a / ulp a)) :: rat) \<le> of_int (2 ^ k)" by (simp only: of_int_le_iff)
  then show ?thesis unfolding p fl_def using assms(1) ulp_pos [of a] by (simp add: mult_right_mono order_less_imp_le)
qed

lemma fl_mono:
  assumes "0 \<le> a" "a \<le> b"
  shows "fl a \<le> fl b"
proof (cases "a = 0")
  case True
  then show ?thesis using assms by (simp add: fl_nonneg)
next
  case False
  with assms have a: "0 < a" and b: "0 < b" by simp_all
  let ?l = "log2_floor b"
  show ?thesis
  proof (cases "ulp a = ulp b")
    case True
    have "round_half_even (a / ulp a) \<le> round_half_even (b / ulp b)"
      unfolding True by (rule round_half_even_mono) (simp add: assms divide_right_mono order_less_imp_le)
    then show ?thesis using a b by (simp add: fl_def True mult_right_mono order_less_imp_le)
  next
    case False
    have "log2_floor a \<noteq> ?l" using False a b by (auto simp: ulp_def)
    then have l: "log2_floor a < ?l" using log2_floor_mono [OF a assms(2)] by simp
    then have e: "ulp b = 2 powi (?l - 52)" using False a b by (auto simp: ulp_def max_def split: if_splits)
    have m: "-1074 \<le> ?l" using False l a b by (auto simp: ulp_def max_def split: if_splits)
    have "a < 2 powi (log2_floor a + 1)" using a by (rule log2_floor_upper)
    also have "(2 :: rat) powi (log2_floor a + 1) \<le> 2 powi ?l" using l by (intro power_int_increasing) simp_all
    finally have "fl a \<le> 2 powi ?l" using a l m by (intro fl_le_power) simp_all
    also have p: "(2 :: rat) powi ?l = of_int (2 ^ 52) * ulp b" by (simp add: e power_int_diff)
    have "of_int (2 ^ 52) \<le> b / ulp b" using log2_floor_lower [OF b] unfolding p by (simp add: le_divide_eq)
    then have "round_half_even (of_int (2 ^ 52)) \<le> round_half_even (b / ulp b)" by (rule round_half_even_mono)
    then have "(of_int (2 ^ 52) :: rat) \<le> of_int (round_half_even (b / ulp b))"
      by (simp only: round_half_even_of_int of_int_le_iff)
    then have "2 powi ?l \<le> fl b" unfolding p using b by (simp add: fl_def mult_right_mono order_less_imp_le)
    finally show ?thesis .
  qed
qed

end
