(* ===== verification/PyValue.thy ===== *)
theory PyValue
  imports PyFloat "HOL-Library.AList"
begin

text \<open>
  The Python the programs are written in, as far as they use it: exceptions as values of
  a sum type, the values that \<open>json.loads\<close> returns with the operations the code
  applies to them (each with the exception it raises), character classes for the
  regular expressions, and paths. A \<open>str\<close> is the list of the bytes of its UTF-8 form,
  so \<open>==\<close> and the ASCII classes of the regular expressions mean the same; where the code
  counts characters of text that need not be ASCII the theories say how they are counted.
\<close>

named_theorems raises \<open>which exceptions a computation can end with\<close>

section \<open>Exceptions\<close>

text \<open>
  \<open>AppError c r\<close> is an exception of a class \<open>c\<close> of the program, raised with the fixed
  reason \<open>r\<close>; the other constructors are the built-in classes.
  \<open>FileNotFoundError\<close> is a subclass of \<open>OSError\<close>.
\<close>

datatype exn =
    AppError string string
  | KeyError | TypeError | ValueError | AttributeError | OverflowError
  | OSError | FileNotFoundError | SubprocessError

type_synonym 'a res = "exn + 'a"

definition bindR :: "'a res \<Rightarrow> ('a \<Rightarrow> 'b res) \<Rightarrow> 'b res" where
  "bindR m f = (case m of Inl e \<Rightarrow> Inl e | Inr x \<Rightarrow> f x)"

text \<open>\<open>check b e\<close> is \<open>if not b: raise e\<close>.\<close>

definition check :: "bool \<Rightarrow> exn \<Rightarrow> unit res" where
  "check b e = (if b then Inr () else Inl e)"

text \<open>Short-circuit \<open>or\<close> and \<open>and\<close> over conditions that may raise.\<close>

definition orR :: "bool res \<Rightarrow> bool res \<Rightarrow> bool res" where
  "orR a b = bindR a (\<lambda>x. if x then Inr True else b)"

definition andR :: "bool res \<Rightarrow> bool res \<Rightarrow> bool res" where
  "andR a b = bindR a (\<lambda>x. if x then b else Inr False)"

text \<open>A loop that stops at the first exception, over a state.\<close>

fun foldR :: "('a \<Rightarrow> 's \<Rightarrow> 's res) \<Rightarrow> 'a list \<Rightarrow> 's \<Rightarrow> 's res" where
  "foldR f [] s = Inr s"
| "foldR f (x # xs) s = bindR (f x s) (foldR f xs)"

lemma bindR_simps [simp]: "bindR (Inl e) f = Inl e" "bindR (Inr x) f = f x"
  by (simp_all add: bindR_def)

lemma bindR_eq_Inr [simp]: "bindR m f = Inr y \<longleftrightarrow> (\<exists>x. m = Inr x \<and> f x = Inr y)"
  by (simp add: bindR_def split: sum.split)

lemma bindR_eq_Inl: "bindR m f = Inl e \<longleftrightarrow> m = Inl e \<or> (\<exists>x. m = Inr x \<and> f x = Inl e)"
  by (auto simp add: bindR_def split: sum.split)

lemma check_eq_Inr [simp]: "check b e = Inr u \<longleftrightarrow> b"
  by (simp add: check_def)

lemma check_eq_Inl [simp]: "check b e = Inl e' \<longleftrightarrow> \<not> b \<and> e' = e"
  by (auto simp add: check_def)

lemma check_simps [simp]: "check True e = Inr ()" "check False e = Inl e"
  by (simp_all add: check_def)

lemma orR_simps [simp]:
  "orR (Inr True) b = Inr True" "orR (Inr False) b = b" "orR (Inl e) b = Inl e"
  by (simp_all add: orR_def)

lemma andR_simps [simp]:
  "andR (Inr True) b = b" "andR (Inr False) b = Inr False" "andR (Inl e) b = Inl e"
  by (simp_all add: andR_def)

lemma orR_False [simp]: "orR a b = Inr False \<longleftrightarrow> a = Inr False \<and> b = Inr False"
  by (auto simp add: orR_def)

lemma andR_True [simp]: "andR a b = Inr True \<longleftrightarrow> a = Inr True \<and> b = Inr True"
  by (auto simp add: andR_def)

lemma foldR_append: "foldR f (xs @ ys) s = bindR (foldR f xs s) (foldR f ys)"
  by (induction xs arbitrary: s) (auto simp: bindR_def split: sum.splits)

lemma foldR_invariant:
  assumes "foldR f xs s = Inr t" "I s"
    and "\<And>x s t. x \<in> set xs \<Longrightarrow> f x s = Inr t \<Longrightarrow> I s \<Longrightarrow> I t"
  shows "I t"
  using assms by (induction xs arbitrary: s) auto

lemma foldR_total:
  assumes "\<And>x s. x \<in> set xs \<Longrightarrow> I s \<Longrightarrow> \<exists>t. f x s = Inr t \<and> I t" "I s"
  shows "\<exists>t. foldR f xs s = Inr t \<and> I t"
  using assms
proof (induction xs arbitrary: s)
  case (Cons x xs)
  then obtain t where "f x s = Inr t" "I t" by fastforce
  moreover have "\<exists>u. foldR f xs t = Inr u \<and> I u" using Cons \<open>I t\<close> by fastforce
  ultimately show ?case by auto
qed simp

text \<open>A comprehension whose body may raise.\<close>

fun mapR :: "('a \<Rightarrow> 'b res) \<Rightarrow> 'a list \<Rightarrow> 'b list res" where
  "mapR f [] = Inr []"
| "mapR f (x # xs) = bindR (f x) (\<lambda>y. bindR (mapR f xs) (\<lambda>ys. Inr (y # ys)))"

lemma mapR_eq_Inr: "mapR f xs = Inr ys \<longleftrightarrow> list_all2 (\<lambda>x y. f x = Inr y) xs ys"
  by (induction xs arbitrary: ys) (auto simp: list_all2_Cons1)

lemma mapR_source: "mapR f xs = Inr ys \<Longrightarrow> y \<in> set ys \<Longrightarrow> \<exists>x\<in>set xs. f x = Inr y"
  unfolding mapR_eq_Inr by (induction rule: list_all2_induct) auto

lemma mapR_member: "mapR f xs = Inr ys \<Longrightarrow> x \<in> set xs \<Longrightarrow> \<exists>y\<in>set ys. f x = Inr y"
  unfolding mapR_eq_Inr by (induction rule: list_all2_induct) auto

lemma mapR_cong [fundef_cong]: "xs = ys \<Longrightarrow> (\<And>x. x \<in> set ys \<Longrightarrow> f x = g x) \<Longrightarrow> mapR f xs = mapR g ys"
  by (induction xs arbitrary: ys) auto

text \<open>Every exception a computation can end with satisfies \<open>Q\<close>.\<close>

definition raises_only :: "(exn \<Rightarrow> bool) \<Rightarrow> 'a res \<Rightarrow> bool" where
  "raises_only Q m = (\<forall>e. m = Inl e \<longrightarrow> Q e)"

lemma raises_onlyD: "raises_only Q m \<Longrightarrow> m = Inl e \<Longrightarrow> Q e"
  by (simp add: raises_only_def)

lemma raises_Inr [raises]: "raises_only Q (Inr x)"
  by (simp add: raises_only_def)

lemma raises_Inl [raises]: "Q e \<Longrightarrow> raises_only Q (Inl e)"
  by (simp add: raises_only_def)

lemma raises_check [raises]: "Q e \<Longrightarrow> raises_only Q (check b e)"
  by (simp add: raises_only_def)

lemma raises_bindR [raises]:
  "raises_only Q m \<Longrightarrow> (\<And>x. m = Inr x \<Longrightarrow> raises_only Q (f x)) \<Longrightarrow> raises_only Q (bindR m f)"
  by (auto simp: raises_only_def bindR_eq_Inl)

lemma raises_if [raises]:
  "(b \<Longrightarrow> raises_only Q m) \<Longrightarrow> (\<not> b \<Longrightarrow> raises_only Q n) \<Longrightarrow> raises_only Q (if b then m else n)"
  by simp

lemma raises_let [raises]: "raises_only Q (f x) \<Longrightarrow> raises_only Q (Let x f)"
  by simp

lemma raises_andR [raises]: "raises_only Q a \<Longrightarrow> raises_only Q b \<Longrightarrow> raises_only Q (andR a b)"
  by (auto simp: andR_def intro: raises)

lemma raises_orR [raises]: "raises_only Q a \<Longrightarrow> raises_only Q b \<Longrightarrow> raises_only Q (orR a b)"
  by (auto simp: orR_def intro: raises)

lemma raises_foldR [raises]:
  "(\<And>x s. x \<in> set xs \<Longrightarrow> raises_only Q (f x s)) \<Longrightarrow> raises_only Q (foldR f xs s)"
proof (induction xs arbitrary: s)
  case (Cons x xs)
  then show ?case by (auto intro!: raises_bindR)
qed (simp add: raises)

section \<open>Values\<close>

text \<open>
  What \<open>json.loads\<close> returns. It accepts \<open>NaN\<close> and the infinities too. A \<open>dict\<close> is the
  list of its items in insertion order, without repeated keys.
\<close>

datatype pyval =
    PNone
  | PBool bool
  | PInt int
  | PFloat rat
  | PInf bool
  | PNan
  | PStr string
  | PList "pyval list"
  | PDict "(string \<times> pyval) list"

fun is_dict :: "pyval \<Rightarrow> bool" where
  "is_dict (PDict d) = True"
| "is_dict _ = False"

fun is_list :: "pyval \<Rightarrow> bool" where
  "is_list (PList xs) = True"
| "is_list _ = False"

fun is_str :: "pyval \<Rightarrow> bool" where
  "is_str (PStr s) = True"
| "is_str _ = False"

text \<open>\<open>type(v) is int\<close> and \<open>type(v) is bool\<close>: a \<open>bool\<close> is not of type \<open>int\<close> here.\<close>

fun is_int :: "pyval \<Rightarrow> bool" where
  "is_int (PInt i) = True"
| "is_int _ = False"

fun is_bool :: "pyval \<Rightarrow> bool" where
  "is_bool (PBool b) = True"
| "is_bool _ = False"

fun the_int :: "pyval \<Rightarrow> int" where
  "the_int (PInt i) = i"
| "the_int _ = 0"

fun the_str :: "pyval \<Rightarrow> string" where
  "the_str (PStr s) = s"
| "the_str _ = []"

fun the_list :: "pyval \<Rightarrow> pyval list" where
  "the_list (PList xs) = xs"
| "the_list _ = []"

fun items :: "pyval \<Rightarrow> (string \<times> pyval) list" where
  "items (PDict d) = d"
| "items _ = []"

abbreviation keys :: "pyval \<Rightarrow> string set" where
  "keys v \<equiv> fst ` set (items v)"

text \<open>\<open>k in v\<close> for a dict \<open>v\<close>.\<close>

definition has_key :: "pyval \<Rightarrow> string \<Rightarrow> bool" where
  "has_key v k = (map_of (items v) k \<noteq> None)"

text \<open>\<open>v.get(k)\<close> and \<open>v.get(k, d)\<close> for a dict \<open>v\<close>.\<close>

definition get_or :: "pyval \<Rightarrow> string \<Rightarrow> pyval \<Rightarrow> pyval" where
  "get_or v k d = (case map_of (items v) k of None \<Rightarrow> d | Some x \<Rightarrow> x)"

abbreviation get :: "pyval \<Rightarrow> string \<Rightarrow> pyval" where
  "get v k \<equiv> get_or v k PNone"

text \<open>\<open>v.get(k)\<close> where \<open>v\<close> may be anything.\<close>

definition getR :: "pyval \<Rightarrow> string \<Rightarrow> pyval res" where
  "getR v k = (if is_dict v then Inr (get v k) else Inl AttributeError)"

text \<open>\<open>v[k]\<close> with a string \<open>k\<close>, where \<open>v\<close> may be anything.\<close>

definition indexR :: "pyval \<Rightarrow> string \<Rightarrow> pyval res" where
  "indexR v k =
     (if is_dict v
      then (case map_of (items v) k of None \<Rightarrow> Inl KeyError | Some x \<Rightarrow> Inr x)
      else Inl TypeError)"

lemma indexR_dict [simp]:
  "indexR (PDict d) k = (case map_of d k of None \<Rightarrow> Inl KeyError | Some x \<Rightarrow> Inr x)"
  by (simp add: indexR_def)

lemma get_or_dict [simp]:
  "get_or (PDict d) k x = (case map_of d k of None \<Rightarrow> x | Some y \<Rightarrow> y)"
  by (simp add: get_or_def)

lemma has_key_dict [simp]: "has_key (PDict d) k = (map_of d k \<noteq> None)"
  by (simp add: has_key_def)

lemma indexR_eq_Inr: "indexR v k = Inr x \<longleftrightarrow> map_of (items v) k = Some x"
  by (cases v) (auto simp: indexR_def split: option.splits)

lemma has_key_keys: "has_key v k \<longleftrightarrow> k \<in> keys v"
  by (auto simp: has_key_def map_of_eq_None_iff)

text \<open>
  Equality \<open>==\<close>: the numbers compare by value across \<open>bool\<close>, \<open>int\<close> and \<open>float\<close>, dicts
  by their items in any order, everything else by type and content. \<open>nan\<close> equals nothing.
\<close>

fun num_of :: "pyval \<Rightarrow> rat option" where
  "num_of (PBool b) = Some (if b then 1 else 0)"
| "num_of (PInt i) = Some (of_int i)"
| "num_of (PFloat q) = Some q"
| "num_of _ = None"

fun py_eq :: "pyval \<Rightarrow> pyval \<Rightarrow> bool"
  and py_eq_list :: "pyval list \<Rightarrow> pyval list \<Rightarrow> bool"
  and py_eq_items :: "(string \<times> pyval) list \<Rightarrow> (string \<times> pyval) list \<Rightarrow> bool" where
  "py_eq (PList xs) w = (case w of PList ys \<Rightarrow> py_eq_list xs ys | _ \<Rightarrow> False)"
| "py_eq (PDict d) w = (case w of PDict e \<Rightarrow> length d = length e \<and> py_eq_items d e | _ \<Rightarrow> False)"
| "py_eq PNone w = (w = PNone)"
| "py_eq (PStr s) w = (w = PStr s)"
| "py_eq (PInf s) w = (w = PInf s)"
| "py_eq PNan w = False"
| "py_eq (PBool b) w = (num_of w = Some (if b then 1 else 0))"
| "py_eq (PInt i) w = (num_of w = Some (of_int i))"
| "py_eq (PFloat q) w = (num_of w = Some q)"
| "py_eq_list [] ys = (ys = [])"
| "py_eq_list (x # xs) ys = (case ys of [] \<Rightarrow> False | y # zs \<Rightarrow> py_eq x y \<and> py_eq_list xs zs)"
| "py_eq_items [] e = True"
| "py_eq_items ((k, x) # d) e =
     ((case map_of e k of None \<Rightarrow> False | Some y \<Rightarrow> py_eq x y) \<and> py_eq_items d e)"

text \<open>Membership of a value in a tuple of strings, and in a set, where it is hashed first.\<close>

definition in_tuple :: "pyval \<Rightarrow> string list \<Rightarrow> bool" where
  "in_tuple v ss = (case v of PStr s \<Rightarrow> s \<in> set ss | _ \<Rightarrow> False)"

definition hashable :: "pyval \<Rightarrow> bool" where
  "hashable v = (\<not> is_list v \<and> \<not> is_dict v)"

definition in_setR :: "pyval \<Rightarrow> string list \<Rightarrow> bool res" where
  "in_setR v ss = (if hashable v then Inr (in_tuple v ss) else Inl TypeError)"

definition is_string :: "pyval \<Rightarrow> string \<Rightarrow> bool" where
  "is_string v s = (v = PStr s)"

lemma in_tuple_PStr [simp]: "in_tuple (PStr s) ss = (s \<in> set ss)"
  by (simp add: in_tuple_def)

lemma in_tuple_elim: "in_tuple v ss \<Longrightarrow> \<exists>s. v = PStr s \<and> s \<in> set ss"
  by (cases v) (auto simp: in_tuple_def)

lemma in_setR_PStr [simp]: "in_setR (PStr s) ss = Inr (s \<in> set ss)"
  by (simp add: in_setR_def hashable_def)

lemma in_setR_True [simp]: "in_setR v ss = Inr True \<longleftrightarrow> (\<exists>s. v = PStr s \<and> s \<in> set ss)"
  by (cases v) (auto simp: in_setR_def hashable_def in_tuple_def)

text \<open>Truth value of a value.\<close>

fun truthy :: "pyval \<Rightarrow> bool" where
  "truthy PNone = False"
| "truthy (PBool b) = b"
| "truthy (PInt i) = (i \<noteq> 0)"
| "truthy (PFloat q) = (q \<noteq> 0)"
| "truthy (PInf s) = True"
| "truthy PNan = True"
| "truthy (PStr s) = (s \<noteq> [])"
| "truthy (PList xs) = (xs \<noteq> [])"
| "truthy (PDict d) = (d \<noteq> [])"

lemma raises_getR [raises]: "Q AttributeError \<Longrightarrow> raises_only Q (getR v k)"
  by (simp add: getR_def raises)

lemma raises_indexR [raises]: "Q KeyError \<Longrightarrow> Q TypeError \<Longrightarrow> raises_only Q (indexR v k)"
  by (auto simp: indexR_def intro: raises split: option.split)

lemma raises_in_setR [raises]: "Q TypeError \<Longrightarrow> raises_only Q (in_setR v ss)"
  by (simp add: in_setR_def raises)

section \<open>Numbers\<close>

text \<open>
  \<open>float(i)\<close> and \<open>math.isfinite(i)\<close> raise \<open>OverflowError\<close> for an \<open>int\<close> that rounds
  above the largest float.
\<close>

definition float_range :: "int \<Rightarrow> bool" where
  "float_range i = (\<bar>i\<bar> < 2 ^ 1024 - 2 ^ 970)"

definition float_of_int :: "int \<Rightarrow> rat res" where
  "float_of_int i = (if float_range i then Inr (fl (of_int i)) else Inl OverflowError)"

text \<open>\<open>type(v) in (int, float)\<close>\<close>

fun is_number :: "pyval \<Rightarrow> bool" where
  "is_number (PInt i) = True"
| "is_number (PFloat q) = True"
| "is_number (PInf s) = True"
| "is_number PNan = True"
| "is_number _ = False"

text \<open>\<open>math.isfinite(v)\<close> for a number \<open>v\<close>.\<close>

fun isfiniteR :: "pyval \<Rightarrow> bool res" where
  "isfiniteR (PInt i) = (if float_range i then Inr True else Inl OverflowError)"
| "isfiniteR (PFloat q) = Inr True"
| "isfiniteR (PInf s) = Inr False"
| "isfiniteR PNan = Inr False"
| "isfiniteR _ = Inl TypeError"

text \<open>The value of a finite number, and the float it becomes in float arithmetic.\<close>

fun num_val :: "pyval \<Rightarrow> rat" where
  "num_val (PInt i) = of_int i"
| "num_val (PFloat q) = q"
| "num_val _ = 0"

text \<open>\<open>lo \<le> v\<close> and \<open>v \<le> hi\<close> for a number \<open>v\<close> and finite bounds.\<close>

fun num_ge :: "pyval \<Rightarrow> rat \<Rightarrow> bool" where
  "num_ge (PInf s) q = (\<not> s)"
| "num_ge PNan q = False"
| "num_ge v q = (q \<le> num_val v)"

fun num_le :: "pyval \<Rightarrow> rat \<Rightarrow> bool" where
  "num_le (PInf s) q = s"
| "num_le PNan q = False"
| "num_le v q = (num_val v \<le> q)"

lemma float_range_small: "\<bar>i\<bar> < 2 ^ 53 \<Longrightarrow> float_range i"
proof -
  assume "\<bar>i\<bar> < 2 ^ 53"
  also have "(2 :: int) ^ 53 < 2 ^ 1024 - 2 ^ 970" by simp
  finally show ?thesis by (simp add: float_range_def)
qed

lemma float_of_int_small: "\<bar>i\<bar> < 2 ^ 53 \<Longrightarrow> float_of_int i = Inr (of_int i)"
  by (simp add: float_of_int_def float_range_small fl_of_int)

section \<open>Strings, character classes and paths\<close>

abbreviation code :: "char \<Rightarrow> nat" where
  "code c \<equiv> of_char c"

definition is_lower :: "char \<Rightarrow> bool" where
  "is_lower c = (97 \<le> code c \<and> code c \<le> 122)"

definition is_upper :: "char \<Rightarrow> bool" where
  "is_upper c = (65 \<le> code c \<and> code c \<le> 90)"

text \<open>\<open>s.lower()\<close> on an ASCII character.\<close>

definition lower_char :: "char \<Rightarrow> char" where
  "lower_char c = (if is_upper c then char_of (code c + 32) else c)"

definition is_digit :: "char \<Rightarrow> bool" where
  "is_digit c = (48 \<le> code c \<and> code c \<le> 57)"

definition is_hex :: "char \<Rightarrow> bool" where
  "is_hex c = (is_digit c \<or> 97 \<le> code c \<and> code c \<le> 102)"

definition is_alnum :: "char \<Rightarrow> bool" where
  "is_alnum c = (is_lower c \<or> is_upper c \<or> is_digit c)"

definition one_of :: "string \<Rightarrow> char \<Rightarrow> bool" where
  "one_of s c = (c \<in> set s)"

lemmas char_class_defs = is_lower_def is_upper_def is_digit_def is_hex_def is_alnum_def one_of_def

text \<open>\<open>len(s)\<close>: the bytes of the UTF-8 form that are no continuation bytes.\<close>

definition char_count :: "string \<Rightarrow> nat" where
  "char_count s = length (filter (\<lambda>c. code c div 64 \<noteq> 2) s)"

text \<open>Full match of \<open>[p]{lo,hi}\<close>, and of \<open>[p][q]{lo,hi}\<close>.\<close>

definition class_match :: "(char \<Rightarrow> bool) \<Rightarrow> nat \<Rightarrow> nat \<Rightarrow> string \<Rightarrow> bool" where
  "class_match p lo hi s = (lo \<le> length s \<and> length s \<le> hi \<and> list_all p s)"

definition head_match :: "(char \<Rightarrow> bool) \<Rightarrow> (char \<Rightarrow> bool) \<Rightarrow> nat \<Rightarrow> nat \<Rightarrow> string \<Rightarrow> bool" where
  "head_match p q lo hi s =
     (case s of [] \<Rightarrow> False | c # cs \<Rightarrow> p c \<and> class_match q lo hi cs)"

text \<open>\<open>s.split(c)\<close>\<close>

fun split_on :: "char \<Rightarrow> string \<Rightarrow> string list" where
  "split_on c [] = [[]]"
| "split_on c (x # xs) =
     (if x = c then [] # split_on c xs
      else (case split_on c xs of [] \<Rightarrow> [[x]] | w # ws \<Rightarrow> (x # w) # ws))"

definition starts_with :: "string \<Rightarrow> string \<Rightarrow> bool" where
  "starts_with s p = (take (length p) s = p)"

text \<open>
  \<open>pathlib.Path(s)\<close> on POSIX: the root (exactly two leading slashes are a root of their
  own) and the parts, without the empty ones and \<open>.\<close>.
\<close>

definition path_root :: "string \<Rightarrow> string" where
  "path_root s =
     (if starts_with s ''//'' \<and> \<not> starts_with s ''///'' then ''//''
      else if starts_with s ''/'' then ''/'' else [])"

definition path_parts :: "string \<Rightarrow> string list" where
  "path_parts s = filter (\<lambda>w. w \<noteq> [] \<and> w \<noteq> ''.'') (split_on CHR ''/'' s)"

type_synonym path = "string \<times> string list"

definition path_of :: "string \<Rightarrow> path" where
  "path_of s = (path_root s, path_parts s)"

definition is_absolute :: "string \<Rightarrow> bool" where
  "is_absolute s = (path_root s \<noteq> [])"

definition has_dotdot :: "string \<Rightarrow> bool" where
  "has_dotdot s = (''..'' \<in> set (path_parts s))"

lemma is_absolute_slash: "is_absolute s \<longleftrightarrow> starts_with s ''/''"
  by (cases s) (auto simp: is_absolute_def path_root_def starts_with_def)

lemma split_on_not_Nil [simp]: "split_on c s \<noteq> []"
  by (cases s) (auto split: list.split)

section \<open>Further operations\<close>

text \<open>\<open>set(v) == {...}\<close> for a dict \<open>v\<close>.\<close>

definition has_keys :: "pyval \<Rightarrow> string list \<Rightarrow> bool" where
  "has_keys v ks = (is_dict v \<and> list_all (has_key v) ks \<and> list_all (\<lambda>(k, _). k \<in> set ks) (items v))"

lemma has_keys_iff: "has_keys v ks \<longleftrightarrow> is_dict v \<and> keys v = set ks"
proof -
  have "list_all (\<lambda>(k, _). k \<in> set ks) (items v) \<longleftrightarrow> keys v \<subseteq> set ks"
    by (fastforce simp: list_all_iff)
  then show ?thesis by (auto simp: has_keys_def list_all_iff has_key_keys)
qed

text \<open>\<open>str(i)\<close> for an \<open>int\<close>.\<close>

definition digit_char :: "nat \<Rightarrow> char" where
  "digit_char n = char_of (48 + n)"

fun str_of_nat :: "nat \<Rightarrow> string" where
  "str_of_nat n = (if n < 10 then [digit_char n] else str_of_nat (n div 10) @ [digit_char (n mod 10)])"

declare str_of_nat.simps [simp del]

definition str_of_int :: "int \<Rightarrow> string" where
  "str_of_int i = (if i < 0 then CHR ''-'' # str_of_nat (nat (- i)) else str_of_nat (nat i))"

text \<open>
  \<open>int(s)\<close> for an ASCII string: surrounding white space, a sign, digits with single
  underscores between them.
\<close>

definition is_space :: "char \<Rightarrow> bool" where
  "is_space c = (code c \<in> {9, 10, 11, 12, 13, 28, 29, 30, 31, 32})"

definition strip :: "string \<Rightarrow> string" where
  "strip s = rev (dropWhile is_space (rev (dropWhile is_space s)))"

definition digit_val :: "char \<Rightarrow> int" where
  "digit_val c = int (code c) - 48"

definition decimal :: "string \<Rightarrow> int" where
  "decimal s = foldl (\<lambda>a c. 10 * a + digit_val c) 0 s"

definition digit_groups :: "string \<Rightarrow> bool" where
  "digit_groups s = list_all (\<lambda>w. w \<noteq> [] \<and> list_all is_digit w) (split_on CHR ''_'' s)"

definition py_int :: "string \<Rightarrow> int res" where
  "py_int s =
     (let t = strip s;
          (neg, d) = (case t of [] \<Rightarrow> (False, [])
                      | c # cs \<Rightarrow> if c = CHR ''-'' then (True, cs) else if c = CHR ''+'' then (False, cs) else (False, t))
      in if digit_groups d
         then (let n = decimal (filter (\<lambda>c. c \<noteq> CHR ''_'') d) in Inr (if neg then - n else n))
         else Inl ValueError)"

text \<open>\<open>i / k\<close> for two \<open>int\<close>s.\<close>

definition int_truediv :: "int \<Rightarrow> int \<Rightarrow> rat res" where
  "int_truediv i k =
     (let q = of_int i / of_int k :: rat
      in if \<bar>q\<bar> < 2 ^ 1024 - 2 ^ 970 then Inr (fl q) else Inl OverflowError)"

text \<open>\<open>s.split(c, 1)\<close> as a pair, for a string that holds \<open>c\<close>.\<close>

definition split_first :: "char \<Rightarrow> string \<Rightarrow> string \<times> string" where
  "split_first c s = (takeWhile (\<lambda>x. x \<noteq> c) s, tl (dropWhile (\<lambda>x. x \<noteq> c) s))"

text \<open>\<open>s.splitlines()\<close>, at the ASCII line boundaries.\<close>

fun splitlines :: "string \<Rightarrow> string list" where
  "splitlines [] = []"
| "splitlines (c # cs) =
     (if c = CHR 0x0D then
        (case cs of
           d # ds \<Rightarrow> if d = CHR 0x0A then [] # splitlines ds else [] # splitlines cs
         | [] \<Rightarrow> [[]])
      else if code c \<in> {10, 11, 12, 28, 29, 30} then [] # splitlines cs
      else (case splitlines cs of [] \<Rightarrow> [[c]] | w # ws \<Rightarrow> (c # w) # ws))"

text \<open>\<open>c.join(ws)\<close>, and the first part of \<open>s.rsplit(c, 2)\<close>.\<close>

fun join_with :: "string \<Rightarrow> string list \<Rightarrow> string" where
  "join_with c [] = []"
| "join_with c [w] = w"
| "join_with c (w # ws) = w @ c @ join_with c ws"

definition rsplit2_head :: "char \<Rightarrow> string \<Rightarrow> string" where
  "rsplit2_head c s = (let ws = split_on c s in join_with [c] (take (max 1 (length ws - 2)) ws))"

lemma split_on_plain: "c \<notin> set s \<Longrightarrow> split_on c s = [s]"
  by (induction s) auto

lemma split_on_append: "c \<notin> set s \<Longrightarrow> split_on c (s @ c # t) = s # split_on c t"
  by (induction s) auto

lemma rsplit2_head_three:
  "c \<notin> set a \<Longrightarrow> c \<notin> set b \<Longrightarrow> c \<notin> set d \<Longrightarrow> rsplit2_head c (a @ c # b @ c # d) = a"
  by (simp add: rsplit2_head_def split_on_append split_on_plain)

lemma digit_chars:
  "digit_char 0 = CHR ''0''"
  "digit_char (Suc 0) = CHR ''1''"
  "digit_char 2 = CHR ''2''"
  "digit_char 3 = CHR ''3''"
  "digit_char 4 = CHR ''4''"
  "digit_char 5 = CHR ''5''"
  "digit_char 6 = CHR ''6''"
  "digit_char 7 = CHR ''7''"
  "digit_char 8 = CHR ''8''"
  "digit_char 9 = CHR ''9''"
  by code_simp+

lemma digit_char_digit: "n < 10 \<Longrightarrow> is_digit (digit_char n)"
  by (simp add: digit_char_def is_digit_def)

lemma str_of_nat_digits: "list_all is_digit (str_of_nat n)"
proof (induction n rule: str_of_nat.induct)
  case (1 n)
  then show ?case by (subst str_of_nat.simps) (simp add: digit_char_digit)
qed

lemma colon_not_digit: "\<not> is_digit CHR '':''"
  by (simp add: is_digit_def)

lemma str_of_int_no_colon: "CHR '':'' \<notin> set (str_of_int i)"
  using str_of_nat_digits [of "nat i"] str_of_nat_digits [of "nat (- i)"] colon_not_digit
  by (auto simp: str_of_int_def list_all_iff)

lemma digit_val_char: "n < 10 \<Longrightarrow> digit_val (digit_char n) = int n"
  by (simp add: digit_val_def digit_char_def)

lemma decimal_str_of_nat: "decimal (str_of_nat n) = int n"
proof (induction n rule: str_of_nat.induct)
  case (1 n)
  show ?case
  proof (cases "n < 10")
    case True
    then show ?thesis by (subst str_of_nat.simps) (simp add: decimal_def digit_val_char)
  next
    case False
    then have "decimal (str_of_nat n) = 10 * decimal (str_of_nat (n div 10)) + int (n mod 10)"
      by (subst str_of_nat.simps) (simp add: decimal_def digit_val_char)
    also have "\<dots> = int n" using 1 False by (simp add: zdiv_int zmod_int)
    finally show ?thesis .
  qed
qed

lemma str_of_nat_length: "n < 10 ^ Suc k \<Longrightarrow> length (str_of_nat n) \<le> Suc k"
proof (induction k arbitrary: n)
  case 0
  then show ?case by (subst str_of_nat.simps) simp
next
  case (Suc k)
  from Suc.prems have "n div 10 < 10 ^ Suc k" by (simp add: less_mult_imp_div_less)
  then have "length (str_of_nat (n div 10)) \<le> Suc k" by (rule Suc.IH)
  then show ?case by (subst str_of_nat.simps) simp
qed

lemma str_of_nat_inject: "str_of_nat m = str_of_nat n \<Longrightarrow> m = n"
  by (metis decimal_str_of_nat of_nat_eq_iff)

lemma str_of_nat_not_minus: "str_of_nat n \<noteq> CHR ''-'' # s"
  using str_of_nat_digits [of n] by (auto simp: list_all_iff is_digit_def)

lemma str_of_int_inject: "str_of_int i = str_of_int j \<Longrightarrow> i = j"
  by (auto simp: str_of_int_def str_of_nat_not_minus str_of_nat_not_minus [symmetric]
      dest!: str_of_nat_inject split: if_splits)

lemma sep_inject:
  assumes "c \<notin> set x" "c \<notin> set y" "a @ c # x = b @ c # y"
  shows "a = b \<and> x = y"
  using assms by (auto simp: append_eq_append_conv2 Cons_eq_append_conv append_eq_Cons_conv)

text \<open>
  A white space character of a regular expression somewhere in the bytes of a UTF-8 string:
  the ASCII ones, and the encoded forms of the others.
\<close>

fun has_space :: "nat list \<Rightarrow> bool" where
  "has_space (a # b # c # xs) =
     (a \<in> {9, 10, 11, 12, 13, 28, 29, 30, 31, 32}
      \<or> a = 194 \<and> b \<in> {133, 160}
      \<or> a = 225 \<and> b = 154 \<and> c = 128
      \<or> a = 226 \<and> b = 128 \<and> (128 \<le> c \<and> c \<le> 138 \<or> c \<in> {168, 169, 175})
      \<or> a = 226 \<and> b = 129 \<and> c = 159
      \<or> a = 227 \<and> b = 128 \<and> c = 128
      \<or> has_space (b # c # xs))"
| "has_space [a, b] = (a \<in> {9, 10, 11, 12, 13, 28, 29, 30, 31, 32} \<or> a = 194 \<and> b \<in> {133, 160}
      \<or> b \<in> {9, 10, 11, 12, 13, 28, 29, 30, 31, 32})"
| "has_space [a] = (a \<in> {9, 10, 11, 12, 13, 28, 29, 30, 31, 32})"
| "has_space [] = False"

text \<open>Full match of \<open>[^\s<>,;@]+@[A-Za-z0-9.-]+\.[A-Za-z]{2,}\<close>.\<close>

definition mail_address :: "string \<Rightarrow> bool" where
  "mail_address s =
     (case split_on CHR ''@'' s of
        [local, domain] \<Rightarrow>
          local \<noteq> [] \<and> list_all (\<lambda>c. \<not> one_of ''<>,;'' c) local \<and> \<not> has_space (map of_char local)
          \<and> (let ws = split_on CHR ''.'' domain; top = last ws
             in 2 \<le> length ws \<and> length top + 1 < length domain \<and> 2 \<le> length top
                \<and> list_all (\<lambda>c. is_lower c \<or> is_upper c) top
                \<and> list_all (\<lambda>c. is_alnum c \<or> one_of ''.-'' c) domain)
      | _ \<Rightarrow> False)"

text \<open>\<open>s.split()\<close>\<close>

fun words :: "string \<Rightarrow> string list" where
  "words [] = []"
| "words (c # cs) =
     (if is_space c then words cs
      else (case words cs of
              [] \<Rightarrow> [[c]]
            | w # ws \<Rightarrow> if cs \<noteq> [] \<and> is_space (hd cs) then [c] # w # ws else (c # w) # ws))"

lemma words_single: "list_all (\<lambda>c. \<not> is_space c) w \<Longrightarrow> w \<noteq> [] \<Longrightarrow> words w = [w]"
proof (induction w)
  case (Cons c cs)
  then show ?case by (cases cs) auto
qed simp

section \<open>Merged objects\<close>

text \<open>\<open>{**d, **e}\<close>\<close>

definition merged :: "pyval \<Rightarrow> (string \<times> pyval) list \<Rightarrow> pyval" where
  "merged v e = PDict (foldl (\<lambda>d (k, x). AList.update k x d) (items v) e)"

lemma get_merged: "get (merged v e) k = (case map_of (rev e) k of None \<Rightarrow> get v k | Some x \<Rightarrow> x)"
proof -
  have "map_of (foldl (\<lambda>d (k, x). AList.update k x d) d e) k = (case map_of (rev e) k of None \<Rightarrow> map_of d k | Some x \<Rightarrow> Some x)" for d
    by (induction e arbitrary: d) (auto simp: update_conv' map_add_def split: option.splits)
  then show ?thesis by (auto simp: merged_def get_or_def split: option.splits)
qed

lemma get_merged_other: "k \<notin> fst ` set e \<Longrightarrow> get (merged v e) k = get v k"
  by (simp add: get_merged map_of_eq_None_iff [THEN iffD2] del: get_or_dict)

end
