(* ===== verification/DiscordConfig.thy ===== *)
theory DiscordConfig
  imports PyValue
begin

text \<open>
  \<open>scripts/discord-ops-alerts.py\<close>, first part: the validation of the configuration, the
  validation of the outbox file, and the collection of the local signals (systemd units,
  cron markers, state files of other monitors). Files, the \<open>systemctl\<close> output and the
  monotonic clock are parameters. The Korean messages of \<open>AlertError\<close> are replaced by the
  short reasons given here. \<open>int\<close> of a digit string has no length limit in the model.
\<close>

section \<open>Names and labels\<close>

abbreviation AlertError :: "string \<Rightarrow> exn" where
  "AlertError r \<equiv> AppError ''AlertError'' r"

definition alert_name :: "string \<Rightarrow> bool" where
  "alert_name s = head_match is_lower (\<lambda>c. is_lower c \<or> is_digit c \<or> one_of ''_-'' c) 0 63 s"

text \<open>
  A label has up to 60 characters, each a digit, a space, a parenthesis, a hyphen or a Hangul
  syllable; the syllables U+AC00 to U+D7A3 are the three-byte sequences from EA B0 80 to
  ED 9E A3. The result is the number of characters.
\<close>

definition hangul :: "nat \<Rightarrow> nat \<Rightarrow> nat \<Rightarrow> bool" where
  "hangul a b c =
     (128 \<le> b \<and> b \<le> 191 \<and> 128 \<le> c \<and> c \<le> 191
      \<and> (let p = (a - 224) * 4096 + (b - 128) * 64 + (c - 128)
         in 224 \<le> a \<and> 0xAC00 \<le> p \<and> p \<le> 0xD7A3))"

fun label_length :: "nat list \<Rightarrow> nat option" where
  "label_length [] = Some 0"
| "label_length (x # xs) =
     (if 48 \<le> x \<and> x \<le> 57 \<or> x \<in> {32, 40, 41, 45} then map_option Suc (label_length xs)
      else (case xs of
              y # z # zs \<Rightarrow> if hangul x y z then map_option Suc (label_length zs) else None
            | _ \<Rightarrow> None))"

definition LABEL :: "string \<Rightarrow> bool" where
  "LABEL s = (case label_length (map of_char s) of None \<Rightarrow> False | Some n \<Rightarrow> 1 \<le> n \<and> n \<le> 60)"

definition unit_char :: "char \<Rightarrow> bool" where
  "unit_char c = (is_alnum c \<or> one_of ''@_.-'' c)"

definition ends_with :: "string \<Rightarrow> string \<Rightarrow> bool" where
  "ends_with s t = (length t \<le> length s \<and> drop (length s - length t) s = t)"

definition UNIT :: "string \<Rightarrow> bool" where
  "UNIT s = (ends_with s ''.service'' \<and> 8 < length s \<and> list_all unit_char (take (length s - 8) s))"

definition webhook_prefix :: string where
  "webhook_prefix = ''https://discord.com/api/webhooks/''"

definition WEBHOOK :: "string \<Rightarrow> bool" where
  "WEBHOOK s =
     (starts_with s webhook_prefix
      \<and> (case split_on CHR ''/'' (drop (length webhook_prefix) s) of
           [n, token] \<Rightarrow> class_match is_digit 16 22 n
                          \<and> class_match (\<lambda>c. is_alnum c \<or> one_of ''_-'' c) 32 256 token
         | _ \<Rightarrow> False))"

section \<open>Configuration\<close>

definition absolute_path :: "pyval \<Rightarrow> path res" where
  "absolute_path v =
     (case v of
        PStr s \<Rightarrow> if starts_with s ''/'' \<and> \<not> has_dotdot s then Inr (path_of s) else Inl (AlertError ''PATH'')
      | _ \<Rightarrow> Inl (AlertError ''PATH''))"

definition is_service_health :: "pyval \<Rightarrow> bool" where
  "is_service_health source = is_string (get source ''type'') ''service_health''"

definition source_keys :: "pyval \<Rightarrow> string list" where
  "source_keys source =
     [''name'', ''label'', ''type'', ''path'', ''max_age'']
     @ (if is_service_health source
        then [''source_name'', ''summary_path''] @ (if has_key source ''severity'' then [''severity''] else [])
        else [])"

definition load_target :: "pyval \<Rightarrow> unit res" where
  "load_target source =
     (if is_service_health source then
        bindR (absolute_path (get source ''path'')) (\<lambda>_.
        bindR (absolute_path (get source ''summary_path'')) (\<lambda>_.
        check (\<not> py_eq (get source ''path'') (get source ''summary_path'') \<and> is_str (get source ''source_name'')
               \<and> alert_name (the_str (get source ''source_name''))) (AlertError ''SERVICE_SELECTION'')))
      else if in_tuple (get source ''type'') [''cron_markers'', ''monitor_state'', ''db_cache'']
      then bindR (absolute_path (get source ''path'')) (\<lambda>_. Inr ())
      else Inl (AlertError ''SOURCE_TYPE''))"

definition load_source :: "pyval \<Rightarrow> string list \<times> nat \<Rightarrow> (string list \<times> nat) res" where
  "load_source source acc =
     (let names = fst acc; count = snd acc; name = get source ''name''; age = get source ''max_age''
      in bindR (check (is_dict source \<and> is_service_health source \<and> has_key source ''severity''
                       \<longrightarrow> is_string (get source ''severity'') ''warning'') (AlertError ''SEVERITY'')) (\<lambda>_.
         bindR (check (is_dict source \<and> has_keys source (source_keys source)) (AlertError ''SOURCE_FIELDS'')) (\<lambda>_.
         bindR (check (is_str name \<and> alert_name (the_str name) \<and> the_str name \<notin> set names)
                      (AlertError ''SOURCE_NAME'')) (\<lambda>_.
         bindR (check (is_str (get source ''label'') \<and> LABEL (the_str (get source ''label''))) (AlertError ''LABEL'')) (\<lambda>_.
         bindR (check (is_int age \<and> 30 \<le> the_int age \<and> the_int age \<le> 604800) (AlertError ''MAX_AGE'')) (\<lambda>_.
         if is_string (get source ''type'') ''systemd'' then
           bindR (check (is_str (get source ''path'') \<and> UNIT (the_str (get source ''path''))) (AlertError ''UNIT'')) (\<lambda>_.
           Inr (the_str name # names, count + 1))
         else bindR (load_target source) (\<lambda>_. Inr (the_str name # names, count))))))))"

definition load_config :: "pyval \<Rightarrow> pyval res" where
  "load_config v =
     bindR (check (has_keys v [''expected_hostname'', ''host_label'', ''webhook_file'', ''state_dir'', ''sources''])
                  (AlertError ''FIELDS'')) (\<lambda>_.
     bindR (check (is_str (get v ''expected_hostname'') \<and> alert_name (the_str (get v ''expected_hostname'')))
                  (AlertError ''HOSTNAME'')) (\<lambda>_.
     bindR (check (is_str (get v ''host_label'') \<and> LABEL (the_str (get v ''host_label''))) (AlertError ''HOST_LABEL'')) (\<lambda>_.
     bindR (absolute_path (get v ''webhook_file'')) (\<lambda>_.
     bindR (absolute_path (get v ''state_dir'')) (\<lambda>_.
     let sources = get v ''sources''
     in bindR (check (is_list sources \<and> 1 \<le> length (the_list sources) \<and> length (the_list sources) \<le> 50)
                     (AlertError ''SOURCES'')) (\<lambda>_.
        bindR (foldR load_source (the_list sources) ([], 0)) (\<lambda>acc.
        bindR (check (snd acc \<le> 4) (AlertError ''SYSTEMD_COUNT'')) (\<lambda>_. Inr v))))))))"

section \<open>Local signals\<close>

datatype signal = NORMAL | ALARM | UNKNOWN

text \<open>\<open>number\<close> returns the value it checked; in float arithmetic an \<open>int\<close> is rounded first.\<close>

definition number :: "pyval \<Rightarrow> rat res" where
  "number v =
     bindR (if is_number v then isfiniteR v else Inr False) (\<lambda>finite.
       if finite then Inr (num_val v) else Inl ValueError)"

definition float_sub :: "rat \<Rightarrow> rat \<Rightarrow> rat" where
  "float_sub now x = fsub now (fl x)"

definition HEALTHY_STATES :: "string list" where
  "HEALTHY_STATES = [''OK'', ''HEALTHY'']"

definition ABNORMAL_STATES :: "string list" where
  "ABNORMAL_STATES = [''WARN'', ''WARNING'', ''CRITICAL'', ''ERROR'', ''FAIL'', ''FAILED'']"

record signal_env =
  se_systemctl :: "string \<Rightarrow> string res"
  se_monotonic :: rat
  se_file :: "path \<Rightarrow> (rat \<times> pyval res) res"

definition properties_of :: "string \<Rightarrow> (string \<times> string) list" where
  "properties_of out = rev (map (split_first CHR ''='') (filter (\<lambda>l. CHR ''='' \<in> set l) (splitlines out)))"

definition lookupR :: "(string \<times> string) list \<Rightarrow> string \<Rightarrow> string res" where
  "lookupR d k = (case map_of d k of None \<Rightarrow> Inl KeyError | Some v \<Rightarrow> Inr v)"

definition micros :: "(string \<times> string) list \<Rightarrow> string \<Rightarrow> rat res" where
  "micros d k = bindR (lookupR d k) (\<lambda>s. bindR (py_int s) (\<lambda>i. int_truediv i 1000000))"

text \<open>Each kind gives the age of the observation and its condition.\<close>

definition collect_systemd :: "pyval \<Rightarrow> signal_env \<Rightarrow> (rat \<times> signal) res" where
  "collect_systemd source env =
     bindR (se_systemctl env (the_str (get source ''path''))) (\<lambda>out.
     let values = properties_of out
     in bindR (micros values ''ExecMainExitTimestampMonotonic'') (\<lambda>finished.
        bindR (micros values ''ExecMainStartTimestampMonotonic'') (\<lambda>started.
        bindR (lookupR values ''ActiveState'') (\<lambda>active.
        let stamp = max finished (if active \<in> {''active'', ''activating''} then started else 0)
        in bindR (check (0 < stamp) ValueError) (\<lambda>_.
           bindR (lookupR values ''Result'') (\<lambda>result.
           bindR (if result \<noteq> ''success'' then Inr ALARM
                  else bindR (lookupR values ''ExecMainStatus'') (\<lambda>s. bindR (py_int s) (\<lambda>i.
                       Inr (if i \<noteq> 0 then ALARM else NORMAL)))) (\<lambda>condition.
           Inr (fsub (se_monotonic env) stamp, condition))))))))"

definition marker :: "signal_env \<Rightarrow> string \<Rightarrow> rat option res" where
  "marker env p =
     (case se_file env (path_of p) of
        Inr (mtime, _) \<Rightarrow> Inr (Some mtime)
      | Inl e \<Rightarrow> if e = FileNotFoundError then Inr None else Inl e)"

definition collect_cron :: "pyval \<Rightarrow> signal_env \<Rightarrow> rat \<Rightarrow> (rat \<times> signal) res" where
  "collect_cron source env now =
     (let base = the_str (get source ''path'')
      in bindR (marker env (base @ ''.ok'')) (\<lambda>good.
         bindR (marker env (base @ ''.fail'')) (\<lambda>bad.
         case (good, bad) of
           (None, None) \<Rightarrow> Inl ValueError
         | (Some g, None) \<Rightarrow> Inr (fsub now g, NORMAL)
         | (None, Some b) \<Rightarrow> Inr (fsub now b, ALARM)
         | (Some g, Some b) \<Rightarrow> Inr (fsub now (max g b), ALARM))))"

definition collect_db_cache :: "pyval \<Rightarrow> pyval \<Rightarrow> rat \<Rightarrow> rat \<Rightarrow> (rat \<times> signal) res" where
  "collect_db_cache source state mtime now =
     bindR (bindR (indexR state ''recovery_point_epoch'') number) (\<lambda>point.
     bindR (bindR (indexR state ''last_readback_epoch'') number) (\<lambda>readback.
     bindR (check (0 < point \<and> point \<le> readback \<and> readback \<le> fadd now 5) ValueError) (\<lambda>_.
     let since = float_sub now point
     in Inr (fsub now mtime,
             if - 5 \<le> since \<and> since < of_int (the_int (get source ''max_age'')) then NORMAL else ALARM))))"

definition collect_monitor_state :: "pyval \<Rightarrow> rat \<Rightarrow> (rat \<times> signal) res" where
  "collect_monitor_state state now =
     (let status = get_or state ''status'' (get state ''level'')
      in bindR (in_setR status (HEALTHY_STATES @ ABNORMAL_STATES)) (\<lambda>known.
         bindR (check known ValueError) (\<lambda>_.
         bindR (bindR (indexR state ''last_check_epoch'') number) (\<lambda>checked.
         Inr (float_sub now checked, if in_tuple status HEALTHY_STATES then NORMAL else ALARM)))))"

definition collect_file :: "pyval \<Rightarrow> signal_env \<Rightarrow> rat \<Rightarrow> (rat \<times> signal) res" where
  "collect_file source env now =
     bindR (se_file env (path_of (the_str (get source ''path'')))) (\<lambda>(mtime, raw).
     bindR raw (\<lambda>state.
     bindR (check (is_dict state) ValueError) (\<lambda>_.
     if is_string (get source ''type'') ''db_cache'' then collect_db_cache source state mtime now
     else collect_monitor_state state now)))"

fun signal_error :: "exn \<Rightarrow> bool" where
  "signal_error (AppError c r) = (c = ''AlertError'')"
| "signal_error AttributeError = False"
| "signal_error OverflowError = False"
| "signal_error _ = True"

text \<open>A pair of condition and freshness; an old healthy record establishes no recovery.\<close>

definition aged :: "pyval \<Rightarrow> rat \<times> signal \<Rightarrow> (signal \<times> signal) res" where
  "aged source r =
     (let age = fst r; old = of_int (the_int (get source ''max_age'')) < age
      in bindR (check (- 5 \<le> age) ValueError) (\<lambda>_.
         Inr (if old \<and> snd r = NORMAL then UNKNOWN else snd r, if old then ALARM else NORMAL)))"

definition alert_collect :: "pyval \<Rightarrow> signal_env \<Rightarrow> rat \<Rightarrow> (signal \<times> signal) res" where
  "alert_collect source env now =
     (let kind = the_str (get source ''type'')
      in case bindR (if kind = ''systemd'' then collect_systemd source env
                     else if kind = ''cron_markers'' then collect_cron source env now
                     else collect_file source env now) (aged source) of
           Inr r \<Rightarrow> Inr r
         | Inl e \<Rightarrow> if signal_error e then Inr (UNKNOWN, ALARM) else Inl e)"

section \<open>The outbox file\<close>

definition MAX_ATTEMPTS :: int where
  "MAX_ATTEMPTS = 3"

definition MAX_OUTBOX :: nat where
  "MAX_OUTBOX = 1000"

definition DELIVERIES :: "string list" where
  "DELIVERIES = [''PENDING'', ''ATTEMPTED'', ''SENT'', ''UNCERTAIN'', ''FAILED'', ''SUPERSEDED'']"

definition item_valid :: "pyval \<Rightarrow> bool res" where
  "item_valid item =
     andR (Inr (is_dict item \<and> is_str (get item ''id'') \<and> is_str (get item ''content'')))
    (andR (in_setR (get item ''delivery'') DELIVERIES)
          (Inr (is_int (get item ''attempts'') \<and> 0 \<le> the_int (get item ''attempts'')
                \<and> the_int (get item ''attempts'') \<le> MAX_ATTEMPTS)))"

definition validate_state :: "pyval \<Rightarrow> pyval res" where
  "validate_state state =
     bindR (check (is_dict state \<and> py_eq (get state ''schema'') (PInt 1) \<and> is_dict (get state ''observations'')
                   \<and> is_list (get state ''outbox'')) (AlertError ''STATE'')) (\<lambda>_.
     bindR (check (length (the_list (get state ''outbox'')) \<le> MAX_OUTBOX) (AlertError ''OUTBOX_FULL'')) (\<lambda>_.
     bindR (foldR (\<lambda>item _. bindR (item_valid item) (\<lambda>b. check b (AlertError ''ITEM'')))
              (the_list (get state ''outbox'')) ()) (\<lambda>_.
     Inr state)))"

end
