(* ===== verification/Delivery.thy ===== *)
theory Delivery
  imports PyValue
begin

text \<open>
  The interface shared by the alert senders. Each of them (\<open>deliver\<close> of
  \<open>lib/llm_health.py\<close>, \<open>run\<close> of the capacity monitor and of the core backup monitor,
  \<open>dispatch\<close> of the Discord outbox) writes its record to disk before it hands a
  message to the transport, and reads the record back when it starts again. One
  invocation is the list of its effects in order; it may stop after any of them, and the
  next one starts from what the last completed write left on disk.
\<close>

datatype ('s, 'k) effect =
    Persist 's
  | Send 'k

text \<open>What is on disk after a prefix of the effects, and the submissions of one alert in it.\<close>

fun disk :: "'s \<Rightarrow> ('s, 'k) effect list \<Rightarrow> 's" where
  "disk s [] = s"
| "disk s (Persist t # es) = disk t es"
| "disk s (Send k # es) = disk s es"

fun sends :: "'k \<Rightarrow> ('s, 'k) effect list \<Rightarrow> nat" where
  "sends k [] = 0"
| "sends k (Persist t # es) = sends k es"
| "sends k (Send j # es) = (if j = k then Suc (sends k es) else sends k es)"

text \<open>
  A history of invocations: each entry is what the invocation meets in its environment
  (clock, report, answer of the transport) and how many effects it completes.
\<close>

fun runs :: "('s \<Rightarrow> 'e \<Rightarrow> ('s, 'k) effect list) \<Rightarrow> 's \<Rightarrow> ('e \<times> nat) list \<Rightarrow> ('s, 'k) effect list" where
  "runs step s [] = []"
| "runs step s ((e, n) # rs) =
     (let es = take n (step s e) in es @ runs step (disk s es) rs)"

lemma disk_append [simp]: "disk s (xs @ ys) = disk (disk s xs) ys"
  by (induction s xs rule: disk.induct) auto

lemma sends_append [simp]: "sends k (xs @ ys) = sends k xs + sends k ys"
  by (induction k xs rule: sends.induct) auto

lemma sends_0_iff: "sends k es = 0 \<longleftrightarrow> Send k \<notin> set es"
  by (induction k es rule: sends.induct) auto

lemma disk_no_Persist: "(\<And>t. Persist t \<notin> set es) \<Longrightarrow> disk s es = s"
  by (induction s es rule: disk.induct) auto

lemma prefix_cases:
  assumes "x # xs = pre @ post"
  obtains "pre = []" | ps where "pre = x # ps" "xs = ps @ post"
  using assms by (cases pre) auto

text \<open>
  What a step of the SMTP exchange ends with, where the senders tell the cases apart:
  the classes of \<open>smtplib\<close> that say the server refused the message, any other
  \<open>SMTPException\<close>, \<open>OSError\<close>, and an exception outside these.
\<close>

datatype smtp_fault = RecipientsRefused | SenderRefused | DataError | HeloError | OtherSmtp | OsFault | OtherFault

section \<open>Write-ahead delivery\<close>

text \<open>
  \<open>spent s k\<close>: with \<open>s\<close> on disk no invocation submits alert \<open>k\<close> any more. The law that
  matters is \<open>send_spent\<close>: at the moment of a submission the record on disk is spent, so
  an invocation that stops there leaves nothing to replay.
\<close>

locale write_ahead =
  fixes step :: "'s \<Rightarrow> 'e \<Rightarrow> ('s, 'k) effect list"
    and spent :: "'s \<Rightarrow> 'k \<Rightarrow> bool"
    and inv :: "'s \<Rightarrow> bool"
  assumes inv_step: "inv s \<Longrightarrow> step s e = pre @ post \<Longrightarrow> inv (disk s pre)"
    and send_spent: "inv s \<Longrightarrow> step s e = pre @ Send k # post \<Longrightarrow> spent (disk s pre) k"
    and spent_quiet: "inv s \<Longrightarrow> spent s k \<Longrightarrow> Send k \<notin> set (step s e)"
    and spent_stable: "inv s \<Longrightarrow> spent s k \<Longrightarrow> step s e = pre @ post \<Longrightarrow> spent (disk s pre) k"
begin

lemma inv_take: "inv s \<Longrightarrow> inv (disk s (take n (step s e)))"
  by (rule inv_step [of s e _ "drop n (step s e)"]) simp_all

lemma spent_take: "inv s \<Longrightarrow> spent s k \<Longrightarrow> spent (disk s (take n (step s e))) k"
  by (rule spent_stable [of s k e _ "drop n (step s e)"]) simp_all

lemma spent_runs: "inv s \<Longrightarrow> spent s k \<Longrightarrow> Send k \<notin> set (runs step s rs)"
proof (induction rs arbitrary: s)
  case (Cons r rs)
  obtain e n where r: "r = (e, n)" by (cases r)
  let ?es = "take n (step s e)"
  have "Send k \<notin> set ?es"
    using spent_quiet [OF Cons.prems] by (auto dest: in_set_takeD)
  moreover have "Send k \<notin> set (runs step (disk s ?es) rs)"
    using Cons.prems by (intro Cons.IH inv_take spent_take)
  ultimately show ?case by (simp add: r Let_def)
qed simp

text \<open>An alert whose submission was the last thing an invocation did is never submitted again.\<close>

lemma no_replay:
  assumes "inv s" "take n (step s e) = pre @ Send k # post" "\<And>t. Persist t \<notin> set post"
  shows "Send k \<notin> set (runs step (disk s (take n (step s e))) rs)"
proof (rule spent_runs)
  show "inv (disk s (take n (step s e)))" using assms(1) by (rule inv_take)
  have "step s e = pre @ Send k # (post @ drop n (step s e))"
    using append_take_drop_id [of n "step s e"] assms(2) by simp
  then have "spent (disk s pre) k" by (rule send_spent [OF assms(1)])
  then show "spent (disk s (take n (step s e))) k"
    using assms(3) by (simp add: assms(2) disk_no_Persist)
qed

end

section \<open>Bounded delivery\<close>

text \<open>
  Here the record also counts the submissions: \<open>budget s k\<close> bounds how many are left for
  alert \<open>k\<close>, and each completed prefix of an invocation has paid for what it sent.
\<close>

locale bounded_delivery = write_ahead +
  fixes budget :: "'s \<Rightarrow> 'k \<Rightarrow> nat"
  assumes budget_step:
    "inv s \<Longrightarrow> step s e = pre @ post \<Longrightarrow> sends k pre + budget (disk s pre) k \<le> budget s k"
begin

lemma budget_take: "inv s \<Longrightarrow> sends k (take n (step s e)) + budget (disk s (take n (step s e))) k \<le> budget s k"
  by (rule budget_step [of s e _ "drop n (step s e)"]) simp_all

text \<open>Whatever stops and whatever the transport answers, the submissions stay in the budget.\<close>

lemma sends_runs: "inv s \<Longrightarrow> sends k (runs step s rs) \<le> budget s k"
proof (induction rs arbitrary: s)
  case (Cons r rs)
  obtain e n where r: "r = (e, n)" by (cases r)
  let ?es = "take n (step s e)"
  have "sends k (runs step (disk s ?es) rs) \<le> budget (disk s ?es) k"
    using Cons.prems by (intro Cons.IH inv_take)
  moreover have "sends k ?es + budget (disk s ?es) k \<le> budget s k"
    using Cons.prems by (rule budget_take)
  ultimately show ?case by (simp add: r Let_def)
qed simp

end

section \<open>Accounted invocations\<close>

text \<open>
  Senders that walk over many records write the whole state each time. Their effect lists
  are put together from those of the records, so the laws are stated for one list at a
  time: every prefix keeps the invariant and pays for its submissions, and the record is
  written down to nothing before a submission. Lists with this property can be appended.
\<close>

definition lawful ::
  "('s \<Rightarrow> bool) \<Rightarrow> ('s \<Rightarrow> 'k \<Rightarrow> nat) \<Rightarrow> 's \<Rightarrow> ('s, 'k) effect list \<Rightarrow> bool" where
  "lawful I budget s es =
     ((\<forall>pre post. es = pre @ post \<longrightarrow>
         I (disk s pre) \<and> (\<forall>k. sends k pre + budget (disk s pre) k \<le> budget s k))
      \<and> (\<forall>pre k post. es = pre @ Send k # post \<longrightarrow> budget (disk s pre) k = 0))"

lemma lawfulD:
  assumes "lawful I budget s es"
  shows "es = pre @ post \<Longrightarrow> I (disk s pre)"
    and "es = pre @ post \<Longrightarrow> sends k pre + budget (disk s pre) k \<le> budget s k"
    and "es = pre @ Send k # post \<Longrightarrow> budget (disk s pre) k = 0"
  using assms unfolding lawful_def by blast+

lemma lawful_Nil [simp]: "lawful I budget s [] = I s"
  by (simp add: lawful_def)

lemma lawful_prefix: "lawful I budget s (es @ fs) \<Longrightarrow> lawful I budget s es"
  unfolding lawful_def by (metis append.assoc append_Cons)

lemma lawful_append:
  assumes 1: "lawful I budget s es" and 2: "lawful I budget (disk s es) fs"
  shows "lawful I budget s (es @ fs)"
  unfolding lawful_def
proof (intro conjI allI impI)
  fix pre post k
  assume eq: "es @ fs = pre @ post"
  have "I (disk s pre) \<and> sends k pre + budget (disk s pre) k \<le> budget s k"
  proof (cases "length pre \<le> length es")
    case True
    then obtain us where "es = pre @ us" using eq by (auto simp: append_eq_append_conv2)
    then show ?thesis using lawfulD(1,2) [OF 1] by simp
  next
    case False
    then obtain us where us: "pre = es @ us" "fs = us @ post"
      using eq by (auto simp: append_eq_append_conv2)
    have "sends k es + budget (disk s es) k \<le> budget s k" using lawfulD(2) [OF 1, of es "[]"] by simp
    with lawfulD(1) [OF 2 us(2)] lawfulD(2) [OF 2 us(2), of k] show ?thesis by (simp add: us)
  qed
  then show "I (disk s pre)" "sends k pre + budget (disk s pre) k \<le> budget s k" by blast+
next
  fix pre k post
  assume eq: "es @ fs = pre @ Send k # post"
  show "budget (disk s pre) k = 0"
  proof (cases "length pre < length es")
    case True
    then obtain us where us: "es = pre @ us" "us @ fs = Send k # post"
      using eq by (auto simp: append_eq_append_conv2)
    with True obtain vs where "us = Send k # vs" by (cases us) auto
    then show ?thesis using lawfulD(3) [OF 1] us by simp
  next
    case False
    then obtain us where us: "pre = es @ us" "fs = us @ Send k # post"
      using eq by (auto simp: append_eq_append_conv2)
    show ?thesis using lawfulD(3) [OF 2 us(2)] by (simp add: us)
  qed
qed

lemma lawful_Persist:
  assumes "I s" "lawful I budget t es" "\<And>k. budget t k \<le> budget s k"
  shows "lawful I budget s (Persist t # es)"
proof -
  have "I t" using lawfulD(1) [OF assms(2), of "[]" es] by simp
  then have "lawful I budget s [Persist t]"
    using assms(1,3) by (auto simp: lawful_def Cons_eq_append_conv)
  then show ?thesis using lawful_append [of I budget s "[Persist t]" es] assms(2) by simp
qed

lemma disk_start: "disk s es = disk t es \<or> disk s es = s \<and> disk t es = t"
  by (induction s es rule: disk.induct) auto

text \<open>The effects of a run from a state with the same budget.\<close>

lemma lawful_start:
  assumes "lawful I budget t es" "I s" "\<And>k. budget t k = budget s k"
  shows "lawful I budget s es"
proof -
  have "I (disk s pre) \<and> budget (disk s pre) k = budget (disk t pre) k" if "es = pre @ post" for pre post k
    using disk_start [of s pre t] lawfulD(1) [OF assms(1) that] assms(2,3) by auto
  then show ?thesis using lawfulD(2,3) [OF assms(1)] assms(3) unfolding lawful_def by metis
qed

lemma append_eq_three:
  "pre @ post = [a, b, c] \<longleftrightarrow>
     (pre = [] \<and> post = [a, b, c]) \<or> (pre = [a] \<and> post = [b, c])
     \<or> (pre = [a, b] \<and> post = [c]) \<or> (pre = [a, b, c] \<and> post = [])"
  by (auto simp: append_eq_Cons_conv)

text \<open>The list of one attempt: written down, submitted, written again.\<close>

lemma lawful_attempt:
  assumes "I s" "I t1" "I t2" "budget t1 j = 0" "1 \<le> budget s j"
    and "\<And>k. budget t1 k \<le> budget s k"
    and "\<And>k. budget t2 k + (if j = k then 1 else 0) \<le> budget s k"
  shows "lawful I budget s [Persist t1, Send j, Persist t2]"
proof -
  have "budget t2 k \<le> budget s k" "budget t2 j + 1 \<le> budget s j" for k
    using assms(7) [of k] assms(7) [of j] by simp_all
  then show ?thesis using assms(1-6)
    unfolding lawful_def by (auto simp: Cons_eq_append_conv)
qed

locale accounted =
  fixes step :: "'s \<Rightarrow> 'e \<Rightarrow> ('s, 'k) effect list"
    and inv :: "'s \<Rightarrow> bool"
    and budget :: "'s \<Rightarrow> 'k \<Rightarrow> nat"
  assumes accounted: "inv s \<Longrightarrow> lawful inv budget s (step s e)"

sublocale accounted \<subseteq> bounded_delivery step "\<lambda>s k. budget s k = 0" inv budget
proof
  fix s e pre post k
  assume i: "inv s" and eq: "step s e = pre @ post"
  show "inv (disk s pre)" using lawfulD(1) [OF accounted [OF i] eq] .
  show le: "sends k pre + budget (disk s pre) k \<le> budget s k"
    using lawfulD(2) [OF accounted [OF i] eq] .
  show "budget (disk s pre) k = 0" if "budget s k = 0" using le that by simp
next
  fix s e pre k post
  assume "inv s" "step s e = pre @ Send k # post"
  then show "budget (disk s pre) k = 0" by (intro lawfulD(3) [OF accounted])
next
  fix s k e
  assume "inv s" "budget s k = 0"
  then have "sends k (step s e) = 0"
    using lawfulD(2) [OF accounted, of s e "step s e" "[]" k] by simp
  then show "Send k \<notin> set (step s e)" by (simp add: sends_0_iff)
qed

section \<open>Guarded invocations\<close>

text \<open>
  The same composition for senders without a bound on their submissions: every prefix keeps
  the invariant and what was spent, and a submission is of an alert that was not spent when
  the list began and is spent when it happens.
\<close>

definition guarded ::
  "('s \<Rightarrow> bool) \<Rightarrow> ('s \<Rightarrow> 'k \<Rightarrow> bool) \<Rightarrow> 's \<Rightarrow> ('s, 'k) effect list \<Rightarrow> bool" where
  "guarded I used s es =
     ((\<forall>pre post. es = pre @ post \<longrightarrow> I (disk s pre) \<and> (\<forall>k. used s k \<longrightarrow> used (disk s pre) k))
      \<and> (\<forall>pre k post. es = pre @ Send k # post \<longrightarrow> used (disk s pre) k \<and> \<not> used s k))"

lemma guardedD:
  assumes "guarded I used s es"
  shows "es = pre @ post \<Longrightarrow> I (disk s pre)"
    and "es = pre @ post \<Longrightarrow> used s k \<Longrightarrow> used (disk s pre) k"
    and "es = pre @ Send k # post \<Longrightarrow> used (disk s pre) k \<and> \<not> used s k"
  using assms unfolding guarded_def by blast+

lemma guarded_Nil [simp]: "guarded I used s [] = I s"
  by (simp add: guarded_def)

lemma guarded_disk: "guarded I used s es \<Longrightarrow> I (disk s es)"
  by (rule guardedD(1) [of I used s es es "[]"]) simp_all

lemma guarded_append:
  assumes 1: "guarded I used s es" and 2: "guarded I used (disk s es) fs"
  shows "guarded I used s (es @ fs)"
  unfolding guarded_def
proof (intro conjI allI impI)
  fix pre post k
  assume eq: "es @ fs = pre @ post"
  have "I (disk s pre) \<and> (used s k \<longrightarrow> used (disk s pre) k)" for k
  proof (cases "length pre \<le> length es")
    case True
    then obtain us where "es = pre @ us" using eq by (auto simp: append_eq_append_conv2)
    then show ?thesis using guardedD(1,2) [OF 1] by simp
  next
    case False
    then obtain us where us: "pre = es @ us" "fs = us @ post"
      using eq by (auto simp: append_eq_append_conv2)
    have "used s k \<Longrightarrow> used (disk s es) k" using guardedD(2) [OF 1, of es "[]"] by simp
    with guardedD(1) [OF 2 us(2)] guardedD(2) [OF 2 us(2)] show ?thesis by (simp add: us)
  qed
  then show "I (disk s pre)" "used s k \<Longrightarrow> used (disk s pre) k" by blast+
next
  fix pre k post
  assume eq: "es @ fs = pre @ Send k # post"
  have "used (disk s pre) k \<and> \<not> used s k"
  proof (cases "length pre < length es")
    case True
    then obtain us where us: "es = pre @ us" "us @ fs = Send k # post"
      using eq by (auto simp: append_eq_append_conv2)
    with True obtain vs where "us = Send k # vs" by (cases us) auto
    then show ?thesis using guardedD(3) [OF 1] us by simp
  next
    case False
    then obtain us where us: "pre = es @ us" "fs = us @ Send k # post"
      using eq by (auto simp: append_eq_append_conv2)
    have "used s k \<Longrightarrow> used (disk s es) k" using guardedD(2) [OF 1, of es "[]"] by simp
    then show ?thesis using guardedD(3) [OF 2 us(2)] by (auto simp: us)
  qed
  then show "used (disk s pre) k" "\<not> used s k" by simp_all
qed

lemma guarded_Persist:
  assumes "I s" "I t" "\<And>k. used s k \<Longrightarrow> used t k" "guarded I used t es"
  shows "guarded I used s (Persist t # es)"
proof -
  have "guarded I used s [Persist t]"
    using assms(1-3) by (auto simp: guarded_def Cons_eq_append_conv)
  then show ?thesis using guarded_append [of I used s "[Persist t]" es] assms(4) by simp
qed

lemma guarded_attempt:
  assumes "I s" "I t1" "I t2" "used t1 j" "\<not> used s j"
    and "\<And>k. used s k \<Longrightarrow> used t1 k" "\<And>k. used s k \<Longrightarrow> used t2 k" "guarded I used t2 es"
  shows "guarded I used s (Persist t1 # Send j # Persist t2 # es)"
proof -
  have "guarded I used s [Persist t1, Send j, Persist t2]"
    using assms(1-7) by (auto simp: guarded_def Cons_eq_append_conv)
  then show ?thesis
    using guarded_append [of I used s "[Persist t1, Send j, Persist t2]" es] assms(8) by simp
qed

locale guarded_sender =
  fixes step :: "'s \<Rightarrow> 'e \<Rightarrow> ('s, 'k) effect list"
    and spent :: "'s \<Rightarrow> 'k \<Rightarrow> bool"
    and inv :: "'s \<Rightarrow> bool"
  assumes guarded_step: "inv s \<Longrightarrow> guarded inv spent s (step s e)"

sublocale guarded_sender \<subseteq> write_ahead step spent inv
proof
  fix s e pre post k
  assume i: "inv s" and eq: "step s e = pre @ post"
  show "inv (disk s pre)" using guardedD(1) [OF guarded_step [OF i] eq] .
  show "spent (disk s pre) k" if "spent s k" using guardedD(2) [OF guarded_step [OF i] eq that] .
next
  fix s e pre k post
  assume "inv s" "step s e = pre @ Send k # post"
  then show "spent (disk s pre) k" using guardedD(3) [OF guarded_step] by blast
next
  fix s k e
  assume i: "inv s" and sp: "spent s k"
  show "Send k \<notin> set (step s e)"
  proof
    assume "Send k \<in> set (step s e)"
    then obtain pre post where "step s e = pre @ Send k # post" by (auto simp: in_set_conv_decomp)
    then show False using guardedD(3) [OF guarded_step [OF i]] sp by blast
  qed
qed

section \<open>Invocations with at most one attempt\<close>

text \<open>
  The senders that handle one record make at most one attempt per invocation: they write
  nothing, or write the record once, or write it, submit, and write it again. For them the
  laws reduce to facts about the records written.
\<close>

locale logged_attempt =
  fixes step :: "'s \<Rightarrow> 'e \<Rightarrow> ('s, 'k) effect list"
    and spent :: "'s \<Rightarrow> 'k \<Rightarrow> bool"
    and inv :: "'s \<Rightarrow> bool"
    and budget :: "'s \<Rightarrow> 'k \<Rightarrow> nat"
  assumes shape:
    "step s e = [] \<or> (\<exists>t. step s e = [Persist t]) \<or>
     (\<exists>t1 k t2. step s e = [Persist t1, Send k, Persist t2])"
    and quiet_inv: "inv s \<Longrightarrow> step s e = [Persist t] \<Longrightarrow> inv t"
    and quiet_spent: "inv s \<Longrightarrow> step s e = [Persist t] \<Longrightarrow> spent s k \<Longrightarrow> spent t k"
    and quiet_budget: "inv s \<Longrightarrow> step s e = [Persist t] \<Longrightarrow> budget t k \<le> budget s k"
    and attempt_inv1: "inv s \<Longrightarrow> step s e = [Persist t1, Send j, Persist t2] \<Longrightarrow> inv t1"
    and attempt_inv2: "inv s \<Longrightarrow> step s e = [Persist t1, Send j, Persist t2] \<Longrightarrow> inv t2"
    and attempt_due: "inv s \<Longrightarrow> step s e = [Persist t1, Send j, Persist t2] \<Longrightarrow> \<not> spent s j"
    and attempt_logged: "inv s \<Longrightarrow> step s e = [Persist t1, Send j, Persist t2] \<Longrightarrow> spent t1 j"
    and attempt_spent1:
      "inv s \<Longrightarrow> step s e = [Persist t1, Send j, Persist t2] \<Longrightarrow> spent s k \<Longrightarrow> spent t1 k"
    and attempt_spent2:
      "inv s \<Longrightarrow> step s e = [Persist t1, Send j, Persist t2] \<Longrightarrow> spent s k \<Longrightarrow> spent t2 k"
    and attempt_budget1:
      "inv s \<Longrightarrow> step s e = [Persist t1, Send j, Persist t2] \<Longrightarrow>
       budget t1 k + (if j = k then 1 else 0) \<le> budget s k"
    and attempt_budget2:
      "inv s \<Longrightarrow> step s e = [Persist t1, Send j, Persist t2] \<Longrightarrow>
       budget t2 k + (if j = k then 1 else 0) \<le> budget s k"
begin

text \<open>Any fact about a prefix follows from the facts for the prefixes of the three shapes.\<close>

lemma prefix_induct:
  assumes "step s e = pre @ post"
    and "P []"
    and "\<And>t. step s e = [Persist t] \<Longrightarrow> P [Persist t]"
    and "\<And>t1 j t2. step s e = [Persist t1, Send j, Persist t2] \<Longrightarrow>
           P [Persist t1] \<and> P [Persist t1, Send j] \<and> P [Persist t1, Send j, Persist t2]"
  shows "P pre"
proof -
  consider "step s e = []" | t where "step s e = [Persist t]"
    | t1 j t2 where "step s e = [Persist t1, Send j, Persist t2]"
    using shape [of s e] by blast
  then show ?thesis
  proof cases
    case 1
    then show ?thesis using assms(1,2) by simp
  next
    case 2
    then have "pre = [] \<or> pre = [Persist t]" using assms(1) by (auto simp: append_eq_Cons_conv)
    then show ?thesis using assms(2) assms(3) [OF 2] by auto
  next
    case 3
    then show ?thesis using assms(1,2) assms(4) [OF 3] by (auto simp: append_eq_three)
  qed
qed

lemma send_cases:
  assumes "step s e = pre @ Send k # post"
  obtains t1 t2 where "step s e = [Persist t1, Send k, Persist t2]" "pre = [Persist t1]"
proof -
  consider "step s e = []" | t where "step s e = [Persist t]"
    | t1 j t2 where "step s e = [Persist t1, Send j, Persist t2]"
    using shape [of s e] by blast
  then show ?thesis
    using assms that by cases (auto simp: Cons_eq_append_conv)
qed

end

sublocale logged_attempt \<subseteq> bounded_delivery step spent inv budget
proof
  fix s e pre post k
  assume i: "inv s" and eq: "step s e = pre @ post"
  show "inv (disk s pre)"
    by (rule prefix_induct [OF eq])
       (use i in \<open>auto intro: quiet_inv attempt_inv1 attempt_inv2\<close>)
  show "spent (disk s pre) k" if "spent s k"
    by (rule prefix_induct [OF eq])
       (use i that in \<open>auto intro: quiet_spent attempt_spent1 attempt_spent2\<close>)
  show "sends k pre + budget (disk s pre) k \<le> budget s k"
  proof (rule prefix_induct [OF eq])
    fix t assume "step s e = [Persist t]"
    then show "sends k [Persist t] + budget (disk s [Persist t]) k \<le> budget s k"
      using i quiet_budget by simp
  next
    fix t1 j t2 assume "step s e = [Persist t1, Send j, Persist t2]"
    from attempt_budget1 [OF i this, of k] attempt_budget2 [OF i this, of k]
    show "sends k [Persist t1] + budget (disk s [Persist t1]) k \<le> budget s k \<and>
      sends k [Persist t1, Send j] + budget (disk s [Persist t1, Send j]) k \<le> budget s k \<and>
      sends k [Persist t1, Send j, Persist t2]
        + budget (disk s [Persist t1, Send j, Persist t2]) k \<le> budget s k"
      by (cases "j = k") simp_all
  qed simp
next
  fix s e pre k post
  assume i: "inv s" and eq: "step s e = pre @ Send k # post"
  obtain t1 t2 where "step s e = [Persist t1, Send k, Persist t2]" "pre = [Persist t1]"
    using eq by (rule send_cases)
  then show "spent (disk s pre) k" using i attempt_logged by simp
next
  fix s k e
  assume i: "inv s" and sp: "spent s k"
  show "Send k \<notin> set (step s e)"
  proof
    assume "Send k \<in> set (step s e)"
    then obtain pre post where "step s e = pre @ Send k # post" by (auto simp: in_set_conv_decomp)
    then obtain t1 t2 where "step s e = [Persist t1, Send k, Persist t2]" by (rule send_cases)
    then show False using i sp attempt_due by blast
  qed
qed

end
