(* ===== verification/LlmHealth.thy ===== *)
theory LlmHealth
  imports Delivery
begin

text \<open>
  \<open>scripts/lib/llm_health.py\<close>: the incident tracker \<open>observe\<close> and the mail delivery of
  its events. An entry of the monitor's state file is a record with one field per key; a
  key that is absent and a key holding \<open>None\<close> behave the same for every reader and are
  both \<open>None\<close> here, and a counter that is absent is read as 0. Mail transport
  (\<open>smtp_sender\<close>) is a parameter: the answer it gives. The private-file and lock
  functions are operating system calls and are not modelled.
\<close>

section \<open>Vocabulary\<close>

abbreviation HealthError :: "string \<Rightarrow> exn" where
  "HealthError r \<equiv> AppError ''HealthError'' r"

definition STATES :: "string list" where
  "STATES = [''HEALTHY'', ''FAILED'', ''LOADING'', ''OBSERVER_ERROR'', ''BUDGET_LIMIT'']"

definition name_char :: "char \<Rightarrow> bool" where
  "name_char c = (is_lower c \<or> is_digit c \<or> one_of ''_-'' c)"

definition NAME_fullmatch :: "string \<Rightarrow> bool" where
  "NAME_fullmatch s = head_match is_lower name_char 0 63 s"

fun epoch :: "pyval \<Rightarrow> rat res" where
  "epoch (PInt i) =
     bindR (isfiniteR (PInt i)) (\<lambda>finite.
       if \<not> finite \<or> i < 0 then Inl (HealthError ''INVALID_EPOCH'') else float_of_int i)"
| "epoch (PFloat q) = (if q < 0 then Inl (HealthError ''INVALID_EPOCH'') else Inr q)"
| "epoch _ = Inl (HealthError ''INVALID_EPOCH'')"

datatype delivery_status =
  NEW | ATTEMPTED | NOT_SENT | SENT | UNCERTAIN | EXHAUSTED | SUPERSEDED

record delivery =
  d_target :: string
  d_event :: string
  d_incident :: "int option"
  d_attempts :: nat
  d_status :: delivery_status
  d_created_at :: rat
  d_retry_after :: rat
  d_severity :: "string option"

record entry =
  sample_at :: "rat option"
  latest_status :: "string option"
  failures :: int
  healthy_since :: "rat option"
  healthy_samples :: int
  last_failure :: "rat option"
  incident :: "int option"
  sequence :: int
  opened_at :: "rat option"
  closed_incident :: "int option"
  closed_at :: "rat option"
  deliveries :: "(string \<times> delivery) list"

definition empty_entry :: entry where
  "empty_entry = \<lparr>sample_at = None, latest_status = None, failures = 0, healthy_since = None,
     healthy_samples = 0, last_failure = None, incident = None, sequence = 0, opened_at = None,
     closed_incident = None, closed_at = None, deliveries = []\<rparr>"

text \<open>The truth value of \<open>state.get('incident')\<close>.\<close>

definition has_incident :: "entry \<Rightarrow> bool" where
  "has_incident e = (incident e \<noteq> None \<and> incident e \<noteq> Some 0)"

section \<open>Observing a sample\<close>

definition stream_reset :: "entry \<Rightarrow> entry" where
  "stream_reset e = e\<lparr>failures := 0, healthy_since := None, healthy_samples := 0\<rparr>"

definition observe_failed :: "entry \<Rightarrow> rat \<Rightarrow> int \<Rightarrow> entry \<times> string" where
  "observe_failed e observed failure_count =
     (let e = e\<lparr>healthy_since := None, healthy_samples := 0,
                failures := failures e + 1, last_failure := Some observed\<rparr>
      in if \<not> has_incident e \<and> failure_count \<le> failures e
         then (e\<lparr>sequence := sequence e + 1, incident := Some (sequence e + 1),
                 opened_at := Some observed\<rparr>, ''FAILED'')
         else (e, ''UNCHANGED''))"

definition observe_healthy :: "entry \<Rightarrow> rat \<Rightarrow> int \<Rightarrow> int \<Rightarrow> entry \<times> string" where
  "observe_healthy e observed recovery_samples recovery_seconds =
     (let e = e\<lparr>failures := 0\<rparr>
      in if has_incident e then
           (let since = (case healthy_since e of None \<Rightarrow> observed | Some t \<Rightarrow> t);
                e = e\<lparr>healthy_since := Some since, healthy_samples := healthy_samples e + 1\<rparr>
            in if recovery_samples \<le> healthy_samples e
                  \<and> of_int recovery_seconds \<le> fsub observed since
               then (e\<lparr>closed_incident := incident e, incident := None,
                       closed_at := Some observed, healthy_since := None\<rparr>, ''RECOVERED'')
               else (e, ''UNCHANGED''))
         else (e, ''UNCHANGED''))"

definition is_gap :: "entry \<Rightarrow> rat \<Rightarrow> int \<Rightarrow> bool" where
  "is_gap e observed freshness =
     (case sample_at e of None \<Rightarrow> False | Some p \<Rightarrow> of_int freshness < fsub observed p)"

definition is_duplicate :: "entry \<Rightarrow> rat \<Rightarrow> bool" where
  "is_duplicate e observed = (case sample_at e of None \<Rightarrow> False | Some p \<Rightarrow> observed \<le> p)"

definition accept_sample :: "entry \<Rightarrow> string \<Rightarrow> rat \<Rightarrow> int \<Rightarrow> entry" where
  "accept_sample e status observed freshness =
     (let gap = is_gap e observed freshness;
          e = e\<lparr>sample_at := Some observed, latest_status := Some status\<rparr>
      in if gap \<or> status \<notin> {''HEALTHY'', ''FAILED''} then stream_reset e else e)"

definition observe_sample ::
  "entry \<Rightarrow> string \<Rightarrow> rat \<Rightarrow> int \<Rightarrow> int \<Rightarrow> int \<Rightarrow> int \<Rightarrow> entry \<times> string" where
  "observe_sample e status observed failure_count freshness recovery_samples recovery_seconds =
     (if is_duplicate e observed then (e, ''DUPLICATE'')
      else
        let e = accept_sample e status observed freshness
        in if status = ''FAILED'' then observe_failed e observed failure_count
           else if status = ''HEALTHY'' then observe_healthy e observed recovery_samples recovery_seconds
           else (e, ''UNCHANGED''))"

definition observe ::
  "entry \<Rightarrow> string \<Rightarrow> pyval \<Rightarrow> int \<Rightarrow> int \<Rightarrow> int \<Rightarrow> int \<Rightarrow> (entry \<times> string) res" where
  "observe e status observed failure_count freshness recovery_samples recovery_seconds =
     bindR (check (status \<in> set STATES) (HealthError ''INVALID_STATUS'')) (\<lambda>_.
     bindR (epoch observed) (\<lambda>observed.
     Inr (observe_sample e status observed failure_count freshness recovery_samples recovery_seconds)))"

section \<open>Reserving and delivering an event\<close>

definition reserve_event :: "entry \<Rightarrow> string \<Rightarrow> string \<Rightarrow> rat \<Rightarrow> entry" where
  "reserve_event e target event now =
     (let i = (if event = ''FAILED'' then incident e else closed_incident e);
          d = \<lparr>d_target = target, d_event = event, d_incident = i, d_attempts = 0, d_status = NEW,
               d_created_at = now, d_retry_after = 0, d_severity = None\<rparr>
      in e\<lparr>deliveries := AList.update event d (deliveries e)\<rparr>)"

text \<open>
  The settings \<open>smtp_sender\<close> accepts, before it reads the password file, and the check of the
  password it read (the text after \<open>strip\<close>). What follows is the SMTP exchange.
\<close>

definition mail_text_ok :: "pyval \<Rightarrow> bool" where
  "mail_text_ok v = (is_str v \<and> the_str v \<noteq> [] \<and> CHR 0x0D \<notin> set (the_str v) \<and> CHR 0x0A \<notin> set (the_str v))"

definition smtp_settings :: "pyval \<Rightarrow> (path \<Rightarrow> string res) \<Rightarrow> string res" where
  "smtp_settings config secret =
     bindR (check (in_tuple (get config ''tls_mode'') [''tls'', ''starttls''] \<and> is_int (get config ''port'')
                   \<and> 1 \<le> the_int (get config ''port'') \<and> the_int (get config ''port'') \<le> 65535)
                  (HealthError ''MAIL_CONFIG_INVALID'')) (\<lambda>_.
     bindR (check (list_all (\<lambda>k. mail_text_ok (get config k))
                     [''host'', ''username'', ''sender'', ''recipient'', ''password_file''])
                  (HealthError ''MAIL_CONFIG_INVALID'')) (\<lambda>_.
     bindR (check (mail_address (the_str (get config ''sender'')) \<and> mail_address (the_str (get config ''recipient'')))
                  (HealthError ''MAIL_ADDRESS_INVALID'')) (\<lambda>_.
     bindR (secret (path_of (the_str (get config ''password_file'')))) (\<lambda>raw.
     let password = strip raw
     in bindR (check (password \<noteq> []) (HealthError ''MAIL_PASSWORD_EMPTY'')) (\<lambda>_. Inr password)))))"

text \<open>
  What the sender answers: it returns, it raises \<open>MailNotSent\<close>, or it raises anything
  else. The effects of one call are the two \<open>persist()\<close> calls and the submission between
  them; the record the caller holds afterwards is the last one persisted.
\<close>

datatype answer = Accepted | Refused | Raised

definition after_answer :: "delivery \<Rightarrow> rat \<Rightarrow> answer \<Rightarrow> delivery" where
  "after_answer d now a =
     (case a of
        Accepted \<Rightarrow> d\<lparr>d_status := SENT\<rparr>
      | Refused \<Rightarrow>
          d\<lparr>d_status := (if 3 \<le> d_attempts d then EXHAUSTED else NOT_SENT),
            d_retry_after := fadd now (if d_attempts d = 1 then 60 else 300)\<rparr>
      | Raised \<Rightarrow> d\<lparr>d_status := UNCERTAIN\<rparr>)"

type_synonym alert = "string \<times> int option"

definition alert_of :: "delivery \<Rightarrow> alert" where
  "alert_of d = (d_event d, d_incident d)"

fun deliver :: "delivery \<Rightarrow> rat \<times> answer \<Rightarrow> (delivery, alert) effect list" where
  "deliver d (now, a) =
     (if d_status d \<notin> {NEW, NOT_SENT} then []
      else if now < d_retry_after d then []
      else
        let d1 = d\<lparr>d_attempts := d_attempts d + 1, d_status := ATTEMPTED\<rparr>
        in [Persist d1, Send (alert_of d1), Persist (after_answer d1 now a)])"

section \<open>The history of an entry\<close>

text \<open>
  What every reader of the state file relies on: incidents are numbered by \<open>sequence\<close>, the
  open one is the last number, the closed one is at most the last, and the times of both
  lie between 0 and the last sample.
\<close>

definition entry_ok :: "entry \<Rightarrow> bool" where
  "entry_ok e =
     (0 \<le> sequence e
      \<and> (\<forall>i. incident e = Some i \<longrightarrow> i = sequence e \<and> 1 \<le> i)
      \<and> (\<forall>c. closed_incident e = Some c \<longrightarrow>
             1 \<le> c \<and> c \<le> sequence e \<and> (incident e \<noteq> None \<longrightarrow> c < sequence e))
      \<and> (0 < sequence e \<longrightarrow> incident e = None \<longrightarrow> closed_incident e = Some (sequence e))
      \<and> (0 < sequence e \<longrightarrow> (\<exists>t s. opened_at e = Some t \<and> sample_at e = Some s \<and> 0 \<le> t \<and> t \<le> s))
      \<and> (closed_incident e \<noteq> None \<longrightarrow>
            (\<exists>t s. closed_at e = Some t \<and> sample_at e = Some s \<and> 0 \<le> t \<and> t \<le> s))
      \<and> (\<forall>s. sample_at e = Some s \<longrightarrow> 0 \<le> s))"

lemma entry_ok_empty [simp]: "entry_ok empty_entry"
  by (simp add: entry_ok_def empty_entry_def)

lemma entry_ok_stream [simp]:
  "entry_ok (e\<lparr>failures := a, healthy_since := b, healthy_samples := c\<rparr>) = entry_ok e"
  "entry_ok (stream_reset e) = entry_ok e"
  "entry_ok (e\<lparr>deliveries := d\<rparr>) = entry_ok e"
  by (simp_all add: entry_ok_def stream_reset_def)

lemma has_incident_iff: "entry_ok e \<Longrightarrow> has_incident e \<longleftrightarrow> incident e \<noteq> None"
  by (auto simp: entry_ok_def has_incident_def)

lemma accept_sample_ok:
  "entry_ok e \<Longrightarrow> \<not> is_duplicate e t \<Longrightarrow> 0 \<le> t \<Longrightarrow> entry_ok (accept_sample e st t f)"
  by (fastforce simp: accept_sample_def entry_ok_def is_duplicate_def Let_def stream_reset_def)

lemma accept_sample_fields [simp]:
  "sample_at (accept_sample e st t f) = Some t"
  "latest_status (accept_sample e st t f) = Some st"
  "incident (accept_sample e st t f) = incident e"
  "sequence (accept_sample e st t f) = sequence e"
  "has_incident (accept_sample e st t f) = has_incident e"
  by (simp_all add: accept_sample_def Let_def stream_reset_def has_incident_def)

lemma accept_sample_stream:
  "failures (accept_sample e st t f) =
     (if is_gap e t f \<or> st \<notin> {''HEALTHY'', ''FAILED''} then 0 else failures e)"
  "healthy_since (accept_sample e st t f) =
     (if is_gap e t f \<or> st \<notin> {''HEALTHY'', ''FAILED''} then None else healthy_since e)"
  "healthy_samples (accept_sample e st t f) =
     (if is_gap e t f \<or> st \<notin> {''HEALTHY'', ''FAILED''} then 0 else healthy_samples e)"
  by (simp_all add: accept_sample_def Let_def stream_reset_def)

lemma observe_failed_fields [simp]:
  "sample_at (fst (observe_failed e t k)) = sample_at e"
  "failures (fst (observe_failed e t k)) = failures e + 1"
  "healthy_since (fst (observe_failed e t k)) = None"
  "healthy_samples (fst (observe_failed e t k)) = 0"
  "snd (observe_failed e t k) =
     (if \<not> has_incident e \<and> k \<le> failures e + 1 then ''FAILED'' else ''UNCHANGED'')"
  by (simp_all add: observe_failed_def Let_def has_incident_def)

lemma observe_healthy_fields [simp]:
  "sample_at (fst (observe_healthy e t n s)) = sample_at e"
  "failures (fst (observe_healthy e t n s)) = 0"
  by (simp_all add: observe_healthy_def Let_def has_incident_def)

lemma observe_healthy_event:
  "snd (observe_healthy e t n s) =
     (if has_incident e \<and> n \<le> healthy_samples e + 1
         \<and> of_int s \<le> fsub t (case healthy_since e of None \<Rightarrow> t | Some u \<Rightarrow> u)
      then ''RECOVERED'' else ''UNCHANGED'')"
  by (simp add: observe_healthy_def Let_def has_incident_def)

lemma observe_healthy_open:
  assumes "has_incident (fst (observe_healthy e t n s))"
  shows "has_incident e"
    and "healthy_samples (fst (observe_healthy e t n s)) = healthy_samples e + 1"
    and "healthy_since (fst (observe_healthy e t n s)) =
           Some (case healthy_since e of None \<Rightarrow> t | Some u \<Rightarrow> u)"
  using assms by (simp_all add: observe_healthy_def Let_def has_incident_def split: if_splits)

lemma observe_failed_ok:
  "entry_ok e \<Longrightarrow> sample_at e = Some t \<Longrightarrow> entry_ok (fst (observe_failed e t k))"
  by (auto simp: observe_failed_def Let_def entry_ok_def has_incident_def)

lemma observe_healthy_ok:
  "entry_ok e \<Longrightarrow> sample_at e = Some t \<Longrightarrow> entry_ok (fst (observe_healthy e t n s))"
  by (auto simp: observe_healthy_def Let_def entry_ok_def has_incident_def)

lemma observe_sample_ok:
  assumes "entry_ok e" "0 \<le> t"
  shows "entry_ok (fst (observe_sample e status t k f n s))"
proof (cases "is_duplicate e t")
  case True
  then show ?thesis using assms by (simp add: observe_sample_def)
next
  case False
  then have "entry_ok (accept_sample e status t f)"
    using assms by (intro accept_sample_ok)
  then show ?thesis using False
    by (auto simp: observe_sample_def Let_def intro!: observe_failed_ok observe_healthy_ok)
qed

lemma observe_sample_at:
  "\<not> is_duplicate e t \<Longrightarrow> sample_at (fst (observe_sample e st t k f n s)) = Some t"
  by (simp add: observe_sample_def Let_def)

lemma observe_sample_failures:
  "\<not> is_duplicate e t \<Longrightarrow> failures (fst (observe_sample e st t k f n s)) =
     (if st = ''FAILED'' then 1 + (if is_gap e t f then 0 else failures e) else 0)"
  by (simp add: observe_sample_def Let_def accept_sample_stream)

lemma epoch_nonneg: "epoch v = Inr t \<Longrightarrow> 0 \<le> t"
  by (cases v) (auto simp: float_of_int_def fl_nonneg split: if_splits)

lemma observe_Inr:
  "observe e status v k f n s = Inr r \<longleftrightarrow>
     status \<in> set STATES \<and> (\<exists>t. epoch v = Inr t \<and> r = observe_sample e status t k f n s)"
  by (auto simp: observe_def)

lemma observe_ok:
  "observe e status v k f n s = Inr (e', ev) \<Longrightarrow> entry_ok e \<Longrightarrow> entry_ok e'"
  by (metis epoch_nonneg fst_conv observe_Inr observe_sample_ok)

subsection \<open>The life of an incident\<close>

text \<open>
  What one sample does to the incident of an entry, as a relation: it opens the next one,
  closes the open one, or leaves everything alone. The reserved deliveries are never touched.
\<close>

inductive incident_move :: "entry \<Rightarrow> string \<Rightarrow> string \<Rightarrow> entry \<Rightarrow> bool" where
  opened: "incident e = None \<Longrightarrow> incident e' = Some (sequence e + 1) \<Longrightarrow> sequence e' = sequence e + 1 \<Longrightarrow>
    closed_incident e' = closed_incident e \<Longrightarrow> deliveries e' = deliveries e \<Longrightarrow>
    incident_move e ''FAILED'' ''FAILED'' e'"
| closed: "incident e = Some i \<Longrightarrow> incident e' = None \<Longrightarrow> sequence e' = sequence e \<Longrightarrow>
    closed_incident e' = Some i \<Longrightarrow> deliveries e' = deliveries e \<Longrightarrow>
    incident_move e ''HEALTHY'' ''RECOVERED'' e'"
| kept: "incident e' = incident e \<Longrightarrow> sequence e' = sequence e \<Longrightarrow>
    closed_incident e' = closed_incident e \<Longrightarrow> deliveries e' = deliveries e \<Longrightarrow>
    ev \<in> {''UNCHANGED'', ''DUPLICATE''} \<Longrightarrow> incident_move e status ev e'"

inductive_cases incident_move_opened: "incident_move e status ''FAILED'' e'"
inductive_cases incident_move_closed: "incident_move e status ''RECOVERED'' e'"

lemma accept_sample_books [simp]:
  "closed_incident (accept_sample e st t f) = closed_incident e"
  "deliveries (accept_sample e st t f) = deliveries e"
  by (simp_all add: accept_sample_def Let_def stream_reset_def)

lemma observe_sample_moves:
  assumes "entry_ok e"
  shows "incident_move e status (snd (observe_sample e status t k f n s))
           (fst (observe_sample e status t k f n s))"
proof -
  let ?a = "accept_sample e status t f"
  have h: "has_incident ?a \<longleftrightarrow> incident e \<noteq> None" using assms by (simp add: has_incident_iff)
  consider "is_duplicate e t" | "\<not> is_duplicate e t" "status = ''FAILED''"
    | "\<not> is_duplicate e t" "status = ''HEALTHY''"
    | "\<not> is_duplicate e t" "status \<notin> {''FAILED'', ''HEALTHY''}" by blast
  then show ?thesis
  proof cases
    case 2
    have "incident_move e ''FAILED'' (snd (observe_failed ?a t k)) (fst (observe_failed ?a t k))"
      using h by (auto simp: observe_failed_def Let_def has_incident_def intro: opened kept)
    then show ?thesis using 2 by (simp add: observe_sample_def Let_def)
  next
    case 3
    have "incident_move e ''HEALTHY'' (snd (observe_healthy ?a t n s)) (fst (observe_healthy ?a t n s))"
      using h by (auto simp: observe_healthy_def Let_def has_incident_def intro: closed kept)
    then show ?thesis using 3 by (simp add: observe_sample_def Let_def)
  qed (simp_all add: observe_sample_def Let_def kept)
qed

lemma observe_moves:
  "observe e status v k f n s = Inr (e', ev) \<Longrightarrow> entry_ok e \<Longrightarrow> incident_move e status ev e'"
  by (metis fst_conv snd_conv observe_Inr observe_sample_moves)

subsection \<open>Runs of samples\<close>

text \<open>
  A history is the list of samples, newest first, with strictly falling times. The failure
  streak of a history is the number of newest samples that are all \<open>FAILED\<close> with no gap
  beyond the freshness between neighbours; its healthy stretch likewise, with the time it
  began.
\<close>

type_synonym sample = "string \<times> rat"

fun joined :: "int \<Rightarrow> rat \<Rightarrow> sample list \<Rightarrow> bool" where
  "joined f t [] = False"
| "joined f t ((st, u) # h) = (fsub t u \<le> of_int f)"

fun streak :: "int \<Rightarrow> sample list \<Rightarrow> int" where
  "streak f [] = 0"
| "streak f ((st, t) # h) =
     (if st = ''FAILED'' then 1 + (if joined f t h then streak f h else 0) else 0)"

fun stretch :: "int \<Rightarrow> sample list \<Rightarrow> int" where
  "stretch f [] = 0"
| "stretch f ((st, t) # h) =
     (if st = ''HEALTHY'' then 1 + (if joined f t h then stretch f h else 0) else 0)"

fun stretch_start :: "int \<Rightarrow> sample list \<Rightarrow> rat option" where
  "stretch_start f [] = None"
| "stretch_start f ((st, t) # h) =
     (if st = ''HEALTHY''
      then (case (if joined f t h then stretch_start f h else None) of None \<Rightarrow> Some t | Some u \<Rightarrow> Some u)
      else None)"

fun falling :: "sample list \<Rightarrow> bool" where
  "falling [] = True"
| "falling ((st, t) # h) = ((case h of [] \<Rightarrow> True | (_, u) # _ \<Rightarrow> u < t) \<and> falling h)"

text \<open>The entry after a history, oldest sample first, with the tracker's parameters.\<close>

fun track :: "int \<Rightarrow> int \<Rightarrow> int \<Rightarrow> int \<Rightarrow> sample list \<Rightarrow> entry" where
  "track k f n s [] = empty_entry"
| "track k f n s ((st, t) # h) = fst (observe_sample (track k f n s h) st t k f n s)"

text \<open>The sample before the newest one, as the entry remembers it.\<close>

lemma track_sample_at:
  "falling h \<Longrightarrow> sample_at (track k f n s h) = (case h of [] \<Rightarrow> None | (st, t) # _ \<Rightarrow> Some t)"
proof (induction h)
  case Nil
  then show ?case by (simp add: empty_entry_def)
next
  case (Cons x h)
  obtain st t where x: "x = (st, t)" by (cases x)
  have "sample_at (track k f n s h) = (case h of [] \<Rightarrow> None | (st, t) # _ \<Rightarrow> Some t)"
    using Cons by (simp add: x)
  then have "\<not> is_duplicate (track k f n s h) t"
    using Cons.prems by (simp add: x is_duplicate_def split: list.splits prod.splits)
  then show ?case by (simp add: x observe_sample_at)
qed

lemma track_not_duplicate:
  "falling ((st, t) # h) \<Longrightarrow> \<not> is_duplicate (track k f n s h) t"
  by (simp add: is_duplicate_def track_sample_at split: list.splits prod.splits)

lemma track_gap:
  "falling ((st, t) # h) \<Longrightarrow> is_gap (track k f n s h) t f \<longleftrightarrow> h \<noteq> [] \<and> \<not> joined f t h"
  by (auto simp: is_gap_def track_sample_at not_le split: list.splits prod.splits)

lemma track_failures: "falling h \<Longrightarrow> failures (track k f n s h) = streak f h"
proof (induction h)
  case Nil
  then show ?case by (simp add: empty_entry_def)
next
  case (Cons x h)
  obtain st t where x: "x = (st, t)" by (cases x)
  have f: "falling ((st, t) # h)" using Cons.prems by (simp add: x)
  have "failures (track k f n s h) = streak f h" using f by (intro Cons.IH) simp
  then show ?case
    using track_not_duplicate [OF f, of k f n s] track_gap [OF f, of k f n s]
    by (cases "h = []") (simp_all add: x observe_sample_failures)
qed

lemma no_incident_empty [simp]: "\<not> has_incident empty_entry"
  by (simp add: empty_entry_def has_incident_def)

text \<open>
  While an incident is open the entry's two stability fields are the healthy stretch of the
  history: a newly opened incident starts with none, and a closed one is not followed.
\<close>

lemma track_stretch:
  "falling h \<Longrightarrow> has_incident (track k f n s h) \<Longrightarrow>
   healthy_samples (track k f n s h) = stretch f h \<and>
   healthy_since (track k f n s h) = stretch_start f h"
proof (induction h)
  case (Cons x h)
  obtain st t where x: "x = (st, t)" by (cases x)
  have f: "falling ((st, t) # h)" using Cons.prems by (simp add: x)
  note d = track_not_duplicate [OF f, of k f n s] and g = track_gap [OF f, of k f n s]
  let ?e = "track k f n s h" and ?a = "accept_sample (track k f n s h) st t f"
  consider "st = ''FAILED''" | "st = ''HEALTHY''" | "st \<notin> {''FAILED'', ''HEALTHY''}" by blast
  then show ?case
  proof cases
    case 1
    then show ?thesis using d by (simp add: x observe_sample_def Let_def)
  next
    case 2
    then have o: "has_incident (fst (observe_healthy ?a t n s))"
      using Cons.prems(2) d by (simp add: x observe_sample_def Let_def)
    then have i: "has_incident ?e" using observe_healthy_open(1) by fastforce
    then have "h \<noteq> []" by auto
    moreover have "healthy_samples ?e = stretch f h \<and> healthy_since ?e = stretch_start f h"
      using f i by (intro Cons.IH) simp_all
    ultimately show ?thesis
      using 2 d g observe_healthy_open(2,3) [OF o]
      by (auto simp: x observe_sample_def Let_def accept_sample_stream split: option.splits)
  next
    case 3
    then show ?thesis using d by (simp add: x observe_sample_def Let_def accept_sample_stream)
  qed
qed simp

text \<open>The event of the newest sample of a history.\<close>

fun last_event :: "int \<Rightarrow> int \<Rightarrow> int \<Rightarrow> int \<Rightarrow> sample list \<Rightarrow> string" where
  "last_event k f n s [] = []"
| "last_event k f n s ((st, t) # h) = snd (observe_sample (track k f n s h) st t k f n s)"

lemma last_event_failed:
  assumes "falling ((st, t) # h)"
  shows "last_event k f n s ((st, t) # h) = ''FAILED'' \<longleftrightarrow>
           \<not> has_incident (track k f n s h) \<and> st = ''FAILED'' \<and> k \<le> streak f ((st, t) # h)"
proof -
  have "failures (track k f n s h) = streak f h" using assms by (simp add: track_failures)
  then show ?thesis
    using track_not_duplicate [OF assms, of k f n s] track_gap [OF assms, of k f n s]
    by (cases "h = []")
       (simp_all add: observe_sample_def Let_def accept_sample_stream observe_healthy_event)
qed

lemma last_event_recovered:
  assumes "falling ((st, t) # h)"
  shows "last_event k f n s ((st, t) # h) = ''RECOVERED'' \<longleftrightarrow>
           has_incident (track k f n s h) \<and> st = ''HEALTHY''
           \<and> n \<le> stretch f ((st, t) # h)
           \<and> of_int s \<le> fsub t (the (stretch_start f ((st, t) # h)))"
proof (cases "has_incident (track k f n s h)")
  case True
  have "healthy_samples (track k f n s h) = stretch f h"
    "healthy_since (track k f n s h) = stretch_start f h"
    using True assms by (simp_all add: track_stretch)
  moreover have "h \<noteq> []" using True by auto
  ultimately show ?thesis
    using True track_not_duplicate [OF assms, of k f n s] track_gap [OF assms, of k f n s]
    by (simp add: observe_sample_def Let_def accept_sample_stream observe_healthy_event
        add.commute split: option.splits)
next
  case False
  then show ?thesis
    using track_not_duplicate [OF assms, of k f n s]
    by (simp add: observe_sample_def Let_def observe_healthy_event)
qed

section \<open>Delivery under crashes\<close>

text \<open>
  The record on disk stops submissions once its status is neither \<open>NEW\<close> nor \<open>NOT_SENT\<close>;
  the code marks it \<open>ATTEMPTED\<close> before it calls the sender. A fresh record has no attempts
  and a refused one fewer than three.
\<close>

definition spent :: "delivery \<Rightarrow> alert \<Rightarrow> bool" where
  "spent d k = (alert_of d = k \<longrightarrow> d_status d \<notin> {NEW, NOT_SENT})"

definition delivery_ok :: "delivery \<Rightarrow> bool" where
  "delivery_ok d = (d_status d \<in> {NEW, NOT_SENT} \<longrightarrow> d_attempts d \<le> 2)"

definition attempts_left :: "delivery \<Rightarrow> alert \<Rightarrow> nat" where
  "attempts_left d k = (if spent d k then 0 else if alert_of d = k then 3 - d_attempts d else 0)"

lemma after_answer_fields [simp]:
  "alert_of (after_answer d now a) = alert_of d"
  "d_attempts (after_answer d now a) = d_attempts d"
  by (cases a; simp add: after_answer_def alert_of_def)+

lemma after_answer_status:
  "d_status (after_answer d now a) =
     (case a of Accepted \<Rightarrow> SENT | Refused \<Rightarrow> if 3 \<le> d_attempts d then EXHAUSTED else NOT_SENT
      | Raised \<Rightarrow> UNCERTAIN)"
  by (cases a) (simp_all add: after_answer_def)

lemma alert_of_update [simp]:
  "alert_of (d\<lparr>d_attempts := n, d_status := st\<rparr>) = alert_of d"
  by (simp add: alert_of_def)

lemma deliver_cases:
  obtains "deliver d (now, a) = []"
  | d1 where "d_status d \<in> {NEW, NOT_SENT}" "d_retry_after d \<le> now"
      "d1 = d\<lparr>d_attempts := d_attempts d + 1, d_status := ATTEMPTED\<rparr>"
      "deliver d (now, a) = [Persist d1, Send (alert_of d), Persist (after_answer d1 now a)]"
  by (cases "d_status d \<in> {NEW, NOT_SENT} \<and> \<not> now < d_retry_after d") (auto simp: Let_def)

lemma deliver_not_quiet: "deliver d e \<noteq> [Persist t]"
  by (cases e) (auto simp: Let_def)

lemma deliver_attempt:
  assumes "deliver d e = [Persist t1, Send j, Persist t2]"
  shows "d_status d \<in> {NEW, NOT_SENT}" "j = alert_of d"
    "t1 = d\<lparr>d_attempts := d_attempts d + 1, d_status := ATTEMPTED\<rparr>"
    "\<exists>now a. t2 = after_answer t1 now a"
  using assms by (cases e; auto simp: Let_def split: if_splits)+

interpretation mail: logged_attempt deliver spent delivery_ok attempts_left
proof
  fix d :: delivery and e :: "rat \<times> answer"
  obtain now a where e: "e = (now, a)" by (cases e)
  show "deliver d e = [] \<or> (\<exists>t. deliver d e = [Persist t]) \<or>
        (\<exists>t1 k t2. deliver d e = [Persist t1, Send k, Persist t2])"
    unfolding e by (rule deliver_cases [of d now a]) auto
next
  fix d t :: delivery and e :: "rat \<times> answer" and k
  assume "deliver d e = [Persist t]"
  then show "delivery_ok t" "spent t k" "attempts_left t k \<le> attempts_left d k"
    using deliver_not_quiet by blast+
next
  fix d t1 t2 :: delivery and e :: "rat \<times> answer" and j k
  assume ok: "delivery_ok d" and st: "deliver d e = [Persist t1, Send j, Persist t2]"
  note f = deliver_attempt [OF st]
  from f(4) obtain now a where t2: "t2 = after_answer t1 now a" by blast
  show "delivery_ok t1" "spent t1 j" using f by (simp_all add: delivery_ok_def spent_def)
  show "\<not> spent d j" using f by (simp add: spent_def)
  show "delivery_ok t2"
    using f by (cases a) (auto simp: t2 delivery_ok_def after_answer_status)
  show "spent d k \<Longrightarrow> spent t1 k" "spent d k \<Longrightarrow> spent t2 k"
    using f by (auto simp: t2 spent_def)
  show "attempts_left t1 k + (if j = k then 1 else 0) \<le> attempts_left d k"
    using f ok by (auto simp: attempts_left_def spent_def delivery_ok_def)
  show "attempts_left t2 k + (if j = k then 1 else 0) \<le> attempts_left d k"
    using f ok by (auto simp: t2 attempts_left_def spent_def delivery_ok_def)
qed

section \<open>Properties\<close>

text \<open>C4: A new sample of a target opens an incident exactly when none is open and it
  completes a failure streak: the newest \<open>failure_count\<close> samples are all \<open>FAILED\<close> and no two
  neighbours of them lie further apart than the freshness. The history is arbitrary.\<close>

theorem incident_opens_on_streak:
  assumes "falling ((st, t) # h)"
  shows "last_event k f n s ((st, t) # h) = ''FAILED'' \<longleftrightarrow>
           \<not> has_incident (track k f n s h) \<and> st = ''FAILED'' \<and> k \<le> streak f ((st, t) # h)"
  using assms by (rule last_event_failed)

lemma incident_opens_on_streak_witness:
  "last_event 2 600 2 3600 [(''FAILED'', 120), (''FAILED'', 60), (''HEALTHY'', 0)] = ''FAILED''"
  using incident_opens_on_streak [of "''FAILED''" 120 "[(''FAILED'', 60), (''HEALTHY'', 0)]" 2 600 2 3600]
  by (simp add: observe_sample_def is_duplicate_def accept_sample_def is_gap_def empty_entry_def
      observe_failed_def observe_healthy_def has_incident_def Let_def fsub_def)

text \<open>An open incident closes exactly on a healthy sample that ends a healthy stretch of
  at least \<open>recovery_samples\<close> samples without a gap, whose first and last sample lie at least
  \<open>recovery_seconds\<close> apart; a failure, an unknown sample or a gap starts the stretch again.\<close>

theorem incident_closes_on_stretch:
  assumes "falling ((st, t) # h)"
  shows "last_event k f n s ((st, t) # h) = ''RECOVERED'' \<longleftrightarrow>
           has_incident (track k f n s h) \<and> st = ''HEALTHY'' \<and> n \<le> stretch f ((st, t) # h)
           \<and> of_int s \<le> fsub t (the (stretch_start f ((st, t) # h)))"
  using assms by (rule last_event_recovered)

lemma incident_closes_on_stretch_witness:
  "last_event 1 600 2 300 [(''HEALTHY'', 400), (''HEALTHY'', 100), (''FAILED'', 0)] = ''RECOVERED''"
  using incident_closes_on_stretch [of "''HEALTHY''" 400 "[(''HEALTHY'', 100), (''FAILED'', 0)]" 1 600 2 300]
  by (simp add: observe_sample_def is_duplicate_def accept_sample_def is_gap_def empty_entry_def
      observe_failed_def observe_healthy_def has_incident_def Let_def fsub_def)

text \<open>C5: \<open>observe\<close> keeps the books of an entry consistent: incidents are numbered by
  \<open>sequence\<close>, the open one is the last, and the opening and closing times lie between 0 and
  the last sample. The Discord side refuses a state file for which this fails.\<close>

theorem observe_keeps_books:
  assumes "observe e status observed k f n s = Inr (e', event)" "entry_ok e"
  shows "entry_ok e'"
  using assms by (rule observe_ok)

lemma observe_keeps_books_witness:
  "entry_ok (fst (observe_sample empty_entry ''FAILED'' 7 1 600 2 3600))"
proof -
  let ?r = "observe_sample empty_entry ''FAILED'' 7 1 600 2 3600"
  have "observe empty_entry ''FAILED'' (PInt 7) 1 600 2 3600 = Inr (fst ?r, snd ?r)"
    by (simp add: observe_def STATES_def float_of_int_small float_range_small)
  then show ?thesis by (rule observe_keeps_books) simp
qed

text \<open>C6: A delivery whose submission was the last thing an invocation completed is never
  submitted again, whatever later invocations meet: the record was marked \<open>ATTEMPTED\<close> on disk
  before the mail server was called.\<close>

theorem interrupted_mail_not_replayed:
  assumes "delivery_ok d" "take n (deliver d e) = pre @ [Send k]"
  shows "Send k \<notin> set (runs deliver (disk d (take n (deliver d e))) rs)"
  using assms by (intro mail.no_replay [where post = "[]"]) simp_all

definition sample_delivery :: delivery where
  "sample_delivery = \<lparr>d_target = ''api'', d_event = ''FAILED'', d_incident = Some 1, d_attempts = 0,
     d_status = NEW, d_created_at = 100, d_retry_after = 0, d_severity = None\<rparr>"

lemma interrupted_mail_not_replayed_witness:
  "Send (''FAILED'', Some 1) \<notin>
     set (runs deliver (disk sample_delivery (take 2 (deliver sample_delivery (100, Refused)))) [((500, Accepted), 3)])"
proof (rule interrupted_mail_not_replayed)
  let ?d = "sample_delivery\<lparr>d_attempts := 1, d_status := ATTEMPTED\<rparr>"
  show "take 2 (deliver sample_delivery (100, Refused)) = [Persist ?d] @ [Send (''FAILED'', Some 1)]"
    by (simp add: sample_delivery_def alert_of_def Let_def)
qed (simp add: sample_delivery_def delivery_ok_def)

end
