(* ===== verification/DiscordService.thy ===== *)
theory DiscordService
  imports DiscordConfig LlmHealth
begin

text \<open>
  \<open>scripts/discord-ops-alerts.py\<close>, second part: reading the service monitor's state and
  summary (\<open>service_entry\<close>, \<open>collect_service_health\<close>). Both files are JSON values. A report
  of one dimension is \<open>None\<close> where the code returns the bare \<open>{'status': 'UNKNOWN'}\<close>, and
  otherwise a record; the numbers of a report are only compared afterwards, so they are kept
  as their exact values.
\<close>

record identity =
  s_status :: signal
  s_incident :: "int option"
  s_sequence :: int
  s_closed :: "int option"
  s_opened_at :: "rat option"
  s_closed_at :: "rat option"
  s_sample_at :: rat
  s_observed_at :: rat

definition MAX_SKEW :: rat where
  "MAX_SKEW = 5"

definition int_or_none :: "pyval \<Rightarrow> (int \<Rightarrow> bool) \<Rightarrow> int option res" where
  "int_or_none v ok =
     (if v = PNone then Inr None
      else if is_int v \<and> ok (the_int v) then Inr (Some (the_int v)) else Inl ValueError)"

definition stamp_if :: "bool \<Rightarrow> pyval \<Rightarrow> string \<Rightarrow> rat option res" where
  "stamp_if b entry k =
     (if b then bindR (bindR (indexR entry k) number) (\<lambda>t. Inr (Some t)) else Inr None)"

definition between :: "rat option \<Rightarrow> rat \<Rightarrow> bool" where
  "between t hi = (case t of None \<Rightarrow> True | Some x \<Rightarrow> 0 \<le> x \<and> x \<le> hi)"

definition service_entry :: "pyval \<Rightarrow> string \<Rightarrow> rat \<Rightarrow> rat \<Rightarrow> identity res" where
  "service_entry entry expected_status sample observed =
     bindR (check (is_dict entry \<and> is_string (get entry ''latest_status'') expected_status) ValueError) (\<lambda>_.
     bindR (bindR (indexR entry ''sample_at'') number) (\<lambda>told.
     bindR (check (told = sample) ValueError) (\<lambda>_.
     let seq = get_or entry ''sequence'' (PInt 0); n = the_int seq
     in bindR (check (is_int seq \<and> 0 \<le> n) ValueError) (\<lambda>_.
        bindR (int_or_none (get entry ''incident'') (\<lambda>i. i = n \<and> 1 \<le> i)) (\<lambda>inc.
        bindR (int_or_none (get entry ''closed_incident'')
                 (\<lambda>c. 1 \<le> c \<and> c \<le> n \<and> (case inc of None \<Rightarrow> True | Some i \<Rightarrow> c < i))) (\<lambda>shut.
        bindR (stamp_if (n \<noteq> 0) entry ''opened_at'') (\<lambda>opened.
        bindR (stamp_if (shut \<noteq> None) entry ''closed_at'') (\<lambda>shut_at.
        bindR (check (between opened sample \<and> between shut_at sample
                      \<and> \<not> (n \<noteq> 0 \<and> inc = None \<and> shut \<noteq> Some n)) ValueError) (\<lambda>_.
        Inr \<lparr>s_status = UNKNOWN, s_incident = inc, s_sequence = n, s_closed = shut, s_opened_at = opened,
             s_closed_at = shut_at, s_sample_at = sample, s_observed_at = observed\<rparr>)))))))))"

definition of_incident :: "int option \<Rightarrow> pyval" where
  "of_incident i = (case i of None \<Rightarrow> PNone | Some n \<Rightarrow> PInt n)"

text \<open>The relay correlation of the producer, checked again here.\<close>

definition correlation :: "pyval \<Rightarrow> pyval \<Rightarrow> string \<Rightarrow> string \<Rightarrow> unit res" where
  "correlation summary report status observer_status =
     (let sup_by = get report ''suppressed_by''
      in if sup_by = PNone then Inr ()
         else bindR (check (is_str sup_by) ValueError) (\<lambda>_.
              bindR (bindR (indexR summary ''sources'') (\<lambda>d. indexR d (the_str sup_by))) (\<lambda>parent.
              bindR (indexR parent ''status'') (\<lambda>ps.
              bindR (in_setR (get report ''unknown_reason'') [''RESULT_MISSING'', ''RESULT_STALE'']) (\<lambda>reason.
              check (alert_name (the_str sup_by) \<and> is_string ps ''OBSERVER_ERROR''
                     \<and> is_string (get report ''parent_status'') ''OBSERVER_ERROR'' \<and> reason
                     \<and> status = ''OBSERVER_ERROR'' \<and> observer_status = ''OBSERVER_ERROR'') ValueError)))))"

datatype verdict = Expired | Observed string | Withheld

definition raw_verdict :: "pyval \<Rightarrow> pyval \<Rightarrow> rat \<Rightarrow> string \<Rightarrow> rat \<Rightarrow> verdict res" where
  "raw_verdict source report now status sample =
     bindR (indexR report ''raw_status'') (\<lambda>raw.
     if get report ''unknown_reason'' = PNone then
       bindR (bindR (indexR report ''source_sample_at'') number) (\<lambda>original.
       bindR (check (original = sample) ValueError) (\<lambda>_.
       bindR (in_setR raw STATES) (\<lambda>known.
       let expected = (if in_tuple raw [''OBSERVER_ERROR'', ''BUDGET_LIMIT''] then ''OBSERVER_ERROR'' else the_str raw)
       in bindR (check (known \<and> status = expected) ValueError) (\<lambda>_.
          let age = float_sub now original
          in Inr (if - MAX_SKEW \<le> age \<and> age \<le> of_int (the_int (get source ''max_age''))
                  then Observed (the_str raw) else Expired)))))
     else bindR (check (is_string raw ''UNKNOWN'' \<and> status = ''OBSERVER_ERROR'') ValueError) (\<lambda>_. Inr Withheld))"

definition signal_of :: "identity \<Rightarrow> bool \<Rightarrow> identity" where
  "signal_of r good = r\<lparr>s_status := (if s_incident r \<noteq> None then ALARM else if good then NORMAL else UNKNOWN)\<rparr>"

definition observed_limit :: "pyval \<Rightarrow> rat \<Rightarrow> rat" where
  "observed_limit v t = (if is_int v then t + 30 else fadd t 30)"

type_synonym service_pair = "identity option \<times> identity option"

definition read_service :: "pyval \<Rightarrow> rat \<Rightarrow> pyval \<Rightarrow> pyval \<Rightarrow> service_pair res" where
  "read_service source now state summary =
     bindR (indexR summary ''observed_at'') (\<lambda>ov.
     bindR (number ov) (\<lambda>observed.
     bindR (check (py_eq (get summary ''version'') (PInt 1)) ValueError) (\<lambda>_.
     bindR (bindR (indexR state ''last_collection'') number) (\<lambda>last.
     bindR (check (last = observed \<and> - MAX_SKEW \<le> float_sub now observed \<and> float_sub now observed \<le> 180)
                  ValueError) (\<lambda>_.
     let name = the_str (get source ''source_name'')
     in bindR (bindR (indexR state ''sources'') (\<lambda>d. indexR d name)) (\<lambda>entry.
        bindR (bindR (indexR summary ''sources'') (\<lambda>d. indexR d name)) (\<lambda>report.
        bindR (indexR report ''status'') (\<lambda>st.
        bindR (check (py_eq (get report ''severity'') (get source ''severity'')
                      \<and> (get report ''severity'' = PNone \<or> is_string (get report ''severity'') ''warning''))
                     ValueError) (\<lambda>_.
        bindR (in_setR st [''HEALTHY'', ''FAILED'', ''LOADING'', ''OBSERVER_ERROR'']) (\<lambda>known.
        bindR (check known ValueError) (\<lambda>_.
        let status = the_str st
        in bindR (bindR (indexR report ''sample_at'') number) (\<lambda>sample.
           bindR (check (0 \<le> sample \<and> sample \<le> observed_limit ov observed) ValueError) (\<lambda>_.
           bindR (service_entry entry status sample observed) (\<lambda>condition.
           bindR (indexR report ''observer_status'') (\<lambda>ost.
           bindR (in_setR ost [''HEALTHY'', ''FAILED'', ''OBSERVER_ERROR'']) (\<lambda>oknown.
           bindR (check oknown ValueError) (\<lambda>_.
           let observer_status = the_str ost
           in bindR (bindR (indexR entry ''observer'') (\<lambda>oe. service_entry oe observer_status observed observed)) (\<lambda>observer.
              bindR (check (py_eq (get report ''incident'') (of_incident (s_incident condition))
                            \<and> py_eq (get report ''observer_incident'') (of_incident (s_incident observer)))
                           ValueError) (\<lambda>_.
              bindR (correlation summary report status observer_status) (\<lambda>_.
              bindR (raw_verdict source report now status sample) (\<lambda>verdict.
              let condition' = (case verdict of
                      Observed raw \<Rightarrow> if raw \<in> {''HEALTHY'', ''FAILED''} then signal_of condition (raw = ''HEALTHY'')
                                      else condition
                    | _ \<Rightarrow> condition);
                  observer' = (if get report ''suppressed_by'' = PNone
                               then signal_of observer (observer_status = ''HEALTHY'') else observer)
              in Inr (case verdict of Expired \<Rightarrow> (None, None) | _ \<Rightarrow> (Some condition', Some observer'))
              )))))))))))))))))))))"

definition collect_service_health :: "pyval \<Rightarrow> rat \<Rightarrow> (pyval \<times> pyval) option \<Rightarrow> service_pair res" where
  "collect_service_health source now snapshot =
     (case snapshot of
        None \<Rightarrow> Inr (None, None)
      | Some (state, summary) \<Rightarrow>
          (case read_service source now state summary of
             Inr r \<Rightarrow> Inr r
           | Inl e \<Rightarrow> if signal_error e then Inr (None, None) else Inl e))"

text \<open>Both files are read twice and parsed only when the bytes did not change in between.\<close>

definition service_snapshot ::
  "(string \<Rightarrow> nat \<Rightarrow> string res) \<Rightarrow> (string \<Rightarrow> pyval res) \<Rightarrow> pyval \<Rightarrow> (pyval \<times> pyval) option res" where
  "service_snapshot file loads source =
     (let p = the_str (get source ''path''); q = the_str (get source ''summary_path'');
          m = bindR (file p 0) (\<lambda>a. bindR (file q 0) (\<lambda>b. bindR (file p 1) (\<lambda>c. bindR (file q 1) (\<lambda>d.
              bindR (check ((a, b) = (c, d)) ValueError) (\<lambda>_.
              bindR (loads a) (\<lambda>state. bindR (loads b) (\<lambda>summary. Inr (state, summary))))))))
      in case m of
           Inr r \<Rightarrow> Inr (Some r)
         | Inl e \<Rightarrow> if signal_error e \<and> e \<noteq> KeyError \<and> e \<noteq> SubprocessError then Inr None else Inl e)"

text \<open>Whether an outbox item still says what a report says.\<close>

record service_key =
  k_event :: signal
  k_incident :: "int option"
  k_opened_at :: "rat option"
  k_closed_at :: "rat option"

definition service_matches :: "service_key \<Rightarrow> identity option \<Rightarrow> bool" where
  "service_matches k report =
     (case report of
        None \<Rightarrow> False
      | Some r \<Rightarrow>
          s_status r \<noteq> UNKNOWN
          \<and> (if k_event k = ALARM
              then s_status r = ALARM \<and> k_incident k = s_incident r \<and> k_opened_at k = s_opened_at r
              else s_status r = NORMAL \<and> s_incident r = None \<and> k_incident k = s_closed r
                   \<and> k_closed_at k = s_closed_at r))"

section \<open>What an accepted entry says\<close>

lemma service_entry_sound:
  assumes "service_entry entry st sample observed = Inr r"
  shows "s_status r = UNKNOWN" "0 \<le> s_sequence r" "s_sample_at r = sample" "s_observed_at r = observed"
    "s_incident r \<noteq> None \<Longrightarrow> s_incident r = Some (s_sequence r) \<and> 1 \<le> s_sequence r"
    "s_closed r = Some c \<Longrightarrow> 1 \<le> c \<and> c \<le> s_sequence r \<and> (s_incident r \<noteq> None \<longrightarrow> c < s_sequence r)"
    "0 < s_sequence r \<Longrightarrow> s_incident r = None \<Longrightarrow> s_closed r = Some (s_sequence r)"
    "0 < s_sequence r \<longleftrightarrow> s_opened_at r \<noteq> None" "s_closed r \<noteq> None \<longleftrightarrow> s_closed_at r \<noteq> None"
    "between (s_opened_at r) sample" "between (s_closed_at r) sample"
proof -
  obtain n inc shut opened shut_at where r: "r = \<lparr>s_status = UNKNOWN, s_incident = inc, s_sequence = n,
      s_closed = shut, s_opened_at = opened, s_closed_at = shut_at, s_sample_at = sample,
      s_observed_at = observed\<rparr>" and n: "0 \<le> n"
    and inc: "int_or_none (get entry ''incident'') (\<lambda>i. i = n \<and> 1 \<le> i) = Inr inc"
    and shut: "int_or_none (get entry ''closed_incident'')
       (\<lambda>c. 1 \<le> c \<and> c \<le> n \<and> (case inc of None \<Rightarrow> True | Some i \<Rightarrow> c < i)) = Inr shut"
    and opened: "stamp_if (n \<noteq> 0) entry ''opened_at'' = Inr opened"
    and ct: "stamp_if (shut \<noteq> None) entry ''closed_at'' = Inr shut_at"
    and ok: "between opened sample \<and> between shut_at sample \<and> \<not> (n \<noteq> 0 \<and> inc = None \<and> shut \<noteq> Some n)"
    using assms unfolding service_entry_def Let_def bindR_eq_Inr check_eq_Inr sum.inject by blast
  have i: "inc \<noteq> None \<Longrightarrow> inc = Some n \<and> 1 \<le> n" using inc by (auto simp: int_or_none_def split: if_splits)
  have c: "shut = Some c \<Longrightarrow> 1 \<le> c \<and> c \<le> n \<and> (inc \<noteq> None \<longrightarrow> c < n)" for c
    using shut i by (auto simp: int_or_none_def split: if_splits option.splits)
  have o: "n \<noteq> 0 \<longleftrightarrow> opened \<noteq> None" "shut \<noteq> None \<longleftrightarrow> shut_at \<noteq> None"
    using opened ct by (auto simp: stamp_if_def split: if_splits)
  show "s_status r = UNKNOWN" "0 \<le> s_sequence r" "s_sample_at r = sample" "s_observed_at r = observed"
    "s_incident r \<noteq> None \<Longrightarrow> s_incident r = Some (s_sequence r) \<and> 1 \<le> s_sequence r"
    "s_closed r = Some c \<Longrightarrow> 1 \<le> c \<and> c \<le> s_sequence r \<and> (s_incident r \<noteq> None \<longrightarrow> c < s_sequence r)"
    "0 < s_sequence r \<Longrightarrow> s_incident r = None \<Longrightarrow> s_closed r = Some (s_sequence r)"
    "0 < s_sequence r \<longleftrightarrow> s_opened_at r \<noteq> None" "s_closed r \<noteq> None \<longleftrightarrow> s_closed_at r \<noteq> None"
    "between (s_opened_at r) sample" "between (s_closed_at r) sample"
    using n i c o ok by (auto simp: r)
qed

end
