(* ===== verification/DiscordOutbox.thy ===== *)
theory DiscordOutbox
  imports DiscordService Delivery
begin

text \<open>
  \<open>scripts/discord-ops-alerts.py\<close>, third part: the outbox. The state file is a record
  (\<open>alerts\<close>) of the observation cursors, the queued items and the shared retry time; the
  keys of an item that only exist for service items are one optional field. A message is kept
  as what it says (headline, host, source, time), not as its Korean text. The transport is a
  parameter: \<open>send_discord\<close> maps what the HTTP exchange gave to the outcome the code returns.
\<close>

section \<open>State\<close>

datatype outcome = Pending | Attempted | Sent | Uncertain | Failed | Superseded

datatype headline =
    FreshnessRecovered | FreshnessLate | ObserverRecovered | ObserverFailed
  | WarningCleared | Warning | BackupCheckRecovered | BackupCheckLate | Recovered | Failure

record message =
  msg_headline :: headline
  msg_host :: string
  msg_source :: string
  msg_time :: rat
  msg_backup_note :: bool

datatype content = Notice message | ConnectionTest string

record service_item =
  q_source :: string
  q_dimension :: string
  q_key :: service_key

record item =
  i_id :: string
  i_content :: content
  i_delivery :: outcome
  i_attempts :: int
  i_next_attempt :: rat
  i_code :: "string option"
  i_message_id :: "string option"
  i_rate_limits :: int
  i_service :: "service_item option"

record receipt =
  a_incident :: "int option"
  a_opened_at :: "rat option"
  a_delivery :: outcome

record cursor =
  c_status :: signal
  c_sequence :: int
  c_identity :: "identity option"
  c_receipt :: "receipt option"

record alerts =
  al_observations :: "(string \<times> cursor) list"
  al_outbox :: "item list"
  al_retry_after :: rat
  al_last_run :: rat
  al_test_enqueued :: bool

definition new_state :: alerts where
  "new_state = \<lparr>al_observations = [], al_outbox = [], al_retry_after = 0, al_last_run = 0, al_test_enqueued = False\<rparr>"

definition cursor_of :: "alerts \<Rightarrow> string \<Rightarrow> cursor option" where
  "cursor_of st key = map_of (al_observations st) key"

definition old_sequence :: "cursor option \<Rightarrow> int" where
  "old_sequence old = (case old of None \<Rightarrow> 0 | Some c \<Rightarrow> c_sequence c)"

definition alert_source_name :: "pyval \<Rightarrow> string" where
  "alert_source_name source = the_str (get source ''name'')"

definition obs_key :: "string \<Rightarrow> string \<Rightarrow> string" where
  "obs_key name dimension = name @ '':'' @ dimension"

definition item_id :: "string \<Rightarrow> int \<Rightarrow> string" where
  "item_id key seq = key @ '':'' @ str_of_int seq"

definition fresh_item :: "string \<Rightarrow> content \<Rightarrow> rat \<Rightarrow> item" where
  "fresh_item name c now =
     \<lparr>i_id = name, i_content = c, i_delivery = Pending, i_attempts = 0, i_next_attempt = now, i_code = None,
      i_message_id = None, i_rate_limits = 0, i_service = None\<rparr>"

section \<open>Queueing\<close>

definition message_content :: "pyval \<Rightarrow> pyval \<Rightarrow> string \<Rightarrow> signal \<Rightarrow> rat \<Rightarrow> content" where
  "message_content config source dimension current now =
     (let recovered = (current = NORMAL);
          kind = get source ''type'';
          h = (if dimension = ''freshness'' then if recovered then FreshnessRecovered else FreshnessLate
               else if is_string kind ''service_health'' \<and> dimension = ''observer''
               then if recovered then ObserverRecovered else ObserverFailed
               else if is_string kind ''service_health'' \<and> is_string (get source ''severity'') ''warning''
               then if recovered then WarningCleared else Warning
               else if is_string kind ''db_cache'' then if recovered then BackupCheckRecovered else BackupCheckLate
               else if recovered then Recovered else Failure)
      in Notice \<lparr>msg_headline = h, msg_host = the_str (get config ''host_label''),
                 msg_source = the_str (get source ''label''), msg_time = now,
                 msg_backup_note = is_string kind ''db_cache''\<rparr>)"

definition enqueue :: "alerts \<Rightarrow> pyval \<Rightarrow> pyval \<Rightarrow> string \<Rightarrow> signal \<Rightarrow> rat \<Rightarrow> alerts" where
  "enqueue st config source dimension current now =
     (let key = obs_key (alert_source_name source) dimension; old = cursor_of st key
      in if current = UNKNOWN \<or> map_option c_status old = Some current then st
         else
           let seq = old_sequence old + 1;
               st = st\<lparr>al_observations := AList.update key
                         \<lparr>c_status = current, c_sequence = seq, c_identity = None, c_receipt = None\<rparr>
                         (al_observations st)\<rparr>
           in if old = None \<and> current = NORMAL then st
              else st\<lparr>al_outbox := al_outbox st
                        @ [fresh_item (item_id key seq) (message_content config source dimension current now) now]\<rparr>)"

text \<open>A report older than the cursor, or one that contradicts it, is refused.\<close>

definition contradicts :: "identity \<Rightarrow> cursor \<Rightarrow> bool" where
  "contradicts r old =
     (case c_identity old of
        None \<Rightarrow> s_sequence r < 0 \<or> s_sample_at r < 0 \<or> s_observed_at r < 0
                \<or> s_closed r = None \<and> s_closed_at r \<noteq> None
      | Some o' \<Rightarrow>
          s_sequence r < s_sequence o' \<or> s_sample_at r < s_sample_at o' \<or> s_observed_at r < s_observed_at o'
          \<or> s_sequence r = s_sequence o' \<and> s_opened_at r \<noteq> s_opened_at o'
          \<or> s_closed r = s_closed o' \<and> s_closed_at r \<noteq> s_closed_at o')"

definition of_source :: "string \<Rightarrow> string \<Rightarrow> item \<Rightarrow> bool" where
  "of_source name dimension it =
     (case i_service it of None \<Rightarrow> False | Some q \<Rightarrow> q_source q = name \<and> q_dimension q = dimension)"

definition item_key :: "item \<Rightarrow> service_key" where
  "item_key it = q_key (the (i_service it))"

definition or_zero :: "int option \<Rightarrow> int" where
  "or_zero i = (case i of None \<Rightarrow> 0 | Some n \<Rightarrow> n)"

text \<open>Renewed evidence supersedes what has not been sent.\<close>

definition supersede_item :: "string \<Rightarrow> string \<Rightarrow> identity \<Rightarrow> item \<Rightarrow> item" where
  "supersede_item name dimension r it =
     (if \<not> of_source name dimension it \<or> i_delivery it \<noteq> Pending then it
      else
        let k = item_key it
        in if k_event k = NORMAL \<and> \<not> service_matches k (Some r)
           then it\<lparr>i_delivery := Superseded, i_code := Some ''RECOVERY_INTERRUPTED''\<rparr>
           else if k_event k = ALARM \<and> or_zero (k_incident k) \<le> or_zero (s_closed r) \<and> k_incident k \<noteq> s_incident r
           then it\<lparr>i_delivery := Superseded, i_code := Some ''INCIDENT_CLOSED''\<rparr>
           else it)"

definition kept_receipt :: "identity \<Rightarrow> cursor option \<Rightarrow> receipt option" where
  "kept_receipt r old =
     (case old of
        None \<Rightarrow> None
      | Some c \<Rightarrow>
          (case c_receipt c of
             None \<Rightarrow> None
           | Some a \<Rightarrow> if a_incident a \<in> {s_incident r, s_closed r} then Some a else None))"

definition cursor_incident :: "cursor option \<Rightarrow> int option" where
  "cursor_incident old =
     (case old of None \<Rightarrow> None | Some c \<Rightarrow> (case c_identity c of None \<Rightarrow> None | Some o' \<Rightarrow> s_incident o'))"

text \<open>The alarm a recovery refers to was handed over, by the cursor's receipt or an item.\<close>

definition alarm_receipted :: "identity \<Rightarrow> receipt option \<Rightarrow> bool" where
  "alarm_receipted r a =
     (case a of
        None \<Rightarrow> False
      | Some a \<Rightarrow> a_incident a = s_closed r \<and> a_opened_at a = s_opened_at r \<and> a_delivery a \<in> {Sent, Uncertain})"

definition alarm_in_outbox :: "identity \<Rightarrow> item list \<Rightarrow> bool" where
  "alarm_in_outbox r matching =
     list_ex (\<lambda>it. k_event (item_key it) = ALARM \<and> k_incident (item_key it) = s_closed r
                   \<and> i_delivery it \<in> {Sent, Uncertain, Attempted}) matching"

definition service_event :: "identity \<Rightarrow> cursor option \<Rightarrow> receipt option \<Rightarrow> item list \<Rightarrow> bool" where
  "service_event r old a matching =
     (if s_status r = NORMAL \<and> map_option c_status old = Some ALARM
      then cursor_incident old = s_closed r \<and> (alarm_receipted r a \<or> alarm_in_outbox r matching)
      else s_status r = ALARM \<and> (map_option c_status old \<noteq> Some ALARM \<or> cursor_incident old \<noteq> s_incident r))"

definition service_item_of :: "pyval \<Rightarrow> string \<Rightarrow> identity \<Rightarrow> service_item" where
  "service_item_of source dimension r =
     \<lparr>q_source = alert_source_name source, q_dimension = dimension,
      q_key = \<lparr>k_event = s_status r,
               k_incident = (if s_status r = ALARM then s_incident r else s_closed r),
               k_opened_at = s_opened_at r, k_closed_at = s_closed_at r\<rparr>\<rparr>"

definition enqueue_service_health ::
  "alerts \<Rightarrow> pyval \<Rightarrow> pyval \<Rightarrow> string \<Rightarrow> identity option \<Rightarrow> rat \<Rightarrow> alerts \<times> bool" where
  "enqueue_service_health st config source dimension report now =
     (let name = alert_source_name source; key = obs_key name dimension; old = cursor_of st key
      in case report of
           None \<Rightarrow> (st, False)
         | Some r \<Rightarrow>
             if (case old of None \<Rightarrow> False | Some c \<Rightarrow> contradicts r c) then (st, False)
             else
               let st = st\<lparr>al_outbox := map (supersede_item name dimension r) (al_outbox st)\<rparr>
               in if s_status r = UNKNOWN then (st, False)
                  else
                    let a = kept_receipt r old;
                        event = service_event r old a (filter (of_source name dimension) (al_outbox st));
                        seq = old_sequence old + (if event then 1 else 0);
                        st = st\<lparr>al_observations := AList.update key
                                  \<lparr>c_status = s_status r, c_sequence = seq, c_identity = Some r, c_receipt = a\<rparr>
                                  (al_observations st)\<rparr>
                    in (if event
                        then st\<lparr>al_outbox := al_outbox st
                                 @ [(fresh_item (item_id key seq)
                                       (message_content config source dimension (s_status r) now) now)
                                      \<lparr>i_service := Some (service_item_of source dimension r)\<rparr>]\<rparr>
                        else st, True))"

section \<open>The transport's outcome\<close>

record send_result =
  sr_delivery :: outcome
  sr_code :: string
  sr_retry_after :: "rat option"
  sr_message_id :: "string option"

definition result_of :: "outcome \<Rightarrow> string \<Rightarrow> send_result" where
  "result_of d c = \<lparr>sr_delivery = d, sr_code = c, sr_retry_after = None, sr_message_id = None\<rparr>"

text \<open>
  What the exchange gave: a reply with its status, the length of the body read and the parsed
  body; an HTTP error with its code and the parsed body; or a failure of the connection.
\<close>

datatype exchange =
    Reply int nat "pyval res"
  | Refusal int "pyval res"
  | NoReply exn

fun transport_error :: "exn \<Rightarrow> bool" where
  "transport_error OSError = True"
| "transport_error FileNotFoundError = True"
| "transport_error ValueError = True"
| "transport_error TypeError = True"
| "transport_error _ = False"

definition reply_result :: "int \<Rightarrow> nat \<Rightarrow> pyval res \<Rightarrow> send_result res" where
  "reply_result status len body =
     (if status \<noteq> 200 \<or> 65536 < len then Inr (result_of Uncertain ''INVALID_SUCCESS'')
      else bindR body (\<lambda>msg.
        let mid = (if is_dict msg then get msg ''id'' else PNone)
        in if is_str mid \<and> class_match is_digit 16 22 (the_str mid)
           then Inr ((result_of Sent ''ACKNOWLEDGED'')\<lparr>sr_message_id := Some (the_str mid)\<rparr>)
           else Inr (result_of Uncertain ''NO_MESSAGE_ID'')))"

definition rate_limit_result :: "pyval res \<Rightarrow> send_result res" where
  "rate_limit_result body =
     (case bindR body (\<lambda>v. bindR (indexR v ''retry_after'') (\<lambda>d. bindR (number d) (\<lambda>delay.
             bindR (check (0 \<le> delay \<and> delay \<le> 604800) ValueError) (\<lambda>_. Inr delay)))) of
        Inr delay \<Rightarrow> Inr ((result_of Pending ''RATE_LIMITED'')\<lparr>sr_retry_after := Some (max 1 delay)\<rparr>)
      | Inl e \<Rightarrow> if transport_error e \<or> e = KeyError then Inr (result_of Failed ''INVALID_RATE_LIMIT'') else Inl e)"

definition refusal_result :: "int \<Rightarrow> pyval res \<Rightarrow> send_result res" where
  "refusal_result code' body =
     (if code' = 429 then rate_limit_result body
      else if 400 \<le> code' \<and> code' < 500 then Inr (result_of Pending ''REJECTED'')
      else Inr (result_of (if 500 \<le> code' then Uncertain else Failed) ''HTTP_UNCONFIRMED''))"

definition send_discord :: "string \<Rightarrow> exchange \<Rightarrow> send_result res" where
  "send_discord webhook x =
     bindR (check (WEBHOOK webhook) (AlertError ''WEBHOOK'')) (\<lambda>_.
     case x of
       Refusal code' body \<Rightarrow> refusal_result code' body
     | Reply status len body \<Rightarrow>
         (case reply_result status len body of
            Inr r \<Rightarrow> Inr r
          | Inl e \<Rightarrow> if transport_error e then Inr (result_of Uncertain ''RESPONSE_UNKNOWN'') else Inl e)
     | NoReply e \<Rightarrow> if transport_error e then Inr (result_of Uncertain ''RESPONSE_UNKNOWN'') else Inl e)"

end
