(* ===== verification/DiscordDispatch.thy ===== *)
theory DiscordDispatch
  imports DiscordOutbox
begin

text \<open>
  \<open>scripts/discord-ops-alerts.py\<close>, fourth part: \<open>dispatch\<close> and \<open>run\<close>. The effects of a run
  are the writes of the state file and the submissions, each by the id of its item. The loops
  walk over the positions of the outbox, whose length they do not change.
\<close>

section \<open>Dispatching\<close>

definition set_item :: "alerts \<Rightarrow> nat \<Rightarrow> item \<Rightarrow> alerts" where
  "set_item st i it = st\<lparr>al_outbox := (al_outbox st)[i := it]\<rparr>"

definition remember_service_delivery :: "alerts \<Rightarrow> item \<Rightarrow> alerts" where
  "remember_service_delivery st it =
     (case i_service it of
        None \<Rightarrow> st
      | Some q \<Rightarrow>
          if k_event (q_key q) = ALARM \<and> i_delivery it \<in> {Sent, Uncertain} then
            let key = obs_key (q_source q) (q_dimension q)
            in (case cursor_of st key of
                  None \<Rightarrow> st
                | Some c \<Rightarrow>
                    (case c_identity c of
                       None \<Rightarrow> st
                     | Some r \<Rightarrow>
                         if s_incident r = k_incident (q_key q) \<and> s_opened_at r = k_opened_at (q_key q)
                         then st\<lparr>al_observations := AList.update key
                                  (c\<lparr>c_receipt := Some \<lparr>a_incident = k_incident (q_key q),
                                       a_opened_at = k_opened_at (q_key q), a_delivery = i_delivery it\<rparr>\<rparr>)
                                  (al_observations st)\<rparr>
                         else st))
          else st)"

definition test_id :: string where
  "test_id = ''connection-test''"

record dispatch_env =
  de_now :: rat
  de_only_test :: bool
  de_active :: "string list"
  de_eligible :: "string list"
  de_sender :: "item \<Rightarrow> send_result res"

definition skipped_by_test :: "dispatch_env \<Rightarrow> item \<Rightarrow> bool" where
  "skipped_by_test env it = (de_only_test env \<and> i_id it \<noteq> test_id)"

text \<open>First loop: an attempt that was never concluded is uncertain.\<close>

definition interrupt :: "alerts \<Rightarrow> nat \<Rightarrow> alerts" where
  "interrupt st i =
     (let it = (al_outbox st ! i)\<lparr>i_delivery := Uncertain, i_code := Some ''INTERRUPTED''\<rparr>
      in remember_service_delivery (set_item st i it) it)"

fun interrupts :: "dispatch_env \<Rightarrow> alerts \<Rightarrow> nat list \<Rightarrow> (alerts, string) effect list" where
  "interrupts env st [] = []"
| "interrupts env st (i # is) =
     (let it = al_outbox st ! i
      in if \<not> skipped_by_test env it \<and> i_delivery it = Attempted
         then (let st' = interrupt st i in Persist st' # interrupts env st' is)
         else interrupts env st is)"

text \<open>Second loop.\<close>

definition item_source :: "item \<Rightarrow> string" where
  "item_source it =
     (case i_service it of None \<Rightarrow> rsplit2_head CHR '':'' (i_id it) | Some q \<Rightarrow> q_source q)"

definition due :: "dispatch_env \<Rightarrow> item \<Rightarrow> bool" where
  "due env it =
     ((i_id it = test_id \<or> item_source it \<in> set (de_active env))
      \<and> (i_service it = None \<or> i_id it \<in> set (de_eligible env))
      \<and> \<not> skipped_by_test env it
      \<and> i_delivery it = Pending \<and> i_next_attempt it \<le> de_now env)"

definition exhausted :: "item \<Rightarrow> item" where
  "exhausted it = it\<lparr>i_delivery := Failed, i_code := Some ''RETRIES_EXHAUSTED''\<rparr>"

definition attempt :: "item \<Rightarrow> item" where
  "attempt it = it\<lparr>i_attempts := i_attempts it + 1, i_delivery := Attempted\<rparr>"

definition send_outcome :: "dispatch_env \<Rightarrow> item \<Rightarrow> send_result" where
  "send_outcome env it =
     (case de_sender env it of Inr r \<Rightarrow> r | Inl _ \<Rightarrow> result_of Uncertain ''SENDER_INTERRUPTED'')"

definition rate_limited :: "send_result \<Rightarrow> bool" where
  "rate_limited r = (sr_code r = ''RATE_LIMITED'')"

definition concluded :: "item \<Rightarrow> send_result \<Rightarrow> rat \<Rightarrow> item" where
  "concluded it r now =
     (let it = it\<lparr>i_delivery := sr_delivery r, i_code := Some (sr_code r),
                  i_message_id := (case sr_message_id r of None \<Rightarrow> i_message_id it | Some m \<Rightarrow> Some m)\<rparr>;
          it = (if rate_limited r then it\<lparr>i_attempts := i_attempts it - 1, i_rate_limits := i_rate_limits it + 1\<rparr> else it)
      in if i_delivery it = Pending then
           let delay = (case sr_retry_after r of Some d \<Rightarrow> d | None \<Rightarrow> if i_attempts it = 1 then 60 else 300);
               it = it\<lparr>i_next_attempt := fadd now (fl delay)\<rparr>
           in if MAX_ATTEMPTS \<le> i_attempts it then exhausted it else it
         else it)"

definition retry_shared :: "alerts \<Rightarrow> item \<Rightarrow> send_result \<Rightarrow> alerts" where
  "retry_shared st it r =
     (if sr_delivery r = Pending \<and> rate_limited r then st\<lparr>al_retry_after := i_next_attempt it\<rparr> else st)"

definition conclude :: "dispatch_env \<Rightarrow> alerts \<Rightarrow> nat \<Rightarrow> item \<Rightarrow> send_result \<Rightarrow> alerts" where
  "conclude env st i it r =
     (let it' = concluded it r (de_now env)
      in remember_service_delivery (retry_shared (set_item st i it') it' r) it')"

text \<open>The result is the effects and how many messages were acknowledged.\<close>

fun attempts :: "dispatch_env \<Rightarrow> nat \<Rightarrow> alerts \<Rightarrow> nat list \<Rightarrow> (alerts, string) effect list \<times> nat" where
  "attempts env k st [] = ([], 0)"
| "attempts env k st (i # is) =
     (let it = al_outbox st ! i
      in if \<not> due env it then attempts env k st is
         else if 3 \<le> k then ([], 0)
         else if MAX_ATTEMPTS \<le> i_attempts it then
           (let st' = set_item st i (exhausted it); (es, n) = attempts env k st' is in (Persist st' # es, n))
         else
           (let it1 = attempt it; st1 = set_item st i it1; r = send_outcome env it1;
                st2 = conclude env st1 i it1 r;
                m = (if i_delivery (al_outbox st2 ! i) = Sent then 1 else 0);
                (es, n) = (if rate_limited r then ([], 0) else attempts env (Suc k) st2 is)
            in (Persist st1 # Send (i_id it1) # Persist st2 # es, m + n)))"

definition dispatch :: "dispatch_env \<Rightarrow> alerts \<Rightarrow> (alerts, string) effect list \<times> nat" where
  "dispatch env st =
     (let positions = [0..<length (al_outbox st)]; es = interrupts env st positions; st = disk st es
      in if de_now env < al_retry_after st then (es, 0)
         else (let (fs, n) = attempts env 0 st positions in (es @ fs, n)))"

section \<open>A run\<close>

datatype collected = Signals signal signal | Service service_pair

text \<open>
  What a run meets: configuration, clock, the webhook, whether it is the connection test, the
  frozen pairs of producer files, the local signals, and the transport.
\<close>

record alert_env =
  ae_config :: pyval
  ae_now :: rat
  ae_webhook :: string
  ae_test :: bool
  ae_snapshot :: "string \<times> string \<Rightarrow> (pyval \<times> pyval) option"
  ae_signals :: signal_env
  ae_transport :: "item \<Rightarrow> exchange"

definition alert_sources :: "alert_env \<Rightarrow> pyval list" where
  "alert_sources env = the_list (get (ae_config env) ''sources'')"

definition observe_source :: "alert_env \<Rightarrow> pyval \<Rightarrow> collected res" where
  "observe_source env source =
     (if is_service_health source
      then bindR (collect_service_health source (ae_now env)
                    (ae_snapshot env (the_str (get source ''path''), the_str (get source ''summary_path''))))
             (\<lambda>p. Inr (Service p))
      else bindR (alert_collect source (ae_signals env) (ae_now env)) (\<lambda>(c, f). Inr (Signals c f)))"

definition observe_all :: "alert_env \<Rightarrow> (pyval \<times> collected) list res" where
  "observe_all env =
     foldR (\<lambda>source acc. bindR (observe_source env source) (\<lambda>c. Inr (acc @ [(source, c)])))
       (alert_sources env) []"

definition identity_signal :: "identity option \<Rightarrow> signal" where
  "identity_signal r = (case r of None \<Rightarrow> UNKNOWN | Some r \<Rightarrow> s_status r)"

text \<open>\<open>inspect\<close> prints one classification per dimension and touches nothing.\<close>

definition inspect_run :: "alert_env \<Rightarrow> (string \<times> signal \<times> signal) list res" where
  "inspect_run env =
     bindR (observe_all env) (\<lambda>obs. Inr (map (\<lambda>(source, c).
       (alert_source_name source, (case c of
          Signals a b \<Rightarrow> (a, b) | Service (a, b) \<Rightarrow> (identity_signal a, identity_signal b)))) obs))"

definition finished_item :: "item \<Rightarrow> bool" where
  "finished_item it = (i_delivery it \<in> {Sent, Superseded})"

definition last_of :: "nat \<Rightarrow> 'a list \<Rightarrow> 'a list" where
  "last_of n xs = drop (length xs - n) xs"

definition trim_outbox :: "alerts \<Rightarrow> alerts" where
  "trim_outbox st =
     st\<lparr>al_outbox := filter (\<lambda>it. \<not> finished_item it) (al_outbox st)
                     @ last_of 100 (filter finished_item (al_outbox st))\<rparr>"

definition eligible_items :: "alerts \<Rightarrow> string \<Rightarrow> string \<Rightarrow> identity option \<Rightarrow> string list" where
  "eligible_items st name dimension report =
     map i_id (filter (\<lambda>it. of_source name dimension it \<and> service_matches (item_key it) report) (al_outbox st))"

definition queue_service ::
  "alert_env \<Rightarrow> pyval \<Rightarrow> string \<Rightarrow> identity option \<Rightarrow> alerts \<times> string list \<Rightarrow> alerts \<times> string list" where
  "queue_service env source dimension report acc =
     (let (st, valid) = enqueue_service_health (fst acc) (ae_config env) source dimension report (ae_now env)
      in (st, if valid then snd acc @ eligible_items st (alert_source_name source) dimension report else snd acc))"

fun queue_source :: "alert_env \<Rightarrow> pyval \<times> collected \<Rightarrow> alerts \<times> string list \<Rightarrow> alerts \<times> string list" where
  "queue_source env (source, Service (a, b)) acc =
     queue_service env source ''observer'' b (queue_service env source ''condition'' a acc)"
| "queue_source env (source, Signals a b) acc =
     (enqueue (enqueue (fst acc) (ae_config env) source ''condition'' a (ae_now env))
        (ae_config env) source ''freshness'' b (ae_now env), snd acc)"

definition queue_test :: "alert_env \<Rightarrow> alerts \<Rightarrow> alerts" where
  "queue_test env st =
     (if al_test_enqueued st then st
      else st\<lparr>al_outbox := al_outbox st
                @ [fresh_item test_id (ConnectionTest (the_str (get (ae_config env) ''host_label''))) (ae_now env)],
              al_test_enqueued := True\<rparr>)"

definition queued :: "alert_env \<Rightarrow> (pyval \<times> collected) list \<Rightarrow> alerts \<Rightarrow> alerts \<times> string list" where
  "queued env obs st =
     (if ae_test env then (queue_test env st, []) else fold (queue_source env) obs (st, []))"

definition dispatch_env_of :: "alert_env \<Rightarrow> string list \<Rightarrow> dispatch_env" where
  "dispatch_env_of env eligible =
     \<lparr>de_now = ae_now env, de_only_test = ae_test env,
      de_active = map alert_source_name (alert_sources env), de_eligible = eligible,
      de_sender = (\<lambda>it. send_discord (ae_webhook env) (ae_transport env it))\<rparr>"

definition prepared :: "alerts \<Rightarrow> alert_env \<Rightarrow> (alerts \<times> string list) res" where
  "prepared st env =
     bindR (observe_all env) (\<lambda>obs.
     bindR (check (WEBHOOK (ae_webhook env)) (AlertError ''WEBHOOK'')) (\<lambda>_.
     bindR (check (length (al_outbox st) \<le> MAX_OUTBOX) (AlertError ''OUTBOX_FULL'')) (\<lambda>_.
     bindR (check (al_last_run st \<le> fadd (ae_now env) 1) (AlertError ''CLOCK'')) (\<lambda>_.
     let (st, eligible) = queued env obs (trim_outbox st)
     in bindR (check (length (al_outbox st) \<le> MAX_OUTBOX) (AlertError ''OUTBOX_FULL'')) (\<lambda>_.
        Inr (st\<lparr>al_last_run := ae_now env\<rparr>, eligible))))))"

record run_result =
  rr_sent :: nat
  rr_counts :: "(outcome \<times> nat) list"

definition counts_of :: "alerts \<Rightarrow> (outcome \<times> nat) list" where
  "counts_of st =
     map (\<lambda>d. (d, length (filter (\<lambda>it. i_delivery it = d) (al_outbox st)))) [Pending, Sent, Uncertain, Failed]"

definition alert_run :: "alerts \<Rightarrow> alert_env \<Rightarrow> (alerts, string) effect list \<times> run_result res" where
  "alert_run st env =
     (case prepared st env of
        Inl e \<Rightarrow> ([], Inl e)
      | Inr (st', eligible) \<Rightarrow>
          (let (es, n) = dispatch (dispatch_env_of env eligible) st'
           in (Persist st' # es, Inr \<lparr>rr_sent = n, rr_counts = counts_of (disk st' es)\<rparr>)))"

text \<open>The exit code of \<open>main\<close> for a run.\<close>

definition alert_exit :: "run_result res \<Rightarrow> int" where
  "alert_exit r =
     (case r of
        Inl e \<Rightarrow> if signal_error e \<and> e \<noteq> SubprocessError then 2 else 1
      | Inr rr \<Rightarrow> if list_ex (\<lambda>(d, n). d \<in> {Uncertain, Failed} \<and> 0 < n) (rr_counts rr) then 2 else 0)"

section \<open>Ids that were given out\<close>

text \<open>
  Every item of the outbox has its own id; an id is given out when the cursor of its key has
  reached its sequence number, or for the connection test once it was queued. Items may leave
  the outbox, ids are never given out twice.
\<close>

definition issued :: "alerts \<Rightarrow> string \<Rightarrow> bool" where
  "issued st k =
     (k = test_id \<and> al_test_enqueued st
      \<or> (\<exists>key n. k = item_id key n \<and> n \<le> old_sequence (cursor_of st key) \<and> cursor_of st key \<noteq> None))"

definition alerts_ok :: "alerts \<Rightarrow> bool" where
  "alerts_ok st =
     (distinct (map i_id (al_outbox st)) \<and> (\<forall>it \<in> set (al_outbox st). issued st (i_id it)))"

text \<open>No item with this id can be submitted any more.\<close>

definition retired :: "alerts \<Rightarrow> string \<Rightarrow> bool" where
  "retired st k = (issued st k \<and> (\<forall>it \<in> set (al_outbox st). i_id it = k \<longrightarrow> i_delivery it \<noteq> Pending))"

definition evolves :: "alerts \<Rightarrow> alerts \<Rightarrow> bool" where
  "evolves st st' =
     (alerts_ok st \<longrightarrow> alerts_ok st' \<and> (\<forall>k. issued st k \<longrightarrow> issued st' k) \<and> (\<forall>k. retired st k \<longrightarrow> retired st' k))"

lemma evolves_refl [simp]: "evolves st st"
  by (simp add: evolves_def)

lemma evolves_trans: "evolves a b \<Longrightarrow> evolves b c \<Longrightarrow> evolves a c"
  by (simp add: evolves_def)

lemma evolvesD:
  "evolves st st' \<Longrightarrow> alerts_ok st \<Longrightarrow> alerts_ok st'"
  "evolves st st' \<Longrightarrow> alerts_ok st \<Longrightarrow> retired st k \<Longrightarrow> retired st' k"
  by (simp_all add: evolves_def)

lemma item_id_inject: "item_id key n = item_id key' n' \<Longrightarrow> key = key' \<and> n = n'"
  using sep_inject [OF str_of_int_no_colon str_of_int_no_colon] str_of_int_inject
  by (fastforce simp: item_id_def)

lemma test_id_not_item: "item_id key n \<noteq> test_id"
proof
  assume "item_id key n = test_id"
  then have "CHR '':'' \<in> set test_id" by (metis item_id_def in_set_conv_decomp append_Cons append_Nil)
  then show False by (simp add: test_id_def)
qed

text \<open>Three ways to change the state: rewriting items, dropping items, adding one with a new id.\<close>

lemma issued_cong:
  "al_test_enqueued st' = al_test_enqueued st \<Longrightarrow>
   (\<And>key. cursor_of st' key = None \<longleftrightarrow> cursor_of st key = None) \<Longrightarrow>
   (\<And>key. old_sequence (cursor_of st' key) = old_sequence (cursor_of st key)) \<Longrightarrow> issued st' k = issued st k"
  by (simp add: issued_def)

lemma evolves_rewrite:
  assumes "\<And>k. issued st k \<Longrightarrow> issued st' k" "map i_id (al_outbox st') = map i_id (al_outbox st)"
    and "\<And>i. i < length (al_outbox st) \<Longrightarrow> i_delivery (al_outbox st' ! i) = Pending \<Longrightarrow>
           i_delivery (al_outbox st ! i) = Pending"
  shows "evolves st st'"
proof -
  have len: "length (al_outbox st') = length (al_outbox st)" using assms(2) map_eq_imp_length_eq by blast
  have ids: "i < length (al_outbox st) \<Longrightarrow> i_id (al_outbox st' ! i) = i_id (al_outbox st ! i)" for i
    using assms(2) len by (metis nth_map)
  have "retired st k \<Longrightarrow> retired st' k" for k
    unfolding retired_def using assms(1,3) ids len by (metis in_set_conv_nth)
  moreover have "alerts_ok st \<Longrightarrow> alerts_ok st'"
    unfolding alerts_ok_def using assms(1,2) ids len by (metis in_set_conv_nth)
  ultimately show ?thesis using assms(1) by (simp add: evolves_def)
qed

lemma evolves_subset:
  assumes "al_observations st' = al_observations st" "al_test_enqueued st' = al_test_enqueued st"
    and "distinct (map i_id (al_outbox st)) \<Longrightarrow> distinct (map i_id (al_outbox st'))"
    and "set (al_outbox st') \<subseteq> set (al_outbox st)"
  shows "evolves st st'"
proof -
  have "issued st' k = issued st k" for k using assms(1,2) by (simp add: issued_def cursor_of_def)
  then show ?thesis using assms(3,4) by (auto simp: evolves_def alerts_ok_def retired_def)
qed

lemma evolves_append:
  assumes "\<And>k. issued st k \<Longrightarrow> issued st' k" "al_outbox st' = al_outbox st @ [it]"
    and "issued st' (i_id it)" "\<not> issued st (i_id it)"
  shows "evolves st st'"
  using assms by (auto simp: evolves_def alerts_ok_def retired_def)

section \<open>Every operation lets the state evolve\<close>

text \<open>Moving a cursor forward gives out at most the next id.\<close>

definition set_cursor :: "alerts \<Rightarrow> string \<Rightarrow> cursor \<Rightarrow> alerts" where
  "set_cursor st key c = st\<lparr>al_observations := AList.update key c (al_observations st)\<rparr>"

lemma cursor_of_set [simp]:
  "cursor_of (set_cursor st key c) key' = (if key' = key then Some c else cursor_of st key')"
  by (simp add: cursor_of_def set_cursor_def update_conv)

lemma set_cursor_fields [simp]:
  "al_outbox (set_cursor st key c) = al_outbox st"
  "al_test_enqueued (set_cursor st key c) = al_test_enqueued st"
  by (simp_all add: set_cursor_def)

lemma cursor_of_outbox [simp]: "cursor_of (st\<lparr>al_outbox := xs\<rparr>) = cursor_of st"
  by (rule ext) (simp add: cursor_of_def)

lemma issued_outbox [simp]: "issued (st\<lparr>al_outbox := xs\<rparr>) k = issued st k"
  by (simp add: issued_def)

lemma issued_mono:
  assumes "al_test_enqueued st \<Longrightarrow> al_test_enqueued st'"
    and "\<And>key. cursor_of st key \<noteq> None \<Longrightarrow>
          cursor_of st' key \<noteq> None \<and> old_sequence (cursor_of st key) \<le> old_sequence (cursor_of st' key)"
    and "issued st k"
  shows "issued st' k"
  using assms(3) unfolding issued_def
proof (elim disjE exE conjE)
  fix key n
  assume n: "k = item_id key n" "n \<le> old_sequence (cursor_of st key)" "cursor_of st key \<noteq> None"
  have "k = item_id key n \<and> n \<le> old_sequence (cursor_of st' key) \<and> cursor_of st' key \<noteq> None"
    using n assms(2) [OF n(3)] by simp
  then show "k = test_id \<and> al_test_enqueued st' \<or>
      (\<exists>key n. k = item_id key n \<and> n \<le> old_sequence (cursor_of st' key) \<and> cursor_of st' key \<noteq> None)"
    by blast
qed (use assms(1) in blast)

lemma old_sequence_Some [simp]: "old_sequence (Some c) = c_sequence c"
  by (simp add: old_sequence_def)

lemma issued_set_cursor:
  "old_sequence (cursor_of st key) \<le> c_sequence c \<Longrightarrow> issued st k \<Longrightarrow> issued (set_cursor st key c) k"
  by (rule issued_mono) auto

lemma issued_next:
  assumes "c_sequence c = old_sequence (cursor_of st key) + 1"
  shows "issued (set_cursor st key c) (item_id key (c_sequence c))" "\<not> issued st (item_id key (c_sequence c))"
proof -
  show "issued (set_cursor st key c) (item_id key (c_sequence c))"
    by (auto simp: issued_def)
  show "\<not> issued st (item_id key (c_sequence c))"
    using assms by (auto simp: issued_def test_id_not_item dest!: item_id_inject)
qed

lemma evolves_cursor:
  "old_sequence (cursor_of st key) \<le> c_sequence c \<Longrightarrow> evolves st (set_cursor st key c)"
  by (rule evolves_rewrite) (simp_all add: issued_set_cursor)

lemma evolves_enqueued:
  assumes "c_sequence c = old_sequence (cursor_of st key) + 1" "i_id it = item_id key (c_sequence c)"
  shows "evolves st ((set_cursor st key c)\<lparr>al_outbox := al_outbox st @ [it]\<rparr>)"
  using issued_next [OF assms(1)] issued_set_cursor [of st key c] assms
  by (intro evolves_append [where it = it]) simp_all

lemma fresh_item_id [simp]: "i_id (fresh_item k c now) = k"
  by (simp add: fresh_item_def)

lemma evolves_enqueue: "evolves st (enqueue st config source dimension current now)"
proof -
  define key where "key = obs_key (alert_source_name source) dimension"
  define c where "c = \<lparr>c_status = current, c_sequence = old_sequence (cursor_of st key) + 1,
      c_identity = None, c_receipt = None\<rparr>"
  define it where "it = fresh_item (item_id key (old_sequence (cursor_of st key) + 1))
      (message_content config source dimension current now) now"
  have "enqueue st config source dimension current now
      \<in> {st, set_cursor st key c, (set_cursor st key c)\<lparr>al_outbox := al_outbox st @ [it]\<rparr>}"
    unfolding enqueue_def Let_def key_def [symmetric] c_def it_def set_cursor_def by simp
  moreover have "evolves st (set_cursor st key c)" by (rule evolves_cursor) (simp add: c_def)
  moreover have "evolves st ((set_cursor st key c)\<lparr>al_outbox := al_outbox st @ [it]\<rparr>)"
    by (rule evolves_enqueued) (simp_all add: c_def it_def)
  ultimately show ?thesis by (elim insertE) simp_all
qed

lemma supersede_item_fields:
  "i_id (supersede_item name dimension r it) = i_id it"
  "i_delivery (supersede_item name dimension r it) = Pending \<Longrightarrow> i_delivery it = Pending"
  by (simp_all add: supersede_item_def Let_def split: if_splits)

lemma evolves_supersede:
  "evolves st (st\<lparr>al_outbox := map (supersede_item name dimension r) (al_outbox st)\<rparr>)"
  by (rule evolves_rewrite) (auto simp: supersede_item_fields(1) intro: supersede_item_fields(2))

lemma evolves_enqueue_service:
  "evolves st (fst (enqueue_service_health st config source dimension report now))"
proof (cases report)
  case None
  then show ?thesis by (simp add: enqueue_service_health_def Let_def)
next
  case (Some r)
  define name where "name = alert_source_name source"
  define key where "key = obs_key name dimension"
  define old where "old = cursor_of st key"
  define st1 where "st1 = st\<lparr>al_outbox := map (supersede_item name dimension r) (al_outbox st)\<rparr>"
  define event where "event = service_event r old (kept_receipt r old) (filter (of_source name dimension) (al_outbox st1))"
  define c where "c = \<lparr>c_status = s_status r, c_sequence = old_sequence old + (if event then 1 else 0),
      c_identity = Some r, c_receipt = kept_receipt r old\<rparr>"
  define it where "it = (fresh_item (item_id key (c_sequence c))
      (message_content config source dimension (s_status r) now) now)
      \<lparr>i_service := Some (service_item_of source dimension r)\<rparr>"
  have 1: "evolves st st1" unfolding st1_def by (rule evolves_supersede)
  have o: "cursor_of st1 key = old" by (simp add: st1_def old_def)
  have "fst (enqueue_service_health st config source dimension report now)
      \<in> {st, st1, if event then (set_cursor st1 key c)\<lparr>al_outbox := al_outbox st1 @ [it]\<rparr> else set_cursor st1 key c}"
    unfolding enqueue_service_health_def Let_def Some name_def [symmetric] key_def [symmetric]
      old_def [symmetric] st1_def [symmetric] option.case event_def [symmetric]
    by (simp add: set_cursor_def c_def it_def)
  moreover have "evolves st1 (set_cursor st1 key c)" by (rule evolves_cursor) (simp add: o c_def)
  moreover have "evolves st1 ((set_cursor st1 key c)\<lparr>al_outbox := al_outbox st1 @ [it]\<rparr>)" if event
    using that by (intro evolves_enqueued) (simp_all add: o c_def it_def)
  ultimately show ?thesis using 1 evolves_trans [OF 1] by (auto split: if_splits)
qed

lemma evolves_trim: "evolves st (trim_outbox st)"
proof (rule evolves_subset)
  have l: "set (last_of n xs) \<subseteq> set xs" for n and xs :: "item list"
    by (auto simp: last_of_def dest: in_set_dropD)
  show "set (al_outbox (trim_outbox st)) \<subseteq> set (al_outbox st)"
    using l by (fastforce simp: trim_outbox_def)
  assume d: "distinct (map i_id (al_outbox st))"
  then have i: "inj_on i_id (set (al_outbox st))" and ds: "distinct (al_outbox st)"
    by (simp_all add: distinct_map)
  have "distinct (al_outbox (trim_outbox st))"
    using ds l [of 100 "filter finished_item (al_outbox st)"]
    by (auto simp: trim_outbox_def last_of_def)
  then show "distinct (map i_id (al_outbox (trim_outbox st)))"
    using i \<open>set (al_outbox (trim_outbox st)) \<subseteq> set (al_outbox st)\<close>
    by (simp add: distinct_map) (rule inj_on_subset)
qed (simp_all add: trim_outbox_def)

lemma evolves_queue_test: "evolves st (queue_test env st)"
proof (cases "al_test_enqueued st")
  case False
  then show ?thesis
    unfolding queue_test_def if_not_P [OF False]
    by (intro evolves_append [where it = "fresh_item test_id
          (ConnectionTest (the_str (get (ae_config env) ''host_label''))) (ae_now env)"])
       (auto simp: issued_def cursor_of_def test_id_not_item [symmetric])
qed (simp add: queue_test_def)

lemma evolves_queue_source: "evolves (fst acc) (fst (queue_source env oc acc))"
proof -
  obtain source c where oc: "oc = (source, c)" by (cases oc)
  have qs: "evolves (fst a) (fst (queue_service env source dimension r a))" for dimension r a
    using evolves_enqueue_service [of "fst a" "ae_config env" source dimension r "ae_now env"]
    by (simp add: queue_service_def case_prod_unfold Let_def)
  show ?thesis
  proof (cases c)
    case (Signals a b)
    then show ?thesis using evolves_trans [OF evolves_enqueue evolves_enqueue] by (simp add: oc)
  next
    case (Service p)
    obtain a b where "p = (a, b)" by (cases p)
    then show ?thesis using evolves_trans [OF qs qs] by (simp add: oc Service)
  qed
qed

lemma evolves_queued: "evolves st (fst (queued env obs st))"
proof -
  have "evolves (fst acc) (fst (fold (queue_source env) obs acc))" for acc
  proof (induction obs arbitrary: acc)
    case (Cons oc obs)
    show ?case using evolves_trans [OF evolves_queue_source Cons.IH] by simp
  qed simp
  then show ?thesis by (simp add: queued_def evolves_queue_test) (metis fst_conv)
qed

lemma evolves_prepared:
  assumes "prepared st env = Inr (st', eligible)"
  shows "evolves st st'"
proof -
  obtain obs where "st' = (fst (queued env obs (trim_outbox st)))\<lparr>al_last_run := ae_now env\<rparr>"
    using assms by (auto simp: prepared_def Let_def case_prod_unfold)
  moreover have "evolves st2 (st2\<lparr>al_last_run := t\<rparr>)" for st2 t
    by (rule evolves_subset) simp_all
  ultimately show ?thesis
    using evolves_trans [OF evolves_trim evolves_trans [OF evolves_queued [of "trim_outbox st" env obs]]] by blast
qed

subsection \<open>One item\<close>

lemma evolves_remember: "evolves st (remember_service_delivery st it)"
proof -
  have c: "evolves st (st\<lparr>al_observations := AList.update key (c\<lparr>c_receipt := a\<rparr>) (al_observations st)\<rparr>)"
    if "cursor_of st key = Some c" for key c a
    using evolves_cursor [of st key "c\<lparr>c_receipt := a\<rparr>"] that by (simp add: set_cursor_def)
  show ?thesis
    unfolding remember_service_delivery_def Let_def by (simp add: c split: option.split)
qed

lemma remember_outbox [simp]: "al_outbox (remember_service_delivery st it) = al_outbox st"
  by (simp add: remember_service_delivery_def Let_def split: option.split)

lemma evolves_set_item:
  assumes "i < length (al_outbox st)" "i_id it = i_id (al_outbox st ! i)"
    and "i_delivery it = Pending \<Longrightarrow> i_delivery (al_outbox st ! i) = Pending"
  shows "evolves st (set_item st i it)"
proof (rule evolves_rewrite)
  show "map i_id (al_outbox (set_item st i it)) = map i_id (al_outbox st)"
    using assms(1,2) by (simp add: set_item_def map_update list_update_same_conv)
  show "i_delivery (al_outbox st ! j) = Pending"
    if "j < length (al_outbox st)" "i_delivery (al_outbox (set_item st i it) ! j) = Pending" for j
    using that assms by (cases "j = i") (simp_all add: set_item_def)
qed (simp add: set_item_def)

lemma set_item_outbox [simp]:
  "al_outbox (set_item st i it) = (al_outbox st)[i := it]" "length (al_outbox (set_item st i it)) = length (al_outbox st)"
  by (simp_all add: set_item_def)

lemma evolves_interrupt: "i < length (al_outbox st) \<Longrightarrow> evolves st (interrupt st i)"
  unfolding interrupt_def Let_def
  by (rule evolves_trans [OF evolves_set_item evolves_remember]) simp_all

lemma interrupt_length [simp]: "length (al_outbox (interrupt st i)) = length (al_outbox st)"
  by (simp add: interrupt_def Let_def)

lemma retired_item:
  assumes "alerts_ok st" "i < length (al_outbox st)"
  shows "retired st (i_id (al_outbox st ! i)) \<longleftrightarrow> i_delivery (al_outbox st ! i) \<noteq> Pending"
proof -
  have "it = al_outbox st ! i" if "it \<in> set (al_outbox st)" "i_id it = i_id (al_outbox st ! i)" for it
    using assms that by (metis alerts_ok_def distinct_map inj_onD nth_mem)
  then show ?thesis using assms by (auto simp: retired_def alerts_ok_def)
qed

lemma guarded_of_evolves:
  assumes "alerts_ok st" "evolves st st'" "guarded alerts_ok retired st' es"
  shows "guarded alerts_ok retired st (Persist st' # es)"
  using assms(3) evolvesD [OF assms(2,1)] assms(1) by (intro guarded_Persist)

lemma interrupts_guarded:
  "alerts_ok st \<Longrightarrow> set is \<subseteq> {..<length (al_outbox st)} \<Longrightarrow>
   guarded alerts_ok retired st (interrupts env st is)
   \<and> length (al_outbox (disk st (interrupts env st is))) = length (al_outbox st)"
proof (induction "is" arbitrary: st)
  case (Cons i "is")
  have i: "i < length (al_outbox st)" using Cons.prems(2) by simp
  show ?case
  proof (cases "\<not> skipped_by_test env (al_outbox st ! i) \<and> i_delivery (al_outbox st ! i) = Attempted")
    case True
    have e: "evolves st (interrupt st i)" using i by (rule evolves_interrupt)
    have "set is \<subseteq> {..<length (al_outbox (interrupt st i))}" using Cons.prems(2) by simp
    from Cons.IH [OF evolvesD(1) [OF e Cons.prems(1)] this]
    show ?thesis using True guarded_of_evolves [OF Cons.prems(1) e] by (simp add: Let_def)
  next
    case False
    then have "interrupts env st (i # is) = interrupts env st is" by (auto simp: Let_def)
    then show ?thesis using Cons.IH [OF Cons.prems(1)] Cons.prems(2) by simp
  qed
qed simp

lemma concluded_id [simp]: "i_id (concluded it r now) = i_id it"
  by (simp add: concluded_def Let_def exhausted_def)

lemma conclude_outbox [simp]:
  "al_outbox (conclude env st i it r) = (al_outbox st)[i := concluded it r (de_now env)]"
  by (simp add: conclude_def Let_def retry_shared_def)

lemma evolves_conclude:
  assumes "i < length (al_outbox st)" "i_id it = i_id (al_outbox st ! i)" "i_delivery (al_outbox st ! i) = Pending"
  shows "evolves st (conclude env st i it r)"
proof -
  let ?it = "concluded it r (de_now env)"
  have 1: "evolves st (set_item st i ?it)" using assms by (intro evolves_set_item) simp_all
  have 2: "evolves st2 (retry_shared st2 it' r)" for st2 it'
    unfolding retry_shared_def by (simp add: evolves_subset)
  show ?thesis unfolding conclude_def Let_def
    by (rule evolves_trans [OF evolves_trans [OF 1 2] evolves_remember])
qed

lemma set_set_item [simp]: "set_item (set_item st i a) i b = set_item st i b"
  by (simp add: set_item_def)

lemma conclude_set_item: "conclude env (set_item st i a) i it r = conclude env st i it r"
  by (simp add: conclude_def Let_def)

lemma attempts_guarded:
  "alerts_ok st \<Longrightarrow> set is \<subseteq> {..<length (al_outbox st)} \<Longrightarrow>
   guarded alerts_ok retired st (fst (attempts env k st is))"
proof (induction "is" arbitrary: k st)
  case (Cons i "is")
  note ok = Cons.prems(1)
  let ?it = "al_outbox st ! i"
  have i: "i < length (al_outbox st)" and sub: "set is \<subseteq> {..<length (al_outbox st)}"
    using Cons.prems(2) by simp_all
  consider (skip) "\<not> due env ?it" | (full) "due env ?it" "3 \<le> k"
    | (out) "due env ?it" "\<not> 3 \<le> k" "MAX_ATTEMPTS \<le> i_attempts ?it"
    | (submit) "due env ?it" "\<not> 3 \<le> k" "\<not> MAX_ATTEMPTS \<le> i_attempts ?it" by blast
  then show ?case
  proof cases
    case skip
    then have "attempts env k st (i # is) = attempts env k st is" by (simp add: Let_def)
    then show ?thesis using Cons.IH [OF ok sub] by simp
  next
    case full
    then have "attempts env k st (i # is) = ([], 0)" by (simp add: Let_def)
    then show ?thesis using ok by simp
  next
    case out
    let ?st = "set_item st i (exhausted ?it)"
    have p: "i_delivery ?it = Pending" using out(1) by (simp add: due_def)
    have e: "evolves st ?st" using i p by (intro evolves_set_item) (simp_all add: exhausted_def)
    have "guarded alerts_ok retired ?st (fst (attempts env k ?st is))"
      using sub by (intro Cons.IH evolvesD(1) [OF e ok]) simp
    moreover have "fst (attempts env k st (i # is)) = Persist ?st # fst (attempts env k ?st is)"
      using out by (simp add: Let_def case_prod_unfold)
    ultimately show ?thesis using guarded_of_evolves [OF ok e] by simp
  next
    case submit
    let ?it1 = "attempt ?it"
    let ?st1 = "set_item st i ?it1" and ?r = "send_outcome env ?it1"
    let ?st2 = "conclude env ?st1 i ?it1 ?r"
    let ?es = "if rate_limited ?r then [] else fst (attempts env (Suc k) ?st2 is)"
    have p: "i_delivery ?it = Pending" using submit(1) by (simp add: due_def)
    have id1: "i_id ?it1 = i_id ?it" by (simp add: attempt_def)
    have e1: "evolves st ?st1" using i p by (intro evolves_set_item) (simp_all add: attempt_def)
    have e2: "evolves st ?st2" unfolding conclude_set_item using i p id1 by (intro evolves_conclude)
    have r1: "retired ?st1 (i_id ?it1)"
      using retired_item [OF evolvesD(1) [OF e1 ok], of i] i by (simp add: attempt_def)
    have r0: "\<not> retired st (i_id ?it1)" using retired_item [OF ok i] p id1 by simp
    have "guarded alerts_ok retired ?st2 (fst (attempts env (Suc k) ?st2 is))"
      using sub by (intro Cons.IH evolvesD(1) [OF e2 ok]) simp
    then have "guarded alerts_ok retired ?st2 ?es" using evolvesD(1) [OF e2 ok] by simp
    moreover have "fst (attempts env k st (i # is)) = Persist ?st1 # Send (i_id ?it1) # Persist ?st2 # ?es"
      using submit by (simp add: Let_def case_prod_unfold)
    ultimately show ?thesis
      using guarded_attempt [where I = alerts_ok and used = retired, OF ok evolvesD(1) [OF e1 ok] evolvesD(1) [OF e2 ok] r1 r0
          evolvesD(2) [OF e1 ok] evolvesD(2) [OF e2 ok]] by simp
  qed
qed simp

lemma dispatch_guarded:
  assumes "alerts_ok st"
  shows "guarded alerts_ok retired st (fst (dispatch env st))"
proof -
  let ?is = "[0..<length (al_outbox st)]"
  let ?es = "interrupts env st ?is"
  have i: "guarded alerts_ok retired st ?es" "length (al_outbox (disk st ?es)) = length (al_outbox st)"
    using interrupts_guarded [OF assms, of ?is env] by (simp_all add: atLeast0LessThan)
  then have "guarded alerts_ok retired (disk st ?es) (fst (attempts env 0 (disk st ?es) ?is))"
    by (intro attempts_guarded guarded_disk [OF i(1)]) auto
  then show ?thesis using i(1) guarded_append [OF i(1)]
    by (simp add: dispatch_def Let_def case_prod_unfold)
qed

lemma alert_run_guarded:
  assumes "alerts_ok st"
  shows "guarded alerts_ok retired st (fst (alert_run st env))"
proof (cases "prepared st env")
  case (Inl e)
  then show ?thesis using assms by (simp add: alert_run_def)
next
  case (Inr p)
  obtain st' eligible where p: "p = (st', eligible)" by (cases p)
  have e: "evolves st st'" using Inr p by (simp add: evolves_prepared)
  show ?thesis
    using guarded_of_evolves [OF assms e dispatch_guarded [OF evolvesD(1) [OF e assms]]] Inr p
    by (simp add: alert_run_def Let_def case_prod_unfold)
qed

interpretation discord: guarded_sender "\<lambda>st env. fst (alert_run st env)" retired alerts_ok
  by unfold_locales (rule alert_run_guarded)

section \<open>What a run submits, what a report queues\<close>

fun submissions :: "('s, 'k) effect list \<Rightarrow> nat" where
  "submissions [] = 0"
| "submissions (Persist t # es) = submissions es"
| "submissions (Send k # es) = Suc (submissions es)"

lemma submissions_append [simp]: "submissions (es @ fs) = submissions es + submissions fs"
  by (induction es rule: submissions.induct) auto

lemma interrupts_submit_nothing: "submissions (interrupts env st is) = 0"
  by (induction "is" arbitrary: st) (simp_all add: Let_def)

lemma attempts_submissions: "k \<le> 3 \<Longrightarrow> submissions (fst (attempts env k st is)) + k \<le> 3"
proof (induction "is" arbitrary: k st)
  case (Cons i "is")
  have ih: "submissions (fst (attempts env (Suc k) st' is)) + Suc k \<le> 3" if "k < 3" for st'
    using that by (intro Cons.IH) simp
  have "submissions (fst (attempts env k st' is)) + k \<le> 3" for st'
    using Cons.prems by (rule Cons.IH)
  then show ?case using Cons.prems ih by (simp add: Let_def case_prod_unfold not_le)
qed simp

lemma alert_run_submissions: "submissions (fst (alert_run st env)) \<le> 3"
proof -
  have "submissions (fst (dispatch e st')) \<le> 3" for e st'
    using attempts_submissions [of 0 e] by (simp add: dispatch_def Let_def case_prod_unfold interrupts_submit_nothing)
  then show ?thesis by (simp add: alert_run_def Let_def case_prod_unfold split: sum.split)
qed

lemma enqueue_service_cases:
  assumes "enqueue_service_health st config source dimension (Some r) now = (st', True)"
  defines "name \<equiv> alert_source_name source"
  defines "key \<equiv> obs_key name dimension"
  defines "old \<equiv> cursor_of st key"
  defines "out \<equiv> map (supersede_item name dimension r) (al_outbox st)"
  defines "event \<equiv> service_event r old (kept_receipt r old) (filter (of_source name dimension) out)"
  shows "s_status r \<noteq> UNKNOWN"
    and "cursor_of st' key = Some \<lparr>c_status = s_status r, c_sequence = old_sequence old + (if event then 1 else 0),
           c_identity = Some r, c_receipt = kept_receipt r old\<rparr>"
    and "al_outbox st' = out @ (if event
           then [(fresh_item (item_id key (old_sequence old + 1)) (message_content config source dimension (s_status r) now) now)
                  \<lparr>i_service := Some (service_item_of source dimension r)\<rparr>]
           else [])"
  using assms(1)
  by (auto simp: enqueue_service_health_def Let_def name_def key_def old_def out_def event_def cursor_of_def
      update_conv split: if_splits)

lemma recovery_needs_alarm:
  assumes e: "enqueue_service_health st config source dimension (Some r) now = (st', True)"
    and n: "s_status r = NORMAL" "length (al_outbox st) < length (al_outbox st')"
  defines "key \<equiv> obs_key (alert_source_name source) dimension"
  shows "\<exists>c. cursor_of st key = Some c \<and> c_status c = ALARM \<and> cursor_incident (Some c) = s_closed r
     \<and> ((\<exists>a. c_receipt c = Some a \<and> a_incident a = s_closed r \<and> a_delivery a \<in> {Sent, Uncertain})
        \<or> (\<exists>it \<in> set (al_outbox st). of_source (alert_source_name source) dimension it
              \<and> k_event (item_key it) = ALARM \<and> k_incident (item_key it) = s_closed r
              \<and> i_delivery it \<in> {Sent, Uncertain, Attempted}))"
proof -
  let ?name = "alert_source_name source"
  let ?out = "map (supersede_item ?name dimension r) (al_outbox st)"
  have ev: "service_event r (cursor_of st key) (kept_receipt r (cursor_of st key)) (filter (of_source ?name dimension) ?out)"
    using enqueue_service_cases(3) [OF e] n(2) by (auto simp: key_def split: if_splits)
  then obtain c where c: "cursor_of st key = Some c" "c_status c = ALARM" "cursor_incident (Some c) = s_closed r"
    "alarm_receipted r (kept_receipt r (Some c)) \<or> alarm_in_outbox r (filter (of_source ?name dimension) ?out)"
    using n(1) by (auto simp: service_event_def split: if_splits)
  have "\<exists>a. c_receipt c = Some a \<and> a_incident a = s_closed r \<and> a_delivery a \<in> {Sent, Uncertain}"
    if "alarm_receipted r (kept_receipt r (Some c))"
    using that by (auto simp: alarm_receipted_def kept_receipt_def split: option.splits if_splits)
  moreover have "\<exists>it \<in> set (al_outbox st). of_source ?name dimension it \<and> k_event (item_key it) = ALARM
      \<and> k_incident (item_key it) = s_closed r \<and> i_delivery it \<in> {Sent, Uncertain, Attempted}"
    if a: "alarm_in_outbox r (filter (of_source ?name dimension) ?out)"
  proof -
    obtain it where it: "it \<in> set (al_outbox st)" "of_source ?name dimension (supersede_item ?name dimension r it)"
      "k_event (item_key (supersede_item ?name dimension r it)) = ALARM"
      "k_incident (item_key (supersede_item ?name dimension r it)) = s_closed r"
      "i_delivery (supersede_item ?name dimension r it) \<in> {Sent, Uncertain, Attempted}"
      using a by (auto simp: alarm_in_outbox_def list_ex_iff)
    then have "supersede_item ?name dimension r it = it"
      by (auto simp: supersede_item_def Let_def split: if_splits)
    then show ?thesis using it by auto
  qed
  ultimately show ?thesis using c by blast
qed

lemma alarm_is_queued:
  assumes e: "enqueue_service_health st config source dimension (Some r) now = (st', True)"
    and a: "s_status r = ALARM"
  defines "key \<equiv> obs_key (alert_source_name source) dimension"
  shows "cursor_incident (cursor_of st' key) = s_incident r
     \<and> (map_option c_status (cursor_of st key) = Some ALARM \<and> cursor_incident (cursor_of st key) = s_incident r
        \<or> (\<exists>it \<in> set (al_outbox st'). i_delivery it = Pending \<and> of_source (alert_source_name source) dimension it
              \<and> service_matches (item_key it) (Some r)))"
proof -
  let ?name = "alert_source_name source"
  let ?out = "map (supersede_item ?name dimension r) (al_outbox st)"
  let ?ev = "service_event r (cursor_of st key) (kept_receipt r (cursor_of st key)) (filter (of_source ?name dimension) ?out)"
  note c = enqueue_service_cases [OF e, folded key_def]
  have 1: "cursor_incident (cursor_of st' key) = s_incident r" using c(2) by (simp add: cursor_incident_def)
  show ?thesis
  proof (cases ?ev)
    case True
    let ?it = "(fresh_item (item_id key (old_sequence (cursor_of st key) + 1))
        (message_content config source dimension (s_status r) now) now)\<lparr>i_service := Some (service_item_of source dimension r)\<rparr>"
    have "?it \<in> set (al_outbox st')" using c(3) True by simp
    moreover have "i_delivery ?it = Pending" "of_source ?name dimension ?it" "service_matches (item_key ?it) (Some r)"
      using a by (simp_all add: fresh_item_def of_source_def service_item_of_def service_matches_def item_key_def)
    ultimately show ?thesis using 1 by blast
  next
    case False
    then show ?thesis using 1 a by (auto simp: service_event_def)
  qed
qed

section \<open>Properties\<close>

definition test_env :: "exchange \<Rightarrow> alert_env" where
  "test_env x =
     \<lparr>ae_config = PDict [(''sources'', PList []), (''host_label'', PStr ''1'')], ae_now = 1000,
      ae_webhook = webhook_prefix @ ''1234567890123456/'' @ replicate 32 CHR ''a'', ae_test = True,
      ae_snapshot = (\<lambda>_. None),
      ae_signals = \<lparr>se_systemctl = (\<lambda>_. Inl OSError), se_monotonic = 0, se_file = (\<lambda>_. Inl OSError)\<rparr>,
      ae_transport = (\<lambda>_. x)\<rparr>"

definition test_item :: item where
  "test_item = fresh_item test_id (ConnectionTest ''1'') 1000"

definition queued_test :: alerts where
  "queued_test = new_state\<lparr>al_outbox := [test_item], al_test_enqueued := True, al_last_run := 1000\<rparr>"

lemma test_webhook: "WEBHOOK (ae_webhook (test_env x))"
proof -
  have "WEBHOOK (webhook_prefix @ ''1234567890123456/'' @ replicate 32 CHR ''a'')" by code_simp
  then show ?thesis by (simp add: test_env_def)
qed

lemma test_prepared: "prepared new_state (test_env x) = Inr (queued_test, [])"
  using test_webhook [of x]
  by (simp add: prepared_def observe_all_def alert_sources_def test_env_def MAX_OUTBOX_def new_state_def trim_outbox_def
      last_of_def queued_def queue_test_def queued_test_def test_item_def fadd_def)

lemma test_run:
  "fst (alert_run new_state (test_env (Reply 500 0 (Inl ValueError)))) =
     [Persist queued_test, Persist (queued_test\<lparr>al_outbox := [attempt test_item]\<rparr>), Send test_id,
      Persist (queued_test\<lparr>al_outbox := [(attempt test_item)\<lparr>i_delivery := Uncertain, i_code := Some ''INVALID_SUCCESS''\<rparr>]\<rparr>)]"
proof -
  let ?x = "Reply 500 0 (Inl ValueError)"
  let ?env = "dispatch_env_of (test_env ?x) []"
  have "send_discord (ae_webhook (test_env ?x)) ?x = Inr (result_of Uncertain ''INVALID_SUCCESS'')"
    using test_webhook [of ?x] by (simp add: send_discord_def reply_result_def)
  then have o: "send_outcome ?env it = result_of Uncertain ''INVALID_SUCCESS''" for it
    by (simp add: send_outcome_def dispatch_env_of_def) (simp add: test_env_def)
  have e: "de_now ?env = 1000" "de_only_test ?env"
    by (simp_all add: dispatch_env_of_def test_env_def)
  have "fst (dispatch ?env queued_test) =
      [Persist (queued_test\<lparr>al_outbox := [attempt test_item]\<rparr>), Send test_id,
       Persist (queued_test\<lparr>al_outbox := [(attempt test_item)\<lparr>i_delivery := Uncertain, i_code := Some ''INVALID_SUCCESS''\<rparr>]\<rparr>)]"
    by (simp add: dispatch_def Let_def case_prod_unfold queued_test_def new_state_def test_item_def fresh_item_def
        skipped_by_test_def due_def e o MAX_ATTEMPTS_def attempt_def set_item_def conclude_def concluded_def
        result_of_def rate_limited_def retry_shared_def remember_service_delivery_def)
  then show ?thesis by (simp add: alert_run_def test_prepared Let_def case_prod_unfold)
qed

lemma alerts_ok_new [simp]: "alerts_ok new_state"
  by (simp add: alerts_ok_def new_state_def)

text \<open>A Discord message whose submission was the last thing a run completed is never
  submitted again by any later run: the attempt was on disk first, ids are never reused, and
  the next run turns an unconcluded attempt into an uncertain one.\<close>

theorem interrupted_message_not_replayed:
  assumes "alerts_ok st" "take n (fst (alert_run st env)) = pre @ [Send k]"
  shows "Send k \<notin> set (runs (\<lambda>st env. fst (alert_run st env)) (disk st (take n (fst (alert_run st env)))) rs)"
  using assms by (intro discord.no_replay [where post = "[]"]) simp_all

lemma interrupted_message_not_replayed_witness:
  "Send test_id \<notin> set (runs (\<lambda>st env. fst (alert_run st env))
     (disk new_state (take 3 (fst (alert_run new_state (test_env (Reply 500 0 (Inl ValueError)))))))
     [(test_env (NoReply OSError), 9)])"
  by (rule interrupted_message_not_replayed
        [where pre = "[Persist queued_test, Persist (queued_test\<lparr>al_outbox := [attempt test_item]\<rparr>)]"])
     (simp_all add: test_run)

text \<open>An item of the outbox that is sent, uncertain, failed, superseded or being attempted is
  final: over any later history of runs and crashes its id is never submitted.\<close>

theorem settled_item_stays_settled:
  assumes "alerts_ok st" "i < length (al_outbox st)" "i_delivery (al_outbox st ! i) \<noteq> Pending"
  shows "Send (i_id (al_outbox st ! i)) \<notin> set (runs (\<lambda>st env. fst (alert_run st env)) st rs)"
  using assms by (intro discord.spent_runs) (simp_all add: retired_item)

lemma settled_item_stays_settled_witness:
  "Send test_id \<notin> set (runs (\<lambda>st env. fst (alert_run st env))
     (queued_test\<lparr>al_outbox := [test_item\<lparr>i_delivery := Attempted\<rparr>]\<rparr>) [(test_env (NoReply OSError), 9)])"
proof -
  let ?st = "queued_test\<lparr>al_outbox := [test_item\<lparr>i_delivery := Attempted\<rparr>]\<rparr>"
  have "alerts_ok ?st"
    by (simp add: alerts_ok_def) (simp add: issued_def queued_test_def test_item_def)
  from settled_item_stays_settled [OF this, of 0 "[(test_env (NoReply OSError), 9)]"] show ?thesis
    by (simp add: test_item_def)
qed

text \<open>One run submits at most three messages, whatever the outbox holds.\<close>

theorem run_submits_at_most_three: "submissions (fst (alert_run st env)) \<le> 3"
  by (rule alert_run_submissions)

text \<open>C9: A recovery message is only queued for an incident whose alarm was handed over: the
  cursor shows the alarm of exactly the incident that closed, and its alarm message was sent,
  left uncertain or being attempted.\<close>

theorem recovery_follows_alarm:
  assumes "enqueue_service_health st config source dimension (Some r) now = (st', True)"
    and "s_status r = NORMAL" "length (al_outbox st) < length (al_outbox st')"
  shows "\<exists>c. cursor_of st (obs_key (alert_source_name source) dimension) = Some c \<and> c_status c = ALARM
     \<and> cursor_incident (Some c) = s_closed r
     \<and> ((\<exists>a. c_receipt c = Some a \<and> a_incident a = s_closed r \<and> a_delivery a \<in> {Sent, Uncertain})
        \<or> (\<exists>it \<in> set (al_outbox st). of_source (alert_source_name source) dimension it
              \<and> k_event (item_key it) = ALARM \<and> k_incident (item_key it) = s_closed r
              \<and> i_delivery it \<in> {Sent, Uncertain, Attempted}))"
  using assms by (rule recovery_needs_alarm)

definition api_source :: pyval where
  "api_source = PDict [(''name'', PStr ''api''), (''type'', PStr ''service_health''), (''label'', PStr ''1'')]"

definition open_report :: identity where
  "open_report = \<lparr>s_status = ALARM, s_incident = Some 1, s_sequence = 1, s_closed = None, s_opened_at = Some 900,
     s_closed_at = None, s_sample_at = 950, s_observed_at = 960\<rparr>"

definition closed_report :: identity where
  "closed_report = \<lparr>s_status = NORMAL, s_incident = None, s_sequence = 1, s_closed = Some 1, s_opened_at = Some 900,
     s_closed_at = Some 5000, s_sample_at = 5000, s_observed_at = 5010\<rparr>"

definition alarmed :: alerts where
  "alarmed = new_state\<lparr>al_observations := [(''api:condition'', \<lparr>c_status = ALARM, c_sequence = 1,
     c_identity = Some open_report, c_receipt = Some \<lparr>a_incident = Some 1, a_opened_at = Some 900, a_delivery = Sent\<rparr>\<rparr>)]\<rparr>"

lemma recovery_follows_alarm_witness:
  "\<exists>st'. enqueue_service_health alarmed (PDict []) api_source ''condition'' (Some closed_report) 5020 = (st', True)
     \<and> length (al_outbox st') = 1 \<and> cursor_of alarmed ''api:condition'' \<noteq> None"
proof -
  obtain st' where e: "enqueue_service_health alarmed (PDict []) api_source ''condition'' (Some closed_report) 5020 = (st', True)"
    "length (al_outbox st') = 1"
    by (simp add: enqueue_service_health_def Let_def alarmed_def new_state_def cursor_of_def obs_key_def
        alert_source_name_def api_source_def contradicts_def open_report_def closed_report_def kept_receipt_def
        service_event_def cursor_incident_def alarm_receipted_def)
  have "s_status closed_report = NORMAL" "length (al_outbox alarmed) < length (al_outbox st')"
    using e(2) by (simp_all add: closed_report_def alarmed_def new_state_def)
  from recovery_follows_alarm [OF e(1) this] e show ?thesis
    by (auto simp: obs_key_def alert_source_name_def api_source_def)
qed

text \<open>An accepted report of an alarm is never dropped: afterwards the cursor names its
  incident, and either it already did, with the alarm recorded, or a pending item that matches
  the report is in the outbox.\<close>

theorem accepted_alarm_is_queued:
  assumes "enqueue_service_health st config source dimension (Some r) now = (st', True)" "s_status r = ALARM"
  shows "cursor_incident (cursor_of st' (obs_key (alert_source_name source) dimension)) = s_incident r
     \<and> (map_option c_status (cursor_of st (obs_key (alert_source_name source) dimension)) = Some ALARM
          \<and> cursor_incident (cursor_of st (obs_key (alert_source_name source) dimension)) = s_incident r
        \<or> (\<exists>it \<in> set (al_outbox st'). i_delivery it = Pending \<and> of_source (alert_source_name source) dimension it
              \<and> service_matches (item_key it) (Some r)))"
  using assms by (rule alarm_is_queued)

lemma accepted_alarm_is_queued_witness:
  "\<exists>st'. enqueue_service_health new_state (PDict []) api_source ''condition'' (Some open_report) 970 = (st', True)
     \<and> cursor_incident (cursor_of st' ''api:condition'') = Some 1"
proof -
  obtain st' where e: "enqueue_service_health new_state (PDict []) api_source ''condition'' (Some open_report) 970 = (st', True)"
    by (simp add: enqueue_service_health_def Let_def new_state_def cursor_of_def open_report_def)
  have "s_status open_report = ALARM" by (simp add: open_report_def)
  from accepted_alarm_is_queued [OF e this] e show ?thesis
    by (simp add: obs_key_def alert_source_name_def api_source_def open_report_def)
qed

end
