(* ===== verification/ServiceHealthMonitor.thy ===== *)
theory ServiceHealthMonitor
  imports LlmHealth
begin

text \<open>
  \<open>scripts/service-health-monitor.py\<close>: the validation of its configuration, the reading
  and classification of the local health reports, the collection round that feeds the
  incident tracker of \<open>LlmHealth\<close>, and one run with its delivery loop. The reader of the
  report files and the answers of the mail server are parameters. Configuration and
  reports are the JSON values the code gets; the state file is typed (\<open>monitor\<close>).
\<close>

section \<open>Configuration\<close>

definition CRITICAL_TLS_FAILURES :: "string list" where
  "CRITICAL_TLS_FAILURES = [''TLS_CERTIFICATE_VALIDATION_FAILED'', ''TLS_CERTIFICATE_EXPIRING'']"

definition WARNING_REASONS :: "(string \<times> string) list" where
  "WARNING_REASONS = [(''FAILED'', ''TLS_CERTIFICATE_EXPIRY_WARNING''), (''HEALTHY'', ''TLS_EXPIRY_WARNING_CLEAR'')]"

definition POLICY_FAILURES :: "string list" where
  "POLICY_FAILURES = CRITICAL_TLS_FAILURES @ [''ACCESS_POLICY_VIOLATION'']"

definition component_of :: "pyval \<Rightarrow> pyval" where
  "component_of source = get_or source ''component'' (PStr ''query'')"

definition is_critical_tls :: "pyval \<Rightarrow> bool" where
  "is_critical_tls source =
     (is_string (get source ''component'') ''critical-tls'' \<and> is_string (get source ''expected_kind'') ''tls'')"

definition is_policy :: "pyval \<Rightarrow> bool" where
  "is_policy source =
     (is_string (get source ''component'') ''access-policy''
      \<and> is_string (get source ''expected_kind'') ''access-policy'')"

definition is_warning :: "pyval \<Rightarrow> bool" where
  "is_warning source =
     (is_string (get source ''severity'') ''warning''
      \<and> is_string (get source ''expected_kind'') ''tls-expiry-warning'')"

definition source_fields_ok :: "pyval \<Rightarrow> string \<Rightarrow> string \<Rightarrow> string list \<Rightarrow> bool" where
  "source_fields_ok source name path seen =
     (let freshness = get source ''freshness_seconds''; count = get source ''failure_count''
      in NAME_fullmatch name \<and> name \<notin> set seen
         \<and> is_absolute path \<and> \<not> has_dotdot path
         \<and> in_tuple (component_of source) [''query'', ''host'', ''critical-tls'', ''access-policy'']
         \<and> is_int freshness \<and> 60 \<le> the_int freshness \<and> the_int freshness \<le> 3600
         \<and> is_int count
         \<and> (if is_critical_tls source \<or> is_policy source \<or> is_warning source
            then the_int count = 1 else 2 \<le> the_int count \<and> the_int count \<le> 5)
         \<and> (is_string (get source ''component'') ''critical-tls'' \<longrightarrow> is_critical_tls source)
         \<and> (is_string (get source ''component'') ''access-policy'' \<longrightarrow> is_policy source)
         \<and> (has_key source ''severity'' \<longrightarrow> is_warning source)
         \<and> (is_warning source \<longrightarrow> is_string (component_of source) ''query'')
         \<and> (is_string (get source ''expected_kind'') ''tls-expiry-warning'' \<longrightarrow> is_warning source))"

text \<open>One pass of the first loop; \<open>Path\<close> and \<open>fullmatch\<close> reject anything but a string.\<close>

definition validate_source :: "pyval \<Rightarrow> string list \<Rightarrow> string list res" where
  "validate_source source seen =
     bindR (check (is_dict source) (HealthError ''SOURCE_INVALID'')) (\<lambda>_.
     let name = get_or source ''name'' (PStr []); path = get_or source ''path'' (PStr [])
     in bindR (check (is_str path \<and> is_str name) TypeError) (\<lambda>_.
        bindR (check (source_fields_ok source (the_str name) (the_str path) seen)
                     (HealthError ''SOURCE_INVALID'')) (\<lambda>_.
        Inr (the_str name # seen))))"

definition src_name :: "pyval \<Rightarrow> string" where
  "src_name source = the_str (get source ''name'')"

definition src_path :: "pyval \<Rightarrow> path" where
  "src_path source = path_of (the_str (get source ''path''))"

definition src_freshness :: "pyval \<Rightarrow> int" where
  "src_freshness source = the_int (get source ''freshness_seconds'')"

definition src_failure_count :: "pyval \<Rightarrow> int" where
  "src_failure_count source = the_int (get source ''failure_count'')"

definition src_parent :: "pyval \<Rightarrow> string option" where
  "src_parent source = (case get source ''observer_parent'' of PStr p \<Rightarrow> Some p | _ \<Rightarrow> None)"

definition indexed :: "pyval list \<Rightarrow> string \<Rightarrow> pyval option" where
  "indexed sources = map_of (map (\<lambda>s. (src_name s, s)) sources)"

definition parent_ok :: "pyval list \<Rightarrow> pyval \<Rightarrow> bool" where
  "parent_ok sources source =
     (has_key source ''observer_parent'' \<longrightarrow>
        (case get source ''observer_parent'' of
           PStr parent \<Rightarrow>
             (case indexed sources parent of
                None \<Rightarrow> False
              | Some p \<Rightarrow>
                  parent \<noteq> src_name source \<and> \<not> has_key p ''observer_parent''
                  \<and> is_string (get p ''expected_kind'') ''observer-report''
                  \<and> is_string (component_of p) ''query'')
         | _ \<Rightarrow> False))"

definition validate :: "pyval \<Rightarrow> unit res" where
  "validate config =
     bindR (getR config ''sources'') (\<lambda>sources.
     bindR (check (is_list sources \<and> the_list sources \<noteq> [] \<and> length (the_list sources) \<le> 32)
                  (HealthError ''SOURCES_INVALID'')) (\<lambda>_.
     bindR (foldR validate_source (the_list sources) []) (\<lambda>_.
     bindR (check (list_all (parent_ok (the_list sources)) (the_list sources))
                  (HealthError ''OBSERVER_PARENT_INVALID'')) (\<lambda>_.
     check (is_bool (get_or config ''notifications_enabled'' (PBool False)))
           (HealthError ''NOTIFICATION_SETTING_INVALID'')))))"

abbreviation sources_of :: "pyval \<Rightarrow> pyval list" where
  "sources_of config \<equiv> the_list (get config ''sources'')"

section \<open>Reading and classifying the reports\<close>

text \<open>The exceptions both \<open>except\<close> clauses of the reading code name.\<close>

fun report_error :: "exn \<Rightarrow> bool" where
  "report_error (AppError c r) = (c = ''HealthError'')"
| "report_error KeyError = True"
| "report_error TypeError = True"
| "report_error ValueError = True"
| "report_error OSError = True"
| "report_error FileNotFoundError = True"
| "report_error _ = False"

text \<open>
  Each path is read once, on the first source that names it; a listed error is kept as the
  entry of the path, any other one ends the round.
\<close>

type_synonym snapshot = "(path \<times> pyval res) list"

definition snapshot_source :: "(path \<Rightarrow> pyval res) \<Rightarrow> pyval \<Rightarrow> snapshot \<Rightarrow> snapshot res" where
  "snapshot_source reader source snap =
     (let path = src_path source
      in case map_of snap path of
           Some _ \<Rightarrow> Inr snap
         | None \<Rightarrow>
             (case reader path of
                Inr v \<Rightarrow> Inr (snap @ [(path, Inr v)])
              | Inl e \<Rightarrow> if report_error e then Inr (snap @ [(path, Inl e)]) else Inl e))"

definition result_snapshot :: "pyval list \<Rightarrow> (path \<Rightarrow> pyval res) \<Rightarrow> snapshot res" where
  "result_snapshot sources reader = foldR (snapshot_source reader) sources []"

record observation =
  o_status :: string
  o_sample_at :: rat
  o_reason :: string
  o_raw_status :: string
  o_source_sample_at :: "rat option"
  o_source_reason :: "string option"
  o_unknown_reason :: "string option"
  o_severity :: "string option"

definition selects_warning :: "pyval \<Rightarrow> bool" where
  "selects_warning source = is_string (get source ''severity'') ''warning''"

definition unavailable :: "pyval \<Rightarrow> rat \<Rightarrow> observation" where
  "unavailable source now =
     \<lparr>o_status = ''OBSERVER_ERROR'', o_sample_at = now, o_reason = ''RESULT_UNAVAILABLE'',
      o_raw_status = ''UNKNOWN'', o_source_sample_at = None, o_source_reason = None,
      o_unknown_reason = Some ''RESULT_INVALID'',
      o_severity = (if selects_warning source then Some ''warning'' else None)\<rparr>"

definition reason_char :: "char \<Rightarrow> bool" where
  "reason_char c = (is_upper c \<or> is_digit c \<or> one_of ''_'' c)"

definition safe_reason :: "pyval \<Rightarrow> string option" where
  "safe_reason v =
     (case v of PStr s \<Rightarrow> if head_match is_upper reason_char 0 95 s then Some s else None | _ \<Rightarrow> None)"

text \<open>The evidence each kind of source must carry, in the order the code checks it.\<close>

definition warning_evidence :: "pyval \<Rightarrow> pyval \<Rightarrow> bool" where
  "warning_evidence value status =
     (is_string (get value ''kind'') ''tls-expiry-warning''
      \<and> is_string (get value ''severity'') ''warning''
      \<and> in_tuple status [''HEALTHY'', ''FAILED'', ''OBSERVER_ERROR'']
      \<and> (case map_of WARNING_REASONS (the_str status) of
           None \<Rightarrow> True | Some r \<Rightarrow> is_string (get value ''reason'') r))"

definition policy_evidence :: "pyval \<Rightarrow> pyval \<Rightarrow> bool res" where
  "policy_evidence value status =
     andR (Inr (is_string (get value ''kind'') ''access-policy''
                \<and> in_tuple status [''HEALTHY'', ''FAILED'', ''OBSERVER_ERROR'']
                \<and> (is_string status ''HEALTHY'' \<longrightarrow>
                     is_string (get value ''reason'') ''ACCESS_POLICY_VERIFIED''
                     \<and> py_eq (get value ''http_status'') (PInt 403))))
          (if is_string status ''FAILED'' then in_setR (get value ''reason'') POLICY_FAILURES else Inr True)"

definition tls_evidence :: "pyval \<Rightarrow> pyval \<Rightarrow> bool res" where
  "tls_evidence value status =
     andR (Inr (is_string (get value ''kind'') ''tls''))
    (andR (if is_string status ''FAILED'' then in_setR (get value ''reason'') CRITICAL_TLS_FAILURES else Inr True)
          (Inr ((is_string status ''HEALTHY'' \<longrightarrow> is_string (get value ''reason'') ''TLS_CERTIFICATE_VERIFIED'')
                \<and> in_tuple status [''HEALTHY'', ''FAILED'', ''OBSERVER_ERROR''])))"

definition observer_evidence :: "pyval \<Rightarrow> pyval \<Rightarrow> bool" where
  "observer_evidence value status =
     (is_string (get value ''kind'') ''observer-report''
      \<and> (is_string status ''HEALTHY'' \<and> is_string (get value ''reason'') ''RESULT_IMPORT_VERIFIED''
         \<or> is_string status ''OBSERVER_ERROR''
           \<and> is_string (get value ''reason'') ''RESULT_IMPORT_UNAVAILABLE''))"

definition needR :: "bool res \<Rightarrow> exn \<Rightarrow> unit res" where
  "needR b e = bindR b (\<lambda>x. check x e)"

definition selected_status :: "pyval \<Rightarrow> pyval \<Rightarrow> string res" where
  "selected_status source value =
     bindR (check (py_eq (get value ''version'') (PInt 1)
                   \<and> py_eq (get value ''source'') (get_or source ''report_source'' (get source ''name'')))
                  (HealthError ''RESULT_IDENTITY_INVALID'')) (\<lambda>_.
     bindR (if is_string (get source ''component'') ''host'' then indexR value ''host'' else Inr value) (\<lambda>value.
     bindR (indexR value ''status'') (\<lambda>status.
     bindR (check (\<not> ((is_string (get value ''kind'') ''tls-expiry-warning'' \<or> has_key value ''severity'')
                       \<and> \<not> selects_warning source))
                  (HealthError ''WARNING_SOURCE_SELECTION_REQUIRED'')) (\<lambda>_.
     bindR (check (selects_warning source \<longrightarrow> warning_evidence value status)
                  (HealthError ''TLS_WARNING_EVIDENCE_INVALID'')) (\<lambda>_.
     bindR (if is_string (get source ''component'') ''access-policy''
            then needR (policy_evidence value status) (HealthError ''ACCESS_POLICY_EVIDENCE_INVALID'')
            else Inr ()) (\<lambda>_.
     bindR (if is_string (get source ''component'') ''critical-tls''
            then needR (tls_evidence value status) (HealthError ''TLS_SECURITY_EVIDENCE_INVALID'')
            else Inr ()) (\<lambda>_.
     bindR (check (is_string (get source ''expected_kind'') ''observer-report'' \<longrightarrow> observer_evidence value status)
                  (HealthError ''IMPORT_OBSERVER_EVIDENCE_INVALID'')) (\<lambda>_.
     bindR (needR (in_setR status STATES) (HealthError ''RESULT_STATUS_INVALID'')) (\<lambda>_.
     Inr (the_str status))))))))))"

definition classified :: "observation \<Rightarrow> pyval \<Rightarrow> rat \<Rightarrow> rat \<Rightarrow> string \<Rightarrow> observation" where
  "classified result source now timestamp status =
     (if fadd now 30 < timestamp then result\<lparr>o_unknown_reason := Some ''RESULT_FUTURE''\<rparr>
      else if of_int (src_freshness source) < fsub now timestamp
      then result\<lparr>o_unknown_reason := Some ''RESULT_STALE''\<rparr>
      else
        let result = result\<lparr>o_raw_status := status, o_sample_at := timestamp, o_unknown_reason := None\<rparr>
        in if status \<in> {''OBSERVER_ERROR'', ''BUDGET_LIMIT''}
           then result\<lparr>o_status := ''OBSERVER_ERROR'', o_reason := ''PROBE_OBSERVER_ERROR''\<rparr>
           else result\<lparr>o_status := status, o_reason := ''SOURCE_OBSERVED''\<rparr>)"

text \<open>The \<open>except\<close> clause keeps what the \<open>try\<close> block had already set.\<close>

definition rescue :: "'a \<Rightarrow> 'a res \<Rightarrow> 'a res" where
  "rescue result m =
     (case m of Inr r \<Rightarrow> Inr r | Inl e \<Rightarrow> if report_error e then Inr result else Inl e)"

definition sampled_value :: "pyval \<Rightarrow> rat \<Rightarrow> pyval \<Rightarrow> observation res" where
  "sampled_value source now value =
     (let result = unavailable source now
      in rescue result
           (bindR (bindR (indexR value ''observed_at'') epoch) (\<lambda>timestamp.
            let result = result\<lparr>o_source_sample_at := Some timestamp,
                                o_source_reason := safe_reason (get value ''reason'')\<rparr>
            in rescue result
                 (bindR (selected_status source value) (\<lambda>status.
                  Inr (classified result source now timestamp status))))))"

definition sampled :: "pyval \<Rightarrow> rat \<Rightarrow> snapshot \<Rightarrow> observation res" where
  "sampled source now snap =
     (case map_of snap (src_path source) of
        None \<Rightarrow> Inl KeyError
      | Some (Inl e) \<Rightarrow>
          Inr ((unavailable source now)\<lparr>o_unknown_reason :=
                 Some (if e = FileNotFoundError then ''RESULT_MISSING'' else ''RESULT_READ_FAILED'')\<rparr>)
      | Some (Inr value) \<Rightarrow> sampled_value source now value)"

section \<open>What validation gives\<close>

text \<open>What the rest of the monitor relies on, stated over the values it reads.\<close>

definition usable_source :: "pyval list \<Rightarrow> pyval \<Rightarrow> bool" where
  "usable_source sources s =
     (is_dict s \<and> NAME_fullmatch (src_name s) \<and> is_absolute (the_str (get s ''path''))
      \<and> \<not> has_dotdot (the_str (get s ''path''))
      \<and> 60 \<le> src_freshness s \<and> src_freshness s \<le> 3600
      \<and> (if selects_warning s \<or> is_critical_tls s \<or> is_policy s
          then src_failure_count s = 1 else 2 \<le> src_failure_count s \<and> src_failure_count s \<le> 5)
      \<and> (\<forall>p. src_parent s = Some p \<longrightarrow>
            (\<exists>q \<in> set sources. src_name q = p \<and> src_name q \<noteq> src_name s \<and> src_parent q = None)))"

definition usable_config :: "pyval \<Rightarrow> bool" where
  "usable_config config =
     (let sources = sources_of config
      in sources \<noteq> [] \<and> length sources \<le> 32 \<and> distinct (map src_name sources)
         \<and> list_all (usable_source sources) sources)"

lemma get_or_get:
  "is_str (get_or v k (PStr [])) \<Longrightarrow> is_dict v \<Longrightarrow> NAME_fullmatch (the_str (get_or v k (PStr []))) \<Longrightarrow>
   the_str (get_or v k (PStr [])) = the_str (get v k)"
  by (auto simp: get_or_def NAME_fullmatch_def head_match_def split: option.splits)

lemma absolute_get:
  "is_absolute (the_str (get_or v k (PStr []))) \<Longrightarrow> the_str (get_or v k (PStr [])) = the_str (get v k)"
  by (auto simp: get_or_def is_absolute_def path_root_def starts_with_def split: option.splits)

lemma validate_source_Inr:
  "validate_source source seen = Inr seen' \<longleftrightarrow>
     is_dict source
     \<and> is_str (get_or source ''path'' (PStr [])) \<and> is_str (get_or source ''name'' (PStr []))
     \<and> source_fields_ok source (the_str (get_or source ''name'' (PStr [])))
          (the_str (get_or source ''path'' (PStr []))) seen
     \<and> seen' = the_str (get_or source ''name'' (PStr [])) # seen"
  by (auto simp: validate_source_def Let_def)

lemma validate_source_name:
  "validate_source source seen = Inr seen' \<Longrightarrow>
   seen' = src_name source # seen \<and> src_name source \<notin> set seen"
  using get_or_get [of source "''name''"]
  by (auto simp: validate_source_Inr source_fields_ok_def Let_def src_name_def)

lemma validate_names:
  "foldR validate_source sources seen = Inr seen' \<Longrightarrow> distinct seen \<Longrightarrow>
   seen' = rev (map src_name sources) @ seen \<and> distinct seen'"
proof (induction sources arbitrary: seen)
  case (Cons s ss)
  then show ?case by (auto dest: validate_source_name)
qed simp

lemma validate_source_mem:
  "foldR validate_source sources seen = Inr seen' \<Longrightarrow> s \<in> set sources \<Longrightarrow>
   \<exists>a b. validate_source s a = Inr b"
  by (induction sources arbitrary: seen) auto

lemma usable_sourceI:
  assumes v: "validate_source s a = Inr b" and p: "parent_ok sources s" and s: "s \<in> set sources"
  shows "usable_source sources s"
proof -
  let ?n = "the_str (get_or s ''name'' (PStr []))" and ?p = "the_str (get_or s ''path'' (PStr []))"
  have f: "is_dict s" "source_fields_ok s ?n ?p a" "is_str (get_or s ''name'' (PStr []))"
    using v by (simp_all add: validate_source_Inr)
  then have eqs: "?n = src_name s" "?p = the_str (get s ''path'')"
    using get_or_get [of s "''name''"] absolute_get [of s "''path''"]
    by (simp_all add: source_fields_ok_def Let_def src_name_def)
  have w: "selects_warning s \<longleftrightarrow> is_warning s"
  proof
    assume "selects_warning s"
    then have "has_key s ''severity''"
      by (auto simp: selects_warning_def is_string_def get_or_def has_key_def split: option.splits)
    then show "is_warning s" using f(2) by (simp add: source_fields_ok_def Let_def)
  qed (simp add: is_warning_def selects_warning_def)
  have "\<exists>q \<in> set sources. src_name q = p \<and> src_name q \<noteq> src_name s \<and> src_parent q = None"
    if "src_parent s = Some p" for p
  proof -
    have "get s ''observer_parent'' = PStr p"
      using that by (auto simp: src_parent_def split: pyval.splits)
    then have "has_key s ''observer_parent''"
      by (auto simp: get_or_def has_key_def split: option.splits)
    then obtain q where q: "indexed sources p = Some q" "p \<noteq> src_name s" "\<not> has_key q ''observer_parent''"
      using p \<open>get s ''observer_parent'' = PStr p\<close>
      by (auto simp: parent_ok_def split: option.splits)
    from q(3) have "src_parent q = None"
      by (auto simp: src_parent_def get_or_def has_key_def)
    moreover have "q \<in> set sources \<and> src_name q = p"
      using q(1) by (auto simp: indexed_def dest!: map_of_SomeD)
    ultimately show ?thesis using q(2) by blast
  qed
  then show ?thesis
    using f w eqs
    by (auto simp: usable_source_def source_fields_ok_def Let_def src_freshness_def src_failure_count_def)
qed

lemma validate_usable:
  assumes "validate config = Inr u"
  shows "usable_config config"
proof -
  obtain v where v: "getR config ''sources'' = Inr v" and l: "the_list v \<noteq> []" "length (the_list v) \<le> 32"
    and f: "\<exists>seen. foldR validate_source (the_list v) [] = Inr seen"
    and p: "list_all (parent_ok (the_list v)) (the_list v)"
    using assms by (auto simp: validate_def)
  from v have s: "sources_of config = the_list v" by (auto simp: getR_def split: if_splits)
  from f obtain seen where seen: "foldR validate_source (the_list v) [] = Inr seen" by blast
  have "distinct (map src_name (the_list v))" using validate_names [OF seen] by auto
  moreover have "usable_source (the_list v) x" if "x \<in> set (the_list v)" for x
    using validate_source_mem [OF seen that] usable_sourceI p that by (auto simp: list_all_iff)
  ultimately show ?thesis using l s by (simp add: usable_config_def list_all_iff)
qed

section \<open>What reading the reports gives\<close>

lemma snapshot_source_step:
  "snapshot_source reader s snap = Inr snap' \<Longrightarrow> \<forall>p r. map_of snap p = Some r \<longrightarrow> r = reader p \<Longrightarrow>
   (\<forall>p r. map_of snap' p = Some r \<longrightarrow> r = reader p)
   \<and> map_of snap' (src_path s) \<noteq> None \<and> (\<forall>p. map_of snap p \<noteq> None \<longrightarrow> map_of snap' p \<noteq> None)"
  by (auto simp: snapshot_source_def Let_def map_add_def
      split: option.splits sum.splits if_splits)

lemma snapshot_fold:
  "foldR (snapshot_source reader) sources snap = Inr snap' \<Longrightarrow>
   \<forall>p r. map_of snap p = Some r \<longrightarrow> r = reader p \<Longrightarrow>
   (\<forall>p r. map_of snap' p = Some r \<longrightarrow> r = reader p)
   \<and> (\<forall>p. map_of snap p \<noteq> None \<longrightarrow> map_of snap' p \<noteq> None)
   \<and> (\<forall>s \<in> set sources. map_of snap' (src_path s) \<noteq> None)"
proof (induction sources arbitrary: snap)
  case (Cons s ss)
  then obtain mid where
    mid: "snapshot_source reader s snap = Inr mid" "foldR (snapshot_source reader) ss mid = Inr snap'" by auto
  note a = snapshot_source_step [OF mid(1) Cons.prems(2)]
  from Cons.IH [OF mid(2) conjunct1 [OF a]] a show ?case by (simp del: split_paired_All)
qed simp

lemma snapshot_lookup:
  assumes "result_snapshot sources reader = Inr snap" "s \<in> set sources"
  shows "map_of snap (src_path s) = Some (reader (src_path s))"
proof -
  have "(\<forall>p r. map_of snap p = Some r \<longrightarrow> r = reader p) \<and> (\<forall>s \<in> set sources. map_of snap (src_path s) \<noteq> None)"
    using snapshot_fold [of reader sources "[]" snap] assms(1) by (simp add: result_snapshot_def)
  then show ?thesis using assms(2)
    by (cases "map_of snap (src_path s)") (auto simp del: split_paired_All)
qed

lemma snapshot_total:
  assumes "\<And>s e. s \<in> set sources \<Longrightarrow> reader (src_path s) = Inl e \<Longrightarrow> report_error e"
  shows "\<exists>snap. result_snapshot sources reader = Inr snap"
proof -
  have "\<exists>t. snapshot_source reader s snap = Inr t" if "s \<in> set sources" for s snap
    using assms [OF that]
    by (cases "reader (src_path s)") (auto simp: snapshot_source_def Let_def split: option.split)
  then show ?thesis
    using foldR_total [of sources "\<lambda>_. True" "snapshot_source reader" "[]"]
    by (simp add: result_snapshot_def)
qed

text \<open>The time stamp of a report, as the code reads it.\<close>

definition reported_at :: "pyval \<Rightarrow> rat res" where
  "reported_at value = bindR (indexR value ''observed_at'') epoch"

lemma epoch_Inl: "epoch v = Inl e \<Longrightarrow> report_error e \<or> (\<exists>i. v = PInt i \<and> \<not> float_range i \<and> e = OverflowError)"
  by (cases v) (auto simp: float_of_int_def bindR_eq_Inl split: if_splits)

lemma indexR_Inl: "indexR v k = Inl e \<Longrightarrow> report_error e"
  by (rule raises_onlyD [OF raises_indexR]) simp_all

lemma reported_at_Inl:
  assumes "reported_at v = Inl e" "\<not> report_error e"
  shows "e = OverflowError \<and> (\<exists>i. indexR v ''observed_at'' = Inr (PInt i) \<and> \<not> float_range i)"
  using assms by (auto simp: reported_at_def bindR_eq_Inl dest: indexR_Inl epoch_Inl)

lemma selected_status_raises [raises]: "raises_only report_error (selected_status source value)"
  unfolding selected_status_def needR_def policy_evidence_def tls_evidence_def by (intro raises) simp_all

lemmas selected_status_Inl = raises_onlyD [OF selected_status_raises]

lemma selected_status_STATES: "selected_status source value = Inr st \<Longrightarrow> st \<in> set STATES"
  by (auto simp: selected_status_def needR_def)

lemma sampled_value_cases:
  obtains e where "reported_at value = Inl e" "report_error e"
      "sampled_value source now value = Inr (unavailable source now)"
  | e where "reported_at value = Inl e" "\<not> report_error e" "sampled_value source now value = Inl e"
  | t e where "reported_at value = Inr t" "selected_status source value = Inl e"
      "sampled_value source now value =
         Inr ((unavailable source now)\<lparr>o_source_sample_at := Some t,
                o_source_reason := safe_reason (get value ''reason'')\<rparr>)"
  | t st where "reported_at value = Inr t" "selected_status source value = Inr st"
      "sampled_value source now value =
         Inr (classified ((unavailable source now)\<lparr>o_source_sample_at := Some t,
                o_source_reason := safe_reason (get value ''reason'')\<rparr>) source now t st)"
proof (cases "reported_at value")
  case (Inl e)
  then show ?thesis
    using that(1,2) by (cases "report_error e") (auto simp: sampled_value_def reported_at_def rescue_def)
next
  case (Inr t)
  then show ?thesis
    using that(3,4) selected_status_Inl [of source "value"]
    by (cases "selected_status source value")
       (fastforce simp: sampled_value_def reported_at_def rescue_def Let_def)+
qed

lemma classified_fields:
  "o_status (classified r source now t st) \<in> {o_status r, ''OBSERVER_ERROR'', st}"
  "o_sample_at (classified r source now t st) \<in> {o_sample_at r, t}"
  by (simp_all add: classified_def Let_def)

lemma unavailable_fields [simp]:
  "o_status (unavailable source now) = ''OBSERVER_ERROR''"
  "o_sample_at (unavailable source now) = now"
  by (simp_all add: unavailable_def)

lemma sampled_range:
  assumes "sampled source now snap = Inr obs" "0 \<le> now"
  shows "o_status obs \<in> set STATES" and "0 \<le> o_sample_at obs"
proof -
  have "o_status obs \<in> set STATES \<and> 0 \<le> o_sample_at obs"
  proof (cases "map_of snap (src_path source)")
    case (Some r)
    show ?thesis
    proof (cases r)
      case (Inr v)
      have s: "sampled_value source now v = Inr obs" using assms(1) Some Inr by (simp add: sampled_def)
      show ?thesis
      proof (cases rule: sampled_value_cases [of v source now])
        case (4 t st)
        have "0 \<le> t" using 4(1) by (auto simp: reported_at_def dest: epoch_nonneg)
        moreover have "st \<in> set STATES" using 4(2) by (rule selected_status_STATES)
        moreover have "''OBSERVER_ERROR'' \<in> set STATES" by (simp add: STATES_def)
        moreover define r where "r = (unavailable source now)\<lparr>o_source_sample_at := Some t,
                o_source_reason := safe_reason (get v ''reason'')\<rparr>"
        moreover have "obs = classified r source now t st" using s 4(3) by (simp add: r_def)
        moreover have "o_status r = ''OBSERVER_ERROR''" "o_sample_at r = now" by (simp_all add: r_def)
        ultimately show ?thesis using classified_fields [of r source now t st] assms(2) by auto
      qed (use s assms(2) in \<open>auto simp: STATES_def\<close>)
    qed (use assms Some in \<open>auto simp: sampled_def STATES_def\<close>)
  qed (use assms in \<open>simp add: sampled_def\<close>)
  then show "o_status obs \<in> set STATES" "0 \<le> o_sample_at obs" by simp_all
qed

text \<open>A status other than \<open>OBSERVER_ERROR\<close> comes from a fresh report with the evidence it needs.\<close>

lemma classified_observed:
  assumes "o_status (classified r source now t st) \<noteq> ''OBSERVER_ERROR''" "o_status r = ''OBSERVER_ERROR''"
  shows "o_status (classified r source now t st) = st" "o_sample_at (classified r source now t st) = t"
    "t \<le> fadd now 30" "fsub now t \<le> of_int (src_freshness source)" "st \<noteq> ''BUDGET_LIMIT''"
  using assms by (simp_all add: classified_def Let_def not_less split: if_splits)

lemma sampled_observed:
  assumes "sampled source now snap = Inr obs" "o_status obs \<noteq> ''OBSERVER_ERROR''"
  obtains v where "map_of snap (src_path source) = Some (Inr v)" "reported_at v = Inr (o_sample_at obs)"
    "selected_status source v = Inr (o_status obs)"
    "o_sample_at obs \<le> fadd now 30" "fsub now (o_sample_at obs) \<le> of_int (src_freshness source)" "o_status obs \<noteq> ''BUDGET_LIMIT''"
proof -
  obtain v where v: "map_of snap (src_path source) = Some (Inr v)" "sampled_value source now v = Inr obs"
    using assms by (auto simp: sampled_def split: option.splits sum.splits)
  show ?thesis
  proof (cases rule: sampled_value_cases [of v source now])
    case (4 t st)
    let ?r = "(unavailable source now)\<lparr>o_source_sample_at := Some t,
                o_source_reason := safe_reason (get v ''reason'')\<rparr>"
    have o: "obs = classified ?r source now t st" using v(2) 4(3) by simp
    have "o_status (classified ?r source now t st) \<noteq> ''OBSERVER_ERROR''" using assms(2) o by simp
    note c = classified_observed [OF this]
    show ?thesis using that [OF v(1)] 4(1,2) c o by simp
  qed (use v(2) assms(2) in auto)
qed

lemma sampled_total:
  assumes "map_of snap (src_path source) = Some r"
    and "\<And>v i. r = Inr v \<Longrightarrow> indexR v ''observed_at'' = Inr (PInt i) \<Longrightarrow> float_range i"
  shows "\<exists>obs. sampled source now snap = Inr obs"
proof (cases r)
  case (Inl e)
  then show ?thesis using assms(1) by (simp add: sampled_def)
next
  case (Inr v)
  then show ?thesis using assms
    by (cases rule: sampled_value_cases [of v source now]) (auto simp: sampled_def dest: reported_at_Inl)
qed

section \<open>Properties\<close>

text \<open>A configuration that \<open>validate\<close> accepts is what the rest of the monitor needs: up to
  32 sources with distinct names and absolute paths without \<open>..\<close>, bounded freshness and
  failure counts (one failure is enough exactly for warnings, critical TLS and access
  policy), and observer dependencies that never chain.\<close>

theorem validated_config_usable:
  assumes "validate config = Inr u"
  shows "usable_config config"
  using assms by (rule validate_usable)

definition sample_source_config :: pyval where
  "sample_source_config = PDict
     [(''name'', PStr ''api''), (''path'', PStr ''/run/api.json''),
      (''freshness_seconds'', PInt 600), (''failure_count'', PInt 2)]"

definition sample_config :: pyval where
  "sample_config = PDict [(''sources'', PList [sample_source_config]), (''notifications_enabled'', PBool True)]"

lemma sample_config_valid: "validate sample_config = Inr ()"
  by (simp add: validate_def sample_config_def getR_def validate_source_def sample_source_config_def
      source_fields_ok_def NAME_fullmatch_def head_match_def class_match_def name_char_def char_class_defs
      is_absolute_def path_root_def starts_with_def has_dotdot_def path_parts_def component_of_def
      is_critical_tls_def is_policy_def is_warning_def is_string_def parent_ok_def Let_def check_def)

lemma validated_config_usable_witness: "usable_config sample_config"
  using sample_config_valid by (rule validated_config_usable)

text \<open>When a report backs a status of its own for a source, in the words of the contract: version and source
  fit, the part that speaks of the source has the status, and for each kind of source the kind, severity,
  reason and HTTP status that make it believable.\<close>

definition own_part :: "pyval \<Rightarrow> pyval \<Rightarrow> pyval" where
  "own_part source report = (if get source ''component'' = PStr ''host'' then get report ''host'' else report)"

definition warning_backed :: "pyval \<Rightarrow> string \<Rightarrow> bool" where
  "warning_backed part st =
     (get part ''kind'' = PStr ''tls-expiry-warning'' \<and> get part ''severity'' = PStr ''warning''
      \<and> (st = ''HEALTHY'' \<and> get part ''reason'' = PStr ''TLS_EXPIRY_WARNING_CLEAR''
         \<or> st = ''FAILED'' \<and> get part ''reason'' = PStr ''TLS_CERTIFICATE_EXPIRY_WARNING''))"

definition policy_backed :: "pyval \<Rightarrow> string \<Rightarrow> bool" where
  "policy_backed part st =
     (get part ''kind'' = PStr ''access-policy''
      \<and> (st = ''HEALTHY'' \<and> get part ''reason'' = PStr ''ACCESS_POLICY_VERIFIED'' \<and> py_eq (get part ''http_status'') (PInt 403)
         \<or> st = ''FAILED'' \<and> (get part ''reason'' = PStr ''ACCESS_POLICY_VIOLATION''
              \<or> get part ''reason'' = PStr ''TLS_CERTIFICATE_VALIDATION_FAILED'' \<or> get part ''reason'' = PStr ''TLS_CERTIFICATE_EXPIRING'')))"

definition tls_backed :: "pyval \<Rightarrow> string \<Rightarrow> bool" where
  "tls_backed part st =
     (get part ''kind'' = PStr ''tls''
      \<and> (st = ''HEALTHY'' \<and> get part ''reason'' = PStr ''TLS_CERTIFICATE_VERIFIED''
         \<or> st = ''FAILED'' \<and> (get part ''reason'' = PStr ''TLS_CERTIFICATE_VALIDATION_FAILED''
              \<or> get part ''reason'' = PStr ''TLS_CERTIFICATE_EXPIRING'')))"

definition report_backs :: "pyval \<Rightarrow> pyval \<Rightarrow> string \<Rightarrow> bool" where
  "report_backs source report st =
     (let part = own_part source report
      in py_eq (get report ''version'') (PInt 1)
         \<and> py_eq (get report ''source'') (get_or source ''report_source'' (get source ''name''))
         \<and> get part ''status'' = PStr st \<and> (st = ''HEALTHY'' \<or> st = ''FAILED'' \<or> st = ''LOADING'')
         \<and> (if get source ''severity'' = PStr ''warning'' then warning_backed part st
            else get part ''kind'' \<noteq> PStr ''tls-expiry-warning'' \<and> \<not> has_key part ''severity'')
         \<and> (get source ''component'' = PStr ''access-policy'' \<longrightarrow> policy_backed part st)
         \<and> (get source ''component'' = PStr ''critical-tls'' \<longrightarrow> tls_backed part st)
         \<and> (get source ''expected_kind'' = PStr ''observer-report'' \<longrightarrow>
              get part ''kind'' = PStr ''observer-report'' \<and> st = ''HEALTHY'' \<and> get part ''reason'' = PStr ''RESULT_IMPORT_VERIFIED''))"

text \<open>The evidence the code asks for is this evidence, kind by kind.\<close>

lemma warning_evidence_backs:
  "warning_evidence part (PStr st) \<Longrightarrow> st \<noteq> ''OBSERVER_ERROR'' \<Longrightarrow> warning_backed part st"
  by (auto simp: warning_evidence_def warning_backed_def WARNING_REASONS_def is_string_def)

lemma policy_evidence_backs:
  "policy_evidence part (PStr st) = Inr True \<Longrightarrow> st \<noteq> ''OBSERVER_ERROR'' \<Longrightarrow> policy_backed part st"
  by (auto simp: policy_evidence_def policy_backed_def POLICY_FAILURES_def CRITICAL_TLS_FAILURES_def is_string_def split: if_splits)

lemma tls_evidence_backs:
  "tls_evidence part (PStr st) = Inr True \<Longrightarrow> st \<noteq> ''OBSERVER_ERROR'' \<Longrightarrow> tls_backed part st"
  by (auto simp: tls_evidence_def tls_backed_def CRITICAL_TLS_FAILURES_def is_string_def split: if_splits)

lemma observer_evidence_backs:
  "observer_evidence part (PStr st) \<Longrightarrow> st \<noteq> ''OBSERVER_ERROR'' \<Longrightarrow>
   get part ''kind'' = PStr ''observer-report'' \<and> st = ''HEALTHY'' \<and> get part ''reason'' = PStr ''RESULT_IMPORT_VERIFIED''"
  by (auto simp: observer_evidence_def is_string_def)

lemma indexR_get: "indexR v k = Inr x \<Longrightarrow> get v k = x"
  by (auto simp: indexR_def get_or_def split: if_splits option.splits)

lemma selected_backs:
  assumes selected: "selected_status source report = Inr st" and st: "st \<noteq> ''OBSERVER_ERROR''" "st \<noteq> ''BUDGET_LIMIT''"
  shows "report_backs source report st"
proof -
  from selected obtain part status u v w where head: "py_eq (get report ''version'') (PInt 1)"
    "py_eq (get report ''source'') (get_or source ''report_source'' (get source ''name''))"
    "(if is_string (get source ''component'') ''host'' then indexR report ''host'' else Inr report) = Inr part"
    "indexR part ''status'' = Inr status"
    and choice: "\<not> ((is_string (get part ''kind'') ''tls-expiry-warning'' \<or> has_key part ''severity'') \<and> \<not> selects_warning source)"
    and warning: "selects_warning source \<longrightarrow> warning_evidence part status"
    and policy: "(if is_string (get source ''component'') ''access-policy''
            then needR (policy_evidence part status) (HealthError ''ACCESS_POLICY_EVIDENCE_INVALID'') else Inr ()) = Inr u"
    and tls: "(if is_string (get source ''component'') ''critical-tls''
            then needR (tls_evidence part status) (HealthError ''TLS_SECURITY_EVIDENCE_INVALID'') else Inr ()) = Inr v"
    and observer: "is_string (get source ''expected_kind'') ''observer-report'' \<longrightarrow> observer_evidence part status"
    and state: "needR (in_setR status STATES) (HealthError ''RESULT_STATUS_INVALID'') = Inr w" and result: "the_str status = st"
    unfolding selected_status_def bindR_eq_Inr check_eq_Inr sum.inject by (elim exE conjE) (rule that; assumption)
  have part: "own_part source report = part"
    using head(3) by (auto simp: own_part_def is_string_def dest: indexR_get split: if_splits)
  have status: "status = PStr st" using state result by (auto simp: needR_def)
  have states: "st = ''HEALTHY'' \<or> st = ''FAILED'' \<or> st = ''LOADING''"
    using selected_status_STATES [OF selected] st by (simp add: STATES_def)
  have "if get source ''severity'' = PStr ''warning'' then warning_backed part st
        else get part ''kind'' \<noteq> PStr ''tls-expiry-warning'' \<and> \<not> has_key part ''severity''"
    using choice warning warning_evidence_backs [OF _ st(1)] unfolding status by (auto simp: selects_warning_def is_string_def)
  moreover have "policy_backed part st" if "get source ''component'' = PStr ''access-policy''"
    using policy that policy_evidence_backs [OF _ st(1)] unfolding status by (auto simp: is_string_def needR_def)
  moreover have "tls_backed part st" if "get source ''component'' = PStr ''critical-tls''"
    using tls that tls_evidence_backs [OF _ st(1)] unfolding status by (auto simp: is_string_def needR_def)
  moreover have "get part ''kind'' = PStr ''observer-report'' \<and> st = ''HEALTHY'' \<and> get part ''reason'' = PStr ''RESULT_IMPORT_VERIFIED''"
    if "get source ''expected_kind'' = PStr ''observer-report''"
    using observer that observer_evidence_backs [OF _ st(1)] unfolding status by (simp add: is_string_def)
  moreover have "get part ''status'' = PStr st" using indexR_get [OF head(4)] status by simp
  ultimately show ?thesis using head(1,2) states unfolding report_backs_def Let_def part by blast
qed

text \<open>C7: A source is reported with a status of its own, and not as \<open>OBSERVER_ERROR\<close>, only on the strength
  of a report that was read and that backs this status: it has the supported version and the name the
  source expects, the status, and for warnings, access policies, critical TLS and observers the kind,
  severity, reason and HTTP status that belong to it. The report is not from the future by more than 30
  seconds and is no older than the configured freshness.\<close>

theorem status_needs_fresh_evidence:
  assumes "sampled source now snap = Inr obs" "o_status obs \<noteq> ''OBSERVER_ERROR''"
  shows "\<exists>v. map_of snap (src_path source) = Some (Inr v)
           \<and> bindR (indexR v ''observed_at'') epoch = Inr (o_sample_at obs)
           \<and> report_backs source v (o_status obs)
           \<and> o_sample_at obs \<le> fadd now 30
           \<and> fsub now (o_sample_at obs) \<le> of_int (src_freshness source)"
proof -
  obtain v where v: "map_of snap (src_path source) = Some (Inr v)" "reported_at v = Inr (o_sample_at obs)"
    "selected_status source v = Inr (o_status obs)"
    "o_sample_at obs \<le> fadd now 30" "fsub now (o_sample_at obs) \<le> of_int (src_freshness source)" "o_status obs \<noteq> ''BUDGET_LIMIT''"
    by (rule sampled_observed [OF assms])
  have "report_backs source v (o_status obs)" using v(3) assms(2) v(6) by (rule selected_backs)
  with v(1,2,4,5) show ?thesis unfolding reported_at_def by blast
qed

definition sample_report :: pyval where
  "sample_report = PDict
     [(''version'', PInt 1), (''source'', PStr ''api''), (''observed_at'', PInt 100), (''status'', PStr ''HEALTHY'')]"

lemma status_needs_fresh_evidence_witness:
  "\<exists>obs. sampled sample_source_config 160 [((''/'', [''run'', ''api.json'']), Inr sample_report)] = Inr obs
      \<and> o_status obs = ''HEALTHY'' \<and> o_sample_at obs \<le> fadd 160 30"
proof -
  obtain obs where obs:
    "sampled sample_source_config 160 [((''/'', [''run'', ''api.json'']), Inr sample_report)] = Inr obs"
    "o_status obs = ''HEALTHY''"
    by (simp add: sampled_def src_path_def path_of_def sample_source_config_def path_root_def starts_with_def
        path_parts_def sampled_value_def rescue_def sample_report_def float_range_small float_of_int_small
        selected_status_def is_string_def selects_warning_def STATES_def needR_def classified_def
        src_freshness_def fadd_def fsub_def Let_def check_def)
  from status_needs_fresh_evidence [OF obs(1)] obs show ?thesis by auto
qed

end
