(* ===== verification/ServiceHealthCollect.thy ===== *)
theory ServiceHealthCollect
  imports ServiceHealthMonitor
begin

text \<open>
  \<open>scripts/service-health-monitor.py\<close>, second part: the collection round \<open>collect\<close>, which
  feeds every source and the observer of every source to the incident tracker and reserves
  the alerts, and \<open>run\<close>, which writes the state and delivers what is pending. The state
  file is a \<open>monitor\<close>: per source name the entry of the source and the entry of its
  observer. The effects of a run are the writes of that file and the submissions.
\<close>

section \<open>State\<close>

record tracked =
  t_main :: entry
  t_observer :: entry

record monitor =
  m_last :: "rat option"
  m_sources :: "(string \<times> tracked) list"

definition empty_monitor :: monitor where
  "empty_monitor = \<lparr>m_last = None, m_sources = []\<rparr>"

definition new_tracked :: tracked where
  "new_tracked = \<lparr>t_main = empty_entry, t_observer = empty_entry\<rparr>"

definition tracked_of :: "monitor \<Rightarrow> string \<Rightarrow> tracked" where
  "tracked_of m name = (case map_of (m_sources m) name of None \<Rightarrow> new_tracked | Some t \<Rightarrow> t)"

record report = observation +
  r_incident :: "int option"
  r_observer_incident :: "int option"
  r_event :: string
  r_observer_status :: string
  r_observer_event :: string
  r_suppressed_by :: "string option"
  r_parent_status :: "string option"
  r_recovery_candidate_since :: "rat option"

section \<open>One target\<close>

definition pending :: "delivery \<Rightarrow> bool" where
  "pending d = (d_status d \<in> {NEW, NOT_SENT})"

definition supersede :: "entry \<Rightarrow> string \<Rightarrow> entry" where
  "supersede e event =
     (case map_of (deliveries e) event of
        None \<Rightarrow> e
      | Some d \<Rightarrow>
          if pending d
          then e\<lparr>deliveries := AList.update event (d\<lparr>d_status := SUPERSEDED\<rparr>) (deliveries e)\<rparr>
          else e)"

definition supersede_stale :: "entry \<Rightarrow> string \<Rightarrow> string \<Rightarrow> entry" where
  "supersede_stale e current_status transition =
     (let e = (if current_status \<noteq> ''HEALTHY'' then supersede e ''RECOVERED'' else e)
      in if transition = ''RECOVERED'' then supersede e ''FAILED'' else e)"

text \<open>\<open>delivery['severity'] = 'warning'\<close> on the delivery just reserved.\<close>

definition reserve :: "entry \<Rightarrow> string \<Rightarrow> string \<Rightarrow> rat \<Rightarrow> bool \<Rightarrow> entry" where
  "reserve e target event now warning =
     (let e = reserve_event e target event now
      in if warning
         then e\<lparr>deliveries := AList.update event
                  ((the (map_of (deliveries e) event))\<lparr>d_severity := Some ''warning''\<rparr>) (deliveries e)\<rparr>
         else e)"

definition reserved_failure :: "entry \<Rightarrow> int option" where
  "reserved_failure e = (case map_of (deliveries e) ''FAILED'' of None \<Rightarrow> None | Some d \<Rightarrow> d_incident d)"

definition notify :: "entry \<Rightarrow> string \<Rightarrow> string \<Rightarrow> rat \<Rightarrow> bool \<Rightarrow> entry" where
  "notify e target transition now warning =
     (if transition \<in> {''FAILED'', ''RECOVERED''} then reserve e target transition now warning
      else if has_incident e \<and> reserved_failure e \<noteq> incident e then reserve e target ''FAILED'' now warning
      else e)"

section \<open>One source\<close>

definition suppressor :: "pyval \<Rightarrow> observation \<Rightarrow> string option \<Rightarrow> string option" where
  "suppressor source obs parent_status =
     (if o_unknown_reason obs \<in> {Some ''RESULT_MISSING'', Some ''RESULT_STALE''}
         \<and> parent_status = Some ''OBSERVER_ERROR''
      then src_parent source else None)"

text \<open>The two calls of \<open>observe\<close>, each with the reset that follows it.\<close>

definition track_main :: "entry \<Rightarrow> pyval \<Rightarrow> observation \<Rightarrow> (entry \<times> string) res" where
  "track_main e source obs =
     bindR (observe e (o_status obs) (PFloat (o_sample_at obs)) (src_failure_count source)
              (src_freshness source) 2 3600) (\<lambda>(e, event).
     Inr (if o_status obs = ''OBSERVER_ERROR'' then stream_reset e else e, event))"

definition observer_status_of :: "observation \<Rightarrow> string option \<Rightarrow> string" where
  "observer_status_of obs suppressed_by =
     (if suppressed_by \<noteq> None then ''OBSERVER_ERROR''
      else if o_status obs = ''OBSERVER_ERROR'' then ''FAILED'' else ''HEALTHY'')"

definition track_observer :: "entry \<Rightarrow> observation \<Rightarrow> string option \<Rightarrow> rat \<Rightarrow> (entry \<times> string) res" where
  "track_observer e obs suppressed_by now =
     bindR (observe e (observer_status_of obs suppressed_by) (PFloat now) 3 180 2 3600) (\<lambda>(e, event).
     Inr (if suppressed_by \<noteq> None then stream_reset e else e, event))"

definition observer_prefix :: string where
  "observer_prefix = ''observer-''"

definition settle_main ::
  "bool \<Rightarrow> pyval \<Rightarrow> observation \<Rightarrow> string \<Rightarrow> rat \<Rightarrow> entry \<Rightarrow> entry" where
  "settle_main notifications source obs event now e =
     (let e = supersede_stale e (o_status obs) event
      in if notifications then notify e (src_name source) event now (selects_warning source) else e)"

definition settle_observer ::
  "bool \<Rightarrow> pyval \<Rightarrow> observation \<Rightarrow> string option \<Rightarrow> string \<Rightarrow> rat \<Rightarrow> entry \<Rightarrow> entry" where
  "settle_observer notifications source obs suppressed_by event now e =
     (let e = supersede_stale e (observer_status_of obs suppressed_by) event
      in if notifications \<and> suppressed_by = None
         then notify e (observer_prefix @ src_name source) event now False else e)"

definition report_of ::
  "observation \<Rightarrow> tracked \<Rightarrow> string \<Rightarrow> string \<Rightarrow> string option \<Rightarrow> string option \<Rightarrow> report" where
  "report_of obs t event observer_event suppressed_by parent_status =
     observation.extend obs
       (report.fields (incident (t_main t)) (incident (t_observer t)) event
          (observer_status_of obs suppressed_by) observer_event suppressed_by parent_status
          (healthy_since (t_main t)))"

type_synonym samples = "(string \<times> observation) list"

text \<open>The two entries of a source never share a delivery, so settling one does not touch the other.\<close>

definition track_source ::
  "bool \<Rightarrow> pyval \<Rightarrow> observation \<Rightarrow> string option \<Rightarrow> rat \<Rightarrow> tracked \<Rightarrow> (tracked \<times> report) res" where
  "track_source notifications source obs parent_status now t =
     (let suppressed_by = suppressor source obs parent_status
      in bindR (track_main (t_main t) source obs) (\<lambda>(e, event).
         bindR (track_observer (t_observer t) obs suppressed_by now) (\<lambda>(ob, observer_event).
         let t' = \<lparr>t_main = settle_main notifications source obs event now e,
                   t_observer = settle_observer notifications source obs suppressed_by observer_event now ob\<rparr>
         in Inr (t', report_of obs t' event observer_event suppressed_by parent_status))))"

section \<open>A collection round\<close>

definition parent_status_of :: "samples \<Rightarrow> pyval \<Rightarrow> string option" where
  "parent_status_of samples source =
     (case src_parent source of None \<Rightarrow> None | Some p \<Rightarrow> map_option o_status (map_of samples p))"

definition sample_source :: "rat \<Rightarrow> snapshot \<Rightarrow> pyval \<Rightarrow> samples \<Rightarrow> samples res" where
  "sample_source now snap source samples =
     bindR (sampled source now snap) (\<lambda>obs. Inr (AList.update (src_name source) obs samples))"

definition collect_source ::
  "bool \<Rightarrow> samples \<Rightarrow> rat \<Rightarrow> pyval \<Rightarrow> monitor \<times> (string \<times> report) list \<Rightarrow>
   (monitor \<times> (string \<times> report) list) res" where
  "collect_source notifications samples now source acc =
     (let name = src_name source
      in bindR (track_source notifications source (the (map_of samples name))
                  (parent_status_of samples source) now (tracked_of (fst acc) name)) (\<lambda>(t, r).
         Inr ((fst acc)\<lparr>m_sources := AList.update name t (m_sources (fst acc))\<rparr>,
              AList.update name r (snd acc))))"

definition clock_ok :: "monitor \<Rightarrow> rat \<Rightarrow> bool" where
  "clock_ok m now = ((case m_last m of None \<Rightarrow> 0 | Some t \<Rightarrow> t) \<le> now)"

definition health_collect ::
  "pyval \<Rightarrow> monitor \<Rightarrow> pyval \<Rightarrow> (path \<Rightarrow> pyval res) \<Rightarrow> bool \<Rightarrow>
   (monitor \<times> (string \<times> report) list) res" where
  "health_collect config m now reader notifications =
     bindR (validate config) (\<lambda>_.
     bindR (epoch now) (\<lambda>now.
     bindR (check (clock_ok m now) (HealthError ''CLOCK_MOVED_BACKWARDS'')) (\<lambda>_.
     let sources = sources_of config
     in bindR (result_snapshot sources reader) (\<lambda>snap.
        bindR (foldR (sample_source now snap) sources []) (\<lambda>samples.
        foldR (collect_source notifications samples now) sources (m\<lparr>m_last := Some now\<rparr>, []))))))"

section \<open>A run\<close>

text \<open>
  A position is where a delivery is stored: the source, whether it is the observer's, and
  the event. The loop walks over the sources and looks at every delivery once; \<open>deliver\<close>
  changes a delivery in place and \<open>persist\<close> writes the whole state.
\<close>

type_synonym position = "string \<times> bool \<times> string"

definition entry_at :: "monitor \<Rightarrow> string \<Rightarrow> bool \<Rightarrow> entry" where
  "entry_at m name observer =
     (if observer then t_observer (tracked_of m name) else t_main (tracked_of m name))"

definition put_entry :: "monitor \<Rightarrow> string \<Rightarrow> bool \<Rightarrow> entry \<Rightarrow> monitor" where
  "put_entry m name observer e =
     (let t = tracked_of m name;
          t = (if observer then t\<lparr>t_observer := e\<rparr> else t\<lparr>t_main := e\<rparr>)
      in m\<lparr>m_sources := AList.update name t (m_sources m)\<rparr>)"

definition put_delivery :: "monitor \<Rightarrow> position \<Rightarrow> delivery \<Rightarrow> monitor" where
  "put_delivery m p d =
     (case p of (name, observer, event) \<Rightarrow>
        let e = entry_at m name observer
        in put_entry m name observer (e\<lparr>deliveries := AList.update event d (deliveries e)\<rparr>))"

type_synonym submission = "string \<times> bool \<times> alert"

fun lift_effect :: "monitor \<Rightarrow> position \<Rightarrow> (delivery, alert) effect \<Rightarrow> (monitor, submission) effect" where
  "lift_effect m p (Persist d) = Persist (put_delivery m p d)"
| "lift_effect m p (Send k) = Send (fst p, fst (snd p), k)"

definition deliver_at ::
  "rat \<Rightarrow> (position \<Rightarrow> answer) \<Rightarrow> monitor \<Rightarrow> position \<Rightarrow> (monitor, submission) effect list" where
  "deliver_at now answers m p =
     (case p of (name, observer, event) \<Rightarrow>
        case map_of (deliveries (entry_at m name observer)) event of
          None \<Rightarrow> []
        | Some d \<Rightarrow> map (lift_effect m p) (deliver d (now, answers p)))"

fun deliver_all ::
  "rat \<Rightarrow> (position \<Rightarrow> answer) \<Rightarrow> monitor \<Rightarrow> position list \<Rightarrow> (monitor, submission) effect list" where
  "deliver_all now answers m [] = []"
| "deliver_all now answers m (p # ps) =
     (let es = deliver_at now answers m p in es @ deliver_all now answers (disk m es) ps)"

definition positions_of :: "monitor \<Rightarrow> string \<Rightarrow> bool \<Rightarrow> position list" where
  "positions_of m name observer =
     map (\<lambda>(event, _). (name, observer, event)) (deliveries (entry_at m name observer))"

definition due_positions :: "monitor \<Rightarrow> (string \<times> report) list \<Rightarrow> pyval list \<Rightarrow> position list" where
  "due_positions m summary sources =
     concat (map (\<lambda>source.
       let name = src_name source
       in positions_of m name False
          @ (if r_suppressed_by (the (map_of summary name)) = None then positions_of m name True else []))
       sources)"

text \<open>What a run meets: configuration, clock, report files, mail settings, answers of the server.\<close>

record health_env =
  he_config :: pyval
  he_now :: rat
  he_reader :: "path \<Rightarrow> pyval res"
  he_mail :: "unit res"
  he_answers :: "position \<Rightarrow> answer"

definition notifications_enabled :: "pyval \<Rightarrow> bool" where
  "notifications_enabled config = truthy (get_or config ''notifications_enabled'' (PBool False))"

text \<open>The outcome of a run is the summary it writes and prints, or the exception it ends with.\<close>

definition health_run ::
  "monitor \<Rightarrow> health_env \<Rightarrow> (monitor, submission) effect list \<times> (string \<times> report) list res" where
  "health_run m env =
     (let config = he_config env; enabled = notifications_enabled config
      in case health_collect config m (PFloat (he_now env)) (he_reader env) enabled of
           Inl e \<Rightarrow> ([], Inl e)
         | Inr (m', summary) \<Rightarrow>
             if \<not> enabled then ([Persist m'], Inr summary)
             else case he_mail env of
                    Inl e \<Rightarrow> ([Persist m'], Inl e)
                  | Inr _ \<Rightarrow>
                      (Persist m' # deliver_all (he_now env) (he_answers env) m'
                         (due_positions m' summary (sources_of config)), Inr summary))"

definition health_dry_run :: "monitor \<Rightarrow> health_env \<Rightarrow> (string \<times> report) list res" where
  "health_dry_run m env =
     bindR (validate (he_config env)) (\<lambda>_.
     bindR (health_collect (he_config env) m (PFloat (he_now env)) (he_reader env) False) (\<lambda>r. Inr (snd r)))"

section \<open>The ledger of one target\<close>

text \<open>
  What the tracker and the deliveries of an entry say about each other. A stored delivery
  sits under its event and names an incident that exists; a recovery names one that has
  closed. A delivery that is still pending speaks of the present: a failure of the open
  incident, a recovery of the last closed one while none is open.
\<close>

definition slot_ok :: "entry \<Rightarrow> string \<Rightarrow> delivery \<Rightarrow> bool" where
  "slot_ok e event d =
     (d_event d = event \<and> delivery_ok d
      \<and> (\<exists>i. d_incident d = Some i \<and> 1 \<le> i \<and> i \<le> sequence e
              \<and> (event = ''FAILED'' \<or>
                 event = ''RECOVERED'' \<and> (\<exists>c. closed_incident e = Some c \<and> i \<le> c))))"

definition current_slot :: "entry \<Rightarrow> string \<Rightarrow> delivery \<Rightarrow> bool" where
  "current_slot e event d =
     (pending d \<longrightarrow>
        (if event = ''FAILED'' then d_incident d = incident e
         else incident e = None \<and> d_incident d = closed_incident e))"

definition ledger_ok :: "entry \<Rightarrow> bool" where
  "ledger_ok e = (entry_ok e \<and> (\<forall>event d. map_of (deliveries e) event = Some d \<longrightarrow> slot_ok e event d))"

definition current_ok :: "entry \<Rightarrow> bool" where
  "current_ok e = (\<forall>event d. map_of (deliveries e) event = Some d \<longrightarrow> current_slot e event d)"

text \<open>How many submissions of an alert the ledger can still lead to.\<close>

definition entry_budget :: "entry \<Rightarrow> alert \<Rightarrow> nat" where
  "entry_budget e k =
     (case snd k of
        None \<Rightarrow> 0
      | Some i \<Rightarrow>
          (case map_of (deliveries e) (fst k) of
             None \<Rightarrow> 3
           | Some d \<Rightarrow>
               (case d_incident d of
                  None \<Rightarrow> 0
                | Some j \<Rightarrow> if j = i then attempts_left d k else if j < i then 3 else 0)))"

lemma ledger_slot: "ledger_ok e \<Longrightarrow> map_of (deliveries e) event = Some d \<Longrightarrow> slot_ok e event d"
  by (simp add: ledger_ok_def)

lemma ledger_entry: "ledger_ok e \<Longrightarrow> entry_ok e"
  by (simp add: ledger_ok_def)

lemma ledger_empty [simp]: "ledger_ok empty_entry" "current_ok empty_entry"
  by (simp_all add: ledger_ok_def current_ok_def) (simp_all add: empty_entry_def)

lemma ledger_stream [simp]:
  "ledger_ok (stream_reset e) = ledger_ok e" "current_ok (stream_reset e) = current_ok e"
  "deliveries (stream_reset e) = deliveries e"
  by (simp_all add: ledger_ok_def current_ok_def slot_ok_def current_slot_def)
     (simp_all add: stream_reset_def)

lemma entry_budget_cong: "deliveries e = deliveries e' \<Longrightarrow> entry_budget e k = entry_budget e' k"
  by (simp add: entry_budget_def split: option.split)

lemma attempts_left_le: "attempts_left d k \<le> 3"
  by (simp add: attempts_left_def)

text \<open>Writing one delivery: what has to be known of the new one.\<close>

lemma ledger_update:
  assumes "ledger_ok e" "slot_ok e event d"
  shows "ledger_ok (e\<lparr>deliveries := AList.update event d (deliveries e)\<rparr>)"
  using assms by (auto simp: ledger_ok_def slot_ok_def update_conv)

lemma current_update:
  assumes "current_ok e" "current_slot e event d"
  shows "current_ok (e\<lparr>deliveries := AList.update event d (deliveries e)\<rparr>)"
  using assms by (auto simp: current_ok_def current_slot_def update_conv)

lemma budget_update:
  "entry_budget (e\<lparr>deliveries := AList.update event d (deliveries e)\<rparr>) k =
     (if fst k = event
      then (case snd k of None \<Rightarrow> 0 | Some i \<Rightarrow>
              (case d_incident d of None \<Rightarrow> 0
               | Some j \<Rightarrow> if j = i then attempts_left d k else if j < i then 3 else 0))
      else entry_budget e k)"
  by (simp add: entry_budget_def update_conv split: option.splits)

subsection \<open>Superseding\<close>

lemma supersede_cases:
  obtains "supersede e event = e" "\<And>d. map_of (deliveries e) event = Some d \<Longrightarrow> \<not> pending d"
  | d where "map_of (deliveries e) event = Some d" "pending d"
      "supersede e event =
         e\<lparr>deliveries := AList.update event (d\<lparr>d_status := SUPERSEDED\<rparr>) (deliveries e)\<rparr>"
  by (auto simp: supersede_def split: option.splits)

lemma supersede_fields [simp]:
  "incident (supersede e event) = incident e" "sequence (supersede e event) = sequence e"
  "closed_incident (supersede e event) = closed_incident e"
  "has_incident (supersede e event) = has_incident e"
  "healthy_since (supersede e event) = healthy_since e"
  by (cases rule: supersede_cases [of e event]; simp add: has_incident_def)+

lemma supersede_slot:
  "slot_ok e event d \<Longrightarrow> slot_ok e event (d\<lparr>d_status := SUPERSEDED\<rparr>)"
  by (simp add: slot_ok_def delivery_ok_def)

lemma supersede_ledger: "ledger_ok e \<Longrightarrow> ledger_ok (supersede e event)"
  by (cases rule: supersede_cases [of e event])
     (auto intro!: ledger_update supersede_slot intro: ledger_slot)

lemma supersede_budget: "entry_budget (supersede e event) k \<le> entry_budget e k"
proof (cases rule: supersede_cases [of e event])
  case (2 d)
  have "attempts_left (d\<lparr>d_status := SUPERSEDED\<rparr>) k = 0"
    by (simp add: attempts_left_def spent_def)
  then show ?thesis using 2(1) unfolding 2(3) budget_update
    by (auto simp: entry_budget_def split: option.splits)
qed simp

lemma supersede_current: "current_ok e \<Longrightarrow> current_ok (supersede e event)"
  by (cases rule: supersede_cases [of e event])
     (auto intro!: current_update simp: current_slot_def pending_def)

lemma supersede_lookup:
  "map_of (deliveries (supersede e event)) ev = Some d \<Longrightarrow> pending d \<Longrightarrow>
   ev \<noteq> event \<and> map_of (deliveries e) ev = Some d"
  by (cases rule: supersede_cases [of e event]) (auto simp: update_conv pending_def split: if_splits)

lemma supersede_other [simp]:
  "ev \<noteq> event \<Longrightarrow> map_of (deliveries (supersede e event)) ev = map_of (deliveries e) ev"
  by (cases rule: supersede_cases [of e event]) (auto simp: update_conv)

lemma supersede_incidents:
  "map_option d_incident (map_of (deliveries (supersede e event)) ev) =
     map_option d_incident (map_of (deliveries e) ev)"
  by (cases rule: supersede_cases [of e event]) (auto simp: update_conv)

lemma supersede_stale_fields [simp]:
  "incident (supersede_stale e st ev) = incident e" "sequence (supersede_stale e st ev) = sequence e"
  "closed_incident (supersede_stale e st ev) = closed_incident e"
  "has_incident (supersede_stale e st ev) = has_incident e"
  "healthy_since (supersede_stale e st ev) = healthy_since e"
  by (simp_all add: supersede_stale_def Let_def)

lemma supersede_stale_ledger: "ledger_ok e \<Longrightarrow> ledger_ok (supersede_stale e st ev)"
  by (simp add: supersede_stale_def Let_def supersede_ledger)

lemma supersede_stale_budget: "entry_budget (supersede_stale e st ev) k \<le> entry_budget e k"
  unfolding supersede_stale_def Let_def by (auto intro: supersede_budget le_trans)

lemma supersede_stale_incidents:
  "map_option d_incident (map_of (deliveries (supersede_stale e st ev)) event) =
     map_option d_incident (map_of (deliveries e) event)"
  by (simp add: supersede_stale_def Let_def supersede_incidents)

lemma supersede_stale_lookup:
  "map_of (deliveries (supersede_stale e st ev)) event = Some d \<Longrightarrow> pending d \<Longrightarrow>
   map_of (deliveries e) event = Some d
   \<and> (event = ''RECOVERED'' \<longrightarrow> st = ''HEALTHY'') \<and> (event = ''FAILED'' \<longrightarrow> ev \<noteq> ''RECOVERED'')"
  by (auto simp: supersede_stale_def Let_def dest!: supersede_lookup split: if_splits)

subsection \<open>A move of the tracker\<close>

lemma move_slot:
  assumes "entry_ok e" "incident_move e st ev e'" "slot_ok e event d"
  shows "slot_ok e' event d"
  using assms(2)
proof cases
  case (closed i)
  then have "c \<le> i" if "closed_incident e = Some c" for c
    using assms(1) that by (fastforce simp: entry_ok_def)
  then show ?thesis using assms(3) closed by (fastforce simp: slot_ok_def)
qed (use assms(3) in \<open>auto simp: slot_ok_def\<close>)

lemma move_deliveries: "incident_move e st ev e' \<Longrightarrow> deliveries e' = deliveries e"
  by (auto elim: incident_move.cases)

lemma move_ledger:
  "ledger_ok e \<Longrightarrow> incident_move e st ev e' \<Longrightarrow> entry_ok e' \<Longrightarrow> ledger_ok e'"
  by (auto simp: ledger_ok_def move_deliveries intro: move_slot)

lemma move_budget: "incident_move e st ev e' \<Longrightarrow> entry_budget e' k = entry_budget e k"
  by (intro entry_budget_cong move_deliveries)

text \<open>After a move, superseding restores the agreement of the pending deliveries.\<close>

lemma move_current:
  assumes l: "ledger_ok e" and c: "current_ok e" and m: "incident_move e st ev e'"
  shows "current_ok (supersede_stale e' st ev)"
  unfolding current_ok_def
proof (intro allI impI)
  fix event d
  assume d: "map_of (deliveries (supersede_stale e' st ev)) event = Some d"
  show "current_slot (supersede_stale e' st ev) event d"
  proof (cases "pending d")
    case True
    note f = supersede_stale_lookup [OF d True, unfolded move_deliveries [OF m]]
    then have "slot_ok e event d" "current_slot e event d"
      using l c by (auto simp: ledger_ok_def current_ok_def)
    with m f True show ?thesis
      by (elim incident_move.cases) (auto simp: current_slot_def slot_ok_def)
  qed (simp add: current_slot_def)
qed

subsection \<open>Reserving\<close>

definition fresh_delivery :: "entry \<Rightarrow> string \<Rightarrow> string \<Rightarrow> rat \<Rightarrow> bool \<Rightarrow> delivery" where
  "fresh_delivery e target event now warning =
     \<lparr>d_target = target, d_event = event,
      d_incident = (if event = ''FAILED'' then incident e else closed_incident e), d_attempts = 0,
      d_status = NEW, d_created_at = now, d_retry_after = 0,
      d_severity = (if warning then Some ''warning'' else None)\<rparr>"

lemma reserve_eq:
  "reserve e target event now warning =
     e\<lparr>deliveries := AList.update event (fresh_delivery e target event now warning) (deliveries e)\<rparr>"
  by (simp add: reserve_def reserve_event_def Let_def fresh_delivery_def update_conv' update_last)

lemma fresh_delivery_fields [simp]:
  "d_event (fresh_delivery e target event now w) = event"
  "d_status (fresh_delivery e target event now w) = NEW"
  "d_attempts (fresh_delivery e target event now w) = 0"
  "d_incident (fresh_delivery e target event now w) =
     (if event = ''FAILED'' then incident e else closed_incident e)"
  by (simp_all add: fresh_delivery_def)

text \<open>
  A reservation is lawful when it names an incident newer than the one its slot holds: then
  the ledger stays in order, and nothing that was used up becomes available again.
\<close>

lemma reserve_lawful:
  assumes l: "ledger_ok e" and c: "current_ok e"
    and i: "(if event = ''FAILED'' then incident e else closed_incident e) = Some i"
    and ev: "event = ''FAILED'' \<or> event = ''RECOVERED'' \<and> incident e = None"
    and newer: "\<forall>d j. map_of (deliveries e) event = Some d \<longrightarrow> d_incident d = Some j \<longrightarrow> j < i"
  shows "ledger_ok (reserve e target event now w)"
    and "current_ok (reserve e target event now w)"
    and "entry_budget (reserve e target event now w) k \<le> entry_budget e k"
proof -
  let ?d = "fresh_delivery e target event now w"
  have "1 \<le> i \<and> i \<le> sequence e"
    using ledger_entry [OF l] i by (auto simp: entry_ok_def split: if_splits)
  then have s: "slot_ok e event ?d"
    using i ev by (auto simp: slot_ok_def delivery_ok_def)
  then show "ledger_ok (reserve e target event now w)"
    unfolding reserve_eq by (rule ledger_update [OF l])
  have "current_slot e event ?d" using ev by (auto simp: current_slot_def)
  then show "current_ok (reserve e target event now w)"
    unfolding reserve_eq by (rule current_update [OF c])
  have "map_of (deliveries e) event = None \<or>
        (\<exists>d j. map_of (deliveries e) event = Some d \<and> d_incident d = Some j \<and> j < i)"
    using ledger_slot [OF l] newer by (cases "map_of (deliveries e) event") (fastforce simp: slot_ok_def)+
  then show "entry_budget (reserve e target event now w) k \<le> entry_budget e k"
    unfolding reserve_eq budget_update using i
    by (cases k; cases "snd k"; cases "fst k = event")
       (auto simp: entry_budget_def attempts_left_le)
qed

subsection \<open>A target through one round\<close>

text \<open>Both settlements of the code: stale deliveries are superseded, then alerts may be reserved.\<close>

definition settle :: "bool \<Rightarrow> string \<Rightarrow> string \<Rightarrow> string \<Rightarrow> rat \<Rightarrow> bool \<Rightarrow> entry \<Rightarrow> entry" where
  "settle notifying status target event now warning e =
     (let e = supersede_stale e status event in if notifying then notify e target event now warning else e)"

lemma settle_main_eq:
  "settle_main notifications source obs event now e =
     settle notifications (o_status obs) (src_name source) event now (selects_warning source) e"
  by (simp add: settle_main_def settle_def)

lemma settle_observer_eq:
  "settle_observer notifications source obs sb event now e =
     settle (notifications \<and> sb = None) (observer_status_of obs sb)
       (observer_prefix @ src_name source) event now False e"
  by (simp add: settle_observer_def settle_def Let_def)

lemma stored_incident:
  assumes "map_of (deliveries (supersede_stale e' st ev)) event = Some d" "deliveries e' = deliveries e"
  obtains d' where "map_of (deliveries e) event = Some d'" "d_incident d' = d_incident d"
  using supersede_stale_incidents [of e' st ev event] assms
  by (cases "map_of (deliveries e) event") auto

lemma notify_lawful:
  fixes e e' st ev
  defines "s \<equiv> supersede_stale e' st ev"
  assumes l: "ledger_ok e" and c: "current_ok e" and m: "incident_move e st ev e'" and ok: "entry_ok e'"
  shows "ledger_ok (notify s target ev now w) \<and> current_ok (notify s target ev now w)
         \<and> entry_budget (notify s target ev now w) k \<le> entry_budget e k"
proof -
  have ls: "ledger_ok s" unfolding s_def by (intro supersede_stale_ledger move_ledger [OF l m ok])
  have cs: "current_ok s" unfolding s_def by (rule move_current [OF l c m])
  have bs: "entry_budget s k \<le> entry_budget e k"
    unfolding s_def move_budget [OF m, symmetric] by (rule supersede_stale_budget)
  have stored: "\<exists>d'. slot_ok e event d' \<and> d_incident d' = d_incident d"
    if "map_of (deliveries s) event = Some d" for event d
    using stored_incident [OF that [unfolded s_def] move_deliveries [OF m]] ledger_slot [OF l] by blast
  have fin: ?thesis if "notify s target ev now w = reserve s target event now w"
    "(if event = ''FAILED'' then incident s else closed_incident s) = Some i"
    "event = ''FAILED'' \<or> event = ''RECOVERED'' \<and> incident s = None"
    "\<forall>d j. map_of (deliveries s) event = Some d \<longrightarrow> d_incident d = Some j \<longrightarrow> j < i" for event i
    using reserve_lawful(1,2) [OF ls cs that(2-4)] le_trans [OF reserve_lawful(3) [OF ls cs that(2-4)] bs]
      that(1) by simp
  have same: "incident s = incident e'" "closed_incident s = closed_incident e'"
    "sequence s = sequence e'" by (simp_all add: s_def)
  show ?thesis using m
  proof cases
    case opened
    have older: "j < sequence e + 1"
      if d: "map_of (deliveries s) ''FAILED'' = Some d" "d_incident d = Some j" for d j
      using stored [OF d(1)] d(2) by (auto simp: slot_ok_def)
    show ?thesis
      by (rule fin [of "''FAILED''" "sequence e + 1"]) (use opened same older in \<open>simp_all add: notify_def\<close>)
  next
    case (closed i)
    have older: "j < i" if d: "map_of (deliveries s) ''RECOVERED'' = Some d" "d_incident d = Some j" for d j
    proof -
      obtain d' where "slot_ok e ''RECOVERED'' d'" "d_incident d' = Some j"
        using stored [OF d(1)] d(2) by auto
      then obtain a where "closed_incident e = Some a" "j \<le> a" unfolding slot_ok_def by auto
      moreover have "i = sequence e" "a < i" if "closed_incident e = Some a" for a
        using closed(3) that ledger_entry [OF l] by (auto simp: entry_ok_def)
      ultimately show ?thesis by fastforce
    qed
    show ?thesis
      by (rule fin [of "''RECOVERED''" i]) (use closed same older in \<open>simp_all add: notify_def\<close>)
  next
    case kept
    show ?thesis
    proof (cases "has_incident s \<and> reserved_failure s \<noteq> incident s")
      case True
      then obtain i where i: "incident s = Some i" by (auto simp: has_incident_def)
      have "i = sequence s" using i ledger_entry [OF ls] by (simp add: entry_ok_def)
      moreover have "j < i"
        if d: "map_of (deliveries s) ''FAILED'' = Some d" "d_incident d = Some j" for d j
      proof -
        have "j \<le> sequence s" using ledger_slot [OF ls d(1)] d(2) by (auto simp: slot_ok_def)
        moreover have "j \<noteq> i" using True i d by (auto simp: reserved_failure_def)
        ultimately show ?thesis using \<open>i = sequence s\<close> by simp
      qed
      moreover have "notify s target ev now w = reserve s target ''FAILED'' now w"
        using True kept by (auto simp: notify_def)
      ultimately show ?thesis using i by (intro fin [of "''FAILED''" i]) simp_all
    next
      case False
      then show ?thesis using kept ls cs bs by (auto simp: notify_def)
    qed
  qed
qed

lemma settle_lawful:
  assumes "ledger_ok e" "current_ok e" "incident_move e st ev e'" "entry_ok e'"
  shows "ledger_ok (settle b st target ev now w e') \<and> current_ok (settle b st target ev now w e')
    \<and> entry_budget (settle b st target ev now w e') k \<le> entry_budget e k"
proof (cases b)
  case True
  then show ?thesis using notify_lawful [OF assms] by (simp add: settle_def)
next
  case False
  have "entry_budget (supersede_stale e' st ev) k \<le> entry_budget e k"
    using supersede_stale_budget move_budget [OF assms(3)] by metis
  then show ?thesis
    using False move_current [OF assms(1-3)] supersede_stale_ledger [OF move_ledger [OF assms(1,3,4)]]
    by (simp add: settle_def)
qed

lemma move_stream: "incident_move e st ev e' \<Longrightarrow> incident_move e st ev (stream_reset e')"
  by (auto elim!: incident_move.cases intro: incident_move.intros simp: stream_reset_def)

lemma observed_moves:
  assumes "observe e st v k f n t = Inr (e', ev)" "ledger_ok e"
  shows "incident_move e st ev e' \<and> entry_ok e'
    \<and> incident_move e st ev (stream_reset e') \<and> entry_ok (stream_reset e')"
  using observe_moves [OF assms(1) ledger_entry [OF assms(2)]]
    observe_ok [OF assms(1) ledger_entry [OF assms(2)]] move_stream by simp

lemma track_main_moves:
  assumes "track_main e source obs = Inr (e', ev)" "ledger_ok e"
  shows "incident_move e (o_status obs) ev e' \<and> entry_ok e'"
  using assms(1) unfolding track_main_def
  by (auto dest!: observed_moves [OF _ assms(2)])

lemma track_observer_moves:
  assumes "track_observer e obs sb now = Inr (e', ev)" "ledger_ok e"
  shows "incident_move e (observer_status_of obs sb) ev e' \<and> entry_ok e'"
  using assms(1) unfolding track_observer_def
  by (auto dest!: observed_moves [OF _ assms(2)])

section \<open>The whole state through a round\<close>

definition monitor_ok :: "monitor \<Rightarrow> bool" where
  "monitor_ok m =
     (\<forall>name observer. ledger_ok (entry_at m name observer) \<and> current_ok (entry_at m name observer))"

fun run_budget :: "monitor \<Rightarrow> submission \<Rightarrow> nat" where
  "run_budget m (name, observer, k) = entry_budget (entry_at m name observer) k"

lemma entry_at_update:
  "entry_at (m\<lparr>m_sources := AList.update name t (m_sources m)\<rparr>) name' observer =
     (if name' = name then (if observer then t_observer t else t_main t) else entry_at m name' observer)"
  by (simp add: entry_at_def tracked_of_def update_conv)

lemma entry_at_last [simp]: "entry_at (m\<lparr>m_last := t\<rparr>) name observer = entry_at m name observer"
  by (simp add: entry_at_def tracked_of_def)

lemma monitor_ok_empty [simp]: "monitor_ok empty_monitor"
  by (simp add: monitor_ok_def entry_at_def tracked_of_def empty_monitor_def new_tracked_def)

lemma track_source_lawful:
  assumes "track_source b source obs ps now t = Inr (t', r)"
    and "ledger_ok (t_main t)" "current_ok (t_main t)"
    and "ledger_ok (t_observer t)" "current_ok (t_observer t)"
  shows "ledger_ok (t_main t')" "current_ok (t_main t')"
    and "ledger_ok (t_observer t')" "current_ok (t_observer t')"
    and "entry_budget (t_main t') k \<le> entry_budget (t_main t) k"
    and "entry_budget (t_observer t') k \<le> entry_budget (t_observer t) k"
proof -
  obtain e ev oe oev where
    m: "track_main (t_main t) source obs = Inr (e, ev)"
    and o: "track_observer (t_observer t) obs (suppressor source obs ps) now = Inr (oe, oev)"
    and t': "t' = \<lparr>t_main = settle_main b source obs ev now e,
        t_observer = settle_observer b source obs (suppressor source obs ps) oev now oe\<rparr>"
    using assms(1) by (auto simp: track_source_def Let_def)
  note mm = track_main_moves [OF m assms(2)] and oo = track_observer_moves [OF o assms(4)]
  show "ledger_ok (t_main t')" "current_ok (t_main t')"
    "entry_budget (t_main t') k \<le> entry_budget (t_main t) k"
    using settle_lawful [OF assms(2,3) conjunct1 [OF mm] conjunct2 [OF mm]]
    by (simp_all add: t' settle_main_eq)
  show "ledger_ok (t_observer t')" "current_ok (t_observer t')"
    "entry_budget (t_observer t') k \<le> entry_budget (t_observer t) k"
    using settle_lawful [OF assms(4,5) conjunct1 [OF oo] conjunct2 [OF oo]]
    by (simp_all add: t' settle_observer_eq)
qed

lemma collect_source_lawful:
  assumes "collect_source b samples now source (m, sm) = Inr (m', sm')" "monitor_ok m"
  shows "monitor_ok m' \<and> run_budget m' k \<le> run_budget m k"
proof -
  let ?n = "src_name source"
  obtain t r where
    t: "track_source b source (the (map_of samples ?n)) (parent_status_of samples source) now
          (tracked_of m ?n) = Inr (t, r)"
    and m': "m' = m\<lparr>m_sources := AList.update ?n t (m_sources m)\<rparr>"
    using assms(1) by (auto simp: collect_source_def Let_def)
  have ok: "ledger_ok (t_main (tracked_of m ?n)) \<and> current_ok (t_main (tracked_of m ?n))"
    "ledger_ok (t_observer (tracked_of m ?n)) \<and> current_ok (t_observer (tracked_of m ?n))"
    using assms(2) unfolding monitor_ok_def entry_at_def by metis+
  note l = track_source_lawful [OF t conjunct1 [OF ok(1)] conjunct2 [OF ok(1)]
      conjunct1 [OF ok(2)] conjunct2 [OF ok(2)]]
  have "monitor_ok m'"
    using l(1-4) assms(2) by (simp add: monitor_ok_def m' entry_at_update)
  moreover have "run_budget m' k \<le> run_budget m k"
    using l(5,6) by (cases k) (simp add: m' entry_at_update, simp add: entry_at_def)
  ultimately show ?thesis by blast
qed

lemma health_collect_lawful:
  assumes "health_collect config m now reader b = Inr (m', summary)" "monitor_ok m"
  shows "monitor_ok m'" and "run_budget m' k \<le> run_budget m k"
proof -
  obtain t samples where
    f: "foldR (collect_source b samples t) (sources_of config) (m\<lparr>m_last := Some t\<rparr>, []) = Inr (m', summary)"
    using assms(1) by (auto simp: health_collect_def Let_def)
  have "run_budget (m\<lparr>m_last := Some t\<rparr>) k = run_budget m k" by (cases k) simp
  moreover have "monitor_ok (m\<lparr>m_last := Some t\<rparr>)" using assms(2) by (simp add: monitor_ok_def)
  ultimately have "monitor_ok (fst (m', summary)) \<and> run_budget (fst (m', summary)) k \<le> run_budget m k"
    using f
    by (intro foldR_invariant [where I = "\<lambda>a. monitor_ok (fst a) \<and> run_budget (fst a) k \<le> run_budget m k", OF f])
       (fastforce dest!: collect_source_lawful [where k = k])+
  then show "monitor_ok m'" "run_budget m' k \<le> run_budget m k" by simp_all
qed

section \<open>Delivering from the whole state\<close>

lemma entry_at_put [simp]:
  "entry_at (put_entry m name observer e) name' observer' =
     (if name' = name \<and> observer' = observer then e else entry_at m name' observer')"
  by (auto simp: put_entry_def Let_def entry_at_update) (simp_all add: entry_at_def)

lemma entry_at_put_delivery:
  "entry_at (put_delivery m (name, observer, event) d) name' observer' =
     (let e = entry_at m name' observer'
      in if name' = name \<and> observer' = observer
         then e\<lparr>deliveries := AList.update event d (deliveries e)\<rparr> else e)"
  by (simp add: put_delivery_def Let_def)

text \<open>Replacing a delivery by a later state of itself.\<close>

definition later_state :: "delivery \<Rightarrow> delivery \<Rightarrow> bool" where
  "later_state d d' = (alert_of d' = alert_of d \<and> delivery_ok d' \<and> (pending d' \<longrightarrow> pending d))"

lemma put_delivery_ok:
  assumes "monitor_ok m" "map_of (deliveries (entry_at m name observer)) event = Some d" "later_state d d'"
  shows "monitor_ok (put_delivery m (name, observer, event) d')"
proof -
  let ?e = "entry_at m name observer"
  have "slot_ok ?e event d" "current_slot ?e event d"
    using assms(1,2) by (auto simp: monitor_ok_def ledger_ok_def current_ok_def)
  then have "slot_ok ?e event d'" "current_slot ?e event d'"
    using assms(3) by (auto simp: slot_ok_def current_slot_def later_state_def alert_of_def)
  then show ?thesis using assms(1)
    by (auto simp: monitor_ok_def entry_at_put_delivery Let_def intro: ledger_update current_update)
qed

lemma put_delivery_budget:
  assumes "monitor_ok m" "map_of (deliveries (entry_at m name observer)) event = Some d" "later_state d d'"
  shows "run_budget (put_delivery m (name, observer, event) d') k =
           (if k = (name, observer, alert_of d) then attempts_left d' (alert_of d) else run_budget m k)"
proof -
  have "slot_ok (entry_at m name observer) event d"
    using assms(1,2) by (auto simp: monitor_ok_def ledger_ok_def)
  then obtain i where "d_event d = event" "d_incident d = Some i" by (auto simp: slot_ok_def)
  moreover obtain n o' a where "k = (n, o', a)" by (cases k)
  ultimately show ?thesis using assms(2,3)
    by (cases a; cases "snd a")
       (auto simp: entry_at_put_delivery Let_def budget_update later_state_def alert_of_def entry_budget_def update_conv)
qed

lemma attempted_states:
  assumes "delivery_ok d" "pending d" "d1 = d\<lparr>d_attempts := d_attempts d + 1, d_status := ATTEMPTED\<rparr>"
  shows "later_state d d1" "attempts_left d1 (alert_of d) = 0"
    "later_state d (after_answer d1 now a)"
    "attempts_left (after_answer d1 now a) (alert_of d) + 1 \<le> attempts_left d (alert_of d)"
proof -
  have n: "d_attempts d \<le> 2" "attempts_left d (alert_of d) = 3 - d_attempts d"
    using assms(1,2) by (auto simp: delivery_ok_def pending_def attempts_left_def spent_def)
  show "later_state d d1" "attempts_left d1 (alert_of d) = 0"
    by (simp_all add: assms(3) later_state_def delivery_ok_def pending_def attempts_left_def spent_def)
  show "later_state d (after_answer d1 now a)"
    using assms(2) by (cases a) (simp_all add: later_state_def assms(3) delivery_ok_def after_answer_status)
  show "attempts_left (after_answer d1 now a) (alert_of d) + 1 \<le> attempts_left d (alert_of d)"
    unfolding n(2) using n(1)
    by (cases a) (auto simp: assms(3) attempts_left_def spent_def after_answer_status)
qed

lemma deliver_at_lawful:
  assumes "monitor_ok m"
  shows "lawful monitor_ok run_budget m (deliver_at now answers m p)"
proof -
  obtain name observer event where p: "p = (name, observer, event)" by (cases p)
  show ?thesis
  proof (cases "map_of (deliveries (entry_at m name observer)) event")
    case None
    then show ?thesis using assms by (simp add: deliver_at_def p)
  next
    case (Some d)
    have "slot_ok (entry_at m name observer) event d"
      using assms Some by (auto simp: monitor_ok_def ledger_ok_def)
    then obtain i where s: "delivery_ok d" "d_event d = event" "d_incident d = Some i"
      by (auto simp: slot_ok_def)
    have b: "run_budget m (name, observer, alert_of d) = attempts_left d (alert_of d)"
      using Some s by (simp add: entry_budget_def alert_of_def)
    show ?thesis
    proof (cases rule: deliver_cases [of d now "answers p"])
      case 1
      then show ?thesis using assms Some by (simp add: deliver_at_def p)
    next
      case (2 d1)
      note st = attempted_states [OF s(1) _ 2(3), folded pending_def]
      have pd: "pending d" using 2(1) by (simp add: pending_def)
      show ?thesis
        using 2(4) Some st(1) [OF pd] st(2) [OF pd] st(3) [OF pd, of now "answers p"]
          st(4) [OF pd, of now "answers p"]
        by (auto simp: deliver_at_def p b put_delivery_budget [OF assms Some] simp del: run_budget.simps
            intro!: lawful_attempt assms put_delivery_ok [OF assms Some])
    qed
  qed
qed

lemma deliver_all_lawful:
  "monitor_ok m \<Longrightarrow> lawful monitor_ok run_budget m (deliver_all now answers m ps)"
proof (induction ps arbitrary: m)
  case (Cons p ps)
  note l = deliver_at_lawful [OF Cons.prems, of now answers p]
  have "monitor_ok (disk m (deliver_at now answers m p))"
    using lawfulD(1) [OF l, of "deliver_at now answers m p" "[]"] by simp
  then show ?case using l by (simp add: Let_def lawful_append Cons.IH)
qed simp

lemma health_run_lawful:
  assumes "monitor_ok m"
  shows "lawful monitor_ok run_budget m (fst (health_run m env))"
proof (cases "health_collect (he_config env) m (PFloat (he_now env)) (he_reader env)
    (notifications_enabled (he_config env))")
  case (Inl e)
  then show ?thesis using assms by (simp add: health_run_def Let_def)
next
  case (Inr r)
  obtain m' summary where r: "r = (m', summary)" by (cases r)
  note c = health_collect_lawful [OF Inr [unfolded r] assms]
  have "lawful monitor_ok run_budget m (Persist m' # es)"
    if "lawful monitor_ok run_budget m' es" for es
    using assms that c(2) by (rule lawful_Persist)
  then show ?thesis
    using Inr r c(1) by (simp add: health_run_def Let_def deliver_all_lawful split: sum.split)
qed

interpretation monitor_mail: accounted "\<lambda>m env. fst (health_run m env)" monitor_ok run_budget
  by unfold_locales (rule health_run_lawful)

section \<open>Rounds that complete\<close>

lemma observe_total:
  "status \<in> set STATES \<Longrightarrow> 0 \<le> t \<Longrightarrow> \<exists>r. observe e status (PFloat t) k f n s = Inr r"
  by (simp add: observe_def)

lemma track_source_total:
  assumes "o_status obs \<in> set STATES" "0 \<le> o_sample_at obs" "0 \<le> now"
  shows "\<exists>t' r. track_source b source obs ps now t = Inr (t', r)"
proof -
  let ?s = "suppressor source obs ps"
  obtain e ev where m: "track_main (t_main t) source obs = Inr (e, ev)"
    using observe_total [OF assms(1,2), of "t_main t" "src_failure_count source" "src_freshness source" 2 3600]
    by (auto simp: track_main_def)
  have "observer_status_of obs ?s \<in> set STATES" by (simp add: observer_status_of_def STATES_def)
  then obtain oe oev where "track_observer (t_observer t) obs ?s now = Inr (oe, oev)"
    using observe_total [OF _ assms(3), of "observer_status_of obs ?s" "t_observer t" 3 180 2 3600]
    by (auto simp: track_observer_def)
  with m show ?thesis by (simp add: track_source_def Let_def)
qed

lemma collect_source_total:
  assumes "map_of samples (src_name source) = Some obs" "o_status obs \<in> set STATES"
    "0 \<le> o_sample_at obs" "0 \<le> now"
  shows "\<exists>r. collect_source b samples now source acc = Inr r"
  using track_source_total [OF assms(2-4), of b source "parent_status_of samples source"
      "tracked_of (fst acc) (src_name source)"] assms(1)
  by (auto simp: collect_source_def Let_def)

text \<open>The samples of a round hold a sample of every source that was walked over.\<close>

definition sampled_ok :: "pyval set \<Rightarrow> rat \<Rightarrow> snapshot \<Rightarrow> samples \<Rightarrow> bool" where
  "sampled_ok sources now snap samples =
     (\<forall>name obs. map_of samples name = Some obs \<longrightarrow>
        (\<exists>s \<in> sources. src_name s = name \<and> sampled s now snap = Inr obs))"

lemma sample_source_step:
  "sample_source now snap s samples = Inr samples' \<Longrightarrow> sampled_ok A now snap samples \<Longrightarrow> s \<in> A \<Longrightarrow>
   sampled_ok A now snap samples' \<and> dom (map_of samples') = insert (src_name s) (dom (map_of samples))"
  by (auto simp: sample_source_def sampled_ok_def update_conv' split: if_splits)

lemma sample_fold:
  "foldR (sample_source now snap) ss samples = Inr samples' \<Longrightarrow> sampled_ok A now snap samples \<Longrightarrow>
   set ss \<subseteq> A \<Longrightarrow> sampled_ok A now snap samples'
   \<and> dom (map_of samples') = src_name ` set ss \<union> dom (map_of samples)"
proof (induction ss arbitrary: samples)
  case (Cons s ss)
  then obtain mid where
    mid: "sample_source now snap s samples = Inr mid" "foldR (sample_source now snap) ss mid = Inr samples'"
    by auto
  have "s \<in> A" "set ss \<subseteq> A" using Cons.prems(3) by simp_all
  note a = sample_source_step [OF mid(1) Cons.prems(2) this(1)]
  from Cons.IH [OF mid(2) conjunct1 [OF a] \<open>set ss \<subseteq> A\<close>] a show ?case by auto
qed simp

text \<open>The reports a configuration reads fail only in the ways the code expects.\<close>

definition readable :: "pyval list \<Rightarrow> (path \<Rightarrow> pyval res) \<Rightarrow> bool" where
  "readable sources reader =
     (\<forall>s \<in> set sources. \<forall>e. reader (src_path s) = Inl e \<longrightarrow> report_error e)"

definition stamps_in_range :: "pyval list \<Rightarrow> (path \<Rightarrow> pyval res) \<Rightarrow> bool" where
  "stamps_in_range sources reader =
     (\<forall>s \<in> set sources. \<forall>v i. reader (src_path s) = Inr v \<longrightarrow>
        indexR v ''observed_at'' = Inr (PInt i) \<longrightarrow> float_range i)"

lemma collect_completes:
  assumes v: "validate config = Inr u" and n: "0 \<le> now" and c: "clock_ok m now"
    and r: "readable (sources_of config) reader" and i: "stamps_in_range (sources_of config) reader"
  shows "\<exists>r. health_collect config m (PFloat now) reader b = Inr r"
proof -
  let ?ss = "sources_of config"
  obtain snap where snap: "result_snapshot ?ss reader = Inr snap"
    using snapshot_total [of ?ss reader] r by (auto simp: readable_def)
  have "\<exists>obs. sampled s now snap = Inr obs" if "s \<in> set ?ss" for s
    using sampled_total [OF snapshot_lookup [OF snap that]] i that
    by (auto simp: stamps_in_range_def)
  then have "\<exists>t. sample_source now snap s samples = Inr t" if "s \<in> set ?ss" for s samples
    using that by (fastforce simp: sample_source_def)
  then obtain samples where samples: "foldR (sample_source now snap) ?ss [] = Inr samples"
    using foldR_total [of ?ss "\<lambda>_. True" "sample_source now snap" "[]"] by auto
  have "sampled_ok (set ?ss) now snap []" by (simp add: sampled_ok_def)
  from sample_fold [OF samples this subset_refl]
  have so: "sampled_ok (set ?ss) now snap samples" "dom (map_of samples) = src_name ` set ?ss" by simp_all
  have "\<exists>t. collect_source b samples now s acc = Inr t" if s: "s \<in> set ?ss" for s acc
  proof -
    obtain obs where obs: "map_of samples (src_name s) = Some obs" using so(2) s by blast
    then obtain s' where "sampled s' now snap = Inr obs" using so(1) by (auto simp: sampled_ok_def)
    from sampled_range [OF this n] show ?thesis
      using obs n by (intro collect_source_total)
  qed
  then obtain res where
    "foldR (collect_source b samples now) ?ss (m\<lparr>m_last := Some now\<rparr>, []) = Inr res"
    using foldR_total [of ?ss "\<lambda>_. True" "collect_source b samples now" "(m\<lparr>m_last := Some now\<rparr>, [])"] by auto
  then show ?thesis using v n c snap samples by (simp add: health_collect_def Let_def)
qed

lemma collect_overflows:
  assumes v: "validate config = Inr u" and n: "0 \<le> now" and c: "clock_ok m now"
    and r: "readable (sources_of config) reader"
    and s: "s \<in> set (sources_of config)" "reader (src_path s) = Inr val"
    and i: "indexR val ''observed_at'' = Inr (PInt i)" "\<not> float_range i"
  shows "health_collect config m (PFloat now) reader b = Inl OverflowError"
proof -
  let ?ss = "sources_of config"
  obtain snap where snap: "result_snapshot ?ss reader = Inr snap"
    using snapshot_total [of ?ss reader] r by (auto simp: readable_def)
  have only: "raises_only (\<lambda>e. e = OverflowError) (sampled x now snap)" if x: "x \<in> set ?ss" for x
  proof (cases "reader (src_path x)")
    case (Inl e)
    then show ?thesis using snapshot_lookup [OF snap x] by (simp add: sampled_def raises)
  next
    case (Inr w)
    then show ?thesis using snapshot_lookup [OF snap x]
      by (cases rule: sampled_value_cases [of w x now])
         (auto simp: sampled_def raises_only_def dest: reported_at_Inl)
  qed
  have "reported_at val = Inl OverflowError"
    using i by (simp add: reported_at_def)
  then have bad: "sampled s now snap = Inl OverflowError"
    using snapshot_lookup [OF snap s(1)] s(2)
    by (cases rule: sampled_value_cases [of val s now]) (auto simp: sampled_def)
  have "raises_only (\<lambda>e. e = OverflowError) (foldR (sample_source now snap) ?ss [])"
    unfolding sample_source_def by (intro raises only)
  moreover have "foldR (sample_source now snap) ?ss [] \<noteq> Inr samples" for samples
  proof
    assume f: "foldR (sample_source now snap) ?ss [] = Inr samples"
    obtain xs ys where xs: "?ss = xs @ s # ys" using s(1) by (auto simp: in_set_conv_decomp)
    then show False using f bad by (auto simp: foldR_append sample_source_def)
  qed
  ultimately have "foldR (sample_source now snap) ?ss [] = Inl OverflowError"
    by (cases "foldR (sample_source now snap) ?ss []") (auto simp: raises_only_def)
  then show ?thesis using v n c snap by (simp add: health_collect_def Let_def)
qed

section \<open>Alerts that may not be lost or sent\<close>

lemma settle_notified:
  assumes "settle True st target ev now w e' = r" "incident_move e st ev e'" "incident r = Some i"
    "entry_ok e"
  shows "reserved_failure r = Some i"
proof -
  let ?s = "supersede_stale e' st ev"
  have r: "r = notify ?s target ev now w" using assms(1) by (simp add: settle_def)
  have i: "incident ?s = Some i"
    using assms(3) by (simp add: r notify_def reserve_eq split: if_splits)
  show ?thesis
  proof (cases "reserved_failure ?s = incident ?s \<and> ev \<noteq> ''FAILED''")
    case True
    have "ev \<noteq> ''RECOVERED''"
    proof
      assume "ev = ''RECOVERED''"
      then have "incident e' = None" using assms(2) incident_move_closed by blast
      then show False using i by simp
    qed
    then show ?thesis using True i by (simp add: r notify_def)
  next
    case False
    have "has_incident ?s"
    proof -
      from assms(2) have "i \<noteq> 0"
        using i assms(4) by (elim incident_move.cases) (auto simp: entry_ok_def)
      then show ?thesis using i by (simp add: has_incident_def)
    qed
    moreover have "ev \<noteq> ''RECOVERED''"
      using assms(2) i incident_move_closed by fastforce
    ultimately have "r = reserve ?s target ''FAILED'' now w" using False by (auto simp: r notify_def)
    then show ?thesis using i by (simp add: reserve_eq reserved_failure_def update_conv)
  qed
qed

lemma settle_quiet:
  "map_of (deliveries (settle False st target ev now w e)) event = Some d \<Longrightarrow> pending d \<Longrightarrow>
   map_of (deliveries e) event = Some d"
  by (auto simp: settle_def Let_def dest: supersede_stale_lookup)

lemma track_source_suppressed:
  assumes "track_source b source obs ps now t = Inr (t', r)" "suppressor source obs ps = Some p"
    "ledger_ok (t_observer t)"
  shows "r_suppressed_by r = Some p"
    and "failures (t_observer t') = 0" "healthy_since (t_observer t') = None"
    and "map_of (deliveries (t_observer t')) event = Some d \<Longrightarrow> pending d \<Longrightarrow>
         map_of (deliveries (t_observer t)) event = Some d"
    and "incident (t_observer t') = incident (t_observer t)"
proof -
  obtain e ev oe oev where
    o: "track_observer (t_observer t) obs (Some p) now = Inr (oe, oev)"
    and t': "t_observer t' = settle False ''OBSERVER_ERROR'' (observer_prefix @ src_name source) oev now False oe"
    and r: "r = report_of obs t' ev oev (Some p) ps"
    using assms(1,2)
    by (auto simp: track_source_def Let_def settle_observer_eq observer_status_of_def)
  have oe: "\<exists>e. oe = stream_reset e" using o by (auto simp: track_observer_def)
  note m = track_observer_moves [OF o assms(3)]
  show "r_suppressed_by r = Some p"
    by (simp add: r report_of_def observation.extend_def report.fields_def)
  have f: "failures (supersede_stale oe st ev') = failures oe" for st ev'
    by (simp add: supersede_stale_def supersede_def Let_def split: option.split)
  show "failures (t_observer t') = 0" "healthy_since (t_observer t') = None"
    using oe by (auto simp: t' settle_def f stream_reset_def)
  show "map_of (deliveries (t_observer t)) event = Some d"
    if "map_of (deliveries (t_observer t')) event = Some d" "pending d"
    using settle_quiet [OF that(1)[unfolded t'] that(2)] m move_deliveries by metis
  show "incident (t_observer t') = incident (t_observer t)"
    using conjunct1 [OF m] by (auto simp: t' settle_def observer_status_of_def elim: incident_move.cases)
qed

section \<open>A round, source by source\<close>

text \<open>Distinct names make the round a family of independent steps, one per source.\<close>

lemma tracked_of_update:
  "tracked_of (m\<lparr>m_sources := AList.update name t (m_sources m)\<rparr>) name' =
     (if name' = name then t else tracked_of m name')"
  by (simp add: tracked_of_def update_conv)

lemma collect_source_step:
  assumes "collect_source b samples now s (m, sm) = Inr (m', sm')"
  obtains t r where "track_source b s (the (map_of samples (src_name s))) (parent_status_of samples s) now
      (tracked_of m (src_name s)) = Inr (t, r)"
    "\<And>name. tracked_of m' name = (if name = src_name s then t else tracked_of m name)"
    "\<And>name. map_of sm' name = (if name = src_name s then Some r else map_of sm name)"
  using assms by (auto simp: collect_source_def Let_def tracked_of_update update_conv)

lemma collect_fold_steps:
  "foldR (collect_source b samples now) ss (m, sm) = Inr (m', sm') \<Longrightarrow> distinct (map src_name ss) \<Longrightarrow>
   (\<forall>name. name \<notin> src_name ` set ss \<longrightarrow>
      tracked_of m' name = tracked_of m name \<and> map_of sm' name = map_of sm name)
   \<and> (\<forall>s \<in> set ss. \<exists>r. map_of sm' (src_name s) = Some r
        \<and> track_source b s (the (map_of samples (src_name s))) (parent_status_of samples s) now
             (tracked_of m (src_name s)) = Inr (tracked_of m' (src_name s), r))"
proof (induction ss arbitrary: m sm)
  case (Cons s ss)
  obtain m1 sm1 where
    1: "collect_source b samples now s (m, sm) = Inr (m1, sm1)"
    and f: "foldR (collect_source b samples now) ss (m1, sm1) = Inr (m', sm')"
    using Cons.prems(1) by auto
  obtain t r where tr: "track_source b s (the (map_of samples (src_name s))) (parent_status_of samples s) now
      (tracked_of m (src_name s)) = Inr (t, r)"
    and m1: "\<And>name. tracked_of m1 name = (if name = src_name s then t else tracked_of m name)"
    and sm1: "\<And>name. map_of sm1 name = (if name = src_name s then Some r else map_of sm name)"
    using collect_source_step [OF 1] by blast
  have new: "src_name s \<notin> src_name ` set ss" using Cons.prems(2) by simp
  note ih = Cons.IH [OF f] Cons.prems(2)
  then have "tracked_of m' (src_name s) = t" "map_of sm' (src_name s) = Some r"
    using new by (simp_all add: m1 sm1)
  moreover have "\<exists>r. map_of sm' (src_name x) = Some r
        \<and> track_source b x (the (map_of samples (src_name x))) (parent_status_of samples x) now
             (tracked_of m (src_name x)) = Inr (tracked_of m' (src_name x), r)" if "x \<in> set ss" for x
  proof -
    have "src_name x \<noteq> src_name s" using new that by (metis imageI)
    then show ?thesis using ih that by (auto simp: m1)
  qed
  ultimately show ?case using ih tr by (auto simp: m1 sm1)
qed simp

lemma health_collect_steps:
  assumes "health_collect config m (PFloat now) reader b = Inr (m', summary)" "s \<in> set (sources_of config)"
  obtains r obs ps snap where "map_of summary (src_name s) = Some r"
    "track_source b s obs ps now (tracked_of m (src_name s)) = Inr (tracked_of m' (src_name s), r)"
    "result_snapshot (sources_of config) reader = Inr snap" "sampled s now snap = Inr obs"
proof -
  let ?ss = "sources_of config"
  obtain snap samples where
    v: "validate config = Inr ()" and n: "0 \<le> now"
    and snap: "result_snapshot ?ss reader = Inr snap"
    and samples: "foldR (sample_source now snap) ?ss [] = Inr samples"
    and f: "foldR (collect_source b samples now) ?ss (m\<lparr>m_last := Some now\<rparr>, []) = Inr (m', summary)"
    using assms(1) by (auto simp: health_collect_def Let_def split: if_splits)
  have d: "distinct (map src_name ?ss)"
    using validate_usable [OF v] by (simp add: usable_config_def Let_def)
  have "sampled_ok (set ?ss) now snap []" by (simp add: sampled_ok_def)
  from sample_fold [OF samples this subset_refl] have so: "sampled_ok (set ?ss) now snap samples"
    "dom (map_of samples) = src_name ` set ?ss" by simp_all
  obtain obs where obs: "map_of samples (src_name s) = Some obs" using so(2) assms(2) by blast
  then obtain s' where s': "s' \<in> set ?ss" "src_name s' = src_name s" "sampled s' now snap = Inr obs"
    using so(1) by (auto simp: sampled_ok_def)
  then have "s' = s" using d assms(2) by (metis distinct_map inj_onD)
  moreover have "tracked_of (m\<lparr>m_last := Some now\<rparr>) name = tracked_of m name" for name
    by (simp add: tracked_of_def)
  moreover obtain r where "map_of summary (src_name s) = Some r"
    "track_source b s (the (map_of samples (src_name s))) (parent_status_of samples s) now
      (tracked_of (m\<lparr>m_last := Some now\<rparr>) (src_name s)) = Inr (tracked_of m' (src_name s), r)"
    using collect_fold_steps [OF f d] assms(2) by blast
  ultimately show ?thesis using that snap obs s'(3) by simp
qed

lemma collect_keeps_failures:
  assumes "health_collect config m (PFloat now) reader True = Inr (m', summary)" "monitor_ok m"
    and "s \<in> set (sources_of config)" "incident (entry_at m' (src_name s) observer) = Some i"
    and "observer \<longrightarrow> r_suppressed_by (the (map_of summary (src_name s))) = None"
  shows "reserved_failure (entry_at m' (src_name s) observer) = Some i"
proof -
  let ?t = "tracked_of m (src_name s)" and ?t' = "tracked_of m' (src_name s)"
  obtain r obs ps where r: "map_of summary (src_name s) = Some r"
    and st: "track_source True s obs ps now ?t = Inr (?t', r)"
    using health_collect_steps [OF assms(1,3)] by metis
  have ok: "ledger_ok (t_main ?t)" "ledger_ok (t_observer ?t)"
    using assms(2) unfolding monitor_ok_def entry_at_def by metis+
  let ?sb = "suppressor s obs ps"
  obtain e ev oe oev where
    m: "track_main (t_main ?t) s obs = Inr (e, ev)"
    and o: "track_observer (t_observer ?t) obs ?sb now = Inr (oe, oev)"
    and t': "?t' = \<lparr>t_main = settle_main True s obs ev now e,
        t_observer = settle_observer True s obs ?sb oev now oe\<rparr>"
    and r': "r = report_of obs ?t' ev oev ?sb ps"
    using st by (auto simp: track_source_def Let_def)
  have sb: "r_suppressed_by r = ?sb"
    by (simp add: r' report_of_def observation.extend_def report.fields_def)
  show ?thesis
  proof (cases observer)
    case True
    then have "?sb = None" using assms(5) r sb by simp
    then show ?thesis
      using settle_notified [OF refl conjunct1 [OF track_observer_moves [OF o ok(2)]] _ ledger_entry [OF ok(2)]]
        assms(4) True by (simp add: entry_at_def t' settle_observer_eq)
  next
    case False
    then show ?thesis
      using settle_notified [OF refl conjunct1 [OF track_main_moves [OF m ok(1)]] _ ledger_entry [OF ok(1)]]
        assms(4) by (simp add: entry_at_def t' settle_main_eq)
  qed
qed

section \<open>Properties\<close>

lemma sample_round:
  "\<exists>m' summary. health_collect sample_config empty_monitor (PFloat 160) (\<lambda>_. Inr sample_report) True = Inr (m', summary)"
proof -
  have c: "clock_ok empty_monitor 160" by (simp add: clock_ok_def empty_monitor_def)
  have "readable (sources_of sample_config) (\<lambda>_. Inr sample_report)"
    "stamps_in_range (sources_of sample_config) (\<lambda>_. Inr sample_report)"
    by (simp_all add: readable_def stamps_in_range_def sample_report_def float_range_small)
  from collect_completes [OF sample_config_valid _ c this] show ?thesis by simp
qed

text \<open>C3: A collection round keeps the ledger of every source and observer in order: each
  stored delivery sits under its event and names an existing incident, a pending failure
  names the incident that is open now, and a recovery is pending only while none is open.\<close>

theorem round_keeps_ledger:
  assumes "health_collect config m now reader b = Inr (m', summary)" "monitor_ok m"
  shows "monitor_ok m'"
  using assms by (rule health_collect_lawful)

lemma round_keeps_ledger_witness:
  "\<exists>m' summary. health_collect sample_config empty_monitor (PFloat 160) (\<lambda>_. Inr sample_report) True =
      Inr (m', summary) \<and> monitor_ok m'"
  using sample_round round_keeps_ledger [OF _ monitor_ok_empty] by blast

text \<open>C1: Over any sequence of runs, with any configurations, clocks, reports and answers of
  the mail server, and with each run stopped after any of its effects, one alert (source,
  observer or not, event, incident) is handed to the mail server at most three times.\<close>

theorem alert_mailed_at_most_three_times:
  assumes "monitor_ok m"
  shows "sends k (runs (\<lambda>m env. fst (health_run m env)) m rs) \<le> 3"
proof -
  have "run_budget m k \<le> 3"
    by (cases k) (auto simp: entry_budget_def attempts_left_le split: option.split)
  with monitor_mail.sends_runs [OF assms, of k rs] show ?thesis by simp
qed

lemma alert_mailed_at_most_three_times_witness:
  "sends (''api'', False, ''FAILED'', Some 1) (runs (\<lambda>m env. fst (health_run m env)) empty_monitor
     (replicate 5 (\<lparr>he_config = sample_config, he_now = 160, he_reader = \<lambda>_. Inl FileNotFoundError,
        he_mail = Inr (), he_answers = \<lambda>_. Refused\<rparr>, 9))) \<le> 3"
  by (rule alert_mailed_at_most_three_times) (rule monitor_ok_empty)

text \<open>C2: No open incident is forgotten: after a round with notifications on, every source of
  the configuration with an open incident holds a failure alert for exactly that incident,
  and so does every observer that was not suppressed in this round.\<close>

theorem open_incident_has_alert:
  assumes "health_collect config m (PFloat now) reader True = Inr (m', summary)" "monitor_ok m"
    and "s \<in> set (sources_of config)" "incident (entry_at m' (src_name s) observer) = Some i"
    and "observer \<longrightarrow> r_suppressed_by (the (map_of summary (src_name s))) = None"
  shows "reserved_failure (entry_at m' (src_name s) observer) = Some i"
  using assms by (rule collect_keeps_failures)

text \<open>A round in which an incident was already open, so the alert is made up for.\<close>

definition open_entry :: entry where
  "open_entry = empty_entry\<lparr>sample_at := Some 90, incident := Some 1, sequence := 1, opened_at := Some 90\<rparr>"

definition open_monitor :: monitor where
  "open_monitor = \<lparr>m_last = Some 90, m_sources = [(''api'', \<lparr>t_main = open_entry, t_observer = empty_entry\<rparr>)]\<rparr>"

lemma open_monitor_ok: "monitor_ok open_monitor"
proof -
  have "ledger_ok open_entry" "current_ok open_entry"
    by (simp_all add: open_entry_def ledger_ok_def current_ok_def entry_ok_def empty_entry_def)
  then show ?thesis
    by (simp add: monitor_ok_def entry_at_def tracked_of_def open_monitor_def new_tracked_def)
qed

lemma open_round:
  "\<exists>m' summary. health_collect sample_config open_monitor (PFloat 160) (\<lambda>_. Inl FileNotFoundError) True =
     Inr (m', summary)"
proof -
  have c: "clock_ok open_monitor 160" by (simp add: clock_ok_def open_monitor_def)
  have "readable (sources_of sample_config) (\<lambda>_. Inl FileNotFoundError)"
    "stamps_in_range (sources_of sample_config) (\<lambda>_. Inl FileNotFoundError)"
    by (simp_all add: readable_def stamps_in_range_def)
  from collect_completes [OF sample_config_valid _ c this] show ?thesis by simp
qed

lemma open_incident_has_alert_witness:
  "\<exists>m' summary. health_collect sample_config open_monitor (PFloat 160) (\<lambda>_. Inl FileNotFoundError) True =
     Inr (m', summary) \<and> incident (entry_at m' ''api'' False) = Some 1
     \<and> reserved_failure (entry_at m' ''api'' False) = Some 1"
proof -
  obtain m' summary where r:
    "health_collect sample_config open_monitor (PFloat 160) (\<lambda>_. Inl FileNotFoundError) True = Inr (m', summary)"
    using open_round by blast
  have s: "sample_source_config \<in> set (sources_of sample_config)" by (simp add: sample_config_def)
  have n: "src_name sample_source_config = ''api''" by (simp add: src_name_def sample_source_config_def)
  obtain rep obs ps snap where st: "track_source True sample_source_config obs ps 160 (tracked_of open_monitor ''api'')
      = Inr (tracked_of m' ''api'', rep)" and snap: "result_snapshot (sources_of sample_config) (\<lambda>_. Inl FileNotFoundError) = Inr snap"
    "sampled sample_source_config 160 snap = Inr obs"
    using health_collect_steps [OF r s] n by metis
  have "o_status obs = ''OBSERVER_ERROR''"
    using snap(2) snapshot_lookup [OF snap(1) s] by (auto simp: sampled_def)
  have "tracked_of open_monitor ''api'' = \<lparr>t_main = open_entry, t_observer = empty_entry\<rparr>"
    by (simp add: tracked_of_def open_monitor_def)
  then obtain e ev ob where t: "track_main open_entry sample_source_config obs = Inr (e, ev)"
    "\<lparr>t_main = settle_main True sample_source_config obs ev 160 e, t_observer = ob\<rparr> = tracked_of m' ''api''"
    using st by (auto simp: track_source_def Let_def)
  moreover have "incident e = Some 1"
    using t(1) \<open>o_status obs = ''OBSERVER_ERROR''\<close>
    by (auto simp: track_main_def observe_Inr observe_sample_def accept_sample_def Let_def open_entry_def
        stream_reset_def split: if_splits)
  ultimately have "incident (entry_at m' (src_name sample_source_config) False) = Some 1"
    by (simp add: entry_at_def n settle_main_def notify_def reserve_eq Let_def t(2) [symmetric])
  from open_incident_has_alert [OF r open_monitor_ok s this] r this show ?thesis by (auto simp: n)
qed

text \<open>While the relay a source depends on is down and the source's report is missing or
  stale, its observer stays quiet: no failure is counted, the healthy stretch starts over, no
  incident opens or closes, and nothing is pending for it that was not pending before.\<close>

theorem suppressed_observer_stays_quiet:
  assumes "track_source b source obs ps now t = Inr (t', r)" "suppressor source obs ps = Some p"
    and "ledger_ok (t_observer t)"
  shows "failures (t_observer t') = 0 \<and> healthy_since (t_observer t') = None
         \<and> incident (t_observer t') = incident (t_observer t)
         \<and> (\<forall>event d. map_of (deliveries (t_observer t')) event = Some d \<longrightarrow> pending d \<longrightarrow>
              map_of (deliveries (t_observer t)) event = Some d)"
  using track_source_suppressed [OF assms] by blast

definition relayed_source :: pyval where
  "relayed_source = PDict ((''observer_parent'', PStr ''relay'') # items sample_source_config)"

lemma suppressed_observer_stays_quiet_witness:
  "\<exists>t' r. track_source True relayed_source
      ((unavailable relayed_source 160)\<lparr>o_unknown_reason := Some ''RESULT_MISSING''\<rparr>)
      (Some ''OBSERVER_ERROR'') 160 new_tracked = Inr (t', r) \<and> incident (t_observer t') = None"
proof -
  let ?obs = "(unavailable relayed_source 160)\<lparr>o_unknown_reason := Some ''RESULT_MISSING''\<rparr>"
  obtain t' r where t: "track_source True relayed_source ?obs (Some ''OBSERVER_ERROR'') 160 new_tracked = Inr (t', r)"
    using track_source_total [of ?obs 160 True relayed_source "Some ''OBSERVER_ERROR''" new_tracked] by (auto simp: STATES_def)
  have "suppressor relayed_source ?obs (Some ''OBSERVER_ERROR'') = Some ''relay''"
    by (simp add: suppressor_def src_parent_def relayed_source_def)
  from suppressed_observer_stays_quiet [OF t this] t show ?thesis
    by (auto simp: new_tracked_def empty_entry_def [THEN arg_cong [where f = incident]])
qed

text \<open>C10: With a valid configuration and a clock that did not move backwards, a round completes, if reading
  the reports fails only with the exceptions the code names (which \<open>RecursionError\<close>, for a report nested too
  deep, is not among) and no report carries an integer time stamp beyond the range of a float: nothing
  else a report holds ends the round.\<close>

theorem round_completes:
  assumes "validate config = Inr u" "0 \<le> now" "clock_ok m now"
    and "readable (sources_of config) reader" "stamps_in_range (sources_of config) reader"
  shows "\<exists>r. health_collect config m (PFloat now) reader b = Inr r"
  using assms by (rule collect_completes)

lemma round_completes_witness:
  "\<exists>r. health_collect sample_config empty_monitor (PFloat 160) (\<lambda>_. Inr sample_report) False = Inr r"
  by (rule round_completes [OF sample_config_valid])
     (simp_all add: clock_ok_def empty_monitor_def readable_def stamps_in_range_def sample_report_def
        float_range_small)

text \<open>C11: One report whose \<open>observed_at\<close> is an integer too large for a float ends the whole
  round with \<open>OverflowError\<close>, which neither the reading code nor \<open>main\<close> handles: no source is
  collected and nothing is written.\<close>

theorem huge_stamp_ends_round:
  assumes "validate config = Inr u" "0 \<le> now" "clock_ok m now" "readable (sources_of config) reader"
    and "s \<in> set (sources_of config)" "reader (src_path s) = Inr val"
    and "indexR val ''observed_at'' = Inr (PInt i)" "\<not> float_range i"
  shows "health_collect config m (PFloat now) reader b = Inl OverflowError"
  using assms by (rule collect_overflows)

lemma huge_stamp_ends_round_witness:
  "health_collect sample_config empty_monitor (PFloat 160) (\<lambda>_. Inr (PDict [(''observed_at'', PInt (2 ^ 1024))])) True =
     Inl OverflowError"
proof -
  have "\<not> float_range (2 ^ 1024)" by (simp add: float_range_def)
  then show ?thesis
    by (intro huge_stamp_ends_round [OF sample_config_valid, where s = sample_source_config
          and val = "PDict [(''observed_at'', PInt (2 ^ 1024))]" and i = "2 ^ 1024"])
       (simp_all add: clock_ok_def empty_monitor_def readable_def, simp_all add: sample_config_def)
qed

end
