(* ===== verification/AlertContract.thy ===== *)
theory AlertContract
  imports ServiceHealthCollect DiscordService
begin

text \<open>
  The contract between two programs: the files that the service health monitor writes
  (\<open>state.json\<close> and \<open>summary.json\<close>, as JSON values here) and the Discord side that reads
  them. The encoders write the keys the reader looks at; a key the writer leaves out or sets
  to \<open>None\<close> is null.
\<close>

section \<open>The files as JSON\<close>

definition json_num :: "rat option \<Rightarrow> pyval" where
  "json_num x = (case x of None \<Rightarrow> PNone | Some q \<Rightarrow> PFloat q)"

definition json_str :: "string option \<Rightarrow> pyval" where
  "json_str x = (case x of None \<Rightarrow> PNone | Some s \<Rightarrow> PStr s)"

definition entry_items :: "entry \<Rightarrow> (string \<times> pyval) list" where
  "entry_items e =
     [(''sample_at'', json_num (sample_at e)), (''latest_status'', json_str (latest_status e)),
      (''failures'', PInt (failures e)), (''healthy_since'', json_num (healthy_since e)),
      (''healthy_samples'', PInt (healthy_samples e)), (''last_failure'', json_num (last_failure e)),
      (''incident'', of_incident (incident e)), (''sequence'', PInt (sequence e)),
      (''opened_at'', json_num (opened_at e)), (''closed_incident'', of_incident (closed_incident e)),
      (''closed_at'', json_num (closed_at e))]"

definition tracked_json :: "tracked \<Rightarrow> pyval" where
  "tracked_json t = PDict ((''observer'', PDict (entry_items (t_observer t))) # entry_items (t_main t))"

definition state_json :: "monitor \<Rightarrow> pyval" where
  "state_json m =
     PDict [(''last_collection'', json_num (m_last m)),
            (''sources'', PDict (map (\<lambda>(n, t). (n, tracked_json t)) (m_sources m)))]"

definition report_json :: "report \<Rightarrow> pyval" where
  "report_json r =
     PDict ([(''status'', PStr (o_status r)), (''sample_at'', PFloat (o_sample_at r)),
             (''reason'', PStr (o_reason r)), (''raw_status'', PStr (o_raw_status r)),
             (''source_sample_at'', json_num (o_source_sample_at r)),
             (''source_reason'', json_str (o_source_reason r)),
             (''unknown_reason'', json_str (o_unknown_reason r)),
             (''incident'', of_incident (r_incident r)),
             (''observer_incident'', of_incident (r_observer_incident r)), (''event'', PStr (r_event r)),
             (''observer_status'', PStr (r_observer_status r)),
             (''observer_event'', PStr (r_observer_event r)),
             (''suppressed_by'', json_str (r_suppressed_by r)),
             (''parent_status'', json_str (r_parent_status r)),
             (''recovery_candidate_since'', json_num (r_recovery_candidate_since r))]
            @ (case o_severity r of None \<Rightarrow> [] | Some v \<Rightarrow> [(''severity'', PStr v)]))"

definition summary_json :: "rat \<Rightarrow> (string \<times> report) list \<Rightarrow> pyval" where
  "summary_json now summary =
     PDict [(''version'', PInt 1), (''observed_at'', PFloat now),
            (''sources'', PDict (map (\<lambda>(n, r). (n, report_json r)) summary))]"

lemma map_of_json: "map_of (map (\<lambda>(n, x). (n, f x)) xs) k = map_option f (map_of xs k)"
  by (induction xs) auto

lemma number_PFloat [simp]: "number (PFloat q) = Inr q"
  by (simp add: number_def)

section \<open>An entry the tracker wrote is accepted\<close>

lemma int_or_none_of [simp]:
  "int_or_none (of_incident i) ok = (case i of None \<Rightarrow> Inr None | Some n \<Rightarrow> if ok n then Inr (Some n) else Inl ValueError)"
  by (simp add: int_or_none_def of_incident_def split: option.split)

lemma between_Some: "between (Some t) u \<longleftrightarrow> 0 \<le> t \<and> t \<le> u" and between_None: "between None u"
  by (simp_all add: between_def)

lemma entry_accepted:
  assumes ok: "entry_ok e" and s: "sample_at e = Some t" "latest_status e = Some st"
    and v: "items v = xs @ entry_items e" "is_dict v" "\<And>k. k \<in> fst ` set xs \<Longrightarrow> k = ''observer''"
  obtains r where "service_entry v st t u = Inr r" "s_incident r = incident e" "s_closed r = closed_incident e"
    "s_sequence r = sequence e" "s_status r = UNKNOWN"
proof -
  have look: "map_of (items v) k = map_of (entry_items e) k" if "k \<noteq> ''observer''" for k
  proof -
    have "map_of xs k = None" using v(3) [of k] that by (auto simp: map_of_eq_None_iff)
    then show ?thesis by (simp add: v(1) map_add_def)
  qed
  have get: "get_or v k d = (case map_of (entry_items e) k of None \<Rightarrow> d | Some x \<Rightarrow> x)"
    "indexR v k = (case map_of (entry_items e) k of None \<Rightarrow> Inl KeyError | Some x \<Rightarrow> Inr x)"
    if "k \<noteq> ''observer''" for k d
    using look [OF that] v(2) by (simp_all add: get_or_def indexR_def)
  have n: "0 \<le> sequence e" using ok by (simp add: entry_ok_def)
  have i: "(case incident e of None \<Rightarrow> Inr None | Some n \<Rightarrow>
        if n = sequence e \<and> 1 \<le> n then Inr (Some n) else Inl ValueError) = Inr (incident e)"
    using ok by (auto simp: entry_ok_def split: option.split)
  have c: "(case closed_incident e of None \<Rightarrow> Inr None | Some n \<Rightarrow>
        if 1 \<le> n \<and> n \<le> sequence e \<and> (case incident e of None \<Rightarrow> True | Some i \<Rightarrow> n < i)
        then Inr (Some n) else Inl ValueError) = Inr (closed_incident e)"
    using ok by (auto simp: entry_ok_def split: option.split)
  have o: "stamp_if (sequence e \<noteq> 0) v ''opened_at'' = Inr (if sequence e = 0 then None else opened_at e)"
    "between (if sequence e = 0 then None else opened_at e) t"
    using ok n s(1) by (auto simp: entry_ok_def stamp_if_def get entry_items_def json_num_def between_None between_Some)
  have h: "stamp_if (closed_incident e \<noteq> None) v ''closed_at'' = Inr (if closed_incident e = None then None else closed_at e)"
    "between (if closed_incident e = None then None else closed_at e) t"
    using ok s(1) by (auto simp: entry_ok_def stamp_if_def get entry_items_def json_num_def between_None between_Some)
  have l: "\<not> (sequence e \<noteq> 0 \<and> incident e = None \<and> closed_incident e \<noteq> Some (sequence e))"
    using ok n by (auto simp: entry_ok_def)
  let ?r = "\<lparr>s_status = UNKNOWN, s_incident = incident e, s_sequence = sequence e, s_closed = closed_incident e,
      s_opened_at = (if sequence e = 0 then None else opened_at e),
      s_closed_at = (if closed_incident e = None then None else closed_at e), s_sample_at = t, s_observed_at = u\<rparr>"
  have g: "get v ''latest_status'' = PStr st" "indexR v ''sample_at'' = Inr (PFloat t)"
    "get_or v ''sequence'' (PInt 0) = PInt (sequence e)" "get v ''incident'' = of_incident (incident e)"
    "get v ''closed_incident'' = of_incident (closed_incident e)"
    by (simp_all add: get) (simp_all add: entry_items_def s json_num_def json_str_def)
  have "service_entry v st t u = Inr ?r"
    using n i c o h l v(2) unfolding service_entry_def Let_def g
    by (simp add: is_string_def del: not_None_eq split del: if_split)
  then show ?thesis by (rule that) simp_all
qed

section \<open>What a round writes\<close>

lemma observed_entry:
  assumes "observe e st (PFloat t) k f n s = Inr (e', ev)" "ev \<noteq> ''DUPLICATE''"
  shows "sample_at e' = Some t \<and> latest_status e' = Some st"
proof -
  have e': "(e', ev) = observe_sample e st t k f n s" using assms(1) by (auto simp: observe_Inr split: if_splits)
  then have d: "\<not> is_duplicate e t" using assms(2) by (auto simp: observe_sample_def)
  have "sample_at e' = Some t" using observe_sample_at [OF d] e' by (metis fst_conv)
  have "latest_status (fst (observe_failed a t k)) = latest_status a" for a
    by (simp add: observe_failed_def Let_def)
  moreover have "latest_status (fst (observe_healthy a t n s)) = latest_status a" for a
    by (simp add: observe_healthy_def Let_def)
  moreover have "e' = fst (observe_sample e st t k f n s)" using e' by (metis fst_conv)
  ultimately have "latest_status e' = Some st" using d by (simp add: observe_sample_def Let_def)
  with \<open>sample_at e' = Some t\<close> show ?thesis by blast
qed

lemma settle_samples [simp]:
  "sample_at (settle b st target ev now w e) = sample_at e"
  "latest_status (settle b st target ev now w e) = latest_status e"
proof -
  have "sample_at (supersede e x) = sample_at e \<and> latest_status (supersede e x) = latest_status e" for e x
    by (simp add: supersede_def split: option.split)
  then have "sample_at (supersede_stale e st ev) = sample_at e \<and> latest_status (supersede_stale e st ev) = latest_status e"
    by (simp add: supersede_stale_def Let_def)
  then show "sample_at (settle b st target ev now w e) = sample_at e"
    "latest_status (settle b st target ev now w e) = latest_status e"
    by (simp_all add: settle_def notify_def reserve_eq Let_def)
qed

lemma stream_reset_samples [simp]:
  "sample_at (stream_reset e) = sample_at e" "latest_status (stream_reset e) = latest_status e"
  by (simp_all add: stream_reset_def)

lemma track_source_writes:
  assumes t: "track_source b s obs ps now t = Inr (t', r)"
  shows "r_event r \<noteq> ''DUPLICATE'' \<Longrightarrow>
           sample_at (t_main t') = Some (o_sample_at obs) \<and> latest_status (t_main t') = Some (o_status obs)"
    and "r_observer_event r \<noteq> ''DUPLICATE'' \<Longrightarrow>
           sample_at (t_observer t') = Some now \<and> latest_status (t_observer t') = Some (r_observer_status r)"
    and "r_incident r = incident (t_main t')" "r_observer_incident r = incident (t_observer t')"
    and "r_suppressed_by r = suppressor s obs ps" "r_parent_status r = ps"
    and "r_observer_status r = observer_status_of obs (suppressor s obs ps)"
    and "o_status r = o_status obs" "o_sample_at r = o_sample_at obs" "o_raw_status r = o_raw_status obs"
    and "o_source_sample_at r = o_source_sample_at obs" "o_unknown_reason r = o_unknown_reason obs"
    and "o_severity r = o_severity obs"
proof -
  let ?sb = "suppressor s obs ps"
  obtain e ev oe oev where
    m: "track_main (t_main t) s obs = Inr (e, ev)"
    and o: "track_observer (t_observer t) obs ?sb now = Inr (oe, oev)"
    and t': "t' = \<lparr>t_main = settle_main b s obs ev now e, t_observer = settle_observer b s obs ?sb oev now oe\<rparr>"
    and r: "r = report_of obs t' ev oev ?sb ps"
    using t by (auto simp: track_source_def Let_def)
  note rd = r report_of_def observation.extend_def report.fields_def
  show "r_incident r = incident (t_main t')" "r_observer_incident r = incident (t_observer t')"
    "r_suppressed_by r = ?sb" "r_parent_status r = ps" "r_observer_status r = observer_status_of obs ?sb"
    "o_status r = o_status obs" "o_sample_at r = o_sample_at obs" "o_raw_status r = o_raw_status obs"
    "o_source_sample_at r = o_source_sample_at obs" "o_unknown_reason r = o_unknown_reason obs"
    "o_severity r = o_severity obs"
    by (simp_all add: rd)
  show "sample_at (t_main t') = Some (o_sample_at obs) \<and> latest_status (t_main t') = Some (o_status obs)"
    if "r_event r \<noteq> ''DUPLICATE''"
    using m that by (auto simp: track_main_def t' settle_main_eq rd dest!: observed_entry)
  show "sample_at (t_observer t') = Some now \<and> latest_status (t_observer t') = Some (r_observer_status r)"
    if "r_observer_event r \<noteq> ''DUPLICATE''"
    using o that by (auto simp: track_observer_def t' settle_observer_eq rd dest!: observed_entry)
qed

text \<open>How the classification of a report hangs together.\<close>

definition coherent :: "pyval \<Rightarrow> rat \<Rightarrow> observation \<Rightarrow> bool" where
  "coherent source now obs =
     (o_status obs \<in> {''HEALTHY'', ''FAILED'', ''LOADING'', ''OBSERVER_ERROR''}
      \<and> 0 \<le> o_sample_at obs \<and> o_sample_at obs \<le> fadd now 30
      \<and> o_severity obs = (if selects_warning source then Some ''warning'' else None)
      \<and> (case o_unknown_reason obs of
           None \<Rightarrow> o_source_sample_at obs = Some (o_sample_at obs) \<and> o_raw_status obs \<in> set STATES
                   \<and> o_status obs = (if o_raw_status obs \<in> {''OBSERVER_ERROR'', ''BUDGET_LIMIT''}
                                      then ''OBSERVER_ERROR'' else o_raw_status obs)
         | Some _ \<Rightarrow> o_raw_status obs = ''UNKNOWN'' \<and> o_status obs = ''OBSERVER_ERROR''))"

lemma unavailable_coherent:
  "0 \<le> now \<Longrightarrow> now \<le> fadd now 30 \<Longrightarrow>
   coherent source now ((unavailable source now)\<lparr>o_unknown_reason := Some x\<rparr>)
   \<and> coherent source now (unavailable source now)
   \<and> coherent source now ((unavailable source now)\<lparr>o_source_sample_at := a, o_source_reason := b\<rparr>)"
  by (simp add: coherent_def unavailable_def)

lemma classified_coherent:
  assumes "0 \<le> now" "now \<le> fadd now 30" "0 \<le> t" "st \<in> set STATES"
  shows "coherent source now (classified ((unavailable source now)\<lparr>o_source_sample_at := Some t, o_source_reason := b\<rparr>)
           source now t st)"
  using assms by (auto simp: coherent_def unavailable_def classified_def Let_def STATES_def not_less)

lemma sampled_coherent:
  assumes "sampled source now snap = Inr obs" "0 \<le> now" "now \<le> fadd now 30"
  shows "coherent source now obs"
proof (cases "map_of snap (src_path source)")
  case (Some r)
  show ?thesis
  proof (cases r)
    case (Inl e)
    then show ?thesis using assms Some unavailable_coherent [OF assms(2,3)] by (auto simp: sampled_def)
  next
    case (Inr v)
    have s: "sampled_value source now v = Inr obs" using assms(1) Some Inr by (simp add: sampled_def)
    show ?thesis
    proof (cases rule: sampled_value_cases [of v source now])
      case (4 t st)
      have "0 \<le> t" using 4(1) by (auto simp: reported_at_def dest: epoch_nonneg)
      moreover have "st \<in> set STATES" using 4(2) by (rule selected_status_STATES)
      ultimately show ?thesis using s 4(3) classified_coherent [OF assms(2,3)] by auto
    qed (use s unavailable_coherent [OF assms(2,3)] in auto)
  qed
qed (use assms in \<open>simp add: sampled_def\<close>)

lemma collect_source_parts:
  assumes "collect_source b samples now s (m, sm) = Inr (m', sm')"
  shows "m_last m' = m_last m"
    "dom (map_of (m_sources m')) = insert (src_name s) (dom (map_of (m_sources m)))"
  using assms by (auto simp: collect_source_def Let_def update_conv')

lemma collect_fold_parts:
  "foldR (collect_source b samples now) ss (m, sm) = Inr (m', sm') \<Longrightarrow>
   m_last m' = m_last m \<and> dom (map_of (m_sources m')) = src_name ` set ss \<union> dom (map_of (m_sources m))"
proof (induction ss arbitrary: m sm)
  case (Cons s ss)
  obtain m1 sm1 where 1: "collect_source b samples now s (m, sm) = Inr (m1, sm1)"
    "foldR (collect_source b samples now) ss (m1, sm1) = Inr (m', sm')"
    using Cons.prems by auto
  from Cons.IH [OF 1(2)] collect_source_parts [OF 1(1)] show ?case by auto
qed simp

text \<open>Everything a completed round says about its sources, for any of them.\<close>

lemma health_collect_parts:
  assumes h: "health_collect config m (PFloat now) reader b = Inr (m', summary)"
  obtains samples snap where "usable_config config" "0 \<le> now" "m_last m' = Some now"
    "\<And>s. s \<in> set (sources_of config) \<Longrightarrow>
       \<exists>obs r. map_of samples (src_name s) = Some obs \<and> sampled s now snap = Inr obs
         \<and> map_of summary (src_name s) = Some r
         \<and> map_of (m_sources m') (src_name s) = Some (tracked_of m' (src_name s))
         \<and> track_source b s obs (parent_status_of samples s) now (tracked_of m (src_name s)) =
              Inr (tracked_of m' (src_name s), r)"
proof -
  let ?ss = "sources_of config"
  obtain snap samples where
    v: "validate config = Inr ()" and n: "0 \<le> now"
    and samples: "foldR (sample_source now snap) ?ss [] = Inr samples"
    and f: "foldR (collect_source b samples now) ?ss (m\<lparr>m_last := Some now\<rparr>, []) = Inr (m', summary)"
    using h by (auto simp: health_collect_def Let_def split: if_splits)
  have d: "distinct (map src_name ?ss)"
    using validate_usable [OF v] by (simp add: usable_config_def Let_def)
  have "sampled_ok (set ?ss) now snap []" by (simp add: sampled_ok_def)
  from sample_fold [OF samples this subset_refl] have so: "sampled_ok (set ?ss) now snap samples"
    "dom (map_of samples) = src_name ` set ?ss" by simp_all
  note p = collect_fold_parts [OF f]
  have t: "tracked_of (m\<lparr>m_last := Some now\<rparr>) name = tracked_of m name" for name
    by (simp add: tracked_of_def)
  have "\<exists>obs r. map_of samples (src_name s) = Some obs \<and> sampled s now snap = Inr obs
         \<and> map_of summary (src_name s) = Some r
         \<and> map_of (m_sources m') (src_name s) = Some (tracked_of m' (src_name s))
         \<and> track_source b s obs (parent_status_of samples s) now (tracked_of m (src_name s)) =
              Inr (tracked_of m' (src_name s), r)" if s: "s \<in> set ?ss" for s
  proof -
    obtain obs where obs: "map_of samples (src_name s) = Some obs" using so(2) s by blast
    then obtain s' where s': "s' \<in> set ?ss" "src_name s' = src_name s" "sampled s' now snap = Inr obs"
      using so(1) by (auto simp: sampled_ok_def)
    then have "s' = s" using d s by (metis distinct_map inj_onD)
    moreover have "src_name s \<in> dom (map_of (m_sources m'))" using p s by auto
    then have "map_of (m_sources m') (src_name s) = Some (tracked_of m' (src_name s))"
      by (auto simp: tracked_of_def)
    moreover have "\<exists>r. map_of summary (src_name s) = Some r
        \<and> track_source b s (the (map_of samples (src_name s))) (parent_status_of samples s) now
            (tracked_of (m\<lparr>m_last := Some now\<rparr>) (src_name s)) = Inr (tracked_of m' (src_name s), r)"
      using collect_fold_steps [OF f d] s by blast
    ultimately show ?thesis using obs s'(3) by (simp add: t)
  qed
  moreover have "m_last m' = Some now" using p by simp
  ultimately show ?thesis using that validate_usable [OF v] n by blast
qed

section \<open>The reader accepts it\<close>

lemma report_fields:
  "indexR (report_json r) ''status'' = Inr (PStr (o_status r))"
  "indexR (report_json r) ''sample_at'' = Inr (PFloat (o_sample_at r))"
  "indexR (report_json r) ''raw_status'' = Inr (PStr (o_raw_status r))"
  "indexR (report_json r) ''source_sample_at'' = Inr (json_num (o_source_sample_at r))"
  "indexR (report_json r) ''observer_status'' = Inr (PStr (r_observer_status r))"
  "get (report_json r) ''unknown_reason'' = json_str (o_unknown_reason r)"
  "get (report_json r) ''incident'' = of_incident (r_incident r)"
  "get (report_json r) ''observer_incident'' = of_incident (r_observer_incident r)"
  "get (report_json r) ''suppressed_by'' = json_str (r_suppressed_by r)"
  "get (report_json r) ''parent_status'' = json_str (r_parent_status r)"
  "get (report_json r) ''severity'' = json_str (o_severity r)"
  by (simp_all add: report_json_def json_str_def split: option.split)

lemma summary_fields:
  "indexR (summary_json now sm) ''observed_at'' = Inr (PFloat now)"
  "get (summary_json now sm) ''version'' = PInt 1"
  "bindR (indexR (summary_json now sm) ''sources'') (\<lambda>d. indexR d n) =
     (case map_of sm n of None \<Rightarrow> Inl KeyError | Some r \<Rightarrow> Inr (report_json r))"
  by (simp_all add: summary_json_def map_of_json split: option.split)

lemma state_fields:
  "indexR (state_json m) ''last_collection'' = Inr (json_num (m_last m))"
  "bindR (indexR (state_json m) ''sources'') (\<lambda>d. indexR d n) =
     (case map_of (m_sources m) n of None \<Rightarrow> Inl KeyError | Some t \<Rightarrow> Inr (tracked_json t))"
  by (simp_all add: state_json_def map_of_json split: option.split)

lemma py_eq_of_incident: "py_eq (of_incident i) (of_incident j) \<longleftrightarrow> i = j"
  by (cases i; cases j) (auto simp: of_incident_def)

lemma tracked_observer: "indexR (tracked_json t) ''observer'' = Inr (PDict (entry_items (t_observer t)))"
  by (simp add: tracked_json_def)

text \<open>Whether a report of the monitor is too old, or too new, for what the reader is configured to.\<close>

definition expired :: "pyval \<Rightarrow> rat \<Rightarrow> report \<Rightarrow> bool" where
  "expired asrc now2 r =
     (o_unknown_reason r = None
      \<and> \<not> (- 5 \<le> float_sub now2 (o_sample_at r) \<and> float_sub now2 (o_sample_at r) \<le> of_int (the_int (get asrc ''max_age''))))"

lemma raw_verdict_of:
  assumes c: "coherent s now obs" and r: "o_raw_status r = o_raw_status obs" "o_unknown_reason r = o_unknown_reason obs"
    "o_source_sample_at r = o_source_sample_at obs" "o_sample_at r = o_sample_at obs"
  shows "raw_verdict asrc (report_json r) now2 (o_status obs) (o_sample_at obs) =
    Inr (if expired asrc now2 r then Expired else if o_unknown_reason r = None then Observed (o_raw_status r) else Withheld)"
proof (cases "o_unknown_reason obs")
  case None
  then have "o_raw_status obs \<in> set STATES" "o_source_sample_at obs = Some (o_sample_at obs)"
    "o_status obs = (if o_raw_status obs \<in> {''OBSERVER_ERROR'', ''BUDGET_LIMIT''} then ''OBSERVER_ERROR'' else o_raw_status obs)"
    using c by (simp_all add: coherent_def)
  then show ?thesis using None
    by (simp add: raw_verdict_def report_fields r json_str_def json_num_def Let_def check_def expired_def MAX_SKEW_def)
next
  case (Some x)
  then have "o_raw_status obs = ''UNKNOWN''" "o_status obs = ''OBSERVER_ERROR''"
    using c by (simp_all add: coherent_def)
  then show ?thesis using Some
    by (simp add: raw_verdict_def report_fields r json_str_def is_string_def check_def expired_def)
qed

lemma correlation_of:
  assumes c: "coherent s now obs"
    and r: "r_suppressed_by r = suppressor s obs ps" "r_parent_status r = ps" "o_unknown_reason r = o_unknown_reason obs"
      "r_observer_status r = observer_status_of obs (suppressor s obs ps)"
    and p: "\<And>p. suppressor s obs ps = Some p \<Longrightarrow>
             alert_name p \<and> (\<exists>rp. map_of sm p = Some rp \<and> o_status rp = ''OBSERVER_ERROR'')"
  shows "correlation (summary_json now sm) (report_json r) (o_status obs) (r_observer_status r) = Inr ()"
proof (cases "suppressor s obs ps")
  case None
  then show ?thesis by (simp add: correlation_def report_fields r(1) json_str_def)
next
  case (Some p)
  obtain rp where rp: "alert_name p" "map_of sm p = Some rp" "o_status rp = ''OBSERVER_ERROR''" using p [OF Some] by blast
  have u: "o_unknown_reason obs \<in> {Some ''RESULT_MISSING'', Some ''RESULT_STALE''}" "ps = Some ''OBSERVER_ERROR''"
    using Some by (auto simp: suppressor_def split: if_splits)
  then have st: "o_status obs = ''OBSERVER_ERROR''" using c by (auto simp: coherent_def)
  have f: "get (report_json r) ''suppressed_by'' = PStr p" "get (report_json r) ''parent_status'' = PStr ''OBSERVER_ERROR''"
    "in_setR (get (report_json r) ''unknown_reason'') [''RESULT_MISSING'', ''RESULT_STALE''] = Inr True"
    "r_observer_status r = ''OBSERVER_ERROR''"
  proof -
    show "r_observer_status r = ''OBSERVER_ERROR''" unfolding r(4) Some by (simp add: observer_status_of_def)
    show "get (report_json r) ''suppressed_by'' = PStr p" unfolding report_fields r(1) Some by (simp add: json_str_def)
    show "get (report_json r) ''parent_status'' = PStr ''OBSERVER_ERROR''" by (simp add: report_fields r(2) u(2) json_str_def)
    show "in_setR (get (report_json r) ''unknown_reason'') [''RESULT_MISSING'', ''RESULT_STALE''] = Inr True"
      using u(1) by (auto simp: report_fields r(3) json_str_def)
  qed
  show ?thesis
    unfolding correlation_def Let_def f by (simp add: summary_fields rp report_fields(1) st is_string_def)
qed

lemma alert_name_eq: "alert_name = NAME_fullmatch"
  by (rule ext) (simp add: alert_name_def NAME_fullmatch_def name_char_def [abs_def])

lemma reader_accepts:
  assumes h: "health_collect config m (PFloat now) reader b = Inr (m', summary)" and ok: "monitor_ok m"
    and s: "s \<in> set (sources_of config)" and r: "map_of summary (src_name s) = Some r"
    and dup: "r_event r \<noteq> ''DUPLICATE''" "r_observer_event r \<noteq> ''DUPLICATE''"
    and a: "get asrc ''source_name'' = PStr (src_name s)"
      "get asrc ''severity'' = (if selects_warning s then PStr ''warning'' else PNone)"
    and clock: "fl now = now" "now \<le> fadd now 30" "-5 \<le> fsub now2 now" "fsub now2 now \<le> 180"
  shows "if expired asrc now2 r then read_service asrc now2 (state_json m') (summary_json now summary) = Inr (None, None)
    else \<exists>c ob. read_service asrc now2 (state_json m') (summary_json now summary) = Inr (Some c, Some ob)
           \<and> s_incident c = r_incident r \<and> s_incident ob = r_observer_incident r
           \<and> s_status c = (if o_unknown_reason r \<noteq> None \<or> o_raw_status r \<notin> {''HEALTHY'', ''FAILED''} then UNKNOWN
                           else if r_incident r \<noteq> None then ALARM else if o_raw_status r = ''HEALTHY'' then NORMAL else UNKNOWN)
           \<and> s_status ob = (if r_suppressed_by r \<noteq> None then UNKNOWN
                            else if r_observer_incident r \<noteq> None then ALARM else if r_observer_status r = ''HEALTHY'' then NORMAL else UNKNOWN)"
proof -
  obtain samples snap where parts: "usable_config config" "0 \<le> now" "m_last m' = Some now"
    and each: "\<And>s. s \<in> set (sources_of config) \<Longrightarrow>
       \<exists>obs r. map_of samples (src_name s) = Some obs \<and> sampled s now snap = Inr obs
         \<and> map_of summary (src_name s) = Some r
         \<and> map_of (m_sources m') (src_name s) = Some (tracked_of m' (src_name s))
         \<and> track_source b s obs (parent_status_of samples s) now (tracked_of m (src_name s)) =
              Inr (tracked_of m' (src_name s), r)"
    using health_collect_parts [OF h] by blast
  let ?t = "tracked_of m' (src_name s)" and ?ps = "parent_status_of samples s"
  obtain obs where so: "sampled s now snap = Inr obs" and mt: "map_of (m_sources m') (src_name s) = Some ?t"
    and ts: "track_source b s obs ?ps now (tracked_of m (src_name s)) = Inr (?t, r)"
    using each [OF s] r by auto
  note w = track_source_writes [OF ts]
  have c: "coherent s now obs" using sampled_coherent [OF so parts(2) clock(2)] .
  have books: "entry_ok (t_main ?t)" "entry_ok (t_observer ?t)"
    using health_collect_lawful(1) [OF h ok] ledger_entry unfolding monitor_ok_def entry_at_def by metis+
  obtain cr where cr: "service_entry (tracked_json ?t) (o_status obs) (o_sample_at obs) now = Inr cr"
    "s_incident cr = r_incident r" "s_status cr = UNKNOWN"
    by (rule entry_accepted [OF books(1) conjunct1 [OF w(1) [OF dup(1)]] conjunct2 [OF w(1) [OF dup(1)]],
          of "tracked_json ?t" "[(''observer'', PDict (entry_items (t_observer ?t)))]" now])
       (simp_all add: tracked_json_def w(3))
  obtain ob where ob: "service_entry (PDict (entry_items (t_observer ?t))) (r_observer_status r) now now = Inr ob"
    "s_incident ob = r_observer_incident r" "s_status ob = UNKNOWN"
    by (rule entry_accepted [OF books(2) conjunct1 [OF w(2) [OF dup(2)]] conjunct2 [OF w(2) [OF dup(2)]],
          of "PDict (entry_items (t_observer ?t))" "[]" now]) (simp_all add: w(4))
  have parent: "alert_name p \<and> (\<exists>rp. map_of summary p = Some rp \<and> o_status rp = ''OBSERVER_ERROR'')"
    if "suppressor s obs ?ps = Some p" for p
  proof -
    have sp: "src_parent s = Some p" "?ps = Some ''OBSERVER_ERROR''"
      using that by (auto simp: suppressor_def split: if_splits)
    have u: "\<And>x. x \<in> set (sources_of config) \<Longrightarrow> usable_source (sources_of config) x"
      using parts(1) by (simp add: usable_config_def Let_def list_all_iff)
    obtain q where q: "q \<in> set (sources_of config)" "src_name q = p"
      using u [OF s] sp(1) by (auto simp: usable_source_def)
    obtain qobs rq where rq: "map_of samples p = Some qobs" "map_of summary p = Some rq"
      "track_source b q qobs (parent_status_of samples q) now (tracked_of m p) = Inr (tracked_of m' p, rq)"
      using each [OF q(1)] q(2) by auto
    have "o_status qobs = ''OBSERVER_ERROR''" using sp rq(1) by (simp add: parent_status_of_def)
    then have "o_status rq = ''OBSERVER_ERROR''" using track_source_writes(8) [OF rq(3)] by simp
    moreover have "alert_name p" using u [OF q(1)] q(2) by (simp add: alert_name_eq usable_source_def)
    ultimately show ?thesis using rq(2) by blast
  qed
  have corr: "correlation (summary_json now summary) (report_json r) (o_status obs) (r_observer_status r) = Inr ()"
    by (rule correlation_of [OF c w(5,6,12,7) parent])
  note v = raw_verdict_of [OF c w(10,12,11,9), of asrc now2]
  have st: "in_setR (PStr (o_status obs)) [''HEALTHY'', ''FAILED'', ''LOADING'', ''OBSERVER_ERROR''] = Inr True"
    using c by (auto simp: coherent_def)
  have ost: "in_setR (PStr (r_observer_status r)) [''HEALTHY'', ''FAILED'', ''OBSERVER_ERROR''] = Inr True"
    by (simp add: w(7) observer_status_of_def)
  have sev: "py_eq (get (report_json r) ''severity'') (get asrc ''severity'')
      \<and> (get (report_json r) ''severity'' = PNone \<or> is_string (get (report_json r) ''severity'') ''warning'')"
    using c by (simp add: report_fields w(13) a(2) coherent_def json_str_def is_string_def)
  have smp: "0 \<le> o_sample_at obs \<and> o_sample_at obs \<le> observed_limit (PFloat now) now"
    using c by (simp add: coherent_def observed_limit_def)
  have inc: "py_eq (get (report_json r) ''incident'') (of_incident (r_incident r))
      \<and> py_eq (get (report_json r) ''observer_incident'') (of_incident (r_observer_incident r))"
    by (simp add: report_fields py_eq_of_incident)
  have fresh: "- MAX_SKEW \<le> float_sub now2 now \<and> float_sub now2 now \<le> 180"
    using clock by (simp add: float_sub_def MAX_SKEW_def)
  let ?verdict = "if expired asrc now2 r then Expired else if o_unknown_reason r = None then Observed (o_raw_status r) else Withheld"
  let ?c = "case ?verdict of Observed raw \<Rightarrow> if raw \<in> {''HEALTHY'', ''FAILED''} then signal_of cr (raw = ''HEALTHY'') else cr | _ \<Rightarrow> cr"
  let ?ob = "if r_suppressed_by r = None then signal_of ob (r_observer_status r = ''HEALTHY'') else ob"
  have suppressed: "get (report_json r) ''suppressed_by'' = PNone \<longleftrightarrow> r_suppressed_by r = None"
    by (simp add: report_fields json_str_def split: option.split)
  have read: "read_service asrc now2 (state_json m') (summary_json now summary) =
      Inr (case ?verdict of Expired \<Rightarrow> (None, None) | _ \<Rightarrow> (Some ?c, Some ?ob))"
    unfolding read_service_def Let_def
    using s mt r by (simp add: summary_fields state_fields parts(3) json_num_def a(1) fresh sev st ost smp inc cr(1,2) ob(1,2) corr v
        w(8,9) report_fields(1,2,5) suppressed tracked_observer
        del: in_setR_PStr)
  show ?thesis
  proof (cases "expired asrc now2 r")
    case False
    have "s_incident ?c = r_incident r" "s_incident ?ob = r_observer_incident r"
      using cr(2) ob(2) by (simp_all add: signal_of_def)
    moreover have "s_status ?ob = (if r_suppressed_by r \<noteq> None then UNKNOWN
                            else if r_observer_incident r \<noteq> None then ALARM else if r_observer_status r = ''HEALTHY'' then NORMAL else UNKNOWN)"
      using ob(2,3) by (simp add: signal_of_def)
    moreover have "s_status ?c = (if o_unknown_reason r \<noteq> None \<or> o_raw_status r \<notin> {''HEALTHY'', ''FAILED''} then UNKNOWN
                           else if r_incident r \<noteq> None then ALARM else if o_raw_status r = ''HEALTHY'' then NORMAL else UNKNOWN)"
      using cr(2,3) False by (simp add: signal_of_def)
    moreover have "read_service asrc now2 (state_json m') (summary_json now summary) = Inr (Some ?c, Some ?ob)"
      unfolding read using False by simp
    ultimately show ?thesis using False by (simp only: if_False) blast
  qed (simp add: read)
qed

lemma first_sample_counts:
  assumes "track_source b s obs ps now new_tracked = Inr (t', r)"
  shows "r_event r \<noteq> ''DUPLICATE''" "r_observer_event r \<noteq> ''DUPLICATE''"
proof -
  have "ev \<noteq> ''DUPLICATE''" if "observe empty_entry st v k f n x = Inr (e, ev)" for st v k f n x e ev
    using that
    by (auto simp: observe_Inr observe_sample_def is_duplicate_def empty_entry_def Let_def observe_failed_def
        observe_healthy_def split: if_splits)
  then show "r_event r \<noteq> ''DUPLICATE''" "r_observer_event r \<noteq> ''DUPLICATE''"
    using assms by (auto simp: track_source_def track_main_def track_observer_def new_tracked_def Let_def
        report_of_def observation.extend_def report.fields_def)
qed

section \<open>Property\<close>

text \<open>C8: The two programs agree on their files. Whatever a completed monitor round wrote for a source whose
  two samples were new (not duplicates of the ones before), the Discord side accepts when it reads it within
  three minutes: it raises no validation error. It gives up the source only when the sample of a readable
  report is older than the reader's limit by then, or more than five seconds ahead of its clock; otherwise it
  takes over exactly the incident numbers of the source and of its observer, and the signal that follows from
  them and from the statuses. (The first two clock hypotheses hold of every float up to 2 to the power 53.)\<close>

theorem discord_accepts_monitor_files:
  assumes "health_collect config m (PFloat now) reader b = Inr (m', summary)" "monitor_ok m"
    and "s \<in> set (sources_of config)" "map_of summary (src_name s) = Some r"
    and "r_event r \<noteq> ''DUPLICATE''" "r_observer_event r \<noteq> ''DUPLICATE''"
    and "get asrc ''source_name'' = PStr (src_name s)"
    and "get asrc ''severity'' = (if selects_warning s then PStr ''warning'' else PNone)"
    and "fl now = now" "now \<le> fadd now 30" "-5 \<le> fsub now2 now" "fsub now2 now \<le> 180"
  shows "if expired asrc now2 r then read_service asrc now2 (state_json m') (summary_json now summary) = Inr (None, None)
    else \<exists>c ob. read_service asrc now2 (state_json m') (summary_json now summary) = Inr (Some c, Some ob)
           \<and> s_incident c = r_incident r \<and> s_incident ob = r_observer_incident r
           \<and> s_status c = (if o_unknown_reason r \<noteq> None \<or> o_raw_status r \<notin> {''HEALTHY'', ''FAILED''} then UNKNOWN
                           else if r_incident r \<noteq> None then ALARM else if o_raw_status r = ''HEALTHY'' then NORMAL else UNKNOWN)
           \<and> s_status ob = (if r_suppressed_by r \<noteq> None then UNKNOWN
                            else if r_observer_incident r \<noteq> None then ALARM else if r_observer_status r = ''HEALTHY'' then NORMAL else UNKNOWN)"
  using assms by (rule reader_accepts)

definition sample_alert_source :: pyval where
  "sample_alert_source = PDict [(''source_name'', PStr ''api''), (''max_age'', PInt 900)]"

lemma sample_not_expired:
  assumes "0 \<le> o_sample_at r" "o_sample_at r \<le> 190"
  shows "\<not> expired sample_alert_source 190 r"
proof -
  let ?x = "fl (o_sample_at r)"
  have x: "0 \<le> ?x" "?x \<le> 190" using assms fl_nonneg fl_mono [of "o_sample_at r" 190] by simp_all
  then have "0 \<le> fsub 190 ?x" by (simp add: fsub_nonneg)
  moreover have "fl (190 - ?x) \<le> fl 190" using x by (intro fl_mono) simp_all
  then have "fsub 190 ?x \<le> 190" by (simp add: fsub_def)
  ultimately show ?thesis by (simp add: expired_def float_sub_def sample_alert_source_def)
qed

lemma discord_accepts_monitor_files_witness:
  "\<exists>m' summary r c ob. health_collect sample_config empty_monitor (PFloat 160) (\<lambda>_. Inr sample_report) True = Inr (m', summary)
     \<and> map_of summary ''api'' = Some r
     \<and> read_service sample_alert_source 190 (state_json m') (summary_json 160 summary) = Inr (Some c, Some ob)
     \<and> s_incident c = r_incident r"
proof -
  obtain m' summary where h:
    "health_collect sample_config empty_monitor (PFloat 160) (\<lambda>_. Inr sample_report) True = Inr (m', summary)"
    using sample_round by blast
  have s: "sample_source_config \<in> set (sources_of sample_config)" by (simp add: sample_config_def)
  have n: "src_name sample_source_config = ''api''" by (simp add: src_name_def sample_source_config_def)
  obtain samples snap obs r where r: "map_of summary (src_name sample_source_config) = Some r"
    "track_source True sample_source_config obs (parent_status_of samples sample_source_config) 160
       (tracked_of empty_monitor (src_name sample_source_config)) = Inr (tracked_of m' (src_name sample_source_config), r)"
    and obs: "sampled sample_source_config 160 snap = Inr obs"
    using health_collect_parts [OF h] s by metis
  have "tracked_of empty_monitor (src_name sample_source_config) = new_tracked"
    by (simp add: tracked_of_def empty_monitor_def)
  note d = first_sample_counts [OF r(2) [unfolded this]]
  have "\<not> selects_warning sample_source_config"
    by (simp add: selects_warning_def sample_source_config_def is_string_def)
  then have severity: "get sample_alert_source ''severity'' =
      (if selects_warning sample_source_config then PStr ''warning'' else PNone)" by (simp add: sample_alert_source_def)
  have name: "get sample_alert_source ''source_name'' = PStr (src_name sample_source_config)" by (simp add: sample_alert_source_def n)
  have "coherent sample_source_config 160 obs" using sampled_coherent [OF obs] by (simp add: fadd_def)
  then have "0 \<le> o_sample_at r" "o_sample_at r \<le> 190"
    using track_source_writes(9) [OF r(2)] by (simp_all add: coherent_def fadd_def)
  then have "\<not> expired sample_alert_source 190 r" by (rule sample_not_expired)
  with discord_accepts_monitor_files [OF h monitor_ok_empty s r(1) d name severity, where ?now2.0 = 190] h r(1)
  show ?thesis by (fastforce simp: n fadd_def fsub_def)
qed

end
