(* ===== verification/PbsCapacity.thy ===== *)
theory PbsCapacity
  imports Delivery
begin

text \<open>
  \<open>scripts/pbs-capacity-probe.py\<close> and \<open>scripts/pbs-capacity-monitor.py\<close>: the probe reads the
  counters of one datastore and classifies them, the monitor records status transitions and
  mails one alert per transition. The HTTPS exchange, protected files, the mail server and the
  clock (\<open>now.timestamp()\<close>) are parameters. An empty state file is \<open>None\<close>.
\<close>

section \<open>The probe\<close>

abbreviation ProbeFailure :: "string \<Rightarrow> exn" where
  "ProbeFailure r \<equiv> AppError ''ProbeFailure'' r"

definition datastore_name :: "string \<Rightarrow> bool" where
  "datastore_name s = head_match is_alnum (\<lambda>c. is_alnum c \<or> one_of ''_.-'' c) 0 62 s"

definition auth_char :: "char \<Rightarrow> bool" where
  "auth_char c = (is_alnum c \<or> one_of ''._-'' c)"

definition AUTH :: "string \<Rightarrow> bool" where
  "AUTH s =
     (case split_on CHR ''@'' s of
        [user, rest] \<Rightarrow>
          (case split_on CHR ''!'' rest of
             [realm, token] \<Rightarrow> list_all (\<lambda>w. w \<noteq> [] \<and> list_all auth_char w) [user, realm, token]
           | _ \<Rightarrow> False)
      | _ \<Rightarrow> False)"

definition hex_digit :: "char \<Rightarrow> bool" where
  "hex_digit c = (is_hex c \<or> 65 \<le> code c \<and> code c \<le> 70)"

definition PIN :: "string \<Rightarrow> bool" where
  "PIN s = (let ws = split_on CHR '':'' s in length ws = 32 \<and> list_all (class_match hex_digit 2 2) ws)"

definition TOKEN :: "string \<Rightarrow> bool" where
  "TOKEN s = class_match (\<lambda>c. is_alnum c \<or> one_of ''_-'' c) 16 256 s"

definition token_value :: "string \<Rightarrow> string res" where
  "token_value raw = bindR (check (TOKEN raw) (ProbeFailure ''TOKEN'')) (\<lambda>_. Inr raw)"

text \<open>Every listed exception becomes one \<open>ProbeFailure\<close>; the other failures below are \<open>ValueError\<close>.\<close>

definition probe_settings_raw :: "pyval \<Rightarrow> (path \<Rightarrow> string res) \<Rightarrow> string res" where
  "probe_settings_raw v secret =
     bindR (check (has_keys v [''server'', ''port'', ''datastore'', ''auth_id'', ''token_file'', ''fingerprint'',
                               ''warning_bytes'', ''critical_bytes'']) ValueError) (\<lambda>_.
     bindR (check (is_str (get v ''server'')
                   \<and> (let s = the_str (get v ''server'')
                      in length ''.example.invalid'' \<le> length s
                         \<and> drop (length s - length ''.example.invalid'') s = ''.example.invalid'')) ValueError) (\<lambda>_.
     bindR (check (is_int (get v ''port'') \<and> 1 \<le> the_int (get v ''port'') \<and> the_int (get v ''port'') \<le> 65535)
                  ValueError) (\<lambda>_.
     bindR (check (is_str (get v ''datastore'') \<and> datastore_name (the_str (get v ''datastore''))) ValueError) (\<lambda>_.
     bindR (check (is_str (get v ''auth_id'') \<and> AUTH (the_str (get v ''auth_id''))) ValueError) (\<lambda>_.
     bindR (check (is_str (get v ''token_file'')) TypeError) (\<lambda>_.
     let tf = the_str (get v ''token_file'')
     in bindR (check (is_absolute tf \<and> \<not> has_dotdot tf) ValueError) (\<lambda>_.
        bindR (bindR (secret (path_of tf)) token_value) (\<lambda>token.
        bindR (check (is_str (get v ''fingerprint'') \<and> PIN (the_str (get v ''fingerprint''))) ValueError) (\<lambda>_.
        bindR (check (is_int (get v ''warning_bytes'') \<and> 0 \<le> the_int (get v ''warning_bytes'')
                      \<and> is_int (get v ''critical_bytes'') \<and> 0 \<le> the_int (get v ''critical_bytes'')) ValueError) (\<lambda>_.
        bindR (check (the_int (get v ''critical_bytes'') < the_int (get v ''warning_bytes'')) ValueError) (\<lambda>_.
        Inr token)))))))))))"

fun settings_error :: "exn \<Rightarrow> bool" where
  "settings_error OSError = True"
| "settings_error FileNotFoundError = True"
| "settings_error ValueError = True"
| "settings_error KeyError = True"
| "settings_error TypeError = True"
| "settings_error _ = False"

definition probe_settings :: "pyval res \<Rightarrow> (path \<Rightarrow> string res) \<Rightarrow> (pyval \<times> string) res" where
  "probe_settings file secret =
     (case bindR file (\<lambda>v. bindR (probe_settings_raw v secret) (\<lambda>t. Inr (v, t))) of
        Inr r \<Rightarrow> Inr r
      | Inl e \<Rightarrow> if settings_error e then Inl (ProbeFailure ''CONFIG'') else Inl e)"

definition counters :: "pyval \<Rightarrow> string \<Rightarrow> (int \<times> int \<times> int) res" where
  "counters payload datastore =
     bindR (check (has_keys payload [''data''] \<and> is_dict (get payload ''data'')) (ProbeFailure ''STRUCTURE'')) (\<lambda>_.
     let d = get payload ''data'';
         total = get d ''total''; used = get d ''used''; avail = get d ''avail''
     in bindR (check (list_all (\<lambda>(k, _). k \<in> set [''total'', ''used'', ''avail'', ''gc-status'', ''counts'', ''store'',
                        ''datastore'', ''name'', ''backend-type'']) (items d)) (ProbeFailure ''FIELDS'')) (\<lambda>_.
        bindR (check (has_key d ''backend-type'' \<longrightarrow> is_string (get d ''backend-type'') ''filesystem'')
                     (ProbeFailure ''BACKEND'')) (\<lambda>_.
        bindR (check (list_all (\<lambda>k. has_key d k \<longrightarrow> is_string (get d k) datastore) [''store'', ''datastore'', ''name''])
                     (ProbeFailure ''IDENTITY'')) (\<lambda>_.
        bindR (check (list_all (\<lambda>v. is_int v \<and> 0 \<le> the_int v) [total, used, avail]) (ProbeFailure ''COUNTERS'')) (\<lambda>_.
        let t = the_int total; u = the_int used; a = the_int avail
        in bindR (check (t \<noteq> 0 \<and> u \<le> t \<and> a \<le> t \<and> u + a \<le> t) (ProbeFailure ''INCONSISTENT'')) (\<lambda>_.
           Inr (t, u, a)))))))"

definition fetch_counters :: "pyval \<Rightarrow> (int \<times> pyval res) res \<Rightarrow> (int \<times> int \<times> int) res" where
  "fetch_counters config response =
     bindR response (\<lambda>(status, body).
     bindR (check (status = 200) (ProbeFailure ''HTTP'')) (\<lambda>_.
     bindR body (\<lambda>payload. counters payload (the_str (get config ''datastore'')))))"

definition capacity_status :: "pyval \<Rightarrow> int \<Rightarrow> string" where
  "capacity_status config avail =
     (if avail \<le> the_int (get config ''critical_bytes'') then ''CRITICAL''
      else if avail \<le> the_int (get config ''warning_bytes'') then ''WARNING'' else ''OK'')"

text \<open>The three uses of the command line, and the report the probe prints with its exit code.\<close>

datatype probe_mode = CheckConfig | CheckReadDenied | Measure

definition probe_result ::
  "probe_mode \<Rightarrow> pyval res \<Rightarrow> (path \<Rightarrow> string res) \<Rightarrow> (int \<times> pyval res) res \<Rightarrow> (pyval \<times> int) res" where
  "probe_result mode file secret response =
     bindR (probe_settings file secret) (\<lambda>(config, _).
     case mode of
       CheckConfig \<Rightarrow> Inr (PDict [(''status'', PStr ''CONFIG_OK''), (''datastore'', get config ''datastore'')], 0)
     | CheckReadDenied \<Rightarrow>
         bindR response (\<lambda>(status, _).
         bindR (check (status = 403) (ProbeFailure ''DENIAL'')) (\<lambda>_.
         Inr (PDict [(''status'', PStr ''READ_DENIED''), (''http_status'', PInt status)], 0)))
     | Measure \<Rightarrow>
         bindR (fetch_counters config response) (\<lambda>(total, used, avail).
         bindR (check (the_int (get config ''warning_bytes'') < total) (ProbeFailure ''THRESHOLD'')) (\<lambda>_.
         let st = capacity_status config avail
         in Inr (PDict [(''total_bytes'', PInt total), (''used_bytes'', PInt used), (''avail_bytes'', PInt avail),
                        (''status'', PStr st)],
                 if st = ''OK'' then 0 else if st = ''WARNING'' then 1 else 2))))"

definition probe_error :: "string \<Rightarrow> pyval \<times> int" where
  "probe_error r = (PDict [(''status'', PStr ''ERROR''), (''error'', PStr r)], 2)"

definition probe_main :: "probe_mode \<Rightarrow> pyval res \<Rightarrow> (path \<Rightarrow> string res) \<Rightarrow> (int \<times> pyval res) res \<Rightarrow> (pyval \<times> int) res" where
  "probe_main mode file secret response =
     (case probe_result mode file secret response of
        Inr r \<Rightarrow> Inr r
      | Inl e \<Rightarrow>
          (case e of
             AppError c r \<Rightarrow> Inr (probe_error r)
           | _ \<Rightarrow> if e = ValueError then Inr (probe_error ''VALUE'') else Inl e))"

section \<open>The monitor's report\<close>

abbreviation MonitorFailure :: "string \<Rightarrow> exn" where
  "MonitorFailure r \<equiv> AppError ''MonitorFailure'' r"

record capacity_report =
  cr_status :: string
  cr_counters :: "(pyval \<times> pyval \<times> pyval) option"
  cr_error :: "pyval option"

definition error_report :: "pyval \<Rightarrow> capacity_report" where
  "error_report e = \<lparr>cr_status = ''ERROR'', cr_counters = None, cr_error = Some e\<rparr>"

definition read_status_raw :: "pyval \<Rightarrow> capacity_report res" where
  "read_status_raw v =
     bindR (getR v ''status'') (\<lambda>st.
     if \<not> in_tuple st [''OK'', ''WARNING'', ''CRITICAL'']
     then Inr (error_report (get_or v ''error'' (PStr ''Capacity check failed'')))
     else bindR (indexR v ''total_bytes'') (\<lambda>t. bindR (indexR v ''used_bytes'') (\<lambda>u. bindR (indexR v ''avail_bytes'') (\<lambda>a.
          Inr \<lparr>cr_status = the_str st, cr_counters = Some (t, u, a), cr_error = None\<rparr>))))"

fun read_error :: "exn \<Rightarrow> bool" where
  "read_error SubprocessError = True"
| "read_error e = settings_error e"

text \<open>The argument is the parsed standard output of the probe.\<close>

definition read_status :: "pyval res \<Rightarrow> capacity_report res" where
  "read_status output =
     (case bindR output read_status_raw of
        Inr r \<Rightarrow> Inr r
      | Inl e \<Rightarrow> if read_error e then Inr (error_report (PStr ''exception'')) else Inl e)"

section \<open>The monitor's state\<close>

definition STATUSES :: "string list" where
  "STATUSES = [''OK'', ''WARNING'', ''CRITICAL'', ''ERROR'']"

datatype capacity_delivery = BASELINE | NO_ALERT | IN_FLIGHT | DELIVERED | REFUSED | DOUBTFUL | GIVEN_UP

definition DELIVERY_NAMES :: "(string \<times> capacity_delivery) list" where
  "DELIVERY_NAMES =
     [(''BASELINE'', BASELINE), (''NO_ALERT'', NO_ALERT), (''ATTEMPTED'', IN_FLIGHT), (''SENT'', DELIVERED),
      (''NOT_SENT'', REFUSED), (''UNCERTAIN'', DOUBTFUL), (''RETRIES_EXHAUSTED'', GIVEN_UP)]"

definition RETRY_MAX :: nat where
  "RETRY_MAX = 3"

record capacity_state =
  cs_status :: string
  cs_sequence :: int
  cs_delivery :: capacity_delivery
  cs_attempts :: nat
  cs_event :: "string option"
  cs_last_check :: rat
  cs_retry_after :: rat

definition number_key :: "pyval \<Rightarrow> string \<Rightarrow> rat res" where
  "number_key v k =
     (if has_key v k
      then bindR (if is_number (get v k) then isfiniteR (get v k) else Inr False) (\<lambda>finite.
           if finite then Inr (num_val (get v k)) else Inl (MonitorFailure ''NUMBER''))
      else Inr 0)"

text \<open>
  \<open>validate_state\<close> with the typed reading of an accepted receipt; the default of a missing
  number is the one its readers use.
\<close>

definition read_state :: "pyval \<Rightarrow> capacity_state option res" where
  "read_state v =
     bindR (check (is_dict v) (MonitorFailure ''OBJECT'')) (\<lambda>_.
     if items v = [] then Inr None
     else
       bindR (in_setR (get v ''status'') STATUSES) (\<lambda>known.
       bindR (check known (MonitorFailure ''STATUS'')) (\<lambda>_.
       bindR (check (is_int (get v ''sequence'') \<and> 1 \<le> the_int (get v ''sequence'')) (MonitorFailure ''SEQUENCE'')) (\<lambda>_.
       bindR (in_setR (get v ''delivery'') (map fst DELIVERY_NAMES)) (\<lambda>dknown.
       bindR (check dknown (MonitorFailure ''DELIVERY'')) (\<lambda>_.
       bindR (check (is_int (get v ''attempts'') \<and> 0 \<le> the_int (get v ''attempts'')
                     \<and> the_int (get v ''attempts'') \<le> int RETRY_MAX) (MonitorFailure ''ATTEMPTS'')) (\<lambda>_.
       bindR (number_key v ''last_check_epoch'') (\<lambda>last.
       bindR (number_key v ''retry_after'') (\<lambda>retry.
       Inr (Some \<lparr>cs_status = the_str (get v ''status''), cs_sequence = the_int (get v ''sequence''),
                  cs_delivery = the (map_of DELIVERY_NAMES (the_str (get v ''delivery''))),
                  cs_attempts = nat (the_int (get v ''attempts'')),
                  cs_event = (if is_str (get v ''event'') then Some (the_str (get v ''event'')) else None),
                  cs_last_check = last, cs_retry_after = retry\<rparr>))))))))))"

section \<open>Transitions\<close>

definition level :: "string \<Rightarrow> nat" where
  "level st = (if st = ''OK'' then 0 else if st = ''WARNING'' then 1 else if st = ''CRITICAL'' then 2 else 3)"

definition change_event :: "string option \<Rightarrow> string \<Rightarrow> string option" where
  "change_event old new =
     (case old of
        None \<Rightarrow> Some new
      | Some o' \<Rightarrow>
          if new = ''OK'' then Some ''RECOVERED''
          else if level o' < level new \<or> o' = ''ERROR'' \<and> new \<in> {''WARNING'', ''CRITICAL''} then Some new
          else None)"

text \<open>The state before the run's own writes; \<open>None\<close> as event means nothing to mail.\<close>

definition transition :: "capacity_state option \<Rightarrow> string \<Rightarrow> capacity_state \<times> string option" where
  "transition previous new =
     (case previous of
        Some p \<Rightarrow>
          if cs_status p = new then (p, None)
          else
            let ev = change_event (Some (cs_status p)) new
            in (\<lparr>cs_status = new, cs_sequence = cs_sequence p + 1,
                 cs_delivery = (if ev \<noteq> None then IN_FLIGHT else NO_ALERT), cs_attempts = 0,
                 cs_event = Some (case ev of None \<Rightarrow> ''STATUS_CHANGED'' | Some e \<Rightarrow> e),
                 cs_last_check = 0, cs_retry_after = 0\<rparr>, ev)
      | None \<Rightarrow>
          if new = ''OK''
          then (\<lparr>cs_status = new, cs_sequence = 1, cs_delivery = BASELINE, cs_attempts = 0,
                 cs_event = Some ''BASELINE'', cs_last_check = 0, cs_retry_after = 0\<rparr>, None)
          else (\<lparr>cs_status = new, cs_sequence = 1, cs_delivery = IN_FLIGHT, cs_attempts = 0,
                 cs_event = Some new, cs_last_check = 0, cs_retry_after = 0\<rparr>, Some new))"

section \<open>A run\<close>

datatype mail_outcome = MailDelivered | MailRejected | MailUnknown | MailCrashed

record capacity_env =
  ce_now :: rat
  ce_report :: "capacity_report res"
  ce_mail :: mail_outcome

type_synonym capacity_alert = "string \<times> int"

text \<open>What is to be written and mailed, after the retry rule.\<close>

definition retry_due :: "capacity_state option \<Rightarrow> rat \<Rightarrow> bool" where
  "retry_due previous now =
     (case previous of
        None \<Rightarrow> False
      | Some p \<Rightarrow> cs_delivery p = REFUSED \<and> cs_attempts p < RETRY_MAX \<and> cs_retry_after p \<le> now)"

definition planned :: "capacity_state option \<Rightarrow> string \<Rightarrow> rat \<Rightarrow> capacity_state \<times> string option" where
  "planned previous new now =
     (let (updated, event) = transition previous new
      in if event = None \<and> retry_due previous now
         then ((the previous)\<lparr>cs_last_check := now\<rparr>, cs_event (the previous))
         else (updated\<lparr>cs_last_check := now\<rparr>, event))"

definition retry_delay :: "nat \<Rightarrow> rat" where
  "retry_delay attempts = (if attempts \<le> 1 then 60 else 300)"

definition after_mail :: "capacity_state \<Rightarrow> rat \<Rightarrow> mail_outcome \<Rightarrow> capacity_state" where
  "after_mail s now a =
     (case a of
        MailDelivered \<Rightarrow> s\<lparr>cs_delivery := DELIVERED\<rparr>
      | MailRejected \<Rightarrow>
          if RETRY_MAX \<le> cs_attempts s then s\<lparr>cs_delivery := GIVEN_UP\<rparr>
          else s\<lparr>cs_delivery := REFUSED, cs_retry_after := fadd now (retry_delay (cs_attempts s))\<rparr>
      | MailUnknown \<Rightarrow> s\<lparr>cs_delivery := DOUBTFUL\<rparr>
      | MailCrashed \<Rightarrow> s)"

definition mail_result :: "capacity_report \<Rightarrow> string \<Rightarrow> mail_outcome \<Rightarrow> (capacity_report \<times> string) res" where
  "mail_result report event a =
     (case a of
        MailDelivered \<Rightarrow> Inr (report, event)
      | MailRejected \<Rightarrow> Inl (AppError ''SubmissionRejected'' [])
      | MailUnknown \<Rightarrow> Inl (AppError ''SubmissionUnknown'' [])
      | MailCrashed \<Rightarrow> Inl ValueError)"

text \<open>The disk holds \<open>Some\<close> state once a run has written it; an unexpected error leaves the attempt on it.\<close>

definition capacity_run ::
  "capacity_state option \<Rightarrow> capacity_env \<Rightarrow>
   (capacity_state option, capacity_alert) effect list \<times> (capacity_report \<times> string) res" where
  "capacity_run previous env =
     (let now = ce_now env
      in if fadd now 1 < (case previous of None \<Rightarrow> 0 | Some p \<Rightarrow> cs_last_check p)
         then ([], Inl (MonitorFailure ''CLOCK''))
         else case ce_report env of
                Inl e \<Rightarrow> ([], Inl e)
              | Inr report \<Rightarrow>
                  (case planned previous (cr_status report) now of
                     (updated, None) \<Rightarrow> ([Persist (Some updated)], Inr (report, ''UNCHANGED''))
                   | (updated, Some event) \<Rightarrow>
                       let s = updated\<lparr>cs_attempts := cs_attempts updated + 1, cs_delivery := IN_FLIGHT\<rparr>;
                           tail = (if ce_mail env = MailCrashed then []
                                   else [Persist (Some (after_mail s now (ce_mail env)))])
                       in (Persist (Some s) # Send (event, cs_sequence s) # tail,
                           mail_result report event (ce_mail env))))"

definition capacity_exit :: "(capacity_report \<times> string) res \<Rightarrow> int" where
  "capacity_exit r =
     (case r of
        Inl e \<Rightarrow> (case e of AppError _ _ \<Rightarrow> 2 | OSError \<Rightarrow> 2 | FileNotFoundError \<Rightarrow> 2 | ValueError \<Rightarrow> 2 | _ \<Rightarrow> 1)
      | Inr (report, _) \<Rightarrow>
          if cr_status report = ''ERROR'' then 2
          else if cr_status report \<in> {''WARNING'', ''CRITICAL''} then 1 else 0)"

text \<open>What \<open>send\<close> demands of the mail settings before it connects; every failure is a rejection.\<close>

definition mail_settings_ok :: "pyval \<Rightarrow> (path \<Rightarrow> string res) \<Rightarrow> bool" where
  "mail_settings_ok config secret =
     (is_dict config
      \<and> is_str (get config ''password_file'')
      \<and> (case secret (path_of (the_str (get config ''password_file''))) of Inr _ \<Rightarrow> True | Inl _ \<Rightarrow> False)
      \<and> get config ''enabled'' = PBool True \<and> in_tuple (get config ''tls_mode'') [''tls'', ''starttls'']
      \<and> is_str (get config ''sender'') \<and> mail_address (the_str (get config ''sender''))
      \<and> is_str (get config ''recipient'') \<and> mail_address (the_str (get config ''recipient''))
      \<and> list_all (\<lambda>k. is_str (get config k) \<and> the_str (get config k) \<noteq> []) [''host'', ''username'']
      \<and> is_int (get config ''port'') \<and> 1 \<le> the_int (get config ''port'') \<and> the_int (get config ''port'') \<le> 65535
      \<and> is_absolute (the_str (get config ''password_file'')) \<and> \<not> has_dotdot (the_str (get config ''password_file'')))"

text \<open>The SMTP exchange of \<open>send\<close>, after the settings.\<close>

definition capacity_send ::
  "pyval \<Rightarrow> (path \<Rightarrow> string res) \<Rightarrow> smtp_fault option \<Rightarrow> smtp_fault option \<Rightarrow> mail_outcome" where
  "capacity_send config secret connect submit =
     (if \<not> mail_settings_ok config secret then MailRejected
      else case connect of
             Some f \<Rightarrow> if f = OtherFault then MailCrashed else MailRejected
           | None \<Rightarrow>
               (case submit of
                  None \<Rightarrow> MailDelivered
                | Some f \<Rightarrow>
                    if f \<in> {RecipientsRefused, SenderRefused, DataError, HeloError} then MailRejected
                    else if f = OtherFault then MailCrashed else MailUnknown))"

section \<open>Bounded delivery\<close>

definition capacity_ok :: "capacity_state option \<Rightarrow> bool" where
  "capacity_ok s =
     (case s of None \<Rightarrow> True
      | Some p \<Rightarrow> 1 \<le> cs_sequence p \<and> (cs_delivery p = REFUSED \<longrightarrow> 1 \<le> cs_attempts p \<and> cs_attempts p \<le> 2)
                   \<and> (cs_delivery p = NO_ALERT \<longrightarrow> cs_event p = Some ''STATUS_CHANGED''))"

fun capacity_budget :: "capacity_state option \<Rightarrow> capacity_alert \<Rightarrow> nat" where
  "capacity_budget None (event, n) = 3"
| "capacity_budget (Some p) (event, n) =
     (if cs_sequence p < n then 3
      else if cs_sequence p = n \<and> cs_delivery p = REFUSED \<and> cs_event p = Some event then 3 - cs_attempts p else 0)"

text \<open>A run mails at most one alert: a new one with the next sequence number, or the refused one again.\<close>

lemma planned_cases:
  assumes "capacity_ok previous" "planned previous new now = (s, ev)"
  obtains (quiet) "ev = None" "capacity_ok (Some s)" "\<And>k. capacity_budget (Some s) k \<le> capacity_budget previous k"
  | (alert) event where "ev = Some event" "cs_attempts s = 0" "1 \<le> cs_sequence s" "cs_event s = Some event"
      "case previous of None \<Rightarrow> True | Some p \<Rightarrow> cs_sequence p < cs_sequence s"
  | (again) p event where "previous = Some p" "ev = Some event" "cs_delivery p = REFUSED" "cs_event p = Some event"
      "1 \<le> cs_sequence p" "1 \<le> cs_attempts p" "cs_attempts p \<le> 2" "cs_sequence s = cs_sequence p"
      "cs_attempts s = cs_attempts p" "cs_event s = Some event"
proof -
  obtain u e where t: "transition previous new = (u, e)" by (cases "transition previous new")
  show ?thesis
  proof (cases previous)
    case None
    then show ?thesis using assms(2) that(1,2) t
      by (auto simp: planned_def transition_def retry_due_def capacity_ok_def Let_def split: if_splits)
  next
    case (Some p)
    have ok: "1 \<le> cs_sequence p" "cs_delivery p = REFUSED \<longrightarrow> 1 \<le> cs_attempts p \<and> cs_attempts p \<le> 2"
      "cs_delivery p = NO_ALERT \<longrightarrow> cs_event p = Some ''STATUS_CHANGED''"
      using assms(1) Some by (auto simp: capacity_ok_def)
    show ?thesis
    proof (cases "e = None \<and> retry_due previous now")
      case True
      then have s: "s = p\<lparr>cs_last_check := now\<rparr>" "ev = cs_event p" "cs_delivery p = REFUSED"
        using assms(2) t Some by (auto simp: planned_def retry_due_def)
      show ?thesis
      proof (cases "cs_event p")
        case None
        then show ?thesis using s ok Some by (intro that(1)) (auto simp: capacity_ok_def)
      next
        case (Some event)
        then show ?thesis using s ok \<open>previous = Some p\<close> by (intro that(3)) auto
      qed
    next
      case False
      then have s: "s = u\<lparr>cs_last_check := now\<rparr>" "ev = e" using assms(2) t by (auto simp: planned_def)
      show ?thesis
      proof (cases "cs_status p = new")
        case True
        then show ?thesis using s t ok Some
          by (intro that(1)) (auto simp: transition_def capacity_ok_def)
      next
        case False
        then have u: "u = \<lparr>cs_status = new, cs_sequence = cs_sequence p + 1,
            cs_delivery = (if e \<noteq> None then IN_FLIGHT else NO_ALERT), cs_attempts = 0,
            cs_event = Some (case e of None \<Rightarrow> ''STATUS_CHANGED'' | Some e \<Rightarrow> e), cs_last_check = 0, cs_retry_after = 0\<rparr>"
          using t Some by (auto simp: transition_def Let_def)
        have le: "capacity_budget (Some s) k \<le> capacity_budget (Some p) k" if "e = None" for k
          using that by (cases k) (simp add: s u)
        show ?thesis
        proof (cases e)
          case None
          then show ?thesis using s u ok le Some by (intro that(1)) (auto simp: capacity_ok_def)
        next
          case (Some event)
          then show ?thesis using s u ok \<open>previous = Some p\<close> by (intro that(2)) auto
        qed
      qed
    qed
  qed
qed

lemma after_mail_fields [simp]:
  "cs_sequence (after_mail s now a) = cs_sequence s" "cs_attempts (after_mail s now a) = cs_attempts s"
  "cs_event (after_mail s now a) = cs_event s"
  by (cases a; simp add: after_mail_def)+

lemma after_mail_refused:
  "cs_delivery s = IN_FLIGHT \<Longrightarrow> cs_delivery (after_mail s now a) = REFUSED \<longleftrightarrow> a = MailRejected \<and> cs_attempts s \<le> 2"
  by (cases a) (auto simp: after_mail_def RETRY_MAX_def)

lemma capacity_attempt_lawful:
  fixes s :: capacity_state
  assumes ok: "capacity_ok previous" and n: "1 \<le> cs_sequence s"
    and b: "capacity_budget previous (event, cs_sequence s) = 3 - cs_attempts s" "cs_attempts s \<le> 2"
    and newer: "case previous of None \<Rightarrow> True | Some p \<Rightarrow> cs_sequence p \<le> cs_sequence s"
    and ev: "cs_event s = Some event"
  defines "t1 \<equiv> s\<lparr>cs_attempts := cs_attempts s + 1, cs_delivery := IN_FLIGHT\<rparr>"
  shows "lawful capacity_ok capacity_budget previous
           [Persist (Some t1), Send (event, cs_sequence t1), Persist (Some (after_mail t1 now a))]"
proof (rule lawful_attempt)
  have t1: "cs_sequence t1 = cs_sequence s" "cs_delivery t1 = IN_FLIGHT" "cs_attempts t1 = cs_attempts s + 1"
    "cs_event t1 = Some event" by (simp_all add: t1_def ev)
  note r = after_mail_refused [OF t1(2), of now a]
  have nn: "cs_delivery (after_mail t1 now a) \<noteq> NO_ALERT" using t1(2) by (cases a) (simp_all add: after_mail_def)
  show "capacity_ok (Some t1)" "capacity_ok (Some (after_mail t1 now a))"
    using n t1 r nn by (auto simp: capacity_ok_def)
  show "capacity_budget (Some t1) (event, cs_sequence t1) = 0" by (simp add: t1)
  show "1 \<le> capacity_budget previous (event, cs_sequence t1)" using b by (simp add: t1)
  have old: "capacity_budget previous (e, i) = 3" if "cs_sequence s < i" for e i
    using that newer by (cases previous) auto
  show "capacity_budget (Some t1) k \<le> capacity_budget previous k" for k
    using old by (cases k) (simp add: t1)
  show "capacity_budget (Some (after_mail t1 now a)) k + (if (event, cs_sequence t1) = k then 1 else 0)
      \<le> capacity_budget previous k" for k
    using old b r by (cases k) (auto simp: t1)
qed (rule ok)

lemma capacity_run_lawful:
  assumes ok: "capacity_ok previous"
  shows "lawful capacity_ok capacity_budget previous (fst (capacity_run previous env))"
proof (cases "fadd (ce_now env) 1 < (case previous of None \<Rightarrow> 0 | Some p \<Rightarrow> cs_last_check p)")
  case True
  then show ?thesis using ok by (simp add: capacity_run_def)
next
  case clock: False
  show ?thesis
  proof (cases "ce_report env")
    case (Inl e)
    then show ?thesis using ok clock by (simp add: capacity_run_def Let_def)
  next
    case (Inr report)
    obtain s ev where p: "planned previous (cr_status report) (ce_now env) = (s, ev)" by fastforce
    have run: "fst (capacity_run previous env) =
        (case ev of None \<Rightarrow> [Persist (Some s)]
         | Some event \<Rightarrow>
             let t1 = s\<lparr>cs_attempts := cs_attempts s + 1, cs_delivery := IN_FLIGHT\<rparr>
             in Persist (Some t1) # Send (event, cs_sequence t1)
                # (if ce_mail env = MailCrashed then [] else [Persist (Some (after_mail t1 (ce_now env) (ce_mail env)))]))"
      using clock Inr p by (simp add: capacity_run_def Let_def split: option.split)
    have cut: "lawful capacity_ok capacity_budget previous (fst (capacity_run previous env))"
      if "ev = Some event" "lawful capacity_ok capacity_budget previous
          [Persist (Some (s\<lparr>cs_attempts := cs_attempts s + 1, cs_delivery := IN_FLIGHT\<rparr>)), Send (event, cs_sequence s),
           Persist (Some (after_mail (s\<lparr>cs_attempts := cs_attempts s + 1, cs_delivery := IN_FLIGHT\<rparr>) (ce_now env) (ce_mail env)))]"
      for event
      using that(2) lawful_prefix [of capacity_ok capacity_budget previous "[_, _]" "[_]"] by (simp add: run that(1) Let_def)
    from ok p show ?thesis
    proof (cases rule: planned_cases)
      case quiet
      then show ?thesis using ok by (auto simp: run intro!: lawful_Persist)
    next
      case (alert event)
      have "capacity_budget previous (event, cs_sequence s) = 3 - cs_attempts s"
        using alert(2,5) by (cases previous) auto
      from capacity_attempt_lawful [OF ok alert(3) this _ _ alert(4)] alert(2,5) show ?thesis
        by (intro cut [OF alert(1)]) (auto split: option.splits)
    next
      case (again p event)
      have "capacity_budget previous (event, cs_sequence s) = 3 - cs_attempts s"
        using again by simp
      from capacity_attempt_lawful [OF ok _ this _ _ again(10)] again show ?thesis
        by (intro cut [OF again(2)]) auto
    qed
  qed
qed

interpretation capacity: accounted "\<lambda>s env. fst (capacity_run s env)" capacity_ok capacity_budget
  by unfold_locales (rule capacity_run_lawful)

section \<open>Properties\<close>

lemma capacity_budget_le: "capacity_budget s k \<le> 3"
  by (cases s; cases k) auto

text \<open>Over any history of capacity monitor runs and crashes, whatever the probe reports and
  the mail server answers, one alert (event and sequence number) is mailed at most three times.\<close>

theorem capacity_alert_at_most_three_times:
  assumes "capacity_ok s"
  shows "sends k (runs (\<lambda>s env. fst (capacity_run s env)) s rs) \<le> 3"
  using capacity.sends_runs [OF assms, of k rs] capacity_budget_le [of s k] by simp

lemma capacity_alert_at_most_three_times_witness:
  "sends (''CRITICAL'', 1) (runs (\<lambda>s env. fst (capacity_run s env)) None
     (replicate 4 (\<lparr>ce_now = 1000, ce_report = Inr \<lparr>cr_status = ''CRITICAL'', cr_counters = None, cr_error = None\<rparr>,
        ce_mail = MailRejected\<rparr>, 3))) \<le> 3"
  by (rule capacity_alert_at_most_three_times) (simp add: capacity_ok_def)

text \<open>Among the four statuses, a change is announced with an alert in every case but one:
  only the step down from \<open>CRITICAL\<close> to \<open>WARNING\<close> is silent. A return to \<open>OK\<close> is announced as
  \<open>RECOVERED\<close>, every other change under its new status.\<close>

theorem only_one_silent_change:
  assumes "cs_status p \<in> set STATUSES" "new \<in> set STATUSES" "cs_status p \<noteq> new"
  shows "snd (transition (Some p) new) =
           (if cs_status p = ''CRITICAL'' \<and> new = ''WARNING'' then None
            else Some (if new = ''OK'' then ''RECOVERED'' else new))"
  using assms by (auto simp: STATUSES_def transition_def change_event_def level_def Let_def)

definition refused_critical :: capacity_state where
  "refused_critical = \<lparr>cs_status = ''CRITICAL'', cs_sequence = 4, cs_delivery = REFUSED, cs_attempts = 1,
     cs_event = Some ''CRITICAL'', cs_last_check = 1000, cs_retry_after = 1060\<rparr>"

lemma only_one_silent_change_witness: "snd (transition (Some refused_critical) ''OK'') = Some ''RECOVERED''"
  by (subst only_one_silent_change) (simp_all add: STATUSES_def refused_critical_def)

text \<open>C13: A silent step down from \<open>CRITICAL\<close> to \<open>WARNING\<close> while the \<open>CRITICAL\<close> mail is still due
  for a retry is not recorded: the run mails \<open>CRITICAL\<close> again, with the report that says
  \<open>WARNING\<close>, and the state it leaves on disk still says \<open>CRITICAL\<close>.\<close>

theorem stale_alarm_repeated:
  assumes "cs_status p = ''CRITICAL''" "cs_event p = Some ''CRITICAL''" "retry_due (Some p) (ce_now env)"
    and "ce_report env = Inr report" "cr_status report = ''WARNING''" "cs_last_check p \<le> fadd (ce_now env) 1"
  shows "Send (''CRITICAL'', cs_sequence p) \<in> set (fst (capacity_run (Some p) env))
     \<and> (\<exists>s. disk (Some p) (fst (capacity_run (Some p) env)) = Some s \<and> cs_status s = ''CRITICAL'')"
proof -
  have "planned (Some p) ''WARNING'' (ce_now env) = (p\<lparr>cs_last_check := ce_now env\<rparr>, Some ''CRITICAL'')"
    using assms(1-3) by (simp add: planned_def transition_def change_event_def level_def Let_def)
  moreover have "cs_status (after_mail s now a) = cs_status s" for s now a
    by (cases a) (simp_all add: after_mail_def)
  ultimately show ?thesis using assms(1,4-6) by (simp add: capacity_run_def Let_def)
qed

lemma stale_alarm_repeated_witness:
  "Send (''CRITICAL'', 4) \<in> set (fst (capacity_run (Some refused_critical)
     \<lparr>ce_now = 1100, ce_report = Inr \<lparr>cr_status = ''WARNING'', cr_counters = None, cr_error = None\<rparr>, ce_mail = MailDelivered\<rparr>))"
  using stale_alarm_repeated [of refused_critical "\<lparr>ce_now = 1100, ce_report =
      Inr \<lparr>cr_status = ''WARNING'', cr_counters = None, cr_error = None\<rparr>, ce_mail = MailDelivered\<rparr>"
      "\<lparr>cr_status = ''WARNING'', cr_counters = None, cr_error = None\<rparr>"]
  by (simp add: refused_critical_def retry_due_def RETRY_MAX_def fadd_def)

text \<open>C12: A status the probe prints is backed by consistent counters: used and available bytes
  fit into the total, \<open>OK\<close> means that more than the warning threshold is free, and anything but
  \<open>OK\<close>, \<open>WARNING\<close> and \<open>CRITICAL\<close> is the error report with exit code 2.\<close>

theorem probe_status_is_backed:
  assumes "probe_main Measure file secret response = Inr (out, rc)" "rc \<noteq> 2 \<or> is_string (get out ''status'') ''CRITICAL''"
  shows "\<exists>config total used avail. file = Inr config
     \<and> get out ''total_bytes'' = PInt total \<and> get out ''used_bytes'' = PInt used \<and> get out ''avail_bytes'' = PInt avail
     \<and> 0 \<le> used \<and> 0 \<le> avail \<and> used + avail \<le> total \<and> 0 < total
     \<and> (is_string (get out ''status'') ''OK'' \<longleftrightarrow> the_int (get config ''warning_bytes'') < avail)
     \<and> (is_string (get out ''status'') ''CRITICAL'' \<longleftrightarrow> avail \<le> the_int (get config ''critical_bytes''))"
proof -
  have "probe_result Measure file secret response = Inr (out, rc)"
    using assms by (auto simp: probe_main_def probe_error_def is_string_def split: sum.splits exn.splits if_splits)
  then obtain config tok total used avail where
    s: "probe_settings file secret = Inr (config, tok)" and c: "fetch_counters config response = Inr (total, used, avail)"
    and out: "out = PDict [(''total_bytes'', PInt total), (''used_bytes'', PInt used), (''avail_bytes'', PInt avail),
                          (''status'', PStr (capacity_status config avail))]"
    by (auto simp: probe_result_def Let_def)
  have "file = Inr config" and raw: "probe_settings_raw config secret = Inr tok"
    using s by (auto simp: probe_settings_def split: sum.splits if_splits)
  moreover have "the_int (get config ''critical_bytes'') < the_int (get config ''warning_bytes'')"
    using raw by (simp add: probe_settings_raw_def Let_def)
  moreover have "0 \<le> used \<and> 0 \<le> avail \<and> used + avail \<le> total \<and> 0 < total"
    using c by (auto simp: fetch_counters_def counters_def Let_def)
  ultimately show ?thesis by (auto simp: out capacity_status_def is_string_def)
qed

definition probe_config :: pyval where
  "probe_config = PDict
     [(''server'', PStr ''p.example.invalid''), (''port'', PInt 8007), (''datastore'', PStr ''main''),
      (''auth_id'', PStr ''m@pbs!t''), (''token_file'', PStr ''/t''),
      (''fingerprint'', PStr (join_with '':'' (replicate 32 ''ab''))), (''warning_bytes'', PInt 200), (''critical_bytes'', PInt 100)]"

lemma probe_status_is_backed_witness:
  "\<exists>out. probe_main Measure (Inr probe_config) (\<lambda>_. Inr (replicate 16 CHR ''x''))
      (Inr (200, Inr (PDict [(''data'', PDict [(''total'', PInt 1000), (''used'', PInt 300), (''avail'', PInt 700)])]))) =
      Inr (out, 0) \<and> get out ''avail_bytes'' = PInt 700"
proof -
  let ?f = "Inr probe_config :: pyval res" and ?s = "\<lambda>_ :: path. Inr (replicate 16 CHR ''x'') :: string res"
  let ?d = "PDict [(''data'', PDict [(''total'', PInt 1000), (''used'', PInt 300), (''avail'', PInt 700)])]"
  have "PIN (join_with '':'' (replicate 32 ''ab''))" "TOKEN (replicate 16 CHR ''x'')" by code_simp+
  then have "probe_settings_raw probe_config ?s = Inr (replicate 16 CHR ''x'')"
    by (simp add: probe_settings_raw_def probe_config_def has_keys_def Let_def datastore_name_def head_match_def
        class_match_def char_class_defs AUTH_def auth_char_def is_absolute_def path_root_def starts_with_def
        has_dotdot_def path_parts_def token_value_def)
  then have st: "probe_settings ?f ?s = Inr (probe_config, replicate 16 CHR ''x'')"
    by (simp add: probe_settings_def)
  have c: "fetch_counters probe_config (Inr (200, Inr ?d)) = Inr (1000, 300, 700)"
    by (simp add: fetch_counters_def counters_def has_keys_def Let_def)
  obtain out where o: "probe_main Measure ?f ?s (Inr (200, Inr ?d)) = Inr (out, 0)" "get out ''avail_bytes'' = PInt 700"
    by (simp add: probe_main_def probe_result_def st c capacity_status_def Let_def) (simp add: probe_config_def)
  from probe_status_is_backed [OF o(1)] o show ?thesis by auto
qed

end
