(* ===== verification/PyTime.thy ===== *)
theory PyTime
  imports PyValue
begin

text \<open>
  The calendar of \<open>datetime\<close>: days counted from 1970-01-01 in the proleptic Gregorian
  calendar, and the time stamp form \<open>%Y-%m-%dT%H:%M:%SZ\<close>. An aware \<open>datetime\<close> is the whole
  number of its microseconds since the epoch; \<open>timestamp()\<close> divides it by a million.
\<close>

section \<open>Days\<close>

definition leap_year :: "int \<Rightarrow> bool" where
  "leap_year y = (4 dvd y \<and> (\<not> 100 dvd y \<or> 400 dvd y))"

definition month_lengths :: "int \<Rightarrow> int list" where
  "month_lengths y = [31, if leap_year y then 29 else 28, 31, 30, 31, 30, 31, 31, 30, 31, 30, 31]"

definition days_before_year :: "int \<Rightarrow> int" where
  "days_before_year y = (y - 1) * 365 + (y - 1) div 4 - (y - 1) div 100 + (y - 1) div 400"

definition valid_date :: "int \<Rightarrow> int \<Rightarrow> int \<Rightarrow> bool" where
  "valid_date y m d =
     (1 \<le> y \<and> y \<le> 9999 \<and> 1 \<le> m \<and> m \<le> 12 \<and> 1 \<le> d \<and> d \<le> month_lengths y ! nat (m - 1))"

definition epoch_day :: "int \<Rightarrow> int \<Rightarrow> int \<Rightarrow> int" where
  "epoch_day y m d = days_before_year y + sum_list (take (nat (m - 1)) (month_lengths y)) + d - 719163"

lemma days_of_year: "days_before_year (y + 1) - days_before_year y = (if leap_year y then 366 else 365)"
proof -
  have step: "y div k - (y - 1) div k = (if k dvd y then 1 else 0)" if "0 < k" for k :: int
  proof (cases "k dvd y")
    case True
    then obtain q where q: "y = k * q" by blast
    have "(y - 1) div k = q - 1"
      by (rule int_div_pos_eq [where r = "k - 1"]) (use that q in \<open>simp_all add: algebra_simps\<close>)
    moreover have "y div k = q" using q that by simp
    ultimately show ?thesis using True by simp
  next
    case False
    then have "y mod k \<noteq> 0" by (simp add: dvd_eq_mod_eq_0)
    then have r: "0 < y mod k" "y mod k < k" using that pos_mod_sign [OF that, of y] by (linarith, simp)
    have "(y - 1) div k = y div k"
      by (rule int_div_pos_eq [where r = "y mod k - 1"]) (use r mult_div_mod_eq [of k y] in simp_all)
    then show ?thesis using False by simp
  qed
  have d: "400 dvd y \<Longrightarrow> 100 dvd y" "100 dvd y \<Longrightarrow> 4 dvd y" by presburger+
  have e: "days_before_year (y + 1) - days_before_year y =
      365 + (y div 4 - (y - 1) div 4) - (y div 100 - (y - 1) div 100) + (y div 400 - (y - 1) div 400)"
    by (simp add: days_before_year_def algebra_simps)
  show ?thesis
    unfolding e step [of 4, simplified] step [of 100, simplified] step [of 400, simplified] leap_year_def
    using d by (cases "400 dvd y"; cases "100 dvd y"; cases "4 dvd y") simp_all
qed

section \<open>Time stamps\<close>

text \<open>\<open>now.timestamp()\<close> of a time in microseconds.\<close>

definition stamp_of :: "int \<Rightarrow> rat" where
  "stamp_of us = fl (of_int us / 1000000)"

text \<open>
  \<open>strptime(s, '%Y-%m-%dT%H:%M:%SZ')\<close> in UTC, in seconds, for a string of the shape
  \<open>\d{4}-\d{2}-\d{2}T\d{2}:\d{2}:\d{2}Z\<close>; \<open>None\<close> is the \<open>ValueError\<close>. The digits are the
  ASCII ones.
\<close>

definition stamp_shape :: "string \<Rightarrow> bool" where
  "stamp_shape s =
     (length s = 20
      \<and> list_all (\<lambda>i. is_digit (s ! i)) [0, 1, 2, 3, 5, 6, 8, 9, 11, 12, 14, 15, 17, 18]
      \<and> s ! 4 = CHR ''-'' \<and> s ! 7 = CHR ''-'' \<and> s ! 10 = CHR ''T'' \<and> s ! 13 = CHR '':'' \<and> s ! 16 = CHR '':''
      \<and> s ! 19 = CHR ''Z'')"

definition stamp_field :: "string \<Rightarrow> nat \<Rightarrow> nat \<Rightarrow> int" where
  "stamp_field s i n = decimal (take n (drop i s))"

definition parse_stamp :: "string \<Rightarrow> int option" where
  "parse_stamp s =
     (let y = stamp_field s 0 4; m = stamp_field s 5 2; d = stamp_field s 8 2;
          h = stamp_field s 11 2; mi = stamp_field s 14 2; sec = stamp_field s 17 2
      in if valid_date y m d \<and> h < 24 \<and> mi < 60 \<and> sec < 60
         then Some (epoch_day y m d * 86400 + h * 3600 + mi * 60 + sec) else None)"

lemma parse_stamp_example: "parse_stamp ''2025-01-01T12:43:02Z'' = Some 1735735382"
  by code_simp

end
