(* ===== verification/CorePbsMonitor.thy ===== *)
theory CorePbsMonitor
  imports Delivery PyTime
begin

text \<open>
  \<open>scripts/core-pbs-monitor.py\<close>: the daily check of the encrypted container archives.
  \<open>inspect\<close> classifies the rows of the storage listing, \<open>record_observation\<close> keeps what was
  seen (or the cached points when the query failed), \<open>core_transition\<close> numbers the
  incidents, and \<open>core_run\<close> composes them with the writes and the mail. The listing, the
  clock and the mail server are parameters. Times are whole microseconds; the state file is a
  record whose optional fields are the keys that may be missing.
\<close>

abbreviation MonitorError :: "string \<Rightarrow> exn" where
  "MonitorError r \<equiv> AppError ''MonitorError'' r"

section \<open>Archive rows\<close>

definition CTIDS :: "int list" where
  "CTIDS = [1200, 1201, 1202, 1203, 1204]"

definition FINGERPRINT :: string where
  "FINGERPRINT = join_with '':'' (replicate 32 ''aa'')"

definition MANUAL :: "(int \<times> string) list" where
  "MANUAL =
     [(1200, ''pbs-example-core-read:backup/ct/1200/2025-01-01T12:43:02Z''),
      (1201, ''pbs-example-core-read:backup/ct/1201/2025-01-01T11:55:44Z''),
      (1202, ''pbs-example-core-read:backup/ct/1202/2025-01-01T12:46:30Z''),
      (1204, ''pbs-example-core-read:backup/ct/1204/2025-01-01T12:50:42Z'')]"

definition volid_prefix :: string where
  "volid_prefix = ''pbs-example-core-read:backup/ct/''"

text \<open>The container and the time stamp text of a volume identifier.\<close>

definition VOLID :: "string \<Rightarrow> (int \<times> string) option" where
  "VOLID s =
     (let rest = drop (length volid_prefix) s; ct = take 4 rest; st = drop 5 rest
      in if starts_with s volid_prefix \<and> ct \<in> set (map str_of_int CTIDS) \<and> take 1 (drop 4 rest) = ''/'' \<and> stamp_shape st
         then Some (decimal ct, st) else None)"

definition fetch_content :: "pyval res \<Rightarrow> pyval list res" where
  "fetch_content output =
     (case output of
        Inl e \<Rightarrow> Inl (if e \<in> {OSError, FileNotFoundError, SubprocessError, ValueError} then MonitorError ''QUERY'' else e)
      | Inr v \<Rightarrow> if is_list v then Inr (the_list v) else Inl (MonitorError ''NOT_A_LIST''))"

definition ctime_of :: "pyval \<Rightarrow> int" where
  "ctime_of row = the_int (get row ''ctime'')"

definition valid_row :: "int \<Rightarrow> pyval \<Rightarrow> int \<Rightarrow> bool" where
  "valid_row now row ctid =
     (case (if is_str (get row ''volid'') then VOLID (the_str (get row ''volid'')) else None) of
        None \<Rightarrow> False
      | Some (ct, st) \<Rightarrow>
          ct = ctid
          \<and> (case parse_stamp st of
               None \<Rightarrow> False
             | Some snapshot \<Rightarrow>
                 py_eq (PInt snapshot) (get row ''ctime'')
                 \<and> is_string (get row ''format'') ''pbs-ct'' \<and> is_string (get row ''subtype'') ''lxc''
                 \<and> is_string (get row ''content'') ''backup'' \<and> is_string (get row ''encrypted'') FINGERPRINT
                 \<and> is_int (get row ''size'') \<and> 0 < the_int (get row ''size'')
                 \<and> is_int (get row ''ctime'') \<and> of_int (ctime_of row) \<le> stamp_of now))"

text \<open>\<open>max(rows, key=ctime)\<close>: the first of the greatest.\<close>

fun newest :: "pyval list \<Rightarrow> pyval option" where
  "newest [] = None"
| "newest (r # rs) =
     (case newest rs of
        None \<Rightarrow> Some r
      | Some s \<Rightarrow> if ctime_of r < ctime_of s then Some s else Some r)"

section \<open>Inspection\<close>

text \<open>The local day at UTC+9, and a time of that day as microseconds of the epoch.\<close>

definition day_us :: int where "day_us = 86400000000"

definition kst_us :: int where "kst_us = 32400000000"

definition kst_day :: "int \<Rightarrow> int" where
  "kst_day us = (us + kst_us) div day_us"

definition kst_time :: "int \<Rightarrow> int \<Rightarrow> int" where
  "kst_time day us = day * day_us + us - kst_us"

definition window_of :: "int \<Rightarrow> rat" where
  "window_of now = stamp_of (kst_time (kst_day now) ((3 * 60 + 17) * 60 * 1000000))"

type_synonym core_point = "(int \<times> string \<times> rat) option"

datatype core_fault =
    BaselineMissing int
  | ArchiveMissing int
  | ArchiveInvalid int
  | ArchiveStale int

datatype core_verdict = CoreHealthy | CorePending | CoreFailed

datatype core_reason = Faults "core_fault list" | AllPresent | QueryUnavailable

record core_report =
  ir_status :: core_verdict
  ir_date :: int
  ir_reason :: core_reason
  ir_latest :: "(int \<times> int) list"
  ir_points :: "(int \<times> core_point) list"
  ir_observed :: rat
  ir_query_ok :: bool
  ir_inventory :: "rat option"
  ir_evidence :: string

definition rows_of :: "pyval list \<Rightarrow> int \<Rightarrow> pyval list" where
  "rows_of content ctid = filter (\<lambda>row. is_dict row \<and> py_eq (PInt ctid) (get row ''vmid'')) content"

definition last_valid_point :: "int \<Rightarrow> pyval list \<Rightarrow> int \<Rightarrow> core_point" where
  "last_valid_point now content ctid =
     (case newest (filter (\<lambda>row. valid_row now row ctid) (rows_of content ctid)) of
        None \<Rightarrow> None
      | Some p \<Rightarrow> Some (ctime_of p, the_str (get p ''volid''), fsub (stamp_of now) (of_int (ctime_of p))))"

definition baseline_fault :: "int \<Rightarrow> pyval list \<Rightarrow> int \<Rightarrow> core_fault list" where
  "baseline_fault now content ctid =
     (case map_of MANUAL ctid of
        None \<Rightarrow> []
      | Some manual \<Rightarrow>
          if list_ex (\<lambda>row. is_string (get row ''volid'') manual \<and> py_eq (PInt 1) (get row ''protected'')
                            \<and> valid_row now row ctid) (rows_of content ctid)
          then [] else [BaselineMissing ctid])"

text \<open>The scheduled archives of a container: all but the manual one.\<close>

definition scheduled_rows :: "pyval list \<Rightarrow> int \<Rightarrow> pyval list" where
  "scheduled_rows content ctid =
     filter (\<lambda>row. (case map_of MANUAL ctid of None \<Rightarrow> True | Some manual \<Rightarrow> \<not> is_string (get row ''volid'') manual)
                   \<and> is_int (get row ''ctime'')) (rows_of content ctid)"

definition scheduled_check :: "int \<Rightarrow> pyval list \<Rightarrow> int \<Rightarrow> core_fault + int" where
  "scheduled_check now content ctid =
     (case newest (scheduled_rows content ctid) of
        None \<Rightarrow> Inl (ArchiveMissing ctid)
      | Some row \<Rightarrow>
          if \<not> valid_row now row ctid then Inl (ArchiveInvalid ctid)
          else if of_int (ctime_of row) < window_of now then Inl (ArchiveStale ctid)
          else Inr (ctime_of row))"

definition scheduled_checks :: "int \<Rightarrow> pyval list \<Rightarrow> int \<Rightarrow> (int \<times> (core_fault + int)) list" where
  "scheduled_checks now content first_due =
     (if kst_day now < first_due then [] else map (\<lambda>ctid. (ctid, scheduled_check now content ctid)) CTIDS)"

definition faults_of :: "(int \<times> (core_fault + int)) list \<Rightarrow> core_fault list" where
  "faults_of checks = concat (map (\<lambda>(_, c). case c of Inl f \<Rightarrow> [f] | Inr _ \<Rightarrow> []) checks)"

definition latest_of :: "(int \<times> (core_fault + int)) list \<Rightarrow> (int \<times> int) list" where
  "latest_of checks = concat (map (\<lambda>(ctid, c). case c of Inl _ \<Rightarrow> [] | Inr t \<Rightarrow> [(ctid, t)]) checks)"

definition inspect :: "pyval list \<Rightarrow> int \<Rightarrow> int \<Rightarrow> int \<Rightarrow> core_report" where
  "inspect content now deadline first_due =
     (let baseline = concat (map (baseline_fault now content) CTIDS);
          checks = scheduled_checks now content first_due;
          failures = faults_of checks;
          status = (if baseline \<noteq> [] \<or> failures \<noteq> [] \<and> kst_time (kst_day now) deadline \<le> now then CoreFailed
                    else if failures \<noteq> [] then CorePending else CoreHealthy);
          reasons = baseline @ failures
      in \<lparr>ir_status = status, ir_date = kst_day now,
          ir_reason = (if reasons \<noteq> [] then Faults reasons else AllPresent),
          ir_latest = latest_of checks,
          ir_points = map (\<lambda>ctid. (ctid, last_valid_point now content ctid)) CTIDS,
          ir_observed = stamp_of now, ir_query_ok = True, ir_inventory = Some (stamp_of now),
          ir_evidence = ''OBSERVED''\<rparr>)"

text \<open>The report of a run whose query failed, before the observation is recorded.\<close>

definition unavailable_report :: "int \<Rightarrow> core_report" where
  "unavailable_report now =
     \<lparr>ir_status = CoreFailed, ir_date = kst_day now, ir_reason = QueryUnavailable, ir_latest = [], ir_points = [],
      ir_observed = stamp_of now, ir_query_ok = False, ir_inventory = None, ir_evidence = ''UNAVAILABLE''\<rparr>"

section \<open>State\<close>

datatype core_event = EvBaseline | EvFailed | EvRecovered

datatype core_delivery = DBaseline | DAttempted | DSent | DNotSent | DUncertain | DExhausted

record core_incident =
  ci_sequence :: "int option"
  ci_legacy :: bool
  ci_first :: "core_report option"
  ci_recovery :: "core_report option"

record core_note =
  cn_status :: core_verdict
  cn_sequence :: "int option"
  cn_event :: "core_event option"
  cn_delivery :: "core_delivery option"
  cn_attempts :: "nat option"
  cn_retry_after :: "rat option"
  cn_report :: "core_report option"

record core_state =
  st_schema :: "int option"
  st_legacy_report :: "core_report option"
  st_observation :: "core_report option"
  st_status :: "core_verdict option"
  st_sequence :: "int option"
  st_event :: "core_event option"
  st_delivery :: "core_delivery option"
  st_attempts :: "nat option"
  st_retry_after :: "rat option"
  st_report :: "core_report option"
  st_incident :: "core_incident option"
  st_previous :: "core_note option"
  st_last_check :: "rat option"

definition empty_core_state :: core_state where
  "empty_core_state =
     \<lparr>st_schema = None, st_legacy_report = None, st_observation = None, st_status = None, st_sequence = None,
      st_event = None, st_delivery = None, st_attempts = None, st_retry_after = None, st_report = None,
      st_incident = None, st_previous = None, st_last_check = None\<rparr>"

definition cached_point :: "(int \<times> core_point) list \<Rightarrow> rat \<Rightarrow> int \<Rightarrow> core_point" where
  "cached_point cached now ctid =
     (case map_of cached ctid of
        Some (Some (ctime, volid, _)) \<Rightarrow>
          if 0 \<le> ctime \<and> of_int ctime \<le> now then Some (ctime, volid, fsub now (of_int ctime)) else None
      | _ \<Rightarrow> None)"

definition cached_report :: "core_state \<Rightarrow> core_report \<Rightarrow> rat \<Rightarrow> core_report" where
  "cached_report s report now =
     (let inventory = (case st_observation s of
                         None \<Rightarrow> None
                       | Some p \<Rightarrow> (case ir_inventory p of
                                     None \<Rightarrow> None
                                   | Some i \<Rightarrow> if 0 \<le> i \<and> i \<le> now then Some i else None));
          cached = (case inventory of None \<Rightarrow> []
                    | Some _ \<Rightarrow> (case st_observation s of None \<Rightarrow> [] | Some p \<Rightarrow> ir_points p))
      in report\<lparr>ir_observed := now, ir_query_ok := False, ir_inventory := inventory,
                ir_evidence := (if inventory = None then ''UNAVAILABLE'' else ''CACHED''),
                ir_points := map (\<lambda>ctid. (ctid, cached_point cached now ctid)) CTIDS\<rparr>)"

definition adopt_legacy :: "core_state \<Rightarrow> core_state" where
  "adopt_legacy s =
     (if st_schema s = None \<and> st_report s \<noteq> None
      then s\<lparr>st_legacy_report := (if st_legacy_report s = None then st_report s else st_legacy_report s),
             st_incident := (if st_status s = Some CoreFailed \<and> st_incident s = None
                             then Some \<lparr>ci_sequence = st_sequence s, ci_legacy = True, ci_first = None, ci_recovery = None\<rparr>
                             else st_incident s)\<rparr>
      else s)"

definition record_observation ::
  "core_state \<Rightarrow> core_report \<Rightarrow> rat \<Rightarrow> bool \<Rightarrow> (core_state \<times> core_report) res" where
  "record_observation s report now query_ok =
     (if st_schema s \<notin> {None, Some 1} then Inl (MonitorError ''SCHEMA'')
      else
        let s1 = adopt_legacy s;
            r = (if query_ok
                 then report\<lparr>ir_observed := now, ir_query_ok := True, ir_inventory := Some now, ir_evidence := ''OBSERVED''\<rparr>
                 else cached_report s1 report now)
        in Inr (s1\<lparr>st_schema := Some 1, st_observation := Some r\<rparr>, r))"

section \<open>Transitions and runs\<close>

text \<open>\<open>None\<close> is \<open>UNCHANGED\<close>.\<close>

definition core_transition :: "core_state \<Rightarrow> core_report \<Rightarrow> core_state \<times> core_event option" where
  "core_transition s report =
     (if st_status s = Some (ir_status report) then (s, None)
      else
        let n = (case st_sequence s of None \<Rightarrow> 0 | Some i \<Rightarrow> i) + 1;
            event = (if st_status s = None \<and> ir_status report = CoreHealthy then EvBaseline
                     else if ir_status report = CoreFailed then EvFailed else EvRecovered);
            note = (case st_status s of
                      None \<Rightarrow> st_previous s
                    | Some st \<Rightarrow>
                        Some \<lparr>cn_status = st, cn_sequence = st_sequence s, cn_event = st_event s,
                              cn_delivery = st_delivery s, cn_attempts = st_attempts s,
                              cn_retry_after = st_retry_after s, cn_report = st_report s\<rparr>);
            incident = (if event = EvFailed
                        then Some \<lparr>ci_sequence = Some n, ci_legacy = False, ci_first = Some report, ci_recovery = None\<rparr>
                        else if event = EvRecovered
                        then (case st_incident s of None \<Rightarrow> None | Some i \<Rightarrow> Some (i\<lparr>ci_recovery := Some report\<rparr>))
                        else st_incident s)
        in (s\<lparr>st_status := Some (ir_status report), st_sequence := Some n, st_event := Some event,
              st_delivery := Some (if event = EvBaseline then DBaseline else DAttempted), st_attempts := Some 0,
              st_report := Some report, st_previous := note, st_incident := incident\<rparr>, Some event))"

datatype core_mail = CmSent | CmNotSent | CmUncertain | CmCrashed

text \<open>
  \<open>settings\<close> and \<open>send_mail\<close>: what the settings must hold, and how the faults of the exchange
  are told apart. \<open>private\<close> reads a protected file.
\<close>

definition core_text_ok :: "pyval \<Rightarrow> bool" where
  "core_text_ok v = (is_str v \<and> the_str v \<noteq> [] \<and> CHR 0x0D \<notin> set (the_str v) \<and> CHR 0x0A \<notin> set (the_str v))"

definition core_settings :: "pyval res \<Rightarrow> (path \<Rightarrow> string res) \<Rightarrow> string res" where
  "core_settings file private =
     (case file of
        Inl e \<Rightarrow> Inl (if e \<in> {OSError, FileNotFoundError, ValueError} then MonitorError ''UNAVAILABLE'' else e)
      | Inr v \<Rightarrow>
          bindR (check (is_dict v) (MonitorError ''OBJECT'')) (\<lambda>_.
          bindR (check (get v ''enabled'' = PBool True \<and> in_tuple (get v ''tls_mode'') [''starttls'', ''tls''])
                       (MonitorError ''TRANSPORT'')) (\<lambda>_.
          bindR (check (list_all (\<lambda>k. core_text_ok (get v k))
                          [''host'', ''username'', ''sender'', ''recipient'', ''password_file'']) (MonitorError ''FIELD'')) (\<lambda>_.
          bindR (check (mail_address (the_str (get v ''sender'')) \<and> mail_address (the_str (get v ''recipient'')))
                       (MonitorError ''ADDRESS'')) (\<lambda>_.
          bindR (check (is_int (get v ''port'') \<and> 1 \<le> the_int (get v ''port'') \<and> the_int (get v ''port'') \<le> 65535)
                       (MonitorError ''PORT'')) (\<lambda>_.
          bindR (check (is_absolute (the_str (get v ''password_file'')) \<and> \<not> has_dotdot (the_str (get v ''password_file'')))
                       (MonitorError ''PASSWORD_PATH'')) (\<lambda>_.
          bindR (private (path_of (the_str (get v ''password_file'')))) (\<lambda>raw.
          Inr (rev (dropWhile (\<lambda>c. c = CHR 0x0A) (rev raw)))))))))))"

fun core_settings_caught :: "exn \<Rightarrow> bool" where
  "core_settings_caught (AppError c r) = (c = ''MonitorError'')"
| "core_settings_caught OSError = True"
| "core_settings_caught FileNotFoundError = True"
| "core_settings_caught ValueError = True"
| "core_settings_caught _ = False"

definition core_send ::
  "pyval res \<Rightarrow> (path \<Rightarrow> string res) \<Rightarrow> smtp_fault option \<Rightarrow> smtp_fault option \<Rightarrow> core_mail" where
  "core_send file private connect submit =
     (case core_settings file private of
        Inl e \<Rightarrow> if core_settings_caught e then CmNotSent else CmCrashed
      | Inr _ \<Rightarrow>
          (case connect of
             Some f \<Rightarrow> if f = OtherFault then CmCrashed else CmNotSent
           | None \<Rightarrow>
               (case submit of
                  None \<Rightarrow> CmSent
                | Some f \<Rightarrow>
                    if f \<in> {RecipientsRefused, SenderRefused, DataError} then CmNotSent
                    else if f = OtherFault then CmCrashed else CmUncertain)))"

record core_env =
  ke_now :: int
  ke_content :: "pyval list res"
  ke_deadline :: int
  ke_first_due :: int
  ke_mail :: core_mail

datatype core_outcome = CoUnchanged | CoPending | CoRetryPending | CoEvent core_event

type_synonym core_alert = "core_event \<times> int"

text \<open>A failed query is a report of its own; another exception of the query ends the run.\<close>

definition core_observe :: "core_env \<Rightarrow> (core_report \<times> bool) res" where
  "core_observe env =
     (case ke_content env of
        Inr content \<Rightarrow> Inr (inspect content (ke_now env) (ke_deadline env) (ke_first_due env), True)
      | Inl (AppError _ _) \<Rightarrow> Inr (unavailable_report (ke_now env), False)
      | Inl e \<Rightarrow> Inl e)"

definition core_retry_due :: "core_state \<Rightarrow> rat \<Rightarrow> bool" where
  "core_retry_due s now =
     (st_delivery s = Some DNotSent
      \<and> (case st_attempts s of None \<Rightarrow> False | Some a \<Rightarrow> a < 3)
      \<and> (case st_retry_after s of None \<Rightarrow> 0 | Some r \<Rightarrow> r) \<le> now)"

text \<open>The state before the attempt is written: the attempt is counted and \<open>retry_after\<close> removed.\<close>

definition core_attempt :: "core_state \<Rightarrow> core_state" where
  "core_attempt s =
     s\<lparr>st_attempts := Some ((case st_attempts s of None \<Rightarrow> 0 | Some a \<Rightarrow> a) + 1), st_delivery := Some DAttempted,
       st_retry_after := None\<rparr>"

definition core_after_mail :: "core_state \<Rightarrow> rat \<Rightarrow> core_mail \<Rightarrow> core_state" where
  "core_after_mail s now a =
     (let n = (case st_attempts s of None \<Rightarrow> 0 | Some k \<Rightarrow> k)
      in case a of
           CmSent \<Rightarrow> s\<lparr>st_delivery := Some DSent\<rparr>
         | CmNotSent \<Rightarrow>
             if 3 \<le> n then s\<lparr>st_delivery := Some DExhausted\<rparr>
             else s\<lparr>st_delivery := Some DNotSent, st_retry_after := Some (fadd now (if n = 1 then 60 else 300))\<rparr>
         | CmUncertain \<Rightarrow> s\<lparr>st_delivery := Some DUncertain\<rparr>
         | CmCrashed \<Rightarrow> s)"

definition core_mail_result :: "core_mail \<Rightarrow> core_report \<Rightarrow> core_event \<Rightarrow> (core_report \<times> core_outcome) res" where
  "core_mail_result a report event =
     (case a of
        CmSent \<Rightarrow> Inr (report, CoEvent event)
      | CmNotSent \<Rightarrow> Inl (AppError ''MailNotSent'' [])
      | CmUncertain \<Rightarrow> Inl (AppError ''MailUncertain'' [])
      | CmCrashed \<Rightarrow> Inl ValueError)"

definition core_deliver ::
  "core_state \<Rightarrow> core_report \<Rightarrow> core_event \<Rightarrow> core_env \<Rightarrow>
   (core_state, core_alert) effect list \<times> (core_report \<times> core_outcome) res" where
  "core_deliver s report event env =
     (let now = stamp_of (ke_now env); t = s\<lparr>st_last_check := Some now\<rparr>
      in if event = EvBaseline then ([Persist t], Inr (report, CoEvent event))
         else
           let u = core_attempt t
           in (Persist u # Send (event, case st_sequence u of None \<Rightarrow> 0 | Some i \<Rightarrow> i)
                 # (if ke_mail env = CmCrashed then [] else [Persist (core_after_mail u now (ke_mail env))]),
               core_mail_result (ke_mail env) report event))"

definition core_decide ::
  "core_state \<Rightarrow> core_report \<Rightarrow> core_env \<Rightarrow>
   (core_state, core_alert) effect list \<times> (core_report \<times> core_outcome) res" where
  "core_decide s report env =
     (let now = stamp_of (ke_now env)
      in if ir_status report = CorePending
         then ([Persist (s\<lparr>st_last_check := Some now\<rparr>)], Inr (report, CoPending))
         else
           (case core_transition s report of
              (u, Some event) \<Rightarrow> core_deliver u report event env
            | (_, None) \<Rightarrow>
                if core_retry_due s now
                then (case st_event s of
                        None \<Rightarrow> ([], Inl KeyError)
                      | Some event \<Rightarrow> core_deliver (s\<lparr>st_report := Some report\<rparr>) report event env)
                else ([Persist (s\<lparr>st_last_check := Some now\<rparr>)],
                      Inr (report, if st_delivery s = Some DNotSent then CoRetryPending else CoUnchanged))))"

definition core_run ::
  "core_state \<Rightarrow> core_env \<Rightarrow> (core_state, core_alert) effect list \<times> (core_report \<times> core_outcome) res" where
  "core_run s env =
     (let now = stamp_of (ke_now env)
      in if fadd now 1 < (case st_last_check s of None \<Rightarrow> 0 | Some t \<Rightarrow> t)
         then ([], Inl (MonitorError ''CLOCK''))
         else
           case bindR (core_observe env) (\<lambda>(report, ok). record_observation s report now ok) of
             Inl e \<Rightarrow> ([], Inl e)
           | Inr (s1, report) \<Rightarrow> core_decide s1 report env)"

definition core_exit :: "(core_report \<times> core_outcome) res \<Rightarrow> int" where
  "core_exit r =
     (case r of
        Inl e \<Rightarrow> (case e of AppError _ _ \<Rightarrow> 2 | OSError \<Rightarrow> 2 | FileNotFoundError \<Rightarrow> 2 | ValueError \<Rightarrow> 2 | _ \<Rightarrow> 1)
      | Inr (report, _) \<Rightarrow> if ir_status report = CoreFailed then 1 else 0)"

section \<open>Bounded delivery\<close>

definition core_seq :: "core_state \<Rightarrow> int" where
  "core_seq s = (case st_sequence s of None \<Rightarrow> 0 | Some i \<Rightarrow> i)"

definition core_attempts :: "core_state \<Rightarrow> nat" where
  "core_attempts s = (case st_attempts s of None \<Rightarrow> 0 | Some a \<Rightarrow> a)"

fun core_budget :: "core_state \<Rightarrow> core_alert \<Rightarrow> nat" where
  "core_budget s (event, n) =
     (if core_seq s < n then 3
      else if core_seq s = n \<and> st_delivery s = Some DNotSent \<and> st_event s = Some event then 3 - core_attempts s else 0)"

abbreviation core_lawful :: "core_state \<Rightarrow> (core_state, core_alert) effect list \<Rightarrow> bool" where
  "core_lawful \<equiv> lawful (\<lambda>_. True) core_budget"

lemma core_budget_cong:
  "core_seq s = core_seq t \<Longrightarrow> st_delivery s = st_delivery t \<Longrightarrow> st_event s = st_event t
    \<Longrightarrow> core_attempts s = core_attempts t \<Longrightarrow> core_budget s k = core_budget t k"
  by (cases k) simp

lemma core_attempt_fields [simp]:
  "core_seq (core_attempt s) = core_seq s" "st_delivery (core_attempt s) = Some DAttempted"
  "st_event (core_attempt s) = st_event s" "core_attempts (core_attempt s) = core_attempts s + 1"
  "st_sequence (core_attempt s) = st_sequence s"
  by (simp_all add: core_attempt_def core_seq_def core_attempts_def)

lemma core_after_mail_fields [simp]:
  "core_seq (core_after_mail s now a) = core_seq s" "st_event (core_after_mail s now a) = st_event s"
  "core_attempts (core_after_mail s now a) = core_attempts s"
  by (cases a; simp add: core_after_mail_def core_seq_def core_attempts_def Let_def)+

lemma core_after_mail_refused:
  "st_delivery s = Some DAttempted \<Longrightarrow>
     st_delivery (core_after_mail s now a) = Some DNotSent \<longleftrightarrow> a = CmNotSent \<and> core_attempts s \<le> 2"
  by (cases a) (auto simp: core_after_mail_def core_attempts_def Let_def)

lemma core_deliver_lawful:
  assumes ev: "st_event s = Some event" and a: "core_attempts s \<le> 2"
    and b: "event \<noteq> EvBaseline \<Longrightarrow> core_budget s0 (event, core_seq s) = 3 - core_attempts s"
    and newer: "core_seq s0 \<le> core_seq s"
    and quiet: "event = EvBaseline \<Longrightarrow> st_delivery s \<noteq> Some DNotSent"
  shows "core_lawful s0 (fst (core_deliver s report event env))"
proof (cases "event = EvBaseline")
  case True
  let ?t = "s\<lparr>st_last_check := Some (stamp_of (ke_now env))\<rparr>"
  have "core_budget ?t k \<le> core_budget s0 k" for k
    using quiet [OF True] newer by (cases k) (auto simp: core_seq_def)
  then show ?thesis by (simp add: core_deliver_def True lawful_Persist)
next
  case False
  define u where "u = core_attempt (s\<lparr>st_last_check := Some (stamp_of (ke_now env))\<rparr>)"
  define w where "w = core_after_mail u (stamp_of (ke_now env)) (ke_mail env)"
  have u: "core_seq u = core_seq s" "st_delivery u = Some DAttempted" "st_event u = Some event"
    "core_attempts u = core_attempts s + 1"
    by (simp_all add: u_def ev) (simp_all add: core_seq_def core_attempts_def)
  have "core_lawful s0 [Persist u, Send (event, core_seq u), Persist w]"
  proof (rule lawful_attempt)
    show "1 \<le> core_budget s0 (event, core_seq u)" using b [OF False] a by (simp add: u(1))
    show "core_budget u k \<le> core_budget s0 k" for k using newer by (cases k) (auto simp: u)
    have w: "core_seq w = core_seq s" "st_event w = Some event" "core_attempts w = core_attempts s + 1"
      by (simp_all add: w_def u)
    show "core_budget w k + (if (event, core_seq u) = k then 1 else 0) \<le> core_budget s0 k" for k
    proof (cases "k = (event, core_seq s)")
      case True
      have "core_budget w k \<le> 2 - core_attempts s" by (simp add: True w)
      then show ?thesis using b [OF False] a by (simp add: True u(1))
    next
      case other: False
      then show ?thesis using newer by (cases k) (auto simp: w u(1))
    qed
  qed (simp_all add: u)
  moreover have "fst (core_deliver s report event env) =
      Persist u # Send (event, core_seq u) # (if ke_mail env = CmCrashed then [] else [Persist w])"
    by (simp add: core_deliver_def False Let_def u_def w_def core_seq_def)
  ultimately show ?thesis using lawful_prefix [of "\<lambda>_. True" core_budget s0 "[_, _]" "[_]"] by simp
qed

lemma core_transition_event:
  assumes "core_transition s report = (u, Some event)"
  shows "core_seq u = core_seq s + 1" "core_attempts u = 0" "st_event u = Some event"
    "st_delivery u = Some (if event = EvBaseline then DBaseline else DAttempted)"
  using assms by (auto simp: core_transition_def core_seq_def core_attempts_def Let_def split: if_splits)

lemma core_transition_None: "core_transition s report = (u, None) \<Longrightarrow> u = s"
  by (auto simp: core_transition_def Let_def split: if_splits)

lemma core_decide_lawful: "core_lawful s (fst (core_decide s report env))"
proof -
  have quiet: "core_lawful s [Persist (s\<lparr>st_last_check := t\<rparr>)]" for t
    by (rule lawful_Persist) (auto intro!: eq_refl core_budget_cong simp: core_seq_def core_attempts_def)
  show ?thesis
  proof (cases "ir_status report = CorePending")
    case True
    then show ?thesis using quiet by (simp add: core_decide_def Let_def)
  next
    case False
    obtain u ev where t: "core_transition s report = (u, ev)" by (cases "core_transition s report")
    show ?thesis
    proof (cases ev)
      case (Some event)
      note f = core_transition_event [OF t [unfolded Some]]
      have "core_lawful s (fst (core_deliver u report event env))"
        by (rule core_deliver_lawful) (use f in simp_all)
      then show ?thesis using False t Some by (simp add: core_decide_def Let_def)
    next
      case None
      show ?thesis
      proof (cases "core_retry_due s (stamp_of (ke_now env)) \<and> st_event s \<noteq> None")
        case due: True
        then obtain event where e: "st_event s = Some event" by auto
        have d: "st_delivery s = Some DNotSent" "core_attempts s \<le> 2"
          using due by (auto simp: core_retry_due_def core_attempts_def split: option.splits)
        let ?s = "s\<lparr>st_report := Some report\<rparr>"
        have f: "core_seq ?s = core_seq s" "core_attempts ?s = core_attempts s" "st_event ?s = Some event"
          using e by (simp_all add: core_seq_def core_attempts_def)
        have "core_lawful s (fst (core_deliver ?s report event env))" if "event \<noteq> EvBaseline"
          by (rule core_deliver_lawful) (use f d e that in simp_all)
        moreover have "core_lawful s (fst (core_deliver ?s report event env))" if "event = EvBaseline"
          using that e d f
          by (auto simp: core_deliver_def core_seq_def core_attempts_def intro!: lawful_Persist eq_refl core_budget_cong)
        ultimately show ?thesis using False t None due e by (auto simp: core_decide_def Let_def)
      next
        case idle: False
        then show ?thesis using False t None quiet
          by (auto simp: core_decide_def Let_def split: option.split)
      qed
    qed
  qed
qed

lemma record_observation_fields:
  assumes "record_observation s report now ok = Inr (t, r)"
  shows "core_budget t k = core_budget s k"
  using assms
  by (intro core_budget_cong)
     (auto simp: record_observation_def adopt_legacy_def core_seq_def core_attempts_def Let_def split: if_splits)

lemma core_run_lawful: "core_lawful s (fst (core_run s env))"
proof -
  have "core_lawful s (fst (core_decide t r env))" if "record_observation s report now ok = Inr (t, r)" for report now ok t r
    by (rule lawful_start [OF core_decide_lawful [of t r env]]) (simp_all add: record_observation_fields [OF that])
  then show ?thesis
    by (auto simp: core_run_def Let_def split: sum.split)
qed

interpretation core_mail: accounted "\<lambda>s env. fst (core_run s env)" "\<lambda>_. True" core_budget
  by unfold_locales (rule core_run_lawful)

section \<open>Properties\<close>

lemma core_budget_le: "core_budget s k \<le> 3"
  by (cases k) auto

text \<open>Over any history of core monitor runs and crashes, from any state file, one alert
  (event and sequence number) is mailed at most three times.\<close>

theorem core_alert_at_most_three_times:
  "sends k (runs (\<lambda>s env. fst (core_run s env)) s rs) \<le> 3"
  using core_mail.sends_runs [of k s rs] core_budget_le [of s k] by simp

lemma newest_greatest: "newest rs = Some r \<Longrightarrow> r \<in> set rs \<and> (\<forall>x\<in>set rs. ctime_of x \<le> ctime_of r)"
proof (induction rs arbitrary: r)
  case (Cons x xs)
  show ?case
  proof (cases "newest xs")
    case None
    then show ?thesis using Cons.prems by (cases xs) (auto split: option.splits if_splits)
  next
    case (Some y)
    from Cons.IH [OF Some] Cons.prems show ?thesis by (fastforce simp: Some split: if_splits)
  qed
qed simp

lemma valid_row_facts:
  assumes "valid_row now row ctid"
  shows "\<exists>s st. get row ''volid'' = PStr s \<and> VOLID s = Some (ctid, st) \<and> parse_stamp st = Some (ctime_of row)"
    and "is_int (get row ''ctime'') \<and> of_int (ctime_of row) \<le> stamp_of now"
    and "is_string (get row ''encrypted'') FINGERPRINT \<and> 0 < the_int (get row ''size'')"
proof -
  from assms show "is_int (get row ''ctime'') \<and> of_int (ctime_of row) \<le> stamp_of now"
    "is_string (get row ''encrypted'') FINGERPRINT \<and> 0 < the_int (get row ''size'')"
    by (auto simp: valid_row_def split: option.splits prod.splits)
  from assms obtain ct st snap where v: "is_str (get row ''volid'')" "VOLID (the_str (get row ''volid'')) = Some (ctid, st)"
    "parse_stamp st = Some snap" "py_eq (PInt snap) (get row ''ctime'')" "is_int (get row ''ctime'')"
    by (auto simp: valid_row_def split: option.splits prod.splits if_splits)
  from v(1) obtain s where "get row ''volid'' = PStr s" by (cases "get row ''volid''") auto
  moreover have "snap = ctime_of row" using v(4,5) by (cases "get row ''ctime''") (auto simp: ctime_of_def)
  ultimately show "\<exists>s st. get row ''volid'' = PStr s \<and> VOLID s = Some (ctid, st) \<and> parse_stamp st = Some (ctime_of row)"
    using v by auto
qed

lemma healthy_scheduled:
  assumes "ir_status (inspect content now deadline first_due) = CoreHealthy" "first_due \<le> kst_day now" "ctid \<in> set CTIDS"
  obtains row where "newest (scheduled_rows content ctid) = Some row" "valid_row now row ctid"
    "window_of now \<le> of_int (ctime_of row)"
proof -
  have "faults_of (scheduled_checks now content first_due) = []"
    using assms(1) by (auto simp: inspect_def Let_def split: if_splits)
  moreover have "(ctid, scheduled_check now content ctid) \<in> set (scheduled_checks now content first_due)"
    using assms(2,3) by (auto simp: scheduled_checks_def)
  ultimately obtain t where "scheduled_check now content ctid = Inr t"
    by (fastforce simp: faults_of_def split: sum.splits)
  then show ?thesis using that by (auto simp: scheduled_check_def split: option.splits if_splits)
qed

text \<open>A \<open>HEALTHY\<close> verdict is backed by archives: once the schedule is due, every container has
  an archive other than the manual one, the newest of its container, that the volume identifier
  dates by the same time, encrypted with the expected key, not empty, taken since the day's
  window began and not in the future; and every protected manual archive is still listed.\<close>

theorem healthy_core_is_backed:
  assumes "ir_status (inspect content now deadline first_due) = CoreHealthy"
  shows "(first_due \<le> kst_day now \<longrightarrow> (\<forall>ctid\<in>set CTIDS. \<exists>row\<in>set content. \<exists>s st.
            py_eq (PInt ctid) (get row ''vmid'') \<and> get row ''volid'' = PStr s \<and> map_of MANUAL ctid \<noteq> Some s
            \<and> VOLID s = Some (ctid, st) \<and> parse_stamp st = Some (ctime_of row)
            \<and> (\<forall>other\<in>set (scheduled_rows content ctid). ctime_of other \<le> ctime_of row)
            \<and> is_string (get row ''encrypted'') FINGERPRINT \<and> 0 < the_int (get row ''size'')
            \<and> window_of now \<le> of_int (ctime_of row) \<and> of_int (ctime_of row) \<le> stamp_of now))
     \<and> (\<forall>(ctid, manual)\<in>set MANUAL. \<exists>row\<in>set content.
            is_string (get row ''volid'') manual \<and> py_eq (PInt 1) (get row ''protected'') \<and> valid_row now row ctid)"
proof (intro conjI impI ballI)
  fix ctid assume due: "first_due \<le> kst_day now" and c: "ctid \<in> set CTIDS"
  obtain row where r: "newest (scheduled_rows content ctid) = Some row" "valid_row now row ctid"
    "window_of now \<le> of_int (ctime_of row)"
    using healthy_scheduled [OF assms due c] .
  have m: "row \<in> set (scheduled_rows content ctid)" "\<forall>x\<in>set (scheduled_rows content ctid). ctime_of x \<le> ctime_of row"
    using newest_greatest [OF r(1)] by blast+
  obtain s stamp where v: "get row ''volid'' = PStr s" "VOLID s = Some (ctid, stamp)" "parse_stamp stamp = Some (ctime_of row)"
    using valid_row_facts(1) [OF r(2)] by blast
  have "map_of MANUAL ctid \<noteq> Some s" "row \<in> set content" "py_eq (PInt ctid) (get row ''vmid'')"
    using m(1) v(1) by (auto simp: scheduled_rows_def rows_of_def is_string_def split: option.splits)
  then show "\<exists>row\<in>set content. \<exists>s st.
            py_eq (PInt ctid) (get row ''vmid'') \<and> get row ''volid'' = PStr s \<and> map_of MANUAL ctid \<noteq> Some s
            \<and> VOLID s = Some (ctid, st) \<and> parse_stamp st = Some (ctime_of row)
            \<and> (\<forall>other\<in>set (scheduled_rows content ctid). ctime_of other \<le> ctime_of row)
            \<and> is_string (get row ''encrypted'') FINGERPRINT \<and> 0 < the_int (get row ''size'')
            \<and> window_of now \<le> of_int (ctime_of row) \<and> of_int (ctime_of row) \<le> stamp_of now"
    using v m(2) r(3) valid_row_facts(2,3) [OF r(2)] by blast
next
  have st: "concat (map (baseline_fault now content) CTIDS) = []"
    using assms by (auto simp: inspect_def Let_def split: if_splits)
  fix e assume e: "e \<in> set MANUAL"
  obtain ctid manual where em: "e = (ctid, manual)" by (cases e)
  have "ctid \<in> set CTIDS" "map_of MANUAL ctid = Some manual"
    using e by (auto simp: em MANUAL_def CTIDS_def)
  with st have "baseline_fault now content ctid = []" by auto
  then show "case e of (ctid, manual) \<Rightarrow> \<exists>row\<in>set content.
            is_string (get row ''volid'') manual \<and> py_eq (PInt 1) (get row ''protected'') \<and> valid_row now row ctid"
    using \<open>map_of MANUAL ctid = Some manual\<close>
    by (auto simp: em baseline_fault_def list_ex_iff rows_of_def split: if_splits)
qed

definition sample_row :: "int \<Rightarrow> string \<Rightarrow> int \<Rightarrow> pyval" where
  "sample_row ctid stamp ctime =
     PDict [(''vmid'', PInt ctid), (''volid'', PStr (volid_prefix @ str_of_int ctid @ ''/'' @ stamp)), (''ctime'', PInt ctime),
            (''format'', PStr ''pbs-ct''), (''subtype'', PStr ''lxc''), (''content'', PStr ''backup''),
            (''encrypted'', PStr FINGERPRINT), (''size'', PInt 1), (''protected'', PInt 1)]"

definition sample_listing :: "pyval list" where
  "sample_listing =
     [sample_row 1200 ''2025-01-01T12:43:02Z'' 1735735382, sample_row 1201 ''2025-01-01T11:55:44Z'' 1735732544,
      sample_row 1202 ''2025-01-01T12:46:30Z'' 1735735590, sample_row 1204 ''2025-01-01T12:50:42Z'' 1735735842,
      sample_row 1200 ''2025-01-02T18:30:00Z'' 1735842600, sample_row 1201 ''2025-01-02T18:30:00Z'' 1735842600,
      sample_row 1202 ''2025-01-02T18:30:00Z'' 1735842600, sample_row 1203 ''2025-01-02T18:30:00Z'' 1735842600,
      sample_row 1204 ''2025-01-02T18:30:00Z'' 1735842600]"

lemma str_of_ctid: "map str_of_int CTIDS = [''1200'', ''1201'', ''1202'', ''1203'', ''1204'']"
  by code_simp

lemma VOLID_sample:
  assumes "ctid \<in> set CTIDS" "stamp_shape stamp"
  shows "VOLID (volid_prefix @ str_of_int ctid @ ''/'' @ stamp) = Some (ctid, stamp)"
proof -
  have "length (str_of_int ctid) = 4 \<and> decimal (str_of_int ctid) = ctid \<and> str_of_int ctid \<in> set (map str_of_int CTIDS)"
    using assms(1) str_of_ctid
    by (auto simp: CTIDS_def decimal_def digit_val_def)
  then show ?thesis using assms(2) by (simp add: VOLID_def starts_with_def Let_def)
qed

lemma stamp_of_seconds: "\<bar>i\<bar> < 2 ^ 53 \<Longrightarrow> stamp_of (i * 1000000) = of_int i"
  by (simp add: stamp_of_def fl_of_int)

lemma valid_sample:
  assumes "ctid \<in> set CTIDS" "stamp_shape stamp" "parse_stamp stamp = Some c" "of_int c \<le> stamp_of now"
  shows "valid_row now (sample_row ctid stamp c) ctid"
  using VOLID_sample [OF assms(1,2)] assms(3,4)
  by (simp add: valid_row_def sample_row_def ctime_of_def is_string_def)

lemma sample_stamps:
  "stamp_shape ''2025-01-01T12:43:02Z'' \<and> parse_stamp ''2025-01-01T12:43:02Z'' = Some 1735735382"
  "stamp_shape ''2025-01-01T11:55:44Z'' \<and> parse_stamp ''2025-01-01T11:55:44Z'' = Some 1735732544"
  "stamp_shape ''2025-01-01T12:46:30Z'' \<and> parse_stamp ''2025-01-01T12:46:30Z'' = Some 1735735590"
  "stamp_shape ''2025-01-01T12:50:42Z'' \<and> parse_stamp ''2025-01-01T12:50:42Z'' = Some 1735735842"
  "stamp_shape ''2025-01-02T18:30:00Z'' \<and> parse_stamp ''2025-01-02T18:30:00Z'' = Some 1735842600"
  by code_simp+

lemma MANUAL_sample:
  "MANUAL = [(1200, volid_prefix @ str_of_int 1200 @ ''/'' @ ''2025-01-01T12:43:02Z''),
             (1201, volid_prefix @ str_of_int 1201 @ ''/'' @ ''2025-01-01T11:55:44Z''),
             (1202, volid_prefix @ str_of_int 1202 @ ''/'' @ ''2025-01-01T12:46:30Z''),
             (1204, volid_prefix @ str_of_int 1204 @ ''/'' @ ''2025-01-01T12:50:42Z'')]"
  by code_simp

lemma sample_row_simps:
  "is_dict (sample_row ctid stamp c)" "get (sample_row ctid stamp c) ''vmid'' = PInt ctid" "ctime_of (sample_row ctid stamp c) = c"
  "get (sample_row ctid stamp c) ''volid'' = PStr (volid_prefix @ str_of_int ctid @ ''/'' @ stamp)"
  "get (sample_row ctid stamp c) ''protected'' = PInt 1" "get (sample_row ctid stamp c) ''ctime'' = PInt c"
  by (simp_all add: sample_row_def ctime_of_def)

lemma sample_listing_healthy: "ir_status (inspect sample_listing 1735844400000000 16200000000 20091) = CoreHealthy"
proof -
  let ?now = "1735844400000000 :: int"
  have now: "stamp_of ?now = 1735844400" "window_of ?now = 1735841820"
    using stamp_of_seconds [of 1735844400] stamp_of_seconds [of 1735841820]
    by (simp_all add: window_of_def kst_day_def kst_time_def day_us_def kst_us_def)
  have v: "valid_row ?now (sample_row 1200 ''2025-01-01T12:43:02Z'' 1735735382) 1200"
    "valid_row ?now (sample_row 1201 ''2025-01-01T11:55:44Z'' 1735732544) 1201"
    "valid_row ?now (sample_row 1202 ''2025-01-01T12:46:30Z'' 1735735590) 1202"
    "valid_row ?now (sample_row 1204 ''2025-01-01T12:50:42Z'' 1735735842) 1204"
    "ctid \<in> set CTIDS \<Longrightarrow> valid_row ?now (sample_row ctid ''2025-01-02T18:30:00Z'' 1735842600) ctid" for ctid
    using sample_stamps by (intro valid_sample; simp add: now CTIDS_def)+
  have "scheduled_check ?now sample_listing ctid = Inr 1735842600" if "ctid \<in> set CTIDS" for ctid
    using v(5) [OF that] that
    by (auto simp: scheduled_check_def scheduled_rows_def rows_of_def sample_listing_def sample_row_simps MANUAL_sample
        is_string_def CTIDS_def now)
  then have s: "faults_of (scheduled_checks ?now sample_listing 20091) = []"
    by (simp add: faults_of_def scheduled_checks_def CTIDS_def)
  have "baseline_fault ?now sample_listing ctid = []" if "ctid \<in> set CTIDS" for ctid
    using v(1-4) that
    by (auto simp: baseline_fault_def rows_of_def sample_listing_def sample_row_simps MANUAL_sample is_string_def CTIDS_def)
  then show ?thesis by (simp add: inspect_def s Let_def)
qed

lemma healthy_core_is_backed_witness:
  "\<exists>row\<in>set sample_listing. py_eq (PInt 1203) (get row ''vmid'') \<and> 1735841820 \<le> ctime_of row"
proof -
  have "kst_day 1735844400000000 = 20091" "window_of 1735844400000000 = of_int 1735841820"
    using stamp_of_seconds [of 1735841820]
    by (simp_all add: window_of_def kst_day_def kst_time_def day_us_def kst_us_def)
  moreover have "1203 \<in> set CTIDS" by (simp add: CTIDS_def)
  ultimately show ?thesis
    using healthy_core_is_backed [OF sample_listing_healthy] by (fastforce simp only: of_int_le_iff order_refl)
qed

end
