(* ===== verification/BackupHealthSummary.thy ===== *)
theory BackupHealthSummary
  imports LlmHealth PyTime
begin

text \<open>
  \<open>scripts/backup-health-summary.py\<close>: one report over two backups, built from the files
  their monitors leave and from the unit that runs the database check. \<open>core_summary\<close> and
  \<open>database_summary\<close> never raise: whatever cannot be trusted becomes \<open>UNKNOWN\<close>. The files, the
  output of \<open>systemctl\<close> and the clocks are parameters.
\<close>

section \<open>Configuration\<close>

definition CORE_PATH :: string where
  "CORE_PATH = ''/var/lib/pickle-core-pbs-monitor/state.json''"

definition CACHE_PATH :: string where
  "CACHE_PATH = ''/var/lib/pickle-db-monitor-production/last-remote-check.json''"

definition DB_UNIT :: string where
  "DB_UNIT = ''pickle-db-pbs-production-monitor.service''"

definition CORE_MEMBERS :: "string list" where
  "CORE_MEMBERS = [''1200'', ''1201'', ''1202'', ''1203'', ''1204'']"

definition CORE_FRESHNESS :: rat where "CORE_FRESHNESS = 720"

definition DB_FRESHNESS :: rat where "DB_FRESHNESS = 180"

definition TOLERANCE :: rat where "TOLERANCE = 2"

definition PROBE :: string where
  "PROBE = ''current PBS groups, encrypted verification receipt and data manifest''"

definition UNIT_FIELDS :: "string list" where
  "UNIT_FIELDS = [''ActiveState'', ''SubState'', ''Result'', ''ExecMainStatus'',
     ''ExecMainStartTimestampMonotonic'', ''ExecMainExitTimestampMonotonic'', ''InvocationID'']"

definition numeric :: "rat \<Rightarrow> pyval \<Rightarrow> rat res" where
  "numeric maximum v =
     bindR (check (is_number v \<and> num_ge v 0 \<and> num_le v maximum) (HealthError ''TIMESTAMP_INVALID'')) (\<lambda>_. Inr (num_val v))"

abbreviation epoch_numeric :: "pyval \<Rightarrow> rat res" where
  "epoch_numeric \<equiv> numeric 4102444800"

definition summary_config_ok :: "string \<Rightarrow> pyval \<Rightarrow> bool" where
  "summary_config_ok hostname config =
     (has_keys config [''expected_hostname'', ''core_state_file'', ''database_cache_file'', ''database_unit'']
      \<and> is_str (get config ''expected_hostname'')
      \<and> head_match is_alnum (\<lambda>c. is_alnum c \<or> one_of ''._-'' c) 0 252 (the_str (get config ''expected_hostname''))
      \<and> is_string (get config ''expected_hostname'') hostname
      \<and> is_string (get config ''core_state_file'') CORE_PATH \<and> is_string (get config ''database_cache_file'') CACHE_PATH
      \<and> is_string (get config ''database_unit'') DB_UNIT)"

definition summary_validate :: "string \<Rightarrow> pyval \<Rightarrow> unit res" where
  "summary_validate hostname config = check (summary_config_ok hostname config) (HealthError ''SUMMARY_CONFIG_INVALID'')"

text \<open>The standard output of \<open>systemctl show\<close> as a dict.\<close>

definition unit_observation :: "string \<Rightarrow> (string \<times> string) list res" where
  "unit_observation stdout =
     bindR (check (length stdout \<le> 16384) (HealthError ''UNIT_RESPONSE_TOO_LARGE'')) (\<lambda>_.
     let lines = splitlines stdout
     in bindR (check (length lines = length UNIT_FIELDS \<and> list_all (\<lambda>l. CHR ''='' \<in> set l) lines)
                     (HealthError ''UNIT_RESPONSE_INVALID'')) (\<lambda>_.
        let values = map (split_first CHR ''='') lines
        in bindR (check (set (map fst values) = set UNIT_FIELDS) (HealthError ''UNIT_FIELDS_INVALID'')) (\<lambda>_. Inr values)))"

fun summary_caught :: "exn \<Rightarrow> bool" where
  "summary_caught (AppError c r) = (c = ''HealthError'')"
| "summary_caught AttributeError = False"
| "summary_caught SubprocessError = False"
| "summary_caught _ = True"

section \<open>The core archives\<close>

record core_evidence =
  be_stamp :: rat
  be_inventory :: "rat option"
  be_status :: string
  be_query :: string
  be_point_evidence :: string
  be_points :: "(string \<times> (rat \<times> rat) option) list"

definition core_point :: "rat \<Rightarrow> rat \<Rightarrow> rat option \<Rightarrow> pyval \<Rightarrow> (rat \<times> rat) option res" where
  "core_point now stamp inventory point =
     bindR (check (is_dict point) (HealthError ''CORE_POINT_INVALID'')) (\<lambda>_.
     let ctime = get point ''ctime''; age = get point ''age_seconds''
     in if ctime = PNone
        then bindR (check (age = PNone) (HealthError ''CORE_POINT_AGE_INVALID'')) (\<lambda>_. Inr None)
        else
          bindR (check (is_int ctime) (HealthError ''CORE_POINT_TIMESTAMP_TYPE_INVALID'')) (\<lambda>_.
          bindR (epoch_numeric ctime) (\<lambda>t.
          bindR (epoch_numeric age) (\<lambda>a.
          bindR (check (case inventory of None \<Rightarrow> False
                        | Some i \<Rightarrow> t \<le> i \<and> \<bar>fsub (fsub stamp t) a\<bar> \<le> TOLERANCE) (HealthError ''CORE_POINT_TIME_INVALID'')) (\<lambda>_.
          Inr (Some (t, fsub now t)))))))"

definition core_points :: "rat \<Rightarrow> rat \<Rightarrow> rat option \<Rightarrow> pyval \<Rightarrow> (string \<times> (rat \<times> rat) option) list res" where
  "core_points now stamp inventory points =
     foldR (\<lambda>ctid acc. bindR (indexR points ctid) (\<lambda>point.
                       bindR (core_point now stamp inventory point) (\<lambda>p. Inr (acc @ [(ctid, p)])))) CORE_MEMBERS []"

definition core_provenance_ok :: "string \<Rightarrow> string \<Rightarrow> rat \<Rightarrow> rat option \<Rightarrow> unit res" where
  "core_provenance_ok query evidence stamp inventory =
     bindR (check (query = ''OK'' \<longrightarrow> evidence = ''OBSERVED'' \<and> inventory = Some stamp)
                  (HealthError ''CORE_INVENTORY_TIME_INVALID'')) (\<lambda>_.
     check (query = ''UNAVAILABLE'' \<longrightarrow>
              evidence \<noteq> ''OBSERVED'' \<and> (evidence = ''CACHED'' \<longrightarrow> inventory \<noteq> None)
              \<and> (evidence = ''UNAVAILABLE'' \<longrightarrow> inventory = None))
           (HealthError ''CORE_CACHED_PROVENANCE_INVALID''))"

definition core_evidence_of :: "pyval \<Rightarrow> rat \<Rightarrow> core_evidence res" where
  "core_evidence_of state now =
     bindR (check (is_dict state \<and> get state ''observation_schema_version'' = PInt 1)
                  (HealthError ''CORE_SCHEMA_UNSUPPORTED'')) (\<lambda>_.
     bindR (indexR state ''last_observation'') (\<lambda>observation.
     bindR (check (is_dict observation) (HealthError ''CORE_OBSERVATION_INVALID'')) (\<lambda>_.
     bindR (bindR (indexR observation ''observed_at_epoch'') epoch_numeric) (\<lambda>stamp.
     bindR (let i = get observation ''inventory_observed_at_epoch''
            in if i = PNone then Inr None else bindR (epoch_numeric i) (\<lambda>x. Inr (Some x))) (\<lambda>inventory.
     bindR (check (stamp \<le> now \<and> (case inventory of None \<Rightarrow> True | Some i \<Rightarrow> i \<le> stamp))
                  (HealthError ''CORE_FUTURE_EVIDENCE'')) (\<lambda>_.
     bindR (indexR observation ''status'') (\<lambda>status.
     bindR (indexR observation ''query_status'') (\<lambda>query.
     bindR (indexR observation ''point_evidence'') (\<lambda>evidence.
     bindR (check (in_tuple status [''HEALTHY'', ''FAILED'', ''PENDING''] \<and> in_tuple query [''OK'', ''UNAVAILABLE'']
                   \<and> in_tuple evidence [''OBSERVED'', ''CACHED'', ''UNAVAILABLE''])
                  (HealthError ''CORE_CLASSIFICATION_INVALID'')) (\<lambda>_.
     bindR (core_provenance_ok (the_str query) (the_str evidence) stamp inventory) (\<lambda>_.
     bindR (indexR observation ''last_valid_points'') (\<lambda>points.
     bindR (check (has_keys points CORE_MEMBERS) (HealthError ''CORE_MEMBERS_INVALID'')) (\<lambda>_.
     bindR (core_points now stamp inventory points) (\<lambda>projected.
     bindR (check (is_string status ''HEALTHY'' \<longrightarrow> list_all (\<lambda>(_, p). p \<noteq> None) projected)
                  (HealthError ''CORE_HEALTHY_POINT_MISSING'')) (\<lambda>_.
     Inr \<lparr>be_stamp = stamp, be_inventory = inventory, be_status = the_str status, be_query = the_str query,
          be_point_evidence = the_str evidence, be_points = projected\<rparr>)))))))))))))))"

record core_summary_out =
  bs_verdict :: string
  bs_reason :: string
  bs_evidence :: "core_evidence option"
  bs_age :: "rat option"

definition core_unknown :: core_summary_out where
  "core_unknown = \<lparr>bs_verdict = ''UNKNOWN'', bs_reason = ''CORE_OBSERVATION_UNAVAILABLE'', bs_evidence = None, bs_age = None\<rparr>"

definition core_conclusion :: "core_evidence \<Rightarrow> rat \<Rightarrow> bool \<Rightarrow> core_summary_out" where
  "core_conclusion e now clock_safe =
     (let age = fsub now (be_stamp e);
          output = core_unknown\<lparr>bs_evidence := Some e, bs_age := Some age\<rparr>
      in if \<not> clock_safe then output\<lparr>bs_reason := ''CLOCK_UNSAFE''\<rparr>
         else if CORE_FRESHNESS < age then output\<lparr>bs_reason := ''CORE_OBSERVATION_STALE''\<rparr>
         else if be_query e \<noteq> ''OK'' then output\<lparr>bs_reason := ''CORE_QUERY_UNAVAILABLE''\<rparr>
         else output\<lparr>bs_verdict := be_status e, bs_reason := ''CORE_CURRENT_OBSERVATION''\<rparr>)"

text \<open>\<open>Inl\<close> only for the classes the \<open>except\<close> clause does not name.\<close>

definition core_summary :: "pyval \<Rightarrow> rat \<Rightarrow> bool \<Rightarrow> core_summary_out res" where
  "core_summary state now clock_safe =
     (case core_evidence_of state now of
        Inr e \<Rightarrow> Inr (core_conclusion e now clock_safe)
      | Inl e \<Rightarrow> if summary_caught e then Inr core_unknown else Inl e)"

section \<open>The database backup\<close>

record cache_evidence =
  ca_point :: int
  ca_readback :: int
  ca_as_of :: int
  ca_age :: int
  ca_point_age :: rat
  ca_evidence_age :: rat
  ca_snapshot :: string
  ca_previous :: bool

definition snapshot_stamp :: "string \<Rightarrow> string option" where
  "snapshot_stamp s =
     (case split_on CHR ''/'' s of
        [host, name, stamp] \<Rightarrow>
          if host = ''host'' \<and> head_match is_alnum (\<lambda>c. is_alnum c \<or> one_of ''._-'' c) 0 63 name \<and> stamp_shape stamp
          then Some stamp else None
      | _ \<Rightarrow> None)"

definition cache_evidence_of :: "pyval \<Rightarrow> rat \<Rightarrow> cache_evidence res" where
  "cache_evidence_of cache now =
     bindR (check (is_dict cache \<and> is_string (get cache ''probe'') PROBE) (HealthError ''DB_CACHE_UNAVAILABLE'')) (\<lambda>_.
     bindR (bindR (indexR cache ''recovery_point_epoch'') epoch_numeric) (\<lambda>point.
     bindR (bindR (indexR cache ''last_readback_epoch'') epoch_numeric) (\<lambda>readback.
     bindR (bindR (indexR cache ''age_seconds'') epoch_numeric) (\<lambda>age.
     bindR (check (list_all (\<lambda>k. is_int (get cache k)) [''recovery_point_epoch'', ''last_readback_epoch'', ''age_seconds''])
                  (HealthError ''DB_CACHE_TIMESTAMP_TYPE_INVALID'')) (\<lambda>_.
     let asof = fadd point age
     in bindR (check (0 < point \<and> point \<le> readback \<and> readback \<le> asof \<and> asof \<le> now)
                     (HealthError ''DB_CACHE_TIME_INVALID'')) (\<lambda>_.
        let snapshot = get cache ''snapshot''
        in case (if is_str snapshot then snapshot_stamp (the_str snapshot) else None) of
             None \<Rightarrow> Inl (HealthError ''DB_CACHE_SNAPSHOT_INVALID'')
           | Some stamp \<Rightarrow>
               (case parse_stamp stamp of
                  None \<Rightarrow> Inl ValueError
                | Some parsed \<Rightarrow>
                    bindR (check (of_int parsed = point) (HealthError ''DB_CACHE_SNAPSHOT_TIME_INVALID'')) (\<lambda>_.
                    let p = the_int (get cache ''recovery_point_epoch''); a = the_int (get cache ''age_seconds'')
                    in Inr \<lparr>ca_point = p, ca_readback = the_int (get cache ''last_readback_epoch''), ca_as_of = p + a,
                            ca_age = a, ca_point_age = fsub now point, ca_evidence_age = fsub now asof,
                            ca_snapshot = the_str snapshot, ca_previous = False\<rparr>))))))))"

record unit_report =
  un_active :: string
  un_sub :: string
  un_result :: string
  un_exit :: int
  un_invocation :: string
  un_start_us :: int
  un_finish_us :: int
  un_start :: "rat option"
  un_finish :: "rat option"

definition unit_fields_ok :: "(string \<times> string) list \<Rightarrow> bool" where
  "unit_fields_ok values =
     (let f = \<lambda>k. the (map_of values k)
      in f ''ActiveState'' \<in> {''active'', ''inactive'', ''activating'', ''deactivating'', ''failed'', ''reloading''}
         \<and> head_match is_lower (\<lambda>c. is_lower c \<or> is_digit c \<or> c = CHR ''-'') 0 31 (f ''SubState'')
         \<and> f ''Result'' \<in> {''success'', ''exit-code'', ''signal'', ''timeout'', ''watchdog'', ''start-limit-hit'',
                           ''resources'', ''protocol'', ''oom-kill''}
         \<and> class_match is_hex 32 32 (f ''InvocationID''))"

definition parse_unit :: "(string \<times> string) list option \<Rightarrow> unit_report res" where
  "parse_unit unit =
     (case unit of
        None \<Rightarrow> Inl (HealthError ''DB_UNIT_UNAVAILABLE'')
      | Some values \<Rightarrow>
          bindR (check (set (map fst values) = set UNIT_FIELDS) (HealthError ''DB_UNIT_UNAVAILABLE'')) (\<lambda>_.
          bindR (check (unit_fields_ok values) (HealthError ''DB_UNIT_FIELDS_INVALID'')) (\<lambda>_.
          let f = \<lambda>k. the (map_of values k); code = decimal (f ''ExecMainStatus'');
              start = decimal (f ''ExecMainStartTimestampMonotonic''); finish = decimal (f ''ExecMainExitTimestampMonotonic'')
          in bindR (check (list_all (\<lambda>k. class_match is_digit 1 20 (f k))
                             [''ExecMainStatus'', ''ExecMainStartTimestampMonotonic'', ''ExecMainExitTimestampMonotonic''])
                          (HealthError ''DB_UNIT_NUMBER_INVALID'')) (\<lambda>_.
             bindR (check (code \<le> 255 \<and> start \<le> 2 ^ 63 - 1 \<and> finish \<le> 2 ^ 63 - 1) (HealthError ''DB_UNIT_NUMBER_INVALID'')) (\<lambda>_.
             Inr \<lparr>un_active = f ''ActiveState'', un_sub = f ''SubState'', un_result = f ''Result'', un_exit = code,
                  un_invocation = f ''InvocationID'', un_start_us = start, un_finish_us = finish,
                  un_start = None, un_finish = None\<rparr>)))))"

record database_out =
  do_verdict :: string
  do_reason :: string
  do_evidence :: "cache_evidence option"
  do_native :: "unit_report option"

definition database_unknown :: "unit_report option \<Rightarrow> database_out" where
  "database_unknown native =
     \<lparr>do_verdict = ''UNKNOWN'', do_reason = ''DB_EVIDENCE_UNAVAILABLE'', do_evidence = None, do_native = native\<rparr>"

text \<open>A previously validated projection, read back through the same check.\<close>

definition previous_evidence :: "pyval \<Rightarrow> rat \<Rightarrow> cache_evidence res" where
  "previous_evidence prev now =
     (let previous = (if truthy prev then prev else PDict [])
      in bindR (indexR previous ''recovery_point_epoch'') (\<lambda>p.
         bindR (indexR previous ''last_readback_epoch'') (\<lambda>r.
         bindR (indexR previous ''cached_age_seconds'') (\<lambda>a.
         bindR (indexR previous ''snapshot'') (\<lambda>s.
         bindR (cache_evidence_of (PDict [(''recovery_point_epoch'', p), (''last_readback_epoch'', r), (''age_seconds'', a),
                                          (''snapshot'', s), (''probe'', PStr PROBE)]) now) (\<lambda>e.
         Inr (e\<lparr>ca_previous := True\<rparr>)))))))"

text \<open>The times of the unit's last run on the wall clock; the report shows them even when they are refused.\<close>

definition unit_times :: "unit_report \<Rightarrow> rat \<Rightarrow> rat \<Rightarrow> (unit_report \<times> bool)" where
  "unit_times native now tick =
     (let start = stamp_of (un_start_us native); finish = stamp_of (un_finish_us native)
      in if start \<le> 0 \<or> tick < start \<or> tick < finish \<or> finish < 0 then (native, False)
         else
           let s = fsub now (fsub tick start); f = (if finish = 0 then None else Some (fsub now (fsub tick finish)))
           in (native\<lparr>un_start := Some s, un_finish := f\<rparr>, 0 \<le> s \<and> (case f of None \<Rightarrow> True | Some x \<Rightarrow> 0 \<le> x)))"

definition within_run :: "unit_report \<Rightarrow> cache_evidence \<Rightarrow> bool option" where
  "within_run native e =
     (case un_start native of
        None \<Rightarrow> None
      | Some s \<Rightarrow>
          if \<not> fsub s TOLERANCE \<le> of_int (ca_as_of e) then Some False
          else (case un_finish native of
                  None \<Rightarrow> None
                | Some f \<Rightarrow> Some (of_int (ca_as_of e) \<le> fadd f TOLERANCE)))"

definition database_conclusion ::
  "database_out \<Rightarrow> unit_report \<Rightarrow> cache_evidence \<Rightarrow> rat \<Rightarrow> bool \<Rightarrow> database_out" where
  "database_conclusion output native e tick clock_safe =
     (let start = stamp_of (un_start_us native); finish = stamp_of (un_finish_us native)
      in if \<not> clock_safe then output\<lparr>do_reason := ''CLOCK_UNSAFE''\<rparr>
         else if un_active native \<noteq> ''inactive'' \<or> un_sub native \<noteq> ''dead''
         then output\<lparr>do_reason := ''DB_NATIVE_NOT_COMPLETED''\<rparr>
         else if un_result native \<noteq> ''success'' \<or> un_exit native \<noteq> 0
         then output\<lparr>do_reason := ''DB_NATIVE_NOT_SUCCESSFUL''\<rparr>
         else if \<not> (0 < start \<and> start \<le> finish) then output\<lparr>do_reason := ''DB_NATIVE_TIMESTAMPS_INVALID''\<rparr>
         else if DB_FRESHNESS < fsub tick finish \<or> DB_FRESHNESS < ca_evidence_age e
         then output\<lparr>do_reason := ''DB_EVIDENCE_STALE''\<rparr>
         else (case within_run native e of
                 None \<Rightarrow> output\<lparr>do_reason := ''DB_NATIVE_UNAVAILABLE_OR_UNSAFE''\<rparr>
               | Some False \<Rightarrow> output\<lparr>do_reason := ''DB_CACHE_NOT_CURRENT_INVOCATION''\<rparr>
               | Some True \<Rightarrow>
                   output\<lparr>do_verdict := ''HEALTHY'', do_reason := ''DB_CURRENT_NATIVE_AND_CACHE_MATCH''\<rparr>))"

definition database_summary ::
  "pyval \<Rightarrow> (string \<times> string) list option \<Rightarrow> rat \<Rightarrow> rat \<Rightarrow> bool \<Rightarrow> pyval \<Rightarrow> database_out res" where
  "database_summary cache unit now tick clock_safe prev =
     (let native = (case parse_unit unit of Inr n \<Rightarrow> Some n | Inl _ \<Rightarrow> None);
          output = database_unknown native
      in case cache_evidence_of cache now of
           Inl e \<Rightarrow>
             if summary_caught e
             then (case previous_evidence prev now of
                     Inr h \<Rightarrow> Inr (output\<lparr>do_evidence := Some h\<rparr>)
                   | Inl e' \<Rightarrow> if summary_caught e' then Inr output else Inl e')
             else Inl e
         | Inr e \<Rightarrow>
             let output = output\<lparr>do_evidence := Some e\<rparr>
             in (case native of
                   None \<Rightarrow> Inr (output\<lparr>do_reason := ''DB_NATIVE_UNAVAILABLE_OR_UNSAFE''\<rparr>)
                 | Some n \<Rightarrow>
                     (case unit_times n now tick of
                        (n', False) \<Rightarrow> Inr (output\<lparr>do_native := Some n', do_reason := ''DB_NATIVE_UNAVAILABLE_OR_UNSAFE''\<rparr>)
                      | (n', True) \<Rightarrow> Inr (database_conclusion (output\<lparr>do_native := Some n'\<rparr>) n' e tick clock_safe))))"

section \<open>The report\<close>

record backup_report =
  br_node :: string
  br_observed :: rat
  br_clock_safe :: bool
  br_core :: core_summary_out
  br_database :: database_out

definition old_evidence :: "pyval option \<Rightarrow> pyval" where
  "old_evidence previous =
     (case previous of
        None \<Rightarrow> PNone
      | Some p \<Rightarrow>
          let d = get_or p ''database'' (PDict [])
          in if is_dict p \<and> is_dict d then get d ''last_healthy_evidence'' else PNone)"

definition summary_build ::
  "string \<Rightarrow> pyval \<Rightarrow> pyval \<Rightarrow> pyval \<Rightarrow> (string \<times> string) list option \<Rightarrow> rat \<Rightarrow> rat \<Rightarrow> bool \<Rightarrow> pyval option
   \<Rightarrow> backup_report res" where
  "summary_build hostname config core cache unit now tick clock_safe previous =
     bindR (summary_validate hostname config) (\<lambda>_.
     bindR (epoch_numeric (PFloat now)) (\<lambda>now.
     bindR (numeric (2 ^ 53) (PFloat tick)) (\<lambda>tick.
     bindR (core_summary core now clock_safe) (\<lambda>c.
     bindR (database_summary cache unit now tick clock_safe (old_evidence previous)) (\<lambda>d.
     Inr \<lparr>br_node = the_str (get config ''expected_hostname''), br_observed = now, br_clock_safe = clock_safe,
          br_core = c, br_database = d\<rparr>)))))"

record summary_env =
  sy_hostname :: string
  sy_previous :: "pyval res"
  sy_core :: "pyval res"
  sy_cache :: "pyval res"
  sy_unit :: "string res"
  sy_before :: "rat \<times> rat"
  sy_after :: "rat \<times> rat"

definition usable_previous :: "pyval \<Rightarrow> pyval \<Rightarrow> pyval option res" where
  "usable_previous config v =
     bindR (getR v ''schema_version'') (\<lambda>ver.
     if ver = PInt 1 \<and> is_string (get v ''kind'') ''backup-freshness-summary''
        \<and> py_eq (get v ''node'') (get config ''expected_hostname'')
     then bindR (bindR (indexR v ''observed_at_epoch'') epoch_numeric) (\<lambda>_. Inr (Some v)) else Inr None)"

definition read_previous :: "pyval \<Rightarrow> pyval res \<Rightarrow> pyval option res" where
  "read_previous config file =
     (case bindR file (usable_previous config) of
        Inr r \<Rightarrow> Inr r
      | Inl e \<Rightarrow> if summary_caught e then Inr None else Inl e)"

fun input_caught :: "exn \<Rightarrow> bool" where
  "input_caught (AppError c r) = (c = ''HealthError'')"
| "input_caught e = (e \<in> {OSError, FileNotFoundError, ValueError, TypeError})"

definition input_or_none :: "pyval res \<Rightarrow> pyval res" where
  "input_or_none file = (case file of Inr v \<Rightarrow> Inr v | Inl e \<Rightarrow> if input_caught e then Inr PNone else Inl e)"

definition unit_or_none :: "string res \<Rightarrow> (string \<times> string) list option res" where
  "unit_or_none out =
     (case bindR out unit_observation of
        Inr v \<Rightarrow> Inr (Some v)
      | Inl e \<Rightarrow> if input_caught e \<or> e = SubprocessError then Inr None else Inl e)"

definition clock_ok :: "rat \<times> rat \<Rightarrow> rat \<times> rat \<Rightarrow> pyval option \<Rightarrow> bool" where
  "clock_ok before after previous =
     (case (before, after) of
        ((t0, m0), (t1, m1)) \<Rightarrow>
          t0 \<le> t1 \<and> m0 \<le> m1 \<and> \<bar>fsub (fsub t1 t0) (fsub m1 m0)\<bar> \<le> TOLERANCE
          \<and> (case previous of None \<Rightarrow> True | Some p \<Rightarrow> num_val (get p ''observed_at_epoch'') \<le> t1))"

definition clock_numeric :: "rat \<times> rat \<Rightarrow> unit res" where
  "clock_numeric c =
     bindR (epoch_numeric (PFloat (fst c))) (\<lambda>_. bindR (numeric (2 ^ 53) (PFloat (snd c))) (\<lambda>_. Inr ()))"

text \<open>The report that is written and returned.\<close>

definition summary_run :: "pyval \<Rightarrow> summary_env \<Rightarrow> backup_report res" where
  "summary_run config env =
     bindR (summary_validate (sy_hostname env) config) (\<lambda>_.
     bindR (read_previous config (sy_previous env)) (\<lambda>previous.
     bindR (clock_numeric (sy_before env)) (\<lambda>_.
     bindR (input_or_none (sy_core env)) (\<lambda>core.
     bindR (input_or_none (sy_cache env)) (\<lambda>cache.
     bindR (unit_or_none (sy_unit env)) (\<lambda>unit.
     bindR (clock_numeric (sy_after env)) (\<lambda>_.
     summary_build (sy_hostname env) config core cache unit (fst (sy_after env)) (snd (sy_after env))
       (clock_ok (sy_before env) (sy_after env) previous) previous)))))))"

section \<open>Properties\<close>

lemma numeric_iff: "numeric m v = Inr t \<longleftrightarrow> is_number v \<and> num_ge v 0 \<and> num_le v m \<and> t = num_val v"
  by (auto simp: numeric_def)

lemma raises_numeric [raises]: "Q (HealthError ''TIMESTAMP_INVALID'') \<Longrightarrow> raises_only Q (numeric m v)"
  unfolding numeric_def by (intro raises; simp)

lemma core_point_raises: "raises_only summary_caught (core_point now stamp i p)"
  unfolding core_point_def Let_def by (intro raises; simp)

lemma core_evidence_raises: "raises_only summary_caught (core_evidence_of state now)"
  unfolding core_evidence_of_def core_provenance_ok_def core_points_def Let_def
  by (intro raises core_point_raises; simp)

lemma cache_evidence_raises: "raises_only summary_caught (cache_evidence_of cache now)"
proof -
  have "raises_only summary_caught
      (case x of None \<Rightarrow> Inl (HealthError r) | Some s \<Rightarrow> (case parse_stamp s of None \<Rightarrow> Inl ValueError | Some p \<Rightarrow> f p))"
    if "\<And>p. raises_only summary_caught (f p)" for x r and f :: "int \<Rightarrow> cache_evidence res"
    using that by (auto intro: raises split: option.split)
  then show ?thesis
    unfolding cache_evidence_of_def Let_def by (intro raises; simp add: raises)
qed

lemma previous_evidence_raises: "raises_only summary_caught (previous_evidence prev now)"
  unfolding previous_evidence_def Let_def by (intro raises cache_evidence_raises; simp)

text \<open>Neither summary ends with an exception, whatever the files hold.\<close>

lemma core_summary_total: "\<exists>out. core_summary state now safe = Inr out"
  using raises_onlyD [OF core_evidence_raises] by (auto simp: core_summary_def split: sum.split)

lemma database_summary_total: "\<exists>out. database_summary cache unit now tick safe prev = Inr out"
  using raises_onlyD [OF cache_evidence_raises [of cache now]] raises_onlyD [OF previous_evidence_raises [of prev now]]
  by (auto simp: database_summary_def Let_def split: sum.split option.split prod.split bool.split)


lemma in_tuple_the_str: "in_tuple v ss \<Longrightarrow> v = PStr (the_str v) \<and> the_str v \<in> set ss"
  by (cases v) (auto simp: in_tuple_def)

lemma get_index: "indexR v k = Inr x \<Longrightarrow> get v k = x"
  by (simp add: indexR_eq_Inr get_or_def)

text \<open>What the checks establish of an observation.\<close>

lemma core_evidence_facts:
  assumes "core_evidence_of state now = Inr e"
  defines "observation \<equiv> get state ''last_observation''"
  shows "be_stamp e = num_val (get observation ''observed_at_epoch'') \<and> 0 \<le> be_stamp e \<and> be_stamp e \<le> now"
    and "get observation ''status'' = PStr (be_status e) \<and> get observation ''query_status'' = PStr (be_query e)"
    and "be_status e \<in> {''HEALTHY'', ''FAILED'', ''PENDING''} \<and> (be_query e = ''OK'' \<longrightarrow> be_inventory e = Some (be_stamp e))"
    and "core_points now (be_stamp e) (be_inventory e) (get observation ''last_valid_points'') = Inr (be_points e)"
    and "be_status e = ''HEALTHY'' \<Longrightarrow> list_all (\<lambda>(_, p). p \<noteq> None) (be_points e)"
proof -
  obtain obs vs stamp inventory st q ev pts proj where x:
    "indexR state ''last_observation'' = Inr obs" "indexR obs ''observed_at_epoch'' = Inr vs" "epoch_numeric vs = Inr stamp"
    "stamp \<le> now" "indexR obs ''status'' = Inr st" "indexR obs ''query_status'' = Inr q"
    "in_tuple st [''HEALTHY'', ''FAILED'', ''PENDING''] \<and> in_tuple q [''OK'', ''UNAVAILABLE'']
       \<and> in_tuple ev [''OBSERVED'', ''CACHED'', ''UNAVAILABLE'']"
    "the_str q = ''OK'' \<longrightarrow> the_str ev = ''OBSERVED'' \<and> inventory = Some stamp"
    "indexR obs ''last_valid_points'' = Inr pts" "core_points now stamp inventory pts = Inr proj"
    "is_string st ''HEALTHY'' \<longrightarrow> list_all (\<lambda>(_, p). p \<noteq> None) proj"
    "e = \<lparr>be_stamp = stamp, be_inventory = inventory, be_status = the_str st, be_query = the_str q,
          be_point_evidence = the_str ev, be_points = proj\<rparr>"
    using assms(1)
    apply (simp only: core_evidence_of_def core_provenance_ok_def bindR_eq_Inr check_eq_Inr Let_def sum.inject)
    apply (elim exE conjE)
    apply (rule that; (assumption | (rule sym, assumption) | simp))
    done
  have obs: "get observation ''observed_at_epoch'' = vs" "get observation ''status'' = st" "get observation ''query_status'' = q"
    "get observation ''last_valid_points'' = pts"
    using x(1,2,5,6,9) by (simp_all add: observation_def get_index)
  have tup: "st = PStr (the_str st)" "q = PStr (the_str q)" "the_str st \<in> {''HEALTHY'', ''FAILED'', ''PENDING''}"
    using x(7) by (auto dest: in_tuple_the_str)
  have "0 \<le> stamp \<and> stamp = num_val vs" using x(3) by (cases vs) (auto simp: numeric_iff)
  with x(4) show "be_stamp e = num_val (get observation ''observed_at_epoch'') \<and> 0 \<le> be_stamp e \<and> be_stamp e \<le> now"
    by (simp add: x(12) obs)
  show "get observation ''status'' = PStr (be_status e) \<and> get observation ''query_status'' = PStr (be_query e)"
    using tup by (simp add: x(12) obs)
  show "be_status e \<in> {''HEALTHY'', ''FAILED'', ''PENDING''} \<and> (be_query e = ''OK'' \<longrightarrow> be_inventory e = Some (be_stamp e))"
    using tup(3) x(8) by (simp add: x(12))
  show "core_points now (be_stamp e) (be_inventory e) (get observation ''last_valid_points'') = Inr (be_points e)"
    using x(10) by (simp add: x(12) obs)
  show "be_status e = ''HEALTHY'' \<Longrightarrow> list_all (\<lambda>(_, p). p \<noteq> None) (be_points e)"
    using x(11) tup(1) by (simp add: x(12) is_string_def)
qed

lemma core_point_Some:
  assumes "core_point now stamp inventory point = Inr (Some (t, a))"
  shows "\<exists>i. get point ''ctime'' = PInt i \<and> t = of_int i \<and> 0 \<le> i \<and> inventory \<noteq> None \<and> t \<le> the inventory"
  using assms
  by (cases "get point ''ctime''") (auto simp: core_point_def numeric_iff Let_def split: if_splits option.splits)

lemma core_points_entries:
  assumes "core_points now stamp inventory points = Inr ps" "ctid \<in> set CORE_MEMBERS"
  shows "\<exists>p. (ctid, p) \<in> set ps \<and> core_point now stamp inventory (get points ctid) = Inr p"
  using assms by (auto simp: core_points_def CORE_MEMBERS_def dest!: get_index)

text \<open>A verdict other than \<open>UNKNOWN\<close> repeats the status of an observation that is not older
  than twelve minutes and not in the future, was made with a working query and under a safe
  clock; and \<open>HEALTHY\<close> means a recovery point, not newer than the observation, for every core
  container.\<close>

theorem core_verdict_is_current:
  assumes "core_summary state now safe = Inr out" "bs_verdict out \<noteq> ''UNKNOWN''"
  defines "observation \<equiv> get state ''last_observation''"
  defines "stamp \<equiv> num_val (get observation ''observed_at_epoch'')"
  shows "safe \<and> get observation ''status'' = PStr (bs_verdict out) \<and> get observation ''query_status'' = PStr ''OK''
     \<and> stamp \<le> now \<and> fsub now stamp \<le> 720
     \<and> (bs_verdict out = ''HEALTHY'' \<longrightarrow>
          (\<forall>ctid\<in>set CORE_MEMBERS. \<exists>t. get (get (get observation ''last_valid_points'') ctid) ''ctime'' = PInt t
                                     \<and> 0 \<le> t \<and> of_int t \<le> stamp))"
proof -
  obtain e where e: "core_evidence_of state now = Inr e" and out: "out = core_conclusion e now safe"
    using assms(1,2) by (auto simp: core_summary_def core_unknown_def split: sum.splits if_splits)
  note f = core_evidence_facts [OF e, folded observation_def]
  have v: "safe" "bs_verdict out = be_status e" "be_query e = ''OK''" "fsub now (be_stamp e) \<le> 720"
    using assms(2) by (auto simp: out core_conclusion_def core_unknown_def CORE_FRESHNESS_def Let_def split: if_splits)
  have "\<exists>t. get (get (get observation ''last_valid_points'') ctid) ''ctime'' = PInt t \<and> 0 \<le> t \<and> of_int t \<le> stamp"
    if h: "be_status e = ''HEALTHY''" and c: "ctid \<in> set CORE_MEMBERS" for ctid
  proof -
    obtain p where p: "(ctid, p) \<in> set (be_points e)"
      "core_point now (be_stamp e) (be_inventory e) (get (get observation ''last_valid_points'') ctid) = Inr p"
      using core_points_entries [OF f(4) c] by blast
    with f(5) [OF h] obtain t a where "p = Some (t, a)" by (fastforce simp: list_all_iff)
    with core_point_Some p(2) f(1,3) v(3) show ?thesis by (fastforce simp: stamp_def)
  qed
  then show ?thesis using f v by (auto simp: stamp_def)
qed

definition sample_core_file :: pyval where
  "sample_core_file = PDict
     [(''observation_schema_version'', PInt 1),
      (''last_observation'', PDict
         [(''observed_at_epoch'', PFloat 1735844400), (''inventory_observed_at_epoch'', PFloat 1735844400),
          (''status'', PStr ''HEALTHY''), (''query_status'', PStr ''OK''), (''point_evidence'', PStr ''OBSERVED''),
          (''last_valid_points'', PDict (map (\<lambda>ctid. (ctid, PDict [(''ctime'', PInt 1735842600), (''age_seconds'', PFloat 1800)]))
             CORE_MEMBERS))])]"

lemma float_differences:
  "fsub 1735844400 1735842600 = 1800" "fsub 1800 1800 = 0" "fsub 1735844500 1735844400 = 100" "fsub 1735844500 1735842600 = 1900"
  using fl_of_int [of 1800] fl_of_int [of 100] fl_of_int [of 1900] by (simp_all add: fsub_def fl_def)

lemma core_verdict_is_current_witness:
  "\<exists>out. core_summary sample_core_file 1735844500 True = Inr out \<and> bs_verdict out = ''HEALTHY''
     \<and> fsub 1735844500 (num_val (get (get sample_core_file ''last_observation'') ''observed_at_epoch'')) \<le> 720"
proof -
  obtain e where e: "core_evidence_of sample_core_file 1735844500 = Inr e" "be_stamp e = 1735844400"
    "be_status e = ''HEALTHY''" "be_query e = ''OK''"
    by (simp add: core_evidence_of_def sample_core_file_def numeric_iff core_provenance_ok_def has_keys_def CORE_MEMBERS_def
        core_points_def core_point_def float_differences TOLERANCE_def is_string_def Let_def)
  then obtain out where o: "core_summary sample_core_file 1735844500 True = Inr out" "bs_verdict out = ''HEALTHY''"
    by (simp add: core_summary_def core_conclusion_def CORE_FRESHNESS_def float_differences Let_def)
  with core_verdict_is_current [OF o(1)] show ?thesis by simp
qed

text \<open>The database backup is reported \<open>HEALTHY\<close> only with a safe clock, a run of its unit that
  ended with success at most three minutes ago, and evidence from the current cache file, not
  older than three minutes, that this run produced: its time lies between the start and the end of
  the run, within two seconds. In every other case the verdict is \<open>UNKNOWN\<close>.\<close>

theorem database_healthy_is_current:
  assumes "database_summary cache unit now tick safe prev = Inr out"
  shows "do_verdict out = ''UNKNOWN''
     \<or> do_verdict out = ''HEALTHY'' \<and> safe
       \<and> (\<exists>n e s f. do_native out = Some n \<and> do_evidence out = Some e \<and> cache_evidence_of cache now = Inr e \<and> \<not> ca_previous e
            \<and> un_result n = ''success'' \<and> un_exit n = 0 \<and> un_active n = ''inactive''
            \<and> fsub tick (stamp_of (un_finish_us n)) \<le> 180 \<and> ca_evidence_age e \<le> 180
            \<and> un_start n = Some s \<and> un_finish n = Some f
            \<and> fsub s 2 \<le> of_int (ca_as_of e) \<and> of_int (ca_as_of e) \<le> fadd f 2)"
proof (cases "do_verdict out = ''UNKNOWN''")
  case False
  have unknown: "do_verdict (database_unknown n) = ''UNKNOWN''" for n by (simp add: database_unknown_def)
  obtain e n n' where e: "cache_evidence_of cache now = Inr e" and t: "unit_times n now tick = (n', True)"
    and out: "out = database_conclusion (database_unknown (Some n)\<lparr>do_evidence := Some e, do_native := Some n'\<rparr>) n' e tick safe"
    using assms False
    by (auto simp: database_summary_def unknown Let_def split: sum.splits option.splits prod.splits bool.splits if_splits)
  have w: "within_run n' e = Some True" "safe" "un_result n' = ''success''" "un_exit n' = 0" "un_active n' = ''inactive''"
    "fsub tick (stamp_of (un_finish_us n')) \<le> 180" "ca_evidence_age e \<le> 180"
    "do_native out = Some n'" "do_evidence out = Some e" "do_verdict out = ''HEALTHY''"
    using False
    by (auto simp: out database_conclusion_def unknown DB_FRESHNESS_def Let_def split: if_splits option.splits bool.splits)
  have "\<not> ca_previous e"
  proof (cases "(if is_str (get cache ''snapshot'') then snapshot_stamp (the_str (get cache ''snapshot'')) else None)")
    case (Some a)
    then show ?thesis using e by (cases "parse_stamp a") (auto simp: cache_evidence_of_def Let_def)
  qed (use e in \<open>auto simp: cache_evidence_of_def Let_def\<close>)
  moreover obtain s f where "un_start n' = Some s" "un_finish n' = Some f"
    "fsub s 2 \<le> of_int (ca_as_of e)" "of_int (ca_as_of e) \<le> fadd f 2"
    using w(1) by (auto simp: within_run_def TOLERANCE_def split: option.splits if_splits)
  ultimately show ?thesis using w e by blast
qed simp

definition sample_cache_file :: pyval where
  "sample_cache_file = PDict
     [(''probe'', PStr PROBE), (''recovery_point_epoch'', PInt 1735842600), (''last_readback_epoch'', PInt 1735842700),
      (''age_seconds'', PInt 1700), (''snapshot'', PStr ''host/db/2025-01-02T18:30:00Z'')]"

definition sample_unit :: "(string \<times> string) list" where
  "sample_unit =
     [(''ActiveState'', ''inactive''), (''SubState'', ''dead''), (''Result'', ''success''), (''ExecMainStatus'', ''0''),
      (''ExecMainStartTimestampMonotonic'', ''4890000000''), (''ExecMainExitTimestampMonotonic'', ''4905000000''),
      (''InvocationID'', replicate 32 CHR ''a'')]"

lemma database_healthy_is_current_witness:
  "\<exists>out e. database_summary sample_cache_file (Some sample_unit) 1735844405 5000 True PNone = Inr out
     \<and> do_verdict out = ''HEALTHY'' \<and> do_evidence out = Some e \<and> ca_evidence_age e \<le> 180"
proof -
  have p: "snapshot_stamp ''host/db/2025-01-02T18:30:00Z'' = Some ''2025-01-02T18:30:00Z''"
    "parse_stamp ''2025-01-02T18:30:00Z'' = Some 1735842600" "unit_fields_ok sample_unit"
    by code_simp+
  have a: "fadd 1735842600 1700 = 1735844300" "fsub 1735844405 1735844300 = 105" "fsub 1735844405 1735842600 = 1805"
    "fsub 5000 4890 = 110" "fsub 5000 4905 = 95" "fsub 1735844405 110 = 1735844295" "fsub 1735844405 95 = 1735844310"
    "fsub 1735844295 2 = 1735844293" "fadd 1735844310 2 = 1735844312" "stamp_of 4890000000 = 4890" "stamp_of 4905000000 = 4905"
    using fl_of_int [of 1735844300] fl_of_int [of 105] fl_of_int [of 1805] fl_of_int [of 110] fl_of_int [of 95]
      fl_of_int [of 1735844295] fl_of_int [of 1735844310] fl_of_int [of 1735844293] fl_of_int [of 1735844312]
      fl_of_int [of 4890] fl_of_int [of 4905]
    by (simp_all add: fsub_def fadd_def stamp_of_def)
  obtain n where n: "parse_unit (Some sample_unit) = Inr n" "un_active n = ''inactive''" "un_sub n = ''dead''"
    "un_result n = ''success''" "un_exit n = 0" "un_start_us n = 4890000000" "un_finish_us n = 4905000000"
    using p(3)
    by (simp add: parse_unit_def) (simp add: sample_unit_def UNIT_FIELDS_def decimal_def digit_val_def class_match_def char_class_defs Let_def)
  obtain e where e: "cache_evidence_of sample_cache_file 1735844405 = Inr e" "ca_as_of e = 1735844300" "ca_evidence_age e = 105"
    by (simp add: cache_evidence_of_def sample_cache_file_def is_string_def numeric_iff a p Let_def)
  obtain out where o: "database_summary sample_cache_file (Some sample_unit) 1735844405 5000 True PNone = Inr out"
    "do_verdict out = ''HEALTHY''"
    by (simp add: database_summary_def n e unit_times_def database_conclusion_def within_run_def a TOLERANCE_def
        DB_FRESHNESS_def Let_def)
  from database_healthy_is_current [OF o(1)] o show ?thesis by auto
qed

text \<open>A run with a valid configuration and readable clocks writes a report: files that cannot be
  read or hold anything else than expected, and a unit query that fails, never end it.\<close>

theorem summary_run_completes:
  assumes "summary_config_ok (sy_hostname env) config"
    and "\<forall>c\<in>{sy_before env, sy_after env}. 0 \<le> fst c \<and> fst c \<le> 4102444800 \<and> 0 \<le> snd c \<and> snd c \<le> 2 ^ 53"
    and "\<forall>f\<in>{sy_previous env, sy_core env, sy_cache env}. case f of Inr v \<Rightarrow> is_dict v | Inl e \<Rightarrow> input_caught e"
    and "\<forall>e. sy_unit env = Inl e \<longrightarrow> e = SubprocessError \<or> input_caught e"
  shows "\<exists>report. summary_run config env = Inr report"
proof -
  have caught: "input_caught e \<Longrightarrow> summary_caught e" for e by (cases e) auto
  have up: "raises_only summary_caught (usable_previous config v)" if "is_dict v" for v
    using that unfolding usable_previous_def by (auto simp: getR_def intro!: raises)
  have "\<exists>p. read_previous config (sy_previous env) = Inr p"
    using assms(3) up raises_onlyD caught
    by (cases "sy_previous env") (fastforce simp: read_previous_def split: sum.split)+
  moreover have "\<exists>v. input_or_none (sy_core env) = Inr v" "\<exists>v. input_or_none (sy_cache env) = Inr v"
    using assms(3) by (auto simp: input_or_none_def split: sum.splits)
  moreover have "raises_only input_caught (unit_observation out)" for out
    unfolding unit_observation_def Let_def by (intro raises; simp)
  then have "\<exists>u. unit_or_none (sy_unit env) = Inr u"
    using assms(4) raises_onlyD [of input_caught]
    by (cases "sy_unit env") (fastforce simp: unit_or_none_def split: sum.split)+
  moreover have "clock_numeric (sy_before env) = Inr ()" "clock_numeric (sy_after env) = Inr ()"
    using assms(2) by (simp_all add: clock_numeric_def numeric_iff)
  ultimately show ?thesis
    using assms(1,2) core_summary_total database_summary_total
    by (fastforce simp: summary_run_def summary_build_def summary_validate_def numeric_iff)
qed

definition sample_summary_config :: pyval where
  "sample_summary_config = PDict
     [(''expected_hostname'', PStr ''n''), (''core_state_file'', PStr CORE_PATH), (''database_cache_file'', PStr CACHE_PATH),
      (''database_unit'', PStr DB_UNIT)]"

lemma summary_run_completes_witness:
  "\<exists>report. summary_run sample_summary_config
     \<lparr>sy_hostname = ''n'', sy_previous = Inl FileNotFoundError, sy_core = Inr (PDict []), sy_cache = Inl ValueError,
      sy_unit = Inl SubprocessError, sy_before = (100, 10), sy_after = (101, 11)\<rparr> = Inr report"
  by (rule summary_run_completes)
     (simp_all add: summary_config_ok_def sample_summary_config_def has_keys_def is_string_def head_match_def class_match_def
        char_class_defs)

end
