(* ===== verification/BackupContract.thy ===== *)
theory BackupContract
  imports CorePbsMonitor BackupHealthSummary
begin

text \<open>
  The file the core monitor writes is the file the summary reads: \<open>core_json\<close> is the part of
  \<open>state.json\<close> the summary looks at, as \<open>atomic_json\<close> writes it. The properties say that a
  completed run of the monitor leaves a file from which the summary takes over the verdict.
\<close>

definition verdict_name :: "core_verdict \<Rightarrow> string" where
  "verdict_name v = (case v of CoreHealthy \<Rightarrow> ''HEALTHY'' | CorePending \<Rightarrow> ''PENDING'' | CoreFailed \<Rightarrow> ''FAILED'')"

definition point_json :: "core_point \<Rightarrow> pyval" where
  "point_json p =
     (case p of
        None \<Rightarrow> PDict [(''ctime'', PNone), (''volid'', PNone), (''age_seconds'', PNone)]
      | Some (ctime, volid, age) \<Rightarrow> PDict [(''ctime'', PInt ctime), (''volid'', PStr volid), (''age_seconds'', PFloat age)])"

definition observation_json :: "core_report \<Rightarrow> pyval" where
  "observation_json r = PDict
     [(''status'', PStr (verdict_name (ir_status r))), (''observed_at_epoch'', PFloat (ir_observed r)),
      (''query_status'', PStr (if ir_query_ok r then ''OK'' else ''UNAVAILABLE'')),
      (''inventory_observed_at_epoch'', case ir_inventory r of None \<Rightarrow> PNone | Some i \<Rightarrow> PFloat i),
      (''point_evidence'', PStr (ir_evidence r)),
      (''last_valid_points'', PDict (map (\<lambda>(ctid, p). (str_of_int ctid, point_json p)) (ir_points r)))]"

definition core_json :: "core_state \<Rightarrow> pyval" where
  "core_json s = PDict
     ((case st_schema s of None \<Rightarrow> [] | Some v \<Rightarrow> [(''observation_schema_version'', PInt v)])
      @ (case st_observation s of None \<Rightarrow> [] | Some r \<Rightarrow> [(''last_observation'', observation_json r)]))"

text \<open>A run that gets as far as its decision leaves the observation it recorded on disk.\<close>

definition observed :: "core_report \<Rightarrow> core_state \<Rightarrow> bool" where
  "observed r s = (st_schema s = Some 1 \<and> st_observation s = Some r)"

lemma core_after_mail_observed [simp]: "observed r (core_after_mail s now a) = observed r s"
  by (cases a) (simp_all add: core_after_mail_def observed_def Let_def)

lemma core_deliver_observed: "observed r s \<Longrightarrow> observed r (disk s (fst (core_deliver s report event env)))"
  by (simp add: core_deliver_def Let_def) (simp add: observed_def core_attempt_def)

lemma core_transition_observed: "core_transition s report = (u, ev) \<Longrightarrow> observed r u = observed r s"
  by (auto simp: core_transition_def observed_def Let_def split: if_splits)

lemma core_deliver_persists:
  "disk t (fst (core_deliver s report event env)) = disk s (fst (core_deliver s report event env))"
  by (simp add: core_deliver_def Let_def)

lemma core_decide_observed:
  assumes "observed r s" "snd (core_decide s report env) \<noteq> Inl KeyError"
  shows "observed r (disk t (fst (core_decide s report env)))"
proof (cases "ir_status report = CorePending")
  case True
  then show ?thesis using assms(1) by (simp add: core_decide_def observed_def Let_def)
next
  case False
  obtain u ev where t: "core_transition s report = (u, ev)" by (cases "core_transition s report")
  have d: "observed r u" using assms(1) core_transition_observed [OF t] by simp
  show ?thesis
  proof (cases ev)
    case (Some event)
    then show ?thesis using False t core_deliver_observed [OF d]
      by (simp add: core_decide_def core_deliver_persists [of t] Let_def)
  next
    case None
    have "observed r (s\<lparr>st_report := Some report\<rparr>)" "observed r (s\<lparr>st_last_check := x\<rparr>)" for x
      using assms(1) by (simp_all add: observed_def)
    then show ?thesis using False t None assms core_deliver_observed
      by (auto simp: core_decide_def core_deliver_persists [of t] Let_def split: option.splits)
  qed
qed

lemma ctid_names: "map str_of_int CTIDS = CORE_MEMBERS"
  by (simp add: str_of_ctid CORE_MEMBERS_def)

text \<open>Points that are what the monitor records: taken not after the observation, with their age.\<close>

definition point_ok :: "rat \<Rightarrow> core_point \<Rightarrow> bool" where
  "point_ok stamp p =
     (case p of None \<Rightarrow> True
      | Some (ctime, _, age) \<Rightarrow> 0 \<le> ctime \<and> of_int ctime \<le> stamp \<and> age = fsub stamp (of_int ctime))"

lemma fsub_bound: "0 \<le> b \<Longrightarrow> b \<le> a \<Longrightarrow> a \<le> 4102444800 \<Longrightarrow> fsub a b \<le> 4102444800"
  using fl_le_of_int [of "a - b" 4102444800] by (simp add: fsub_def)

lemma core_point_json:
  assumes "point_ok stamp p" "stamp \<le> 4102444800"
  shows "core_point now stamp (Some stamp) (point_json p) =
     Inr (case p of None \<Rightarrow> None | Some (ctime, _) \<Rightarrow> Some (of_int ctime, fsub now (of_int ctime)))"
proof (cases p)
  case None
  then show ?thesis by (simp add: point_json_def core_point_def)
next
  case (Some q)
  obtain ctime volid age where q: "q = (ctime, volid, age)" by (cases q)
  have b: "0 \<le> ctime" "(of_int ctime :: rat) \<le> stamp" "age = fsub stamp (of_int ctime)"
    using assms(1) by (simp_all add: point_ok_def Some q)
  have "0 \<le> age" "age \<le> 4102444800"
    using b fsub_bound [of "of_int ctime" stamp] assms(2) by (simp_all add: fsub_nonneg)
  moreover have "(of_int ctime :: rat) \<le> 4102444800" using b(2) assms(2) by simp
  ultimately show ?thesis
    using b by (simp add: point_json_def Some q core_point_def numeric_iff TOLERANCE_def Let_def bindR_def numeric_def)
qed


lemma last_valid_point_ok:
  assumes "\<forall>row\<in>set content. is_int (get row ''ctime'') \<longrightarrow> 0 \<le> ctime_of row"
  shows "point_ok (stamp_of now) (last_valid_point now content ctid)"
proof (cases "newest (filter (\<lambda>row. valid_row now row ctid) (rows_of content ctid))")
  case None
  then show ?thesis by (simp add: last_valid_point_def point_ok_def)
next
  case (Some p)
  then have "p \<in> set content" "valid_row now p ctid"
    using newest_greatest [OF Some] by (auto simp: rows_of_def)
  then show ?thesis using Some assms valid_row_facts(2) by (auto simp: last_valid_point_def point_ok_def)
qed

lemma healthy_points:
  assumes "ir_status (inspect content now deadline first_due) = CoreHealthy" "first_due \<le> kst_day now" "ctid \<in> set CTIDS"
  shows "last_valid_point now content ctid \<noteq> None"
proof -
  obtain row where r: "newest (scheduled_rows content ctid) = Some row" "valid_row now row ctid"
    using healthy_scheduled [OF assms] .
  then have "row \<in> set (filter (\<lambda>row. valid_row now row ctid) (rows_of content ctid))"
    using newest_greatest [OF r(1)] by (auto simp: scheduled_rows_def)
  then have "newest (filter (\<lambda>row. valid_row now row ctid) (rows_of content ctid)) \<noteq> None"
    by (cases "filter (\<lambda>row. valid_row now row ctid) (rows_of content ctid)") (auto split: option.split)
  then show ?thesis by (auto simp: last_valid_point_def)
qed

definition projected :: "rat \<Rightarrow> core_point \<Rightarrow> (rat \<times> rat) option" where
  "projected now p = (case p of None \<Rightarrow> None | Some (ctime, _) \<Rightarrow> Some (of_int ctime, fsub now (of_int ctime)))"

lemma core_points_json:
  assumes "\<forall>ctid. point_ok stamp (f ctid)" "stamp \<le> 4102444800"
  shows "core_points now stamp (Some stamp)
           (PDict (map (\<lambda>(ctid, p). (str_of_int ctid, point_json p)) (map (\<lambda>ctid. (ctid, f ctid)) CTIDS))) =
         Inr (map (\<lambda>ctid. (str_of_int ctid, projected now (f ctid))) CTIDS)"
proof -
  have "core_point now stamp (Some stamp) (point_json (f ctid)) = Inr (projected now (f ctid))" for ctid
    using core_point_json [of stamp "f ctid" now] assms by (simp add: projected_def)
  then show ?thesis using str_of_ctid by (simp add: core_points_def CORE_MEMBERS_def CTIDS_def)
qed

lemma observed_evidence:
  assumes r: "ir_query_ok r" "ir_evidence r = ''OBSERVED''" "ir_inventory r = Some (ir_observed r)"
      "ir_points r = map (\<lambda>ctid. (ctid, f ctid)) CTIDS"
    and ok: "\<forall>ctid. point_ok (ir_observed r) (f ctid)"
    and healthy: "ir_status r = CoreHealthy \<Longrightarrow> \<forall>ctid\<in>set CTIDS. f ctid \<noteq> None"
    and stamp: "0 \<le> ir_observed r" "ir_observed r \<le> 4102444800" "ir_observed r \<le> now"
    and s: "observed r s"
  shows "\<exists>e. core_evidence_of (core_json s) now = Inr e \<and> be_stamp e = ir_observed r \<and> be_query e = ''OK''
     \<and> be_status e = verdict_name (ir_status r)"
proof -
  have j: "core_json s = PDict [(''observation_schema_version'', PInt 1), (''last_observation'', observation_json r)]"
    using s by (simp add: core_json_def observed_def)
  have k: "has_keys (PDict (map (\<lambda>(ctid, p). (str_of_int ctid, point_json p)) (ir_points r))) CORE_MEMBERS"
    using str_of_ctid by (simp add: has_keys_iff r(4) CTIDS_def CORE_MEMBERS_def)
  have h: "is_string (PStr (verdict_name (ir_status r))) ''HEALTHY'' \<longrightarrow>
      list_all (\<lambda>(_, p). p \<noteq> None) (map (\<lambda>ctid. (str_of_int ctid, projected now (f ctid))) CTIDS)"
    using healthy
    by (cases "ir_status r") (fastforce simp: is_string_def verdict_name_def projected_def list_all_iff split: option.split)+
  have v: "verdict_name (ir_status r) \<in> set [''HEALTHY'', ''FAILED'', ''PENDING'']"
    by (cases "ir_status r") (simp_all add: verdict_name_def)
  note pts = core_points_json [OF ok stamp(2), of now, folded r(4)]
  show ?thesis
    using r(1-3) stamp k h v pts
    by (simp add: j core_evidence_of_def observation_json_def numeric_iff numeric_def bindR_def core_provenance_ok_def Let_def)
qed

text \<open>C14: The verdict of a completed run of the core monitor whose query worked is the verdict of the
  summary for the next twelve minutes, once the daily schedule applies: the summary accepts
  the file the monitor leaves on disk and repeats its status.\<close>

theorem summary_takes_over_core_verdict:
  assumes "core_run s env = (es, Inr (report, outcome))" "ke_content env = Inr content"
    and "ke_first_due env \<le> kst_day (ke_now env)"
    and "\<forall>row\<in>set content. is_int (get row ''ctime'') \<longrightarrow> 0 \<le> ctime_of row"
    and "0 \<le> stamp_of (ke_now env)" "stamp_of (ke_now env) \<le> 4102444800"
    and "stamp_of (ke_now env) \<le> later" "fsub later (stamp_of (ke_now env)) \<le> 720"
  shows "\<exists>out. core_summary (core_json (disk s es)) later True = Inr out
     \<and> bs_verdict out = verdict_name (ir_status report)"
proof -
  let ?now = "stamp_of (ke_now env)"
  let ?i = "inspect content (ke_now env) (ke_deadline env) (ke_first_due env)"
  obtain s1 r where ro: "record_observation s ?i ?now True = Inr (s1, r)"
    and d: "(es, Inr (report, outcome)) = core_decide s1 r env"
    using assms(1,2)
    by (auto simp: core_run_def core_observe_def Let_def split: if_splits sum.splits)
  have r: "r = ?i\<lparr>ir_observed := ?now, ir_query_ok := True, ir_inventory := Some ?now, ir_evidence := ''OBSERVED''\<rparr>"
    and s1: "observed r s1"
    using ro by (auto simp: record_observation_def observed_def Let_def split: if_splits)
  have rep: "report = r"
    using d by (auto simp: core_decide_def core_deliver_def core_mail_result_def Let_def
        split: if_splits option.splits prod.splits core_mail.splits)
  have obs: "observed r (disk s es)"
    using core_decide_observed [OF s1, of r env s] d by (metis fst_conv sum.distinct(1) snd_conv)
  have "\<exists>e. core_evidence_of (core_json (disk s es)) later = Inr e \<and> be_stamp e = ir_observed r \<and> be_query e = ''OK''
     \<and> be_status e = verdict_name (ir_status r)"
  proof (rule observed_evidence [where f = "last_valid_point (ke_now env) content"])
    show "ir_points r = map (\<lambda>ctid. (ctid, last_valid_point (ke_now env) content ctid)) CTIDS"
      by (simp add: r inspect_def Let_def)
    show "ir_status r = CoreHealthy \<Longrightarrow> \<forall>ctid\<in>set CTIDS. last_valid_point (ke_now env) content ctid \<noteq> None"
      using healthy_points [OF _ assms(3)] by (auto simp: r)
  qed (use assms(5-7) obs last_valid_point_ok [OF assms(4)] in \<open>simp_all add: r\<close>)
  then obtain e where e: "core_evidence_of (core_json (disk s es)) later = Inr e" "be_stamp e = ?now" "be_query e = ''OK''"
    "be_status e = verdict_name (ir_status report)"
    by (auto simp: r rep)
  then show ?thesis using assms(8)
    by (simp add: core_summary_def core_conclusion_def CORE_FRESHNESS_def Let_def)
qed

lemma summary_takes_over_core_verdict_witness:
  "\<exists>out. core_summary (core_json (disk empty_core_state (fst (core_run empty_core_state
      \<lparr>ke_now = 1735844400000000, ke_content = Inr sample_listing, ke_deadline = 16200000000, ke_first_due = 20091,
       ke_mail = CmSent\<rparr>)))) 1735844500 True = Inr out \<and> bs_verdict out = ''HEALTHY''"
proof -
  let ?env = "\<lparr>ke_now = 1735844400000000, ke_content = Inr sample_listing, ke_deadline = 16200000000, ke_first_due = 20091,
       ke_mail = CmSent\<rparr>"
  have now: "stamp_of 1735844400000000 = 1735844400" using stamp_of_seconds [of 1735844400] by simp
  obtain es report outcome where run: "core_run empty_core_state ?env = (es, Inr (report, outcome))"
    "ir_status report = CoreHealthy"
    using sample_listing_healthy
    by (simp add: core_run_def core_observe_def record_observation_def empty_core_state_def adopt_legacy_def core_decide_def
        core_transition_def core_deliver_def now fadd_def Let_def)
  have "\<forall>row\<in>set sample_listing. is_int (get row ''ctime'') \<longrightarrow> 0 \<le> ctime_of row"
    by (simp add: sample_listing_def sample_row_simps)
  from summary_takes_over_core_verdict [OF run(1) _ _ this, where later = 1735844500] show ?thesis
    by (simp add: run now kst_day_def day_us_def kst_us_def verdict_name_def fsub_def)
qed

end
