(* ===== verification/PyNet.thy ===== *)
theory PyNet
  imports PyValue "HOL-Library.Word"
begin

unbundle bit_operations_syntax

text \<open>
  What the programs use of \<open>ipaddress\<close>: an \<open>IPv4Address\<close> is a 32-bit word, an \<open>IPv4Network\<close> its
  network address with the prefix length. The constructors return \<open>None\<close> where the module
  raises a \<open>ValueError\<close>.
\<close>

type_synonym ipv4 = "32 word"

type_synonym network = "ipv4 \<times> nat"

section \<open>Addresses\<close>

definition ip_octet :: "string \<Rightarrow> int option" where
  "ip_octet s =
     (if class_match is_digit 1 3 s \<and> (length s > 1 \<longrightarrow> hd s \<noteq> CHR ''0'') \<and> decimal s \<le> 255
      then Some (decimal s) else None)"

definition ip_of_octets :: "int \<Rightarrow> int \<Rightarrow> int \<Rightarrow> int \<Rightarrow> ipv4" where
  "ip_of_octets a b c d = word_of_int (((a * 256 + b) * 256 + c) * 256 + d)"

definition parse_ipv4 :: "string \<Rightarrow> ipv4 option" where
  "parse_ipv4 s =
     (case map ip_octet (split_on CHR ''.'' s) of
        [Some a, Some b, Some c, Some d] \<Rightarrow> Some (ip_of_octets a b c d)
      | _ \<Rightarrow> None)"

definition octet_of :: "ipv4 \<Rightarrow> nat \<Rightarrow> nat" where
  "octet_of a i = unat a div 256 ^ (3 - i) mod 256"

text \<open>\<open>str(address)\<close>\<close>

definition ipv4_text :: "ipv4 \<Rightarrow> string" where
  "ipv4_text a = join_with ''.'' (map (\<lambda>i. str_of_nat (octet_of a i)) [0, 1, 2, 3])"

text \<open>\<open>IPv4Address(v)\<close> of a JSON value: an \<open>int\<close> is taken as the number of the address.\<close>

fun ip_value :: "pyval \<Rightarrow> ipv4 option" where
  "ip_value (PInt i) = (if 0 \<le> i \<and> i < 2 ^ 32 then Some (word_of_int i) else None)"
| "ip_value (PBool b) = Some (if b then 1 else 0)"
| "ip_value (PStr s) = parse_ipv4 s"
| "ip_value _ = None"

subsection \<open>Round trip\<close>

lemma str_of_nat_small: "n < 10 \<Longrightarrow> str_of_nat n = [digit_char n]"
  by (simp add: str_of_nat.simps)

lemma str_of_nat_step: "10 \<le> n \<Longrightarrow> str_of_nat n = str_of_nat (n div 10) @ [digit_char (n mod 10)]"
  by (simp add: str_of_nat.simps)

lemma digit_char_zero: "n < 10 \<Longrightarrow> digit_char n = CHR ''0'' \<longleftrightarrow> n = 0"
proof -
  assume "n < 10"
  then have v: "digit_val (digit_char n) = int n" by (rule digit_val_char)
  have "digit_val CHR ''0'' = 0" "digit_char 0 = CHR ''0''" by code_simp+
  with v show ?thesis by auto
qed

lemma str_of_nat_head: "0 < n \<Longrightarrow> str_of_nat n \<noteq> [] \<and> hd (str_of_nat n) \<noteq> CHR ''0''"
proof (induction n rule: str_of_nat.induct)
  case (1 n)
  then show ?case
    by (cases "n < 10") (auto simp: str_of_nat_small str_of_nat_step digit_char_zero)
qed

lemma str_of_octet_length: "n < 256 \<Longrightarrow> length (str_of_nat n) \<le> 3 \<and> (1 < length (str_of_nat n) \<longrightarrow> 0 < n)"
proof -
  assume n: "n < 256"
  show ?thesis
  proof (cases "n < 10")
    case True
    then show ?thesis by (simp add: str_of_nat_small)
  next
    case False
    then have "str_of_nat n = str_of_nat (n div 10) @ [digit_char (n mod 10)]" by (simp add: str_of_nat_step)
    moreover have "length (str_of_nat (n div 10)) \<le> 2"
    proof (cases "n div 10 < 10")
      case True
      then show ?thesis by (simp add: str_of_nat_small)
    next
      case False
      then have "str_of_nat (n div 10) = str_of_nat (n div 10 div 10) @ [digit_char (n div 10 mod 10)]"
        by (intro str_of_nat_step) simp
      moreover have "n div 10 div 10 < 10" using n by simp
      ultimately show ?thesis by (simp add: str_of_nat_small)
    qed
    ultimately show ?thesis using False by simp
  qed
qed

lemma ip_octet_text: "n < 256 \<Longrightarrow> ip_octet (str_of_nat n) = Some (int n)"
  using str_of_octet_length [of n] str_of_nat_digits [of n] str_of_nat_head [of n] decimal_str_of_nat [of n]
  by (cases "n = 0") (auto simp: ip_octet_def class_match_def str_of_nat_small is_digit_def Suc_le_eq)

lemma str_of_nat_no_dot: "CHR ''.'' \<notin> set (str_of_nat n)"
  using str_of_nat_digits [of n] by (auto simp: list_all_iff is_digit_def)

lemma ip_of_octet_of: "ip_of_octets (int (octet_of a 0)) (int (octet_of a 1)) (int (octet_of a 2)) (int (octet_of a 3)) = a"
proof -
  let ?n = "unat a"
  have n: "?n < 2 ^ 32" using unsigned_less [of a] by simp
  have h: "?n div 16777216 mod 256 = ?n div 16777216"
    using n by (simp add: div_less_dividend less_mult_imp_div_less)
  have eq: "((?n div 16777216 * 256 + ?n div 65536 mod 256) * 256 + ?n div 256 mod 256) * 256 + ?n mod 256 = ?n"
  proof -
    have "?n div 65536 = ?n div 16777216 * 256 + ?n div 65536 mod 256"
      using div_mult2_eq [of ?n 65536 256] mult_div_mod_eq [of 256 "?n div 65536"] by simp
    moreover have "?n div 256 = ?n div 65536 * 256 + ?n div 256 mod 256"
      using div_mult2_eq [of ?n 256 256] mult_div_mod_eq [of 256 "?n div 256"] by simp
    ultimately show ?thesis by simp
  qed
  have "((int (octet_of a 0) * 256 + int (octet_of a 1)) * 256 + int (octet_of a 2)) * 256 + int (octet_of a 3) =
      int (((?n div 16777216 * 256 + ?n div 65536 mod 256) * 256 + ?n div 256 mod 256) * 256 + ?n mod 256)"
    using h by (simp add: octet_of_def)
  also have "\<dots> = uint a" by (simp only: eq uint_nat)
  finally show ?thesis by (simp add: ip_of_octets_def)
qed

lemma parse_ipv4_text: "parse_ipv4 (ipv4_text a) = Some a"
proof -
  have "octet_of a i < 256" for i by (simp add: octet_of_def)
  then show ?thesis
    by (simp add: parse_ipv4_def ipv4_text_def split_on_append split_on_plain str_of_nat_no_dot ip_octet_text
        ip_of_octet_of [simplified])
qed

lemma ipv4_text_inject: "ipv4_text a = ipv4_text b \<Longrightarrow> a = b"
  by (metis option.inject parse_ipv4_text)

section \<open>Networks\<close>

definition netmask :: "nat \<Rightarrow> ipv4" where
  "netmask p = push_bit (32 - p) (mask p)"

definition mask_prefix :: "ipv4 \<Rightarrow> nat option" where
  "mask_prefix m =
     (case find (\<lambda>p. m = netmask p) [0..<33] of
        Some p \<Rightarrow> Some p
      | None \<Rightarrow> find (\<lambda>p. m = NOT (netmask p)) [0..<33])"

definition prefix_of :: "string \<Rightarrow> nat option" where
  "prefix_of s =
     (if s \<noteq> [] \<and> list_all is_digit s \<and> decimal s \<le> 32 then Some (nat (decimal s))
      else case parse_ipv4 s of None \<Rightarrow> None | Some m \<Rightarrow> mask_prefix m)"

definition make_network :: "ipv4 \<Rightarrow> nat \<Rightarrow> network option" where
  "make_network a p = (if a AND netmask p = a then Some (a, p) else None)"

definition parse_network :: "string \<Rightarrow> network option" where
  "parse_network s =
     (case split_on CHR ''/'' s of
        [w] \<Rightarrow> (case parse_ipv4 w of None \<Rightarrow> None | Some a \<Rightarrow> make_network a 32)
      | [w, m] \<Rightarrow>
          (case (parse_ipv4 w, prefix_of m) of (Some a, Some p) \<Rightarrow> make_network a p | _ \<Rightarrow> None)
      | _ \<Rightarrow> None)"

fun network_value :: "pyval \<Rightarrow> network option" where
  "network_value (PStr s) = parse_network s"
| "network_value v = (case ip_value v of None \<Rightarrow> None | Some a \<Rightarrow> Some (a, 32))"

definition in_network :: "ipv4 \<Rightarrow> network \<Rightarrow> bool" where
  "in_network a n = (a AND netmask (snd n) = fst n)"

definition broadcast :: "network \<Rightarrow> ipv4" where
  "broadcast n = fst n OR NOT (netmask (snd n))"

definition overlaps :: "network \<Rightarrow> network \<Rightarrow> bool" where
  "overlaps m n =
     (in_network (fst n) m \<or> in_network (broadcast n) m \<or> in_network (fst m) n \<or> in_network (broadcast m) n)"

text \<open>\<open>overlaps\<close> looks at the ends only; for networks that is enough: they are nested or disjoint.\<close>

lemma netmask_le: "p \<le> q \<Longrightarrow> q \<le> 32 \<Longrightarrow> netmask p AND netmask q = netmask p"
  by (rule bit_word_eqI) (auto simp: netmask_def bit_simps)

lemma disjoint_networks:
  assumes "\<not> overlaps m n" "snd m \<le> 32" "snd n \<le> 32"
    and "fst m AND netmask (snd m) = fst m" "fst n AND netmask (snd n) = fst n"
  shows "\<not> (in_network a m \<and> in_network a n)"
proof
  assume a: "in_network a m \<and> in_network a n"
  have sub: "in_network (fst y) x" if "in_network a x" "in_network a y" "snd x \<le> snd y" "snd y \<le> 32" for x y
  proof -
    have y: "fst y = a AND netmask (snd y)" using that(2) by (simp add: in_network_def)
    have "fst y AND netmask (snd x) = a AND (netmask (snd x) AND netmask (snd y))"
      unfolding y by (simp only: ac_simps)
    also have "\<dots> = fst x" using that by (simp add: netmask_le in_network_def)
    finally show ?thesis by (simp add: in_network_def)
  qed
  have "in_network (fst n) m \<or> in_network (fst m) n"
    using sub [of m n] sub [of n m] a assms(2,3) by (cases "snd m \<le> snd n") auto
  with assms(1) show False by (auto simp: overlaps_def)
qed

lemma netmask_full: "netmask 32 = - 1"
  by (rule bit_word_eqI) (simp add: netmask_def bit_simps)

lemma network_value_strict:
  assumes "network_value v = Some n"
  shows "fst n AND netmask (snd n) = fst n"
proof -
  have host: "fst n AND netmask (snd n) = fst n" if "n = (a, 32)" for a
    using that by (simp add: netmask_full)
  show ?thesis
    using assms
    by (cases v rule: network_value.cases)
       (auto simp: parse_network_def make_network_def host netmask_full split: option.splits list.splits if_splits prod.splits)
qed

lemma network_value_length:
  assumes "network_value v = Some n"
  shows "snd n \<le> 32"
proof -
  have "p \<le> 32" if "mask_prefix m = Some p" for m p
    using that by (auto simp: mask_prefix_def find_Some_iff split: option.splits)
  then have "p \<le> 32" if "prefix_of s = Some p" for s p
    using that by (auto simp: prefix_of_def split: if_splits option.splits)
  then show ?thesis
    using assms
    by (cases v rule: network_value.cases)
       (auto simp: parse_network_def make_network_def split: option.splits list.splits if_splits prod.splits)
qed

text \<open>A network is an interval of addresses.\<close>

lemma unat_netmask: "p \<le> 32 \<Longrightarrow> unat (a AND netmask p) = unat a div 2 ^ (32 - p) * 2 ^ (32 - p)"
proof -
  assume p: "p \<le> 32"
  have "unat (a AND netmask p) = push_bit (32 - p) (drop_bit (32 - p) (unat a))"
    using p by (intro bit_eqI) (auto simp: netmask_def bit_simps dest: bit_imp_le_length)
  then show ?thesis by (simp add: push_bit_eq_mult drop_bit_eq_div)
qed

lemma network_interval:
  assumes "in_network a n" "in_network b n" "a \<le> x" "x \<le> b" "snd n \<le> 32"
  shows "in_network x n"
proof -
  have "unat a \<le> unat x" "unat x \<le> unat b" using assms(3,4) by (simp_all add: word_le_nat_alt)
  then have "unat a div 2 ^ (32 - snd n) \<le> unat x div 2 ^ (32 - snd n)" "unat x div 2 ^ (32 - snd n) \<le> unat b div 2 ^ (32 - snd n)"
    by (simp_all add: div_le_mono)
  moreover have "unat a div 2 ^ (32 - snd n) = unat b div 2 ^ (32 - snd n)"
    using assms(1,2,5) by (metis in_network_def unat_netmask mult_cancel2 power_not_zero zero_neq_numeral)
  ultimately have "unat (x AND netmask (snd n)) = unat (a AND netmask (snd n))" using assms(5) by (simp add: unat_netmask)
  then show ?thesis using assms(1) by (simp add: in_network_def word_unat_eq_iff)
qed

end
