(* ===== verification/NetConfig.thy ===== *)
theory NetConfig
  imports PyNet
begin

text \<open>
  The configuration of \<open>scripts/lib/production_network.py\<close>: \<open>validate_config\<close> with its sections,
  \<open>validate_sdn_inventory\<close> and \<open>parse_netbird_accept_mark\<close>. \<open>validate_config\<close> accepts or raises;
  here it is a Boolean, whatever class the exception has. The rule listings come as the
  token lists of \<open>shlex.split\<close>, and the acceptance mark of the hypervisor's source file as the
  mask its pattern finds.
\<close>

section \<open>Names and addresses\<close>

definition word_char :: "char \<Rightarrow> bool" where
  "word_char c = (is_alnum c \<or> one_of ''_-'' c)"

definition net_name :: "nat \<Rightarrow> pyval \<Rightarrow> bool" where
  "net_name n v = (is_str v \<and> head_match (\<lambda>c. is_lower c \<or> is_upper c) word_char 0 n (the_str v))"

definition values_of :: "pyval \<Rightarrow> pyval list" where
  "values_of v = map snd (items v)"

definition subscript :: "pyval \<Rightarrow> string \<Rightarrow> pyval option" where
  "subscript v k = map_of (items v) k"

abbreviation ip_at :: "pyval \<Rightarrow> string \<Rightarrow> ipv4 option" where
  "ip_at v k \<equiv> Option.bind (subscript v k) ip_value"

abbreviation net_at :: "pyval \<Rightarrow> string \<Rightarrow> network option" where
  "net_at v k \<equiv> Option.bind (subscript v k) network_value"

definition vnet_of :: "pyval \<Rightarrow> string \<Rightarrow> pyval" where
  "vnet_of config name = get (get config ''vnets'') name"

text \<open>The addresses of the hosts: every present and non-empty one has to be an address.\<close>

definition host_values :: "pyval \<Rightarrow> pyval list" where
  "host_values config =
     concat (map (\<lambda>node. filter truthy (map (get node) [''campus'', ''mesh'', ''bmc_address''])) (values_of (get config ''nodes'')))"

definition host_addresses :: "pyval \<Rightarrow> ipv4 list" where
  "host_addresses config = List.map_filter ip_value (host_values config)"

definition vnet_networks :: "pyval \<Rightarrow> network list" where
  "vnet_networks config = List.map_filter (\<lambda>vnet. net_at vnet ''cidr'') (values_of (get config ''vnets''))"

section \<open>\<open>validate_config\<close>\<close>

definition node_ok :: "pyval \<Rightarrow> bool" where
  "node_ok node =
     (is_dict node \<and> ip_at node ''campus'' \<noteq> None \<and> ip_at node ''mesh'' \<noteq> None
      \<and> (truthy (get node ''bmc_interface'') \<longrightarrow>
           net_name 14 (get node ''bmc_interface'') \<and> ip_at node ''bmc_address'' \<noteq> None))"

definition node_addresses :: "pyval \<Rightarrow> ipv4 list" where
  "node_addresses config =
     concat (map (\<lambda>node. [the (ip_at node ''campus''), the (ip_at node ''mesh'')]) (values_of (get config ''nodes'')))"

definition vnet_ok :: "pyval \<Rightarrow> bool" where
  "vnet_ok vnet =
     (is_dict vnet
      \<and> (case (net_at vnet ''cidr'', ip_at vnet ''gateway'') of
           (Some n, Some gateway) \<Rightarrow> 16 \<le> snd n \<and> snd n \<le> 24 \<and> in_network gateway n
         | _ \<Rightarrow> False)
      \<and> (case num_of (get vnet ''vni'') of None \<Rightarrow> False | Some q \<Rightarrow> 1 \<le> q \<and> q \<le> 16777215))"

fun pairwise :: "('a \<Rightarrow> 'a \<Rightarrow> bool) \<Rightarrow> 'a list \<Rightarrow> bool" where
  "pairwise r [] = True"
| "pairwise r (x # xs) = (list_all (r x) xs \<and> pairwise r xs)"

definition disjoint_hosts :: "pyval \<Rightarrow> bool" where
  "disjoint_hosts config =
     list_all (\<lambda>v. case ip_value v of None \<Rightarrow> False | Some a \<Rightarrow> list_all (\<lambda>n. \<not> in_network a n) (vnet_networks config))
       (host_values config)"

definition base_ok :: "pyval \<Rightarrow> bool" where
  "base_ok config =
     (is_dict config \<and> py_eq (PInt 1) (get config ''schema'')
      \<and> is_dict (get config ''nodes'') \<and> length (items (get config ''nodes'')) = 2
      \<and> is_str (get config ''gateway_owner'') \<and> has_key (get config ''nodes'') (the_str (get config ''gateway_owner''))
      \<and> has_keys (get config ''vnets'') [''pinfra'', ''pguest'']
      \<and> py_eq (PInt 1420) (get config ''host_mtu'') \<and> py_eq (PInt 1370) (get config ''guest_mtu'')
      \<and> list_all (net_name 30) (map (get config) [''cluster'', ''zone'', ''uplink'', ''mesh_interface''])
      \<and> list_all (\<lambda>(name, _). net_name 30 (PStr name)) (items (get config ''nodes''))
      \<and> list_all node_ok (values_of (get config ''nodes'')) \<and> distinct (node_addresses config)
      \<and> list_all vnet_ok (values_of (get config ''vnets''))
      \<and> pairwise (\<lambda>m n. \<not> overlaps n m) (vnet_networks config)
      \<and> disjoint_hosts config
      \<and> \<not> py_eq (get (vnet_of config ''pinfra'') ''vni'') (get (vnet_of config ''pguest'') ''vni'')
      \<and> is_dict (get config ''service_sources'')
      \<and> list_all (\<lambda>v. ip_value v \<noteq> None) (values_of (get config ''service_sources'')))"

text \<open>An address inside the infrastructure network that is none of its special ones.\<close>

definition infra_host :: "pyval \<Rightarrow> ipv4 \<Rightarrow> bool" where
  "infra_host config a =
     (case (net_at (vnet_of config ''pinfra'') ''cidr'', ip_at (vnet_of config ''pinfra'') ''gateway'') of
        (Some infra, Some gateway) \<Rightarrow> in_network a infra \<and> a \<noteq> fst infra \<and> a \<noteq> broadcast infra \<and> a \<noteq> gateway
      | _ \<Rightarrow> False)"

text \<open>An address outside of the guest networks and of the hosts.\<close>

definition foreign :: "pyval \<Rightarrow> ipv4 \<Rightarrow> bool" where
  "foreign config a = (list_all (\<lambda>n. \<not> in_network a n) (vnet_networks config) \<and> a \<notin> set (host_addresses config))"

definition special :: "ipv4 \<Rightarrow> bool" where
  "special a =
     (a = 0 \<or> in_network a (ip_of_octets 224 0 0 0, 4) \<or> in_network a (ip_of_octets 127 0 0 0, 8)
      \<or> in_network a (ip_of_octets 169 254 0 0, 16) \<or> a = ip_of_octets 255 255 255 255)"

definition text_ip :: "pyval \<Rightarrow> string \<Rightarrow> ipv4 option" where
  "text_ip v k =
     (case subscript v k of
        Some (PStr s) \<Rightarrow> (case parse_ipv4 s of None \<Rightarrow> None | Some a \<Rightarrow> if ipv4_text a = s then Some a else None)
      | _ \<Rightarrow> None)"

definition is_source :: "pyval \<Rightarrow> string \<Rightarrow> ipv4 \<Rightarrow> bool" where
  "is_source config name a = (ip_at (get config ''service_sources'') name = Some a)"

definition backup_ok :: "pyval \<Rightarrow> bool" where
  "backup_ok config =
     (let b = get config ''backup_service''
      in has_key config ''backup_service'' \<longrightarrow>
           has_keys b [''source'', ''destination'', ''port''] \<and> get b ''port'' = PInt 8007
           \<and> (case (ip_at b ''source'', ip_at b ''destination'') of
                (Some source, Some destination) \<Rightarrow> infra_host config source \<and> foreign config destination
              | _ \<Rightarrow> False))"

definition ingress_ok :: "pyval \<Rightarrow> bool" where
  "ingress_ok config =
     (let i = get config ''interim_ingress''
      in has_key config ''interim_ingress'' \<longrightarrow>
           has_keys i [''source'', ''destination'']
           \<and> (case (text_ip i ''source'', text_ip i ''destination'') of
                (Some source, Some destination) \<Rightarrow>
                  is_source config ''proxy'' destination \<and> infra_host config destination \<and> source \<noteq> destination
                  \<and> \<not> special source \<and> foreign config source
              | _ \<Rightarrow> False))"

definition ssh_ok :: "pyval \<Rightarrow> bool" where
  "ssh_ok config =
     (let t = get config ''public_ssh_transit''
      in has_key config ''public_ssh_transit'' \<longrightarrow>
           has_keys t [''source'', ''destination'', ''port''] \<and> get t ''port'' = PInt 2224
           \<and> (case (text_ip t ''source'', text_ip t ''destination'') of
                (Some source, Some destination) \<Rightarrow>
                  is_source config ''sshgw'' destination \<and> infra_host config destination \<and> source \<noteq> destination
                  \<and> \<not> special source \<and> foreign config source
              | _ \<Rightarrow> False))"

definition relay_ok :: "pyval \<Rightarrow> bool" where
  "relay_ok config =
     (let t = get config ''relay_transit''
      in has_key config ''relay_transit'' \<longrightarrow>
           has_keys t [''source'', ''api_destination'']
           \<and> (case (text_ip t ''source'', text_ip t ''api_destination'') of
                (Some source, Some destination) \<Rightarrow>
                  is_source config ''relay'' source \<and> \<not> special source \<and> foreign config source
                  \<and> is_source config ''api'' destination \<and> infra_host config destination
              | _ \<Rightarrow> False))"

definition net_config_ok :: "pyval \<Rightarrow> bool" where
  "net_config_ok config = (base_ok config \<and> backup_ok config \<and> ingress_ok config \<and> ssh_ok config \<and> relay_ok config)"

section \<open>The inventory of the hypervisor\<close>

text \<open>\<open>int(v)\<close>\<close>

fun int_value :: "pyval \<Rightarrow> int option" where
  "int_value (PInt i) = Some i"
| "int_value (PBool b) = Some (if b then 1 else 0)"
| "int_value (PFloat q) = Some (if q < 0 then \<lceil>q\<rceil> else \<lfloor>q\<rfloor>)"
| "int_value (PStr s) = (case py_int s of Inr i \<Rightarrow> Some i | Inl _ \<Rightarrow> None)"
| "int_value _ = None"

definition int_equals :: "pyval \<Rightarrow> pyval \<Rightarrow> bool" where
  "int_equals v w = (case int_value v of None \<Rightarrow> False | Some i \<Rightarrow> py_eq (PInt i) w)"

text \<open>\<open>set(v.split(',')) == set(ws)\<close>\<close>

definition same_words :: "pyval \<Rightarrow> pyval list \<Rightarrow> bool" where
  "same_words v ws = (is_str v \<and> set (map PStr (split_on CHR '','' (the_str v))) = set ws)"

definition zone_ok :: "pyval \<Rightarrow> pyval \<Rightarrow> bool" where
  "zone_ok config zone =
     (is_dict zone \<and> is_string (get zone ''type'') ''vxlan''
      \<and> int_equals (get zone ''mtu'') (get config ''guest_mtu'')
      \<and> same_words (get zone ''nodes'') (map (PStr \<circ> fst) (items (get config ''nodes'')))
      \<and> same_words (get zone ''peers'') (map (\<lambda>n. get n ''mesh'') (values_of (get config ''nodes'')))
      \<and> list_all (\<lambda>k. \<not> truthy (get zone k)) [''dhcp'', ''controller'', ''fabric'', ''bridge'', ''dns'', ''dnszone''])"

definition vnet_matches :: "pyval \<Rightarrow> pyval \<Rightarrow> bool" where
  "vnet_matches config v =
     (is_dict v \<and> py_eq (get v ''zone'') (get config ''zone'')
      \<and> int_equals (get v ''tag'') (get (vnet_of config (the_str (get v ''vnet''))) ''vni'')
      \<and> \<not> truthy (get v ''vlanaware'') \<and> \<not> truthy (get v ''isolate-ports''))"

definition sdn_inventory_ok :: "pyval \<Rightarrow> pyval list \<Rightarrow> pyval list \<Rightarrow> bool" where
  "sdn_inventory_ok config zones vnets =
     (list_all (\<lambda>z. has_key z ''zone'' \<and> py_eq (get z ''zone'') (get config ''zone'')) zones
      \<and> list_all (\<lambda>v. is_str (get v ''vnet'') \<and> has_key (get config ''vnets'') (the_str (get v ''vnet''))) vnets
      \<and> list_all (zone_ok config) zones \<and> list_all (vnet_matches config) vnets)"

section \<open>The acceptance mark\<close>

text \<open>\<open>int(s, 0)\<close> for the forms a rule listing has: decimal without a leading zero, and hexadecimal.\<close>

definition hex_value :: "string \<Rightarrow> nat" where
  "hex_value s = foldl (\<lambda>a c. 16 * a + (if is_digit c then code c - 48 else if is_lower c then code c - 87 else code c - 55)) 0 s"

definition hex_char :: "char \<Rightarrow> bool" where
  "hex_char c = (is_hex c \<or> 65 \<le> code c \<and> code c \<le> 70)"

definition int0 :: "string \<Rightarrow> nat option" where
  "int0 s =
     (if starts_with s ''0x'' \<or> starts_with s ''0X''
      then (let d = drop 2 s in if d \<noteq> [] \<and> list_all hex_char d then Some (hex_value d) else None)
      else if s \<noteq> [] \<and> list_all is_digit s \<and> (hd s \<noteq> CHR ''0'' \<or> list_all (\<lambda>c. c = CHR ''0'') s)
      then Some (nat (decimal s)) else None)"

type_synonym mark = "nat \<times> nat"

definition mark_of :: "string \<Rightarrow> mark option" where
  "mark_of s =
     (let value = takeWhile (\<lambda>c. c \<noteq> CHR ''/'') s; m = tl (dropWhile (\<lambda>c. c \<noteq> CHR ''/'') s)
      in case (int0 value, int0 (if m = [] then ''0xffffffff'' else m)) of
           (Some v, Some k) \<Rightarrow> Some (v, k)
         | _ \<Rightarrow> None)"

text \<open>\<open>tokens[tokens.index(k) + 1]\<close>\<close>

definition after_token :: "string \<Rightarrow> string list \<Rightarrow> string option" where
  "after_token k tokens =
     (case dropWhile (\<lambda>t. t \<noteq> k) tokens of _ # v # _ \<Rightarrow> Some v | _ \<Rightarrow> None)"

definition is_mark_accept :: "string list \<Rightarrow> bool" where
  "is_mark_accept t =
     (take 2 t = [''-A'', ''FORWARD''] \<and> drop (length t - 2) t = [''-j'', ''ACCEPT'']
      \<and> (''mark'' \<in> set t \<or> ''--mark'' \<in> set t))"

definition is_exact_accept :: "string list \<Rightarrow> bool" where
  "is_exact_accept t =
     (length t = 8 \<and> take 5 t = [''-A'', ''FORWARD'', ''-m'', ''mark'', ''--mark''] \<and> drop 6 t = [''-j'', ''ACCEPT''])"

definition is_setter :: "string list \<Rightarrow> bool" where
  "is_setter t = (take 2 t = [''-A'', ''NETBIRD-RT-PRE''] \<and> ''--set-xmark'' \<in> set t)"

definition setter_mark :: "string list \<Rightarrow> mark option" where
  "setter_mark t =
     (if after_token ''-i'' t = Some ''wt0'' \<and> after_token ''--dst-type'' t = Some ''LOCAL''
      then Option.bind (after_token ''--set-xmark'' t) mark_of else None)"

datatype mark_result = Mark nat nat nat | MarkNotReady | MarkRefused

fun all_some :: "'a option list \<Rightarrow> 'a list option" where
  "all_some [] = Some []"
| "all_some (x # xs) = (case (x, all_some xs) of (Some y, Some ys) \<Rightarrow> Some (y # ys) | _ \<Rightarrow> None)"

definition marks_ok :: "mark list \<Rightarrow> nat \<Rightarrow> bool" where
  "marks_ok marks pve = list_all (\<lambda>(v, m). m = 0xffffffff \<and> v \<noteq> 0 \<and> v AND pve = 0) marks"

text \<open>The third argument is the mask of \<open>$FWACCEPTMARK_ON\<close>; \<open>None\<close> when the pattern does not match.\<close>

definition parse_netbird_accept_mark :: "string list list \<Rightarrow> string list list \<Rightarrow> nat option \<Rightarrow> mark_result" where
  "parse_netbird_accept_mark filter_rules mangle_rules pve_mask =
     (case (all_some (map (\<lambda>t. mark_of (t ! 5)) (filter is_exact_accept filter_rules)),
            all_some (map setter_mark (filter is_setter mangle_rules)), pve_mask) of
        (Some accepted, Some setters, Some pve) \<Rightarrow>
          let accepted = remdups accepted; setters = remdups setters
          in if length (filter is_mark_accept filter_rules) = length accepted \<and> length accepted \<le> 1
                \<and> length setters \<le> 1 \<and> marks_ok (accepted @ setters) pve
             then (case (accepted, setters) of
                     (a # _, s # _) \<Rightarrow> if s = a then Mark (fst a) (snd a) pve else MarkRefused
                   | _ \<Rightarrow> MarkNotReady)
             else MarkRefused
      | _ \<Rightarrow> MarkRefused)"

section \<open>Properties\<close>

lemma disjoint_vnets:
  assumes "pairwise (\<lambda>m n. \<not> overlaps n m) ns" "\<forall>n\<in>set ns. snd n \<le> 32 \<and> fst n AND netmask (snd n) = fst n"
  shows "pairwise (\<lambda>m n. \<not> (\<exists>a. in_network a m \<and> in_network a n)) ns"
  using assms
proof (induction ns)
  case (Cons m ns)
  have "\<not> (\<exists>a. in_network a m \<and> in_network a n)" if "n \<in> set ns" for n
    using disjoint_networks [of n m] Cons.prems that by (auto simp: list_all_iff)
  then show ?case using Cons by (simp add: list_all_iff)
qed simp

lemma vnet_networks_strict:
  assumes "list_all vnet_ok (values_of (get config ''vnets''))" "n \<in> set (vnet_networks config)"
  shows "16 \<le> snd n \<and> snd n \<le> 24 \<and> fst n AND netmask (snd n) = fst n"
proof -
  obtain vnet where v: "vnet \<in> set (values_of (get config ''vnets''))" "net_at vnet ''cidr'' = Some n"
    using assms(2) by (auto simp: vnet_networks_def map_filter_def)
  with assms(1) have "vnet_ok vnet" by (simp add: list_all_iff)
  then have "16 \<le> snd n \<and> snd n \<le> 24" using v(2) by (simp add: vnet_ok_def split: option.splits)
  moreover have "fst n AND netmask (snd n) = fst n"
    using v(2) network_value_strict by (auto simp: bind_eq_Some_conv)
  ultimately show ?thesis by simp
qed

text \<open>C16: In an accepted configuration no address belongs to two guest networks, every host address
  (campus, mesh and management) is an address outside of them, and the sources of the ingress,
  transit and relay sections are ordinary addresses that are neither in a guest network nor an
  address of a host.\<close>

theorem accepted_networks_are_separate:
  assumes "net_config_ok config"
  shows "pairwise (\<lambda>m n. \<not> (\<exists>a. in_network a m \<and> in_network a n)) (vnet_networks config)
     \<and> (\<forall>v\<in>set (host_values config). \<exists>b. ip_value v = Some b \<and> (\<forall>n\<in>set (vnet_networks config). \<not> in_network b n))
     \<and> (\<forall>k\<in>{''interim_ingress'', ''public_ssh_transit'', ''relay_transit''}. has_key config k \<longrightarrow>
          (\<exists>s. text_ip (get config k) ''source'' = Some s \<and> \<not> special s \<and> s \<notin> set (host_addresses config)
             \<and> (\<forall>n\<in>set (vnet_networks config). \<not> in_network s n)))"
proof (intro conjI)
  have base: "list_all vnet_ok (values_of (get config ''vnets''))" "pairwise (\<lambda>m n. \<not> overlaps n m) (vnet_networks config)"
    "disjoint_hosts config"
    using assms by (simp_all add: net_config_ok_def base_ok_def)
  have "\<forall>n\<in>set (vnet_networks config). snd n \<le> 32 \<and> fst n AND netmask (snd n) = fst n"
    using vnet_networks_strict [OF base(1)] by fastforce
  then show "pairwise (\<lambda>m n. \<not> (\<exists>a. in_network a m \<and> in_network a n)) (vnet_networks config)"
    by (rule disjoint_vnets [OF base(2)])
  show "\<forall>v\<in>set (host_values config). \<exists>b. ip_value v = Some b \<and> (\<forall>n\<in>set (vnet_networks config). \<not> in_network b n)"
    using base(3) by (auto simp: disjoint_hosts_def list_all_iff split: option.splits)
  show "\<forall>k\<in>{''interim_ingress'', ''public_ssh_transit'', ''relay_transit''}. has_key config k \<longrightarrow>
          (\<exists>s. text_ip (get config k) ''source'' = Some s \<and> \<not> special s \<and> s \<notin> set (host_addresses config)
             \<and> (\<forall>n\<in>set (vnet_networks config). \<not> in_network s n))"
    using assms
    by (auto simp: net_config_ok_def ingress_ok_def ssh_ok_def relay_ok_def foreign_def list_all_iff Let_def split: option.splits)
qed

definition sample_net_config :: pyval where
  "sample_net_config = PDict
     [(''schema'', PInt 1), (''cluster'', PStr ''c''), (''zone'', PStr ''z''), (''uplink'', PStr ''vmbr0''),
      (''mesh_interface'', PStr ''wg0''), (''gateway_owner'', PStr ''n1''), (''host_mtu'', PInt 1420), (''guest_mtu'', PInt 1370),
      (''nodes'', PDict
         [(''n1'', PDict [(''campus'', PStr ''192.0.2.1''), (''mesh'', PStr ''198.51.100.1'')]),
          (''n2'', PDict [(''campus'', PStr ''192.0.2.2''), (''mesh'', PStr ''198.51.100.2''),
                          (''bmc_interface'', PStr ''bmc0''), (''bmc_address'', PStr ''192.0.2.9'')])]),
      (''vnets'', PDict
         [(''pinfra'', PDict [(''cidr'', PStr ''10.10.0.0/24''), (''gateway'', PStr ''10.10.0.1''), (''vni'', PInt 100)]),
          (''pguest'', PDict [(''cidr'', PStr ''10.20.0.0/16''), (''gateway'', PStr ''10.20.0.1''), (''vni'', PInt 200)])]),
      (''service_sources'', PDict
         [(''api'', PStr ''10.10.0.5''), (''proxy'', PStr ''10.10.0.6''), (''sshgw'', PStr ''10.10.0.7''), (''relay'', PStr ''203.0.113.7'')]),
      (''interim_ingress'', PDict [(''source'', PStr ''203.0.113.6''), (''destination'', PStr ''10.10.0.6'')]),
      (''relay_transit'', PDict [(''source'', PStr ''203.0.113.7''), (''api_destination'', PStr ''10.10.0.5'')])]"

lemma sample_addresses:
  "parse_ipv4 ''192.0.2.1'' = Some 3221225985"
  "parse_ipv4 ''198.51.100.1'' = Some 3325256705"
  "parse_ipv4 ''192.0.2.2'' = Some 3221225986"
  "parse_ipv4 ''198.51.100.2'' = Some 3325256706"
  "parse_ipv4 ''192.0.2.9'' = Some 3221225993"
  "parse_ipv4 ''10.10.0.1'' = Some 168427521"
  "parse_ipv4 ''10.20.0.1'' = Some 169082881"
  "parse_ipv4 ''10.10.0.5'' = Some 168427525"
  "parse_ipv4 ''10.10.0.6'' = Some 168427526"
  "parse_ipv4 ''10.10.0.7'' = Some 168427527"
  "parse_ipv4 ''203.0.113.7'' = Some 3405803783"
  "parse_ipv4 ''203.0.113.6'' = Some 3405803782"
  by (simp_all add: parse_ipv4_def ip_octet_def class_match_def is_digit_def decimal_def digit_val_def ip_of_octets_def)

lemma sample_texts:
  "ipv4_text 3405803782 = ''203.0.113.6''"
  "ipv4_text 3405803783 = ''203.0.113.7''"
  "ipv4_text 168427526 = ''10.10.0.6''"
  "ipv4_text 168427525 = ''10.10.0.5''"
  by (simp_all add: ipv4_text_def octet_of_def str_of_nat.simps digit_chars)

lemma sample_networks:
  "parse_network ''10.10.0.0/24'' = Some (168427520, 24)" "parse_network ''10.20.0.0/16'' = Some (169082880, 16)"
  by (simp_all add: parse_network_def parse_ipv4_def ip_octet_def class_match_def is_digit_def decimal_def digit_val_def
      ip_of_octets_def prefix_of_def make_network_def netmask_def mask_numeral)

lemma sample_net_config_ok: "net_config_ok sample_net_config"
proof -
  let ?c = sample_net_config
  note address = sample_addresses sample_texts sample_networks subscript_def in_network_def netmask_def mask_numeral broadcast_def
  note names = net_name_def head_match_def class_match_def word_char_def char_class_defs
  have n: "vnet_networks ?c = [(168427520, 24), (169082880, 16)]"
    by (simp add: vnet_networks_def map_filter_def sample_net_config_def values_of_def address)
  have h: "host_values ?c = map PStr [''192.0.2.1'', ''198.51.100.1'', ''192.0.2.2'', ''198.51.100.2'', ''192.0.2.9'']"
    by (simp add: host_values_def sample_net_config_def values_of_def)
  have a: "host_addresses ?c = [3221225985, 3325256705, 3221225986, 3325256706, 3221225993]"
    by (simp add: host_addresses_def h map_filter_def address)
  have "list_all node_ok (values_of (get ?c ''nodes''))" "distinct (node_addresses ?c)"
    "list_all vnet_ok (values_of (get ?c ''vnets''))"
    by (simp_all add: sample_net_config_def values_of_def node_ok_def node_addresses_def vnet_ok_def names address)
  moreover have "pairwise (\<lambda>m n. \<not> overlaps n m) (vnet_networks ?c)" "disjoint_hosts ?c"
    by (simp_all add: n overlaps_def disjoint_hosts_def h address)
  ultimately have "base_ok ?c"
    by (simp add: base_ok_def) (simp add: sample_net_config_def has_keys_def values_of_def vnet_of_def names address)
  moreover have "foreign ?c 3405803782" "foreign ?c 3405803783"
    by (simp_all add: foreign_def n a address)
  moreover have "infra_host ?c 168427526" "infra_host ?c 168427525"
    by (simp_all add: infra_host_def vnet_of_def sample_net_config_def address)
  moreover have "\<not> special 3405803782" "\<not> special 3405803783"
    by (simp_all add: special_def ip_of_octets_def address)
  moreover have "text_ip (get ?c ''interim_ingress'') ''source'' = Some 3405803782"
    "text_ip (get ?c ''interim_ingress'') ''destination'' = Some 168427526"
    "text_ip (get ?c ''relay_transit'') ''source'' = Some 3405803783"
    "text_ip (get ?c ''relay_transit'') ''api_destination'' = Some 168427525"
    by (simp_all add: text_ip_def sample_net_config_def address)
  moreover have "is_source ?c ''proxy'' 168427526" "is_source ?c ''relay'' 3405803783" "is_source ?c ''api'' 168427525"
    by (simp_all add: is_source_def sample_net_config_def address)
  moreover have "has_keys (get ?c ''interim_ingress'') [''source'', ''destination'']"
    "has_keys (get ?c ''relay_transit'') [''source'', ''api_destination'']"
    "\<not> has_key ?c ''backup_service''" "\<not> has_key ?c ''public_ssh_transit''"
    by (simp_all add: sample_net_config_def has_keys_def)
  ultimately show ?thesis
    by (simp add: net_config_ok_def backup_ok_def ingress_ok_def ssh_ok_def relay_ok_def Let_def)
qed

lemma accepted_networks_are_separate_witness:
  "\<exists>s. text_ip (get sample_net_config ''interim_ingress'') ''source'' = Some s
     \<and> (\<forall>n\<in>set (vnet_networks sample_net_config). \<not> in_network s n)"
proof -
  have "has_key sample_net_config ''interim_ingress''" by (simp add: sample_net_config_def)
  with accepted_networks_are_separate [OF sample_net_config_ok] show ?thesis by blast
qed

text \<open>C17: The accepted mark is the mark of the one rule of the FORWARD chain that accepts by mark,
  matched over all 32 bits and not zero, it shares no bit with the mark of the hypervisor's
  firewall, and every rule of the ingress chain that sets a mark sets exactly this one, for
  packets from the mesh interface to the host itself.\<close>

theorem accept_mark_is_exact:
  assumes "parse_netbird_accept_mark filter_rules mangle_rules pve_mask = Mark v m pve"
  shows "pve_mask = Some pve \<and> m = 0xffffffff \<and> v \<noteq> 0 \<and> v AND pve = 0
     \<and> (\<exists>t. filter is_mark_accept filter_rules = [t] \<and> is_exact_accept t \<and> mark_of (t ! 5) = Some (v, m))
     \<and> (\<exists>t\<in>set mangle_rules. is_setter t)
     \<and> (\<forall>t\<in>set mangle_rules. is_setter t \<longrightarrow>
          after_token ''-i'' t = Some ''wt0'' \<and> after_token ''--dst-type'' t = Some ''LOCAL''
          \<and> Option.bind (after_token ''--set-xmark'' t) mark_of = Some (v, m))"
proof -
  have all_some: "all_some xs = Some ys \<Longrightarrow> xs = map Some ys" for xs :: "'a option list" and ys
    by (induction xs arbitrary: ys) (auto split: option.splits)
  obtain accepted where a: "all_some (map (\<lambda>t. mark_of (t ! 5)) (filter is_exact_accept filter_rules)) = Some accepted"
    using assms by (auto simp: parse_netbird_accept_mark_def split: option.splits)
  obtain setters where st: "all_some (map setter_mark (filter is_setter mangle_rules)) = Some setters"
    using assms by (auto simp: parse_netbird_accept_mark_def split: option.splits)
  have p: "pve_mask = Some pve" and len: "length (filter is_mark_accept filter_rules) = length (remdups accepted)"
    and ok: "marks_ok (remdups accepted @ remdups setters) pve"
    and one: "remdups accepted = [(v, m)]" "remdups setters = [(v, m)]"
    using assms
    by (cases pve_mask; cases "remdups accepted"; cases "remdups setters";
        auto simp: parse_netbird_accept_mark_def a st Let_def split: if_splits)+
  have sets: "set accepted = {(v, m)}" "set setters = {(v, m)}"
    using one by (metis empty_set list.simps(15) set_remdups)+
  have exact: "is_mark_accept t" if e: "is_exact_accept t" for t
  proof -
    from e obtain a b c d e' f g h where "t = [a, b, c, d, e', f, g, h]"
      by (auto simp: is_exact_accept_def length_Suc_conv numeral_eq_Suc)
    with e show ?thesis by (simp add: is_exact_accept_def is_mark_accept_def)
  qed
  have "Some (v, m) \<in> set (map (\<lambda>t. mark_of (t ! 5)) (filter is_exact_accept filter_rules))"
    using all_some [OF a] sets by simp
  then obtain t where t: "t \<in> set filter_rules" "is_exact_accept t" "mark_of (t ! 5) = Some (v, m)" by auto
  have "length (filter is_mark_accept filter_rules) = 1" using len one by simp
  then obtain u where u: "filter is_mark_accept filter_rules = [u]" by (auto simp: length_Suc_conv)
  moreover have "t \<in> set (filter is_mark_accept filter_rules)" using t exact by simp
  ultimately have tu: "u = t" by simp
  have set: "setter_mark x = Some (v, m)" if "x \<in> set mangle_rules" "is_setter x" for x
  proof -
    have "setter_mark x \<in> set (map setter_mark (filter is_setter mangle_rules))" using that by simp
    then show ?thesis using all_some [OF st] sets by auto
  qed
  have "filter is_setter mangle_rules \<noteq> []" using st one by auto
  then have "\<exists>x\<in>set mangle_rules. is_setter x" by (auto simp: filter_empty_conv)
  moreover have "after_token ''-i'' x = Some ''wt0'' \<and> after_token ''--dst-type'' x = Some ''LOCAL''
      \<and> Option.bind (after_token ''--set-xmark'' x) mark_of = Some (v, m)" if "x \<in> set mangle_rules" "is_setter x" for x
    using set [OF that] by (simp add: setter_mark_def split: if_splits)
  ultimately show ?thesis
    using p ok one u tu t by (auto simp: marks_ok_def)
qed

lemma accept_mark_is_exact_witness:
  "parse_netbird_accept_mark [[''-A'', ''FORWARD'', ''-m'', ''mark'', ''--mark'', ''0x1bd20'', ''-j'', ''ACCEPT'']]
     [[''-A'', ''NETBIRD-RT-PRE'', ''-i'', ''wt0'', ''--dst-type'', ''LOCAL'', ''--set-xmark'', ''0x1bd20/0xffffffff'']]
     (Some 0x80000000) = Mark 113952 0xffffffff 0x80000000 \<and> (113952 :: nat) AND 0x80000000 = 0"
proof -
  have "mark_of ''0x1bd20'' = Some (113952, 0xffffffff)" "mark_of ''0x1bd20/0xffffffff'' = Some (113952, 0xffffffff)"
    by (simp_all add: mark_of_def int0_def starts_with_def hex_char_def hex_value_def char_class_defs)
  then have p: "parse_netbird_accept_mark [[''-A'', ''FORWARD'', ''-m'', ''mark'', ''--mark'', ''0x1bd20'', ''-j'', ''ACCEPT'']]
     [[''-A'', ''NETBIRD-RT-PRE'', ''-i'', ''wt0'', ''--dst-type'', ''LOCAL'', ''--set-xmark'', ''0x1bd20/0xffffffff'']]
     (Some 0x80000000) = Mark 113952 0xffffffff 0x80000000"
    by (simp add: parse_netbird_accept_mark_def is_exact_accept_def is_mark_accept_def is_setter_def setter_mark_def
        after_token_def marks_ok_def)
  with accept_mark_is_exact [OF p] show ?thesis by blast
qed

end
