(* ===== verification/FirewallPlan.thy ===== *)
theory FirewallPlan
  imports NetConfig
begin

text \<open>
  \<open>firewall_plan\<close>, \<open>nft_filter_rule\<close> and \<open>nft_guard_text\<close> of \<open>scripts/lib/production_network.py\<close>.
  A rule is its list of words, a chain the list of its rules in order, and every chain is
  written as the concatenation of what the code appends to it, in the order of the code.
  \<open>net_of\<close> reads the values the plan uses out of a configuration that \<open>validate_config\<close> accepts. The
  validation does not ask for the entries of \<open>service_sources\<close>, so reading them can fail with the
  \<open>KeyError\<close> of the source. Addresses are strings, as the translation into nft text needs them;
  \<open>text_addresses\<close> says that a configuration has them so.
\<close>

section \<open>The values the plan uses\<close>

record net_node =
  nd_campus :: string
  nd_mesh :: string
  nd_bmc :: "string option"

record net_plan_config =
  nc_uplink :: string
  nc_mesh :: string
  nc_nodes :: "(string \<times> net_node) list"
  nc_vnets :: "(string \<times> string) list"
  nc_source :: "string \<Rightarrow> string"
  nc_backup :: "(string \<times> string \<times> int) option"
  nc_ingress :: "(string \<times> string) option"
  nc_ssh :: "(string \<times> string \<times> int) option"
  nc_relay :: "(string \<times> string) option"

definition node_of :: "pyval \<Rightarrow> net_node" where
  "node_of v =
     \<lparr>nd_campus = the_str (get v ''campus''), nd_mesh = the_str (get v ''mesh''),
      nd_bmc = (if truthy (get v ''bmc_interface'') then Some (the_str (get v ''bmc_interface'')) else None)\<rparr>"

text \<open>\<open>config['service_sources'][k]\<close>\<close>

definition service_source :: "pyval \<Rightarrow> string \<Rightarrow> pyval res" where
  "service_source c k = (case subscript (get c ''service_sources'') k of None \<Rightarrow> Inl KeyError | Some v \<Rightarrow> Inr v)"

definition PLAN_SOURCES :: "string list" where
  "PLAN_SOURCES = [''api'', ''proxy'', ''sshgw'', ''relay'']"

definition net_of :: "pyval \<Rightarrow> net_plan_config res" where
  "net_of c =
     bindR (mapR (service_source c) PLAN_SOURCES) (\<lambda>sources.
     let b = get c ''backup_service''; i = get c ''interim_ingress''; t = get c ''public_ssh_transit'';
         r = get c ''relay_transit''
     in Inr \<lparr>nc_uplink = the_str (get c ''uplink''), nc_mesh = the_str (get c ''mesh_interface''),
          nc_nodes = map (\<lambda>(name, v). (name, node_of v)) (items (get c ''nodes'')),
          nc_vnets = map (\<lambda>(name, v). (name, the_str (get v ''cidr''))) (items (get c ''vnets'')),
          nc_source = (\<lambda>k. the_str (the (map_of (zip PLAN_SOURCES sources) k))),
          nc_backup = (if is_dict b
                       then Some (the_str (get b ''source''), the_str (get b ''destination''), the_int (get b ''port''))
                       else None),
          nc_ingress = (if is_dict i then Some (the_str (get i ''source''), the_str (get i ''destination'')) else None),
          nc_ssh = (if is_dict t
                    then Some (the_str (get t ''source''), the_str (get t ''destination''), the_int (get t ''port''))
                    else None),
          nc_relay = (if is_dict r then Some (the_str (get r ''source''), the_str (get r ''api_destination'')) else None)\<rparr>)"

definition text_addresses :: "pyval \<Rightarrow> bool" where
  "text_addresses c =
     (list_all (\<lambda>node. is_str (get node ''campus'') \<and> is_str (get node ''mesh'')) (values_of (get c ''nodes''))
      \<and> list_all is_str (values_of (get c ''service_sources''))
      \<and> (has_key c ''backup_service'' \<longrightarrow>
           is_str (get (get c ''backup_service'') ''source'') \<and> is_str (get (get c ''backup_service'') ''destination'')))"

text \<open>Reading succeeds exactly when all four entries are there.\<close>

lemma sources_read:
  "mapR (service_source c) ks = (if list_all (has_key (get c ''service_sources'')) ks
     then Inr (map (\<lambda>k. the (subscript (get c ''service_sources'') k)) ks) else Inl KeyError)"
  by (induction ks) (auto simp: service_source_def subscript_def has_key_def split: option.splits)

lemma net_of_reads:
  "(\<exists>n. net_of c = Inr n) \<or> net_of c = Inl KeyError" "(\<exists>n. net_of c = Inr n) \<longleftrightarrow> list_all (has_key (get c ''service_sources'')) PLAN_SOURCES"
  unfolding net_of_def sources_read Let_def by simp_all

lemma net_of_fields:
  assumes "net_of c = Inr n"
  shows "nc_uplink n = the_str (get c ''uplink'')" "nc_mesh n = the_str (get c ''mesh_interface'')"
    "nc_nodes n = map (\<lambda>(name, v). (name, node_of v)) (items (get c ''nodes''))"
    "nc_vnets n = map (\<lambda>(name, v). (name, the_str (get v ''cidr''))) (items (get c ''vnets''))"
    "nc_ssh n = (if is_dict (get c ''public_ssh_transit'')
       then Some (the_str (get (get c ''public_ssh_transit'') ''source''), the_str (get (get c ''public_ssh_transit'') ''destination''),
                  the_int (get (get c ''public_ssh_transit'') ''port'')) else None)"
    "nc_backup n = (if is_dict (get c ''backup_service'')
       then Some (the_str (get (get c ''backup_service'') ''source''), the_str (get (get c ''backup_service'') ''destination''),
                  the_int (get (get c ''backup_service'') ''port'')) else None)"
  using assms unfolding net_of_def sources_read Let_def by (auto split: if_splits)

definition own_node :: "net_plan_config \<Rightarrow> string \<Rightarrow> net_node" where
  "own_node c name = the (map_of (nc_nodes c) name)"

definition peer_node :: "net_plan_config \<Rightarrow> string \<Rightarrow> net_node" where
  "peer_node c name = snd (hd (filter (\<lambda>(n, _). n \<noteq> name) (nc_nodes c)))"

section \<open>The chains\<close>

type_synonym rule = "string list"

definition local_vxlan :: rule where
  "local_vxlan = [''-p'', ''udp'', ''--dport'', ''4789'', ''-m'', ''addrtype'', ''--dst-type'', ''LOCAL'']"

definition established :: rule where
  "established = [''-m'', ''conntrack'', ''--ctstate'', ''ESTABLISHED,RELATED'']"

definition new_state :: rule where
  "new_state = [''-m'', ''conntrack'', ''--ctstate'', ''NEW'']"

definition raw4 :: "net_plan_config \<Rightarrow> string \<Rightarrow> rule list" where
  "raw4 c name =
     [[''-i'', nc_mesh c, ''-s'', nd_mesh (peer_node c name)] @ local_vxlan @ [''-j'', ''RETURN''],
      local_vxlan @ [''-j'', ''DROP''],
      [''-i'', ''fwbr+'', ''-j'', ''CT'', ''--zone'', ''1'']]"

definition raw6 :: "rule list" where
  "raw6 = [local_vxlan @ [''-j'', ''DROP'']]"

definition hex_digit_char :: "nat \<Rightarrow> char" where
  "hex_digit_char n = char_of (if n < 10 then 48 + n else 87 + n)"

fun hex_text :: "nat \<Rightarrow> string" where
  "hex_text n = (if n < 16 then [hex_digit_char n] else hex_text (n div 16) @ [hex_digit_char (n mod 16)])"

declare hex_text.simps [simp del]

definition mangle_chain :: "net_plan_config \<Rightarrow> mark \<Rightarrow> rule list" where
  "mangle_chain c m =
     map (\<lambda>(vnet, _). [''-m'', ''physdev'', ''--physdev-in'', ''vxlan_'' @ vnet, ''-m'', ''mark'', ''--mark'',
                       ''0x'' @ hex_text (fst m) @ ''/0x'' @ hex_text (snd m),
                       ''-j'', ''MARK'', ''--set-xmark'', ''0x0/0x'' @ hex_text (fst m)]) (nc_vnets c)"

definition bmc_input :: "net_node \<Rightarrow> rule list" where
  "bmc_input node =
     (case nd_bmc node of
        None \<Rightarrow> []
      | Some nic \<Rightarrow> [[''-i'', nic] @ established @ [''-j'', ''RETURN''], [''-i'', nic, ''-j'', ''DROP'']])"

definition bmc_forward :: "net_node \<Rightarrow> rule list" where
  "bmc_forward node =
     (case nd_bmc node of
        None \<Rightarrow> []
      | Some nic \<Rightarrow> [[''-i'', nic, ''-j'', ''DROP''], [''-o'', nic, ''-j'', ''DROP'']])"

definition ingress_ports :: "string list" where
  "ingress_ports = [''24080'', ''24443'']"

definition input4 :: "net_plan_config \<Rightarrow> net_node \<Rightarrow> rule list" where
  "input4 c node =
     bmc_input node
     @ [[''-i'', ''pguest''] @ established @ [''-j'', ''RETURN''],
        [''-i'', ''pguest'', ''-p'', ''icmp'', ''--icmp-type'', ''echo-request'', ''-j'', ''RETURN''],
        [''-i'', ''pguest'', ''-j'', ''DROP''],
        [''-i'', ''pinfra'', ''-s'', nc_source c ''api'', ''-p'', ''tcp'', ''--dport'', ''8006'', ''-j'', ''RETURN''],
        [''-i'', ''pinfra'', ''-p'', ''tcp'', ''-m'', ''multiport'', ''--dports'', ''22,8006,3128,111'', ''-j'', ''DROP'']]
     @ (case nc_ingress c of None \<Rightarrow> []
        | Some _ \<Rightarrow> map (\<lambda>port. [''-d'', nd_campus node, ''-p'', ''tcp'', ''--dport'', port, ''-j'', ''DROP'']) ingress_ports)
     @ (case nc_ssh c of None \<Rightarrow> []
        | Some (_, _, port) \<Rightarrow> [[''-d'', nd_campus node, ''-p'', ''tcp'', ''--dport'', str_of_int port, ''-j'', ''DROP'']])"

definition input6 :: "net_plan_config \<Rightarrow> net_node \<Rightarrow> rule list" where
  "input6 c node = bmc_input node @ map (\<lambda>(name, _). [''-i'', name, ''-j'', ''DROP'']) (nc_vnets c)"

definition bridged :: "rule list" where
  "bridged = [[''-i'', ''pguest'', ''-o'', ''pguest'', ''-j'', ''RETURN''], [''-i'', ''pinfra'', ''-o'', ''pinfra'', ''-j'', ''RETURN'']]"

definition final_drops :: "net_plan_config \<Rightarrow> rule list" where
  "final_drops c = concat (map (\<lambda>(name, _). [[''-i'', name, ''-j'', ''DROP''], [''-o'', name, ''-j'', ''DROP'']]) (nc_vnets c))"

definition guest_to_hosts :: "net_plan_config \<Rightarrow> rule list" where
  "guest_to_hosts c =
     concat (map (\<lambda>(_, host). map (\<lambda>d. [''-i'', ''pguest'', ''-d'', d, ''-j'', ''DROP'']) [nd_campus host, nd_mesh host]) (nc_nodes c))"

definition guest_cidr :: "net_plan_config \<Rightarrow> string" where
  "guest_cidr c = the (map_of (nc_vnets c) ''pguest'')"

definition relay_ssh_drops :: "net_plan_config \<Rightarrow> bool \<Rightarrow> rule list" where
  "relay_ssh_drops c active =
     (case nc_relay c of
        None \<Rightarrow> []
      | Some (source, _) \<Rightarrow>
          if \<not> active then []
          else map (\<lambda>protocol. [''-i'', nc_uplink c, ''-o'', ''pguest'', ''-s'', source, ''-d'', guest_cidr c,
                                ''-p'', protocol, ''--dport'', ''22'', ''-j'', ''DROP'']) [''tcp'', ''udp''])"

definition uplink_rules :: "net_plan_config \<Rightarrow> bool \<Rightarrow> rule list" where
  "uplink_rules c active =
     concat (map (\<lambda>(name, _).
       [[''-i'', nc_uplink c, ''-o'', name] @ established @ [''-j'', ''RETURN'']]
       @ (if active then [[''-i'', name, ''-o'', nc_uplink c, ''-j'', ''RETURN'']] else [])) (nc_vnets c))"

definition ingress_forward :: "net_plan_config \<Rightarrow> net_node \<Rightarrow> bool \<Rightarrow> rule list" where
  "ingress_forward c node active =
     (case nc_ingress c of
        None \<Rightarrow> []
      | Some (source, destination) \<Rightarrow>
          if \<not> active then []
          else map (\<lambda>port. [''-i'', nc_uplink c, ''-o'', ''pinfra'', ''-s'', source, ''-d'', destination, ''-p'', ''tcp'',
                            ''--dport'', port] @ new_state
                           @ [''--ctorigdst'', nd_campus node, ''--ctorigdstport'', port, ''-j'', ''RETURN'']) ingress_ports)"

definition ssh_forward :: "net_plan_config \<Rightarrow> net_node \<Rightarrow> bool \<Rightarrow> rule list" where
  "ssh_forward c node active =
     (case nc_ssh c of
        None \<Rightarrow> []
      | Some (source, destination, port) \<Rightarrow>
          if \<not> active then []
          else [[''-i'', nc_uplink c, ''-o'', ''pinfra'', ''-s'', source, ''-d'', destination, ''-p'', ''tcp'',
                 ''--dport'', str_of_int port] @ new_state
                @ [''--ctorigdst'', nd_campus node, ''--ctorigdstport'', str_of_int port, ''-j'', ''RETURN'']])"

definition relay_forward :: "net_plan_config \<Rightarrow> bool \<Rightarrow> rule list" where
  "relay_forward c active =
     (case nc_relay c of
        None \<Rightarrow> []
      | Some (source, api) \<Rightarrow>
          if \<not> active then []
          else map (\<lambda>protocol. [''-i'', nc_uplink c, ''-o'', ''pguest'', ''-s'', source, ''-d'', guest_cidr c, ''-p'', protocol]
                               @ new_state @ [''-j'', ''RETURN'']) [''tcp'', ''udp'']
               @ [[''-i'', nc_uplink c, ''-o'', ''pinfra'', ''-s'', source, ''-d'', api, ''-p'', ''tcp'', ''--dport'', ''8080'']
                  @ new_state @ [''-j'', ''RETURN'']])"

definition service_forward :: "net_plan_config \<Rightarrow> rule list" where
  "service_forward c =
     [[''-i'', ''pguest'', ''-o'', ''pinfra''] @ established @ [''-j'', ''RETURN'']]
     @ map (\<lambda>source. [''-i'', ''pinfra'', ''-o'', ''pguest'', ''-s'', nc_source c source, ''-j'', ''RETURN'']) [''proxy'', ''sshgw'', ''relay'']"

definition backup_forward :: "net_plan_config \<Rightarrow> bool \<Rightarrow> rule list" where
  "backup_forward c active =
     (case nc_backup c of
        None \<Rightarrow> []
      | Some (source, destination, port) \<Rightarrow>
          if \<not> active then []
          else [[''-i'', ''pinfra'', ''-o'', nc_mesh c, ''-s'', source, ''-d'', destination, ''-p'', ''tcp'',
                 ''--dport'', str_of_int port, ''-j'', ''RETURN''],
                [''-i'', nc_mesh c, ''-o'', ''pinfra'', ''-s'', destination, ''-d'', source, ''-p'', ''tcp'',
                 ''--sport'', str_of_int port] @ established @ [''-j'', ''RETURN'']])"

definition forward4 :: "net_plan_config \<Rightarrow> net_node \<Rightarrow> bool \<Rightarrow> rule list" where
  "forward4 c node active =
     bmc_forward node @ bridged @ guest_to_hosts c @ relay_ssh_drops c active @ uplink_rules c active
     @ ingress_forward c node active @ ssh_forward c node active @ relay_forward c active @ service_forward c
     @ backup_forward c active @ final_drops c"

definition forward6 :: "net_plan_config \<Rightarrow> net_node \<Rightarrow> rule list" where
  "forward6 c node = bmc_forward node @ bridged @ final_drops c"

definition nat4 :: "net_plan_config \<Rightarrow> bool \<Rightarrow> rule list" where
  "nat4 c active =
     (if active
      then map (\<lambda>(_, cidr). [''-s'', cidr, ''-o'', nc_uplink c, ''-j'', ''MASQUERADE'']) (nc_vnets c)
           @ (case nc_backup c of
                None \<Rightarrow> []
              | Some (source, destination, port) \<Rightarrow>
                  [[''-s'', source, ''-d'', destination, ''-o'', nc_mesh c, ''-p'', ''tcp'', ''--dport'', str_of_int port,
                    ''-j'', ''MASQUERADE'']])
      else [])"

definition dnat4 :: "net_plan_config \<Rightarrow> net_node \<Rightarrow> bool \<Rightarrow> rule list" where
  "dnat4 c node active =
     (let to = \<lambda>source destination port.
            [''-i'', nc_uplink c, ''-s'', source, ''-d'', nd_campus node, ''-p'', ''tcp'', ''--dport'', port, ''-j'', ''DNAT'',
             ''--to-destination'', destination @ '':'' @ port]
      in if \<not> active then []
         else (case nc_ingress c of None \<Rightarrow> []
               | Some (source, destination) \<Rightarrow> map (to source destination) ingress_ports)
              @ (case nc_ssh c of None \<Rightarrow> []
                 | Some (source, destination, port) \<Rightarrow> [to source destination (str_of_int port)]))"

type_synonym plan = "(string \<times> rule list) list"

definition firewall_plan :: "net_plan_config \<Rightarrow> string \<Rightarrow> mark \<Rightarrow> bool \<Rightarrow> plan \<times> plan" where
  "firewall_plan c name m active =
     (let node = own_node c name
      in ([(''raw'', raw4 c name), (''mangle'', mangle_chain c m), (''input'', input4 c node),
           (''forward'', forward4 c node active), (''nat'', nat4 c active)]
          @ (if nc_ingress c \<noteq> None \<or> nc_ssh c \<noteq> None then [(''dnat'', dnat4 c node active)] else []),
          [(''raw'', raw6), (''mangle'', mangle_chain c m), (''input'', input6 c node), (''forward'', forward6 c node)]))"

section \<open>The nft form\<close>

text \<open>One option with its value; \<open>None\<close> is an assertion that fails.\<close>

definition quoted :: "string \<Rightarrow> string" where
  "quoted s = CHR 0x22 # s @ [CHR 0x22]"

definition braced :: "string \<Rightarrow> string" where
  "braced s = ''{ '' @ join_with '', '' (split_on CHR '','' s) @ '' }''"

definition nft_option :: "string \<Rightarrow> string \<Rightarrow> string \<Rightarrow> string \<Rightarrow> string list option" where
  "nft_option family protocol opt val =
     (if opt = ''-m'' then (if val \<in> {''conntrack'', ''multiport''} then Some [] else None)
      else if opt = ''-i'' then Some [''iifname'', quoted val]
      else if opt = ''-o'' then Some [''oifname'', quoted val]
      else if opt = ''-s'' then Some [''ip saddr'', val]
      else if opt = ''-d'' then Some [''ip daddr'', val]
      else if opt = ''-p'' then Some [''meta l4proto'', val]
      else if opt = ''--ctstate'' then Some [''ct state'', braced (map lower_char val)]
      else if opt = ''--dport'' \<or> opt = ''--dports''
      then (if protocol \<in> {''tcp'', ''udp''} then Some [protocol, ''dport'', braced val] else None)
      else if opt = ''--sport''
      then (if protocol \<in> {''tcp'', ''udp''} then Some [protocol, ''sport'', braced val] else None)
      else if opt = ''--ctorigdst''
      then (if family = ''ipv4'' \<and> parse_ipv4 val \<noteq> None then Some [''ct original ip daddr'', val] else None)
      else if opt = ''--ctorigdstport''
      then (if protocol \<in> {''tcp'', ''udp''} \<and> val \<noteq> [] \<and> list_all is_digit val \<and> 1 \<le> decimal val \<and> decimal val \<le> 65535
            then Some [''ct original proto-dst'', val] else None)
      else if opt = ''--icmp-type''
      then (if protocol = ''icmp'' \<and> val = ''echo-request'' then Some [''icmp type'', ''echo-request''] else None)
      else if opt = ''-j'' then (if val \<in> {''RETURN'', ''DROP''} then Some [''counter'', map lower_char val] else None)
      else None)"

fun nft_words :: "string \<Rightarrow> string \<Rightarrow> rule \<Rightarrow> string list option" where
  "nft_words family protocol [] = Some []"
| "nft_words family protocol [opt] = None"
| "nft_words family protocol (opt # val # rest) =
     (case nft_option family protocol opt val of
        None \<Rightarrow> None
      | Some ws \<Rightarrow>
          (case nft_words family (if opt = ''-p'' then val else protocol) rest of
             None \<Rightarrow> None
           | Some tail \<Rightarrow> Some (ws @ tail)))"

definition nft_filter_rule :: "rule \<Rightarrow> string \<Rightarrow> string option" where
  "nft_filter_rule rule family =
     (case nft_words family [] rule of None \<Rightarrow> None | Some ws \<Rightarrow> Some (join_with '' '' ([''meta nfproto'', family] @ ws)))"

definition guard_hook ::
  "net_plan_config \<Rightarrow> string \<Rightarrow> plan \<times> plan \<Rightarrow> string \<Rightarrow> string list option" where
  "guard_hook c name p hook =
     (case (all_some (map (\<lambda>r. nft_filter_rule r ''ipv4'') (the (map_of (fst p) hook))),
            all_some (map (\<lambda>r. nft_filter_rule r ''ipv6'') (the (map_of (snd p) hook)))) of
        (Some r4, Some r6) \<Rightarrow>
          Some (['' chain '' @ hook @ '' {'', ''  type filter hook '' @ hook @ '' priority -20; policy accept;'']
                @ (if hook = ''input''
                   then [''  iifname '' @ quoted (nc_mesh c) @ '' ip saddr '' @ nd_mesh (peer_node c name)
                           @ '' udp dport 4789 counter return'',
                         ''  udp dport 4789 counter drop'']
                   else [])
                @ map (\<lambda>r. ''  '' @ r) (r4 @ r6) @ ['' }''])
      | _ \<Rightarrow> None)"

definition nft_guard_lines :: "net_plan_config \<Rightarrow> string \<Rightarrow> mark \<Rightarrow> bool \<Rightarrow> string \<Rightarrow> string list option" where
  "nft_guard_lines c name m active table =
     (let p = firewall_plan c name m active
      in case (guard_hook c name p ''input'', guard_hook c name p ''forward'') of
           (Some a, Some b) \<Rightarrow> Some ([''table inet '' @ table @ '' {''] @ a @ b @ [''}''])
         | _ \<Rightarrow> None)"

definition nft_guard_text :: "net_plan_config \<Rightarrow> string \<Rightarrow> mark \<Rightarrow> bool \<Rightarrow> string \<Rightarrow> string option" where
  "nft_guard_text c name m active table =
     (case nft_guard_lines c name m active table of None \<Rightarrow> None | Some ls \<Rightarrow> Some (join_with [CHR 0x0A] ls @ [CHR 0x0A]))"

section \<open>First match\<close>

text \<open>
  How a filter chain decides: a rule applies to a packet when each of its options matches, and
  the first rule that applies decides; \<open>matches opt val\<close> says whether an option matches the
  packet in question. The kernel's matching is a parameter, and the properties name the options
  they need: the interfaces and the connection state.
\<close>

fun rule_target :: "(string \<Rightarrow> string \<Rightarrow> bool) \<Rightarrow> rule \<Rightarrow> string option" where
  "rule_target matches (opt # val # rest) =
     (if opt = ''-j'' then Some val else if matches opt val then rule_target matches rest else None)"
| "rule_target matches _ = None"

fun first_target :: "(string \<Rightarrow> string \<Rightarrow> bool) \<Rightarrow> rule list \<Rightarrow> string option" where
  "first_target matches [] = None"
| "first_target matches (r # rs) = (case rule_target matches r of None \<Rightarrow> first_target matches rs | Some t \<Rightarrow> Some t)"

definition drops_only :: "(string \<Rightarrow> string \<Rightarrow> bool) \<Rightarrow> rule list \<Rightarrow> bool" where
  "drops_only matches rs = (first_target matches rs \<in> {None, Some ''DROP''})"

lemma first_target_append:
  "first_target matches (xs @ ys) = (case first_target matches xs of None \<Rightarrow> first_target matches ys | Some t \<Rightarrow> Some t)"
  by (induction xs) (auto split: option.split)

lemma first_target_dropped:
  "drops_only matches xs \<Longrightarrow> first_target matches ys = Some ''DROP'' \<Longrightarrow> first_target matches (xs @ ys) = Some ''DROP''"
  by (auto simp: drops_only_def first_target_append)

lemma drops_only_append [intro]: "drops_only matches xs \<Longrightarrow> drops_only matches ys \<Longrightarrow> drops_only matches (xs @ ys)"
  by (auto simp: drops_only_def first_target_append)

lemma drops_onlyI: "(\<And>r. r \<in> set rs \<Longrightarrow> rule_target matches r \<in> {None, Some ''DROP''}) \<Longrightarrow> drops_only matches rs"
proof (induction rs)
  case (Cons r rs)
  from Cons.prems [of r] Cons.IH [OF Cons.prems] show ?case by (auto simp: drops_only_def)
qed (simp add: drops_only_def)

lemma first_target_member: "r \<in> set rs \<Longrightarrow> rule_target matches r \<noteq> None \<Longrightarrow> first_target matches rs \<noteq> None"
  by (induction rs) (auto split: option.split)

lemma final_drops_drop:
  assumes "matches ''-i'' name \<or> matches ''-o'' name" "name \<in> fst ` set (nc_vnets c)"
  shows "first_target matches (final_drops c) = Some ''DROP''"
proof -
  have "drops_only matches (final_drops c)"
    by (rule drops_onlyI) (auto simp: final_drops_def)
  moreover have "first_target matches (final_drops c) \<noteq> None"
  proof -
    obtain cidr where "(name, cidr) \<in> set (nc_vnets c)" using assms(2) by auto
    then have "[''-i'', name, ''-j'', ''DROP''] \<in> set (final_drops c)" "[''-o'', name, ''-j'', ''DROP''] \<in> set (final_drops c)"
      by (force simp: final_drops_def)+
    then show ?thesis
      using assms(1) first_target_member [of "[''-i'', name, ''-j'', ''DROP'']"] first_target_member [of "[''-o'', name, ''-j'', ''DROP'']"]
      by fastforce
  qed
  ultimately show ?thesis by (auto simp: drops_only_def)
qed

lemma drops_hosts: "drops_only matches (guest_to_hosts c)"
  by (rule drops_onlyI) (auto simp: guest_to_hosts_def)

lemma drops_bmc: "drops_only matches (bmc_forward node)"
  by (rule drops_onlyI) (auto simp: bmc_forward_def split: option.splits)

lemma drops_relay_ssh: "drops_only matches (relay_ssh_drops c active)"
  by (rule drops_onlyI) (auto simp: relay_ssh_drops_def split: option.splits if_splits)

text \<open>The vnets of an accepted configuration.\<close>

lemma vnet_names: "net_config_ok config \<Longrightarrow> net_of config = Inr c \<Longrightarrow> fst ` set (nc_vnets c) = {''pinfra'', ''pguest''}"
proof -
  assume "net_config_ok config" and c: "net_of config = Inr c"
  then have "keys (get config ''vnets'') = {''pinfra'', ''pguest''}"
    by (simp add: net_config_ok_def base_ok_def has_keys_iff)
  then show ?thesis by (simp add: net_of_fields(4) [OF c] image_image case_prod_unfold)
qed

text \<open>C15: Guests are isolated. On an active and on a standby node, a packet that enters from the
  guest network and belongs to no established connection is dropped by the forward chain
  unless it stays in the guest network or leaves through the uplink: no guest opens a
  connection to the infrastructure network, the mesh or a management interface.\<close>

theorem guests_open_no_inner_connection:
  assumes "net_config_ok config" "net_of config = Inr c"
    and "\<forall>v. matches ''-i'' v = (v = ''pguest'')" "\<forall>v. matches ''-o'' v = (v = out)"
    and "\<not> matches ''--ctstate'' ''ESTABLISHED,RELATED''"
    and "out \<noteq> ''pguest''" "out \<noteq> nc_uplink c" "nc_uplink c \<noteq> ''pguest''" "nc_mesh c \<noteq> ''pguest''"
  shows "first_target matches (forward4 c node active) = Some ''DROP''"
proof -
  note option_facts = assms(3-5,8,9) assms(6,7) [symmetric] established_def
  have "drops_only matches bridged"
    by (rule drops_onlyI) (auto simp: bridged_def option_facts)
  moreover have "drops_only matches (uplink_rules c active)"
    by (rule drops_onlyI) (auto simp: uplink_rules_def option_facts split: if_splits)
  moreover have "drops_only matches (ingress_forward c node active)"
    by (rule drops_onlyI) (auto simp: ingress_forward_def option_facts split: option.splits if_splits)
  moreover have "drops_only matches (ssh_forward c node active)"
    by (rule drops_onlyI) (auto simp: ssh_forward_def option_facts split: option.splits if_splits)
  moreover have "drops_only matches (relay_forward c active)"
    by (rule drops_onlyI) (auto simp: relay_forward_def option_facts split: option.splits if_splits)
  moreover have "drops_only matches (service_forward c)"
    by (rule drops_onlyI) (auto simp: service_forward_def option_facts)
  moreover have "drops_only matches (backup_forward c active)"
    by (rule drops_onlyI) (auto simp: backup_forward_def option_facts split: option.splits if_splits)
  moreover have "first_target matches (final_drops c) = Some ''DROP''"
    by (rule final_drops_drop [where name = "''pguest''"]) (use assms(3) vnet_names [OF assms(1,2)] in auto)
  ultimately show ?thesis
    unfolding forward4_def
    by (intro first_target_dropped drops_hosts drops_bmc drops_relay_ssh)
qed

definition inner_packet :: "string \<Rightarrow> string \<Rightarrow> string \<Rightarrow> string \<Rightarrow> bool" where
  "inner_packet into out opt val =
     (if opt = ''-i'' then val = into else if opt = ''-o'' then val = out else opt \<noteq> ''--ctstate'')"

lemma sample_net: "\<exists>c. net_of sample_net_config = Inr c"
  unfolding net_of_reads(2) by (simp add: PLAN_SOURCES_def sample_net_config_def)

lemma guests_open_no_inner_connection_witness:
  "\<exists>c. net_of sample_net_config = Inr c
    \<and> first_target (inner_packet ''pguest'' ''pinfra'') (forward4 c (own_node c ''n1'') True) = Some ''DROP''"
proof -
  obtain c where c: "net_of sample_net_config = Inr c" using sample_net ..
  have "first_target (inner_packet ''pguest'' ''pinfra'') (forward4 c (own_node c ''n1'') True) = Some ''DROP''"
    by (rule guests_open_no_inner_connection [OF sample_net_config_ok c, where out = "''pinfra''"])
       (simp_all add: inner_packet_def net_of_fields [OF c] sample_net_config_def)
  with c show ?thesis by blast
qed

text \<open>A standby node opens nothing. Without the gateway role, a packet of no established
  connection that enters or leaves a guest network and does not stay in it is dropped, but for
  the services of the infrastructure network that reach guests, and no address is translated.\<close>

theorem standby_opens_nothing:
  assumes "net_config_ok config" "net_of config = Inr c"
    and "\<forall>v. matches ''-i'' v = (v = into)" "\<forall>v. matches ''-o'' v = (v = out)"
    and "\<not> matches ''--ctstate'' ''ESTABLISHED,RELATED''"
    and "into \<noteq> out" "into \<in> {''pinfra'', ''pguest''} \<or> out \<in> {''pinfra'', ''pguest''}" "\<not> (into = ''pinfra'' \<and> out = ''pguest'')"
  shows "first_target matches (forward4 c node False) = Some ''DROP'' \<and> nat4 c False = [] \<and> dnat4 c node False = []"
proof -
  note option_facts = assms(3-5) established_def
  have "drops_only matches bridged"
    by (rule drops_onlyI) (use assms(6) in \<open>auto simp: bridged_def option_facts\<close>)
  moreover have "drops_only matches (uplink_rules c False)"
    by (rule drops_onlyI) (auto simp: uplink_rules_def option_facts)
  moreover have "drops_only matches (ingress_forward c node False)" "drops_only matches (ssh_forward c node False)"
    "drops_only matches (relay_forward c False)" "drops_only matches (backup_forward c False)"
    by (auto simp: drops_only_def ingress_forward_def ssh_forward_def relay_forward_def backup_forward_def split: option.splits)
  moreover have "drops_only matches (service_forward c)"
    by (rule drops_onlyI) (use assms(8) in \<open>auto simp: service_forward_def option_facts\<close>)
  moreover have "first_target matches (final_drops c) = Some ''DROP''"
    using assms(3,4,7) vnet_names [OF assms(1,2)]
    by (intro final_drops_drop [where name = "if into \<in> {''pinfra'', ''pguest''} then into else out"]) auto
  ultimately have "first_target matches (forward4 c node False) = Some ''DROP''"
    unfolding forward4_def
    by (intro first_target_dropped drops_hosts drops_bmc drops_relay_ssh)
  then show ?thesis by (simp add: nat4_def dnat4_def Let_def)
qed

lemma standby_opens_nothing_witness:
  "\<exists>c. net_of sample_net_config = Inr c
    \<and> first_target (inner_packet ''vmbr0'' ''pinfra'') (forward4 c (own_node c ''n2'') False) = Some ''DROP''"
proof -
  obtain c where c: "net_of sample_net_config = Inr c" using sample_net ..
  with standby_opens_nothing [OF sample_net_config_ok c, where into = "''vmbr0''" and out = "''pinfra''"
      and matches = "inner_packet ''vmbr0'' ''pinfra''"]
  show ?thesis by (simp add: inner_packet_def)
qed

section \<open>The guard table\<close>

lemma all_some_total: "list_all (\<lambda>x. x \<noteq> None) xs \<Longrightarrow> \<exists>ys. all_some xs = Some ys"
  by (induction xs) auto

definition translates :: "string \<Rightarrow> rule \<Rightarrow> bool" where
  "translates family r = (nft_words family [] r \<noteq> None)"

lemma nft_filter_total:
  "list_all (translates family) rs \<Longrightarrow> \<exists>ts. all_some (map (\<lambda>r. nft_filter_rule r family) rs) = Some ts"
  by (rule all_some_total) (auto simp: list_all_iff translates_def nft_filter_rule_def split: option.splits)

lemmas nft_defs = translates_def nft_option_def established_def new_state_def is_digit_def decimal_def digit_val_def

lemma port_text: "str_of_int 2224 = ''2224''" "str_of_int 8007 = ''8007''"
  by (simp_all add: str_of_int_def str_of_nat.simps digit_chars)

definition plan_ports_ok :: "net_plan_config \<Rightarrow> bool" where
  "plan_ports_ok c =
     ((case nc_ssh c of None \<Rightarrow> True | Some (_, _, port) \<Rightarrow> port = 2224)
      \<and> (case nc_backup c of None \<Rightarrow> True | Some (_, _, port) \<Rightarrow> port = 8007))"

lemma input_translates:
  assumes "plan_ports_ok c"
  shows "list_all (translates ''ipv4'') (input4 c node)" "list_all (translates ''ipv6'') (input6 c node)"
proof -
  show "list_all (translates ''ipv4'') (input4 c node)"
    using assms
    by (auto simp: plan_ports_ok_def input4_def bmc_input_def ingress_ports_def port_text nft_defs split: option.splits)
  show "list_all (translates ''ipv6'') (input6 c node)"
    by (auto simp: input6_def bmc_input_def list_all_iff nft_defs split: option.splits)
qed

lemma forward_translates:
  assumes "plan_ports_ok c" "parse_ipv4 (nd_campus node) \<noteq> None"
  shows "list_all (translates ''ipv4'') (forward4 c node active)" "list_all (translates ''ipv6'') (forward6 c node)"
proof -
  have b: "list_all (translates family) (bmc_forward node @ bridged)" "list_all (translates family) (final_drops c)" for family
    by (auto simp: bmc_forward_def bridged_def final_drops_def list_all_iff nft_defs split: option.splits)
  have "list_all (translates ''ipv4'') (guest_to_hosts c @ relay_ssh_drops c active @ uplink_rules c active)"
    by (auto simp: guest_to_hosts_def relay_ssh_drops_def uplink_rules_def list_all_iff nft_defs split: option.splits if_splits)
  moreover have "list_all (translates ''ipv4'') (ingress_forward c node active)"
    using assms(2) by (auto simp: ingress_forward_def ingress_ports_def nft_defs split: option.splits)
  moreover have "list_all (translates ''ipv4'') (ssh_forward c node active)"
    using assms by (auto simp: plan_ports_ok_def ssh_forward_def port_text nft_defs split: option.splits)
  moreover have "list_all (translates ''ipv4'') (relay_forward c active @ service_forward c)"
    by (auto simp: relay_forward_def service_forward_def nft_defs split: option.splits)
  moreover have "list_all (translates ''ipv4'') (backup_forward c active)"
    using assms(1) by (auto simp: plan_ports_ok_def backup_forward_def port_text nft_defs split: option.splits)
  ultimately show "list_all (translates ''ipv4'') (forward4 c node active)"
    using b by (simp add: forward4_def)
  show "list_all (translates ''ipv6'') (forward6 c node)"
    using b by (simp add: forward6_def)
qed

lemma plan_ports: "net_config_ok config \<Longrightarrow> net_of config = Inr c \<Longrightarrow> plan_ports_ok c"
proof -
  assume ok: "net_config_ok config" and c: "net_of config = Inr c"
  have "get config ''public_ssh_transit'' = PNone \<or> get (get config ''public_ssh_transit'') ''port'' = PInt 2224"
    "get config ''backup_service'' = PNone \<or> get (get config ''backup_service'') ''port'' = PInt 8007"
    using ok by (auto simp: net_config_ok_def ssh_ok_def backup_ok_def has_key_def get_or_def Let_def split: option.splits)
  then show ?thesis by (auto simp: plan_ports_ok_def net_of_fields(5,6) [OF c])
qed

lemma guard_written:
  assumes ok: "net_config_ok config" and name: "name \<in> keys (get config ''nodes'')" and strings: "text_addresses config"
    and c: "net_of config = Inr c"
  shows "\<exists>guard. nft_guard_text c name m active table = Some guard"
proof -
  let ?n = "own_node c name"
  obtain v where v: "map_of (items (get config ''nodes'')) name = Some v"
    using name by (metis has_key_def has_key_keys option.exhaust)
  then have mem: "v \<in> set (values_of (get config ''nodes''))" by (force simp: values_of_def dest: map_of_SomeD)
  have "map_of (map (\<lambda>(n, w). (n, node_of w)) xs) name = map_option node_of (map_of xs name)" for xs
    by (induction xs) auto
  then have n: "?n = node_of v" using v by (simp add: own_node_def net_of_fields(3) [OF c])
  have "node_ok v" using ok mem by (auto simp: net_config_ok_def base_ok_def list_all_iff)
  then obtain a where "ip_at v ''campus'' = Some a" by (auto simp: node_ok_def)
  moreover obtain s where "get v ''campus'' = PStr s"
    using strings mem by (cases "get v ''campus''") (auto simp: text_addresses_def list_all_iff)
  ultimately have campus: "parse_ipv4 (nd_campus ?n) \<noteq> None"
    by (auto simp: n node_of_def subscript_def get_or_def bind_eq_Some_conv split: option.splits)
  note ports = plan_ports [OF ok c]
  have "\<exists>ls. guard_hook c name (firewall_plan c name m active) ''input'' = Some ls"
    using nft_filter_total [OF input_translates(1) [OF ports, of ?n]] nft_filter_total [OF input_translates(2) [OF ports, of ?n]]
    by (auto simp: guard_hook_def firewall_plan_def Let_def)
  moreover have "\<exists>ls. guard_hook c name (firewall_plan c name m active) ''forward'' = Some ls"
    using nft_filter_total [OF forward_translates(1) [OF ports campus, of active]] nft_filter_total [OF forward_translates(2) [OF ports campus]]
    by (auto simp: guard_hook_def firewall_plan_def Let_def)
  ultimately show ?thesis by (auto simp: nft_guard_text_def nft_guard_lines_def Let_def)
qed

text \<open>C18: When the guard table is written. Take an accepted configuration whose addresses are strings, and
  one of its nodes, in either role. If the sources of the API, the proxy, the SSH gateway and the relay
  are in the configuration, the guard table is written: every rule of the input and forward chains is
  within the vocabulary of the translation, so none of its assertions fails. If one of the four is
  missing, which the validation does not notice, the plan ends with \<open>KeyError\<close>.\<close>

theorem guard_text_is_written:
  assumes "net_config_ok config" "name \<in> keys (get config ''nodes'')" "text_addresses config"
  shows "if has_key (get config ''service_sources'') ''api'' \<and> has_key (get config ''service_sources'') ''proxy''
            \<and> has_key (get config ''service_sources'') ''sshgw'' \<and> has_key (get config ''service_sources'') ''relay''
         then \<exists>c guard. net_of config = Inr c \<and> nft_guard_text c name m active table = Some guard
         else net_of config = Inl KeyError"
proof -
  have keys: "(has_key (get config ''service_sources'') ''api'' \<and> has_key (get config ''service_sources'') ''proxy''
            \<and> has_key (get config ''service_sources'') ''sshgw'' \<and> has_key (get config ''service_sources'') ''relay'')
         \<longleftrightarrow> (\<exists>c. net_of config = Inr c)"
    unfolding net_of_reads(2) by (simp add: PLAN_SOURCES_def)
  show ?thesis
  proof (cases "\<exists>c. net_of config = Inr c")
    case True
    then obtain c where "net_of config = Inr c" ..
    with guard_written [OF assms this] True show ?thesis unfolding keys by auto
  next
    case False
    then have "net_of config = Inl KeyError" using net_of_reads(1) by blast
    with False show ?thesis unfolding keys by simp
  qed
qed

lemma guard_text_is_written_witness:
  "\<exists>c guard. net_of sample_net_config = Inr c \<and> nft_guard_text c ''n1'' (113952, 0xffffffff) True ''guard'' = Some guard"
proof -
  have "text_addresses sample_net_config" by (simp add: text_addresses_def sample_net_config_def values_of_def)
  moreover have "''n1'' \<in> keys (get sample_net_config ''nodes'')" by (simp add: sample_net_config_def)
  ultimately show ?thesis
    using guard_text_is_written [OF sample_net_config_ok, of "''n1''" "(113952, 0xffffffff)" True "''guard''"]
    by (simp add: sample_net_config_def)
qed

end
