(* ===== verification/SshTransit.thy ===== *)
theory SshTransit
  imports PyNet
begin

text \<open>
  \<open>scripts/lib/ssh_transit.py\<close>: the candidate files of the persistent SSH transit. A unit file
  is the list of its lines. \<open>source_firewall\<close> inserts one rule beside the pinned rule of the
  existing peer; the hash function is a parameter, and white space is the ASCII one.
\<close>

abbreviation TransitError :: "string \<Rightarrow> exn" where
  "TransitError r \<equiv> AppError ''TransitError'' r"

section \<open>Configuration\<close>

definition unusable :: "ipv4 \<Rightarrow> bool" where
  "unusable a =
     (a = 0 \<or> in_network a (ip_of_octets 224 0 0 0, 4) \<or> in_network a (ip_of_octets 127 0 0 0, 8)
      \<or> in_network a (ip_of_octets 169 254 0 0, 16) \<or> in_network a (ip_of_octets 240 0 0 0, 4))"

definition transit_address :: "pyval \<Rightarrow> string res" where
  "transit_address v =
     bindR (check (is_str v) (TransitError ''STRING'')) (\<lambda>_.
     case parse_ipv4 (the_str v) of
       None \<Rightarrow> Inl (TransitError ''HOST'')
     | Some a \<Rightarrow> bindR (check (ipv4_text a = the_str v \<and> \<not> unusable a) (TransitError ''USABLE'')) (\<lambda>_. Inr (the_str v)))"

record transit_config =
  tc_source_listen :: string
  tc_relay_peer :: string
  tc_target_node :: string
  tc_target_listener :: string
  tc_transit_source :: string
  tc_target_binary :: string

definition address_fields :: "string list" where
  "address_fields = [''source_listen'', ''relay_peer'', ''target_node'', ''target_listener'', ''transit_source'']"

fun contains :: "string \<Rightarrow> string \<Rightarrow> bool" where
  "contains p [] = (p = [])"
| "contains p (c # cs) = (starts_with (c # cs) p \<or> contains p cs)"

definition ends_with :: "string \<Rightarrow> string \<Rightarrow> bool" where
  "ends_with s p = (length p \<le> length s \<and> drop (length s - length p) s = p)"

definition binary_path :: "string \<Rightarrow> bool" where
  "binary_path s =
     (let head = ''/opt/pickle/''; tail = ''/sshgw-proxyfront'';
          middle = take (length s - length head - length tail) (drop (length head) s)
      in starts_with s head \<and> ends_with s tail \<and> length head + length tail < length s
         \<and> list_all (\<lambda>c. is_alnum c \<or> one_of ''_./-'' c) middle)"

definition transit_validate :: "(string \<Rightarrow> pyval) \<Rightarrow> unit res" where
  "transit_validate field =
     bindR (foldR (\<lambda>k acc. bindR (transit_address (field k)) (\<lambda>a. Inr (acc @ [a]))) address_fields []) (\<lambda>addresses.
     bindR (check (distinct addresses) (TransitError ''DISTINCT'')) (\<lambda>_.
     let b = field ''target_binary''
     in check (is_str b \<and> binary_path (the_str b) \<and> \<not> has_dotdot (the_str b) \<and> \<not> contains ''//'' (the_str b))
              (TransitError ''BINARY'')))"

definition transit_load :: "pyval \<Rightarrow> transit_config res" where
  "transit_load v =
     bindR (check (has_keys v (address_fields @ [''target_binary''])) (TransitError ''FIELDS'')) (\<lambda>_.
     bindR (transit_validate (get v)) (\<lambda>_.
     let f = \<lambda>k. the_str (get v k)
     in Inr \<lparr>tc_source_listen = f ''source_listen'', tc_relay_peer = f ''relay_peer'', tc_target_node = f ''target_node'',
             tc_target_listener = f ''target_listener'', tc_transit_source = f ''transit_source'',
             tc_target_binary = f ''target_binary''\<rparr>))"

definition field_of :: "transit_config \<Rightarrow> string \<Rightarrow> pyval" where
  "field_of c k =
     get (PDict [(''source_listen'', PStr (tc_source_listen c)), (''relay_peer'', PStr (tc_relay_peer c)),
                 (''target_node'', PStr (tc_target_node c)), (''target_listener'', PStr (tc_target_listener c)),
                 (''transit_source'', PStr (tc_transit_source c)), (''target_binary'', PStr (tc_target_binary c))]) k"

section \<open>Unit files\<close>

definition source_socket :: "transit_config \<Rightarrow> string list" where
  "source_socket c =
     [''[Unit]'',
      ''Description=Pickle peer-only raw SSH transit receiver'',
      ''After=network-online.target wg-quick@wg0.service nftables.service'',
      ''Requires=wg-quick@wg0.service nftables.service'',
      [],
      ''[Socket]'',
      ''ListenStream='' @ tc_source_listen c @ '':2224'',
      ''BindToDevice=wg0'',
      ''Accept=no'',
      ''Service=pickle-ssh-transit.service'',
      ''NoDelay=true'',
      [],
      ''[Install]'',
      ''WantedBy=sockets.target'']"

definition source_service :: "transit_config \<Rightarrow> string list" where
  "source_service c =
     [''[Unit]'',
      ''Description=Pickle raw SSH transit to the active production node'',
      ''After=network-online.target'',
      ''Requires=pickle-ssh-transit.socket'',
      [],
      ''[Service]'',
      ''ExecStart=/usr/lib/systemd/systemd-socket-proxyd '' @ tc_target_node c @ '':2224'',
      ''User=pickle'',
      ''Group=pickle'',
      ''Restart=on-failure'',
      ''RestartSec=5'',
      ''NoNewPrivileges=true'',
      ''ProtectSystem=strict'',
      ''ProtectHome=true'',
      ''PrivateTmp=true'',
      ''PrivateDevices=true'',
      ''RestrictAddressFamilies=AF_INET AF_UNIX'',
      ''ProtectKernelTunables=true'',
      ''ProtectKernelModules=true'',
      ''ProtectControlGroups=true'',
      ''RestrictSUIDSGID=true'',
      ''LockPersonality=true'']"

definition target_service :: "transit_config \<Rightarrow> string list" where
  "target_service c =
     [''[Unit]'',
      ''Description=Pickle PROXY-required private SSH transit frontend'',
      ''After=network-online.target isolated-services-firewall.service networking.service sshpiperd.service'',
      ''Requires=isolated-services-firewall.service networking.service sshpiperd.service'',
      [],
      ''[Service]'',
      ''User=pickle'',
      ''Group=pickle'',
      ''ExecStart='' @ tc_target_binary c @ '' --listen '' @ tc_target_listener c @ '':2224 --upstream 127.0.0.1:2222 --peer '' @ tc_transit_source c @ ''/32'',
      ''Restart=on-failure'',
      ''RestartSec=5'',
      ''NoNewPrivileges=true'',
      ''ProtectSystem=strict'',
      ''ProtectHome=true'',
      ''PrivateTmp=true'',
      ''PrivateDevices=true'',
      ''RestrictAddressFamilies=AF_INET AF_UNIX'',
      ''ProtectKernelTunables=true'',
      ''ProtectKernelModules=true'',
      ''ProtectControlGroups=true'',
      ''RestrictSUIDSGID=true'',
      ''LockPersonality=true'',
      [],
      ''[Install]'',
      ''WantedBy=multi-user.target'']"

definition transit_units :: "transit_config \<Rightarrow> (string \<times> string list) list res" where
  "transit_units c =
     bindR (transit_validate (field_of c)) (\<lambda>_.
     Inr [(''source/pickle-ssh-transit.socket'', source_socket c),
          (''source/pickle-ssh-transit.service'', source_service c),
          (''target/pickle-ssh-transit-front.service'', target_service c)])"

section \<open>The firewall of the source\<close>

text \<open>\<open>s.splitlines(keepends=True)\<close>, at the ASCII line boundaries.\<close>

fun lines_keep :: "string \<Rightarrow> string list" where
  "lines_keep [] = []"
| "lines_keep (c # cs) =
     (if c = CHR 0x0D then
        (case cs of
           d # ds \<Rightarrow> if d = CHR 0x0A then [c, d] # lines_keep ds else [c] # lines_keep cs
         | [] \<Rightarrow> [[c]])
      else if code c \<in> {10, 11, 12, 28, 29, 30} then [c] # lines_keep cs
      else (case lines_keep cs of [] \<Rightarrow> [[c]] | w # ws \<Rightarrow> (c # w) # ws))"

lemma concat_lines_keep [simp]: "concat (lines_keep s) = s"
proof (induction s rule: length_induct)
  case (1 s)
  show ?case
  proof (cases s)
    case (Cons c cs)
    show ?thesis
    proof (cases "c = CHR 0x0D")
      case True
      show ?thesis
      proof (cases cs)
        case (Cons d ds)
        have ds: "concat (lines_keep ds) = ds" and dds: "concat (lines_keep (d # ds)) = d # ds"
          using 1 \<open>s = c # cs\<close> Cons by (simp_all del: lines_keep.simps)
        show ?thesis
          unfolding \<open>s = c # cs\<close> Cons lines_keep.simps(2) [of c "d # ds"]
          using ds dds by (cases "d = CHR 0x0A") (simp_all add: True del: lines_keep.simps)
      qed (simp add: \<open>s = c # cs\<close> True)
    next
      case False
      have "concat (lines_keep cs) = cs" using 1 Cons by simp
      with False show ?thesis
        unfolding Cons lines_keep.simps(2)
        by (cases "code c \<in> {10, 11, 12, 28, 29, 30}"; cases "lines_keep cs") (simp_all del: insert_iff)
    qed
  qed simp
qed

text \<open>\<open>(?<![0-9])2224(?![0-9])\<close> somewhere in the text.\<close>

definition port_at :: "string \<Rightarrow> bool" where
  "port_at s = (starts_with s ''2224'' \<and> (drop 4 s = [] \<or> \<not> is_digit (hd (drop 4 s))))"

fun owns_port :: "bool \<Rightarrow> string \<Rightarrow> bool" where
  "owns_port digit [] = False"
| "owns_port digit (c # cs) = (\<not> digit \<and> port_at (c # cs) \<or> owns_port (is_digit c) cs)"

definition strip_end :: "string \<Rightarrow> string" where
  "strip_end s = rev (dropWhile is_space (rev s))"

text \<open>The text before the last opening brace, if nothing but non-braces follow it.\<close>

definition before_brace :: "string \<Rightarrow> string option" where
  "before_brace s =
     (case dropWhile (\<lambda>c. c \<noteq> CHR ''{'' \<and> c \<noteq> CHR ''}'') (rev s) of
        [] \<Rightarrow> None
      | c # rest \<Rightarrow> if c = CHR ''{'' then Some (rev rest) else None)"

definition opened_by :: "string \<Rightarrow> string \<Rightarrow> string option" where
  "opened_by keyword s =
     (case before_brace s of
        None \<Rightarrow> None
      | Some p \<Rightarrow> let q = strip_end p in if ends_with q keyword then Some (take (length q - length keyword) q) else None)"

definition in_input_chain :: "string \<Rightarrow> bool" where
  "in_input_chain before =
     (case opened_by ''chain input'' before of
        None \<Rightarrow> False
      | Some outer \<Rightarrow> opened_by ''table inet sshgw'' outer \<noteq> None)"

definition anchor_of :: "transit_config \<Rightarrow> string" where
  "anchor_of c = ''iifname '' @ CHR 0x22 # ''wg0'' @ CHR 0x22 # '' ip saddr '' @ tc_relay_peer c @ '' tcp dport 22 accept''"

definition transit_rule :: "transit_config \<Rightarrow> string" where
  "transit_rule c =
     ''iifname '' @ CHR 0x22 # ''wg0'' @ CHR 0x22 # '' ip saddr '' @ tc_relay_peer c @ '' ip daddr '' @ tc_source_listen c
     @ '' tcp dport 2224 ct state new accept'' @ [CHR 0x0A]"

definition anchor_positions :: "transit_config \<Rightarrow> string list \<Rightarrow> nat list" where
  "anchor_positions c lines = filter (\<lambda>i. strip (lines ! i) = anchor_of c) [0..<length lines]"

definition source_firewall :: "(string \<Rightarrow> string) \<Rightarrow> transit_config \<Rightarrow> string \<Rightarrow> pyval \<Rightarrow> string res" where
  "source_firewall sha256 c original pin =
     bindR (transit_validate (field_of c)) (\<lambda>_.
     bindR (check (is_str pin \<and> class_match is_hex 64 64 (the_str pin) \<and> sha256 original = the_str pin)
                  (TransitError ''PIN'')) (\<lambda>_.
     let lines = lines_keep original
     in case anchor_positions c lines of
          [index] \<Rightarrow>
            bindR (check (\<not> owns_port False original) (TransitError ''ANCHOR'')) (\<lambda>_.
            bindR (check (in_input_chain (concat (take index lines))) (TransitError ''CHAIN'')) (\<lambda>_.
            let indentation = takeWhile is_space (lines ! index)
            in Inr (concat (take (index + 1) lines @ [indentation @ transit_rule c] @ drop (index + 1) lines))))
        | _ \<Rightarrow> Inl (TransitError ''ANCHOR'')))"

section \<open>Properties\<close>


lemma source_firewall_Inr:
  assumes "source_firewall sha256 c original pin = Inr out"
  obtains i where "anchor_positions c (lines_keep original) = [i]" "\<not> owns_port False original"
    "in_input_chain (concat (take i (lines_keep original)))"
    "out = concat (take (i + 1) (lines_keep original)
             @ [takeWhile is_space (lines_keep original ! i) @ transit_rule c] @ drop (i + 1) (lines_keep original))"
proof (cases "anchor_positions c (lines_keep original)")
  case Nil
  then show ?thesis using assms by (auto simp: source_firewall_def bindR_eq_Inr)
next
  case (Cons i rest)
  with assms have "rest = []" by (cases rest) (auto simp: source_firewall_def bindR_eq_Inr)
  show ?thesis
    by (rule that [of i]) (use assms Cons \<open>rest = []\<close> in
      \<open>simp_all only: source_firewall_def bindR_eq_Inr check_eq_Inr Let_def list.case sum.inject\<close>, simp_all)
qed

lemma owns_port_refused: "owns_port False original \<Longrightarrow> source_firewall sha256 c original pin \<noteq> Inr out"
  by (metis source_firewall_Inr)

lemma owns_port_found: "owns_port d (a @ CHR '' '' # ''2224'' @ CHR '' '' # t)"
proof (induction a arbitrary: d)
  case Nil
  have "port_at (''2224'' @ CHR '' '' # t)"
    by (simp add: port_at_def starts_with_def is_digit_def)
  moreover have "\<not> is_digit (CHR '' '')" by (simp add: is_digit_def)
  ultimately show ?case by simp
next
  case (Cons x a)
  then show ?case unfolding append_Cons [of x a] owns_port.simps by blast
qed

lemma transit_rule_owns_port: "owns_port d (p @ transit_rule c @ s)"
proof -
  have "p @ transit_rule c @ s = (p @ ''iifname '' @ CHR 0x22 # ''wg0'' @ CHR 0x22 # '' ip saddr '' @ tc_relay_peer c
      @ '' ip daddr '' @ tc_source_listen c @ '' tcp dport'')
      @ CHR '' '' # ''2224'' @ CHR '' '' # (''ct state new accept'' @ [CHR 0x0A] @ s)"
    unfolding transit_rule_def by simp
  then show ?thesis using owns_port_found by metis
qed

definition sample_transit :: transit_config where
  "sample_transit = \<lparr>tc_source_listen = ''10.77.0.1'', tc_relay_peer = ''10.77.0.2'', tc_target_node = ''10.77.0.3'',
     tc_target_listener = ''10.77.0.4'', tc_transit_source = ''10.77.0.5'',
     tc_target_binary = ''/opt/pickle/front/sshgw-proxyfront''\<rparr>"

lemma address_ok: "parse_ipv4 s = Some a \<Longrightarrow> ipv4_text a = s \<Longrightarrow> \<not> unusable a \<Longrightarrow> transit_address (PStr s) = Inr s"
  by (simp add: transit_address_def)

lemma sample_usable:
  "\<not> unusable (ip_of_octets 10 77 0 1)" "\<not> unusable (ip_of_octets 10 77 0 2)" "\<not> unusable (ip_of_octets 10 77 0 3)"
  "\<not> unusable (ip_of_octets 10 77 0 4)" "\<not> unusable (ip_of_octets 10 77 0 5)"
  by (simp_all add: unusable_def ip_of_octets_def in_network_def netmask_def mask_numeral)

lemma sample_text:
  "ipv4_text (ip_of_octets 10 77 0 1) = ''10.77.0.1''" "ipv4_text (ip_of_octets 10 77 0 2) = ''10.77.0.2''"
  "ipv4_text (ip_of_octets 10 77 0 3) = ''10.77.0.3''" "ipv4_text (ip_of_octets 10 77 0 4) = ''10.77.0.4''"
  "ipv4_text (ip_of_octets 10 77 0 5) = ''10.77.0.5''"
  by (simp_all add: ipv4_text_def octet_of_def ip_of_octets_def str_of_nat.simps digit_chars)

lemmas sample_addresses =
  address_ok [OF parse_ipv4_text, where a = "ip_of_octets 10 77 0 1", unfolded sample_text, OF refl sample_usable(1)]
  address_ok [OF parse_ipv4_text, where a = "ip_of_octets 10 77 0 2", unfolded sample_text, OF refl sample_usable(2)]
  address_ok [OF parse_ipv4_text, where a = "ip_of_octets 10 77 0 3", unfolded sample_text, OF refl sample_usable(3)]
  address_ok [OF parse_ipv4_text, where a = "ip_of_octets 10 77 0 4", unfolded sample_text, OF refl sample_usable(4)]
  address_ok [OF parse_ipv4_text, where a = "ip_of_octets 10 77 0 5", unfolded sample_text, OF refl sample_usable(5)]

lemma sample_validate: "transit_validate (field_of sample_transit) = Inr ()"
proof -
  have "binary_path (tc_target_binary sample_transit) \<and> \<not> has_dotdot (tc_target_binary sample_transit)
      \<and> \<not> contains ''//'' (tc_target_binary sample_transit)"
    by code_simp
  moreover have "field_of sample_transit ''target_binary'' = PStr (tc_target_binary sample_transit)"
    by (simp add: field_of_def)
  ultimately show ?thesis
    using sample_addresses
    by (simp add: transit_validate_def address_fields_def field_of_def sample_transit_def foldR.simps)
qed

definition sample_firewall :: string where
  "sample_firewall = ''table inet sshgw {'' @ [CHR 0x0A] @ ''  chain input {'' @ [CHR 0x0A] @ ''    ''
     @ anchor_of sample_transit @ [CHR 0x0A] @ ''  }'' @ [CHR 0x0A, CHR ''}'', CHR 0x0A]"

lemma sample_firewall_ok:
  "anchor_positions sample_transit (lines_keep sample_firewall) = [2] \<and> \<not> owns_port False sample_firewall
   \<and> in_input_chain (concat (take 2 (lines_keep sample_firewall)))"
  by code_simp
lemma sample_pin: "class_match is_hex 64 64 (replicate 64 CHR ''a'')"
  by code_simp

lemma sample_inserted: "\<exists>out. source_firewall (\<lambda>_. replicate 64 CHR ''a'') sample_transit sample_firewall (PStr (replicate 64 CHR ''a'')) = Inr out"
  using sample_firewall_ok sample_pin
  by (simp add: source_firewall_def sample_validate Let_def)
text \<open>C19: The transit rule is inserted once. The result is the pinned text with one rule inserted right
  after the line of the relay peer inside the input chain, indented like that line, that admits new
  connections of that peer to port 2224 of the listening address only; every byte of the pinned
  text stays. The result is refused by another insertion, whatever its pin.\<close>

theorem transit_rule_inserted_once:
  assumes "source_firewall sha256 c original pin = Inr out"
  shows "(\<exists>before line after. original = before @ line @ after \<and> strip line = anchor_of c
            \<and> out = before @ line @ takeWhile is_space line @ transit_rule c @ after
            \<and> in_input_chain before)
     \<and> (\<forall>pin' out'. source_firewall sha256 c out pin' \<noteq> Inr out')"
proof
  obtain i where i: "anchor_positions c (lines_keep original) = [i]" and
    chain: "in_input_chain (concat (take i (lines_keep original)))" and
    out: "out = concat (take (i + 1) (lines_keep original)
                  @ [takeWhile is_space (lines_keep original ! i) @ transit_rule c] @ drop (i + 1) (lines_keep original))"
    using assms by (rule source_firewall_Inr)
  let ?ls = "lines_keep original"
  have "i \<in> set (anchor_positions c ?ls)" by (simp add: i)
  then have "i < length ?ls" and a: "strip (?ls ! i) = anchor_of c" by (auto simp: anchor_positions_def)
  then have ls: "?ls = take i ?ls @ ?ls ! i # drop (i + 1) ?ls" "take (i + 1) ?ls = take i ?ls @ [?ls ! i]"
    by (simp_all add: id_take_nth_drop take_Suc_conv_app_nth)
  have "original = concat (take i ?ls) @ ?ls ! i @ concat (drop (i + 1) ?ls)"
    using arg_cong [OF ls(1), of concat] by simp
  moreover have o: "out = (concat (take i ?ls) @ ?ls ! i @ takeWhile is_space (?ls ! i)) @ transit_rule c @ concat (drop (i + 1) ?ls)"
    unfolding out ls(2) by simp
  ultimately show "\<exists>before line after. original = before @ line @ after \<and> strip line = anchor_of c
            \<and> out = before @ line @ takeWhile is_space line @ transit_rule c @ after \<and> in_input_chain before"
    using a chain by (metis append.assoc)
  show "\<forall>pin' out'. source_firewall sha256 c out pin' \<noteq> Inr out'"
    using owns_port_refused [OF transit_rule_owns_port] unfolding o by blast
qed

lemma transit_rule_inserted_once_witness:
  "\<exists>out. source_firewall (\<lambda>_. replicate 64 CHR ''a'') sample_transit sample_firewall (PStr (replicate 64 CHR ''a'')) = Inr out
     \<and> (\<forall>pin out'. source_firewall (\<lambda>_. replicate 64 CHR ''a'') sample_transit out pin \<noteq> Inr out')"
  using sample_inserted transit_rule_inserted_once [of "\<lambda>_. replicate 64 CHR ''a''" sample_transit sample_firewall] by blast
end
