(* ===== verification/HealthTransport.thy ===== *)
theory HealthTransport
  imports ServiceHealthMonitor
begin

text \<open>
  \<open>scripts/lib/health_result_transport.py\<close>: what crosses the SSH boundary. \<open>sanitize_report\<close> is
  written as the sequence of its sections: each reads some keys of the report and yields the
  items it copies, in the order of the code. \<open>projects\<close> says that a section reproduces its own
  output, which is what makes a sanitised report acceptable to the next host. The process that
  fetches a bundle is a parameter: the length of its output and what \<open>json.loads\<close> makes of it.
  \<open>urlsplit\<close> may raise \<open>ValueError\<close> on a bracketed host before the origin is refused; here
  every bad origin ends with \<open>POLICY_ORIGIN_INVALID\<close>, and all callers treat the two alike.
\<close>

section \<open>Vocabulary\<close>

definition SOURCES :: "string list" where
  "SOURCES =
     [''host-query'', ''local-generation'', ''upstream-generation'', ''public-console'',
      ''public-api'', ''public-development'', ''public-generation'', ''collector-heartbeat'',
      ''public-tls-production'', ''public-tls-development'', ''public-tls-gateway'',
      ''public-staging'', ''public-tls-staging'', ''public-staging-expiry-warning'', ''staging-access-policy'']"

definition KINDS :: "string list" where
  "KINDS = [''host-query'', ''generation'', ''public-http'', ''public-generation'', ''observer-report'', ''tls'',
            ''tls-expiry-warning'', ''access-policy'']"

definition reason_char :: "char \<Rightarrow> bool" where
  "reason_char c = (is_upper c \<or> is_digit c \<or> c = CHR ''_'')"

definition SAFE_REASON :: "string \<Rightarrow> bool" where
  "SAFE_REASON s = head_match is_upper reason_char 0 63 s"

definition NUMBERS :: "(string \<times> rat) list" where
  "NUMBERS = [(''latency_seconds'', 3600), (''certificate_remaining_seconds'', 366 * 86400),
              (''completion_tokens'', 128), (''prompt_tokens'', 4096), (''generation_counter_delta'', 10 ^ 15)]"

definition HOST_NUMBERS :: "(string \<times> rat) list" where
  "HOST_NUMBERS = [(''host_available_bytes'', 2 ^ 60), (''host_total_bytes'', 2 ^ 60),
                   (''gpu_temperature_c'', 200), (''gpu_utilization_percent'', 100),
                   (''gpu_memory_total_mib'', 2 ^ 40)]"

definition METRICS :: "string list" where
  "METRICS = [''generation_tokens'', ''prompt_tokens'', ''running'', ''waiting'', ''kv_cache_usage'']"

definition POLICY_KIND :: string where
  "POLICY_KIND = ''selfhost-only-diagnostic-identity-v1''"

definition POLICY_REASONS :: "string list" where
  "POLICY_REASONS = [''POLICY_OBSERVATION_FAILED'', ''POLICY_MISMATCH'', ''QUOTA_EXHAUSTED'',
                     ''GATEWAY_NOT_READY'', ''POLICY_TRANSPORT_UNAVAILABLE'']"

definition POLICY_PROBE :: "(string \<times> int) list" where
  "POLICY_PROBE = [(''maximum_output_tokens'', 8), (''maximum_daily_requests'', 312),
                   (''minimum_interval_seconds'', 300), (''total_timeout_seconds'', 20)]"

definition POLICY_SERVER :: "(string \<times> int) list" where
  "POLICY_SERVER = [(''maximum_paid_credits'', 0), (''maximum_daily_tokens'', 64000),
                    (''requests_per_minute'', 1), (''maximum_concurrency'', 1)]"

definition MAX_JSON :: nat where
  "MAX_JSON = 65536"

type_synonym item_list = "(string \<times> pyval) list"

section \<open>Policy attestations\<close>

definition invalid_policy :: "rat \<Rightarrow> pyval" where
  "invalid_policy now =
     PDict [(''kind'', PStr POLICY_KIND), (''valid'', PBool False), (''reason'', PStr ''POLICY_TRANSPORT_UNAVAILABLE''),
            (''issued_at'', PFloat now), (''expires_at'', PFloat now)]"

text \<open>\<open>(?:[a-z0-9](?:[a-z0-9-]{0,61}[a-z0-9])?\.)+[a-z]{2,63}\<close>, of at most 253 characters.\<close>

definition dns_label :: "string \<Rightarrow> bool" where
  "dns_label w =
     (class_match (\<lambda>c. is_lower c \<or> is_digit c \<or> c = CHR ''-'') 1 63 w
      \<and> hd w \<noteq> CHR ''-'' \<and> last w \<noteq> CHR ''-'')"

definition dns_name :: "string \<Rightarrow> bool" where
  "dns_name h =
     (let ws = split_on CHR ''.'' h
      in length h \<le> 253 \<and> 2 \<le> length ws \<and> list_all dns_label (butlast ws) \<and> class_match is_lower 2 63 (last ws))"

definition origin_ok :: "pyval \<Rightarrow> bool" where
  "origin_ok v =
     (is_str v \<and> 9 \<le> length (the_str v) \<and> length (the_str v) \<le> 261
      \<and> starts_with (the_str v) ''https://'' \<and> dns_name (drop 8 (the_str v)))"

definition model_ok :: "pyval \<Rightarrow> bool" where
  "model_ok v = (is_str v \<and> head_match is_lower (\<lambda>c. is_lower c \<or> is_digit c \<or> c = CHR ''-'') 0 63 (the_str v))"

definition hash_ok :: "pyval \<Rightarrow> bool" where
  "hash_ok v = (is_str v \<and> class_match is_hex 64 64 (the_str v))"

definition limits_ok :: "pyval \<Rightarrow> (string \<times> int) list \<Rightarrow> bool" where
  "limits_ok v limits = list_all (\<lambda>(k, n). get v k = PInt n) limits"

definition policy_times :: "pyval \<Rightarrow> rat \<Rightarrow> (rat \<times> rat) res" where
  "policy_times v now =
     bindR (check (is_dict v \<and> is_string (get v ''kind'') POLICY_KIND \<and> is_bool (get v ''valid''))
                  (HealthError ''POLICY_SCHEMA_INVALID'')) (\<lambda>_.
     bindR (epoch (get v ''issued_at'')) (\<lambda>issued.
     bindR (epoch (get v ''expires_at'')) (\<lambda>expires.
     bindR (check (issued \<le> fadd now 30 \<and> issued \<le> 4102444800 \<and> expires \<le> 4102444800)
                  (HealthError ''POLICY_TIME_INVALID'')) (\<lambda>_.
     Inr (issued, expires)))))"

definition enforcement_ok :: "pyval \<Rightarrow> pyval \<Rightarrow> pyval \<Rightarrow> bool" where
  "enforcement_ok server probe model =
     (is_dict server \<and> is_dict probe \<and> get server ''operations'' = PList [PStr ''chat'']
      \<and> get server ''effective_models'' = PList [model]
      \<and> has_key server ''fallback'' \<and> get server ''fallback'' = PNone
      \<and> is_string (get server ''route'') ''SELF_HOSTED'')"

definition valid_policy :: "pyval \<Rightarrow> rat \<Rightarrow> rat \<Rightarrow> item_list res" where
  "valid_policy v issued expires =
     (let origin = get v ''gateway_origin''; model = get v ''model''; server = get v ''server_enforced'';
          probe = get v ''probe_enforced''; hashes = [''key_sha256'', ''server_policy_sha256'']
      in bindR (check (origin_ok origin) (HealthError ''POLICY_ORIGIN_INVALID'')) (\<lambda>_.
         bindR (check (model_ok model) (HealthError ''POLICY_MODEL_INVALID'')) (\<lambda>_.
         bindR (check (list_all (\<lambda>k. hash_ok (get v k)) hashes) (HealthError ''POLICY_HASH_INVALID'')) (\<lambda>_.
         bindR (check (get v ''student_account'' = PBool False) (HealthError ''POLICY_IDENTITY_INVALID'')) (\<lambda>_.
         bindR (check (enforcement_ok server probe model) (HealthError ''POLICY_ENFORCEMENT_INVALID'')) (\<lambda>_.
         bindR (check (limits_ok server POLICY_SERVER) (HealthError ''POLICY_SERVER_LIMIT_INVALID'')) (\<lambda>_.
         bindR (epoch (get server ''expires_at'')) (\<lambda>key_expiry.
         bindR (check (expires \<le> key_expiry \<and> key_expiry \<le> 4102444800)
                      (HealthError ''POLICY_KEY_EXPIRY_INVALID'')) (\<lambda>_.
         bindR (check (limits_ok probe POLICY_PROBE) (HealthError ''POLICY_PROBE_LIMIT_INVALID'')) (\<lambda>_.
         Inr (map (\<lambda>k. (k, get v k)) hashes
              @ [(''gateway_origin'', origin), (''model'', model), (''student_account'', PBool False),
                 (''server_enforced'',
                  PDict ([(''operations'', PList [PStr ''chat'']), (''effective_models'', PList [model]),
                          (''fallback'', PNone), (''route'', PStr ''SELF_HOSTED'')]
                         @ map (\<lambda>(k, n). (k, PInt n)) POLICY_SERVER @ [(''expires_at'', PFloat key_expiry)])),
                 (''probe_enforced'', PDict (map (\<lambda>(k, n). (k, PInt n)) POLICY_PROBE))])))))))))))"

definition sanitize_policy :: "pyval \<Rightarrow> rat \<Rightarrow> pyval res" where
  "sanitize_policy v now =
     bindR (policy_times v now) (\<lambda>(issued, expires).
     let base = [(''kind'', PStr POLICY_KIND), (''valid'', get v ''valid''), (''issued_at'', PFloat issued),
                 (''expires_at'', PFloat expires)]
     in if get v ''valid'' = PBool False
        then bindR (in_setR (get v ''reason'') POLICY_REASONS) (\<lambda>known.
             bindR (check (known \<and> expires = issued) (HealthError ''POLICY_INVALID_REASON_OR_TIME'')) (\<lambda>_.
             Inr (PDict (base @ [(''reason'', get v ''reason'')]))))
        else bindR (check (issued \<le> now \<and> now \<le> expires \<and> 0 < fsub expires issued \<and> fsub expires issued \<le> 180)
                          (HealthError ''POLICY_EXPIRED'')) (\<lambda>_.
             bindR (valid_policy v issued expires) (\<lambda>fields.
             Inr (PDict (base @ fields)))))"

section \<open>Reports\<close>

definition bounded_number :: "rat \<Rightarrow> pyval \<Rightarrow> pyval res" where
  "bounded_number maximum v =
     bindR (check (is_number v) (HealthError ''REPORT_NUMBER_INVALID'')) (\<lambda>_.
     bindR (isfiniteR v) (\<lambda>finite.
     bindR (check (finite \<and> num_ge v 0 \<and> num_le v maximum) (HealthError ''REPORT_NUMBER_INVALID'')) (\<lambda>_. Inr v)))"

text \<open>A key that is copied when present, and a sequence of sections.\<close>

definition optional :: "string \<Rightarrow> (pyval \<Rightarrow> pyval res) \<Rightarrow> pyval \<Rightarrow> item_list res" where
  "optional key f v = (if has_key v key then bindR (f (get v key)) (\<lambda>x. Inr [(key, x)]) else Inr [])"

definition in_sequence ::
  "(pyval \<Rightarrow> item_list res) \<Rightarrow> (pyval \<Rightarrow> item_list res) \<Rightarrow> pyval \<Rightarrow> item_list res" where
  "in_sequence f g v = bindR (f v) (\<lambda>a. bindR (g v) (\<lambda>b. Inr (a @ b)))"

fun sections :: "(pyval \<Rightarrow> item_list res) list \<Rightarrow> pyval \<Rightarrow> item_list res" where
  "sections [] v = Inr []"
| "sections (f # fs) v = in_sequence f (sections fs) v"

definition checked :: "(pyval \<Rightarrow> bool) \<Rightarrow> string \<Rightarrow> pyval \<Rightarrow> pyval res" where
  "checked p r x = bindR (check (p x) (HealthError r)) (\<lambda>_. Inr x)"

definition checkedR :: "(pyval \<Rightarrow> bool res) \<Rightarrow> string \<Rightarrow> pyval \<Rightarrow> pyval res" where
  "checkedR p r x = bindR (p x) (\<lambda>ok. bindR (check ok (HealthError r)) (\<lambda>_. Inr x))"

definition report_schema :: "string \<Rightarrow> rat \<Rightarrow> pyval \<Rightarrow> rat \<Rightarrow> bool res" where
  "report_schema source now v timestamp =
     andR (Inr (get v ''version'' = PInt 1 \<and> get v ''source'' = PStr source))
       (andR (in_setR (get v ''kind'') KINDS)
         (andR (in_setR (get v ''status'') STATES) (Inr (timestamp \<le> fadd now 30))))"

definition severity_ok :: "string \<Rightarrow> pyval \<Rightarrow> bool" where
  "severity_ok source v =
     (if is_string (get v ''kind'') ''tls-expiry-warning''
      then source = ''public-staging-expiry-warning'' \<and> is_string (get v ''severity'') ''warning''
      else \<not> has_key v ''severity'')"

definition head_keys :: "string list" where
  "head_keys = [''version'', ''source'', ''kind'', ''observed_at'', ''status'']"

definition head_items :: "pyval \<Rightarrow> item_list" where
  "head_items v =
     map (\<lambda>k. (k, get v k)) head_keys
     @ (if is_string (get v ''kind'') ''tls-expiry-warning'' then [(''severity'', PStr ''warning'')] else [])"

definition report_head :: "string \<Rightarrow> rat \<Rightarrow> pyval \<Rightarrow> item_list res" where
  "report_head source now v =
     bindR (epoch (get v ''observed_at'')) (\<lambda>timestamp.
     bindR (report_schema source now v timestamp) (\<lambda>ok.
     bindR (check ok (HealthError ''REPORT_SCHEMA_INVALID'')) (\<lambda>_.
     bindR (check (\<not> is_string (get v ''kind'') ''access-policy'' \<or> source = ''staging-access-policy'')
                  (HealthError ''REPORT_POLICY_SOURCE_INVALID'')) (\<lambda>_.
     bindR (check (severity_ok source v) (HealthError ''REPORT_WARNING_INVALID'')) (\<lambda>_. Inr (head_items v))))))"

definition reason_ok :: "pyval \<Rightarrow> bool" where
  "reason_ok x = (is_str x \<and> SAFE_REASON (the_str x))"

definition number_or_none :: "rat \<Rightarrow> pyval \<Rightarrow> pyval res" where
  "number_or_none maximum x = (if x = PNone then Inr PNone else bounded_number maximum x)"

definition http_status_ok :: "pyval \<Rightarrow> bool" where
  "http_status_ok x = (is_int x \<and> 100 \<le> the_int x \<and> the_int x \<le> 599)"

definition report_metrics :: "pyval \<Rightarrow> pyval res" where
  "report_metrics x =
     bindR (check (is_dict x \<and> list_all (\<lambda>(k, _). k \<in> set METRICS) (items x)) (HealthError ''REPORT_METRICS_INVALID'')) (\<lambda>_.
     bindR (mapR (\<lambda>(k, y). bindR (bounded_number (10 ^ 15) y) (\<lambda>z. Inr (k, z))) (items x)) (\<lambda>d. Inr (PDict d)))"

text \<open>\<open>re.fullmatch\<close> raises \<open>TypeError\<close> for a value that is no string.\<close>

definition boot_id :: "pyval \<Rightarrow> pyval res" where
  "boot_id x =
     bindR (check (is_str x) TypeError) (\<lambda>_.
     bindR (check (list_all2 (\<lambda>n w. class_match is_hex n n w) [8, 4, 4, 4, 12] (split_on CHR ''-'' (the_str x)))
                  (HealthError ''REPORT_BOOT_ID_INVALID'')) (\<lambda>_. Inr x))"

definition host_head :: "pyval \<Rightarrow> item_list res" where
  "host_head host =
     bindR (in_setR (get host ''status'') STATES) (\<lambda>ok.
     bindR (check ok (HealthError ''REPORT_HOST_INVALID'')) (\<lambda>_. Inr [(''status'', get host ''status'')]))"

definition report_host :: "pyval \<Rightarrow> pyval res" where
  "report_host host =
     bindR (check (is_dict host) (HealthError ''REPORT_HOST_INVALID'')) (\<lambda>_.
     bindR (sections
              ([host_head, optional ''reason'' (checked reason_ok ''REPORT_HOST_REASON_INVALID''), optional ''boot_id'' boot_id]
               @ map (\<lambda>(k, maximum). optional k (bounded_number maximum)) HOST_NUMBERS
               @ [optional ''gpu_memory'' (checked (\<lambda>x. in_tuple x [''SUPPORTED'', ''UNSUPPORTED'']) ''REPORT_GPU_STATUS_INVALID''),
                  optional ''gpu_query'' (checked (\<lambda>x. in_tuple x [''OBSERVER_ERROR'']) ''REPORT_GPU_STATUS_INVALID'')]) host) (\<lambda>d.
     Inr (PDict d)))"

definition report_sections :: "string \<Rightarrow> rat \<Rightarrow> (pyval \<Rightarrow> item_list res) list" where
  "report_sections source now =
     [report_head source now,
      optional ''phase'' (checked (\<lambda>x. in_tuple x [''DNS'', ''TLS'', ''HTTP'', ''UNKNOWN'']) ''REPORT_PHASE_INVALID''),
      optional ''target'' (checked (\<lambda>x. x = PStr source) ''REPORT_TARGET_INVALID'')]
     @ map (\<lambda>k. optional k (checked reason_ok ''REPORT_REASON_INVALID'')) [''reason'', ''metrics_reason'']
     @ map (\<lambda>(k, maximum). optional k (number_or_none maximum)) NUMBERS
     @ [optional ''http_status'' (checked http_status_ok ''REPORT_HTTP_STATUS_INVALID'')]
     @ map (\<lambda>k. optional k (checked is_bool ''REPORT_BOOLEAN_INVALID'')) [''answer_correct'', ''counter_reset'']
     @ [optional ''metrics_status''
          (checked (\<lambda>x. in_tuple x [''SUPPORTED'', ''UNSUPPORTED'', ''OBSERVER_ERROR'']) ''REPORT_METRICS_STATUS_INVALID''),
        optional ''metrics'' report_metrics, optional ''host'' report_host]"

definition sanitize_report :: "pyval \<Rightarrow> string \<Rightarrow> rat \<Rightarrow> pyval res" where
  "sanitize_report v source now =
     bindR (check (is_dict v \<and> source \<in> set SOURCES) (HealthError ''REPORT_SOURCE_INVALID'')) (\<lambda>_.
     bindR (sections (report_sections source now) v) (\<lambda>d. Inr (PDict d)))"

section \<open>Bundles\<close>

type_synonym document = "nat \<times> pyval res"

definition inspect_envelope ::
  "document \<Rightarrow> string list \<Rightarrow> rat \<Rightarrow> bool \<Rightarrow> ((string \<times> pyval) list \<times> pyval option) res" where
  "inspect_envelope document expected now include_policy =
     bindR (check (fst document \<le> MAX_JSON) (HealthError ''RESULT_BUNDLE_TOO_LARGE'')) (\<lambda>_.
     bindR (snd document) (\<lambda>v.
     let fields = [''version'', ''generated_at'', ''reports''] @ (if include_policy then [''policy_attestation''] else [])
     in bindR (check (is_dict v \<and> get v ''version'' = PInt 1 \<and> has_keys v fields \<and> has_keys (get v ''reports'') expected)
                     (HealthError ''RESULT_BUNDLE_INVALID'')) (\<lambda>_.
        bindR (epoch (get v ''generated_at'')) (\<lambda>generated.
        bindR (check (fsub now 120 \<le> generated \<and> generated \<le> fadd now 30) (HealthError ''RESULT_BUNDLE_INVALID'')) (\<lambda>_.
        bindR (mapR (\<lambda>name. bindR (sanitize_report (get (get v ''reports'') name) name now) (\<lambda>r. Inr (name, r))) expected) (\<lambda>reports.
        if include_policy
        then bindR (sanitize_policy (get v ''policy_attestation'') now) (\<lambda>policy. Inr (reports, Some policy))
        else Inr (reports, None)))))))"

definition inspect_bundle :: "document \<Rightarrow> string list \<Rightarrow> rat \<Rightarrow> (string \<times> pyval) list res" where
  "inspect_bundle document expected now = bindR (inspect_envelope document expected now False) (\<lambda>(reports, _). Inr reports)"

section \<open>Values up to the order of items\<close>

text \<open>\<open>json.dumps\<close> sorts the keys of every dict, so a value arrives with its items in another order.\<close>

inductive agrees :: "pyval \<Rightarrow> pyval \<Rightarrow> bool" where
  agrees_atom: "\<not> is_dict v \<Longrightarrow> agrees v v"
| agrees_items: "distinct (map fst e) \<Longrightarrow> (\<And>k. rel_option agrees (map_of d k) (map_of e k)) \<Longrightarrow> agrees (PDict d) (PDict e)"
monos option.rel_mono

inductive_cases agrees_dictE: "agrees (PDict d) w"

lemma agrees_eq: "\<not> is_dict v \<Longrightarrow> agrees v w \<longleftrightarrow> w = v"
  by (auto elim: agrees.cases intro: agrees_atom)

lemma agrees_dict: "agrees (PDict d) w \<longleftrightarrow> (\<exists>e. w = PDict e \<and> distinct (map fst e) \<and> (\<forall>k. rel_option agrees (map_of d k) (map_of e k)))"
  by (auto elim!: agrees_dictE intro: agrees_items)

lemma agrees_simps [simp]:
  "agrees (PStr s) w = (w = PStr s)" "agrees (PInt i) w = (w = PInt i)" "agrees (PFloat q) w = (w = PFloat q)"
  "agrees (PBool b) w = (w = PBool b)" "agrees PNone w = (w = PNone)" "agrees (PList xs) w = (w = PList xs)"
  by (simp_all add: agrees_eq)

section \<open>Sections reproduce their output\<close>

definition keeps :: "string set \<Rightarrow> (pyval \<Rightarrow> item_list res) \<Rightarrow> (pyval \<Rightarrow> item_list res) \<Rightarrow> bool" where
  "keeps ks f g \<longleftrightarrow>
     (\<forall>v a. f v = Inr a \<longrightarrow>
        distinct (map fst a) \<and> fst ` set a \<subseteq> ks
        \<and> (\<forall>d. (\<forall>k\<in>ks. rel_option agrees (map_of a k) (map_of d k)) \<longrightarrow>
             (\<exists>b. g (PDict d) = Inr b \<and> distinct (map fst b) \<and> fst ` set b \<subseteq> ks \<and> (\<forall>k. rel_option agrees (map_of a k) (map_of b k)))))"

lemma keeps_Nil: "keeps {} (sections []) (sections [])"
  by (simp add: keeps_def)

lemma map_of_outside: "fst ` set a \<subseteq> ks \<Longrightarrow> k \<notin> ks \<Longrightarrow> map_of a k = None"
  by (auto simp: map_of_eq_None_iff)

lemma keepsD:
  assumes "keeps ks f g" "f v = Inr a"
  shows "distinct (map fst a)" "fst ` set a \<subseteq> ks"
    "\<forall>k\<in>ks. rel_option agrees (map_of a k) (map_of d k) \<Longrightarrow>
       \<exists>b. g (PDict d) = Inr b \<and> distinct (map fst b) \<and> fst ` set b \<subseteq> ks \<and> (\<forall>k. rel_option agrees (map_of a k) (map_of b k))"
  using assms by (simp_all add: keeps_def)

lemma keepsI:
  assumes "\<And>v a. f v = Inr a \<Longrightarrow> distinct (map fst a)" "\<And>v a. f v = Inr a \<Longrightarrow> fst ` set a \<subseteq> ks"
    and "\<And>v a d. f v = Inr a \<Longrightarrow> \<forall>k\<in>ks. rel_option agrees (map_of a k) (map_of d k) \<Longrightarrow>
       \<exists>b. g (PDict d) = Inr b \<and> distinct (map fst b) \<and> fst ` set b \<subseteq> ks \<and> (\<forall>k. rel_option agrees (map_of a k) (map_of b k))"
  shows "keeps ks f g"
  using assms by (simp add: keeps_def)

lemma map_of_append:
  "fst ` set a \<subseteq> ks \<Longrightarrow> fst ` set b \<subseteq> ls \<Longrightarrow> ks \<inter> ls = {} \<Longrightarrow>
     map_of (a @ b) k = (if k \<in> ks then map_of a k else map_of b k)"
proof -
  assume a: "fst ` set a \<subseteq> ks" and b: "fst ` set b \<subseteq> ls" and d: "ks \<inter> ls = {}"
  show ?thesis
  proof (cases "k \<in> ks")
    case True
    with d have "k \<notin> ls" by blast
    then show ?thesis using True map_of_outside [OF b] by (simp add: map_add_def split: option.split)
  next
    case False
    then show ?thesis using map_of_outside [OF a] by (simp add: map_add_def split: option.split)
  qed
qed

lemma keeps_Cons:
  assumes f: "keeps ks f g" and fs: "keeps ls (sections fs) (sections gs)" and dis: "ks \<inter> ls = {}"
  shows "keeps (ks \<union> ls) (sections (f # fs)) (sections (g # gs))"
proof (rule keepsI)
  fix v c
  assume "sections (f # fs) v = Inr c"
  then obtain a b where a: "f v = Inr a" and b: "sections fs v = Inr b" and c: "c = a @ b"
    by (auto simp: in_sequence_def)
  note ka = keepsD [OF f a] and kb = keepsD [OF fs b]
  note look = map_of_append [OF ka(2) kb(2) dis]
  show "distinct (map fst c)"
    using ka(1,2) kb(1,2) dis unfolding c map_append distinct_append set_map by blast
  show "fst ` set c \<subseteq> ks \<union> ls"
    using ka(2) kb(2) unfolding c set_append image_Un by blast
  fix d
  assume d: "\<forall>k\<in>ks \<union> ls. rel_option agrees (map_of c k) (map_of d k)"
  have "\<forall>k\<in>ks. rel_option agrees (map_of a k) (map_of d k)"
  proof
    fix k assume "k \<in> ks"
    then show "rel_option agrees (map_of a k) (map_of d k)" using bspec [OF d, of k] unfolding c look by simp
  qed
  then obtain a' where a': "g (PDict d) = Inr a'" "distinct (map fst a')" "fst ` set a' \<subseteq> ks" "\<forall>k. rel_option agrees (map_of a k) (map_of a' k)"
    using ka(3) by blast
  have "\<forall>k\<in>ls. rel_option agrees (map_of b k) (map_of d k)"
  proof
    fix k assume k: "k \<in> ls"
    then have "k \<notin> ks" using dis by blast
    with k show "rel_option agrees (map_of b k) (map_of d k)" using bspec [OF d, of k] unfolding c look by simp
  qed
  then obtain b' where b': "sections gs (PDict d) = Inr b'" "distinct (map fst b')" "fst ` set b' \<subseteq> ls" "\<forall>k. rel_option agrees (map_of b k) (map_of b' k)"
    using kb(3) by blast
  have "sections (g # gs) (PDict d) = Inr (a' @ b')" using a' b' by (simp add: in_sequence_def)
  moreover have "distinct (map fst (a' @ b'))"
    using a'(2,3) b'(2,3) dis unfolding map_append distinct_append set_map by blast
  moreover have "fst ` set (a' @ b') \<subseteq> ks \<union> ls"
    using a'(3) b'(3) unfolding set_append image_Un by blast
  moreover have "\<forall>k. rel_option agrees (map_of c k) (map_of (a' @ b') k)"
    unfolding c look map_of_append [OF a'(3) b'(3) dis] using a'(4) b'(4) by simp
  ultimately show "\<exists>b. sections (g # gs) (PDict d) = Inr b \<and> distinct (map fst b) \<and> fst ` set b \<subseteq> ks \<union> ls
      \<and> (\<forall>k. rel_option agrees (map_of c k) (map_of b k))" by blast
qed

definition settles :: "(pyval \<Rightarrow> pyval res) \<Rightarrow> bool" where
  "settles f \<longleftrightarrow> (\<forall>x y z. f x = Inr y \<longrightarrow> agrees y z \<longrightarrow> (\<exists>w. f z = Inr w \<and> agrees y w))"

lemma keeps_optional: "settles f \<Longrightarrow> keeps {k} (optional k f) (optional k f)"
  unfolding keeps_def
proof (intro allI impI)
  fix v a
  assume f: "settles f" and a: "optional k f v = Inr a"
  show "distinct (map fst a) \<and> fst ` set a \<subseteq> {k}
      \<and> (\<forall>d. (\<forall>l\<in>{k}. rel_option agrees (map_of a l) (map_of d l)) \<longrightarrow>
           (\<exists>b. optional k f (PDict d) = Inr b \<and> distinct (map fst b) \<and> fst ` set b \<subseteq> {k} \<and> (\<forall>l. rel_option agrees (map_of a l) (map_of b l))))"
  proof (cases "has_key v k")
    case False
    with a have "a = []" by (simp add: optional_def)
    then show ?thesis by (auto simp: optional_def)
  next
    case True
    with a obtain y where y: "f (get v k) = Inr y" "a = [(k, y)]" by (auto simp: optional_def)
    have "\<exists>b. optional k f (PDict d) = Inr b \<and> distinct (map fst b) \<and> fst ` set b \<subseteq> {k} \<and> (\<forall>l. rel_option agrees (map_of a l) (map_of b l))"
      if "rel_option agrees (Some y) (map_of d k)" for d
    proof -
      from that obtain z where z: "map_of d k = Some z" "agrees y z" by (auto simp: option_rel_Some1)
      then obtain w where "f z = Inr w" "agrees y w" using f y unfolding settles_def by blast
      with z show ?thesis by (auto simp: optional_def y)
    qed
    then show ?thesis by (simp add: y)
  qed
qed

lemma settles_atom: "(\<And>x y. f x = Inr y \<Longrightarrow> y = x \<and> \<not> is_dict x) \<Longrightarrow> settles f"
  unfolding settles_def by (metis agrees_atom agrees_eq)

lemma settles_checked: "(\<And>x. p x \<Longrightarrow> \<not> is_dict x) \<Longrightarrow> settles (checked p r)"
  by (rule settles_atom) (auto simp: checked_def)

lemma is_number_atom: "is_number x \<Longrightarrow> \<not> is_dict x"
  by (cases x) auto

lemma settles_number: "settles (bounded_number m)"
  by (rule settles_atom) (auto simp: bounded_number_def dest: is_number_atom)

lemma settles_number_or_none: "settles (number_or_none m)"
  by (rule settles_atom) (auto simp: number_or_none_def bounded_number_def dest: is_number_atom split: if_splits)

lemma settles_boot_id: "settles boot_id"
  by (rule settles_atom) (auto simp: boot_id_def elim: is_str.elims)


lemma get_of_agrees: "rel_option agrees x y \<Longrightarrow> agrees (case x of None \<Rightarrow> PNone | Some v \<Rightarrow> v) (case y of None \<Rightarrow> PNone | Some v \<Rightarrow> v)"
  by (cases x; cases y) auto

lemma bindR_checked: "bindR m (\<lambda>ok. bindR (check ok e) g) = Inr y \<longleftrightarrow> m = Inr True \<and> g () = Inr y"
  by auto

lemma report_head_Inr:
  "report_head source now v = Inr a \<longleftrightarrow>
     (\<exists>t. epoch (get v ''observed_at'') = Inr t \<and> report_schema source now v t = Inr True
        \<and> (\<not> is_string (get v ''kind'') ''access-policy'' \<or> source = ''staging-access-policy'')
        \<and> severity_ok source v \<and> a = head_items v)"
  by (auto simp: report_head_def)

lemma report_schema_True:
  "report_schema source now v t = Inr True \<longleftrightarrow>
     get v ''version'' = PInt 1 \<and> get v ''source'' = PStr source \<and> (\<exists>k. get v ''kind'' = PStr k \<and> k \<in> set KINDS)
     \<and> (\<exists>s. get v ''status'' = PStr s \<and> s \<in> set STATES) \<and> t \<le> fadd now 30"
  by (simp add: report_schema_def)

lemma epoch_atom: "epoch v = Inr t \<Longrightarrow> \<not> is_dict v"
  by (cases v) auto

lemma agrees_SomeD: "rel_option agrees (Some x) y \<Longrightarrow> \<not> is_dict x \<Longrightarrow> y = Some x"
  by (cases y) (auto simp: agrees_eq)

lemma report_schema_cong:
  assumes "\<And>k. k \<in> set head_keys \<Longrightarrow> get w k = get v k"
  shows "report_schema source now w t = report_schema source now v t"
  using assms by (simp add: report_schema_def head_keys_def)

lemma head_items_cong:
  assumes "\<And>k. k \<in> set head_keys \<Longrightarrow> get w k = get v k"
  shows "head_items w = head_items v"
  using assms by (simp add: head_items_def head_keys_def)

lemma head_items_at:
  "k \<in> set head_keys \<Longrightarrow> map_of (head_items v) k = Some (get v k)"
  "map_of (head_items v) ''severity'' = (if is_string (get v ''kind'') ''tls-expiry-warning'' then Some (PStr ''warning'') else None)"
  by (auto simp: head_items_def head_keys_def)

lemma head_items_atoms:
  assumes "epoch (get v ''observed_at'') = Inr t" "report_schema source now v t = Inr True" "map_of (head_items v) k = Some x"
  shows "\<not> is_dict x"
proof -
  have "k \<in> set head_keys \<or> k = ''severity''"
    using map_of_SomeD [OF assms(3)] by (auto simp: head_items_def head_keys_def split: if_splits)
  then show ?thesis
  proof
    assume k: "k \<in> set head_keys"
    then have x: "x = get v k" using assms(3) head_items_at(1) by simp
    from assms(2) obtain k' s where "get v ''version'' = PInt 1" "get v ''source'' = PStr source" "get v ''kind'' = PStr k'"
      "get v ''status'' = PStr s" by (auto simp: report_schema_True)
    with k x epoch_atom [OF assms(1)] show ?thesis by (auto simp: head_keys_def)
  next
    assume "k = ''severity''"
    then show ?thesis using assms(3) by (auto simp: head_items_at split: if_splits)
  qed
qed

lemma head_items_keys: "distinct (map fst (head_items v))" "fst ` set (head_items v) \<subseteq> set head_keys \<union> {''severity''}"
  by (auto simp: head_items_def head_keys_def)

lemma report_schema_later:
  assumes "report_schema source now v t = Inr True" "fadd now 30 \<le> fadd now' 30"
  shows "report_schema source now' v t = Inr True"
  using assms unfolding report_schema_True by (meson order_trans)

lemma severity_ok_cong:
  assumes "severity_ok source v" "get w ''kind'' = get v ''kind''"
    "map_of (items w) ''severity'' = (if is_string (get v ''kind'') ''tls-expiry-warning'' then Some (PStr ''warning'') else None)"
  shows "severity_ok source w"
  using assms by (cases "is_string (get v ''kind'') ''tls-expiry-warning''") (simp_all add: severity_ok_def is_string_def has_key_def get_or_def)

lemma report_head_again:
  assumes "report_head source now v = Inr a" "\<And>k. k \<in> set head_keys \<Longrightarrow> get w k = get v k"
    "map_of (items w) ''severity'' = (if is_string (get v ''kind'') ''tls-expiry-warning'' then Some (PStr ''warning'') else None)"
    "fadd now 30 \<le> fadd now' 30"
  shows "report_head source now' w = Inr a"
proof -
  have k: "get w ''kind'' = get v ''kind''" "get w ''observed_at'' = get v ''observed_at''"
    by (rule assms(2), simp add: head_keys_def)+
  have eqs: "report_schema source now' w t = report_schema source now' v t" "head_items w = head_items v" for t
    by (rule report_schema_cong head_items_cong, erule assms(2))+
  obtain t where t: "epoch (get v ''observed_at'') = Inr t" "report_schema source now v t = Inr True"
    "\<not> is_string (get v ''kind'') ''access-policy'' \<or> source = ''staging-access-policy''"
    "severity_ok source v" "a = head_items v"
    using iffD1 [OF report_head_Inr assms(1)] by (elim exE conjE) (rule that)
  have "report_schema source now' w t = Inr True"
    unfolding eqs(1) by (rule report_schema_later [OF t(2) assms(4)])
  then show ?thesis
    unfolding report_head_Inr k eqs(2)
    by (intro exI [of _ t] conjI t severity_ok_cong [OF t(4) k(1) assms(3)])
qed

lemma report_head_atoms: "report_head source now v = Inr a \<Longrightarrow> map_of a k = Some x \<Longrightarrow> \<not> is_dict x"
  unfolding report_head_Inr using head_items_atoms by blast

lemma keeps_head:
  assumes "fadd now 30 \<le> fadd now' 30"
  shows "keeps (set head_keys \<union> {''severity''}) (report_head source now) (report_head source now')"
proof (rule keepsI)
  fix v a
  assume h: "report_head source now v = Inr a"
  then have a: "a = head_items v" unfolding report_head_Inr by blast
  show keys: "distinct (map fst a)" "fst ` set a \<subseteq> set head_keys \<union> {''severity''}"
    unfolding a by (rule head_items_keys)+
  fix d
  assume d: "\<forall>l\<in>set head_keys \<union> {''severity''}. rel_option agrees (map_of a l) (map_of d l)"
  have same: "map_of d l = map_of (head_items v) l" if l: "l \<in> set head_keys \<union> {''severity''}" for l
    using bspec [OF d l] agrees_SomeD [of _ "map_of d l"] report_head_atoms [OF h, of l]
    by (cases "map_of a l") (auto simp: a)
  have "report_head source now' (PDict d) = Inr a"
  proof (rule report_head_again [OF h])
    fix k assume k: "k \<in> set head_keys"
    have "map_of d k = Some (get v k)" unfolding same [OF UnI1 [OF k]] by (rule head_items_at(1) [OF k])
    then show "get (PDict d) k = get v k" by simp
  next
    show "map_of (items (PDict d)) ''severity'' = (if is_string (get v ''kind'') ''tls-expiry-warning'' then Some (PStr ''warning'') else None)"
      unfolding items.simps same [of "''severity''", OF UnI2 [OF singletonI]] by (rule head_items_at(2))
    show "fadd now 30 \<le> fadd now' 30" by (rule assms)
  qed
  moreover have "rel_option agrees (map_of a l) (map_of a l)" for l
    using report_head_atoms [OF h, of l] by (cases "map_of a l") (auto simp: agrees_eq)
  ultimately show "\<exists>b. report_head source now' (PDict d) = Inr b \<and> distinct (map fst b) \<and> fst ` set b \<subseteq> set head_keys \<union> {''severity''}
      \<and> (\<forall>l. rel_option agrees (map_of a l) (map_of b l))"
    using keys by blast
qed

lemma mapR_numbers:
  "mapR (\<lambda>(k, y). bindR (bounded_number m y) (\<lambda>z. Inr (k, z))) d = Inr e \<longleftrightarrow>
     e = d \<and> (\<forall>(k, y)\<in>set d. bounded_number m y = Inr y)"
proof -
  have n: "bounded_number m y = Inr z \<Longrightarrow> z = y" for y z
    by (auto simp: bounded_number_def)
  show ?thesis
  proof (induction d arbitrary: e)
    case (Cons p d)
    obtain k y where p: "p = (k, y)" by (cases p)
    show ?case unfolding p by (auto simp: Cons.IH dest: n)
  qed auto
qed

lemma report_metrics_Inr:
  "report_metrics x = Inr y \<longleftrightarrow>
     (\<exists>d. x = PDict d \<and> y = PDict d \<and> (\<forall>(k, z)\<in>set d. k \<in> set METRICS \<and> bounded_number (10 ^ 15) z = Inr z))"
  by (cases x) (auto simp: report_metrics_def mapR_numbers list_all_iff)

lemma agrees_items_back:
  assumes "\<forall>k. rel_option agrees (map_of d k) (map_of e k)" "distinct (map fst e)" "(k, z) \<in> set e"
  obtains y where "(k, y) \<in> set d" "agrees y z"
proof -
  have "map_of e k = Some z" using assms(2,3) by (simp add: map_of_is_SomeI)
  with assms(1) obtain y where "map_of d k = Some y" "agrees y z" by (metis option_rel_Some2)
  then show ?thesis using that by (auto dest: map_of_SomeD)
qed

lemma settles_metrics: "settles report_metrics"
  unfolding settles_def
proof (intro allI impI)
  fix x y z
  assume "report_metrics x = Inr y" and yz: "agrees y z"
  then obtain d where d: "y = PDict d" "\<forall>(k, v)\<in>set d. k \<in> set METRICS \<and> bounded_number (10 ^ 15) v = Inr v"
    by (auto simp: report_metrics_Inr)
  then obtain e where e: "z = PDict e" "distinct (map fst e)" "\<forall>k. rel_option agrees (map_of d k) (map_of e k)"
    using yz by (auto simp: agrees_dict)
  have "k \<in> set METRICS \<and> bounded_number (10 ^ 15) v = Inr v" if kv: "(k, v) \<in> set e" for k v
  proof -
    obtain u where u: "(k, u) \<in> set d" "agrees u v" using agrees_items_back [OF e(3,2) kv] .
    then have b: "k \<in> set METRICS" "bounded_number (10 ^ 15) u = Inr u" using d(2) by auto
    then have "\<not> is_dict u" by (auto simp: bounded_number_def dest: is_number_atom)
    with u(2) b show ?thesis by (simp add: agrees_eq)
  qed
  then have "report_metrics z = Inr z" by (auto simp: report_metrics_Inr e)
  with yz show "\<exists>w. report_metrics z = Inr w \<and> agrees y w" by blast
qed

lemma keeps_host_head: "keeps {''status''} host_head host_head"
proof (rule keepsI)
  fix v a
  assume "host_head v = Inr a"
  then obtain s where s: "s \<in> set STATES" and a: "a = [(''status'', PStr s)]" by (auto simp: host_head_def)
  then show "distinct (map fst a)" "fst ` set a \<subseteq> {''status''}" by simp_all
  fix d
  assume "\<forall>k\<in>{''status''}. rel_option agrees (map_of a k) (map_of d k)"
  then have "map_of d ''status'' = Some (PStr s)" by (auto simp: a option_rel_Some1)
  then show "\<exists>b. host_head (PDict d) = Inr b \<and> distinct (map fst b) \<and> fst ` set b \<subseteq> {''status''}
      \<and> (\<forall>k. rel_option agrees (map_of a k) (map_of b k))"
    using s by (simp add: host_head_def a)
qed

lemma reason_atom: "reason_ok x \<Longrightarrow> \<not> is_dict x"
  by (cases x) (auto simp: reason_ok_def)

lemma in_tuple_atom: "in_tuple x ss \<Longrightarrow> \<not> is_dict x"
  by (auto dest: in_tuple_elim)

lemma settles_reason: "settles (checked reason_ok r)"
  by (rule settles_checked) (rule reason_atom)

lemma settles_tuple: "settles (checked (\<lambda>x. in_tuple x ss) r)"
  by (rule settles_checked) (rule in_tuple_atom)

lemma settles_same: "settles (checked (\<lambda>x. x = PStr s) r)"
  by (rule settles_checked) simp

lemma settles_bool: "settles (checked is_bool r)"
  by (rule settles_checked) (auto elim: is_bool.elims)

lemma settles_http: "settles (checked http_status_ok r)"
  by (rule settles_checked) (auto simp: http_status_ok_def elim: is_int.elims)

lemmas keeps_rules = settles_reason settles_tuple settles_same settles_bool settles_http keeps_Cons keeps_Nil keeps_optional keeps_host_head settles_number settles_number_or_none
  settles_boot_id settles_metrics

lemma settles_host: "settles report_host"
proof -
  let ?fs = "[host_head, optional ''reason'' (checked reason_ok ''REPORT_HOST_REASON_INVALID''), optional ''boot_id'' boot_id]
               @ map (\<lambda>(k, maximum). optional k (bounded_number maximum)) HOST_NUMBERS
               @ [optional ''gpu_memory'' (checked (\<lambda>x. in_tuple x [''SUPPORTED'', ''UNSUPPORTED'']) ''REPORT_GPU_STATUS_INVALID''),
                  optional ''gpu_query'' (checked (\<lambda>x. in_tuple x [''OBSERVER_ERROR'']) ''REPORT_GPU_STATUS_INVALID'')]"
  have "\<exists>ks. keeps ks (sections ?fs) (sections ?fs)"
    unfolding HOST_NUMBERS_def list.map append.simps prod.case
    by (rule exI, (rule keeps_rules)+) simp_all
  then obtain ks where ks: "keeps ks (sections ?fs) (sections ?fs)" by blast
  show ?thesis
    unfolding settles_def
  proof (intro allI impI)
    fix x y z
    assume "report_host x = Inr y" and yz: "agrees y z"
    then obtain a where a: "sections ?fs x = Inr a" "y = PDict a" by (auto simp: report_host_def)
    then obtain d where d: "z = PDict d" "\<forall>k. rel_option agrees (map_of a k) (map_of d k)"
      using yz by (auto simp: agrees_dict)
    then obtain b where "sections ?fs (PDict d) = Inr b" "distinct (map fst b)" "\<forall>k. rel_option agrees (map_of a k) (map_of b k)"
      using keepsD(3) [OF ks a(1)] by blast
    then show "\<exists>w. report_host z = Inr w \<and> agrees y w"
      by (intro exI [of _ "PDict b"]) (simp add: report_host_def d a agrees_dict)
  qed
qed

lemma report_sections_keep:
  assumes "fadd now 30 \<le> fadd now' 30"
  obtains ks where "keeps ks (sections (report_sections source now)) (sections (report_sections source now'))"
proof -
  have "\<exists>ks. keeps ks (sections (report_sections source now)) (sections (report_sections source now'))"
    unfolding report_sections_def NUMBERS_def list.map append.simps prod.case
    by (rule exI, (rule keeps_rules settles_host keeps_head [OF assms])+) (simp_all add: head_keys_def)
  then show ?thesis using that by blast
qed

lemma sanitize_report_again:
  assumes "sanitize_report v source now = Inr r" "agrees r w" "0 \<le> now" "now \<le> now'"
  shows "\<exists>q. sanitize_report w source now' = Inr q \<and> agrees r q"
proof -
  obtain ks where ks: "keeps ks (sections (report_sections source now)) (sections (report_sections source now'))"
    using report_sections_keep [of now now'] assms(3,4) by (auto simp: fadd_def fl_mono)
  obtain a where s: "source \<in> set SOURCES" and a: "sections (report_sections source now) v = Inr a" "r = PDict a"
    using assms(1) by (auto simp: sanitize_report_def)
  obtain d where d: "w = PDict d" "\<forall>k. rel_option agrees (map_of a k) (map_of d k)"
    using assms(2) by (auto simp: a(2) agrees_dict)
  then obtain b where "sections (report_sections source now') w = Inr b" "distinct (map fst b)"
      "\<forall>k. rel_option agrees (map_of a k) (map_of b k)"
    using keepsD(3) [OF ks a(1), of d] by blast
  then show ?thesis
    using s by (intro exI [of _ "PDict b"]) (simp add: sanitize_report_def d(1) a(2) agrees_dict)
qed

section \<open>The type of a sanitised report\<close>

fun number_within :: "rat \<Rightarrow> pyval \<Rightarrow> bool" where
  "number_within m (PInt i) = (0 \<le> i \<and> of_int i \<le> m)"
| "number_within m (PFloat q) = (0 \<le> q \<and> q \<le> m)"
| "number_within m _ = False"

definition host_type :: "string \<Rightarrow> pyval \<Rightarrow> bool" where
  "host_type k x =
     (if k = ''status'' then in_tuple x STATES
      else if k = ''reason'' then reason_ok x
      else if k = ''boot_id'' then boot_id x = Inr x
      else if k = ''gpu_memory'' then in_tuple x [''SUPPORTED'', ''UNSUPPORTED'']
      else if k = ''gpu_query'' then x = PStr ''OBSERVER_ERROR''
      else case map_of HOST_NUMBERS k of Some m \<Rightarrow> number_within m x | None \<Rightarrow> False)"

definition dict_of :: "(string \<Rightarrow> pyval \<Rightarrow> bool) \<Rightarrow> pyval \<Rightarrow> bool" where
  "dict_of p v = (is_dict v \<and> list_all (\<lambda>(k, x). p k x) (items v))"

definition report_type :: "string \<Rightarrow> string \<Rightarrow> pyval \<Rightarrow> bool" where
  "report_type source k x =
     (if k = ''version'' then x = PInt 1
      else if k = ''source'' \<or> k = ''target'' then x = PStr source
      else if k = ''kind'' then in_tuple x KINDS
      else if k = ''status'' then in_tuple x STATES
      else if k = ''observed_at'' then (\<exists>t. epoch x = Inr t)
      else if k = ''severity'' then x = PStr ''warning''
      else if k = ''phase'' then in_tuple x [''DNS'', ''TLS'', ''HTTP'', ''UNKNOWN'']
      else if k = ''reason'' \<or> k = ''metrics_reason'' then reason_ok x
      else if k = ''http_status'' then http_status_ok x
      else if k = ''answer_correct'' \<or> k = ''counter_reset'' then is_bool x
      else if k = ''metrics_status'' then in_tuple x [''SUPPORTED'', ''UNSUPPORTED'', ''OBSERVER_ERROR'']
      else if k = ''metrics'' then dict_of (\<lambda>m y. m \<in> set METRICS \<and> number_within (10 ^ 15) y) x
      else if k = ''host'' then dict_of host_type x
      else case map_of NUMBERS k of Some m \<Rightarrow> x = PNone \<or> number_within m x | None \<Rightarrow> False)"

definition yields :: "(string \<Rightarrow> pyval \<Rightarrow> bool) \<Rightarrow> (pyval \<Rightarrow> item_list res) \<Rightarrow> bool" where
  "yields p f \<longleftrightarrow> (\<forall>v a. f v = Inr a \<longrightarrow> list_all (\<lambda>(k, x). p k x) a)"

lemma yields_Nil: "yields p (sections [])"
  by (simp add: yields_def)

lemma yields_Cons: "yields p f \<Longrightarrow> yields p (sections fs) \<Longrightarrow> yields p (sections (f # fs))"
  by (auto simp: yields_def in_sequence_def)

lemma yields_optional: "(\<And>x y. f x = Inr y \<Longrightarrow> p k y) \<Longrightarrow> yields p (optional k f)"
  by (auto simp: yields_def optional_def split: if_splits)

lemma yields_checked: "(\<And>x. q x \<Longrightarrow> p k x) \<Longrightarrow> yields p (optional k (checked q r))"
  by (rule yields_optional) (auto simp: checked_def)

lemma bounded_within: "bounded_number m x = Inr y \<Longrightarrow> number_within m y"
  by (cases x) (auto simp: bounded_number_def)

lemma yields_number: "(\<And>x. number_within m x \<Longrightarrow> p k x) \<Longrightarrow> yields p (optional k (bounded_number m))"
  by (rule yields_optional) (auto dest: bounded_within)

lemma yields_number_or_none:
  "(\<And>x. x = PNone \<or> number_within m x \<Longrightarrow> p k x) \<Longrightarrow> yields p (optional k (number_or_none m))"
  by (rule yields_optional) (auto simp: number_or_none_def dest: bounded_within split: if_splits)

lemma in_tuple_single: "in_tuple x [s] = (x = PStr s)"
  by (cases x) (auto simp: in_tuple_def)

lemma yields_head: "yields (report_type source) (report_head source now)"
  unfolding yields_def
proof (intro allI impI)
  fix v a
  assume "report_head source now v = Inr a"
  then obtain t where t: "epoch (get v ''observed_at'') = Inr t" "report_schema source now v t = Inr True" "a = head_items v"
    unfolding report_head_Inr by blast
  then show "list_all (\<lambda>(k, x). report_type source k x) a"
    by (auto simp: report_schema_True head_items_def head_keys_def report_type_def)
qed

lemma report_metrics_type: "report_metrics x = Inr y \<Longrightarrow> dict_of (\<lambda>m z. m \<in> set METRICS \<and> number_within (10 ^ 15) z) y"
  using bounded_within by (fastforce simp: report_metrics_Inr dict_of_def list_all_iff)

lemma report_host_type: "report_host x = Inr y \<Longrightarrow> dict_of host_type y"
proof -
  let ?fs = "[host_head, optional ''reason'' (checked reason_ok ''REPORT_HOST_REASON_INVALID''), optional ''boot_id'' boot_id]
               @ map (\<lambda>(k, maximum). optional k (bounded_number maximum)) HOST_NUMBERS
               @ [optional ''gpu_memory'' (checked (\<lambda>x. in_tuple x [''SUPPORTED'', ''UNSUPPORTED'']) ''REPORT_GPU_STATUS_INVALID''),
                  optional ''gpu_query'' (checked (\<lambda>x. in_tuple x [''OBSERVER_ERROR'']) ''REPORT_GPU_STATUS_INVALID'')]"
  have head: "yields host_type host_head"
    by (auto simp: yields_def host_head_def host_type_def)
  have boot: "yields host_type (optional ''boot_id'' boot_id)"
    by (rule yields_optional) (auto simp: host_type_def boot_id_def)
  have "yields host_type (sections ?fs)"
    unfolding HOST_NUMBERS_def list.map append.simps prod.case
    by (rule yields_Cons yields_Nil head boot yields_checked yields_number
        | (simp add: host_type_def HOST_NUMBERS_def in_tuple_single; fail))+
  moreover assume "report_host x = Inr y"
  ultimately show ?thesis by (auto simp: report_host_def yields_def dict_of_def)
qed

lemma report_sections_type: "yields (report_type source) (sections (report_sections source now))"
proof -
  have host: "yields (report_type source) (optional ''host'' report_host)"
    by (rule yields_optional) (simp add: report_type_def report_host_type)
  have metrics: "yields (report_type source) (optional ''metrics'' report_metrics)"
    by (rule yields_optional, drule report_metrics_type) (simp add: report_type_def)
  show ?thesis
    unfolding report_sections_def NUMBERS_def list.map append.simps prod.case
    by (rule yields_Cons yields_Nil yields_head host metrics yields_checked yields_number_or_none
        | (simp add: report_type_def NUMBERS_def; fail))+
qed

fun wf_value :: "pyval \<Rightarrow> bool" where
  "wf_value (PDict d) = (distinct (map fst d) \<and> (\<forall>p\<in>set d. wf_value (snd p)))"
| "wf_value _ = True"

lemma wf_atom: "\<not> is_dict v \<Longrightarrow> wf_value v"
  by (cases v) auto

lemma agrees_refl: "wf_value v \<Longrightarrow> agrees v v"
proof (induction v)
  case (PDict d)
  have "rel_option agrees (map_of d k) (map_of d k)" for k
  proof (cases "map_of d k")
    case (Some x)
    then have "(k, x) \<in> set d" by (rule map_of_SomeD)
    then show ?thesis using PDict Some by (metis option.rel_inject(2) snds.intros snd_conv wf_value.simps(1))
  qed simp
  then show ?case using PDict by (auto intro: agrees_items)
qed (simp_all add: agrees_atom)

lemma agrees_get:
  assumes "agrees (PDict d) w" "map_of d k = Some x"
  shows "agrees x (get w k)" "has_key w k"
proof -
  obtain e where e: "w = PDict e" "rel_option agrees (map_of d k) (map_of e k)"
    using assms(1) by (auto simp: agrees_dict)
  then show "agrees x (get w k)" "has_key w k"
    using assms(2) by (auto simp: option_rel_Some1)
qed

lemma agrees_get_atom:
  assumes "agrees (PDict d) w" "map_of d k = Some x" "\<not> is_dict x"
  shows "get w k = x"
  using agrees_get(1) [OF assms(1,2)] assms(3) by (simp add: agrees_eq)

lemma agrees_is_dict: "agrees (PDict d) w \<Longrightarrow> is_dict w"
  by (auto simp: agrees_dict)

lemma policy_times_again:
  assumes "policy_times v now = Inr (issued, expires)" "0 \<le> now" "now \<le> now'"
    "is_dict w" "get w ''kind'' = PStr POLICY_KIND" "is_bool (get w ''valid'')"
    "get w ''issued_at'' = PFloat issued" "get w ''expires_at'' = PFloat expires"
  shows "policy_times w now' = Inr (issued, expires)"
proof -
  from assms(1) have t: "issued \<le> fadd now 30" "issued \<le> 4102444800" "expires \<le> 4102444800" "0 \<le> issued" "0 \<le> expires"
    by (auto simp: policy_times_def dest: epoch_nonneg)
  moreover have "fadd now 30 \<le> fadd now' 30" using assms(2,3) by (simp add: fadd_def fl_mono)
  ultimately have "issued \<le> fadd now' 30" by simp
  then show ?thesis using t assms(4-) by (simp add: policy_times_def is_string_def)
qed

definition server_items :: "pyval \<Rightarrow> rat \<Rightarrow> item_list" where
  "server_items model key_expiry =
     [(''operations'', PList [PStr ''chat'']), (''effective_models'', PList [model]),
      (''fallback'', PNone), (''route'', PStr ''SELF_HOSTED'')]
     @ map (\<lambda>(k, n). (k, PInt n)) POLICY_SERVER @ [(''expires_at'', PFloat key_expiry)]"

lemma valid_policy_Inr:
  "valid_policy v issued expires = Inr a \<longleftrightarrow>
     origin_ok (get v ''gateway_origin'') \<and> model_ok (get v ''model'') \<and> hash_ok (get v ''key_sha256'')
     \<and> hash_ok (get v ''server_policy_sha256'') \<and> get v ''student_account'' = PBool False
     \<and> enforcement_ok (get v ''server_enforced'') (get v ''probe_enforced'') (get v ''model'')
     \<and> limits_ok (get v ''server_enforced'') POLICY_SERVER \<and> limits_ok (get v ''probe_enforced'') POLICY_PROBE
     \<and> (\<exists>t. epoch (get (get v ''server_enforced'') ''expires_at'') = Inr t \<and> expires \<le> t \<and> t \<le> 4102444800
           \<and> a = [(''key_sha256'', get v ''key_sha256''), (''server_policy_sha256'', get v ''server_policy_sha256''),
                  (''gateway_origin'', get v ''gateway_origin''), (''model'', get v ''model''), (''student_account'', PBool False),
                  (''server_enforced'', PDict (server_items (get v ''model'') t)),
                  (''probe_enforced'', PDict (map (\<lambda>(k, n). (k, PInt n)) POLICY_PROBE))])"
  unfolding valid_policy_def Let_def server_items_def
  by (simp only: bindR_eq_Inr check_eq_Inr sum.inject list.map append.simps list.pred_inject simp_thms conj_assoc eq_commute [of _ a]) blast

lemma server_ok:
  assumes "agrees (PDict (server_items model t)) s" "agrees (PDict (map (\<lambda>(k, n). (k, PInt n)) POLICY_PROBE)) p"
  shows "enforcement_ok s p model" "limits_ok s POLICY_SERVER" "limits_ok p POLICY_PROBE" "get s ''expires_at'' = PFloat t"
proof -
  note s = agrees_get_atom [OF assms(1)] and p = agrees_get_atom [OF assms(2)]
  show "enforcement_ok s p model"
    using agrees_is_dict [OF assms(1)] agrees_is_dict [OF assms(2)] agrees_get(2) [OF assms(1), of "''fallback''"]
    by (simp add: enforcement_ok_def s server_items_def is_string_def)
  show "limits_ok s POLICY_SERVER" by (simp add: limits_ok_def POLICY_SERVER_def s server_items_def)
  show "limits_ok p POLICY_PROBE" by (simp add: limits_ok_def POLICY_PROBE_def p)
  show "get s ''expires_at'' = PFloat t" by (simp add: s server_items_def POLICY_SERVER_def)
qed

lemma sanitize_policy_again:
  assumes r: "sanitize_policy v now = Inr r" and w: "agrees r w" and now: "0 \<le> now" "now \<le> now'"
    and fresh: "get r ''valid'' = PBool True \<Longrightarrow> now' \<le> num_val (get r ''expires_at'')"
  shows "sanitize_policy w now' = Inr r \<and> wf_value r"
proof -
  obtain issued expires where t: "policy_times v now = Inr (issued, expires)"
    using r by (auto simp: sanitize_policy_def)
  then have nonneg: "0 \<le> issued" "0 \<le> expires" and b: "is_bool (get v ''valid'')"
    by (auto simp: policy_times_def dest: epoch_nonneg)
  define base where "base = [(''kind'', PStr POLICY_KIND), (''valid'', get v ''valid''), (''issued_at'', PFloat issued),
                 (''expires_at'', PFloat expires)]"
  show ?thesis
  proof (cases "get v ''valid'' = PBool False")
    case True
    then obtain s where s: "get v ''reason'' = PStr s" "s \<in> set POLICY_REASONS" "expires = issued"
      and req: "r = PDict (base @ [(''reason'', PStr s)])"
      using r t by (auto simp: sanitize_policy_def base_def)
    note g = agrees_get_atom [OF w [unfolded req]]
    have "policy_times w now' = Inr (issued, expires)"
      using policy_times_again [OF t now agrees_is_dict [OF w [unfolded req]]] True by (simp add: g base_def)
    then show ?thesis
      using True s by (simp add: sanitize_policy_def g base_def req)
  next
    case False
    then have valid: "get v ''valid'' = PBool True" using b by (cases "get v ''valid''") auto
    obtain a where fields: "valid_policy v issued expires = Inr a" and req: "r = PDict (base @ a)"
      and time: "issued \<le> now" "now \<le> expires" "0 < fsub expires issued" "fsub expires issued \<le> 180"
      using r t valid by (auto simp: sanitize_policy_def base_def Let_def)
    from fields obtain k where k: "epoch (get (get v ''server_enforced'') ''expires_at'') = Inr k" "expires \<le> k" "k \<le> 4102444800"
      and a: "a = [(''key_sha256'', get v ''key_sha256''), (''server_policy_sha256'', get v ''server_policy_sha256''),
                  (''gateway_origin'', get v ''gateway_origin''), (''model'', get v ''model''), (''student_account'', PBool False),
                  (''server_enforced'', PDict (server_items (get v ''model'') k)),
                  (''probe_enforced'', PDict (map (\<lambda>(k, n). (k, PInt n)) POLICY_PROBE))]"
      and ok: "origin_ok (get v ''gateway_origin'')" "model_ok (get v ''model'')" "hash_ok (get v ''key_sha256'')"
        "hash_ok (get v ''server_policy_sha256'')"
      unfolding valid_policy_Inr by blast
    have atoms: "\<not> is_dict (get v ''gateway_origin'')" "\<not> is_dict (get v ''model'')" "\<not> is_dict (get v ''key_sha256'')"
        "\<not> is_dict (get v ''server_policy_sha256'')"
      using ok by (auto simp: origin_ok_def model_ok_def hash_ok_def elim: is_str.elims is_dict.elims)
    note g = agrees_get_atom [OF w [unfolded req]] and d = agrees_get(1) [OF w [unfolded req]]
    have w_values: "get w ''kind'' = PStr POLICY_KIND" "get w ''valid'' = PBool True" "get w ''issued_at'' = PFloat issued"
        "get w ''expires_at'' = PFloat expires" "get w ''key_sha256'' = get v ''key_sha256''"
        "get w ''server_policy_sha256'' = get v ''server_policy_sha256''" "get w ''gateway_origin'' = get v ''gateway_origin''"
        "get w ''model'' = get v ''model''" "get w ''student_account'' = PBool False"
      by (rule g; simp add: base_def valid a atoms)+
    have "agrees (PDict (server_items (get v ''model'') k)) (get w ''server_enforced'')"
        "agrees (PDict (map (\<lambda>(k, n). (k, PInt n)) POLICY_PROBE)) (get w ''probe_enforced'')"
      by (rule d; simp add: base_def a)+
    note s = server_ok [OF this]
    have "0 \<le> k" using epoch_nonneg [OF k(1)] .
    then have "valid_policy w issued expires = Inr a"
      unfolding valid_policy_Inr using s ok k(2,3) by (simp add: w_values a)
    moreover have "policy_times w now' = Inr (issued, expires)"
      using policy_times_again [OF t now agrees_is_dict [OF w [unfolded req]]] by (simp add: w_values)
    moreover have "now' \<le> expires" using fresh by (simp add: req base_def valid)
    ultimately have "sanitize_policy w now' = Inr r"
      using time now by (simp add: sanitize_policy_def w_values req base_def valid Let_def)
    moreover have "wf_value r"
      using atoms by (simp add: req base_def valid a server_items_def POLICY_SERVER_def POLICY_PROBE_def wf_atom)
    ultimately show ?thesis by simp
  qed
qed

lemma sample_report_sanitized:
  "sanitize_report
     (PDict [(''version'', PInt 1), (''source'', PStr ''public-api''), (''kind'', PStr ''public-http''), (''observed_at'', PInt 100),
             (''status'', PStr ''FAILED''), (''reason'', PStr ''HTTP_STATUS''), (''http_status'', PInt 503),
             (''body'', PStr ''free text''), (''latency_seconds'', PNone)]) ''public-api'' 120 =
   Inr (PDict [(''version'', PInt 1), (''source'', PStr ''public-api''), (''kind'', PStr ''public-http''), (''observed_at'', PInt 100),
               (''status'', PStr ''FAILED''), (''reason'', PStr ''HTTP_STATUS''), (''latency_seconds'', PNone), (''http_status'', PInt 503)])"
proof -
  have "SAFE_REASON ''HTTP_STATUS''" by code_simp
  moreover have "epoch (PInt 100) = Inr 100" by (simp add: float_of_int_def float_range_def fl_numeral)
  ultimately show ?thesis
    by (simp add: sanitize_report_def report_sections_def in_sequence_def report_head_def report_schema_def severity_ok_def
        head_items_def head_keys_def optional_def checked_def reason_ok_def number_or_none_def http_status_ok_def NUMBERS_def
        is_string_def SOURCES_def KINDS_def STATES_def fadd_def del: epoch.simps)
qed

text \<open>C22: A sanitised report has the fixed type: it is a dict without repeated keys whose keys all
  belong to the schema, and every value is of the type of its key - a word of a closed vocabulary,
  a machine reason, or a number within the bound of its key. No free text of the source gets through.\<close>

theorem sanitized_report_is_typed:
  assumes "sanitize_report v source now = Inr r"
  shows "source \<in> set SOURCES \<and> is_dict r \<and> distinct (map fst (items r))
     \<and> list_all (\<lambda>(k, x). report_type source k x) (items r)"
proof -
  obtain a where s: "source \<in> set SOURCES" and a: "sections (report_sections source now) v = Inr a" "r = PDict a"
    using assms by (auto simp: sanitize_report_def)
  have "list_all (\<lambda>(k, x). report_type source k x) a"
    using report_sections_type a(1) unfolding yields_def by blast
  moreover obtain ks where "keeps ks (sections (report_sections source now)) (sections (report_sections source now))"
    using report_sections_keep [OF order_refl] .
  then have "distinct (map fst a)" using a(1) by (rule keepsD(1))
  ultimately show ?thesis by (simp add: s a(2))
qed

lemma sanitized_report_is_typed_witness:
  "list_all (\<lambda>(k, x). report_type ''public-api'' k x)
     [(''version'', PInt 1), (''source'', PStr ''public-api''), (''kind'', PStr ''public-http''), (''observed_at'', PInt 100),
      (''status'', PStr ''FAILED''), (''reason'', PStr ''HTTP_STATUS''), (''latency_seconds'', PNone), (''http_status'', PInt 503)]"
  using sanitized_report_is_typed [OF sample_report_sanitized] by (simp only: items.simps)

end
