(* ===== verification/Effects.thy ===== *)
theory Effects
  imports PyValue "HOL-Library.Sublist"
begin

text \<open>
  Computations with effects: a step appends what it does to a log and ends with a value or an
  exception. The log lists the effects in order, so every prefix of it is what a crash leaves.
  \<open>does m l Q\<close> says what holds of the log and the result when \<open>m\<close> starts with the log \<open>l\<close>; its rules
  follow the structure of the program.
\<close>

type_synonym ('l, 'a) io = "'l \<Rightarrow> 'l \<times> 'a res"

definition liftR :: "'a res \<Rightarrow> ('l, 'a) io" where
  "liftR r l = (l, r)"

definition bindIO :: "('l, 'a) io \<Rightarrow> ('a \<Rightarrow> ('l, 'b) io) \<Rightarrow> ('l, 'b) io" where
  "bindIO m f l = (case m l of (l', Inl e) \<Rightarrow> (l', Inl e) | (l', Inr x) \<Rightarrow> f x l')"

text \<open>\<open>try: m except handled: h\<close>\<close>

definition catchIO :: "(exn \<Rightarrow> bool) \<Rightarrow> ('l, 'a) io \<Rightarrow> (exn \<Rightarrow> ('l, 'a) io) \<Rightarrow> ('l, 'a) io" where
  "catchIO handled m h l = (case m l of (l', Inl e) \<Rightarrow> if handled e then h e l' else (l', Inl e) | r \<Rightarrow> r)"

definition does :: "('l, 'a) io \<Rightarrow> 'l \<Rightarrow> ('l \<Rightarrow> 'a res \<Rightarrow> bool) \<Rightarrow> bool" where
  "does m l Q = (case m l of (l', r) \<Rightarrow> Q l' r)"

lemma does_lift: "Q l r \<Longrightarrow> does (liftR r) l Q"
  by (simp add: does_def liftR_def)

lemma does_bind:
  "does m l (\<lambda>l' r. case r of Inl e \<Rightarrow> Q l' (Inl e) | Inr x \<Rightarrow> does (f x) l' Q) \<Longrightarrow> does (bindIO m f) l Q"
  by (auto simp: does_def bindIO_def split: prod.splits sum.splits)

lemma does_bindI:
  assumes "does m l P" "\<And>l' e. P l' (Inl e) \<Longrightarrow> Q l' (Inl e)" "\<And>l' x. P l' (Inr x) \<Longrightarrow> does (f x) l' Q"
  shows "does (bindIO m f) l Q"
proof -
  obtain l' r where m: "m l = (l', r)" by (cases "m l")
  with assms(1) have "P l' r" by (simp add: does_def)
  with m assms(2,3) [of l'] show ?thesis by (cases r) (simp_all add: does_def bindIO_def)
qed

lemma does_catchI:
  assumes "does m l P" "\<And>l' e. P l' (Inl e) \<Longrightarrow> handled e \<Longrightarrow> does (h e) l' Q"
    "\<And>l' e. P l' (Inl e) \<Longrightarrow> \<not> handled e \<Longrightarrow> Q l' (Inl e)" "\<And>l' x. P l' (Inr x) \<Longrightarrow> Q l' (Inr x)"
  shows "does (catchIO handled m h) l Q"
proof -
  obtain l' r where m: "m l = (l', r)" by (cases "m l")
  with assms(1) have "P l' r" by (simp add: does_def)
  with m assms(2-4) [of l'] show ?thesis by (cases r) (simp_all add: does_def catchIO_def)
qed

lemma does_mono: "does m l Q \<Longrightarrow> (\<And>l' r. Q l' r \<Longrightarrow> R l' r) \<Longrightarrow> does m l R"
  by (auto simp: does_def split: prod.splits)

text \<open>\<open>try: m finally: h\<close>\<close>

definition finallyIO :: "('l, 'a) io \<Rightarrow> ('l, unit) io \<Rightarrow> ('l, 'a) io" where
  "finallyIO m h l =
     (case m l of (l', r) \<Rightarrow> (case h l' of (l'', Inl e) \<Rightarrow> (l'', Inl e) | (l'', Inr _) \<Rightarrow> (l'', r)))"

text \<open>A comprehension whose body has effects.\<close>

fun mapIO :: "('a \<Rightarrow> ('l, 'b) io) \<Rightarrow> 'a list \<Rightarrow> ('l, 'b list) io" where
  "mapIO f [] = liftR (Inr [])"
| "mapIO f (x # xs) = bindIO (f x) (\<lambda>y. bindIO (mapIO f xs) (\<lambda>ys. liftR (Inr (y # ys))))"

lemma does_finallyI:
  assumes "does m l P" "\<And>l' r. P l' r \<Longrightarrow> does h l' (\<lambda>l'' s. Q l'' (case s of Inl e \<Rightarrow> Inl e | Inr _ \<Rightarrow> r))"
  shows "does (finallyIO m h) l Q"
proof -
  obtain l' r where m: "m l = (l', r)" by (cases "m l")
  with assms have "does h l' (\<lambda>l'' s. Q l'' (case s of Inl e \<Rightarrow> Inl e | Inr _ \<Rightarrow> r))" by (simp add: does_def)
  with m show ?thesis by (auto simp: does_def finallyIO_def split: prod.splits sum.splits)
qed

lemma does_mapI:
  assumes "I l" "\<And>x l. x \<in> set xs \<Longrightarrow> I l \<Longrightarrow> does (f x) l (\<lambda>l' r. I l' \<and> (\<forall>y. r = Inr y \<longrightarrow> P x y))"
  shows "does (mapIO f xs) l (\<lambda>l' r. I l' \<and> (\<forall>ys. r = Inr ys \<longrightarrow> list_all2 P xs ys))"
  using assms
proof (induction xs arbitrary: l)
  case (Cons x xs)
  have "does (f x) l (\<lambda>l' r. I l' \<and> (\<forall>y. r = Inr y \<longrightarrow> P x y))" using Cons.prems by simp
  then show ?case
    unfolding mapIO.simps
  proof (rule does_bindI)
    fix l' y
    assume y: "I l' \<and> (\<forall>z. Inr y = Inr z \<longrightarrow> P x z)"
    have "does (mapIO f xs) l' (\<lambda>l' r. I l' \<and> (\<forall>ys. r = Inr ys \<longrightarrow> list_all2 P xs ys))"
      using Cons y by simp
    then show "does (bindIO (mapIO f xs) (\<lambda>ys. liftR (Inr (y # ys)))) l'
        (\<lambda>l' r. I l' \<and> (\<forall>ys. r = Inr ys \<longrightarrow> list_all2 P (x # xs) ys))"
      by (rule does_bindI) (use y in \<open>auto intro!: does_lift\<close>)
  qed simp
qed (simp add: does_lift)

end
