(* ===== verification/HealthExchange.thy ===== *)
theory HealthExchange
  imports HealthTransport Effects
begin

text \<open>
  The two ends of the health-result transport: \<open>scripts/health-result-reader.py\<close>, which answers
  the forced SSH command, and \<open>scripts/health-result-importer.py\<close>, which fetches, verifies and
  stores a bundle. File contents, the output of the remote command and the host name are
  parameters; a write of the importer may fail, and the log of a run lists its writes in order, so
  every prefix of it is what a crash leaves. \<open>ipaddress\<close> covers IPv6 too; the importer's address
  check takes the flags of the address object as a parameter.
\<close>

section \<open>The reader\<close>

definition PATHS :: "(string \<times> (string \<times> string) list) list" where
  "PATHS =
     [(''model-host'', [(''host-query'', ''/var/lib/pickle-llm-host-query/result.json''),
                        (''local-generation'', ''/var/lib/pickle-llm-local-generation/result.json'')]),
      (''gateway-container'', [(''upstream-generation'', ''/var/lib/pickle-llm-upstream-generation/result.json'')]),
      (''public-observer'', [(''public-console'', ''/var/lib/pickle-public-console/result.json''),
                             (''public-api'', ''/var/lib/pickle-public-api/result.json''),
                             (''public-development'', ''/var/lib/pickle-public-development/result.json'')]),
      (''collector-host'', [(''collector-heartbeat'', ''/var/lib/pickle-service-health-monitor/summary.json'')])]"

definition POLICY_PATHS :: "(string \<times> string) list" where
  "POLICY_PATHS = [(''gateway-host'', ''/var/lib/pickle-public-policy/attestation.json''),
                   (''collector-host'', ''/var/lib/pickle-health-import-gateway/policy-attestation.json'')]"

definition heartbeat_source :: "rat \<Rightarrow> string \<times> pyval \<Rightarrow> unit res" where
  "heartbeat_source timestamp p =
     (let (source, observation) = p
      in bindR (check (NAME_fullmatch source \<and> is_dict observation) (HealthError ''COLLECTOR_SUMMARY_SOURCE_INVALID'')) (\<lambda>_.
         bindR (in_setR (get observation ''status'') STATES) (\<lambda>known.
         bindR (check known (HealthError ''COLLECTOR_SUMMARY_SOURCE_INVALID'')) (\<lambda>_.
         bindR (epoch (get observation ''sample_at'')) (\<lambda>sampled.
         check (sampled \<le> fadd timestamp 30) (HealthError ''COLLECTOR_SUMMARY_SOURCE_INVALID''))))))"

definition heartbeat_report :: "rat \<Rightarrow> pyval" where
  "heartbeat_report timestamp =
     PDict [(''version'', PInt 1), (''source'', PStr ''collector-heartbeat''), (''kind'', PStr ''observer-report''),
            (''observed_at'', PFloat timestamp), (''status'', PStr ''HEALTHY''), (''reason'', PStr ''COLLECTOR_HEARTBEAT_VERIFIED'')]"

definition heartbeat :: "pyval \<Rightarrow> rat \<Rightarrow> pyval res" where
  "heartbeat v now =
     bindR (check (is_dict v \<and> get v ''version'' = PInt 1 \<and> is_dict (get v ''sources'')
                   \<and> 1 \<le> length (items (get v ''sources'')) \<and> length (items (get v ''sources'')) \<le> 32)
                  (HealthError ''COLLECTOR_SUMMARY_INVALID'')) (\<lambda>_.
     bindR (epoch (get v ''observed_at'')) (\<lambda>timestamp.
     bindR (check (timestamp \<le> fadd now 30) (HealthError ''COLLECTOR_SUMMARY_FUTURE'')) (\<lambda>_.
     bindR (foldR (\<lambda>p _. heartbeat_source timestamp p) (items (get v ''sources'')) ()) (\<lambda>_.
     Inr (heartbeat_report timestamp)))))"

definition flag :: "pyval \<Rightarrow> string \<Rightarrow> bool" where
  "flag config k = (get config k = PBool True)"

definition has_role :: "pyval \<Rightarrow> string \<Rightarrow> bool" where
  "has_role config role = is_string (get config ''role'') role"

abbreviation tls_sources :: "pyval \<Rightarrow> pyval" where
  "tls_sources config \<equiv> get_or config ''tls_sources'' (PList [])"

text \<open>The guard of \<open>collect\<close>; \<open>set\<close> raises on a list with an unhashable element.\<close>

definition reader_allowed :: "string \<Rightarrow> pyval \<Rightarrow> bool res" where
  "reader_allowed hostname config =
     andR (Inr (in_tuple (get config ''role'') (map fst PATHS @ [''gateway-host''])
                \<and> is_string (get config ''expected_hostname'') hostname
                \<and> list_all (\<lambda>k. is_bool (get_or config k (PBool False)))
                    [''include_public_generation'', ''include_collector_heartbeat'', ''include_policy_attestation'', ''include_staging'']
                \<and> (flag config ''include_staging'' \<longrightarrow> has_role config ''public-observer'')
                \<and> (flag config ''include_policy_attestation'' \<longrightarrow> in_tuple (get config ''role'') (map fst POLICY_PATHS))
                \<and> is_list (tls_sources config)))
       (andR (if list_all hashable (the_list (tls_sources config)) then Inr True else Inl TypeError)
         (Inr (distinct (the_list (tls_sources config))
               \<and> list_all (\<lambda>s. in_tuple s [''public-tls-production'', ''public-tls-development'', ''public-tls-gateway'', ''public-tls-staging''])
                   (the_list (tls_sources config))
               \<and> (the_list (tls_sources config) \<noteq> [] \<longrightarrow> has_role config ''public-observer''))))"

definition tls_path :: "string \<Rightarrow> string \<times> string" where
  "tls_path source = (source, ''/var/lib/pickle-public-'' @ drop 7 source @ ''/result.json'')"

definition reader_paths :: "pyval \<Rightarrow> (string \<times> string) list" where
  "reader_paths config =
     the (map_of PATHS (the_str (get config ''role'')))
     @ (if has_role config ''public-observer''
        then (if flag config ''include_public_generation''
              then [(''public-generation'', ''/var/lib/pickle-public-generation/result.json'')] else [])
             @ (if flag config ''include_collector_heartbeat''
                then [(''collector-heartbeat'', ''/var/lib/pickle-service-health-monitor/summary.json'')] else [])
             @ (if flag config ''include_staging''
                then [(''public-staging'', ''/var/lib/pickle-public-staging/result.json''),
                      (''public-staging-expiry-warning'', ''/var/lib/pickle-public-staging-expiry-warning/result.json'')] else [])
             @ map (\<lambda>s. tls_path (the_str s)) (the_list (tls_sources config))
        else [])"

definition unavailable_report :: "string \<Rightarrow> rat \<Rightarrow> pyval" where
  "unavailable_report source now =
     PDict [(''version'', PInt 1), (''source'', PStr source), (''kind'', PStr ''observer-report''), (''observed_at'', PFloat now),
            (''status'', PStr ''OBSERVER_ERROR''), (''reason'', PStr ''REMOTE_RESULT_UNAVAILABLE'')]"

definition read_one :: "(string \<Rightarrow> pyval res) \<Rightarrow> rat \<Rightarrow> string \<times> string \<Rightarrow> (string \<times> pyval) res" where
  "read_one reader now p =
     (let (source, path) = p
      in case bindR (reader path) (\<lambda>document. if source = ''collector-heartbeat'' then heartbeat document now
                                             else sanitize_report document source now) of
           Inr r \<Rightarrow> Inr (source, r)
         | Inl e \<Rightarrow> if report_error e then Inr (source, unavailable_report source now) else Inl e)"

definition read_policy :: "(string \<Rightarrow> pyval res) \<Rightarrow> rat \<Rightarrow> string \<Rightarrow> pyval res" where
  "read_policy reader now path =
     (case bindR (reader path) (\<lambda>v. sanitize_policy v now) of
        Inr p \<Rightarrow> Inr p
      | Inl e \<Rightarrow> if report_error e then Inr (invalid_policy now) else Inl e)"

definition reader_collect ::
  "string \<Rightarrow> pyval \<Rightarrow> rat \<Rightarrow> (string \<Rightarrow> pyval res) \<Rightarrow> document res \<Rightarrow> pyval res" where
  "reader_collect hostname config now reader runner =
     bindR (reader_allowed hostname config) (\<lambda>allowed.
     bindR (check allowed (HealthError ''READER_DEPLOYMENT_INVALID'')) (\<lambda>_.
     bindR (if has_role config ''gateway-host''
            then bindR runner (\<lambda>document. inspect_bundle document [''upstream-generation''] now)
            else mapR (read_one reader now) (reader_paths config)) (\<lambda>reports.
     bindR (if flag config ''include_policy_attestation''
            then bindR (read_policy reader now (the (map_of POLICY_PATHS (the_str (get config ''role''))))) (\<lambda>p.
                 Inr [(''policy_attestation'', p)])
            else Inr []) (\<lambda>policy.
     Inr (PDict ([(''version'', PInt 1), (''generated_at'', PFloat now), (''reports'', PDict reports)] @ policy))))))"

text \<open>\<open>main\<close>: what is printed with which exit status; \<open>size\<close> is the length of \<open>json.dumps\<close>.\<close>

definition denied_output :: pyval where
  "denied_output = PDict [(''status'', PStr ''OBSERVER_ERROR''), (''reason'', PStr ''RESULT_READER_DENIED_OR_UNAVAILABLE'')]"

definition reader_main ::
  "bool \<Rightarrow> bool \<Rightarrow> string option \<Rightarrow> pyval res \<Rightarrow> (pyval \<Rightarrow> pyval res) \<Rightarrow> (pyval \<Rightarrow> nat) \<Rightarrow> (pyval \<times> nat) res" where
  "reader_main local_child is_root command config collected size_of =
     (case bindR config (\<lambda>config.
           bindR (if local_child
                  then check (is_root \<and> has_role config ''gateway-container'') (HealthError ''READER_CHILD_DENIED'')
                  else check (command = Some ''read-health-v1'') (HealthError ''READER_COMMAND_DENIED'')) (\<lambda>_.
           bindR (collected config) (\<lambda>r.
           bindR (check (size_of r \<le> MAX_JSON) (HealthError ''READER_OUTPUT_TOO_LARGE'')) (\<lambda>_. Inr r)))) of
        Inr r \<Rightarrow> Inr (r, 0)
      | Inl e \<Rightarrow> if report_error e then Inr (denied_output, 2) else Inl e)"

section \<open>The importer\<close>

text \<open>The flags of an address object.\<close>

record ip_flags =
  ip_text :: string
  ip_shared :: bool
  ip_private :: bool
  ip_special :: bool

definition user_name :: "string \<Rightarrow> bool" where
  "user_name s = head_match (\<lambda>c. is_lower c \<or> c = CHR ''_'') (\<lambda>c. is_lower c \<or> is_digit c \<or> one_of ''_-'' c) 0 31 s"

definition ssh_options :: "string \<Rightarrow> string list" where
  "ssh_options known_hosts =
     [''BatchMode=yes'', ''IdentitiesOnly=yes'', ''StrictHostKeyChecking=yes'',
      ''UserKnownHostsFile='' @ known_hosts, ''GlobalKnownHostsFile=/dev/null'',
      ''IdentityAgent=none'', ''ForwardAgent=no'', ''ClearAllForwardings=yes'',
      ''ExitOnForwardFailure=yes'', ''ControlMaster=no'', ''ControlPath=none'',
      ''PermitLocalCommand=no'', ''ProxyCommand=none'', ''ProxyJump=none'', ''RequestTTY=no'',
      ''ConnectTimeout=3'', ''ConnectionAttempts=1'', ''ServerAliveInterval=3'', ''ServerAliveCountMax=1'']"

definition ssh_selection :: "pyval \<Rightarrow> ip_flags \<Rightarrow> unit res" where
  "ssh_selection config a =
     (let user = get_or config ''user'' (PStr []); source = get_or config ''source'' (PStr []); port = get config ''port''
      in bindR (check ((ip_private a \<or> ip_shared a) \<and> \<not> ip_special a) (HealthError ''IMPORT_SSH_SELECTION_INVALID'')) (\<lambda>_.
         bindR (check (is_str user) TypeError) (\<lambda>_.
         bindR (check (user_name (the_str user) \<and> is_int port \<and> 1 \<le> the_int port \<and> the_int port \<le> 65535)
                      (HealthError ''IMPORT_SSH_SELECTION_INVALID'')) (\<lambda>_.
         bindR (check (is_str source) TypeError) (\<lambda>_.
         check (NAME_fullmatch (the_str source)) (HealthError ''IMPORT_SSH_SELECTION_INVALID''))))))"

definition expected_sources :: "pyval \<Rightarrow> string list res" where
  "expected_sources config =
     (let e = get config ''expected_sources''
      in bindR (check (is_list e \<and> the_list e \<noteq> [] \<and> length (the_list e) \<le> 12) (HealthError ''IMPORT_SOURCES_INVALID'')) (\<lambda>_.
         bindR (check (list_all hashable (the_list e)) TypeError) (\<lambda>_.
         bindR (check (distinct (the_list e) \<and> list_all (\<lambda>s. in_tuple s SOURCES) (the_list e))
                      (HealthError ''IMPORT_SOURCES_INVALID'')) (\<lambda>_.
         Inr (map the_str (the_list e))))))"

definition protected_path :: "(string \<Rightarrow> unit res) \<Rightarrow> pyval \<Rightarrow> string \<Rightarrow> string res" where
  "protected_path private_read config key =
     bindR (indexR config key) (\<lambda>p.
     bindR (check (is_str p) TypeError) (\<lambda>_.
     bindR (check (is_absolute (the_str p) \<and> \<not> has_dotdot (the_str p)) (HealthError ''IMPORT_PROTECTED_PATH_INVALID'')) (\<lambda>_.
     bindR (private_read (the_str p)) (\<lambda>_. Inr (the_str p)))))"

definition ssh_command ::
  "(pyval \<Rightarrow> ip_flags res) \<Rightarrow> (string \<Rightarrow> unit res) \<Rightarrow> pyval \<Rightarrow> string list res" where
  "ssh_command ip_address private_read config =
     bindR (check (is_bool (get_or config ''include_policy_attestation'' (PBool False)))
                  (HealthError ''IMPORT_POLICY_SETTING_INVALID'')) (\<lambda>_.
     bindR (indexR config ''address'') (\<lambda>v.
     bindR (case ip_address v of Inl ValueError \<Rightarrow> Inl (HealthError ''IMPORT_ADDRESS_INVALID'') | r \<Rightarrow> r) (\<lambda>a.
     bindR (ssh_selection config a) (\<lambda>_.
     bindR (expected_sources config) (\<lambda>_.
     bindR (protected_path private_read config ''identity_file'') (\<lambda>identity.
     bindR (protected_path private_read config ''known_hosts_file'') (\<lambda>known_hosts.
     Inr ([''ssh'', ''-F'', ''/dev/null''] @ concat (map (\<lambda>opt. [''-o'', opt]) (ssh_options known_hosts))
          @ [''-i'', identity, ''-p'', str_of_int (the_int (get config ''port'')), ''-l'', the_str (get config ''user''),
             ''--'', ip_text a, ''read-health-v1'']))))))))"

subsection \<open>Writes\<close>

datatype import_file = PolicyFile | StateFile | ReportFile string | ResultFile

type_synonym log = "(import_file \<times> pyval \<times> bool) list"

text \<open>\<open>atomic_json\<close>: the file is replaced as a whole, or left alone when the write fails.\<close>

definition put :: "(log \<Rightarrow> import_file \<Rightarrow> exn option) \<Rightarrow> import_file \<Rightarrow> pyval \<Rightarrow> (log, unit) io" where
  "put fault f v l =
     (case fault l f of None \<Rightarrow> (l @ [(f, v, True)], Inr ()) | Some e \<Rightarrow> (l @ [(f, v, False)], Inl e))"

fun put_reports :: "(log \<Rightarrow> import_file \<Rightarrow> exn option) \<Rightarrow> (string \<times> pyval) list \<Rightarrow> (log, unit) io" where
  "put_reports fault [] = liftR (Inr ())"
| "put_reports fault ((name, report) # rest) = bindIO (put fault (ReportFile name) report) (\<lambda>_. put_reports fault rest)"

text \<open>\<open>now < state.get('last_check', 0)\<close>\<close>

definition clock_backwards :: "rat \<Rightarrow> pyval \<Rightarrow> bool res" where
  "clock_backwards now v =
     (case v of PInf s \<Rightarrow> Inr (\<not> s) | PNan \<Rightarrow> Inr False
      | _ \<Rightarrow> (case num_of v of None \<Rightarrow> Inl TypeError | Some q \<Rightarrow> Inr (now < q)))"

definition import_result :: "pyval \<Rightarrow> rat \<Rightarrow> string \<Rightarrow> string \<Rightarrow> pyval" where
  "import_result source now status reason =
     PDict [(''version'', PInt 1), (''source'', source), (''kind'', PStr ''observer-report''), (''observed_at'', PFloat now),
            (''status'', PStr status), (''reason'', PStr reason)]"

definition put_policy :: "(log \<Rightarrow> import_file \<Rightarrow> exn option) \<Rightarrow> bool \<Rightarrow> pyval \<Rightarrow> (log, unit) io" where
  "put_policy fault include_policy v = (if include_policy then put fault PolicyFile v else liftR (Inr ()))"

text \<open>\<open>ssh_command\<close> has checked the expected sources before they are used.\<close>

definition import_bundle ::
  "(log \<Rightarrow> import_file \<Rightarrow> exn option) \<Rightarrow> (pyval \<Rightarrow> string list res) \<Rightarrow> unit res \<Rightarrow> pyval \<Rightarrow> rat
     \<Rightarrow> (string list \<Rightarrow> document res) \<Rightarrow> bool \<Rightarrow> (log, unit) io" where
  "import_bundle fault command output_directory config now runner include_policy =
     bindIO (liftR (command config)) (\<lambda>argv.
     bindIO (liftR (runner argv)) (\<lambda>document.
     bindIO (liftR (expected_sources config)) (\<lambda>expected.
     bindIO (liftR (inspect_envelope document expected now include_policy)) (\<lambda>(reports, policy).
     bindIO (liftR output_directory) (\<lambda>_.
     bindIO (put_reports fault reports) (\<lambda>_.
     put_policy fault include_policy (case policy of None \<Rightarrow> PNone | Some p \<Rightarrow> p)))))))"

text \<open>\<open>state\<close> is what \<open>read_json\<close> gives, a dict or an exception; a missing file counts as the empty dict.\<close>

definition import_locked ::
  "(log \<Rightarrow> import_file \<Rightarrow> exn option) \<Rightarrow> (pyval \<Rightarrow> string list res) \<Rightarrow> unit res \<Rightarrow> pyval \<Rightarrow> rat \<Rightarrow> pyval res
     \<Rightarrow> (string list \<Rightarrow> document res) \<Rightarrow> (log, pyval) io" where
  "import_locked fault command output_directory config now state runner =
     (let include_policy = flag config ''include_policy_attestation''
      in bindIO (put_policy fault include_policy (invalid_policy now)) (\<lambda>_.
         bindIO (liftR state) (\<lambda>state.
         bindIO (liftR (clock_backwards now (get_or state ''last_check'' (PInt 0)))) (\<lambda>backwards.
         bindIO (liftR (check (\<not> backwards) (HealthError ''CLOCK_MOVED_BACKWARDS''))) (\<lambda>_.
         bindIO (put fault StateFile (PDict (AList.update ''last_check'' (PFloat now) (items state)))) (\<lambda>_.
         bindIO (liftR (indexR config ''source'')) (\<lambda>source.
         bindIO (catchIO report_error
                   (bindIO (import_bundle fault command output_directory config now runner include_policy) (\<lambda>_.
                    liftR (Inr (import_result source now ''HEALTHY'' ''RESULT_IMPORT_VERIFIED''))))
                   (\<lambda>_. bindIO (put_policy fault include_policy (invalid_policy now)) (\<lambda>_.
                    liftR (Inr (import_result source now ''OBSERVER_ERROR'' ''RESULT_IMPORT_UNAVAILABLE''))))) (\<lambda>result.
         bindIO (catchIO (\<lambda>e. report_error e \<and> e \<noteq> KeyError)
                   (put fault ResultFile result)
                   (\<lambda>e. bindIO (put_policy fault include_policy (invalid_policy now)) (\<lambda>_. liftR (Inl e)))) (\<lambda>_.
         liftR (Inr result))))))))))"

definition import_run ::
  "string \<Rightarrow> unit res \<Rightarrow> (log \<Rightarrow> import_file \<Rightarrow> exn option) \<Rightarrow> (pyval \<Rightarrow> string list res) \<Rightarrow> unit res \<Rightarrow> pyval \<Rightarrow> rat
     \<Rightarrow> pyval res \<Rightarrow> (string list \<Rightarrow> document res) \<Rightarrow> log \<times> pyval res" where
  "import_run hostname lock fault command output_directory config now state runner =
     bindIO (liftR (check (is_string (get config ''expected_hostname'') hostname) (HealthError ''IMPORT_OBSERVER_HOST_MISMATCH'')))
       (\<lambda>_. bindIO (liftR lock) (\<lambda>_. import_locked fault command output_directory config now state runner)) []"

section \<open>The importer accepts what the reader emits\<close>

lemma observer_report_sanitized:
  assumes "source \<in> set SOURCES" "0 \<le> t" "t \<le> fadd now 30" "status \<in> set STATES" "SAFE_REASON reason"
  shows "sanitize_report
     (PDict [(''version'', PInt 1), (''source'', PStr source), (''kind'', PStr ''observer-report''), (''observed_at'', PFloat t),
             (''status'', PStr status), (''reason'', PStr reason)]) source now =
   Inr (PDict [(''version'', PInt 1), (''source'', PStr source), (''kind'', PStr ''observer-report''), (''observed_at'', PFloat t),
             (''status'', PStr status), (''reason'', PStr reason)])"
proof -
  have "''observer-report'' \<in> set KINDS" by (simp add: KINDS_def)
  then show ?thesis
    using assms
    by (simp add: sanitize_report_def report_sections_def in_sequence_def report_head_def report_schema_def severity_ok_def
        head_items_def head_keys_def optional_def checked_def reason_ok_def NUMBERS_def is_string_def)
qed

lemma safe_reasons: "SAFE_REASON ''COLLECTOR_HEARTBEAT_VERIFIED''" "SAFE_REASON ''REMOTE_RESULT_UNAVAILABLE''"
  by code_simp+

lemma heartbeat_sanitized:
  assumes "heartbeat v now = Inr r"
  shows "sanitize_report r ''collector-heartbeat'' now = Inr r"
proof -
  from assms obtain t where "epoch (get v ''observed_at'') = Inr t" "t \<le> fadd now 30" "r = heartbeat_report t"
    by (auto simp: heartbeat_def)
  moreover from this have "0 \<le> t" by (auto dest: epoch_nonneg)
  moreover have "''collector-heartbeat'' \<in> set SOURCES" "''HEALTHY'' \<in> set STATES" by (simp_all add: SOURCES_def STATES_def)
  ultimately show ?thesis
    using observer_report_sanitized safe_reasons(1) by (simp add: heartbeat_report_def)
qed

lemma unavailable_sanitized:
  assumes "source \<in> set SOURCES" "0 \<le> now" "fl now = now"
  shows "sanitize_report (unavailable_report source now) source now = Inr (unavailable_report source now)"
proof -
  have "fl now \<le> fl (now + 30)" using assms(2) by (simp add: fl_mono)
  then have "now \<le> fadd now 30" by (simp add: fadd_def assms(3))
  then show ?thesis
    unfolding unavailable_report_def
    using assms(1,2) by (intro observer_report_sanitized safe_reasons) (simp_all add: STATES_def)
qed

lemma reader_paths_sources:
  assumes "reader_allowed hostname config = Inr True" "\<not> has_role config ''gateway-host''" "(source, path) \<in> set (reader_paths config)"
  shows "source \<in> set SOURCES"
proof -
  have role: "in_tuple (get config ''role'') (map fst PATHS @ [''gateway-host''])"
    and tls: "list_all (\<lambda>s. in_tuple s [''public-tls-production'', ''public-tls-development'', ''public-tls-gateway'', ''public-tls-staging''])
                   (the_list (tls_sources config))"
    using assms(1) by (simp_all add: reader_allowed_def)
  from role assms(2) obtain r where r: "get config ''role'' = PStr r" "r \<in> set (map fst PATHS)"
    by (auto dest!: in_tuple_elim simp: has_role_def is_string_def)
  have "\<forall>(_, ps)\<in>set PATHS. \<forall>(s, _)\<in>set ps. s \<in> set SOURCES" by (simp add: PATHS_def SOURCES_def)
  moreover from r(2) obtain ps where "map_of PATHS r = Some ps" by (metis map_of_eq_None_iff not_None_eq set_map)
  ultimately have fixed: "s \<in> set SOURCES" if "(s, p) \<in> set (the (map_of PATHS r))" for s p
    using that by (auto dest!: map_of_SomeD)
  have "the_str s \<in> set SOURCES" if "s \<in> set (the_list (tls_sources config))" for s
  proof -
    have "in_tuple s [''public-tls-production'', ''public-tls-development'', ''public-tls-gateway'', ''public-tls-staging'']"
      using tls that by (simp add: list_all_iff)
    then obtain w where "s = PStr w" "w \<in> set [''public-tls-production'', ''public-tls-development'', ''public-tls-gateway'', ''public-tls-staging'']"
      by (auto dest!: in_tuple_elim)
    then show ?thesis by (auto simp: SOURCES_def)
  qed
  then have tls': "fst (tls_path (the_str s)) \<in> set SOURCES" if "s \<in> set (the_list (tls_sources config))" for s
    using that by (simp add: tls_path_def)
  have "(source, path) \<in> set (the (map_of PATHS r)) \<or> source \<in> {''public-generation'', ''collector-heartbeat'', ''public-staging'',
      ''public-staging-expiry-warning''} \<or> (\<exists>s\<in>set (the_list (tls_sources config)). (source, path) = tls_path (the_str s))"
    using assms(3) r(1) by (auto simp: reader_paths_def split: if_splits)
  then show ?thesis
  proof (elim disjE bexE)
    fix s assume "s \<in> set (the_list (tls_sources config))" "(source, path) = tls_path (the_str s)"
    then show ?thesis using tls' [of s] by (metis fst_conv)
  qed (auto simp: SOURCES_def dest: fixed)
qed

lemma read_one_sanitized:
  assumes "read_one reader now (source, path) = Inr (n, r)" "source \<in> set SOURCES" "0 \<le> now" "fl now = now"
  shows "n = source \<and> (\<exists>v. sanitize_report v source now = Inr r)"
proof -
  have "n = source" and "r = unavailable_report source now
      \<or> (\<exists>v. (if source = ''collector-heartbeat'' then heartbeat v now else sanitize_report v source now) = Inr r)"
    using assms(1) by (auto simp: read_one_def Let_def split: sum.splits if_splits)
  then show ?thesis
    using unavailable_sanitized [OF assms(2-4)] heartbeat_sanitized by (metis (full_types))
qed

lemma inspect_bundle_sanitized:
  assumes "inspect_bundle document expected now = Inr reports" "(n, r) \<in> set reports"
  shows "\<exists>v. sanitize_report v n now = Inr r"
proof -
  obtain v where "mapR (\<lambda>name. bindR (sanitize_report (get (get v ''reports'') name) name now) (\<lambda>r. Inr (name, r))) expected = Inr reports"
    using assms(1) by (auto simp: inspect_bundle_def inspect_envelope_def)
  then have "list_all2 (\<lambda>name y. \<exists>w. sanitize_report (get (get v ''reports'') name) name now = Inr w \<and> y = (name, w)) expected reports"
    by (auto simp: mapR_eq_Inr elim!: list_all2_mono)
  then show ?thesis using assms(2) by (auto simp: list_all2_conv_all_nth in_set_conv_nth) (metis prod.inject)
qed

lemma reader_reports:
  assumes "reader_collect hostname config now reader runner = Inr bundle" "0 \<le> now" "fl now = now"
  obtains reports policy where
    "bundle = PDict ([(''version'', PInt 1), (''generated_at'', PFloat now), (''reports'', PDict reports)] @ policy)"
    "\<And>n r. (n, r) \<in> set reports \<Longrightarrow> \<exists>v. sanitize_report v n now = Inr r"
    "if flag config ''include_policy_attestation''
     then \<exists>p. policy = [(''policy_attestation'', p)] \<and> (p = invalid_policy now \<or> (\<exists>v. sanitize_policy v now = Inr p))
     else policy = []"
proof -
  obtain reports policy where allowed: "reader_allowed hostname config = Inr True"
    and reports: "(if has_role config ''gateway-host''
            then bindR runner (\<lambda>document. inspect_bundle document [''upstream-generation''] now)
            else mapR (read_one reader now) (reader_paths config)) = Inr reports"
    and policy: "(if flag config ''include_policy_attestation''
            then bindR (read_policy reader now (the (map_of POLICY_PATHS (the_str (get config ''role''))))) (\<lambda>p.
                 Inr [(''policy_attestation'', p)])
            else Inr []) = Inr policy"
    and b: "bundle = PDict ([(''version'', PInt 1), (''generated_at'', PFloat now), (''reports'', PDict reports)] @ policy)"
    using assms(1) unfolding reader_collect_def bindR_checked
    by (simp only: bindR_eq_Inr [of "if _ then _ else _"] sum.inject) blast
  have "\<exists>v. sanitize_report v n now = Inr r" if nr: "(n, r) \<in> set reports" for n r
  proof (cases "has_role config ''gateway-host''")
    case True
    then show ?thesis using reports inspect_bundle_sanitized [OF _ nr] by auto
  next
    case False
    then have "list_all2 (\<lambda>x y. read_one reader now x = Inr y) (reader_paths config) reports"
      using reports by (simp add: mapR_eq_Inr)
    then obtain source path where "(source, path) \<in> set (reader_paths config)" "read_one reader now (source, path) = Inr (n, r)"
      using nr by (auto simp: list_all2_conv_all_nth in_set_conv_nth) (metis nth_mem surj_pair)
    then show ?thesis
      using read_one_sanitized [OF _ reader_paths_sources [OF allowed False] assms(2,3)] by blast
  qed
  moreover have "if flag config ''include_policy_attestation''
     then \<exists>p. policy = [(''policy_attestation'', p)] \<and> (p = invalid_policy now \<or> (\<exists>v. sanitize_policy v now = Inr p))
     else policy = []"
    using policy by (auto simp: read_policy_def split: if_splits sum.splits)
  ultimately show ?thesis using that b by blast
qed

lemma agrees_keys: "agrees (PDict d) w \<Longrightarrow> keys w = fst ` set d"
proof -
  assume "agrees (PDict d) w"
  then obtain e where e: "w = PDict e" "\<forall>k. rel_option agrees (map_of d k) (map_of e k)" by (auto simp: agrees_dict)
  have "k \<in> fst ` set e \<longleftrightarrow> k \<in> fst ` set d" for k
    using spec [OF e(2), of k] by (metis map_of_eq_None_iff option_rel_Some1 option_rel_Some2 not_None_eq rel_option_None1 rel_option_None2)
  then show ?thesis by (auto simp: e(1))
qed

lemma invalid_policy_again:
  assumes "agrees (invalid_policy now) w" "0 \<le> now" "now \<le> now'" "fl now = now" "now \<le> 4102444800"
  shows "\<exists>q. sanitize_policy w now' = Inr q \<and> agrees (invalid_policy now) q"
proof -
  note a = assms(1) [unfolded invalid_policy_def]
  note g = agrees_get_atom [OF a]
  have "now \<le> fadd now' 30" using fl_mono [of now "now' + 30"] assms(2-4) by (simp add: fadd_def)
  then have "policy_times w now' = Inr (now, now)"
    using agrees_is_dict [OF a] assms(2,5) by (simp add: policy_times_def g is_string_def)
  then have "sanitize_policy w now' = Inr (PDict [(''kind'', PStr POLICY_KIND), (''valid'', PBool False), (''issued_at'', PFloat now),
      (''expires_at'', PFloat now), (''reason'', PStr ''POLICY_TRANSPORT_UNAVAILABLE'')])"
    by (simp add: sanitize_policy_def g POLICY_REASONS_def)
  moreover have "agrees (invalid_policy now) (PDict [(''kind'', PStr POLICY_KIND), (''valid'', PBool False), (''issued_at'', PFloat now),
      (''expires_at'', PFloat now), (''reason'', PStr ''POLICY_TRANSPORT_UNAVAILABLE'')])"
    unfolding invalid_policy_def by (rule agrees_items) simp_all
  ultimately show ?thesis by blast
qed

lemma mapR_total:
  assumes "\<And>x. x \<in> set xs \<Longrightarrow> \<exists>y. f x = Inr y \<and> P x y"
  shows "\<exists>ys. mapR f xs = Inr ys \<and> list_all2 P xs ys"
  using assms
proof (induction xs)
  case (Cons x xs)
  then obtain y ys where "f x = Inr y" "P x y" "mapR f xs = Inr ys" "list_all2 P xs ys" by fastforce
  then show ?case by simp
qed simp


abbreviation bundle_fields :: "bool \<Rightarrow> string list" where
  "bundle_fields include_policy \<equiv> [''version'', ''generated_at'', ''reports''] @ (if include_policy then [''policy_attestation''] else [])"

lemma inspect_envelope_step:
  assumes "bytes \<le> MAX_JSON" "is_dict v" "get v ''version'' = PInt 1" "get v ''generated_at'' = PFloat t" "0 \<le> t"
    "has_keys v (bundle_fields include_policy)" "has_keys (get v ''reports'') expected"
    "fsub now 120 \<le> t" "t \<le> fadd now 30"
    "mapR (\<lambda>name. bindR (sanitize_report (get (get v ''reports'') name) name now) (\<lambda>r. Inr (name, r))) expected = Inr ys"
  shows "inspect_envelope (bytes, Inr v) expected now include_policy =
      (if include_policy then bindR (sanitize_policy (get v ''policy_attestation'') now) (\<lambda>p. Inr (ys, Some p)) else Inr (ys, None))"
proof -
  have "epoch (get v ''generated_at'') = Inr t" using assms(4,5) by simp
  then show ?thesis
    unfolding inspect_envelope_def Let_def fst_conv snd_conv using assms by simp
qed

lemma bundle_keys:
  assumes "agrees (PDict ([(''version'', PInt 1), (''generated_at'', PFloat now), (''reports'', PDict rs)] @ policy)) w"
    "if include_policy then \<exists>p. policy = [(''policy_attestation'', p)] else policy = []"
  shows "has_keys w (bundle_fields include_policy)"
proof -
  have "keys w = fst ` set ([(''version'', PInt 1), (''generated_at'', PFloat now), (''reports'', PDict rs)] @ policy)"
    by (rule agrees_keys [OF assms(1)])
  also have "\<dots> = set (bundle_fields include_policy)" 
  proof (cases include_policy)
    case True
    then obtain p where "policy = [(''policy_attestation'', p)]" using assms(2) by (simp only: if_True) blast
    then show ?thesis using True by (simp only: append.simps list.set image_insert image_empty fst_conv if_True)
  next
    case False
    then have "policy = []" using assms(2) by (simp only: if_False)
    then show ?thesis using False by (simp only: append.simps list.set image_insert image_empty fst_conv if_False)
  qed
  finally show ?thesis using agrees_is_dict [OF assms(1)] by (simp only: has_keys_iff simp_thms)
qed

text \<open>C21: The importer accepts what the reader emits. A bundle that the reader collected at \<open>now\<close>,
  received up to two minutes later with the items of every dict in whatever order the JSON transport
  leaves them, passes the verification of the importer for the same sources, with the reports and the
  policy attestation that the reader put in, unless the attestation has expired on the way.\<close>

theorem reader_bundle_is_accepted:
  assumes emitted: "reader_collect hostname config now reader runner = Inr bundle"
    and now: "0 \<le> now" "fl now = now" "now \<le> 4102444800"
    and later: "now \<le> now'" "fsub now' 120 \<le> now"
    and received: "agrees bundle received" "bytes \<le> MAX_JSON" "set expected = keys (get bundle ''reports'')"
    and fresh: "\<forall>p. map_of (items bundle) ''policy_attestation'' = Some p \<longrightarrow> get p ''valid'' = PBool True
                  \<longrightarrow> now' \<le> num_val (get p ''expires_at'')"
  shows "\<exists>reports policy.
     inspect_envelope (bytes, Inr received) expected now' (flag config ''include_policy_attestation'') = Inr (reports, policy)
     \<and> list_all2 (\<lambda>name (n, r). n = name \<and> agrees (get (get bundle ''reports'') name) r) expected reports
     \<and> rel_option agrees (map_of (items bundle) ''policy_attestation'') policy"
proof -
  obtain rs policy where b: "bundle = PDict ([(''version'', PInt 1), (''generated_at'', PFloat now), (''reports'', PDict rs)] @ policy)"
    and rs: "\<And>n r. (n, r) \<in> set rs \<Longrightarrow> \<exists>v. sanitize_report v n now = Inr r"
    and policy: "if flag config ''include_policy_attestation''
     then \<exists>p. policy = [(''policy_attestation'', p)] \<and> (p = invalid_policy now \<or> (\<exists>v. sanitize_policy v now = Inr p))
     else policy = []"
    using reader_reports [OF emitted now(1,2)] by metis
  let ?flag = "flag config ''include_policy_attestation''"
  note w = received(1) [unfolded b]
  have g: "get received ''version'' = PInt 1" "get received ''generated_at'' = PFloat now"
    by (rule agrees_get_atom [OF w]; simp)+
  have rw: "agrees (PDict rs) (get received ''reports'')" by (rule agrees_get(1) [OF w]) simp
  have "\<exists>ys. mapR (\<lambda>name. bindR (sanitize_report (get (get received ''reports'') name) name now') (\<lambda>r. Inr (name, r))) expected = Inr ys
      \<and> list_all2 (\<lambda>name (n, r). n = name \<and> agrees (get (get bundle ''reports'') name) r) expected ys"
  proof (rule mapR_total)
    fix name
    assume "name \<in> set expected"
    then have "name \<in> fst ` set rs" using received(3) by (simp add: b)
    then obtain r where r: "map_of rs name = Some r" by (metis map_of_eq_None_iff not_None_eq)
    obtain v where "sanitize_report v name now = Inr r" using rs [OF map_of_SomeD [OF r]] by blast
    then obtain q where "sanitize_report (get (get received ''reports'') name) name now' = Inr q" "agrees r q"
      using sanitize_report_again [OF _ agrees_get(1) [OF rw r] now(1) later(1)] by blast
    then show "\<exists>y. bindR (sanitize_report (get (get received ''reports'') name) name now') (\<lambda>r. Inr (name, r)) = Inr y
        \<and> (case y of (n, r) \<Rightarrow> n = name \<and> agrees (get (get bundle ''reports'') name) r)"
      by (simp add: b r)
  qed
  then obtain ys where ys: "mapR (\<lambda>name. bindR (sanitize_report (get (get received ''reports'') name) name now') (\<lambda>r. Inr (name, r))) expected = Inr ys"
      "list_all2 (\<lambda>name (n, r). n = name \<and> agrees (get (get bundle ''reports'') name) r) expected ys" by blast
  have fields: "has_keys received (bundle_fields ?flag)"
    by (rule bundle_keys [OF w]) (use policy in \<open>auto split: if_splits\<close>)
  have names: "has_keys (get received ''reports'') expected"
    using agrees_keys [OF rw] agrees_is_dict [OF rw] received(3) unfolding has_keys_iff by (simp add: b)
  have "now \<le> fadd now' 30" using fl_mono [of now "now' + 30"] now later by (simp add: fadd_def)
  note step = inspect_envelope_step [OF received(2) agrees_is_dict [OF w] g now(1) fields names later(2) this ys(1)]
  show ?thesis
  proof (cases ?flag)
    case False
    with policy have m: "map_of (items bundle) ''policy_attestation'' = None" by (simp add: b)
    show ?thesis
      unfolding step m using False ys(2) by (intro exI [of _ ys] exI [of _ None]) simp
  next
    case True
    with policy obtain p where p: "policy = [(''policy_attestation'', p)]" "p = invalid_policy now \<or> (\<exists>v. sanitize_policy v now = Inr p)"
      by auto
    have m: "map_of (items bundle) ''policy_attestation'' = Some p" by (simp add: b p(1))
    have pw: "agrees p (get received ''policy_attestation'')" by (rule agrees_get(1) [OF w]) (simp add: p(1))
    have "\<exists>q. sanitize_policy (get received ''policy_attestation'') now' = Inr q \<and> agrees p q"
      using p(2)
    proof
      assume "p = invalid_policy now"
      then show ?thesis using invalid_policy_again [OF _ now(1) later(1) now(2,3)] pw by blast
    next
      assume "\<exists>v. sanitize_policy v now = Inr p"
      then show ?thesis using sanitize_policy_again [OF _ pw now(1) later(1)] fresh m agrees_refl by blast
    qed
    then obtain q where "sanitize_policy (get received ''policy_attestation'') now' = Inr q" "agrees p q" by blast
    then show ?thesis
      unfolding step m using True ys(2) by (intro exI [of _ ys] exI [of _ "Some q"]) simp
  qed
qed

lemma reader_bundle_is_accepted_witness:
  "\<exists>reports policy.
     inspect_envelope (9, Inr (PDict [(''version'', PInt 1), (''generated_at'', PFloat 100),
         (''reports'', PDict [(''upstream-generation'', unavailable_report ''upstream-generation'' 100)])]))
       [''upstream-generation''] 110 False = Inr (reports, policy)"
proof -
  let ?config = "PDict [(''role'', PStr ''gateway-container''), (''expected_hostname'', PStr ''h'')]"
  let ?emitted = "PDict [(''version'', PInt 1), (''generated_at'', PFloat 100),
         (''reports'', PDict [(''upstream-generation'', unavailable_report ''upstream-generation'' 100)])]"
  have c: "reader_collect ''h'' ?config 100 (\<lambda>_. Inl FileNotFoundError) (Inl OSError) = Inr ?emitted"
    by (simp add: reader_collect_def reader_allowed_def reader_paths_def read_one_def has_role_def flag_def is_string_def
        PATHS_def POLICY_PATHS_def)
  have "agrees ?emitted ?emitted" by (rule agrees_refl) (simp add: unavailable_report_def)
  then have "\<exists>reports policy. inspect_envelope (9, Inr ?emitted) [''upstream-generation''] 110 (flag ?config ''include_policy_attestation'') =
      Inr (reports, policy)"
    using reader_bundle_is_accepted [OF c, of 110 ?emitted 9 "[''upstream-generation'']"]
    by (auto simp: MAX_JSON_def fsub_def)
  then show ?thesis by (simp add: flag_def)
qed

section \<open>What an import run leaves behind\<close>

lemma does_put:
  "(\<And>e. fault l f = Some e \<Longrightarrow> Q (l @ [(f, v, False)]) (Inl e)) \<Longrightarrow> Q (l @ [(f, v, True)]) (Inr ()) \<Longrightarrow> does (put fault f v) l Q"
  by (auto simp: does_def put_def split: option.splits)

definition report_writes :: "(string \<times> pyval) list \<Rightarrow> log" where
  "report_writes rs = map (\<lambda>(n, r). (ReportFile n, r, True)) rs"

lemma does_reports:
  assumes "\<And>ws e. fst ` set ws \<inter> {PolicyFile} = {} \<Longrightarrow> Q (l @ ws) (Inl e)" "Q (l @ report_writes rs) (Inr ())"
  shows "does (put_reports fault rs) l Q"
  using assms
proof (induction rs arbitrary: l Q)
  case Nil
  then show ?case by (simp add: report_writes_def does_lift)
next
  case (Cons p rs)
  obtain n r where p: "p = (n, r)" by (cases p)
  show ?case
    unfolding p put_reports.simps
  proof (rule does_bind, rule does_put)
    fix e
    show "case Inl e of Inl e \<Rightarrow> Q (l @ [(ReportFile n, r, False)]) (Inl e)
        | Inr x \<Rightarrow> does (put_reports fault rs) (l @ [(ReportFile n, r, False)]) Q"
      using Cons.prems(1) [of "[(ReportFile n, r, False)]"] by simp
  next
    have "does (put_reports fault rs) (l @ [(ReportFile n, r, True)]) Q"
    proof (rule Cons.IH)
      fix ws :: log and e
      assume "fst ` set ws \<inter> {PolicyFile} = {}"
      then show "Q ((l @ [(ReportFile n, r, True)]) @ ws) (Inl e)"
        using Cons.prems(1) [of "(ReportFile n, r, True) # ws"] by simp
    next
      show "Q ((l @ [(ReportFile n, r, True)]) @ report_writes rs) (Inr ())"
        using Cons.prems(2) by (simp add: report_writes_def p)
    qed
    then show "case Inr () of Inl e \<Rightarrow> Q (l @ [(ReportFile n, r, True)]) (Inl e)
        | Inr x \<Rightarrow> does (put_reports fault rs) (l @ [(ReportFile n, r, True)]) Q" by simp
  qed
qed

text \<open>The policy file a log leaves, and the policy it tried to write last.\<close>

definition policy_left :: "log \<Rightarrow> pyval option" where
  "policy_left l = fold (\<lambda>(f, v, ok) s. if f = PolicyFile \<and> ok then Some v else s) l None"

definition policy_tried :: "log \<Rightarrow> pyval option" where
  "policy_tried l = fold (\<lambda>(f, v, ok) s. if f = PolicyFile then Some v else s) l None"

lemma policy_tried_append:
  "policy_tried (l @ [(f, v, ok)]) = (if f = PolicyFile then Some v else policy_tried l)"
  "fst ` set ws \<inter> {PolicyFile} = {} \<Longrightarrow> policy_tried (l @ ws) = policy_tried l"
proof -
  show "policy_tried (l @ [(f, v, ok)]) = (if f = PolicyFile then Some v else policy_tried l)"
    by (simp add: policy_tried_def)
  show "fst ` set ws \<inter> {PolicyFile} = {} \<Longrightarrow> policy_tried (l @ ws) = policy_tried l"
    by (induction ws arbitrary: l rule: rev_induct) (auto simp: policy_tried_def)
qed

lemma policy_left_Some: "policy_left l = Some v \<Longrightarrow> \<exists>a b. l = a @ (PolicyFile, v, True) # b"
proof (induction l rule: rev_induct)
  case (snoc x xs)
  obtain f w ok where x: "x = (f, w, ok)" by (cases x)
  show ?case
  proof (cases "f = PolicyFile \<and> ok")
    case True
    with snoc.prems show ?thesis by (auto simp: policy_left_def x)
  next
    case False
    with snoc.prems have "policy_left xs = Some v" by (simp add: policy_left_def x)
    then obtain a b where "xs = a @ (PolicyFile, v, True) # b" using snoc.IH by blast
    then show ?thesis by (intro exI [of _ a] exI [of _ "b @ [x]"]) simp
  qed
qed (simp add: policy_left_def)

text \<open>A policy that a run stores was verified in it, after all reports of its bundle were stored.\<close>

definition verified ::
  "(pyval \<Rightarrow> string list res) \<Rightarrow> pyval \<Rightarrow> rat \<Rightarrow> (string list \<Rightarrow> document res) \<Rightarrow> log \<Rightarrow> pyval \<Rightarrow> bool" where
  "verified command config now runner l v =
     (\<exists>argv document expected reports.
        command config = Inr argv \<and> runner argv = Inr document \<and> expected_sources config = Inr expected
        \<and> inspect_envelope document expected now True = Inr (reports, Some v) \<and> set (report_writes reports) \<subseteq> set l)"

definition policy_log ::
  "(pyval \<Rightarrow> string list res) \<Rightarrow> pyval \<Rightarrow> rat \<Rightarrow> (string list \<Rightarrow> document res) \<Rightarrow> log \<Rightarrow> bool" where
  "policy_log command config now runner l =
     (\<forall>a v ok b. l = a @ (PolicyFile, v, ok) # b \<longrightarrow> v = invalid_policy now \<or> verified command config now runner a v)"

lemma policy_log_Nil: "policy_log command config now runner []"
  by (simp add: policy_log_def)

lemma policy_log_snoc:
  assumes "policy_log command config now runner l"
    "f = PolicyFile \<Longrightarrow> v = invalid_policy now \<or> verified command config now runner l v"
  shows "policy_log command config now runner (l @ [(f, v, ok)])"
  unfolding policy_log_def
proof (intro allI impI)
  fix a w ok' b
  assume eq: "l @ [(f, v, ok)] = a @ (PolicyFile, w, ok') # b"
  show "w = invalid_policy now \<or> verified command config now runner a w"
  proof (cases b rule: rev_cases)
    case Nil
    then show ?thesis using eq assms(2) by simp
  next
    case (snoc c x)
    then have "l = a @ (PolicyFile, w, ok') # c" using eq by simp
    then show ?thesis using assms(1) unfolding policy_log_def by blast
  qed
qed

lemma policy_log_reports:
  "fst ` set ws \<inter> {PolicyFile} = {} \<Longrightarrow> policy_log command config now runner l \<Longrightarrow> policy_log command config now runner (l @ ws)"
proof (induction ws rule: rev_induct)
  case (snoc x ws)
  obtain f v ok where x: "x = (f, v, ok)" by (cases x)
  have "policy_log command config now runner ((l @ ws) @ [(f, v, ok)])"
    by (rule policy_log_snoc) (use snoc x in auto)
  then show ?case by (simp add: x)
qed simp

lemma report_writes_other: "fst ` set (report_writes rs) \<inter> {PolicyFile} = {}"
  by (auto simp: report_writes_def)

lemma does_import_bundle:
  assumes log: "policy_log command config now runner l"
    and fails: "\<And>l' e. policy_log command config now runner l' \<Longrightarrow> policy_tried l' = policy_tried l \<or> (\<exists>l f. fault l f = Some e)
               \<Longrightarrow> \<exists>ws. l' = l @ ws \<Longrightarrow> Q l' (Inl e)"
    and succeeds: "\<And>l'. policy_log command config now runner l' \<Longrightarrow> \<exists>ws. l' = l @ ws \<Longrightarrow> Q l' (Inr ())"
  shows "does (import_bundle fault command output_directory config now runner True) l Q"
proof -
  have same: "Q l (Inl e)" for e using fails [of l] log by blast
  show ?thesis
    unfolding import_bundle_def
  proof (rule does_bind, rule does_lift, cases "command config", simp add: same, simp,
      rule does_bind, rule does_lift, goal_cases)
    case (1 argv)
    note argv = 1
    show ?case
    proof (cases "runner argv")
      case (Inr document)
      note document = Inr
      show ?thesis
        unfolding Inr sum.case
      proof (rule does_bind, rule does_lift, cases "expected_sources config")
        fix expected
        assume expected: "expected_sources config = Inr expected"
        show "case expected_sources config of Inl e \<Rightarrow> Q l (Inl e)
          | Inr expected \<Rightarrow> does (bindIO (liftR (inspect_envelope document expected now True)) (\<lambda>(reports, policy).
               bindIO (liftR output_directory) (\<lambda>_. bindIO (put_reports fault reports) (\<lambda>_.
               put_policy fault True (case policy of None \<Rightarrow> PNone | Some p \<Rightarrow> p))))) l Q"
          unfolding expected sum.case
        proof (rule does_bind, rule does_lift, cases "inspect_envelope document expected now True")
          fix x
          assume x: "inspect_envelope document expected now True = Inr x"
          obtain reports policy where xp: "x = (reports, policy)" by (cases x)
          then obtain p where p: "policy = Some p"
            using x by (auto simp: inspect_envelope_def Let_def)
          have ok: "policy_log command config now runner (l @ report_writes reports)"
            by (rule policy_log_reports [OF report_writes_other log])
          have ver: "verified command config now runner (l @ report_writes reports) p"
            unfolding verified_def using argv document expected x xp p
            by (intro exI [of _ argv] exI [of _ document] exI [of _ expected] exI [of _ reports]) auto
          have "does (bindIO (liftR output_directory) (\<lambda>_. bindIO (put_reports fault reports) (\<lambda>_. put_policy fault True p))) l Q"
          proof (rule does_bind, rule does_lift, cases output_directory, simp add: same, simp,
              rule does_bind, rule does_reports, goal_cases)
            case (1 ws e)
            then show ?case
              using fails [of "l @ ws" e] policy_log_reports [OF _ log] policy_tried_append(2) by auto
          next
            case 2
            show ?case
              unfolding sum.case put_policy_def if_True
            proof (rule does_put)
              fix e
              assume "fault (l @ report_writes reports) PolicyFile = Some e"
              then show "Q ((l @ report_writes reports) @ [(PolicyFile, p, False)]) (Inl e)"
                by (intro fails policy_log_snoc [OF ok]) (use ver in auto)
            next
              show "Q ((l @ report_writes reports) @ [(PolicyFile, p, True)]) (Inr ())"
                by (intro succeeds policy_log_snoc [OF ok]) (use ver in auto)
            qed
          qed
          then show "case inspect_envelope document expected now True of Inl e \<Rightarrow> Q l (Inl e)
             | Inr x \<Rightarrow> does (case x of (reports, policy) \<Rightarrow>
                 bindIO (liftR output_directory) (\<lambda>_. bindIO (put_reports fault reports) (\<lambda>_.
                 put_policy fault True (case policy of None \<Rightarrow> PNone | Some p \<Rightarrow> p)))) l Q"
            by (simp add: x xp p)
        qed (simp add: same)
      qed (simp add: same)
    qed (simp add: same)
  qed
qed


text \<open>The conclusions of the property below, for the log and the outcome of a run.\<close>

definition policy_safe ::
  "(pyval \<Rightarrow> string list res) \<Rightarrow> pyval \<Rightarrow> rat \<Rightarrow> (string list \<Rightarrow> document res) \<Rightarrow> log \<Rightarrow> pyval res \<Rightarrow> bool" where
  "policy_safe command config now runner l out \<longleftrightarrow>
     (\<exists>ok rest. l = (PolicyFile, invalid_policy now, ok) # rest \<and> (\<not> ok \<longrightarrow> rest = []))
     \<and> policy_log command config now runner l
     \<and> ((\<forall>source. out \<noteq> Inr (import_result source now ''HEALTHY'' ''RESULT_IMPORT_VERIFIED'')) \<longrightarrow>
          policy_tried l = Some (invalid_policy now))"

lemma policy_tried_last: "policy_tried (l @ [(PolicyFile, v, ok)]) = Some v"
  by (simp add: policy_tried_append)

text \<open>The logs that start with a revocation that is on disk.\<close>

definition revoked ::
  "(pyval \<Rightarrow> string list res) \<Rightarrow> pyval \<Rightarrow> rat \<Rightarrow> (string list \<Rightarrow> document res) \<Rightarrow> log \<Rightarrow> bool" where
  "revoked command config now runner l \<longleftrightarrow>
     (\<exists>rest. l = (PolicyFile, invalid_policy now, True) # rest) \<and> policy_log command config now runner l"

abbreviation withdrawn :: "rat \<Rightarrow> log \<Rightarrow> bool" where
  "withdrawn now l \<equiv> policy_tried l = Some (invalid_policy now)"

definition settled :: "rat \<Rightarrow> log \<Rightarrow> pyval res \<Rightarrow> bool" where
  "settled now l out \<longleftrightarrow>
     (\<exists>source. out = Inr (import_result source now ''HEALTHY'' ''RESULT_IMPORT_VERIFIED'')) \<or> withdrawn now l"

lemma policy_safe_iff:
  "revoked command config now runner l \<Longrightarrow> settled now l out \<Longrightarrow> policy_safe command config now runner l out"
  by (auto simp: policy_safe_def revoked_def settled_def)

lemma revoked_snoc:
  assumes "revoked command config now runner l"
    "f = PolicyFile \<Longrightarrow> v = invalid_policy now \<or> verified command config now runner l v"
  shows "revoked command config now runner (l @ [(f, v, ok)])"
  using assms by (auto simp: revoked_def intro: policy_log_snoc)

lemma does_withdraw:
  assumes "revoked command config now runner l"
    "\<And>l' r. revoked command config now runner l' \<Longrightarrow> withdrawn now l' \<Longrightarrow> Q l' r"
  shows "does (put_policy fault True (invalid_policy now)) l Q"
  unfolding put_policy_def if_True
  by (rule does_put; rule assms(2); (rule revoked_snoc [OF assms(1)] policy_tried_last; simp)?)

lemma does_attempt:
  assumes log: "revoked command config now runner l" "withdrawn now l"
    and faults: "\<forall>l f e. fault l f = Some e \<longrightarrow> report_error e \<and> e \<noteq> KeyError"
  shows "does (catchIO report_error
             (bindIO (import_bundle fault command output_directory config now runner True) (\<lambda>_.
              liftR (Inr (import_result source now ''HEALTHY'' ''RESULT_IMPORT_VERIFIED''))))
             (\<lambda>_. bindIO (put_policy fault True (invalid_policy now)) (\<lambda>_.
              liftR (Inr (import_result source now ''OBSERVER_ERROR'' ''RESULT_IMPORT_UNAVAILABLE''))))) l
         (\<lambda>l' r. revoked command config now runner l' \<and> settled now l' r)"
proof (rule does_catchI)
  show "does (bindIO (import_bundle fault command output_directory config now runner True) (\<lambda>_.
              liftR (Inr (import_result source now ''HEALTHY'' ''RESULT_IMPORT_VERIFIED'')))) l
     (\<lambda>l' r. revoked command config now runner l' \<and>
        (case r of Inl e \<Rightarrow> report_error e \<or> withdrawn now l' | Inr x \<Rightarrow> settled now l' (Inr x)))"
  proof (rule does_bindI [where P = "\<lambda>l' r. revoked command config now runner l' \<and>
        (case r of Inl e \<Rightarrow> report_error e \<or> withdrawn now l' | Inr x \<Rightarrow> True)"])
    show "does (import_bundle fault command output_directory config now runner True) l
       (\<lambda>l' r. revoked command config now runner l' \<and> (case r of Inl e \<Rightarrow> report_error e \<or> withdrawn now l' | Inr x \<Rightarrow> True))"
      by (rule does_import_bundle) (use log faults in \<open>auto simp: revoked_def\<close>)
  qed (auto intro!: does_lift simp: settled_def)
next
  fix l' and e :: exn
  assume "revoked command config now runner l' \<and>
        (case Inl e of Inl e \<Rightarrow> report_error e \<or> withdrawn now l' | Inr x \<Rightarrow> settled now l' (Inr x))"
  then show "does (bindIO (put_policy fault True (invalid_policy now)) (\<lambda>_.
              liftR (Inr (import_result source now ''OBSERVER_ERROR'' ''RESULT_IMPORT_UNAVAILABLE'')))) l'
         (\<lambda>l' r. revoked command config now runner l' \<and> settled now l' r)"
    by (intro does_bindI [where P = "\<lambda>l' r. revoked command config now runner l' \<and> withdrawn now l'"] does_withdraw does_lift)
      (auto simp: settled_def)
qed (auto simp: settled_def)

lemma does_result:
  assumes log: "revoked command config now runner l" "settled now l (Inr result)"
    and faults: "\<forall>l f e. fault l f = Some e \<longrightarrow> report_error e \<and> e \<noteq> KeyError"
  shows "does (bindIO (catchIO (\<lambda>e. report_error e \<and> e \<noteq> KeyError) (put fault ResultFile result)
           (\<lambda>e. bindIO (put_policy fault True (invalid_policy now)) (\<lambda>_. liftR (Inl e)))) (\<lambda>_. liftR (Inr result))) l
         (policy_safe command config now runner)"
proof (rule does_bindI [where P = "\<lambda>l' r. revoked command config now runner l' \<and>
      (case r of Inl e \<Rightarrow> withdrawn now l' | Inr x \<Rightarrow> settled now l' (Inr result))"])
  have other: "revoked command config now runner (l @ [(ResultFile, result, ok)])"
    "settled now (l @ [(ResultFile, result, ok)]) (Inr result)" for ok
    using log by (auto simp: settled_def policy_tried_append intro: revoked_snoc)
  show "does (catchIO (\<lambda>e. report_error e \<and> e \<noteq> KeyError) (put fault ResultFile result)
           (\<lambda>e. bindIO (put_policy fault True (invalid_policy now)) (\<lambda>_. liftR (Inl e)))) l
     (\<lambda>l' r. revoked command config now runner l' \<and> (case r of Inl e \<Rightarrow> withdrawn now l' | Inr x \<Rightarrow> settled now l' (Inr result)))"
  proof (rule does_catchI [where P = "\<lambda>l' r. revoked command config now runner l' \<and> settled now l' (Inr result)
        \<and> (\<forall>e. r = Inl e \<longrightarrow> report_error e \<and> e \<noteq> KeyError)"])
    show "does (put fault ResultFile result) l (\<lambda>l' r. revoked command config now runner l' \<and> settled now l' (Inr result)
        \<and> (\<forall>e. r = Inl e \<longrightarrow> report_error e \<and> e \<noteq> KeyError))"
      by (rule does_put) (use other faults in auto)
  next
    fix l' and e :: exn
    assume "revoked command config now runner l' \<and> settled now l' (Inr result)
        \<and> (\<forall>e'. Inl e = Inl e' \<longrightarrow> report_error e' \<and> e' \<noteq> KeyError)"
    then show "does (bindIO (put_policy fault True (invalid_policy now)) (\<lambda>_. liftR (Inl e))) l'
       (\<lambda>l' r. revoked command config now runner l' \<and> (case r of Inl e \<Rightarrow> withdrawn now l' | Inr x \<Rightarrow> settled now l' (Inr result)))"
      by (intro does_bindI [where P = "\<lambda>l' r. revoked command config now runner l' \<and> withdrawn now l'"] does_withdraw does_lift) auto
  qed auto
qed (auto intro!: does_lift policy_safe_iff simp: settled_def)

lemma does_import:
  assumes "flag config ''include_policy_attestation''"
    and faults: "\<forall>l f e. fault l f = Some e \<longrightarrow> report_error e \<and> e \<noteq> KeyError"
  shows "does (import_locked fault command output_directory config now state runner) []
     (policy_safe command config now runner)"
proof -
  let ?P = "\<lambda>l' (r :: unit res). case r of Inl e \<Rightarrow> l' = [(PolicyFile, invalid_policy now, False)]
                 | Inr x \<Rightarrow> l' = [(PolicyFile, invalid_policy now, True)]"
  let ?R = "\<lambda>l' r. revoked command config now runner l' \<and> withdrawn now l'"
  have start: "policy_log command config now runner [(PolicyFile, invalid_policy now, ok)]" for ok
    using policy_log_snoc [OF policy_log_Nil, of PolicyFile "invalid_policy now"] by simp
  have tried: "withdrawn now [(PolicyFile, invalid_policy now, ok)]" for ok by (simp add: policy_tried_def)
  have stop: "policy_safe command config now runner l' (Inl e)"
    if "revoked command config now runner l'" "withdrawn now l'" for l' e
    by (rule policy_safe_iff) (use that in \<open>simp_all add: settled_def\<close>)
  show ?thesis
    unfolding import_locked_def Let_def assms(1) eqTrueI [OF assms(1)]
  proof (rule does_bindI [where P = ?P], goal_cases)
    case 1
    show ?case unfolding put_policy_def if_True by (rule does_put) simp_all
  next
    case (2 l' e)
    then show ?case using start tried unfolding policy_safe_def by (intro conjI exI [of _ False] exI [of _ "[]"]) simp_all
  next
    case (3 l' u)
    then have R: "revoked command config now runner l'" "withdrawn now l'" using start tried by (simp_all add: revoked_def)
    have lift: "does (bindIO (liftR r) f) l Q" if "\<And>e. Q l (Inl e)" "\<And>x. does (f x) l Q" for r :: "'x res" and f :: "'x \<Rightarrow> (log, pyval) io" and l Q
      by (rule does_bindI [where P = "\<lambda>l' r. l' = l"]) (auto intro: that does_lift)
    show ?case
    proof (rule lift, rule stop [OF R], rule lift, rule stop [OF R], rule lift, rule stop [OF R], rule does_bindI [where P = ?R], goal_cases)
      case (1 state backwards v)
      show ?case
        by (rule does_put) (use R in \<open>auto simp: policy_tried_append intro: revoked_snoc\<close>)
    next
      case (2 state backwards v l' e)
      then show ?case by (auto intro: stop)
    next
      case (3 state backwards v l' w)
      then have R': "revoked command config now runner l'" "withdrawn now l'" by simp_all
      show ?case
      proof (rule lift, rule stop [OF R'], rule does_bindI, rule does_attempt [OF R' faults], goal_cases)
        case (1 source l' e)
        then show ?case by (auto intro: policy_safe_iff)
      next
        case (2 source l' result)
        then show ?case by (intro does_result [OF _ _ faults]) simp_all
      qed
    qed
  qed
qed

text \<open>C20: An import run leaves no policy it did not verify. Its first write revokes the policy of the
  former run, and nothing follows if that write fails. From then on, at whatever write the run is
  interrupted, the policy file holds the revocation or a policy that this run verified in the bundle
  it fetched, with every report of that bundle stored before it. A run that does not end with a
  healthy result has tried the revocation last.\<close>

theorem import_leaves_verified_policy:
  assumes "import_run hostname lock fault command output_directory config now state runner = (l, out)"
    and "flag config ''include_policy_attestation''"
    and "\<forall>l f e. fault l f = Some e \<longrightarrow> report_error e \<and> e \<noteq> KeyError"
  shows "(l = [] \<or> (\<exists>ok rest. l = (PolicyFile, invalid_policy now, ok) # rest \<and> (\<not> ok \<longrightarrow> rest = [])))
     \<and> (\<forall>p v. prefix p l \<longrightarrow> policy_left p = Some v \<longrightarrow>
          v = invalid_policy now \<or> verified command config now runner p v)
     \<and> (l \<noteq> [] \<longrightarrow> (\<forall>source. out \<noteq> Inr (import_result source now ''HEALTHY'' ''RESULT_IMPORT_VERIFIED'')) \<longrightarrow>
          policy_tried l = Some (invalid_policy now))"
proof -
  have "does (import_locked fault command output_directory config now state runner) []
     (policy_safe command config now runner)"
    by (rule does_import [OF assms(2,3)])
  then have s: "l = [] \<or> policy_safe command config now runner l out"
    using assms(1) by (auto simp: import_run_def bindIO_def liftR_def does_def split: sum.splits prod.splits)
  then have log: "policy_log command config now runner l"
    using policy_log_Nil by (auto simp: policy_safe_def)
  have "v = invalid_policy now \<or> verified command config now runner p v" if p: "prefix p l" "policy_left p = Some v" for p v
  proof -
    obtain a b where a: "p = a @ (PolicyFile, v, True) # b" using policy_left_Some [OF p(2)] by blast
    then obtain c where "l = a @ (PolicyFile, v, True) # c" using p(1) by (auto simp: prefix_def)
    then have "v = invalid_policy now \<or> verified command config now runner a v" using log unfolding policy_log_def by blast
    then show ?thesis using a by (auto simp: verified_def)
  qed
  with s show ?thesis unfolding policy_safe_def by blast
qed

lemma import_leaves_verified_policy_witness:
  "policy_tried (fst (import_run ''h'' (Inr ()) (\<lambda>_ _. None) (\<lambda>_. Inl KeyError) (Inr ())
     (PDict [(''expected_hostname'', PStr ''h''), (''source'', PStr ''s''), (''include_policy_attestation'', PBool True)])
     100 (Inr (PDict [])) (\<lambda>_. Inl OSError))) = Some (invalid_policy 100)"
proof -
  let ?config = "PDict [(''expected_hostname'', PStr ''h''), (''source'', PStr ''s''), (''include_policy_attestation'', PBool True)]"
  let ?run = "import_run ''h'' (Inr ()) (\<lambda>_ _. None) (\<lambda>_. Inl KeyError) (Inr ()) ?config 100 (Inr (PDict [])) (\<lambda>_. Inl OSError)"
  have out: "snd ?run = Inr (import_result (PStr ''s'') 100 ''OBSERVER_ERROR'' ''RESULT_IMPORT_UNAVAILABLE'')"
      "fst ?run \<noteq> []"
    by (simp_all add: import_run_def import_locked_def import_bundle_def bindIO_def liftR_def catchIO_def put_def put_policy_def
        flag_def clock_backwards_def is_string_def)
  show ?thesis
    using import_leaves_verified_policy [OF surjective_pairing [of ?run]] out
    by (simp add: flag_def import_result_def)
qed

end
