(* ===== verification/MetricsText.thy ===== *)
theory MetricsText
  imports PyValue "HOL-Library.Char_ord" "HOL-Library.List_Lexorder" "HOL-Library.Product_Lexorder"
begin

text \<open>
  \<open>scripts/lib/inference_metrics.py\<close>, reading: numbers, labels and sample lines of the Prometheus
  text format, and \<open>parse_snapshot\<close>. A \<open>Decimal\<close> is the rational number its text denotes; the
  decimal text of a float orders like the float and denotes an integer exactly when the float is
  one, so a float stands for its own text. An exponent beyond the range of \<open>Decimal\<close> is rejected as
  out of range here, under another reason than in the code. White space and line boundaries
  are the ASCII ones; the size of the JSON text of a snapshot is a parameter.
\<close>

section \<open>Vocabulary\<close>

abbreviation MetricsError :: "string \<Rightarrow> exn" where
  "MetricsError r \<equiv> AppError ''MetricsError'' r"

definition MAX_PAYLOAD_BYTES :: nat where "MAX_PAYLOAD_BYTES = 512 * 1024"
definition MAX_ENGINE_GROUPS :: nat where "MAX_ENGINE_GROUPS = 32"
definition MAX_SERIES :: nat where "MAX_SERIES = 2048"
definition MAX_BUCKETS :: nat where "MAX_BUCKETS = 128"
definition MAX_UNKNOWN_METRICS :: nat where "MAX_UNKNOWN_METRICS = 128"
definition MAX_LINES :: nat where "MAX_LINES = 16384"
definition MAX_LINE_BYTES :: nat where "MAX_LINE_BYTES = 16384"
definition MAX_LABEL_BYTES :: nat where "MAX_LABEL_BYTES = 256"
definition MAX_SAFE_COUNT :: rat where "MAX_SAFE_COUNT = 2 ^ 53 - 1"

definition SOURCE_STATES :: "string list" where
  "SOURCE_STATES = [''OBSERVED'', ''UNKNOWN'', ''UNSUPPORTED'', ''NOT_REPORTED'', ''SOURCE_FAILED'']"

definition IDENTITY_KEYS :: "string list" where
  "IDENTITY_KEYS = [''sourceId'', ''bootId'', ''processId'', ''configId'']"

text \<open>The kind, the unit and the permitted dimensions of a metric family.\<close>

type_synonym family = "string \<times> string \<times> string list"

definition vllm :: "string \<Rightarrow> string \<Rightarrow> string list \<Rightarrow> (string \<times> family) list" where
  "vllm kind unit names = map (\<lambda>n. (''vllm:'' @ n, kind, unit, [])) names"

definition DEFINITIONS :: "(string \<times> family) list" where
  "DEFINITIONS =
     [(''vllm:num_requests_running'', ''gauges'', ''requests'', []),
      (''vllm:num_requests_waiting'', ''gauges'', ''requests'', []),
      (''vllm:num_requests_waiting_by_reason'', ''gauges'', ''requests'', [''reason'']),
      (''vllm:engine_sleep_state'', ''gauges'', ''state'', [''sleep_state'']),
      (''vllm:kv_cache_usage_perc'', ''gauges'', ''ratio'', [])]
     @ vllm ''counters'' ''tokens''
         [''prompt_tokens_total'', ''generation_tokens_total'', ''prompt_tokens_cached_total'',
          ''prefix_cache_queries_total'', ''prefix_cache_hits_total'',
          ''external_prefix_cache_queries_total'', ''external_prefix_cache_hits_total'']
     @ [(''vllm:num_preemptions_total'', ''counters'', ''preemptions'', []),
        (''vllm:mm_cache_queries_total'', ''counters'', ''items'', []),
        (''vllm:mm_cache_hits_total'', ''counters'', ''items'', []),
        (''vllm:request_success_total'', ''counters'', ''requests'', [''finished_reason'']),
        (''vllm:prompt_tokens_by_source_total'', ''counters'', ''tokens'', [''source''])]
     @ vllm ''histograms'' ''seconds''
         [''time_to_first_token_seconds'', ''inter_token_latency_seconds'',
          ''request_time_per_output_token_seconds'', ''e2e_request_latency_seconds'',
          ''request_queue_time_seconds'', ''request_inference_time_seconds'',
          ''request_prefill_time_seconds'', ''request_decode_time_seconds'']
     @ vllm ''histograms'' ''tokens''
         [''request_prompt_tokens'', ''request_generation_tokens'', ''iteration_tokens_total'',
          ''request_max_num_generation_tokens'', ''request_params_max_tokens'',
          ''request_prefill_kv_computed_tokens'']
     @ [(''vllm:request_params_n'', ''histograms'', ''sequences'', [])]"

definition removesuffix :: "string \<Rightarrow> string \<Rightarrow> string" where
  "removesuffix suffix s =
     (if suffix \<noteq> [] \<and> length suffix \<le> length s \<and> drop (length s - length suffix) s = suffix
      then take (length s - length suffix) s else s)"

text \<open>The sample names of a family, each with the part of the family it reports.\<close>

definition SAMPLES :: "(string \<times> string \<times> string) list" where
  "SAMPLES =
     concat (map (\<lambda>(name, kind, _).
       if kind = ''histograms''
       then map (\<lambda>p. (name @ ''_'' @ p, name, p)) [''bucket'', ''count'', ''sum'', ''created'']
       else (name, name, ''value'')
            # (if kind = ''counters'' then [(removesuffix ''_total'' name @ ''_created'', name, ''created'')] else []))
     DEFINITIONS)"

section \<open>Numbers\<close>

text \<open>
  \<open>[+-]?(?:[0-9]+(?:\.[0-9]*)?|\.[0-9]+)(?:[eE][+-]?[0-9]+)?\<close> with the number it denotes.
\<close>

definition sign_of :: "string \<Rightarrow> bool \<times> string" where
  "sign_of s = (case s of [] \<Rightarrow> (False, s)
                | c # cs \<Rightarrow> if c = CHR ''-'' then (True, cs) else if c = CHR ''+'' then (False, cs) else (False, s))"

definition exponent_of :: "string \<Rightarrow> int option" where
  "exponent_of s =
     (case s of
        [] \<Rightarrow> Some 0
      | c # cs \<Rightarrow>
          let (negative, d) = sign_of cs
          in if one_of ''eE'' c \<and> d \<noteq> [] \<and> list_all is_digit d
             then Some (if negative then - decimal d else decimal d) else None)"

definition decimal_number :: "string \<Rightarrow> rat option" where
  "decimal_number s =
     (let (negative, u) = sign_of s;
          whole = takeWhile is_digit u; r = dropWhile is_digit u;
          dot = (r \<noteq> [] \<and> hd r = CHR ''.''); fraction = (if dot then takeWhile is_digit (tl r) else []);
          rest = (if dot then dropWhile is_digit (tl r) else r)
      in if whole = [] \<and> fraction = [] then None
         else (case exponent_of rest of
                 None \<Rightarrow> None
               | Some e \<Rightarrow>
                   let m = of_int (decimal (whole @ fraction)) * 10 powi (e - int (length fraction))
                   in Some (if negative then - m else m)))"

definition is_integral :: "rat \<Rightarrow> bool" where
  "is_integral q = (of_int \<lfloor>q\<rfloor> = q)"

definition number_text :: "pyval \<Rightarrow> rat res" where
  "number_text v =
     (case v of
        PStr s \<Rightarrow>
          bindR (check (length s \<le> 128) (MetricsError ''NUMBER_TOO_LONG'')) (\<lambda>_.
          case decimal_number s of None \<Rightarrow> Inl (MetricsError ''NUMBER_INVALID'') | Some q \<Rightarrow> Inr q)
      | PInt i \<Rightarrow> bindR (check (length (str_of_int i) \<le> 128) (MetricsError ''NUMBER_TOO_LONG'')) (\<lambda>_. Inr (of_int i))
      | PFloat q \<Rightarrow> Inr q
      | _ \<Rightarrow> Inl (MetricsError ''NUMBER_INVALID''))"

definition number_in_range :: "pyval \<Rightarrow> rat \<Rightarrow> rat res" where
  "number_in_range v maximum =
     bindR (number_text v) (\<lambda>q.
     bindR (check (0 \<le> q \<and> q \<le> maximum) (MetricsError ''NUMBER_OUT_OF_RANGE'')) (\<lambda>_.
     bindR (check (\<not> (is_integral q \<and> MAX_SAFE_COUNT < q)) (MetricsError ''NUMBER_UNSAFE_INTEGER'')) (\<lambda>_. Inr q)))"

definition count_number :: "pyval \<Rightarrow> int res" where
  "count_number v =
     bindR (number_in_range v (10 ^ 300)) (\<lambda>q.
     bindR (check (is_integral q \<and> q \<le> MAX_SAFE_COUNT) (MetricsError ''COUNT_NOT_SAFE_INTEGER'')) (\<lambda>_. Inr \<lfloor>q\<rfloor>))"

definition number_up_to :: "rat \<Rightarrow> pyval \<Rightarrow> pyval res" where
  "number_up_to maximum v =
     bindR (number_in_range v maximum) (\<lambda>q.
     bindR (check (q = 0 \<or> fl q \<noteq> 0) (MetricsError ''NUMBER_NOT_REPRESENTABLE'')) (\<lambda>_.
     Inr (if is_integral q then PInt \<lfloor>q\<rfloor> else PFloat (fl q))))"

abbreviation any_number :: "pyval \<Rightarrow> pyval res" where
  "any_number \<equiv> number_up_to (10 ^ 300)"

section \<open>Identities\<close>

definition text_value :: "pyval \<Rightarrow> pyval res" where
  "text_value v =
     bindR (check (is_str v) (MetricsError ''IDENTITY_INVALID'')) (\<lambda>_.
     bindR (check (the_str v \<noteq> [] \<and> length (the_str v) \<le> MAX_LABEL_BYTES \<and> list_all (\<lambda>c. 32 \<le> code c) (the_str v))
                  (MetricsError ''IDENTITY_INVALID'')) (\<lambda>_. Inr v))"

definition optional_text :: "pyval \<Rightarrow> pyval res" where
  "optional_text v = (if v = PNone then Inr PNone else text_value v)"

definition metrics_identity :: "pyval \<Rightarrow> pyval res" where
  "metrics_identity v =
     bindR (check (is_dict v \<and> list_all (\<lambda>(k, _). k \<in> set IDENTITY_KEYS) (items v)) (MetricsError ''IDENTITY_INVALID'')) (\<lambda>_.
     bindR (mapR (\<lambda>key. bindR ((if key = ''sourceId'' then text_value else optional_text) (get v key)) (\<lambda>x. Inr (key, x)))
                 IDENTITY_KEYS) (\<lambda>d. Inr (PDict d)))"

section \<open>Labels and sample lines\<close>

definition label_head :: "char \<Rightarrow> bool" where
  "label_head c = (is_lower c \<or> is_upper c \<or> c = CHR ''_'')"

definition label_char :: "char \<Rightarrow> bool" where
  "label_char c = (is_alnum c \<or> c = CHR ''_'')"

definition metric_head :: "char \<Rightarrow> bool" where
  "metric_head c = (label_head c \<or> c = CHR '':'')"

definition metric_char :: "char \<Rightarrow> bool" where
  "metric_char c = (label_char c \<or> c = CHR '':'')"

text \<open>The name at the front of a text and what follows it.\<close>

definition name_match :: "(char \<Rightarrow> bool) \<Rightarrow> (char \<Rightarrow> bool) \<Rightarrow> string \<Rightarrow> (string \<times> string) option" where
  "name_match p q s =
     (if s \<noteq> [] \<and> p (hd s) then Some (takeWhile q s, dropWhile q s) else None)"

definition NAME_match :: "string \<Rightarrow> (string \<times> string) option" where
  "NAME_match = name_match metric_head metric_char"

definition escaped_char :: "char \<Rightarrow> char option" where
  "escaped_char c =
     (if c = CHR 0x5C then Some (CHR 0x5C) else if c = CHR 0x22 then Some (CHR 0x22)
      else if c = CHR ''n'' then Some (CHR 0x0A) else None)"

text \<open>The characters of a quoted value up to its closing quote, and what follows it.\<close>

fun quoted_value :: "string \<Rightarrow> (string \<times> string) res" where
  "quoted_value [] = Inl (MetricsError ''LABEL_SYNTAX_INVALID'')"
| "quoted_value (c # cs) =
     (if c = CHR 0x22 then Inr ([], cs)
      else if c = CHR 0x5C
      then (case cs of
              [] \<Rightarrow> Inl (MetricsError ''LABEL_ESCAPE_INVALID'')
            | d # ds \<Rightarrow>
                (case escaped_char d of
                   None \<Rightarrow> Inl (MetricsError ''LABEL_ESCAPE_INVALID'')
                 | Some e \<Rightarrow> bindR (quoted_value ds) (\<lambda>(v, r). Inr (e # v, r))))
      else bindR (quoted_value cs) (\<lambda>(v, r). Inr (c # v, r)))"

abbreviation skip_space :: "string \<Rightarrow> string" where
  "skip_space \<equiv> dropWhile is_space"

definition expect :: "char \<Rightarrow> string \<Rightarrow> string res" where
  "expect c s = (case s of d # ds \<Rightarrow> if d = c then Inr ds else Inl (MetricsError ''LABEL_SYNTAX_INVALID'')
                 | [] \<Rightarrow> Inl (MetricsError ''LABEL_SYNTAX_INVALID''))"

definition one_label :: "string \<Rightarrow> ((string \<times> string) \<times> string) res" where
  "one_label s =
     (case name_match label_head label_char s of
        None \<Rightarrow> Inl (MetricsError ''LABEL_SYNTAX_INVALID'')
      | Some (name, r) \<Rightarrow>
          bindR (expect CHR ''='' (skip_space r)) (\<lambda>r.
          bindR (expect CHR 0x22 (skip_space r)) (\<lambda>r.
          bindR (quoted_value r) (\<lambda>(v, r). Inr ((name, v), r)))))"

lemma bindR_cong [fundef_cong]:
  "m = m' \<Longrightarrow> (\<And>x. m' = Inr x \<Longrightarrow> f x = g x) \<Longrightarrow> bindR m f = bindR m' g"
  by (cases m') simp_all

lemma quoted_value_length: "quoted_value s = Inr (v, r) \<Longrightarrow> length r < length s"
  by (induction s arbitrary: v r rule: quoted_value.induct)
    (fastforce split: if_splits list.splits option.splits)+

lemma skip_space_length: "length (skip_space s) \<le> length s"
  by (rule length_dropWhile_le)

lemma expect_length: "expect c s = Inr r \<Longrightarrow> length r < length s"
  by (auto simp: expect_def split: list.splits if_splits)

lemma one_label_length: "one_label s = Inr (l, r) \<Longrightarrow> length r < length s"
proof -
  assume "one_label s = Inr (l, r)"
  then obtain n r1 r2 r3 v where "r1 = dropWhile label_char s" "expect CHR ''='' (skip_space r1) = Inr r2"
    "expect CHR 0x22 (skip_space r2) = Inr r3" "quoted_value r3 = Inr (v, r)"
    by (auto simp: one_label_def name_match_def split: if_splits)
  then show ?thesis
    using expect_length quoted_value_length skip_space_length [of r1] skip_space_length [of r2]
      length_dropWhile_le [of label_char s] by (meson le_less_trans less_le_trans less_trans order_less_imp_le)
qed

text \<open>The loop of \<open>_labels\<close>, from the labels read so far and the remaining text.\<close>

function labels_from :: "(string \<times> string) list \<Rightarrow> string \<Rightarrow> (string \<times> string) list res" where
  "labels_from ls s =
     (let s' = skip_space s
      in if s' = [] then Inr ls
         else bindR (one_label s') (\<lambda>(l, r).
              bindR (check (fst l \<notin> set (map fst ls)) (MetricsError ''DUPLICATE_LABEL'')) (\<lambda>_.
              bindR (check (length (snd l) \<le> MAX_LABEL_BYTES \<and> length ls < 8) (MetricsError ''LABEL_LIMIT_EXCEEDED'')) (\<lambda>_.
              let r' = skip_space r; ls' = ls @ [l]
              in if r' = [] then Inr ls'
                 else bindR (expect CHR '','' r') (labels_from ls')))))"
  by pat_completeness auto

termination
proof (relation "measure (\<lambda>(_, s). length s)", goal_cases)
  case (2 ls s s' x l r u w r' ls' y)
  then have "length y < length s"
    using one_label_length [of s' l r] expect_length [of "CHR '',''" r' y] skip_space_length [of s] skip_space_length [of r] by simp
  then show ?case by simp
qed simp

declare labels_from.simps [simp del]

definition parse_labels :: "string \<Rightarrow> (string \<times> string) list res" where
  "parse_labels s = labels_from [] s"

text \<open>The text between the braces and what follows the closing one, for a text after the opening one.\<close>

fun brace_scan :: "bool \<Rightarrow> bool \<Rightarrow> string \<Rightarrow> (string \<times> string) option" where
  "brace_scan quoted escaped [] = None"
| "brace_scan quoted escaped (c # cs) =
     (if \<not> escaped \<and> c = CHR ''}'' \<and> \<not> quoted then Some ([], cs)
      else (case brace_scan (if \<not> escaped \<and> c = CHR 0x22 then \<not> quoted else quoted)
                            (\<not> escaped \<and> c = CHR 0x5C \<and> quoted) cs of
              None \<Rightarrow> None
            | Some (text, rest) \<Rightarrow> Some (c # text, rest)))"

definition sample_time :: "string list \<Rightarrow> pyval res" where
  "sample_time parts =
     (if length parts = 2
      then bindR (number_up_to (10 ^ 15) (PStr (parts ! 1))) (\<lambda>x. Inr (PFloat (fl (num_val x / 1000))))
      else Inr PNone)"

definition sample_line :: "string \<Rightarrow> (string \<times> (string \<times> string) list \<times> string \<times> pyval) res" where
  "sample_line line =
     (case NAME_match line of
        None \<Rightarrow> Inl (MetricsError ''SAMPLE_SYNTAX_INVALID'')
      | Some (name, r) \<Rightarrow>
          bindR (check (length name \<le> 128) (MetricsError ''SAMPLE_SYNTAX_INVALID'')) (\<lambda>_.
          bindR (if r \<noteq> [] \<and> hd r = CHR ''{''
                 then (case brace_scan False False (tl r) of
                         None \<Rightarrow> Inl (MetricsError ''SAMPLE_SYNTAX_INVALID'')
                       | Some (text, rest) \<Rightarrow> bindR (parse_labels text) (\<lambda>ls. Inr (ls, rest)))
                 else Inr ([], r)) (\<lambda>(ls, r).
          bindR (check (r \<noteq> [] \<and> is_space (hd r)) (MetricsError ''SAMPLE_SYNTAX_INVALID'')) (\<lambda>_.
          let parts = words r
          in bindR (check (length parts = 1 \<or> length parts = 2) (MetricsError ''SAMPLE_SYNTAX_INVALID'')) (\<lambda>_.
             bindR (sample_time parts) (\<lambda>stamp.
             Inr (name, ls, parts ! 0, stamp)))))))"

section \<open>Sample lines are read back\<close>

definition escape_char :: "char \<Rightarrow> string" where
  "escape_char c =
     (if c = CHR 0x5C then [CHR 0x5C, CHR 0x5C] else if c = CHR 0x22 then [CHR 0x5C, CHR 0x22]
      else if c = CHR 0x0A then [CHR 0x5C, CHR ''n''] else [c])"

definition escape_value :: "string \<Rightarrow> string" where
  "escape_value v = concat (map escape_char v)"

definition render_label :: "string \<times> string \<Rightarrow> string" where
  "render_label l = fst l @ CHR ''='' # CHR 0x22 # escape_value (snd l) @ [CHR 0x22]"

definition render_labels :: "(string \<times> string) list \<Rightarrow> string" where
  "render_labels ls = join_with '','' (map render_label ls)"

text \<open>The writer of the format: one line per sample, with a time stamp in milliseconds or none.\<close>

definition render_stamp :: "nat option \<Rightarrow> string" where
  "render_stamp stamp = (case stamp of None \<Rightarrow> [] | Some ms \<Rightarrow> CHR '' '' # str_of_nat ms)"

definition render_sample :: "string \<Rightarrow> (string \<times> string) list \<Rightarrow> string \<Rightarrow> nat option \<Rightarrow> string" where
  "render_sample name ls number stamp = name @ CHR ''{'' # render_labels ls @ CHR ''}'' # CHR '' '' # number @ render_stamp stamp"

definition label_name :: "string \<Rightarrow> bool" where
  "label_name n = (n \<noteq> [] \<and> label_head (hd n) \<and> list_all label_char n)"

definition metric_name :: "string \<Rightarrow> bool" where
  "metric_name n = (n \<noteq> [] \<and> metric_head (hd n) \<and> list_all metric_char n \<and> length n \<le> 128)"

lemma char_facts:
  "\<not> label_char CHR ''=''" "\<not> is_space CHR ''=''" "\<not> is_space CHR 0x22" "\<not> is_space CHR '',''" "\<not> metric_char CHR ''{''"
  "is_space CHR '' ''" "escaped_char CHR 0x5C = Some CHR 0x5C" "escaped_char CHR 0x22 = Some CHR 0x22" "escaped_char CHR ''n'' = Some CHR 0x0A"
  by code_simp+

lemma quoted_value_escape: "quoted_value (escape_value v @ CHR 0x22 # r) = Inr (v, r)"
proof (induction v)
  case (Cons c v)
  then show ?case by (simp add: escape_value_def escape_char_def escaped_char_def)
qed (simp add: escape_value_def)

lemma label_head_facts: "label_head c \<Longrightarrow> label_char c \<and> \<not> is_space c"
  by (auto simp: label_head_def label_char_def is_space_def is_alnum_def is_lower_def is_upper_def)

lemma name_match_append:
  assumes "n \<noteq> []" "p (hd n)" "list_all q n" "r = [] \<or> \<not> q (hd r)"
  shows "name_match p q (n @ r) = Some (n, r)"
proof -
  have "takeWhile q (n @ r) = n" "dropWhile q (n @ r) = r"
    using assms(3,4) by (cases r; simp add: list_all_iff)+
  then show ?thesis using assms(1,2) by (simp add: name_match_def)
qed

lemma one_label_render:
  assumes "label_name (fst l)"
  shows "one_label (render_label l @ r) = Inr (l, r)"
proof -
  have "name_match label_head label_char (fst l @ CHR ''='' # CHR 0x22 # escape_value (snd l) @ CHR 0x22 # r)
      = Some (fst l, CHR ''='' # CHR 0x22 # escape_value (snd l) @ CHR 0x22 # r)"
    by (rule name_match_append) (use assms in \<open>simp_all add: label_name_def char_facts\<close>)
  then show ?thesis
    by (simp add: one_label_def render_label_def expect_def char_facts quoted_value_escape)
qed

lemma render_head: "label_name (fst l) \<Longrightarrow> render_label l \<noteq> [] \<and> \<not> is_space (hd (render_label l))"
  by (auto simp: render_label_def label_name_def label_head_facts)

lemma skip_space_id: "s = [] \<or> \<not> is_space (hd s) \<Longrightarrow> skip_space s = s"
  by (cases s) auto

lemma labels_from_render:
  assumes "list_all (label_name \<circ> fst) ms" "distinct (map fst (ls @ ms))" "length (ls @ ms) \<le> 8"
    "list_all (\<lambda>l. length (snd l) \<le> MAX_LABEL_BYTES) ms"
  shows "labels_from ls (render_labels ms) = Inr (ls @ ms)"
  using assms
proof (induction ms arbitrary: ls)
  case Nil
  then show ?case by (simp add: render_labels_def labels_from.simps)
next
  case (Cons m ms)
  have n: "label_name (fst m)" using Cons.prems(1) by simp
  define rest where "rest = (if ms = [] then [] else CHR '','' # render_labels ms)"
  have r: "render_labels (m # ms) = render_label m @ rest"
    by (cases ms) (simp_all add: render_labels_def rest_def)
  have sk: "skip_space (render_label m @ rest) = render_label m @ rest" "render_label m @ rest \<noteq> []"
    using render_head [OF n] by (simp_all add: skip_space_id)
  have sr: "skip_space rest = rest" by (rule skip_space_id) (simp add: rest_def char_facts)
  have c: "fst m \<notin> fst ` set ls" "length (snd m) \<le> MAX_LABEL_BYTES" "length ls < 8"
    using Cons.prems by auto
  have "labels_from ls (render_label m @ rest) =
      (if rest = [] then Inr (ls @ [m]) else bindR (expect CHR '','' rest) (labels_from (ls @ [m])))"
    by (subst labels_from.simps) (simp only: Let_def sk sr one_label_render [OF n] bindR_simps prod.case if_False c set_map
        check_simps not_False_eq_True simp_thms)
  also have "\<dots> = Inr (ls @ m # ms)"
  proof (cases "ms = []")
    case False
    then have "bindR (expect CHR '','' rest) (labels_from (ls @ [m])) = labels_from (ls @ [m]) (render_labels ms)"
      by (simp add: rest_def expect_def)
    also have "\<dots> = Inr ((ls @ [m]) @ ms)"
      by (rule Cons.IH) (use Cons.prems in auto)
    finally show ?thesis using False by (simp add: rest_def)
  qed (simp add: rest_def)
  finally show ?case by (simp only: r)
qed

abbreviation prepend :: "string \<Rightarrow> string \<times> string \<Rightarrow> string \<times> string" where
  "prepend p \<equiv> \<lambda>(a, b). (p @ a, b)"

lemma brace_scan_plain:
  "list_all (\<lambda>c. c \<noteq> CHR 0x22 \<and> c \<noteq> CHR ''}'') p \<Longrightarrow>
     brace_scan False False (p @ s) = map_option (prepend p) (brace_scan False False s)"
proof (induction p)
  case Nil
  then show ?case by (cases "brace_scan False False s") auto
qed (auto simp: option.map_comp comp_def split: option.splits)

lemma brace_scan_escape: "brace_scan True False (escape_value v @ s) = map_option (prepend (escape_value v)) (brace_scan True False s)"
proof (induction v)
  case (Cons c v)
  then show ?case
    by (auto simp: escape_value_def escape_char_def option.map_comp comp_def split: option.splits)
qed (cases "brace_scan True False s"; simp add: escape_value_def)

lemma brace_scan_label:
  assumes "label_name (fst l)"
  shows "brace_scan False False (render_label l @ s) = map_option (prepend (render_label l)) (brace_scan False False s)"
proof -
  have "list_all (\<lambda>c. c \<noteq> CHR 0x22 \<and> c \<noteq> CHR ''}'') (fst l @ [CHR ''=''])"
    using assms by (auto simp: label_name_def list_all_iff label_char_def char_class_defs)
  then have "brace_scan False False ((fst l @ [CHR ''='']) @ CHR 0x22 # escape_value (snd l) @ CHR 0x22 # s) =
      map_option (prepend (fst l @ [CHR ''=''])) (brace_scan False False (CHR 0x22 # escape_value (snd l) @ CHR 0x22 # s))"
    by (rule brace_scan_plain)
  then show ?thesis
    by (simp add: render_label_def brace_scan_escape option.map_comp comp_def split: option.splits)
qed

lemma brace_scan_labels:
  "list_all (label_name \<circ> fst) ls \<Longrightarrow>
     brace_scan False False (render_labels ls @ s) = map_option (prepend (render_labels ls)) (brace_scan False False s)"
proof (induction ls)
  case Nil
  then show ?case by (cases "brace_scan False False s") (auto simp: render_labels_def)
next
  case (Cons l ls)
  show ?case
  proof (cases ls)
    case Nil
    then show ?thesis using Cons.prems by (simp add: render_labels_def brace_scan_label)
  next
    case (Cons m ms)
    then have r: "render_labels (l # ls) = render_label l @ CHR '','' # render_labels ls" by (simp add: render_labels_def)
    have "brace_scan False False (render_labels ls @ s) = map_option (prepend (render_labels ls)) (brace_scan False False s)"
      using Cons.IH Cons.prems by simp
    then show ?thesis
      using Cons.prems unfolding r by (auto simp: brace_scan_label option.map_comp comp_def split: option.splits)
  qed
qed

text \<open>The time stamp: two words, of which the second is a number of milliseconds.\<close>

lemma digits_not_space: "list_all is_digit s \<Longrightarrow> list_all (\<lambda>c. \<not> is_space c) s"
  by (auto simp: list_all_iff is_digit_def is_space_def)

lemma str_of_nat_nonempty: "str_of_nat n \<noteq> []"
  by (subst str_of_nat.simps) simp

lemma words_pair:
  "list_all (\<lambda>c. \<not> is_space c) w \<Longrightarrow> w \<noteq> [] \<Longrightarrow> words rest = [v] \<Longrightarrow> words (w @ CHR '' '' # rest) = [w, v]"
proof (induction w)
  case (Cons c cs)
  then show ?case by (cases cs) (auto simp: char_facts)
qed simp

lemma stamp_words:
  assumes "list_all (\<lambda>c. \<not> is_space c) number" "number \<noteq> []"
  shows "words (CHR '' '' # number @ render_stamp stamp) = number # (case stamp of None \<Rightarrow> [] | Some ms \<Rightarrow> [str_of_nat ms])"
proof (cases stamp)
  case None
  then show ?thesis using words_single [OF assms] by (simp add: render_stamp_def char_facts)
next
  case (Some ms)
  have "words (str_of_nat ms) = [str_of_nat ms]" by (rule words_single [OF digits_not_space [OF str_of_nat_digits] str_of_nat_nonempty])
  from words_pair [OF assms this] show ?thesis by (simp add: Some render_stamp_def char_facts)
qed

lemma decimal_number_digits:
  assumes "list_all is_digit s" "s \<noteq> []"
  shows "decimal_number s = Some (of_int (decimal s))"
proof -
  have sign: "sign_of s = (False, s)" using assms by (cases s) (auto simp: sign_of_def is_digit_def)
  have digits: "takeWhile is_digit s = s" "dropWhile is_digit s = []" using assms(1) by (simp_all add: list_all_iff)
  show ?thesis unfolding decimal_number_def sign prod.case Let_def digits using assms(2) by (simp add: exponent_of_def)
qed

lemma stamp_number:
  assumes "ms \<le> 10 ^ 15"
  shows "number_up_to (10 ^ 15) (PStr (str_of_nat ms)) = Inr (PInt (int ms))"
proof -
  have "ms < 10 ^ Suc 15" using assms by simp
  then have length: "length (str_of_nat ms) \<le> 128" using str_of_nat_length [of ms 15] by simp
  have "decimal_number (str_of_nat ms) = Some (of_nat ms)"
    by (simp add: decimal_number_digits [OF str_of_nat_digits str_of_nat_nonempty] decimal_str_of_nat)
  then have read: "number_text (PStr (str_of_nat ms)) = Inr (of_nat ms)" using length by (simp add: number_text_def)
  have "(of_nat ms :: rat) \<le> of_nat (10 ^ 15)" using assms by (simp only: of_nat_le_iff)
  then have limit: "(of_nat ms :: rat) \<le> 10 ^ 15" by simp
  have "of_nat ms \<le> MAX_SAFE_COUNT" using limit by (simp add: MAX_SAFE_COUNT_def)
  then have range: "number_in_range (PStr (str_of_nat ms)) (10 ^ 15) = Inr (of_nat ms)"
    using limit by (simp add: number_in_range_def read)
  have "fl (of_int (int ms)) = of_int (int ms)" using assms by (intro fl_of_int) simp
  then have "of_nat ms = (0 :: rat) \<or> fl (of_nat ms) \<noteq> 0" by auto
  then show ?thesis unfolding number_up_to_def range bindR_simps by (simp add: is_integral_def)
qed

text \<open>C24: A sample line is read back. Whatever the values of the labels contain - quotes, backslashes, line
  feeds, braces, commas - the line that the exposition format writes for a sample is parsed to its name,
  exactly its labels in order, and the text of its number; and a time stamp in milliseconds, of up to ten
  to the power 15, to the float of that time in seconds. A line without one has no time.\<close>

theorem sample_line_round_trip:
  assumes "metric_name name" "list_all (label_name \<circ> fst) ls" "distinct (map fst ls)" "length ls \<le> 8"
    "list_all (\<lambda>l. length (snd l) \<le> MAX_LABEL_BYTES) ls" "number \<noteq> []" "list_all (\<lambda>c. \<not> is_space c) number"
    "case stamp of None \<Rightarrow> True | Some ms \<Rightarrow> ms \<le> 10 ^ 15"
  shows "sample_line (render_sample name ls number stamp) =
    Inr (name, ls, number, case stamp of None \<Rightarrow> PNone | Some ms \<Rightarrow> PFloat (fl (of_nat ms / 1000)))"
proof -
  let ?tail = "CHR '' '' # number @ render_stamp stamp"
  have "NAME_match (render_sample name ls number stamp) = Some (name, CHR ''{'' # render_labels ls @ CHR ''}'' # ?tail)"
    unfolding NAME_match_def render_sample_def
    by (rule name_match_append) (use assms(1) in \<open>simp_all add: metric_name_def char_facts\<close>)
  moreover have "length name \<le> 128" using assms(1) by (simp add: metric_name_def)
  moreover have "brace_scan False False (render_labels ls @ CHR ''}'' # ?tail) = Some (render_labels ls, ?tail)"
    by (simp add: brace_scan_labels [OF assms(2)])
  moreover have "parse_labels (render_labels ls) = Inr ls"
    unfolding parse_labels_def using labels_from_render [of ls "[]"] assms(2-5) by simp
  moreover note parts = stamp_words [OF assms(7,6), of stamp]
  moreover have "sample_time (words ?tail) = Inr (case stamp of None \<Rightarrow> PNone | Some ms \<Rightarrow> PFloat (fl (of_nat ms / 1000)))"
    using assms(8) stamp_number unfolding parts by (cases stamp) (auto simp: sample_time_def simp del: power_numeral)
  ultimately show ?thesis by (cases stamp) (simp_all add: sample_line_def char_facts Let_def)
qed

lemma sample_line_round_trip_witness:
  "sample_line (render_sample ''up'' [(''engine'', [CHR 0x22, CHR ''}'', CHR 0x5C, CHR 0x0A])] ''1.5'' (Some 1767225600500))
     = Inr (''up'', [(''engine'', [CHR 0x22, CHR ''}'', CHR 0x5C, CHR 0x0A])], ''1.5'', PFloat (fl (of_nat 1767225600500 / 1000)))"
proof -
  have "metric_name ''up''" "list_all (label_name \<circ> fst) [(''engine'', [CHR 0x22, CHR ''}'', CHR 0x5C, CHR 0x0A])]"
    "list_all (\<lambda>c. \<not> is_space c) ''1.5''" by code_simp+
  from sample_line_round_trip [OF this(1,2) _ _ _ _ this(3), of "Some 1767225600500"] show ?thesis
    by (simp add: MAX_LABEL_BYTES_def)
qed

end
