(* ===== verification/MetricsSnapshot.thy ===== *)
theory MetricsSnapshot
  imports MetricsText
begin

text \<open>
  \<open>scripts/lib/inference_metrics.py\<close>, snapshots: the arithmetic of histograms, \<open>parse_snapshot\<close> and
  \<open>_validate_snapshot\<close>. A snapshot is the JSON value the code builds. Mixed arithmetic of \<open>int\<close> and
  \<open>float\<close> is written out on the number values: exact on two integers, rounded otherwise, with the
  infinities and \<open>nan\<close> of overflowing floats. The integers that are converted here are sums of
  products of counts below two to the power 53, far below the range of floats.
\<close>

section \<open>Arithmetic\<close>

definition round_float :: "rat \<Rightarrow> pyval" where
  "round_float q = (if \<bar>q\<bar> < 2 ^ 1024 - 2 ^ 970 then PFloat (fl q) else PInf (q < 0))"

fun as_float :: "pyval \<Rightarrow> pyval" where
  "as_float (PInt i) = PFloat (fl (of_int i))"
| "as_float v = v"

fun float_add :: "pyval \<Rightarrow> pyval \<Rightarrow> pyval" where
  "float_add (PFloat p) (PFloat q) = round_float (p + q)"
| "float_add (PInf s) (PFloat q) = PInf s"
| "float_add (PFloat p) (PInf s) = PInf s"
| "float_add (PInf s) (PInf t) = (if s = t then PInf s else PNan)"
| "float_add _ _ = PNan"

fun float_mul :: "pyval \<Rightarrow> pyval \<Rightarrow> pyval" where
  "float_mul (PFloat p) (PFloat q) = round_float (p * q)"
| "float_mul (PInf s) (PFloat q) = (if q = 0 then PNan else PInf (s \<noteq> (q < 0)))"
| "float_mul (PFloat p) (PInf s) = (if p = 0 then PNan else PInf (s \<noteq> (p < 0)))"
| "float_mul (PInf s) (PInf t) = PInf (s \<noteq> t)"
| "float_mul _ _ = PNan"

fun py_neg :: "pyval \<Rightarrow> pyval" where
  "py_neg (PInt i) = PInt (- i)"
| "py_neg (PFloat q) = PFloat (- q)"
| "py_neg (PInf s) = PInf (\<not> s)"
| "py_neg v = v"

fun py_add :: "pyval \<Rightarrow> pyval \<Rightarrow> pyval" where
  "py_add (PInt i) (PInt k) = PInt (i + k)"
| "py_add v w = float_add (as_float v) (as_float w)"

definition py_sub :: "pyval \<Rightarrow> pyval \<Rightarrow> pyval" where
  "py_sub v w = py_add v (py_neg w)"

fun py_mul :: "pyval \<Rightarrow> pyval \<Rightarrow> pyval" where
  "py_mul (PInt i) (PInt k) = PInt (i * k)"
| "py_mul v w = float_mul (as_float v) (as_float w)"

text \<open>True division by a positive finite number; the quotient of two integers is rounded once.\<close>

definition py_div :: "pyval \<Rightarrow> pyval \<Rightarrow> pyval" where
  "py_div v w =
     (case (v, w) of
        (PInt i, PInt k) \<Rightarrow> round_float (of_int i / of_int k)
      | _ \<Rightarrow> (case (as_float v, as_float w) of
                (PFloat p, PFloat q) \<Rightarrow> round_float (p / q)
              | (PInf s, PFloat q) \<Rightarrow> PInf (s \<noteq> (q < 0))
              | _ \<Rightarrow> PNan))"

text \<open>\<open>v < w\<close> and \<open>v == w\<close> compare numbers exactly.\<close>

definition py_less :: "pyval \<Rightarrow> pyval \<Rightarrow> bool" where
  "py_less v w =
     (case (v, w) of
        (PNan, _) \<Rightarrow> False
      | (_, PNan) \<Rightarrow> False
      | (PInf s, PInf t) \<Rightarrow> s \<and> \<not> t
      | (PInf s, _) \<Rightarrow> s
      | (_, PInf t) \<Rightarrow> \<not> t
      | _ \<Rightarrow> num_val v < num_val w)"

definition py_max :: "pyval \<Rightarrow> pyval list \<Rightarrow> pyval" where
  "py_max v ws = foldl (\<lambda>m x. if py_less m x then x else m) v ws"

section \<open>Histograms\<close>

abbreviation Plus_Inf :: pyval where
  "Plus_Inf \<equiv> PStr ''+Inf''"

definition bucket_step :: "pyval list \<Rightarrow> pyval \<times> pyval \<Rightarrow> rat \<times> int \<Rightarrow> (rat \<times> int) res" where
  "bucket_step bounds bucket previous =
     (let (boundary, cumulative) = bucket; (last_bound, last_count) = previous
      in bindR (if boundary = Plus_Inf
                then bindR (check (length (filter (\<lambda>b. b = Plus_Inf) bounds) = 1) (MetricsError ''HISTOGRAM_BOUNDARY_INVALID'')) (\<lambda>_.
                     Inr last_bound)
                else bindR (any_number boundary) (\<lambda>b.
                     bindR (check (last_bound < num_val b) (MetricsError ''HISTOGRAM_BOUNDARY_INVALID'')) (\<lambda>_. Inr (num_val b)))) (\<lambda>bound.
         bindR (count_number cumulative) (\<lambda>c.
         bindR (check (last_count \<le> c) (MetricsError ''HISTOGRAM_BUCKETS_NOT_MONOTONE'')) (\<lambda>_. Inr (bound, c)))))"

record hist_sums =
  hs_lower :: pyval
  hs_upper :: pyval
  hs_bound :: pyval
  hs_count :: pyval
  hs_unbounded :: bool

definition sum_step :: "hist_sums \<Rightarrow> pyval \<times> pyval \<Rightarrow> hist_sums" where
  "sum_step s bucket =
     (let (boundary, cumulative) = bucket;
          observations = py_sub cumulative (hs_count s);
          s = s\<lparr>hs_lower := py_add (hs_lower s) (py_mul (hs_bound s) observations), hs_count := cumulative\<rparr>
      in if boundary = Plus_Inf then s\<lparr>hs_unbounded := py_less (PInt 0) observations\<rparr>
         else s\<lparr>hs_upper := py_add (hs_upper s) (py_mul boundary observations), hs_bound := boundary\<rparr>)"

definition hist_bounds :: "(pyval \<times> pyval) list \<Rightarrow> hist_sums" where
  "hist_bounds buckets =
     foldl sum_step \<lparr>hs_lower = PInt 0, hs_upper = PInt 0, hs_bound = PInt 0, hs_count = PInt 0, hs_unbounded = False\<rparr> buckets"

definition sum_feasible :: "hist_sums \<Rightarrow> pyval \<Rightarrow> bool" where
  "sum_feasible s tot =
     (let tolerance = py_mul (PFloat (fl (1 / 10 ^ 9))) (py_max (PInt 1) [hs_lower s, hs_upper s, tot])
      in \<not> py_less tot (py_sub (hs_lower s) tolerance)
         \<and> (hs_unbounded s \<or> \<not> py_less (py_add (hs_upper s) tolerance) tot))"

definition histogram :: "pyval \<Rightarrow> pyval \<Rightarrow> pyval \<Rightarrow> pyval \<Rightarrow> unit res" where
  "histogram bounds counts count tot =
     (let bs = the_list bounds; cs = the_list counts
      in bindR (check (is_list bounds \<and> is_list counts \<and> bs \<noteq> [] \<and> length bs \<le> MAX_BUCKETS \<and> length bs = length cs
                       \<and> last bs = Plus_Inf \<and> count \<noteq> PNone \<and> tot \<noteq> PNone)
                      (MetricsError ''HISTOGRAM_INCOMPLETE'')) (\<lambda>_.
         bindR (foldR (bucket_step bs) (zip bs cs) (-1, 0)) (\<lambda>_.
         bindR (count_number count) (\<lambda>c.
         bindR (any_number tot) (\<lambda>t.
         bindR (check (py_eq (last cs) (PInt c) \<and> (c = 0 \<longrightarrow> num_val t = 0)) (MetricsError ''HISTOGRAM_COUNT_SUM_MISMATCH'')) (\<lambda>_.
         check (sum_feasible (hist_bounds (zip bs cs)) t) (MetricsError ''HISTOGRAM_SUM_OUTSIDE_BUCKET_BOUNDS'')))))))"

section \<open>Reading the text\<close>

type_synonym group_key = "string \<times> string"

type_synonym series_key = "string \<times> (string \<times> string) list"

record hist_item =
  hi_buckets :: "(pyval \<times> pyval) list"
  hi_stamps :: "pyval list"
  hi_count :: pyval
  hi_sum :: pyval

record metric_group =
  mg_gauges :: "(series_key \<times> pyval) list"
  mg_counters :: "(series_key \<times> pyval) list"
  mg_histograms :: "(series_key \<times> hist_item) list"

record parse_state =
  ps_groups :: "(group_key \<times> metric_group) list"
  ps_types :: "(string \<times> string) list"
  ps_created :: "((group_key \<times> series_key) \<times> pyval) list"
  ps_unknown :: "string list"
  ps_seen :: "(string \<times> (string \<times> string) list) list"

definition empty_group :: metric_group where
  "empty_group = \<lparr>mg_gauges = [], mg_counters = [], mg_histograms = []\<rparr>"

definition is_type_line :: "string \<Rightarrow> bool" where
  "is_type_line line =
     (let r = skip_space (tl line)
      in starts_with r ''TYPE'' \<and> (drop 4 r = [] \<or> is_space (hd (drop 4 r))))"

definition type_line :: "string \<Rightarrow> parse_state \<Rightarrow> parse_state res" where
  "type_line line s =
     (case words (drop 4 (skip_space (tl line))) of
        [family, declared] \<Rightarrow>
          bindR (check (NAME_match family = Some (family, []) \<and> length family \<le> 128) (MetricsError ''TYPE_SYNTAX_INVALID'')) (\<lambda>_.
          bindR (check (map_of (ps_types s) family \<in> {None, Some declared}) (MetricsError ''TYPE_MISMATCH'')) (\<lambda>_.
          Inr (s\<lparr>ps_types := AList.update family declared (ps_types s)\<rparr>)))
      | _ \<Rightarrow> Inl (MetricsError ''TYPE_SYNTAX_INVALID''))"

definition unknown_line :: "string \<Rightarrow> parse_state \<Rightarrow> parse_state res" where
  "unknown_line name s =
     (let unknown = List.insert name (ps_unknown s)
      in bindR (check (length unknown \<le> MAX_UNKNOWN_METRICS) (MetricsError ''UNKNOWN_METRIC_LIMIT_EXCEEDED'')) (\<lambda>_.
         Inr (s\<lparr>ps_unknown := unknown\<rparr>)))"

definition labels_supported :: "string list \<Rightarrow> string \<Rightarrow> (string \<times> string) list \<Rightarrow> bool" where
  "labels_supported extras p ls =
     (list_all (\<lambda>(k, _). k \<in> set ([''model_name'', ''engine''] @ extras @ (if p = ''bucket'' then [''le''] else []))) ls
      \<and> list_all (\<lambda>k. map_of ls k \<notin> {None, Some []}) [''model_name'', ''engine'']
      \<and> (p = ''bucket'' \<longrightarrow> map_of ls ''le'' \<noteq> None))"

definition remember_series :: "string \<Rightarrow> (string \<times> string) list \<Rightarrow> group_key \<Rightarrow> parse_state \<Rightarrow> parse_state res" where
  "remember_series name ls gk s =
     (let key = (name, sort ls)
      in bindR (check (key \<notin> set (ps_seen s)) (MetricsError ''DUPLICATE_SERIES'')) (\<lambda>_.
         bindR (check (length (ps_seen s) < MAX_SERIES) (MetricsError ''SERIES_LIMIT_EXCEEDED'')) (\<lambda>_.
         bindR (check (map_of (ps_groups s) gk \<noteq> None \<or> length (ps_groups s) < MAX_ENGINE_GROUPS)
                      (MetricsError ''ENGINE_LIMIT_EXCEEDED'')) (\<lambda>_.
         Inr (s\<lparr>ps_seen := ps_seen s @ [key],
                ps_groups := (if map_of (ps_groups s) gk = None then ps_groups s @ [(gk, empty_group)] else ps_groups s)\<rparr>)))))"

definition update_group :: "group_key \<Rightarrow> (metric_group \<Rightarrow> metric_group) \<Rightarrow> parse_state \<Rightarrow> parse_state" where
  "update_group gk f s = s\<lparr>ps_groups := map (\<lambda>(k, g). (k, if k = gk then f g else g)) (ps_groups s)\<rparr>"

definition label_dict :: "(string \<times> string) list \<Rightarrow> pyval" where
  "label_dict ls = PDict (map (\<lambda>(k, v). (k, PStr v)) ls)"

definition scalar_number :: "string \<Rightarrow> string \<Rightarrow> pyval \<Rightarrow> pyval res" where
  "scalar_number kind unit v =
     bindR (if kind = ''counters'' \<or> unit = ''requests'' then bindR (count_number v) (\<lambda>i. Inr (PInt i)) else any_number v) (\<lambda>x.
     bindR (check (unit = ''ratio'' \<longrightarrow> num_val x \<le> 1) (MetricsError ''RATIO_OUT_OF_RANGE'')) (\<lambda>_.
     bindR (check (unit = ''state'' \<longrightarrow> num_val x = 0 \<or> num_val x = 1) (MetricsError ''STATE_OUT_OF_RANGE'')) (\<lambda>_. Inr x)))"

definition scalar_sample ::
  "string \<Rightarrow> string \<Rightarrow> group_key \<Rightarrow> series_key \<Rightarrow> string \<Rightarrow> pyval \<Rightarrow> parse_state \<Rightarrow> parse_state res" where
  "scalar_sample kind unit gk key raw stamp s =
     bindR (scalar_number kind unit (PStr raw)) (\<lambda>x.
     let item = PDict [(''name'', PStr (fst key)), (''labels'', label_dict (snd key)), (''value'', x), (''unit'', PStr unit),
                       (''sampleAt'', stamp)]
     in Inr (update_group gk (\<lambda>g. if kind = ''gauges'' then g\<lparr>mg_gauges := AList.update key item (mg_gauges g)\<rparr>
                                      else g\<lparr>mg_counters := AList.update key item (mg_counters g)\<rparr>) s))"

definition bucket_sample :: "string \<Rightarrow> string \<Rightarrow> hist_item \<Rightarrow> hist_item res" where
  "bucket_sample le raw h =
     bindR (if le = ''+Inf'' then Inr Plus_Inf else any_number (PStr le)) (\<lambda>bound.
     bindR (check (map_of (hi_buckets h) bound = None) (MetricsError ''DUPLICATE_HISTOGRAM_BOUNDARY'')) (\<lambda>_.
     bindR (count_number (PStr raw)) (\<lambda>c.
     bindR (check (length (hi_buckets h) < MAX_BUCKETS) (MetricsError ''BUCKET_LIMIT_EXCEEDED'')) (\<lambda>_.
     Inr (h\<lparr>hi_buckets := hi_buckets h @ [(bound, PInt c)]\<rparr>)))))"

definition hist_sample :: "string \<Rightarrow> (string \<times> string) list \<Rightarrow> string \<Rightarrow> pyval \<Rightarrow> hist_item option \<Rightarrow> hist_item res" where
  "hist_sample p ls raw stamp old =
     (let h = (case old of Some h \<Rightarrow> h | None \<Rightarrow> \<lparr>hi_buckets = [], hi_stamps = [], hi_count = PNone, hi_sum = PNone\<rparr>);
          h = h\<lparr>hi_stamps := List.insert stamp (hi_stamps h)\<rparr>
      in if p = ''bucket'' then bucket_sample (the (map_of ls ''le'')) raw h
         else if p = ''count'' then bindR (count_number (PStr raw)) (\<lambda>c. Inr (h\<lparr>hi_count := PInt c\<rparr>))
         else bindR (any_number (PStr raw)) (\<lambda>x. Inr (h\<lparr>hi_sum := x\<rparr>)))"

definition known_sample ::
  "string \<Rightarrow> (string \<times> string) list \<Rightarrow> string \<Rightarrow> pyval \<Rightarrow> parse_state \<Rightarrow> parse_state res" where
  "known_sample name ls raw stamp s =
     (let (family, p) = the (map_of SAMPLES name); (kind, unit, extras) = the (map_of DEFINITIONS family)
      in bindR (check (labels_supported extras p ls) (MetricsError ''LABELS_UNSUPPORTED'')) (\<lambda>_.
         let gk = (the (map_of ls ''model_name''), the (map_of ls ''engine''));
             key = (family, List.map_filter (\<lambda>k. map_option (Pair k) (map_of ls k)) (sort extras))
         in bindR (text_value (PStr (fst gk))) (\<lambda>_.
            bindR (text_value (PStr (snd gk))) (\<lambda>_.
            bindR (remember_series name ls gk s) (\<lambda>s.
            if p = ''created''
            then bindR (number_up_to (10 ^ 12) (PStr raw)) (\<lambda>x. Inr (s\<lparr>ps_created := AList.update (gk, key) x (ps_created s)\<rparr>))
            else if kind \<noteq> ''histograms'' then scalar_sample kind unit gk key raw stamp s
            else bindR (hist_sample p ls raw stamp (map_of (mg_histograms (the (map_of (ps_groups s) gk))) key)) (\<lambda>h.
                 Inr (update_group gk (\<lambda>g. g\<lparr>mg_histograms := AList.update key h (mg_histograms g)\<rparr>) s)))))))"

definition parse_line :: "string \<Rightarrow> parse_state \<Rightarrow> parse_state res" where
  "parse_line line s =
     bindR (check (length line \<le> MAX_LINE_BYTES) (MetricsError ''LINE_LIMIT_EXCEEDED'')) (\<lambda>_.
     let line = strip line
     in if line = [] then Inr s
        else if hd line = CHR ''#'' then (if is_type_line line then type_line line s else Inr s)
        else (case NAME_match line of
                None \<Rightarrow> Inl (MetricsError ''SAMPLE_SYNTAX_INVALID'')
              | Some (name, _) \<Rightarrow>
                  bindR (check (length name \<le> 128) (MetricsError ''SAMPLE_SYNTAX_INVALID'')) (\<lambda>_.
                  if map_of SAMPLES name = None then unknown_line name s
                  else bindR (sample_line line) (\<lambda>(name, ls, raw, stamp). known_sample name ls raw stamp s))))"

section \<open>The snapshot\<close>

definition type_declared :: "(string \<times> string) list \<Rightarrow> string \<Rightarrow> string \<Rightarrow> bool res" where
  "type_declared types kind family =
     (let expected = (if kind = ''gauges'' then ''gauge'' else if kind = ''counters'' then ''counter'' else ''histogram'')
      in bindR (check (map_of types family \<in> {None, Some expected}) (MetricsError ''TYPE_MISMATCH'')) (\<lambda>_.
         Inr (map_of types family \<noteq> None)))"

definition created_at :: "parse_state \<Rightarrow> group_key \<Rightarrow> series_key \<Rightarrow> pyval" where
  "created_at s gk key = (case map_of (ps_created s) (gk, key) of None \<Rightarrow> PNone | Some x \<Rightarrow> x)"

definition finish_scalar :: "parse_state \<Rightarrow> group_key \<Rightarrow> string \<Rightarrow> series_key \<times> pyval \<Rightarrow> pyval res" where
  "finish_scalar s gk kind entry =
     (let (key, item) = entry
      in bindR (type_declared (ps_types s) kind (fst key)) (\<lambda>declared.
         Inr (PDict (items item @ [(''typeDeclared'', PBool declared)]
                     @ (if kind = ''counters'' then [(''createdAt'', created_at s gk key)] else [])))))"

definition sorted_buckets :: "(pyval \<times> pyval) list \<Rightarrow> (pyval \<times> pyval) list" where
  "sorted_buckets buckets =
     sort_key (num_val \<circ> fst) (filter (\<lambda>(b, _). b \<noteq> Plus_Inf) buckets) @ filter (\<lambda>(b, _). b = Plus_Inf) buckets"

definition finish_hist :: "parse_state \<Rightarrow> group_key \<Rightarrow> series_key \<times> hist_item \<Rightarrow> pyval res" where
  "finish_hist s gk entry =
     (let (key, h) = entry; unit = fst (snd (the (map_of DEFINITIONS (fst key))));
          buckets = sorted_buckets (hi_buckets h);
          bounds = PList (map fst buckets); counts = PList (map snd buckets)
      in bindR (type_declared (ps_types s) ''histograms'' (fst key)) (\<lambda>declared.
         bindR (check (length (hi_stamps h) = 1) (MetricsError ''HISTOGRAM_TIMESTAMP_MISMATCH'')) (\<lambda>_.
         bindR (histogram bounds counts (hi_count h) (hi_sum h)) (\<lambda>_.
         Inr (PDict [(''name'', PStr (fst key)), (''labels'', label_dict (snd key)), (''unit'', PStr unit),
                     (''count'', hi_count h), (''sum'', hi_sum h), (''typeDeclared'', PBool declared),
                     (''createdAt'', created_at s gk key), (''sampleAt'', hd (hi_stamps h)),
                     (''bounds'', bounds), (''counts'', counts)])))))"

text \<open>\<open>sorted(set(DEFINITIONS) - present)\<close>\<close>

definition not_reported :: "string list \<Rightarrow> pyval" where
  "not_reported present = PList (map PStr (sort (filter (\<lambda>n. n \<notin> set present) (map fst DEFINITIONS))))"

definition finish_group :: "parse_state \<Rightarrow> group_key \<times> metric_group \<Rightarrow> (string list \<times> pyval list) res" where
  "finish_group s entry =
     (let (gk, g) = entry;
          present = map (fst \<circ> fst) (mg_gauges g) @ map (fst \<circ> fst) (mg_counters g) @ map (fst \<circ> fst) (mg_histograms g)
      in bindR (mapR (finish_scalar s gk ''gauges'') (sort_key fst (mg_gauges g))) (\<lambda>gauges.
         bindR (mapR (finish_scalar s gk ''counters'') (sort_key fst (mg_counters g))) (\<lambda>counters.
         bindR (mapR (finish_hist s gk) (sort_key fst (mg_histograms g))) (\<lambda>histograms.
         Inr (present,
              if present = [] then []
              else [PDict [(''modelName'', PStr (fst gk)), (''engineId'', PStr (snd gk)), (''gauges'', PList gauges),
                           (''counters'', PList counters), (''histograms'', PList histograms),
                           (''notReportedMetricNames'', not_reported present)]])))))"

definition created_types_ok :: "parse_state \<Rightarrow> bool" where
  "created_types_ok s =
     list_all (\<lambda>(name, _). snd (the (map_of SAMPLES name)) = ''created'' \<longrightarrow> map_of (ps_types s) name \<in> {None, Some ''gauge''})
       (ps_seen s)"

definition snapshot_of :: "pyval \<Rightarrow> string \<Rightarrow> pyval \<Rightarrow> pyval list \<Rightarrow> string list \<Rightarrow> string list \<Rightarrow> pyval" where
  "snapshot_of observed state ident engines unknown reported =
     PDict [(''version'', PInt 1), (''observedAt'', observed), (''sourceState'', PStr state), (''identity'', ident),
            (''engines'', PList engines), (''unsupportedMetricNames'', PList (map PStr (sort unknown))),
            (''notReportedMetricNames'', not_reported reported)]"

text \<open>What \<open>payload\<close> can be: nothing, text, bytes that are no UTF-8 (with their number), or something else.\<close>

datatype payload = No_Payload | Payload string | Undecodable nat | Other_Payload

definition payload_text :: "payload \<Rightarrow> string res" where
  "payload_text p =
     (case p of
        Payload s \<Rightarrow> bindR (check (length s \<le> MAX_PAYLOAD_BYTES) (MetricsError ''PAYLOAD_TOO_LARGE'')) (\<lambda>_. Inr s)
      | Undecodable n \<Rightarrow> Inl (MetricsError (if n \<le> MAX_PAYLOAD_BYTES then ''PAYLOAD_ENCODING_INVALID'' else ''PAYLOAD_TOO_LARGE''))
      | _ \<Rightarrow> Inl (MetricsError ''PAYLOAD_INVALID''))"

definition parse_lines :: "string \<Rightarrow> parse_state res" where
  "parse_lines s =
     (let lines = splitlines s
      in bindR (check (length lines \<le> MAX_LINES) (MetricsError ''LINE_LIMIT_EXCEEDED'')) (\<lambda>_.
         foldR parse_line lines \<lparr>ps_groups = [], ps_types = [], ps_created = [], ps_unknown = [], ps_seen = []\<rparr>))"

definition finish_snapshot :: "pyval \<Rightarrow> pyval \<Rightarrow> parse_state \<Rightarrow> pyval res" where
  "finish_snapshot observed ident s =
     bindR (check (created_types_ok s) (MetricsError ''TYPE_MISMATCH'')) (\<lambda>_.
     bindR (mapR (finish_group s) (sort_key fst (ps_groups s))) (\<lambda>groups.
     Inr (snapshot_of observed ''OBSERVED'' ident (concat (map snd groups)) (ps_unknown s) (concat (map fst groups)))))"

definition parse_snapshot :: "(pyval \<Rightarrow> nat) \<Rightarrow> payload \<Rightarrow> pyval \<Rightarrow> pyval \<Rightarrow> pyval \<Rightarrow> pyval res" where
  "parse_snapshot json_bytes payload observed_at ident source_state =
     bindR (check (in_tuple source_state SOURCE_STATES) (MetricsError ''SOURCE_STATE_INVALID'')) (\<lambda>_.
     bindR (check (is_number observed_at) (MetricsError ''OBSERVATION_TIME_INVALID'')) (\<lambda>_.
     bindR (number_up_to (10 ^ 12) observed_at) (\<lambda>observed.
     bindR (metrics_identity ident) (\<lambda>ident.
     if source_state \<noteq> PStr ''OBSERVED''
     then bindR (check (payload = No_Payload) (MetricsError ''SOURCE_STATE_VALUE_CONFLICT'')) (\<lambda>_.
          Inr (snapshot_of observed (the_str source_state) ident [] [] []))
     else bindR (payload_text payload) (\<lambda>s.
          bindR (parse_lines s) (\<lambda>state.
          bindR (finish_snapshot observed ident state) (\<lambda>result.
          bindR (check (json_bytes result \<le> MAX_PAYLOAD_BYTES) (MetricsError ''SNAPSHOT_TOO_LARGE'')) (\<lambda>_. Inr result))))))))"

text \<open>\<open>measurement\<close>, with the value \<open>None\<close> when none is given.\<close>

definition measurement :: "pyval \<Rightarrow> pyval \<Rightarrow> pyval res" where
  "measurement v state =
     bindR (check (in_tuple state ([''UNKNOWN'', ''UNSUPPORTED'', ''NOT_REPORTED'', ''SOURCE_FAILED'', ''REPORTED'']))
                  (MetricsError ''MEASUREMENT_STATE_INVALID'')) (\<lambda>_.
     if state = PStr ''REPORTED''
     then bindR (check (is_number v) (MetricsError ''NUMBER_INVALID'')) (\<lambda>_.
          bindR (any_number v) (\<lambda>x. Inr (PDict [(''state'', state), (''value'', x)])))
     else bindR (check (v = PNone \<or> state = PStr ''UNSUPPORTED'' \<and> in_tuple v [''N/A'', ''[N/A]''])
                       (MetricsError ''MEASUREMENT_STATE_VALUE_CONFLICT'')) (\<lambda>_.
          Inr (PDict [(''state'', state), (''value'', PNone)])))"

section \<open>\<open>_validate_snapshot\<close>\<close>

definition names_ok :: "nat \<Rightarrow> (string \<Rightarrow> bool) \<Rightarrow> pyval \<Rightarrow> bool" where
  "names_ok maximum allowed v =
     (is_list v \<and> length (the_list v) \<le> maximum
      \<and> list_all (\<lambda>n. is_str n \<and> length (the_str n) \<le> 128 \<and> NAME_match (the_str n) = Some (the_str n, []) \<and> allowed (the_str n))
          (the_list v)
      \<and> distinct (the_list v))"

definition SNAPSHOT_KEYS :: "string list" where
  "SNAPSHOT_KEYS = [''version'', ''observedAt'', ''sourceState'', ''identity'', ''engines'', ''unsupportedMetricNames'',
                    ''notReportedMetricNames'']"

definition is_family :: "string \<Rightarrow> bool" where
  "is_family name = (map_of DEFINITIONS name \<noteq> None)"

definition snapshot_head :: "pyval \<Rightarrow> unit res" where
  "snapshot_head v =
     bindR (check (is_dict v \<and> get v ''version'' = PInt 1 \<and> in_tuple (get v ''sourceState'') SOURCE_STATES
                   \<and> has_keys v SNAPSHOT_KEYS) (MetricsError ''SNAPSHOT_INVALID'')) (\<lambda>_.
     bindR (metrics_identity (get v ''identity'')) (\<lambda>_.
     bindR (check (is_number (get v ''observedAt'')) (MetricsError ''SNAPSHOT_INVALID'')) (\<lambda>_.
     bindR (number_up_to (10 ^ 12) (get v ''observedAt'')) (\<lambda>_.
     bindR (check (names_ok MAX_UNKNOWN_METRICS (\<lambda>_. True) (get v ''unsupportedMetricNames'')
                   \<and> names_ok (length DEFINITIONS) is_family (get v ''notReportedMetricNames''))
                  (MetricsError ''SNAPSHOT_INVALID'')) (\<lambda>_.
     let engines = get v ''engines''
     in check (is_list engines \<and> length (the_list engines) \<le> MAX_ENGINE_GROUPS
               \<and> (get v ''sourceState'' \<noteq> PStr ''OBSERVED'' \<longrightarrow> the_list engines = [])) (MetricsError ''SNAPSHOT_INVALID''))))))"

definition item_keys :: "string \<Rightarrow> string list" where
  "item_keys kind =
     [''name'', ''labels'', ''unit'', ''sampleAt'', ''typeDeclared'']
     @ (if kind = ''histograms'' then [''bounds'', ''counts'', ''count'', ''sum'', ''createdAt''] else [''value''])
     @ (if kind = ''counters'' then [''createdAt''] else [])"

definition labels_key :: "pyval \<Rightarrow> (string \<times> string) list" where
  "labels_key labels = sort (map (\<lambda>(k, v). (k, the_str v)) (items labels))"

definition stamp_valid :: "pyval \<Rightarrow> unit res" where
  "stamp_valid x =
     (if x = PNone then Inr ()
      else bindR (check (is_number x) (MetricsError ''SNAPSHOT_INVALID'')) (\<lambda>_.
           bindR (number_up_to (10 ^ 12) x) (\<lambda>_. Inr ())))"

definition values_valid :: "string \<Rightarrow> pyval \<Rightarrow> unit res" where
  "values_valid kind item =
     (if kind = ''histograms''
      then bindR (check (is_list (get item ''bounds'') \<and> is_list (get item ''counts'')
                         \<and> list_all (\<lambda>b. b = Plus_Inf \<or> is_number b) (the_list (get item ''bounds''))
                         \<and> list_all is_int (the_list (get item ''counts'')) \<and> is_int (get item ''count'') \<and> is_number (get item ''sum''))
                        (MetricsError ''SNAPSHOT_INVALID'')) (\<lambda>_.
           histogram (get item ''bounds'') (get item ''counts'') (get item ''count'') (get item ''sum''))
      else bindR (check (is_number (get item ''value'')) (MetricsError ''SNAPSHOT_INVALID'')) (\<lambda>_.
           bindR (scalar_number kind (the_str (get item ''unit'')) (get item ''value'')) (\<lambda>_. Inr ())))"

type_synonym seen_series = "((pyval \<times> pyval) \<times> string \<times> (string \<times> string) list) list"

definition item_valid :: "pyval \<times> pyval \<Rightarrow> string \<Rightarrow> pyval \<Rightarrow> seen_series \<Rightarrow> seen_series res" where
  "item_valid key kind item seen =
     bindR (check (has_keys item (item_keys kind) \<and> is_bool (get item ''typeDeclared'')) (MetricsError ''SNAPSHOT_INVALID'')) (\<lambda>_.
     bindR (check (is_str (get item ''name'') \<and> is_family (the_str (get item ''name''))) (MetricsError ''SNAPSHOT_INVALID'')) (\<lambda>_.
     let name = the_str (get item ''name''); (family_kind, unit, extras) = the (map_of DEFINITIONS name); labels = get item ''labels''
     in bindR (check (family_kind = kind \<and> is_dict labels \<and> list_all (\<lambda>(k, _). k \<in> set extras) (items labels)
                      \<and> list_all (\<lambda>(_, v). is_str v \<and> length (the_str v) \<le> MAX_LABEL_BYTES) (items labels))
                     (MetricsError ''SNAPSHOT_INVALID'')) (\<lambda>_.
        let series = (key, name, labels_key labels)
        in bindR (check (series \<notin> set seen \<and> length seen < MAX_SERIES) (MetricsError ''SNAPSHOT_INVALID'')) (\<lambda>_.
           bindR (check (is_string (get item ''unit'') unit) (MetricsError ''SNAPSHOT_INVALID'')) (\<lambda>_.
           bindR (stamp_valid (get item ''sampleAt'')) (\<lambda>_.
           bindR (stamp_valid (get item ''createdAt'')) (\<lambda>_.
           bindR (values_valid kind item) (\<lambda>_. Inr (seen @ [series])))))))))"

definition METRIC_KINDS :: "string list" where
  "METRIC_KINDS = [''gauges'', ''counters'', ''histograms'']"

definition kind_valid :: "pyval \<times> pyval \<Rightarrow> pyval \<Rightarrow> string \<Rightarrow> seen_series \<Rightarrow> seen_series res" where
  "kind_valid key g kind seen =
     bindR (check (is_list (get g kind)) (MetricsError ''SNAPSHOT_INVALID'')) (\<lambda>_.
     foldR (item_valid key kind) (the_list (get g kind)) seen)"

definition group_valid :: "pyval \<Rightarrow> (pyval \<times> pyval) list \<times> seen_series \<Rightarrow> ((pyval \<times> pyval) list \<times> seen_series) res" where
  "group_valid g state =
     (let (engines, seen) = state
      in bindR (check (has_keys g ([''modelName'', ''engineId''] @ METRIC_KINDS @ [''notReportedMetricNames'']))
                      (MetricsError ''SNAPSHOT_INVALID'')) (\<lambda>_.
         bindR (text_value (get g ''modelName'')) (\<lambda>model.
         bindR (text_value (get g ''engineId'')) (\<lambda>engine.
         bindR (check ((model, engine) \<notin> set engines) (MetricsError ''SNAPSHOT_DUPLICATE_ENGINE'')) (\<lambda>_.
         let missing = get g ''notReportedMetricNames''
         in bindR (check (is_list missing \<and> length (the_list missing) \<le> length DEFINITIONS
                          \<and> list_all (\<lambda>n. is_str n \<and> is_family (the_str n)) (the_list missing) \<and> distinct (the_list missing))
                         (MetricsError ''SNAPSHOT_INVALID'')) (\<lambda>_.
            bindR (foldR (kind_valid (model, engine) g) METRIC_KINDS seen) (\<lambda>seen. Inr (engines @ [(model, engine)], seen))))))))"

definition validate_snapshot :: "pyval \<Rightarrow> unit res" where
  "validate_snapshot v =
     bindR (snapshot_head v) (\<lambda>_.
     bindR (foldR group_valid (the_list (get v ''engines'')) ([], [])) (\<lambda>_. Inr ()))"

end
