(* ===== verification/MetricsInterval.thy ===== *)
theory MetricsInterval
  imports MetricsSnapshot
begin

text \<open>
  \<open>scripts/lib/inference_metrics.py\<close>, intervals: \<open>interval\<close> compares two validated snapshots,
  \<open>_delta\<close> two observations of one series. Values are immutable here, so \<open>deepcopy\<close> is the identity.
  The keys of a result are in the order in which the code first assigns them. The order in which
  \<open>interval\<close> lists the series that disappeared is that of a Python set and unspecified; here it is
  the order of the former snapshot.
\<close>

section \<open>One series\<close>

abbreviation not_none :: "pyval \<Rightarrow> bool" where
  "not_none v \<equiv> v \<noteq> PNone"

definition zero_number :: "pyval \<Rightarrow> bool" where
  "zero_number v = py_eq v (PInt 0)"

datatype elapsed = Elapsed pyval | Reason string

definition series_elapsed :: "pyval \<Rightarrow> pyval \<Rightarrow> pyval \<Rightarrow> pyval \<Rightarrow> elapsed" where
  "series_elapsed previous current elapsed maximum =
     (let old = get previous ''sampleAt''; new = get current ''sampleAt''
      in if (old = PNone) \<noteq> (new = PNone) then Reason ''SAMPLE_TIMESTAMP_CHANGED''
         else let duration = (if old = PNone then elapsed else py_sub new old)
              in if \<not> py_less (PInt 0) duration
                 then Reason (if zero_number duration then ''DUPLICATE_TIMESTAMP'' else ''CLOCK_MOVED_BACKWARDS'')
                 else if py_less maximum duration then Reason ''SAMPLE_GAP''
                 else Elapsed duration)"

type_synonym delta_values = "(string \<times> pyval) list"

fun finite_value :: "pyval \<Rightarrow> bool" where
  "finite_value (PInt i) = True"
| "finite_value (PFloat q) = True"
| "finite_value _ = False"

definition counter_delta :: "pyval \<Rightarrow> pyval \<Rightarrow> pyval \<Rightarrow> string + delta_values" where
  "counter_delta previous current duration =
     (let difference = py_sub (get current ''value'') (get previous ''value'')
      in if py_less difference (PInt 0) then Inl ''COUNTER_DECREASED''
         else let rate = py_div difference duration
              in if \<not> finite_value rate then Inl ''RATE_NOT_FINITE''
                 else Inr [(''delta'', difference), (''ratePerSecond'', rate)])"

definition count_differences :: "pyval \<Rightarrow> pyval \<Rightarrow> pyval" where
  "count_differences current previous =
     PList (map (\<lambda>(old, new). py_sub new old) (zip (the_list (get previous ''counts'')) (the_list (get current ''counts''))))"

definition histogram_delta :: "pyval \<Rightarrow> pyval \<Rightarrow> string + delta_values" where
  "histogram_delta previous current =
     (let bounds = get current ''bounds'';
          counts = count_differences current previous;
          count = py_sub (get current ''count'') (get previous ''count'');
          tot = py_sub (get current ''sum'') (get previous ''sum'')
      in if \<not> py_eq bounds (get previous ''bounds'') then Inl ''BUCKET_SCHEMA_CHANGED''
         else (case histogram bounds counts count tot of
                 Inl _ \<Rightarrow> Inl ''HISTOGRAM_DELTA_INVALID''
               | Inr _ \<Rightarrow> Inr [(''counts'', counts), (''count'', count), (''sum'', tot),
                              (''mean'', if zero_number count then PNone else py_div tot count)]))"

text \<open>The verdict on one series: the reason for a baseline, or the duration with the values.\<close>

definition delta_verdict ::
  "pyval \<Rightarrow> pyval \<Rightarrow> string \<Rightarrow> pyval \<Rightarrow> pyval \<Rightarrow> string option \<Rightarrow> string + pyval \<times> delta_values" where
  "delta_verdict previous current kind elapsed maximum reason =
     (case reason of
        Some r \<Rightarrow> Inl r
      | None \<Rightarrow>
          if previous = PNone then Inl ''NEW_SERIES''
          else if \<not> py_eq (get previous ''createdAt'') (get current ''createdAt'') then Inl ''CREATION_EPOCH_CHANGED''
          else (case series_elapsed previous current elapsed maximum of
                  Reason r \<Rightarrow> Inl r
                | Elapsed duration \<Rightarrow>
                    (case (if kind = ''counters'' then counter_delta previous current duration
                           else histogram_delta previous current) of
                       Inl r \<Rightarrow> Inl r
                     | Inr vs \<Rightarrow> Inr (duration, vs))))"

definition value_keys :: "string \<Rightarrow> string list" where
  "value_keys kind = (if kind = ''counters'' then [''delta'', ''ratePerSecond''] else [''counts'', ''count'', ''sum'', ''mean''])"

definition series_delta ::
  "pyval \<Rightarrow> pyval \<Rightarrow> string \<Rightarrow> pyval \<Rightarrow> pyval \<Rightarrow> string option \<Rightarrow> pyval \<Rightarrow> pyval \<Rightarrow> pyval" where
  "series_delta previous current kind elapsed maximum reason window_from window_to =
     (let verdict = delta_verdict previous current kind elapsed maximum reason;
          stamp = \<lambda>v window. if not_none v then v else window;
          result = \<lambda>state why duration vs.
            PDict (map (\<lambda>k. (k, get current k)) [''name'', ''labels'', ''unit'', ''createdAt'']
                   @ [(''state'', PStr state), (''reason'', why), (''elapsedSeconds'', duration),
                      (''fromSampleAt'', stamp (get previous ''sampleAt'') window_from),
                      (''toSampleAt'', stamp (get current ''sampleAt'') window_to)]
                   @ (if kind = ''counters'' then [] else [(''bounds'', get current ''bounds'')]) @ vs)
      in case verdict of
           Inl r \<Rightarrow> result ''BASELINE'' (PStr r) PNone (map (\<lambda>k. (k, PNone)) (value_keys kind))
         | Inr (duration, vs) \<Rightarrow> result ''VALID'' PNone duration vs)"

section \<open>Two snapshots\<close>

definition identity_missing :: "pyval \<Rightarrow> bool" where
  "identity_missing v = list_ex (\<lambda>k. get (get v ''identity'') k = PNone) IDENTITY_KEYS"

definition interval_reason :: "pyval \<Rightarrow> pyval \<Rightarrow> pyval \<Rightarrow> pyval \<Rightarrow> string option" where
  "interval_reason previous current elapsed maximum =
     (if get current ''sourceState'' \<noteq> PStr ''OBSERVED'' then Some (the_str (get current ''sourceState''))
      else if identity_missing current then Some ''IDENTITY_NOT_REPORTED''
      else if previous = PNone then Some ''FIRST_SAMPLE''
      else if get previous ''sourceState'' \<noteq> PStr ''OBSERVED'' then Some ''PREVIOUS_NOT_OBSERVED''
      else if identity_missing previous then Some ''IDENTITY_NOT_REPORTED''
      else if \<not> py_eq (get previous ''identity'') (get current ''identity'') then Some ''IDENTITY_CHANGED''
      else if \<not> py_less (PInt 0) elapsed
      then Some (if zero_number elapsed then ''DUPLICATE_TIMESTAMP'' else ''CLOCK_MOVED_BACKWARDS'')
      else if py_less maximum elapsed then Some ''SAMPLE_GAP''
      else None)"

definition engine_key :: "pyval \<Rightarrow> pyval \<times> pyval" where
  "engine_key g = (get g ''modelName'', get g ''engineId'')"

definition series_of :: "pyval \<Rightarrow> string \<times> (string \<times> string) list" where
  "series_of item = (the_str (get item ''name''), labels_key (get item ''labels''))"

text \<open>\<open>_index\<close>; the group may be missing.\<close>

definition index_series :: "pyval \<Rightarrow> string \<Rightarrow> ((string \<times> (string \<times> string) list) \<times> pyval) list" where
  "index_series g kind = map (\<lambda>item. (series_of item, item)) (the_list (get g kind))"

record interval_context =
  ic_elapsed :: pyval
  ic_maximum :: pyval
  ic_reason :: "string option"
  ic_from :: pyval
  ic_to :: pyval

definition missing_delta :: "interval_context \<Rightarrow> string \<Rightarrow> pyval \<Rightarrow> pyval" where
  "missing_delta c kind item =
     (let d = series_delta PNone item kind (ic_elapsed c) (ic_maximum c) (Some ''SERIES_NOT_REPORTED'') PNone PNone;
          changed = [(''state'', PStr ''NOT_REPORTED''), (''fromSampleAt'', PNone), (''toSampleAt'', PNone)]
                    @ (if kind = ''histograms'' then [(''bounds'', PNone)] else [])
      in PDict (map (\<lambda>(k, v). (k, case map_of changed k of None \<Rightarrow> v | Some w \<Rightarrow> w)) (items d)))"

definition kind_deltas :: "interval_context \<Rightarrow> pyval \<Rightarrow> pyval \<Rightarrow> string \<Rightarrow> pyval list" where
  "kind_deltas c old_group g kind =
     (let old_items = index_series old_group kind; new_items = index_series g kind;
          reason = (case ic_reason c of
                      Some r \<Rightarrow> Some r
                    | None \<Rightarrow> if truthy old_group then None else Some ''NEW_MODEL_OR_ENGINE'')
      in map (\<lambda>(key, item). series_delta (case map_of old_items key of None \<Rightarrow> PNone | Some o' \<Rightarrow> o') item kind
                              (ic_elapsed c) (ic_maximum c) reason (ic_from c) (ic_to c)) new_items
         @ map (\<lambda>(_, item). missing_delta c kind item) (filter (\<lambda>(key, _). map_of new_items key = None) old_items))"

definition group_deltas :: "interval_context \<Rightarrow> ((pyval \<times> pyval) \<times> pyval) list \<Rightarrow> pyval \<Rightarrow> pyval list \<times> pyval list \<times> pyval" where
  "group_deltas c old_groups g =
     (let old_group = (case map_of old_groups (engine_key g) of None \<Rightarrow> PDict [] | Some o' \<Rightarrow> o');
          counters = kind_deltas c old_group g ''counters''; histograms = kind_deltas c old_group g ''histograms''
      in (counters, histograms,
          PDict (map (\<lambda>k. (k, get g k)) [''modelName'', ''engineId'', ''gauges'', ''notReportedMetricNames'']
                 @ [(''counters'', PList counters), (''histograms'', PList histograms)])))"

definition missing_engines :: "((pyval \<times> pyval) \<times> pyval) list \<Rightarrow> pyval list \<Rightarrow> pyval list" where
  "missing_engines old_groups engines =
     map (\<lambda>(m, e). PDict [(''modelName'', PStr m), (''engineId'', PStr e)])
       (sort (map (\<lambda>((m, e), _). (the_str m, the_str e)) (filter (\<lambda>(key, _). key \<notin> engine_key ` set engines) old_groups)))"

definition interval_state :: "pyval \<Rightarrow> string option \<Rightarrow> pyval list \<Rightarrow> pyval list \<Rightarrow> string \<times> pyval" where
  "interval_state current reason states missing =
     (let why = (case reason of None \<Rightarrow> PNone | Some r \<Rightarrow> PStr r)
      in if get current ''sourceState'' \<noteq> PStr ''OBSERVED'' then (''UNAVAILABLE'', why)
         else if reason \<noteq> None then (''BASELINE'', why)
         else if states = [] \<or> missing \<noteq> [] \<or> \<not> list_all (\<lambda>s. s = PStr ''VALID'') states
         then (if PStr ''VALID'' \<in> set states then ''PARTIAL'' else ''BASELINE'',
               if missing \<noteq> [] then PStr ''ENGINE_NOT_REPORTED''
               else if states \<noteq> [] then PStr ''SERIES_BASELINE'' else PStr ''NO_INTERVAL_SERIES'')
         else (''VALID'', PNone))"

definition interval :: "pyval \<Rightarrow> pyval \<Rightarrow> pyval \<Rightarrow> pyval res" where
  "interval previous current max_gap_seconds =
     bindR (validate_snapshot current) (\<lambda>_.
     bindR (check (is_number max_gap_seconds) (MetricsError ''GAP_LIMIT_INVALID'')) (\<lambda>_.
     bindR (any_number max_gap_seconds) (\<lambda>maximum.
     bindR (check (\<not> zero_number maximum) (MetricsError ''GAP_LIMIT_INVALID'')) (\<lambda>_.
     bindR (if previous = PNone then Inr () else validate_snapshot previous) (\<lambda>_.
     let elapsed = (if previous = PNone then PNone else py_sub (get current ''observedAt'') (get previous ''observedAt''));
         reason = interval_reason previous current elapsed maximum;
         c = \<lparr>ic_elapsed = elapsed, ic_maximum = maximum, ic_reason = reason, ic_from = get previous ''observedAt'',
              ic_to = get current ''observedAt''\<rparr>;
         engines = the_list (get current ''engines'');
         old_groups = map (\<lambda>g. (engine_key g, g)) (the_list (get previous ''engines''));
         groups = map (group_deltas c old_groups) engines;
         states = map (\<lambda>d. get d ''state'') (concat (map (\<lambda>(counters, histograms, _). counters @ histograms) groups));
         missing = missing_engines old_groups engines;
         (state, why) = interval_state current reason states missing
     in Inr (PDict [(''version'', PInt 1), (''identity'', get current ''identity''), (''fromObservedAt'', get previous ''observedAt''),
                    (''toObservedAt'', get current ''observedAt''),
                    (''elapsedSeconds'', if py_less (PInt 0) elapsed then elapsed else PNone),
                    (''state'', PStr state), (''reason'', why), (''engines'', PList (map (snd \<circ> snd) groups)),
                    (''missingEngineKeys'', PList missing)]))))))"

section \<open>What a valid interval rests on\<close>

lemma series_delta_state:
  "get (series_delta previous item kind elapsed maximum reason from to') ''state'' =
     (case delta_verdict previous item kind elapsed maximum reason of Inl _ \<Rightarrow> PStr ''BASELINE'' | Inr _ \<Rightarrow> PStr ''VALID'')"
  by (simp add: series_delta_def Let_def split: sum.split prod.split)

lemma missing_delta_state: "get (missing_delta c kind item) ''state'' = PStr ''NOT_REPORTED''"
proof -
  have "\<exists>d v. series_delta PNone item kind (ic_elapsed c) (ic_maximum c) (Some ''SERIES_NOT_REPORTED'') PNone PNone = PDict d
      \<and> map_of d ''state'' = Some v"
    by (simp add: series_delta_def Let_def delta_verdict_def)
  then obtain d v where d: "series_delta PNone item kind (ic_elapsed c) (ic_maximum c) (Some ''SERIES_NOT_REPORTED'') PNone PNone = PDict d"
      "map_of d ''state'' = Some v" by blast
  have m: "map_of (map (\<lambda>(k, v). (k, f k v)) d) ''state'' = Some (f ''state'' v)" for f
    using d(2) by (induction d) (auto split: if_splits)
  show ?thesis
    by (simp only: missing_delta_def Let_def d(1) items.simps get_or_dict m option.case) (simp split: if_splits)
qed

text \<open>What backs a valid delta of one series.\<close>

definition backed :: "string \<Rightarrow> pyval \<Rightarrow> pyval \<Rightarrow> bool" where
  "backed kind old new =
     (py_eq (get old ''createdAt'') (get new ''createdAt'')
      \<and> ((get old ''sampleAt'' = PNone) = (get new ''sampleAt'' = PNone))
      \<and> (if kind = ''counters'' then \<not> py_less (py_sub (get new ''value'') (get old ''value'')) (PInt 0)
         else py_eq (get new ''bounds'') (get old ''bounds'')
              \<and> histogram (get new ''bounds'') (count_differences new old) (py_sub (get new ''count'') (get old ''count''))
                  (py_sub (get new ''sum'') (get old ''sum'')) = Inr ()))"

lemma verdict_backed:
  assumes "delta_verdict previous item kind elapsed maximum reason = Inr r"
  shows "reason = None \<and> previous \<noteq> PNone \<and> backed kind previous item"
proof -
  have r: "reason = None" "previous \<noteq> PNone" "py_eq (get previous ''createdAt'') (get item ''createdAt'')"
    using assms by (auto simp: delta_verdict_def split: option.splits if_splits)
  then obtain duration vs where d: "series_elapsed previous item elapsed maximum = Elapsed duration"
    and vs: "(if kind = ''counters'' then counter_delta previous item duration else histogram_delta previous item) = Inr vs"
    using assms by (auto simp: delta_verdict_def split: elapsed.splits sum.splits)
  have "(get previous ''sampleAt'' = PNone) = (get item ''sampleAt'' = PNone)"
    using d by (auto simp: series_elapsed_def Let_def split: if_splits)
  moreover have "kind = ''counters'' \<Longrightarrow> \<not> py_less (py_sub (get item ''value'') (get previous ''value'')) (PInt 0)"
    using vs by (auto simp: counter_delta_def Let_def split: if_splits)
  moreover have "kind \<noteq> ''counters'' \<Longrightarrow> py_eq (get item ''bounds'') (get previous ''bounds'')
      \<and> histogram (get item ''bounds'') (count_differences item previous) (py_sub (get item ''count'') (get previous ''count''))
          (py_sub (get item ''sum'') (get previous ''sum'')) = Inr ()"
    using vs by (auto simp: histogram_delta_def Let_def split: if_splits sum.splits)
  ultimately show ?thesis using r by (simp add: backed_def)
qed

lemma kind_deltas_backed:
  assumes "\<forall>d\<in>set (kind_deltas c old_group g kind). get d ''state'' = PStr ''VALID''" "item \<in> set (the_list (get g kind))"
  shows "\<exists>old\<in>set (the_list (get old_group kind)). series_of old = series_of item \<and> backed kind old item"
proof -
  let ?old = "index_series old_group kind" and ?new = "index_series g kind"
  define reason where "reason = (case ic_reason c of Some r \<Rightarrow> Some r
                    | None \<Rightarrow> if truthy old_group then None else Some ''NEW_MODEL_OR_ENGINE'')"
  define previous where "previous = (case map_of ?old (series_of item) of None \<Rightarrow> PNone | Some o' \<Rightarrow> o')"
  have "(series_of item, item) \<in> set ?new" using assms(2) by (simp add: index_series_def)
  then have "series_delta previous item kind (ic_elapsed c) (ic_maximum c) reason (ic_from c) (ic_to c)
      \<in> set (kind_deltas c old_group g kind)"
    by (force simp: kind_deltas_def Let_def previous_def reason_def)
  with assms(1) have "get (series_delta previous item kind (ic_elapsed c) (ic_maximum c) reason (ic_from c) (ic_to c)) ''state'' = PStr ''VALID''"
    by blast
  then obtain r where "delta_verdict previous item kind (ic_elapsed c) (ic_maximum c) reason = Inr r"
    unfolding series_delta_state by (auto split: sum.splits)
  then have v: "previous \<noteq> PNone" "backed kind previous item" using verdict_backed by blast+
  then have "map_of ?old (series_of item) = Some previous" by (auto simp: previous_def split: option.splits)
  then have "(series_of item, previous) \<in> set ?old" by (rule map_of_SomeD)
  then show ?thesis using v(2) by (auto simp: index_series_def)
qed

lemma kind_deltas_complete:
  assumes "\<forall>d\<in>set (kind_deltas c old_group g kind). get d ''state'' = PStr ''VALID''" "old \<in> set (the_list (get old_group kind))"
  shows "\<exists>item\<in>set (the_list (get g kind)). series_of item = series_of old"
proof (rule ccontr)
  assume "\<not> ?thesis"
  then have none: "map_of (index_series g kind) (series_of old) = None"
    by (auto simp: index_series_def map_of_eq_None_iff)
  have "(series_of old, old) \<in> set (index_series old_group kind)" using assms(2) by (simp add: index_series_def)
  then have "missing_delta c kind old \<in> set (kind_deltas c old_group g kind)"
    using none by (force simp: kind_deltas_def Let_def)
  with assms(1) have "get (missing_delta c kind old) ''state'' = PStr ''VALID''" by blast
  then show False by (simp add: missing_delta_state)
qed

lemma interval_state_valid:
  assumes "fst (interval_state current reason states missing) = ''VALID''"
  shows "get current ''sourceState'' = PStr ''OBSERVED''" "reason = None" "states \<noteq> []" "missing = []"
    "\<forall>s\<in>set states. s = PStr ''VALID''"
  using assms by (auto simp: interval_state_def Let_def list_all_iff split: if_splits)

lemma interval_reason_None:
  assumes "interval_reason previous current elapsed maximum = None"
  shows "\<not> identity_missing current" "previous \<noteq> PNone" "get previous ''sourceState'' = PStr ''OBSERVED''"
    "\<not> identity_missing previous" "py_eq (get previous ''identity'') (get current ''identity'')" "py_less (PInt 0) elapsed"
    "\<not> py_less maximum elapsed"
  using assms by (auto simp: interval_reason_def split: if_splits)

lemma sort_Nil_iff: "sort xs = [] \<longleftrightarrow> xs = []"
  by (metis set_empty set_sort)

lemma missing_engines_Nil:
  "missing_engines (map (\<lambda>g. (engine_key g, g)) gs) engines = [] \<Longrightarrow> g \<in> set gs \<Longrightarrow> engine_key g \<in> engine_key ` set engines"
  by (auto simp: missing_engines_def filter_empty_conv sort_Nil_iff)

text \<open>The former group of an engine, and the states of all the deltas of an interval.\<close>

definition former :: "((pyval \<times> pyval) \<times> pyval) list \<Rightarrow> pyval \<Rightarrow> pyval" where
  "former olds g = (case map_of olds (engine_key g) of None \<Rightarrow> PDict [] | Some o' \<Rightarrow> o')"

definition delta_states :: "interval_context \<Rightarrow> ((pyval \<times> pyval) \<times> pyval) list \<Rightarrow> pyval list \<Rightarrow> pyval list" where
  "delta_states c olds engines = map (\<lambda>d. get d ''state'')
     (concat (map (\<lambda>(counters, histograms, _). counters @ histograms) (map (group_deltas c olds) engines)))"

lemma group_deltas_split:
  "\<exists>r. group_deltas c olds g = (kind_deltas c (former olds g) g ''counters'', kind_deltas c (former olds g) g ''histograms'', r)"
  by (simp add: group_deltas_def Let_def former_def)

lemma delta_states_valid:
  assumes "\<forall>s\<in>set (delta_states c olds engines). s = PStr ''VALID''" "g \<in> set engines" "kind \<in> {''counters'', ''histograms''}"
  shows "\<forall>d\<in>set (kind_deltas c (former olds g) g kind). get d ''state'' = PStr ''VALID''"
proof
  fix d
  assume d: "d \<in> set (kind_deltas c (former olds g) g kind)"
  let ?cs = "kind_deltas c (former olds g) g ''counters''" and ?hs = "kind_deltas c (former olds g) g ''histograms''"
  obtain r where "group_deltas c olds g = (?cs, ?hs, r)" using group_deltas_split by blast
  moreover have "group_deltas c olds g \<in> set (map (group_deltas c olds) engines)" using assms(2) by simp
  ultimately have m: "(?cs, ?hs, r) \<in> set (map (group_deltas c olds) engines)" by simp
  have "d \<in> set (case (?cs, ?hs, r) of (counters, histograms, _) \<Rightarrow> counters @ histograms)" using d assms(3) by auto
  then have "get d ''state'' \<in> set (delta_states c olds engines)"
    unfolding delta_states_def set_map set_concat by (intro imageI UN_I [OF imageI [OF m [unfolded set_map]]])
  then show "get d ''state'' = PStr ''VALID''" using assms(1) by blast
qed

lemma former_backed:
  assumes "\<forall>d\<in>set (kind_deltas c (former olds g) g kind). get d ''state'' = PStr ''VALID''" "item \<in> set (the_list (get g kind))"
    and olds: "olds = map (\<lambda>g. (engine_key g, g)) gs"
  shows "\<exists>g'\<in>set gs. engine_key g' = engine_key g
     \<and> (\<exists>old\<in>set (the_list (get g' kind)). series_of old = series_of item \<and> backed kind old item)
     \<and> (\<forall>old\<in>set (the_list (get g' kind)). \<exists>new\<in>set (the_list (get g kind)). series_of new = series_of old)"
proof -
  have b: "\<exists>old\<in>set (the_list (get (former olds g) kind)). series_of old = series_of item \<and> backed kind old item"
    by (rule kind_deltas_backed [OF assms(1,2)])
  then have "former olds g \<noteq> PDict []" by auto
  then have "map_of olds (engine_key g) = Some (former olds g)" by (auto simp: former_def split: option.splits)
  then have "(engine_key g, former olds g) \<in> set olds" by (rule map_of_SomeD)
  then have "former olds g \<in> set gs" "engine_key (former olds g) = engine_key g" by (auto simp: olds)
  with b kind_deltas_complete [OF assms(1)] show ?thesis by blast
qed

lemma series_compared:
  assumes "delta_states c olds engines \<noteq> []" "\<forall>s\<in>set (delta_states c olds engines). s = PStr ''VALID''"
  shows "\<exists>g\<in>set engines. the_list (get g ''counters'') \<noteq> [] \<or> the_list (get g ''histograms'') \<noteq> []"
proof (rule ccontr)
  assume "\<not> ?thesis"
  then have empty: "the_list (get g kind) = []" if "g \<in> set engines" "kind \<in> {''counters'', ''histograms''}" for g kind
    using that by auto
  have "kind_deltas c (former olds g) g kind = []" if k: "g \<in> set engines" "kind \<in> {''counters'', ''histograms''}" for g kind
  proof (rule ccontr)
    assume "kind_deltas c (former olds g) g kind \<noteq> []"
    then have "the_list (get (former olds g) kind) \<noteq> []"
      using empty [OF k] by (auto simp: kind_deltas_def Let_def index_series_def filter_empty_conv)
    then obtain old where "old \<in> set (the_list (get (former olds g) kind))" by (meson ex_in_conv set_empty)
    then show False using kind_deltas_complete [OF delta_states_valid [OF assms(2) k]] empty [OF k] by fastforce
  qed
  then have "\<forall>x\<in>set (map (group_deltas c olds) engines). (\<lambda>(counters, histograms, _). counters @ histograms) x = []"
    by (simp add: group_deltas_def Let_def former_def)
  then have "delta_states c olds engines = []" by (simp add: delta_states_def)
  with assms(1) show False by blast
qed

lemma interval_Inr:
  assumes "interval previous current gap = Inr result"
  obtains elapsed maximum c where
    "validate_snapshot current = Inr ()" "any_number gap = Inr maximum"
    "(if previous = PNone then Inr () else validate_snapshot previous) = Inr ()"
    "get result ''elapsedSeconds'' = (if py_less (PInt 0) elapsed then elapsed else PNone)"
    "get result ''state'' = PStr (fst (interval_state current (interval_reason previous current elapsed maximum)
       (delta_states c (map (\<lambda>g. (engine_key g, g)) (the_list (get previous ''engines''))) (the_list (get current ''engines'')))
       (missing_engines (map (\<lambda>g. (engine_key g, g)) (the_list (get previous ''engines''))) (the_list (get current ''engines'')))))"
proof -
  define elapsed where "elapsed = (if previous = PNone then PNone else py_sub (get current ''observedAt'') (get previous ''observedAt''))"
  obtain maximum where cv: "validate_snapshot current = Inr ()" and mx: "any_number gap = Inr maximum"
    and pv: "(if previous = PNone then Inr () else validate_snapshot previous) = Inr ()"
    using assms unfolding interval_def by (simp only: bindR_eq_Inr) auto
  show thesis
    by (rule that [of maximum elapsed "\<lparr>ic_elapsed = elapsed, ic_maximum = maximum,
          ic_reason = interval_reason previous current elapsed maximum,
          ic_from = get previous ''observedAt'', ic_to = get current ''observedAt''\<rparr>"])
      (use assms mx cv pv in \<open>auto simp: interval_def elapsed_def [symmetric] delta_states_def Let_def split: prod.splits if_splits\<close>)
qed

text \<open>Two snapshots of one engine, a counter apart.\<close>

lemma small_int_number:
  assumes "0 \<le> i" "i < 2 ^ 53" "of_int i \<le> m"
  shows "number_up_to m (PInt i) = Inr (PInt i)" "m = 10 ^ 300 \<Longrightarrow> count_number (PInt i) = Inr i"
proof -
  have "nat i < 10 ^ Suc 15" using assms(1,2) by (simp add: nat_less_iff)
  then have "length (str_of_int i) \<le> 128" using str_of_nat_length [of "nat i" 15] assms(1) by (simp add: str_of_int_def)
  moreover have "(of_int i :: rat) \<le> of_int (2 ^ 53 - 1)" using assms(2) by (simp only: of_int_le_iff)
  then have s: "(of_int i :: rat) \<le> MAX_SAFE_COUNT" by (simp add: MAX_SAFE_COUNT_def)
  ultimately have r: "number_in_range (PInt i) m = Inr (of_int i)"
    using assms(1,3) by (simp add: number_in_range_def number_text_def)
  have "fl (of_int i) = of_int i" using assms(1,2) by (intro fl_of_int) simp
  then show "number_up_to m (PInt i) = Inr (PInt i)" by (auto simp: number_up_to_def r is_integral_def)
  show "m = 10 ^ 300 \<Longrightarrow> count_number (PInt i) = Inr i" using r s by (simp add: count_number_def is_integral_def)
qed

definition sample_snapshot :: "int \<Rightarrow> int \<Rightarrow> pyval" where
  "sample_snapshot seconds tokens =
     snapshot_of (PInt seconds) ''OBSERVED''
       (PDict [(''sourceId'', PStr ''s''), (''bootId'', PStr ''b''), (''processId'', PStr ''p''), (''configId'', PStr ''c'')])
       [PDict [(''modelName'', PStr ''m''), (''engineId'', PStr ''0''), (''gauges'', PList []),
               (''counters'', PList [PDict [(''name'', PStr ''vllm:prompt_tokens_total''), (''labels'', PDict []), (''value'', PInt tokens),
                  (''unit'', PStr ''tokens''), (''sampleAt'', PNone), (''typeDeclared'', PBool False), (''createdAt'', PNone)]]),
               (''histograms'', PList []), (''notReportedMetricNames'', PList [])]]
       [] (map fst DEFINITIONS)"

lemma sample_engines:
  "get (sample_snapshot t n) ''engines'' =
     PList [PDict [(''modelName'', PStr ''m''), (''engineId'', PStr ''0''), (''gauges'', PList []),
               (''counters'', PList [PDict [(''name'', PStr ''vllm:prompt_tokens_total''), (''labels'', PDict []), (''value'', PInt n),
                  (''unit'', PStr ''tokens''), (''sampleAt'', PNone), (''typeDeclared'', PBool False), (''createdAt'', PNone)]]),
               (''histograms'', PList []), (''notReportedMetricNames'', PList [])]]"
  by (simp add: sample_snapshot_def snapshot_of_def)

lemma sample_family: "map_of DEFINITIONS ''vllm:prompt_tokens_total'' = Some (''counters'', ''tokens'', [])"
  by (simp add: DEFINITIONS_def vllm_def)

lemma sample_head: "0 \<le> t \<Longrightarrow> t < 1000 \<Longrightarrow> snapshot_head (sample_snapshot t n) = Inr ()"
proof -
  assume t: "0 \<le> t" "t < 1000"
  have "metrics_identity (PDict [(''sourceId'', PStr ''s''), (''bootId'', PStr ''b''), (''processId'', PStr ''p''), (''configId'', PStr ''c'')])
      = Inr (PDict [(''sourceId'', PStr ''s''), (''bootId'', PStr ''b''), (''processId'', PStr ''p''), (''configId'', PStr ''c'')])"
    by code_simp
  moreover have "number_up_to (10 ^ 12) (PInt t) = Inr (PInt t)"
  proof (rule small_int_number(1))
    have "t \<le> 10 ^ 12" using t by simp
    then have "(of_int t :: rat) \<le> of_int (10 ^ 12)" by (simp only: of_int_le_iff)
    then show "(of_int t :: rat) \<le> 10 ^ 12" by simp
  qed (use t in simp_all)
  ultimately show ?thesis
    by (simp add: snapshot_head_def sample_snapshot_def snapshot_of_def has_keys_def SNAPSHOT_KEYS_def SOURCE_STATES_def
        names_ok_def not_reported_def MAX_ENGINE_GROUPS_def)
qed

lemma sample_valid: "0 \<le> t \<Longrightarrow> t < 1000 \<Longrightarrow> 0 \<le> n \<Longrightarrow> n < 1000 \<Longrightarrow> validate_snapshot (sample_snapshot t n) = Inr ()"
proof -
  assume t: "0 \<le> t" "t < 1000" and n: "0 \<le> n" "n < 1000"
  have "n \<le> 10 ^ 3" using n by simp
  also have "(10 ^ 3 :: int) \<le> 10 ^ 300" by (rule power_increasing) simp_all
  finally have "(of_int n :: rat) \<le> of_int (10 ^ 300)" by (simp only: of_int_le_iff)
  then have "(of_int n :: rat) \<le> 10 ^ 300" by (simp only: of_int_power of_int_numeral)
  then have c: "count_number (PInt n) = Inr n" using n by (intro small_int_number(2) [of n "10 ^ 300"]) simp_all
  have texts: "text_value (PStr ''m'') = Inr (PStr ''m'')" "text_value (PStr ''0'') = Inr (PStr ''0'')" by code_simp+
  show ?thesis
    unfolding validate_snapshot_def sample_head [OF t] bindR_simps sample_engines the_list.simps
    by (simp add: group_valid_def has_keys_def METRIC_KINDS_def texts kind_valid_def item_valid_def item_keys_def is_family_def
        sample_family MAX_SERIES_def is_string_def stamp_valid_def values_valid_def scalar_number_def c)
qed

lemma sample_interval:
  "\<exists>result. interval (sample_snapshot 100 10) (sample_snapshot 110 25) (PInt 60) = Inr result \<and> get result ''state'' = PStr ''VALID''"
proof -
  have g: "any_number (PInt 60) = Inr (PInt 60)" by (rule small_int_number(1)) simp_all
  have v: "validate_snapshot (sample_snapshot 100 10) = Inr ()" "validate_snapshot (sample_snapshot 110 25) = Inr ()"
    by (rule sample_valid; simp)+
  have nn: "sample_snapshot 100 10 \<noteq> PNone" by (simp add: sample_snapshot_def snapshot_of_def)
  show ?thesis
    unfolding interval_def v g bindR_simps
    using nn
    by (simp add: sample_snapshot_def snapshot_of_def zero_number_def py_sub_def py_less_def interval_reason_def identity_missing_def
        IDENTITY_KEYS_def engine_key_def group_deltas_def kind_deltas_def Let_def index_series_def series_of_def labels_key_def
        series_delta_def delta_verdict_def series_elapsed_def counter_delta_def py_div_def round_float_def
        missing_engines_def interval_state_def value_keys_def)
qed

text \<open>C23: A valid interval rests on evidence. If the result of an interval is VALID, both snapshots are
  valid observations of one and the same fully reported identity, a positive time within the gap
  limit apart, and at least one series is compared. Every engine of the former snapshot is in the
  current one, and in every engine every current counter and histogram has a former observation of
  the same series and creation epoch, which it does not fall below (a counter) or from which it
  differs by a consistent histogram over the same buckets; no series of that engine has disappeared.\<close>

theorem valid_interval_is_backed:
  assumes "interval previous current gap = Inr result" "get result ''state'' = PStr ''VALID''"
  shows "validate_snapshot previous = Inr () \<and> validate_snapshot current = Inr ()
     \<and> get previous ''sourceState'' = PStr ''OBSERVED'' \<and> get current ''sourceState'' = PStr ''OBSERVED''
     \<and> \<not> identity_missing current \<and> py_eq (get previous ''identity'') (get current ''identity'')
     \<and> py_less (PInt 0) (get result ''elapsedSeconds'')
     \<and> (\<exists>maximum. any_number gap = Inr maximum \<and> \<not> py_less maximum (get result ''elapsedSeconds''))
     \<and> (\<exists>g\<in>set (the_list (get current ''engines'')). the_list (get g ''counters'') \<noteq> [] \<or> the_list (get g ''histograms'') \<noteq> [])
     \<and> (\<forall>g'\<in>set (the_list (get previous ''engines'')). \<exists>g\<in>set (the_list (get current ''engines'')). engine_key g = engine_key g')
     \<and> (\<forall>g\<in>set (the_list (get current ''engines'')). \<forall>kind\<in>{''counters'', ''histograms''}. \<forall>item\<in>set (the_list (get g kind)).
          \<exists>g'\<in>set (the_list (get previous ''engines'')). engine_key g' = engine_key g
            \<and> (\<exists>old\<in>set (the_list (get g' kind)). series_of old = series_of item \<and> backed kind old item)
            \<and> (\<forall>old\<in>set (the_list (get g' kind)). \<exists>new\<in>set (the_list (get g kind)). series_of new = series_of old))"
proof -
  let ?engines = "the_list (get current ''engines'')" and ?gs = "the_list (get previous ''engines'')"
  define olds where "olds = map (\<lambda>g. (engine_key g, g)) ?gs"
  obtain elapsed maximum c where valid_both: "validate_snapshot current = Inr ()" "any_number gap = Inr maximum"
      "(if previous = PNone then Inr () else validate_snapshot previous) = Inr ()"
      "get result ''elapsedSeconds'' = (if py_less (PInt 0) elapsed then elapsed else PNone)"
    and state: "get result ''state'' = PStr (fst (interval_state current (interval_reason previous current elapsed maximum)
       (delta_states c olds ?engines) (missing_engines olds ?engines)))"
    using interval_Inr [OF assms(1)] unfolding olds_def by blast
  have "fst (interval_state current (interval_reason previous current elapsed maximum)
       (delta_states c olds ?engines) (missing_engines olds ?engines)) = ''VALID''"
    using assms(2) state by simp
  note valid = interval_state_valid [OF this]
  note reason = interval_reason_None [OF valid(2)]
  have "\<exists>g\<in>set ?engines. engine_key g = engine_key g'" if "g' \<in> set ?gs" for g'
    using missing_engines_Nil [OF valid(4) [unfolded olds_def] that] by force
  moreover have "\<forall>g\<in>set ?engines. \<forall>kind\<in>{''counters'', ''histograms''}. \<forall>item\<in>set (the_list (get g kind)).
          \<exists>g'\<in>set ?gs. engine_key g' = engine_key g
            \<and> (\<exists>old\<in>set (the_list (get g' kind)). series_of old = series_of item \<and> backed kind old item)
            \<and> (\<forall>old\<in>set (the_list (get g' kind)). \<exists>new\<in>set (the_list (get g kind)). series_of new = series_of old)"
    by (intro ballI former_backed [OF delta_states_valid [OF valid(5)] _ olds_def])
  ultimately show ?thesis
    using valid_both valid(1) reason series_compared [OF valid(3,5)] by simp
qed

theorem valid_interval_is_backed_witness:
  "\<exists>result. interval (sample_snapshot 100 10) (sample_snapshot 110 25) (PInt 60) = Inr result
     \<and> py_less (PInt 0) (get result ''elapsedSeconds'')"
  using sample_interval valid_interval_is_backed [of "sample_snapshot 100 10" "sample_snapshot 110 25" "PInt 60"] by blast

end
