(* ===== verification/PyDate.thy ===== *)
theory PyDate
  imports PyTime
begin

text \<open>
  The way back from a day count to a date, and the form \<open>isoformat(timespec='milliseconds')\<close> with a
  \<open>Z\<close> for the zone. Both directions agree: a time written in this form is read back as itself.
\<close>

section \<open>The date of a day\<close>

text \<open>The year that contains the day with the 0-based number \<open>k\<close> of the calendar.\<close>

definition year_of :: "int \<Rightarrow> int" where
  "year_of k = (let y = k * 400 div 146097 + 1 in if days_before_year (y + 1) \<le> k then y + 1 else y)"

fun month_day :: "int list \<Rightarrow> int \<Rightarrow> int \<times> int" where
  "month_day [] d = (1, d + 1)"
| "month_day (l # ls) d = (if d < l then (1, d + 1) else (let (m, r) = month_day ls (d - l) in (m + 1, r)))"

definition date_of_day :: "int \<Rightarrow> int \<times> int \<times> int" where
  "date_of_day n =
     (let k = n + 719162; y = year_of k; (m, d) = month_day (month_lengths y) (k - days_before_year y) in (y, m, d))"

text \<open>The average length of a year is 365.2425 days.\<close>

lemma average_year:
  assumes "(x :: int) = 4 * a + m" "x = 100 * b + n" "x = 400 * c + r"
  shows "400 * (x * 365 + a - b + c) = 146097 * x - 100 * m + 4 * n - r"
  using assms by algebra

lemma days_near_average:
  "146097 * (y - 1) - 699 \<le> 400 * days_before_year y" "400 * days_before_year y \<le> 146097 * (y - 1) + 396"
proof -
  define x where "x = y - 1"
  have f: "x = 4 * (x div 4) + x mod 4" "x = 100 * (x div 100) + x mod 100" "x = 400 * (x div 400) + x mod 400" by simp_all
  have b: "0 \<le> x mod 4" "x mod 4 < 4" "0 \<le> x mod 100" "x mod 100 < 100" "0 \<le> x mod 400" "x mod 400 < 400" by simp_all
  have d: "400 * days_before_year y = 146097 * x - 100 * (x mod 4) + 4 * (x mod 100) - x mod 400"
    unfolding days_before_year_def x_def [symmetric] by (rule average_year [OF f])
  show "146097 * (y - 1) - 699 \<le> 400 * days_before_year y" using d b unfolding x_def [symmetric] by linarith
  show "400 * days_before_year y \<le> 146097 * (y - 1) + 396" using d b unfolding x_def [symmetric] by linarith
qed

lemma year_of_bounds: "days_before_year (year_of k) \<le> k \<and> k < days_before_year (year_of k + 1)"
proof -
  define q where "q = k * 400 div 146097"
  have q: "146097 * q \<le> k * 400" "k * 400 < 146097 * q + 146097"
    unfolding q_def using pos_mod_bound [of 146097 "k * 400"] pos_mod_sign [of 146097 "k * 400"]
      div_mult_mod_eq [of "k * 400" 146097] by linarith+
  have low: "days_before_year (q + 1) \<le> k" using days_near_average(2) [of "q + 1"] q by simp
  have high: "k < days_before_year (q + 1 + 1 + 1)" using days_near_average(1) [of "q + 1 + 1 + 1"] q by simp
  show ?thesis
    using low high by (simp add: year_of_def q_def [symmetric] Let_def)
qed

lemma month_day_sound:
  assumes "month_day ls d = (m, r)" "0 \<le> d" "d < sum_list ls"
  shows "1 \<le> m \<and> nat (m - 1) < length ls \<and> 1 \<le> r \<and> r \<le> ls ! nat (m - 1) \<and> sum_list (take (nat (m - 1)) ls) + r = d + 1"
  using assms
proof (induction ls d arbitrary: m r rule: month_day.induct)
  case (2 l ls d)
  show ?case
  proof (cases "d < l")
    case False
    then obtain m' r' where m: "month_day ls (d - l) = (m', r')" "m = m' + 1" "r = r'"
      using "2.prems"(1) by (auto split: prod.splits)
    have "1 \<le> m' \<and> nat (m' - 1) < length ls \<and> 1 \<le> r' \<and> r' \<le> ls ! nat (m' - 1)
        \<and> sum_list (take (nat (m' - 1)) ls) + r' = d - l + 1"
      by (rule "2.IH" [OF False m(1)]) (use "2.prems" False in auto)
    moreover from this have "nat (m - 1) = Suc (nat (m' - 1))" using m(2) by linarith
    ultimately show ?thesis using m(3) by simp
  qed (use "2.prems" in auto)
qed simp

lemma year_days: "sum_list (month_lengths y) = days_before_year (y + 1) - days_before_year y"
  unfolding days_of_year by (simp add: month_lengths_def)

lemma date_of_day_sound:
  assumes "date_of_day n = (y, m, d)"
  shows "epoch_day y m d = n" "1 \<le> m" "m \<le> 12" "1 \<le> d" "d \<le> month_lengths y ! nat (m - 1)" "d \<le> 31"
proof -
  let ?k = "n + 719162"
  have y: "y = year_of ?k" and md: "month_day (month_lengths y) (?k - days_before_year y) = (m, d)"
    using assms by (auto simp: date_of_day_def Let_def split: prod.splits)
  have "0 \<le> ?k - days_before_year y" "?k - days_before_year y < sum_list (month_lengths y)"
    using year_of_bounds [of ?k] unfolding y [symmetric] year_days by linarith+
  note s = month_day_sound [OF md this]
  have l: "length (month_lengths y) = 12" by (simp add: month_lengths_def)
  show "epoch_day y m d = n" using s by (simp add: epoch_day_def)
  show "1 \<le> m" "1 \<le> d" "d \<le> month_lengths y ! nat (m - 1)" using s by simp_all
  show "m \<le> 12" using s l by linarith
  have "\<forall>x\<in>set (month_lengths y). x \<le> 31" by (simp add: month_lengths_def)
  then have "month_lengths y ! nat (m - 1) \<le> 31" using s nth_mem by blast
  then show "d \<le> 31" using s by linarith
qed

lemma date_of_day_year:
  assumes "date_of_day n = (y, m, d)" "0 \<le> n" "n < 2932897"
  shows "1 \<le> y" "y \<le> 9999" "valid_date y m d"
proof -
  have y: "y = year_of (n + 719162)" using assms(1) by (auto simp: date_of_day_def Let_def split: prod.splits)
  have b: "days_before_year y \<le> n + 719162" "n + 719162 < days_before_year (y + 1)"
    using year_of_bounds [of "n + 719162"] y by auto
  show "1 \<le> y" using b(2) assms(2) days_near_average(2) [of "y + 1"] by simp
  show "y \<le> 9999"
  proof (rule ccontr)
    assume "\<not> y \<le> 9999"
    then have "146097 * 9999 - 699 \<le> 400 * days_before_year y" using days_near_average(1) [of y] by simp
    moreover have "400 * days_before_year y \<le> 400 * 3652058" using b(1) assms(3) by linarith
    ultimately show False by linarith
  qed
  with \<open>1 \<le> y\<close> date_of_day_sound [OF assms(1)] show "valid_date y m d" by (simp add: valid_date_def)
qed

section \<open>Times with milliseconds\<close>

text \<open>A number with leading zeros, as the format \<open>0kd\<close> writes it.\<close>

definition pad :: "nat \<Rightarrow> int \<Rightarrow> string" where
  "pad k n = (let s = str_of_nat (nat n) in replicate (k - length s) CHR ''0'' @ s)"

definition millis_text :: "int \<Rightarrow> string" where
  "millis_text ms =
     (let (y, m, d) = date_of_day (ms div 86400000); r = ms mod 86400000
      in pad 4 y @ ''-'' @ pad 2 m @ ''-'' @ pad 2 d @ ''T'' @ pad 2 (r div 3600000) @ '':'' @ pad 2 (r div 60000 mod 60)
         @ '':'' @ pad 2 (r div 1000 mod 60) @ ''.'' @ pad 3 (r mod 1000) @ ''Z'')"

definition millis_of :: "string \<Rightarrow> int" where
  "millis_of s =
     epoch_day (stamp_field s 0 4) (stamp_field s 5 2) (stamp_field s 8 2) * 86400000 + stamp_field s 11 2 * 3600000
     + stamp_field s 14 2 * 60000 + stamp_field s 17 2 * 1000 + stamp_field s 20 3"

lemma pad_length: "0 < k \<Longrightarrow> 0 \<le> n \<Longrightarrow> n < 10 ^ k \<Longrightarrow> length (pad k n) = k"
  using str_of_nat_length [of "nat n" "k - 1"] by (simp add: pad_def Let_def nat_less_iff)

lemma decimal_zeros: "decimal (replicate j CHR ''0'' @ s) = decimal s"
  by (induction j) (simp_all add: decimal_def digit_val_def)

lemma decimal_pad: "0 \<le> n \<Longrightarrow> decimal (pad k n) = n"
  by (simp add: pad_def decimal_zeros decimal_str_of_nat Let_def)

lemma day_parts:
  fixes r :: int
  assumes "0 \<le> r" "r < 86400000"
  shows "r div 3600000 * 3600000 + r div 60000 mod 60 * 60000 + r div 1000 mod 60 * 1000 + r mod 1000 = r"
    "r div 3600000 < 24"
proof -
  have "r = r div 1000 * 1000 + r mod 1000" by simp
  moreover have "r div 1000 = r div 1000 div 60 * 60 + r div 1000 mod 60" by simp
  moreover have "r div 1000 div 60 = r div 60000" by (simp add: zdiv_zmult2_eq [symmetric])
  moreover have "r div 60000 = r div 60000 div 60 * 60 + r div 60000 mod 60" by simp
  moreover have "r div 60000 div 60 = r div 3600000" by (simp add: zdiv_zmult2_eq [symmetric])
  ultimately show "r div 3600000 * 3600000 + r div 60000 mod 60 * 60000 + r div 1000 mod 60 * 1000 + r mod 1000 = r"
    by linarith
  show "r div 3600000 < 24" using assms zdiv_mono1 [of r 86399999 3600000] by simp
qed

lemma millis_of_text:
  assumes "0 \<le> ms" "ms < 253402300800000"
  shows "millis_of (millis_text ms) = ms"
proof -
  obtain y m d where date: "date_of_day (ms div 86400000) = (y, m, d)" by (cases "date_of_day (ms div 86400000)")
  let ?r = "ms mod 86400000"
  have day: "0 \<le> ms div 86400000" "ms div 86400000 < 2932897" using assms zdiv_mono1 [of ms 253402300799999 86400000] by (simp_all add: pos_imp_zdiv_nonneg_iff)
  note v = date_of_day_sound [OF date] date_of_day_year [OF date day]
  have l: "length (pad 4 y) = 4" "length (pad 2 m) = 2" "length (pad 2 d) = 2" "length (pad 2 (?r div 3600000)) = 2"
      "length (pad 2 (?r div 60000 mod 60)) = 2" "length (pad 2 (?r div 1000 mod 60)) = 2" "length (pad 3 (?r mod 1000)) = 3"
    using v day_parts(2) [of ?r] by (auto intro!: pad_length simp: pos_mod_bound order_less_trans [OF pos_mod_bound])
  have p: "decimal (pad 4 y) = y" "decimal (pad 2 m) = m" "decimal (pad 2 d) = d" "decimal (pad 2 (?r div 3600000)) = ?r div 3600000"
      "decimal (pad 2 (?r div 60000 mod 60)) = ?r div 60000 mod 60" "decimal (pad 2 (?r div 1000 mod 60)) = ?r div 1000 mod 60"
      "decimal (pad 3 (?r mod 1000)) = ?r mod 1000"
    using v by (auto intro!: decimal_pad simp: pos_imp_zdiv_nonneg_iff)
  have "millis_of (millis_text ms) =
      epoch_day y m d * 86400000 + ?r div 3600000 * 3600000 + ?r div 60000 mod 60 * 60000 + ?r div 1000 mod 60 * 1000 + ?r mod 1000"
    unfolding millis_text_def Let_def date prod.case millis_of_def stamp_field_def by (simp add: l p)
  also have "\<dots> = ms div 86400000 * 86400000 + ?r" unfolding v(1) using day_parts(1) [of ?r] by (simp add: add.assoc)
  finally show ?thesis by simp
qed

end
