(* ===== verification/ObservationSample.thy ===== *)
theory ObservationSample
  imports MetricsInterval PyDate
begin

text \<open>
  \<open>scripts/lib/inference_observation.py\<close>: the typed observation sample, its times, identifiers and
  host measurements, how a sample is made from a metrics payload, and the copy for the reporter. The
  JSON writer and reader and SHA-256 are parameters, collected in a \<open>codec\<close>: \<open>cd_dumps\<close> is
  \<open>json.dumps\<close> with sorted keys (\<open>None\<close> when it raises), \<open>cd_loads\<close> the strict \<open>json.loads\<close> of
  the store (\<open>None\<close> for a repeated key, a constant such as \<open>NaN\<close>, or no JSON).
\<close>

record codec =
  cd_dumps :: "pyval \<Rightarrow> string option"
  cd_loads :: "string \<Rightarrow> pyval option"
  cd_sha :: "string \<Rightarrow> string"

abbreviation ObservationError :: "string \<Rightarrow> exn" where
  "ObservationError r \<equiv> AppError ''ObservationError'' r"

section \<open>Constants\<close>

definition MAX_SAMPLE_BYTES :: nat where "MAX_SAMPLE_BYTES = 512 * 1024"
definition MAX_SEQUENCE :: int where "MAX_SEQUENCE = 2 ^ 53 - 1"

definition HOST_STATES :: "string list" where
  "HOST_STATES = [''OBSERVED'', ''NOT_REPORTED'', ''UNSUPPORTED'', ''SOURCE_FAILED'']"

definition HOST_UNITS :: "(string \<times> string) list" where
  "HOST_UNITS =
     [(''cpu_load1'', ''load''), (''memory_total_bytes'', ''bytes''), (''memory_available_bytes'', ''bytes''),
      (''swap_used_bytes'', ''bytes''), (''gpu_utilization_percent'', ''percent''), (''gpu_temperature_celsius'', ''celsius''),
      (''gpu_memory_total_bytes'', ''bytes''), (''gpu_power_watts'', ''watts''), (''gpu_power_limit_watts'', ''watts'')]"

definition CORE_FIELDS :: "string list" where
  "CORE_FIELDS = [''version'', ''sourceId'', ''epoch'', ''sequence'', ''observedAt'', ''host'', ''inference'']"

section \<open>Identifiers and times\<close>

definition canonical_bytes :: "codec \<Rightarrow> pyval \<Rightarrow> string res" where
  "canonical_bytes c v = (case cd_dumps c v of None \<Rightarrow> Inl (ObservationError ''DOCUMENT_INVALID'') | Some s \<Rightarrow> Inr s)"

text \<open>\<open>str(UUID(s)) == s\<close>: the form \<open>UUID\<close> prints.\<close>

definition is_uuid :: "string \<Rightarrow> bool" where
  "is_uuid s =
     (map length (split_on CHR ''-'' s) = [8, 4, 4, 4, 12] \<and> list_all (list_all is_hex) (split_on CHR ''-'' s))"

definition canonical_uuid :: "pyval \<Rightarrow> string res" where
  "canonical_uuid v =
     (case v of PStr s \<Rightarrow> if is_uuid s then Inr s else Inl (ObservationError ''IDENTITY_INVALID'')
      | _ \<Rightarrow> Inl (ObservationError ''IDENTITY_INVALID''))"

text \<open>The first millisecond after the last day of \<open>datetime\<close>.\<close>

definition MAX_INSTANT :: int where "MAX_INSTANT = 253402300800000"

definition instant :: "pyval \<Rightarrow> string res" where
  "instant v =
     (if is_int v \<and> 0 \<le> the_int v \<and> the_int v < MAX_INSTANT then Inr (millis_text (the_int v))
      else Inl (ObservationError ''OBSERVATION_TIME_INVALID''))"

text \<open>
  The code parses with \<open>fromisoformat\<close> and then compares \<open>instant\<close> of the result with the text, so
  only the fixed form passes, and its fields are where \<open>millis_of\<close> reads them.
\<close>

definition instant_millis :: "pyval \<Rightarrow> int res" where
  "instant_millis v =
     (case v of
        PStr s \<Rightarrow> if instant (PInt (millis_of s)) = Inr s then Inr (millis_of s)
                  else Inl (ObservationError ''OBSERVATION_TIME_INVALID'')
      | _ \<Rightarrow> Inl (ObservationError ''OBSERVATION_TIME_INVALID''))"

section \<open>Host measurements\<close>

definition host_item :: "string \<Rightarrow> pyval \<Rightarrow> pyval res" where
  "host_item name item =
     (let bad = ObservationError ''HOST_MEASUREMENT_INVALID''
      in bindR (check (has_keys item [''state'', ''value''] \<and> in_tuple (get item ''state'') HOST_STATES) bad) (\<lambda>_.
         let number = get item ''value''
         in bindR (check (if is_string (get item ''state'') ''OBSERVED''
                          then is_number number \<and> num_ge number 0 \<and> num_le number (of_int MAX_SEQUENCE)
                               \<and> (name = ''gpu_utilization_percent'' \<longrightarrow> num_le number 100)
                          else number = PNone) bad) (\<lambda>_.
            Inr (PDict [(''state'', get item ''state''), (''value'', number)]))))"

definition missing_item :: pyval where
  "missing_item = PDict [(''state'', PStr ''NOT_REPORTED''), (''value'', PNone)]"

definition normalize_host :: "pyval \<Rightarrow> pyval res" where
  "normalize_host v =
     bindR (check (has_keys v [''state'', ''metrics''] \<and> in_tuple (get v ''state'') HOST_STATES \<and> is_dict (get v ''metrics'')
                   \<and> list_all (\<lambda>(k, _). k \<in> fst ` set HOST_UNITS) (items (get v ''metrics'')))
                  (ObservationError ''HOST_INVALID'')) (\<lambda>_.
     bindR (mapR (\<lambda>(name, _). bindR (host_item name (get_or (get v ''metrics'') name missing_item)) (\<lambda>m. Inr (name, m)))
                 HOST_UNITS) (\<lambda>metrics.
     Inr (PDict [(''state'', get v ''state''), (''metrics'', PDict metrics)])))"

section \<open>Samples\<close>

text \<open>The exceptions \<open>except (MetricsError, TypeError, ValueError, KeyError)\<close> handles.\<close>

definition metrics_fault :: "exn \<Rightarrow> bool" where
  "metrics_fault e =
     (case e of AppError c _ \<Rightarrow> c = ''MetricsError'' | TypeError \<Rightarrow> True | ValueError \<Rightarrow> True | KeyError \<Rightarrow> True | _ \<Rightarrow> False)"

definition inference_checked :: "'a res \<Rightarrow> 'a res" where
  "inference_checked r =
     (case r of Inl e \<Rightarrow> Inl (if metrics_fault e then ObservationError ''INFERENCE_INVALID'' else e) | Inr x \<Rightarrow> Inr x)"

definition has_nul_label :: "pyval \<Rightarrow> bool" where
  "has_nul_label inference =
     list_ex (\<lambda>engine. list_ex (\<lambda>family. list_ex (\<lambda>item. list_ex (\<lambda>(_, label). CHR 0x00 \<in> set (the_str label))
          (items (get item ''labels''))) (the_list (get engine family))) [''gauges'', ''counters'', ''histograms''])
       (the_list (get inference ''engines''))"

definition sample_head :: "pyval \<Rightarrow> bool \<Rightarrow> int res" where
  "sample_head v reporter =
     bindR (check (has_keys v (CORE_FIELDS @ (if reporter then [''reporterReceivedAt''] else [])) \<and> get v ''version'' = PInt 1)
                  (ObservationError ''SAMPLE_INVALID'')) (\<lambda>_.
     bindR (canonical_uuid (get v ''sourceId'')) (\<lambda>_.
     bindR (canonical_uuid (get v ''epoch'')) (\<lambda>_.
     bindR (check (is_int (get v ''sequence'') \<and> 0 \<le> the_int (get v ''sequence'') \<and> the_int (get v ''sequence'') \<le> MAX_SEQUENCE)
                  (ObservationError ''SEQUENCE_INVALID'')) (\<lambda>_.
     bindR (instant_millis (get v ''observedAt'')) (\<lambda>milliseconds.
     bindR (normalize_host (get v ''host'')) (\<lambda>_. Inr milliseconds))))))"

definition validate_sample :: "codec \<Rightarrow> pyval \<Rightarrow> bool \<Rightarrow> unit res" where
  "validate_sample c v reporter =
     bindR (sample_head v reporter) (\<lambda>milliseconds.
     let inference = get v ''inference''
     in bindR (inference_checked (interval PNone inference (PInt 180))) (\<lambda>_.
        bindR (check (\<not> has_nul_label inference) (ObservationError ''INFERENCE_LABEL_UNSUPPORTED'')) (\<lambda>_.
        bindR (check (py_eq (get (get inference ''identity'') ''sourceId'') (get v ''sourceId'')
                      \<and> py_eq (get inference ''observedAt'') (PFloat (fl (of_int milliseconds / 1000))))
                     (ObservationError ''SAMPLE_IDENTITY_OR_TIME_MISMATCH'')) (\<lambda>_.
        bindR (if reporter then bindR (instant_millis (get v ''reporterReceivedAt'')) (\<lambda>_. Inr ()) else Inr ()) (\<lambda>_.
        bindR (canonical_bytes c v) (\<lambda>s.
        check (length s \<le> MAX_SAMPLE_BYTES) (ObservationError ''SAMPLE_TOO_LARGE'')))))))"

text \<open>The length of the JSON form of a snapshot, which does not depend on the order of the keys.\<close>

definition json_length :: "codec \<Rightarrow> pyval \<Rightarrow> nat" where
  "json_length c v = (case cd_dumps c v of None \<Rightarrow> 0 | Some s \<Rightarrow> length s)"

definition make_sample ::
  "codec \<Rightarrow> payload \<Rightarrow> pyval \<Rightarrow> pyval \<Rightarrow> pyval \<Rightarrow> int \<Rightarrow> pyval \<Rightarrow> pyval \<Rightarrow> string \<Rightarrow> pyval res" where
  "make_sample c payload source_id epoch seq now host ident source_state =
     bindR (canonical_uuid source_id) (\<lambda>_.
     bindR (canonical_uuid epoch) (\<lambda>_.
     bindR (check (is_dict ident \<and> list_all (\<lambda>(k, _). k \<in> {''bootId'', ''processId'', ''configId''}) (items ident))
                  (ObservationError ''IDENTITY_INVALID'')) (\<lambda>_.
     bindR (instant (PInt now)) (\<lambda>observed.
     bindR (inference_checked (parse_snapshot (json_length c) payload (PFloat (fl (of_int now / 1000)))
              (PDict ((''sourceId'', source_id) # items ident)) (PStr source_state))) (\<lambda>snapshot.
     bindR (normalize_host host) (\<lambda>host.
     let v = PDict [(''version'', PInt 1), (''sourceId'', source_id), (''epoch'', epoch), (''sequence'', seq),
                    (''observedAt'', PStr observed), (''host'', host), (''inference'', snapshot)]
     in bindR (validate_sample c v False) (\<lambda>_. Inr v)))))))"

definition for_reporter :: "codec \<Rightarrow> pyval \<Rightarrow> pyval \<Rightarrow> pyval res" where
  "for_reporter c sample received_at =
     bindR (validate_sample c sample False) (\<lambda>_.
     bindR (instant received_at) (\<lambda>received.
     let v = PDict (items sample @ [(''reporterReceivedAt'', PStr received)])
     in bindR (validate_sample c v True) (\<lambda>_. Inr v)))"

section \<open>Times survive the round trip\<close>

text \<open>The text of a time is read back as the same time, and only the texts that \<open>instant\<close> writes are read:
  the reading direction accepts exactly the image of the writing direction, for every time that
  \<open>datetime\<close> can represent.\<close>

theorem instant_round_trip:
  "instant v = Inr s \<longleftrightarrow> (\<exists>n. v = PInt n \<and> instant_millis (PStr s) = Inr n)"
proof
  assume "instant v = Inr s"
  then obtain n where n: "v = PInt n" "0 \<le> n" "n < MAX_INSTANT" "s = millis_text n"
    by (cases v) (auto simp: instant_def split: if_splits)
  then have "millis_of s = n" by (simp add: millis_of_text MAX_INSTANT_def)
  with n show "\<exists>n. v = PInt n \<and> instant_millis (PStr s) = Inr n"
    by (auto simp: instant_millis_def instant_def)
qed (auto simp: instant_millis_def split: if_splits)

end
