(* ===== verification/ObservationSpool.thy ===== *)
theory ObservationSpool
  imports ObservationSample Effects
begin

text \<open>
  \<open>scripts/lib/observation_spool.py\<close>: the store of immutable records and of three control files in one
  private directory. A directory is the list of its entries; each names an inode with its bytes, and
  two names of one inode are what \<open>st_nlink\<close> counts. Every change of the directory is one operation
  of the log, in the order of the code, so that a prefix of the log is a crash. An operation fails
  when the directory does not allow it, or when \<open>en_fault\<close> says so. Opening and locking the
  directory, and a file that changes while it is read, are not modelled.
\<close>

abbreviation StoreError :: "string \<Rightarrow> exn" where
  "StoreError r \<equiv> AppError ''StoreError'' r"

section \<open>Documents and names\<close>

definition CONTROLS :: "string list" where
  "CONTROLS = [''state.json'', ''status.json'', ''latest.json'']"

definition encoded :: "codec \<Rightarrow> pyval \<Rightarrow> string res" where
  "encoded c v =
     (if is_dict v then (case cd_dumps c v of None \<Rightarrow> Inl (StoreError ''DOCUMENT_INVALID'') | Some s \<Rightarrow> Inr s)
      else Inl (StoreError ''DOCUMENT_INVALID''))"

definition decoded :: "codec \<Rightarrow> string \<Rightarrow> pyval res" where
  "decoded c payload =
     (case cd_loads c payload of
        None \<Rightarrow> Inl (StoreError ''DOCUMENT_INVALID'')
      | Some v \<Rightarrow> bindR (encoded c v) (\<lambda>_. Inr v))"

definition record_text :: "string \<Rightarrow> int \<Rightarrow> string" where
  "record_text epoch seq = ''sample-'' @ filter (\<lambda>x. x \<noteq> CHR ''-'') epoch @ ''-'' @ pad 16 seq @ ''.json''"

definition record_name :: "pyval \<Rightarrow> pyval \<Rightarrow> string res" where
  "record_name epoch seq =
     (if is_str epoch \<and> is_uuid (the_str epoch) \<and> is_int seq \<and> 0 \<le> the_int seq \<and> the_int seq \<le> MAX_SEQUENCE
      then Inr (record_text (the_str epoch) (the_int seq)) else Inl (StoreError ''RECORD_KEY_INVALID''))"

text \<open>\<open>RECORD.fullmatch\<close> with \<open>str(UUID(match[1]))\<close> and \<open>int(match[2])\<close>.\<close>

definition dashed :: "string \<Rightarrow> string" where
  "dashed h = take 8 h @ ''-'' @ take 4 (drop 8 h) @ ''-'' @ take 4 (drop 12 h) @ ''-'' @ take 4 (drop 16 h) @ ''-'' @ drop 20 h"

definition record_match :: "string \<Rightarrow> (string \<times> int) option" where
  "record_match s =
     (let h = take 32 (drop 7 s); q = take 16 (drop 40 s)
      in if length s = 61 \<and> take 7 s = ''sample-'' \<and> take 1 (drop 39 s) = ''-'' \<and> drop 56 s = ''.json''
            \<and> list_all is_hex h \<and> list_all is_digit q
         then Some (dashed h, decimal q) else None)"

section \<open>The directory\<close>

datatype disk_op = Create string | Fill string string | Link string string | Rename string string | Unlink string | Sync

record stored =
  fi_inode :: nat
  fi_owned :: bool
  fi_bytes :: string

type_synonym disk = "(string \<times> stored) list"

definition fresh_inode :: "disk \<Rightarrow> nat" where
  "fresh_inode d = Suc (fold max (map (\<lambda>(_, f). fi_inode f) d) 0)"

fun apply_op :: "disk_op \<Rightarrow> disk \<Rightarrow> disk" where
  "apply_op (Create t) d = AList.update t \<lparr>fi_inode = fresh_inode d, fi_owned = True, fi_bytes = []\<rparr> d"
| "apply_op (Fill t s) d = (case map_of d t of None \<Rightarrow> d | Some f \<Rightarrow> AList.update t (f\<lparr>fi_bytes := s\<rparr>) d)"
| "apply_op (Link t n) d = (case map_of d t of None \<Rightarrow> d | Some f \<Rightarrow> AList.update n f d)"
| "apply_op (Rename t n) d = (case map_of d t of None \<Rightarrow> d | Some f \<Rightarrow> AList.update n f (AList.delete t d))"
| "apply_op (Unlink n) d = AList.delete n d"
| "apply_op Sync d = d"

fun op_error :: "disk \<Rightarrow> disk_op \<Rightarrow> exn option" where
  "op_error d (Create t) = (if map_of d t = None then None else Some OSError)"
| "op_error d (Link t n) = (if map_of d n = None then None else Some OSError)"
| "op_error d (Unlink n) = (if map_of d n = None then Some FileNotFoundError else None)"
| "op_error d op = None"

text \<open>A log also holds what the reporter submits, with the answer.\<close>

datatype event = Did disk_op | Sent string "pyval res"

fun apply_event :: "event \<Rightarrow> disk \<Rightarrow> disk" where
  "apply_event (Did op) d = apply_op op d"
| "apply_event (Sent p r) d = d"

definition replay :: "disk \<Rightarrow> event list \<Rightarrow> disk" where
  "replay d es = foldl (\<lambda>d e. apply_event e d) d es"

record spool_env =
  en_codec :: codec
  en_disk :: disk
  en_fault :: "event list \<Rightarrow> disk_op \<Rightarrow> exn option"
  en_uuid :: "event list \<Rightarrow> string"

type_synonym 'a sio = "(event list, 'a) io"

abbreviation disk_at :: "spool_env \<Rightarrow> event list \<Rightarrow> disk" where
  "disk_at env l \<equiv> replay (en_disk env) l"

definition emit :: "spool_env \<Rightarrow> disk_op \<Rightarrow> unit sio" where
  "emit env op l =
     (case op_error (disk_at env l) op of
        Some e \<Rightarrow> (l, Inl e)
      | None \<Rightarrow> (case en_fault env l op of Some e \<Rightarrow> (l, Inl e) | None \<Rightarrow> (l @ [Did op], Inr ())))"

definition looking :: "spool_env \<Rightarrow> (disk \<Rightarrow> 'a res) \<Rightarrow> 'a sio" where
  "looking env f l = (l, f (disk_at env l))"

section \<open>Files\<close>

definition links :: "disk \<Rightarrow> stored \<Rightarrow> nat" where
  "links d f = length (filter (\<lambda>(_, g). fi_inode g = fi_inode f) d)"

definition private_file :: "disk \<Rightarrow> stored \<Rightarrow> unit res" where
  "private_file d f = check (fi_owned f \<and> links d f = 1) (StoreError ''FILE_NOT_PRIVATE'')"

definition read_bytes :: "disk \<Rightarrow> string \<Rightarrow> nat \<Rightarrow> string option res" where
  "read_bytes d name limit =
     (case map_of d name of
        None \<Rightarrow> Inr None
      | Some f \<Rightarrow>
          bindR (private_file d f) (\<lambda>_.
          bindR (check (length (fi_bytes f) \<le> limit) (StoreError ''FILE_TOO_LARGE'')) (\<lambda>_.
          Inr (Some (fi_bytes f)))))"

record spool =
  sp_samples :: nat
  sp_bytes :: nat
  sp_sample_bytes :: nat
  sp_read_only :: bool

definition int_between :: "int \<Rightarrow> pyval \<Rightarrow> int \<Rightarrow> bool" where
  "int_between lo v hi = (is_int v \<and> lo \<le> the_int v \<and> the_int v \<le> hi)"

definition open_store :: "pyval \<Rightarrow> pyval \<Rightarrow> pyval \<Rightarrow> bool \<Rightarrow> spool res" where
  "open_store max_samples max_bytes max_sample_bytes read_only =
     bindR (check (int_between 1 max_samples 200000 \<and> int_between 1 max_bytes (16 * 1024 ^ 3)
                   \<and> int_between 1 max_sample_bytes (1024 ^ 2)) (StoreError ''STORE_LIMIT_INVALID'')) (\<lambda>_.
     Inr \<lparr>sp_samples = nat (the_int max_samples), sp_bytes = nat (the_int max_bytes),
          sp_sample_bytes = nat (the_int max_sample_bytes), sp_read_only = read_only\<rparr>)"

definition write_body :: "spool_env \<Rightarrow> string \<Rightarrow> string \<Rightarrow> string \<Rightarrow> bool \<Rightarrow> unit sio" where
  "write_body env t name payload replace =
     bindIO (emit env (Fill t payload)) (\<lambda>_.
     bindIO (if replace then emit env (Rename t name)
             else bindIO (emit env (Link t name)) (\<lambda>_. emit env (Unlink t))) (\<lambda>_.
     emit env Sync))"

definition remove_temporary :: "spool_env \<Rightarrow> string \<Rightarrow> unit sio" where
  "remove_temporary env t = catchIO (\<lambda>e. e = FileNotFoundError) (emit env (Unlink t)) (\<lambda>_. liftR (Inr ()))"

definition write_file :: "spool_env \<Rightarrow> spool \<Rightarrow> string \<Rightarrow> string \<Rightarrow> bool \<Rightarrow> unit sio" where
  "write_file env sp name payload replace l =
     (let t = ''.tmp-'' @ en_uuid env l
      in bindIO (liftR (check (\<not> sp_read_only sp) (StoreError ''STORE_READ_ONLY''))) (\<lambda>_.
         bindIO (emit env (Create t)) (\<lambda>_.
         finallyIO (write_body env t name payload replace) (remove_temporary env t))) l)"

section \<open>Records\<close>

record row =
  rw_name :: string
  rw_epoch :: string
  rw_seq :: int
  rw_size :: nat

definition entry_row :: "spool \<Rightarrow> disk \<Rightarrow> string \<times> stored \<Rightarrow> row list \<Rightarrow> row list res" where
  "entry_row sp d entry rows =
     (let (name, f) = entry
      in if name = ''.store.lock'' then Inr rows
         else if name \<in> set CONTROLS then bindR (private_file d f) (\<lambda>_. Inr rows)
         else (case record_match name of
                 None \<Rightarrow> Inl (StoreError ''STORE_ENTRY_INVALID'')
               | Some (epoch, seq) \<Rightarrow>
                   bindR (private_file d f) (\<lambda>_.
                   bindR (check (length (fi_bytes f) \<le> sp_sample_bytes sp) (StoreError ''FILE_TOO_LARGE'')) (\<lambda>_.
                   bindR (check (seq \<le> MAX_SEQUENCE) (StoreError ''STORE_ENTRY_INVALID'')) (\<lambda>_.
                   let rows = rows @ [\<lparr>rw_name = name, rw_epoch = epoch, rw_seq = seq, rw_size = length (fi_bytes f)\<rparr>]
                   in bindR (check (length rows \<le> sp_samples sp) (StoreError ''STORE_FULL'')) (\<lambda>_. Inr rows))))))"

abbreviation row_bytes :: "row list \<Rightarrow> nat" where
  "row_bytes rows \<equiv> sum_list (map rw_size rows)"

definition entries :: "spool \<Rightarrow> disk \<Rightarrow> row list res" where
  "entries sp d =
     bindR (foldR (entry_row sp d) d []) (\<lambda>rows.
     bindR (check (row_bytes rows \<le> sp_bytes sp) (StoreError ''STORE_FULL'')) (\<lambda>_.
     Inr (sort_key (\<lambda>r. (rw_epoch r, rw_seq r)) rows)))"

definition spool_put :: "spool_env \<Rightarrow> spool \<Rightarrow> pyval \<Rightarrow> pyval \<Rightarrow> pyval \<Rightarrow> bool sio" where
  "spool_put env sp epoch seq document =
     bindIO (liftR (record_name epoch seq)) (\<lambda>name.
     bindIO (liftR (encoded (en_codec env) document)) (\<lambda>payload.
     bindIO (liftR (check (length payload \<le> sp_sample_bytes sp) (StoreError ''SAMPLE_TOO_LARGE''))) (\<lambda>_.
     bindIO (looking env (\<lambda>d. read_bytes d name (sp_sample_bytes sp))) (\<lambda>existing.
     case existing of
       Some old \<Rightarrow> liftR (if old = payload then Inr False else Inl (StoreError ''CONTENT_CONFLICT''))
     | None \<Rightarrow>
         bindIO (looking env (entries sp)) (\<lambda>rows.
         bindIO (liftR (check (length rows < sp_samples sp \<and> row_bytes rows + length payload \<le> sp_bytes sp)
                              (StoreError ''STORE_FULL''))) (\<lambda>_.
         bindIO (write_file env sp name payload False) (\<lambda>_. liftR (Inr True))))))))"

record spool_record =
  rc_name :: string
  rc_epoch :: string
  rc_seq :: int
  rc_document :: pyval
  rc_payload :: string
  rc_sha :: string

definition record_of :: "codec \<Rightarrow> string \<Rightarrow> string \<Rightarrow> int \<Rightarrow> string \<Rightarrow> spool_record res" where
  "record_of c name epoch seq payload =
     bindR (decoded c payload) (\<lambda>document.
     Inr \<lparr>rc_name = name, rc_epoch = epoch, rc_seq = seq, rc_document = document, rc_payload = payload,
          rc_sha = cd_sha c payload\<rparr>)"

definition read_row :: "codec \<Rightarrow> spool \<Rightarrow> row \<Rightarrow> disk \<Rightarrow> spool_record res" where
  "read_row c sp r d =
     bindR (read_bytes d (rw_name r) (sp_sample_bytes sp)) (\<lambda>payload.
     case payload of
       None \<Rightarrow> Inl (StoreError ''CONTENT_CHANGED'')
     | Some payload \<Rightarrow> record_of c (rw_name r) (rw_epoch r) (rw_seq r) payload)"

definition pending_records ::
  "spool_env \<Rightarrow> spool \<Rightarrow> int \<Rightarrow> (string \<times> int) list \<Rightarrow> spool_record list sio" where
  "pending_records env sp limit excluded =
     bindIO (liftR (check (1 \<le> limit \<and> limit \<le> 256 \<and> length (remdups excluded) \<le> 64) (StoreError ''BATCH_LIMIT_INVALID''))) (\<lambda>_.
     bindIO (liftR (mapR (\<lambda>(epoch, seq). record_name (PStr epoch) (PInt seq)) excluded)) (\<lambda>_.
     bindIO (looking env (entries sp)) (\<lambda>rows.
     mapIO (\<lambda>r. looking env (read_row (en_codec env) sp r))
       (take (nat limit) (filter (\<lambda>r. (rw_epoch r, rw_seq r) \<notin> set excluded) rows)))))"

definition spool_stats :: "spool_env \<Rightarrow> spool \<Rightarrow> (nat \<times> nat) sio" where
  "spool_stats env sp = looking env (\<lambda>d. bindR (entries sp d) (\<lambda>rows. Inr (length rows, row_bytes rows)))"

definition spool_get :: "spool_env \<Rightarrow> spool \<Rightarrow> pyval \<Rightarrow> pyval \<Rightarrow> spool_record option sio" where
  "spool_get env sp epoch seq =
     bindIO (liftR (record_name epoch seq)) (\<lambda>name.
     looking env (\<lambda>d. bindR (read_bytes d name (sp_sample_bytes sp)) (\<lambda>payload.
       case payload of
         None \<Rightarrow> Inr None
       | Some p \<Rightarrow> bindR (record_of (en_codec env) name (the_str epoch) (the_int seq) p) (\<lambda>r. Inr (Some r)))))"

definition spool_ack :: "spool_env \<Rightarrow> spool \<Rightarrow> spool_record \<Rightarrow> bool sio" where
  "spool_ack env sp r =
     bindIO (liftR (check (\<not> sp_read_only sp) (StoreError ''STORE_READ_ONLY''))) (\<lambda>_.
     bindIO (liftR (record_name (PStr (rc_epoch r)) (PInt (rc_seq r)))) (\<lambda>name.
     bindIO (liftR (check (rc_name r = name) (StoreError ''RECORD_KEY_INVALID''))) (\<lambda>_.
     bindIO (looking env (\<lambda>d. read_bytes d (rc_name r) (sp_sample_bytes sp))) (\<lambda>payload.
     case payload of
       None \<Rightarrow> liftR (Inr False)
     | Some p \<Rightarrow>
         bindIO (liftR (check (cd_sha (en_codec env) p = rc_sha r) (StoreError ''CONTENT_CHANGED''))) (\<lambda>_.
         bindIO (emit env (Unlink (rc_name r))) (\<lambda>_.
         bindIO (emit env Sync) (\<lambda>_. liftR (Inr True))))))))"

definition control_limit :: "spool \<Rightarrow> string \<Rightarrow> nat" where
  "control_limit sp name = (if name = ''latest.json'' then sp_sample_bytes sp else 65536)"

definition load_control :: "spool_env \<Rightarrow> spool \<Rightarrow> string \<Rightarrow> pyval option sio" where
  "load_control env sp name =
     bindIO (liftR (check (name \<in> set CONTROLS) (StoreError ''CONTROL_NAME_INVALID''))) (\<lambda>_.
     looking env (\<lambda>d. bindR (read_bytes d name (control_limit sp name)) (\<lambda>payload.
       case payload of
         None \<Rightarrow> Inr None
       | Some p \<Rightarrow> bindR (decoded (en_codec env) p) (\<lambda>v. Inr (Some v)))))"

definition save_control :: "spool_env \<Rightarrow> spool \<Rightarrow> string \<Rightarrow> pyval \<Rightarrow> unit sio" where
  "save_control env sp name v =
     bindIO (liftR (check (name \<in> set CONTROLS) (StoreError ''CONTROL_NAME_INVALID''))) (\<lambda>_.
     bindIO (liftR (encoded (en_codec env) v)) (\<lambda>payload.
     bindIO (liftR (check (length payload \<le> control_limit sp name) (StoreError ''CONTROL_TOO_LARGE''))) (\<lambda>_.
     bindIO (looking env (\<lambda>d. read_bytes d name (control_limit sp name))) (\<lambda>_.
     write_file env sp name payload True))))"

end
