(* ===== verification/ObservationRuntime.thy ===== *)
theory ObservationRuntime
  imports ObservationSpool
begin

text \<open>
  The producer of \<open>scripts/lib/observation_runtime.py\<close> and what it uses of
  \<open>scripts/lib/observation_io.py\<close>: configuration, host reading, one sampling run with its writes, and
  the reader behind the forced SSH command. The contents of \<open>/proc\<close>, the output of the two commands,
  \<open>urlsplit\<close> and the HTTP exchange are parameters.
\<close>

abbreviation IoError :: "string \<Rightarrow> exn" where
  "IoError r \<equiv> AppError ''IoError'' r"

definition PROTOCOL :: string where "PROTOCOL = ''read-inference-observation-v1''"

section \<open>Endpoints, credentials and the SSH command\<close>

text \<open>What \<open>urlsplit\<close> gives; \<open>up_loopback\<close> is \<open>None\<close> when the host is not an address.\<close>

record url_parts =
  up_scheme :: string
  up_host :: "string option"
  up_loopback :: "bool option"
  up_user :: bool
  up_port :: "int option res"
  up_path :: string
  up_query :: string
  up_fragment :: string

definition endpoint_ok :: "bool \<Rightarrow> url_parts \<Rightarrow> bool res" where
  "endpoint_ok metrics u =
     andR (Inr (\<not> up_user u \<and> up_query u = [] \<and> up_fragment u = [] \<and> up_host u \<notin> {None, Some []}))
       (bindR (up_port u) (\<lambda>p.
        let port = (case p of None \<Rightarrow> 0 | Some n \<Rightarrow> n); port = (if port = 0 then (if metrics then 80 else 443) else port)
        in Inr (1 \<le> port \<and> port \<le> 65535
                \<and> (if metrics then up_scheme u = ''http'' \<and> up_loopback u = Some True \<and> up_path u = ''/metrics''
                   else up_scheme u = ''https'' \<and> up_path u = ''/internal/inference-observations''))))"

definition endpoint :: "(string \<Rightarrow> url_parts res) \<Rightarrow> bool \<Rightarrow> pyval \<Rightarrow> url_parts res" where
  "endpoint urlsplit metrics v =
     (let bad = IoError ''ENDPOINT_INVALID''
      in bindR (check (is_str v \<and> char_count (the_str v) \<le> 2048 \<and> list_all (\<lambda>c. 32 \<le> code c) (the_str v)) bad) (\<lambda>_.
         case bindR (urlsplit (the_str v)) (\<lambda>u. bindR (endpoint_ok metrics u) (\<lambda>ok. bindR (check ok ValueError) (\<lambda>_. Inr u))) of
           Inr u \<Rightarrow> Inr u
         | Inl e \<Rightarrow> Inl (if e \<in> {ValueError, TypeError} then bad else e)))"

text \<open>\<open>private_bytes(path, 4096)\<close> gives bytes; \<open>strip\<close> comes after the decoding as ASCII.\<close>

definition is_ascii :: "string \<Rightarrow> bool" where
  "is_ascii s = list_all (\<lambda>c. code c < 128) s"

definition token_text :: "string \<Rightarrow> bool" where
  "token_text s = class_match (\<lambda>c. is_alnum c \<or> one_of ''._~+/=-'' c) 1 4096 s"

definition credential :: "string res \<Rightarrow> string res" where
  "credential bytes =
     bindR bytes (\<lambda>s.
     bindR (check (is_ascii s \<and> token_text (strip s)) (IoError ''CREDENTIAL_INVALID'')) (\<lambda>_. Inr (strip s)))"

section \<open>Configuration\<close>

definition COMMON :: "string list" where "COMMON = [''version'', ''source_id'', ''expected_hostname'']"

definition SAMPLER :: "string list" where
  "SAMPLER = COMMON @ [''metrics_url'', ''metrics_credential_file'', ''service'', ''configuration_id'', ''gpu_index'']"

definition REPORTER :: "string list" where
  "REPORTER = COMMON @ [''ssh'', ''api_url'', ''credential_file'', ''max_pending_samples'', ''max_pending_bytes'', ''max_exports_per_run'']"

datatype role = SampleRole | ReadRole | ReportRole

definition observed_path :: "pyval \<Rightarrow> unit res" where
  "observed_path v = check (is_str v \<and> is_absolute (the_str v) \<and> \<not> has_dotdot (the_str v)) (ObservationError ''CONFIGURATION_INVALID'')"

definition config_head :: "pyval \<Rightarrow> role \<Rightarrow> bool" where
  "config_head v r =
     (has_keys v (case r of SampleRole \<Rightarrow> SAMPLER | ReadRole \<Rightarrow> COMMON | ReportRole \<Rightarrow> REPORTER) \<and> get v ''version'' = PInt 1
      \<and> is_str (get v ''expected_hostname'')
      \<and> head_match is_alnum (\<lambda>c. is_alnum c \<or> one_of ''.-'' c) 0 127 (the_str (get v ''expected_hostname'')))"

text \<open>Full match of \<open>[A-Za-z0-9_.@-]{1,80}\.service\<close>.\<close>

definition service_unit :: "string \<Rightarrow> bool" where
  "service_unit s =
     (let n = length s - 8
      in 8 \<le> length s \<and> drop n s = ''.service'' \<and> class_match (\<lambda>c. is_alnum c \<or> one_of ''_.@-'' c) 1 80 (take n s))"

definition sampler_ok :: "pyval \<Rightarrow> bool" where
  "sampler_ok v =
     (is_str (get v ''service'') \<and> service_unit (the_str (get v ''service''))
      \<and> is_str (get v ''configuration_id'')
      \<and> class_match (\<lambda>c. is_alnum c \<or> one_of ''_.-'' c) 1 128 (the_str (get v ''configuration_id''))
      \<and> int_between 0 (get v ''gpu_index'') 31)"

definition reporter_ok :: "pyval \<Rightarrow> bool" where
  "reporter_ok v =
     (int_between 1 (get v ''max_pending_samples'') 200000 \<and> int_between 1 (get v ''max_pending_bytes'') (16 * 1024 ^ 3)
      \<and> int_between 1 (get v ''max_exports_per_run'') 4)"

definition observation_config :: "(string \<Rightarrow> url_parts res) \<Rightarrow> string \<Rightarrow> role \<Rightarrow> pyval \<Rightarrow> unit res" where
  "observation_config urlsplit hostname r v =
     bindR (check (config_head v r) (ObservationError ''CONFIGURATION_INVALID'')) (\<lambda>_.
     bindR (canonical_uuid (get v ''source_id'')) (\<lambda>_.
     bindR (check (is_string (get v ''expected_hostname'') hostname) (ObservationError ''SOURCE_HOST_MISMATCH'')) (\<lambda>_.
     case r of
       ReadRole \<Rightarrow> Inr ()
     | SampleRole \<Rightarrow>
         bindR (endpoint urlsplit True (get v ''metrics_url'')) (\<lambda>_.
         bindR (check (sampler_ok v) (ObservationError ''CONFIGURATION_INVALID'')) (\<lambda>_.
         if get v ''metrics_credential_file'' = PNone then Inr () else observed_path (get v ''metrics_credential_file'')))
     | ReportRole \<Rightarrow>
         bindR (endpoint urlsplit False (get v ''api_url'')) (\<lambda>_.
         bindR (observed_path (get v ''credential_file'')) (\<lambda>_.
         check (reporter_ok v) (ObservationError ''CONFIGURATION_INVALID''))))))"

section \<open>Reading the host\<close>

text \<open>What the reads and the commands give; \<open>None\<close> stands for an \<open>OSError\<close> or an \<open>IoError\<close>.\<close>

record host_source =
  ph_loadavg :: "string option"
  ph_boot :: "string option"
  ph_meminfo :: "string option"
  ph_systemctl :: "string option"
  ph_stat :: "string \<Rightarrow> string option"
  ph_nvidia :: "string option"

definition observed_item :: "pyval \<Rightarrow> pyval" where
  "observed_item x = PDict [(''state'', PStr ''OBSERVED''), (''value'', x)]"

definition failed_item :: pyval where
  "failed_item = PDict [(''state'', PStr ''SOURCE_FAILED''), (''value'', PNone)]"

definition unsupported_item :: pyval where
  "unsupported_item = PDict [(''state'', PStr ''UNSUPPORTED''), (''value'', PNone)]"

definition unavailable_host :: pyval where
  "unavailable_host = PDict [(''state'', PStr ''SOURCE_FAILED''), (''metrics'', PDict (map (\<lambda>(k, _). (k, failed_item)) HOST_UNITS))]"

text \<open>
  \<open>float(s)\<close> of an ASCII text, where only a finite value from 0 to \<open>MAX_SEQUENCE\<close> is used;
  everything else ends in the same \<open>ValueError\<close> as a text that is no number.
\<close>

fun underscores_ok :: "bool \<Rightarrow> string \<Rightarrow> bool" where
  "underscores_ok p [] = True"
| "underscores_ok p (c # cs) =
     (if c = CHR ''_'' then p \<and> cs \<noteq> [] \<and> is_digit (hd cs) \<and> underscores_ok False cs else underscores_ok (is_digit c) cs)"

definition host_number :: "string \<Rightarrow> rat \<Rightarrow> rat option" where
  "host_number s factor =
     (let t = strip s
      in case (if underscores_ok False t then decimal_number (filter (\<lambda>c. c \<noteq> CHR ''_'') t) else None) of
           None \<Rightarrow> None
         | Some q \<Rightarrow> let x = fl q * factor in if 0 \<le> x \<and> x \<le> of_int MAX_SEQUENCE then Some x else None)"

definition read_load :: "string option \<Rightarrow> (string \<times> pyval) list" where
  "read_load bytes =
     (case bytes of
        None \<Rightarrow> []
      | Some s \<Rightarrow>
          if length s \<le> 1024 \<and> is_ascii s \<and> words s \<noteq> []
          then (case host_number (hd (words s)) 1 of None \<Rightarrow> [] | Some x \<Rightarrow> [(''cpu_load1'', observed_item (PFloat x))])
          else [])"

text \<open>A line of \<open>/proc/meminfo\<close>; \<open>int\<close> refuses more than 4300 digits.\<close>

definition mem_line :: "string \<Rightarrow> (string \<times> int) list \<Rightarrow> (string \<times> int) list res" where
  "mem_line line fds =
     (let (k, r) = split_first CHR '':'' line; t = dropWhile is_space r; n = takeWhile is_digit t
      in if CHR '':'' \<in> set line \<and> k \<in> {''MemTotal'', ''MemAvailable'', ''SwapTotal'', ''SwapFree''}
            \<and> r \<noteq> t \<and> n \<noteq> [] \<and> dropWhile is_digit t = '' kB''
         then (if length n \<le> 4300 then Inr (AList.update k (decimal n * 1024) fds) else Inl ValueError)
         else Inr fds)"

definition mem_items :: "(string \<times> int) list \<Rightarrow> (string \<times> pyval) list" where
  "mem_items fds =
     concat (map (\<lambda>(source, target).
       case map_of fds source of
         Some n \<Rightarrow> if n \<le> MAX_SEQUENCE then [(target, observed_item (PInt n))] else []
       | None \<Rightarrow> []) [(''MemTotal'', ''memory_total_bytes''), (''MemAvailable'', ''memory_available_bytes'')])
     @ (case (map_of fds ''SwapTotal'', map_of fds ''SwapFree'') of
          (Some a, Some b) \<Rightarrow> if 0 \<le> a - b \<and> a - b \<le> MAX_SEQUENCE then [(''swap_used_bytes'', observed_item (PInt (a - b)))] else []
        | _ \<Rightarrow> [])"

definition read_memory :: "string option \<Rightarrow> (string \<times> pyval) list" where
  "read_memory bytes =
     (case (case bytes of
              None \<Rightarrow> Inl OSError
            | Some s \<Rightarrow> bindR (check (length s \<le> 65536 \<and> is_ascii s) ValueError) (\<lambda>_. foldR mem_line (splitlines s) [])) of
        Inr fds \<Rightarrow> mem_items fds
      | Inl _ \<Rightarrow> map (\<lambda>k. (k, failed_item)) [''memory_total_bytes'', ''memory_available_bytes'', ''swap_used_bytes''])"

definition properties_of :: "string \<Rightarrow> (string \<times> string) list option" where
  "properties_of s =
     (if list_all (\<lambda>line. CHR ''='' \<in> set line) (splitlines s)
      then Some (foldl (\<lambda>d line. let (k, v) = split_first CHR ''='' line in AList.update k v d) [] (splitlines s)) else None)"

text \<open>\<open>s[s.rfind(')') + 1:]\<close>\<close>

definition after_paren :: "string \<Rightarrow> string" where
  "after_paren s = rev (takeWhile (\<lambda>c. c \<noteq> CHR '')'') (rev s))"

definition start_time :: "string \<Rightarrow> string \<Rightarrow> string option" where
  "start_time pid s =
     (let fds = words (after_paren s)
      in if length s \<le> 8192 \<and> is_ascii s \<and> starts_with s (pid @ '' ('') \<and> 19 < length fds \<and> class_match is_digit 1 (length s) (fds ! 19)
         then Some (fds ! 19) else None)"

definition process_id :: "host_source \<Rightarrow> string option" where
  "process_id src =
     (case ph_systemctl src of
        None \<Rightarrow> None
      | Some out \<Rightarrow>
          (case (if is_ascii out then properties_of (strip out) else None) of
             None \<Rightarrow> None
           | Some ps \<Rightarrow>
               let invocation = (case map_of ps ''InvocationID'' of None \<Rightarrow> [] | Some x \<Rightarrow> x);
                   pid = (case map_of ps ''MainPID'' of None \<Rightarrow> [] | Some x \<Rightarrow> x)
               in if map_of ps ''ActiveState'' = Some ''active'' \<and> class_match is_hex 32 32 invocation
                     \<and> invocation \<noteq> replicate 32 CHR ''0''
                     \<and> head_match (\<lambda>c. is_digit c \<and> c \<noteq> CHR ''0'') is_digit 0 9 pid
                  then (case ph_stat src pid of
                          None \<Rightarrow> None
                        | Some s \<Rightarrow> map_option (\<lambda>t. invocation @ '':'' @ pid @ '':'' @ t) (start_time pid s))
                  else None))"

definition GPU_NAMES :: "string list" where
  "GPU_NAMES = [''gpu_utilization_percent'', ''gpu_temperature_celsius'', ''gpu_memory_total_bytes'', ''gpu_power_watts'', ''gpu_power_limit_watts'']"

definition gpu_item :: "string \<times> string \<Rightarrow> (string \<times> pyval) res" where
  "gpu_item p =
     (let (name, raw) = p
      in if strip raw \<in> {''N/A'', ''[N/A]'', ''Not Supported'', ''[Not Supported]''} then Inr (name, unsupported_item)
         else (case host_number raw (if name = ''gpu_memory_total_bytes'' then 1024 ^ 2 else 1) of
                 None \<Rightarrow> Inl ValueError
               | Some x \<Rightarrow> Inr (name, observed_item (if is_integral x then PInt \<lfloor>x\<rfloor> else PFloat x))))"

definition read_gpu :: "string option \<Rightarrow> (string \<times> pyval) list" where
  "read_gpu out =
     (case (case out of
              None \<Rightarrow> Inl OSError
            | Some s \<Rightarrow>
                let t = strip s; fds = split_on CHR '','' t
                in bindR (check (is_ascii s \<and> CHR 0x0A \<notin> set t \<and> length fds = 5) ValueError) (\<lambda>_.
                   mapR gpu_item (zip GPU_NAMES fds))) of
        Inr xs \<Rightarrow> xs
      | Inl _ \<Rightarrow> map (\<lambda>k. (k, failed_item)) GPU_NAMES)"

definition host_identity :: "host_source \<Rightarrow> pyval \<Rightarrow> pyval" where
  "host_identity src config =
     PDict [(''bootId'', case ph_boot src of None \<Rightarrow> PNone | Some s \<Rightarrow> if is_uuid (strip s) then PStr (strip s) else PNone),
            (''processId'', case process_id src of None \<Rightarrow> PNone | Some s \<Rightarrow> PStr s),
            (''configId'', get config ''configuration_id'')]"

definition read_host :: "host_source \<Rightarrow> pyval \<Rightarrow> (pyval \<times> pyval) res" where
  "read_host src config =
     (let metrics = foldl (\<lambda>d (k, v). AList.update k v d) (map (\<lambda>(k, _). (k, missing_item)) HOST_UNITS)
                      (read_load (ph_loadavg src) @ read_memory (ph_meminfo src) @ read_gpu (ph_nvidia src));
          state = (if list_ex (\<lambda>(_, x). is_string (get x ''state'') ''OBSERVED'') metrics then ''OBSERVED'' else ''SOURCE_FAILED'')
      in bindR (normalize_host (PDict [(''state'', PStr state), (''metrics'', PDict metrics)])) (\<lambda>host.
         Inr (host, host_identity src config)))"

section \<open>A sampling run\<close>

record producer =
  pr_epoch :: string
  pr_last :: int
  pr_minute :: int

definition producer_doc :: "pyval \<Rightarrow> producer \<Rightarrow> pyval" where
  "producer_doc source_id p =
     PDict [(''version'', PInt 1), (''kind'', PStr ''producer''), (''sourceId'', source_id), (''epoch'', PStr (pr_epoch p)),
            (''lastSequence'', PInt (pr_last p)), (''lastPublishedUtcMinute'', PInt (pr_minute p))]"

definition producer_state :: "pyval \<Rightarrow> pyval \<Rightarrow> producer res" where
  "producer_state v source_id =
     bindR (check (has_keys v [''version'', ''kind'', ''sourceId'', ''epoch'', ''lastSequence'', ''lastPublishedUtcMinute'']
                   \<and> get v ''version'' = PInt 1 \<and> is_string (get v ''kind'') ''producer'' \<and> py_eq (get v ''sourceId'') source_id
                   \<and> int_between 0 (get v ''lastSequence'') MAX_SEQUENCE
                   \<and> is_int (get v ''lastPublishedUtcMinute'') \<and> 0 \<le> the_int (get v ''lastPublishedUtcMinute''))
                  (ObservationError ''PRODUCER_STATE_INVALID'')) (\<lambda>_.
     bindR (canonical_uuid (get v ''epoch'')) (\<lambda>epoch.
     Inr \<lparr>pr_epoch = epoch, pr_last = the_int (get v ''lastSequence''), pr_minute = the_int (get v ''lastPublishedUtcMinute'')\<rparr>))"

text \<open>The exceptions \<open>except (IoError, ObservationError, OSError, ValueError, TypeError)\<close> handles.\<close>

definition reading_fault :: "exn \<Rightarrow> bool" where
  "reading_fault e =
     (case e of AppError c _ \<Rightarrow> c \<in> {''IoError'', ''ObservationError''} | OSError \<Rightarrow> True | FileNotFoundError \<Rightarrow> True
      | ValueError \<Rightarrow> True | TypeError \<Rightarrow> True | _ \<Rightarrow> False)"

record sample_env =
  sm_config :: pyval
  sm_hostname :: string
  sm_urlsplit :: "string \<Rightarrow> url_parts res"
  sm_now :: int
  sm_epoch :: string
  sm_host :: "(pyval \<times> pyval) res"
  sm_payload :: "payload res"

definition waiting :: "string \<Rightarrow> pyval" where
  "waiting reason = PDict [(''status'', PStr ''WAITING''), (''reason'', PStr reason)]"

definition persisted :: "string \<Rightarrow> pyval \<Rightarrow> pyval" where
  "persisted reason v =
     PDict [(''status'', PStr ''PERSISTED''), (''reason'', PStr reason), (''observedAt'', get v ''observedAt''),
            (''epoch'', get v ''epoch''), (''sequence'', get v ''sequence'')]"

definition host_of :: "sample_env \<Rightarrow> (pyval \<times> pyval) res" where
  "host_of e =
     (case sm_host e of
        Inr r \<Rightarrow> Inr r
      | Inl x \<Rightarrow>
          if reading_fault x
          then Inr (unavailable_host, PDict [(''bootId'', PNone), (''processId'', PNone), (''configId'', get (sm_config e) ''configuration_id'')])
          else Inl x)"

text \<open>The document of a reserved sequence number: the sample, or one that says its source failed.\<close>

definition sample_document :: "codec \<Rightarrow> sample_env \<Rightarrow> producer \<Rightarrow> (pyval \<times> string) res" where
  "sample_document c e p =
     (let source = get (sm_config e) ''source_id''; make = (\<lambda>payload host ident. make_sample c payload source (PStr (pr_epoch p)) (PInt (pr_last p)) (sm_now e) host ident)
      in bindR (host_of e) (\<lambda>(host, ident).
         case bindR (sm_payload e) (\<lambda>payload.
              bindR (make payload host ident ''OBSERVED'') (\<lambda>v.
              bindR (for_reporter c v (PInt (sm_now e))) (\<lambda>_. Inr v))) of
           Inr v \<Rightarrow> Inr (v, ''SAMPLE_OBSERVED'')
         | Inl x \<Rightarrow> if reading_fault x then bindR (make No_Payload host ident ''SOURCE_FAILED'') (\<lambda>v. Inr (v, ''INFERENCE_SOURCE_FAILED''))
                    else Inl x))"

definition first_minute :: "spool_env \<Rightarrow> spool \<Rightarrow> sample_env \<Rightarrow> pyval option \<Rightarrow> int \<Rightarrow> pyval sio" where
  "first_minute env sp e latest minute =
     bindIO (liftR (check (latest = None) (ObservationError ''PRODUCER_STATE_LOST''))) (\<lambda>_.
     bindIO (spool_stats env sp) (\<lambda>(samples, _).
     bindIO (liftR (check (samples = 0) (ObservationError ''PRODUCER_STATE_LOST''))) (\<lambda>_.
     bindIO (save_control env sp ''state.json''
               (producer_doc (get (sm_config e) ''source_id'') \<lparr>pr_epoch = sm_epoch e, pr_last = 0, pr_minute = minute\<rparr>)) (\<lambda>_.
     liftR (Inr (waiting ''FIRST_MINUTE_RESERVED''))))))"

definition latest_belongs :: "codec \<Rightarrow> pyval \<Rightarrow> producer \<Rightarrow> pyval option \<Rightarrow> unit res" where
  "latest_belongs c source_id p latest =
     (case latest of
        None \<Rightarrow> Inr ()
      | Some v \<Rightarrow>
          bindR (validate_sample c v False) (\<lambda>_.
          check (py_eq (get v ''sourceId'') source_id \<and> is_string (get v ''epoch'') (pr_epoch p)) (ObservationError ''PRODUCER_STATE_INVALID'')))"

definition next_minute :: "spool_env \<Rightarrow> spool \<Rightarrow> sample_env \<Rightarrow> producer \<Rightarrow> int \<Rightarrow> pyval sio" where
  "next_minute env sp e p minute =
     (let p = p\<lparr>pr_last := pr_last p + 1, pr_minute := minute\<rparr>
      in bindIO (save_control env sp ''state.json'' (producer_doc (get (sm_config e) ''source_id'') p)) (\<lambda>_.
         bindIO (liftR (sample_document (en_codec env) e p)) (\<lambda>(v, reason).
         bindIO (save_control env sp ''latest.json'' v) (\<lambda>_.
         bindIO (save_control env sp ''status.json'' (persisted reason v)) (\<lambda>_.
         liftR (Inr (persisted reason v)))))))"

definition sample_locked :: "spool_env \<Rightarrow> spool \<Rightarrow> sample_env \<Rightarrow> pyval sio" where
  "sample_locked env sp e =
     (let minute = sm_now e div 60000; source = get (sm_config e) ''source_id''
      in bindIO (load_control env sp ''state.json'') (\<lambda>state.
         bindIO (load_control env sp ''latest.json'') (\<lambda>latest.
         case state of
           None \<Rightarrow> first_minute env sp e latest minute
         | Some v \<Rightarrow>
             bindIO (liftR (producer_state v source)) (\<lambda>p.
             bindIO (liftR (latest_belongs (en_codec env) source p latest)) (\<lambda>_.
             bindIO (liftR (check (pr_minute p \<le> minute) (ObservationError ''CLOCK_MOVED_BACKWARDS''))) (\<lambda>_.
             if minute = pr_minute p then liftR (Inr (waiting ''MINUTE_ALREADY_RESERVED''))
             else bindIO (liftR (check (pr_last p \<noteq> MAX_SEQUENCE) (ObservationError ''SEQUENCE_EXHAUSTED''))) (\<lambda>_.
                  next_minute env sp e p minute)))))))"

definition DEFAULT_STORE :: "bool \<Rightarrow> spool" where
  "DEFAULT_STORE read_only =
     \<lparr>sp_samples = 4096, sp_bytes = 64 * 1024 * 1024, sp_sample_bytes = 512 * 1024, sp_read_only = read_only\<rparr>"

definition sample_run :: "spool_env \<Rightarrow> sample_env \<Rightarrow> pyval sio" where
  "sample_run env e =
     bindIO (liftR (observation_config (sm_urlsplit e) (sm_hostname e) SampleRole (sm_config e))) (\<lambda>_.
     bindIO (liftR (instant (PInt (sm_now e)))) (\<lambda>_.
     sample_locked env (DEFAULT_STORE False) e))"

section \<open>The reader\<close>

definition read_latest :: "spool_env \<Rightarrow> (string \<Rightarrow> url_parts res) \<Rightarrow> string \<Rightarrow> string option \<Rightarrow> pyval \<Rightarrow> string sio" where
  "read_latest env urlsplit hostname original_command config =
     (let sp = DEFAULT_STORE True; source = get config ''source_id''
      in bindIO (liftR (observation_config urlsplit hostname ReadRole config)) (\<lambda>_.
         bindIO (liftR (check (original_command = Some PROTOCOL) (ObservationError ''READER_COMMAND_DENIED''))) (\<lambda>_.
         bindIO (load_control env sp ''state.json'') (\<lambda>state.
         bindIO (load_control env sp ''latest.json'') (\<lambda>latest.
         case (state, latest) of
           (Some state, Some latest) \<Rightarrow>
             bindIO (liftR (producer_state state source)) (\<lambda>p.
             bindIO (liftR (validate_sample (en_codec env) latest False)) (\<lambda>_.
             bindIO (liftR (check (py_eq (get latest ''sourceId'') source \<and> is_string (get latest ''epoch'') (pr_epoch p)
                                   \<and> the_int (get latest ''sequence'') \<le> pr_last p)
                                  (ObservationError ''PRODUCER_STATE_INVALID''))) (\<lambda>_.
             liftR (canonical_bytes (en_codec env) latest))))
         | _ \<Rightarrow> liftR (Inl (ObservationError ''SAMPLE_NOT_READY'')))))))"

end
