(* ===== verification/ObservationReport.thy ===== *)
theory ObservationReport
  imports ObservationRuntime
begin

text \<open>
  The reporter of \<open>scripts/lib/observation_runtime.py\<close>: its state with the checkpoint of each epoch
  and the quarantined keys, the check of an acknowledgement, delivery of the pending records, import
  of the producer's latest sample, and a whole run. The answer to each submission, what the SSH
  command prints and the credential are parameters. A step that raises inside the \<open>try\<close> of
  \<open>drain\<close> keeps the state it had already changed, so it returns the state with its outcome.
\<close>

section \<open>The state of the reporter\<close>

definition MAX_CHECKPOINTS :: nat where "MAX_CHECKPOINTS = 64"

record checkpoint =
  ck_sequence :: int
  ck_body :: string
  ck_producer :: string
  ck_received :: string
  ck_observed :: string

record reporter =
  rp_checkpoints :: "(string \<times> checkpoint) list"
  rp_blocked :: "(string \<times> string \<times> string) list"

definition checkpoint_doc :: "checkpoint \<Rightarrow> pyval" where
  "checkpoint_doc k =
     PDict [(''sequence'', PInt (ck_sequence k)), (''bodySha256'', PStr (ck_body k)), (''producerSha256'', PStr (ck_producer k)),
            (''receivedAt'', PStr (ck_received k)), (''observedAt'', PStr (ck_observed k))]"

definition blocked_doc :: "string \<times> string \<Rightarrow> pyval" where
  "blocked_doc b = PDict [(''bodySha256'', PStr (fst b)), (''reason'', PStr (snd b))]"

definition reporter_doc :: "pyval \<Rightarrow> reporter \<Rightarrow> pyval" where
  "reporter_doc source_id st =
     PDict [(''version'', PInt 1), (''kind'', PStr ''reporter''), (''sourceId'', source_id),
            (''checkpoints'', PDict (map (\<lambda>(k, x). (k, checkpoint_doc x)) (rp_checkpoints st))),
            (''blocked'', PDict (map (\<lambda>(k, x). (k, blocked_doc x)) (rp_blocked st)))]"

text \<open>The time stamps of the server: any number of fractional digits up to nine, cut to milliseconds.\<close>

definition ack_shape :: "string \<Rightarrow> bool" where
  "ack_shape s =
     (let fraction = drop 19 (butlast s)
      in 20 \<le> length s \<and> last s = CHR ''Z'' \<and> stamp_shape (take 19 s @ ''Z'')
         \<and> (fraction = [] \<or> hd fraction = CHR ''.'' \<and> class_match is_digit 1 9 (tl fraction)))"

definition ack_instant :: "pyval \<Rightarrow> string res" where
  "ack_instant v =
     bindR (check (is_str v \<and> ack_shape (the_str v) \<and> parse_stamp (take 19 (the_str v) @ ''Z'') \<noteq> None)
                  (ObservationError ''ACK_INVALID'')) (\<lambda>_. Inr (the_str v))"

definition ack_millis :: "string \<Rightarrow> int" where
  "ack_millis s =
     (case parse_stamp (take 19 s @ ''Z'') of
        None \<Rightarrow> 0
      | Some t \<Rightarrow> t * 1000 + decimal (take 3 (tl (drop 19 (butlast s)) @ ''000'')))"

definition is_sha :: "pyval \<Rightarrow> bool" where
  "is_sha v = (is_str v \<and> class_match is_hex 64 64 (the_str v))"

definition checkpoint_entry :: "string \<times> pyval \<Rightarrow> (string \<times> checkpoint) res" where
  "checkpoint_entry p =
     (let (epoch, entry) = p
      in bindR (canonical_uuid (PStr epoch)) (\<lambda>_.
         bindR (check (has_keys entry [''sequence'', ''bodySha256'', ''producerSha256'', ''receivedAt'', ''observedAt'']
                       \<and> int_between 0 (get entry ''sequence'') MAX_SEQUENCE
                       \<and> is_sha (get entry ''bodySha256'') \<and> is_sha (get entry ''producerSha256''))
                      (ObservationError ''REPORTER_STATE_INVALID'')) (\<lambda>_.
         bindR (ack_instant (get entry ''receivedAt'')) (\<lambda>received.
         bindR (instant_millis (get entry ''observedAt'')) (\<lambda>_.
         Inr (epoch, \<lparr>ck_sequence = the_int (get entry ''sequence''), ck_body = the_str (get entry ''bodySha256''),
                      ck_producer = the_str (get entry ''producerSha256''), ck_received = received,
                      ck_observed = the_str (get entry ''observedAt'')\<rparr>))))))"

definition blocked_key :: "string \<Rightarrow> bool" where
  "blocked_key k =
     (let (epoch, seq) = split_first CHR '':'' k
      in CHR '':'' \<in> set k \<and> class_match (\<lambda>c. is_hex c \<or> c = CHR ''-'') 36 36 epoch \<and> class_match is_digit 1 16 seq)"

definition blocked_entry :: "string \<times> pyval \<Rightarrow> (string \<times> string \<times> string) res" where
  "blocked_entry p =
     (let (k, entry) = p; (epoch, seq) = split_first CHR '':'' k; bad = ObservationError ''REPORTER_STATE_INVALID''
      in bindR (check (blocked_key k \<and> has_keys entry [''bodySha256'', ''reason''] \<and> is_sha (get entry ''bodySha256'')
                       \<and> in_tuple (get entry ''reason'') [''CONTENT_CONFLICT'', ''REPLAY_REJECTED'']) bad) (\<lambda>_.
         bindR (canonical_uuid (PStr epoch)) (\<lambda>_.
         bindR (check (decimal seq \<le> MAX_SEQUENCE) bad) (\<lambda>_.
         Inr (k, the_str (get entry ''bodySha256''), the_str (get entry ''reason''))))))"

definition reporter_state :: "pyval \<Rightarrow> pyval \<Rightarrow> reporter res" where
  "reporter_state v source_id =
     bindR (check (has_keys v [''version'', ''kind'', ''sourceId'', ''checkpoints'', ''blocked''] \<and> get v ''version'' = PInt 1
                   \<and> is_string (get v ''kind'') ''reporter'' \<and> py_eq (get v ''sourceId'') source_id
                   \<and> is_dict (get v ''checkpoints'') \<and> length (items (get v ''checkpoints'')) \<le> MAX_CHECKPOINTS
                   \<and> is_dict (get v ''blocked'') \<and> length (items (get v ''blocked'')) \<le> 64)
                  (ObservationError ''REPORTER_STATE_INVALID'')) (\<lambda>_.
     bindR (mapR checkpoint_entry (items (get v ''checkpoints''))) (\<lambda>checkpoints.
     bindR (mapR blocked_entry (items (get v ''blocked''))) (\<lambda>blocked.
     Inr \<lparr>rp_checkpoints = checkpoints, rp_blocked = blocked\<rparr>)))"

section \<open>Acknowledgements\<close>

definition producer_part :: "pyval \<Rightarrow> pyval" where
  "producer_part v = PDict (filter (\<lambda>(k, _). k \<noteq> ''reporterReceivedAt'') (items v))"

definition verify_ack :: "pyval \<Rightarrow> spool_record \<Rightarrow> pyval \<Rightarrow> string res" where
  "verify_ack v r source_id =
     bindR (check (has_keys v [''sourceId'', ''epoch'', ''sequence'', ''status'', ''contentSha256'', ''receivedAt''])
                  (ObservationError ''ACK_INVALID'')) (\<lambda>_.
     bindR (check (py_eq (get v ''sourceId'') source_id \<and> is_string (get v ''epoch'') (rc_epoch r)
                   \<and> get v ''sequence'' = PInt (rc_seq r) \<and> in_tuple (get v ''status'') [''ACCEPTED'', ''DUPLICATE'']
                   \<and> is_string (get v ''contentSha256'') (rc_sha r))
                  (ObservationError ''ACK_MISMATCH'')) (\<lambda>_.
     ack_instant (get v ''receivedAt'')))"

section \<open>Delivery\<close>

record report_env =
  re_config :: pyval
  re_hostname :: string
  re_urlsplit :: "string \<Rightarrow> url_parts res"
  re_now :: int
  re_token :: "string res"
  re_source :: "string res"
  re_sender :: "event list \<Rightarrow> string \<Rightarrow> pyval res"

abbreviation source_of :: "report_env \<Rightarrow> pyval" where
  "source_of e \<equiv> get (re_config e) ''source_id''"

definition max_exports :: "report_env \<Rightarrow> int" where
  "max_exports e = the_int (get (re_config e) ''max_exports_per_run'')"

text \<open>A submission: the answer is a value or what \<open>sender\<close> raises.\<close>

definition send_record :: "report_env \<Rightarrow> string \<Rightarrow> (pyval res) sio" where
  "send_record e payload l = (let r = re_sender e l payload in (l @ [Sent payload r], Inr r))"

definition trying :: "'a sio \<Rightarrow> ('a res) sio" where
  "trying m l = (case m l of (l', r) \<Rightarrow> (l', Inr r))"

definition delivery_fault :: "exn \<Rightarrow> bool" where
  "delivery_fault x =
     (case x of AppError c _ \<Rightarrow> c \<in> {''ObservationError'', ''IoError'', ''StoreError''} | OSError \<Rightarrow> True | FileNotFoundError \<Rightarrow> True
      | _ \<Rightarrow> False)"

definition fault_reason :: "string \<Rightarrow> exn \<Rightarrow> string" where
  "fault_reason other x =
     (case x of AppError c r \<Rightarrow> if c \<in> {''ObservationError'', ''IoError'', ''StoreError''} then r else other | _ \<Rightarrow> other)"

definition record_key :: "spool_record \<Rightarrow> string" where
  "record_key r = rc_epoch r @ '':'' @ str_of_int (rc_seq r)"

definition checkpoint_step :: "codec \<Rightarrow> reporter \<Rightarrow> spool_record \<Rightarrow> string \<Rightarrow> reporter res" where
  "checkpoint_step c st r received =
     (let previous = map_of (rp_checkpoints st) (rc_epoch r)
      in bindR (check (previous \<noteq> None \<or> length (rp_checkpoints st) < MAX_CHECKPOINTS) (ObservationError ''CHECKPOINT_LIMIT'')) (\<lambda>_.
         if (case previous of None \<Rightarrow> True | Some k \<Rightarrow> ck_sequence k \<le> rc_seq r)
         then bindR (check (case previous of None \<Rightarrow> True | Some k \<Rightarrow> \<not> (rc_seq r = ck_sequence k \<and> rc_sha r \<noteq> ck_body k))
                           (ObservationError ''CHECKPOINT_CONFLICT'')) (\<lambda>_.
              bindR (canonical_bytes c (producer_part (rc_document r))) (\<lambda>core.
              Inr (st\<lparr>rp_checkpoints := AList.update (rc_epoch r)
                     \<lparr>ck_sequence = rc_seq r, ck_body = rc_sha r, ck_producer = cd_sha c core, ck_received = received,
                      ck_observed = the_str (get (rc_document r) ''observedAt'')\<rparr> (rp_checkpoints st)\<rparr>)))
         else Inr st))"

definition save_reporter :: "spool_env \<Rightarrow> spool \<Rightarrow> report_env \<Rightarrow> reporter \<Rightarrow> unit sio" where
  "save_reporter env sp e st = save_control env sp ''state.json'' (reporter_doc (source_of e) st)"

definition take_answer ::
  "spool_env \<Rightarrow> spool \<Rightarrow> report_env \<Rightarrow> spool_record \<Rightarrow> reporter \<Rightarrow> pyval \<Rightarrow> (reporter \<times> unit res) sio" where
  "take_answer env sp e r st ack =
     (case bindR (verify_ack ack r (source_of e)) (checkpoint_step (en_codec env) st r) of
        Inl x \<Rightarrow> liftR (Inr (st, Inl x))
      | Inr st' \<Rightarrow>
          bindIO (trying (bindIO (save_reporter env sp e st') (\<lambda>_. spool_ack env sp r))) (\<lambda>saved.
          liftR (Inr (st', bindR saved (\<lambda>_. Inr ())))))"

definition refuse_reason :: "pyval \<Rightarrow> string" where
  "refuse_reason response =
     (let code = (if is_dict response then get response ''status'' else PNone)
      in if py_eq code (PInt 409) then ''CONTENT_CONFLICT'' else if py_eq code (PInt 422) then ''REPLAY_REJECTED'' else ''DELIVERY_FAILED'')"

definition take_refusal ::
  "spool_env \<Rightarrow> spool \<Rightarrow> report_env \<Rightarrow> spool_record \<Rightarrow> reporter \<Rightarrow> pyval \<Rightarrow> (reporter \<times> unit res) sio" where
  "take_refusal env sp e r st response =
     (let reason = refuse_reason response
      in if reason = ''DELIVERY_FAILED'' then liftR (Inr (st, Inl (ObservationError reason)))
         else if 64 \<le> length (rp_blocked st) then liftR (Inr (st, Inl (ObservationError ''QUARANTINE_LIMIT'')))
         else let st' = st\<lparr>rp_blocked := AList.update (record_key r) (rc_sha r, reason) (rp_blocked st)\<rparr>
              in bindIO (trying (save_reporter env sp e st')) (\<lambda>saved.
                 liftR (Inr (st', bindR saved (\<lambda>_. Inl (ObservationError reason))))))"

definition answered :: "pyval \<Rightarrow> bool" where
  "answered response = (has_keys response [''status'', ''ack''] \<and> py_eq (get response ''status'') (PInt 200))"

definition deliver_record ::
  "spool_env \<Rightarrow> spool \<Rightarrow> report_env \<Rightarrow> spool_record \<Rightarrow> reporter \<Rightarrow> (reporter \<times> unit res) sio" where
  "deliver_record env sp e r st =
     bindIO (send_record e (rc_payload r)) (\<lambda>response.
     case response of
       Inl x \<Rightarrow> liftR (Inr (st, Inl x))
     | Inr v \<Rightarrow> if answered v then take_answer env sp e r st (get v ''ack'') else take_refusal env sp e r st v)"

record progress =
  pg_state :: reporter
  pg_delivered :: nat
  pg_attempts :: nat
  pg_reason :: "string option"

definition outbox_record :: "codec \<Rightarrow> pyval \<Rightarrow> spool_record \<Rightarrow> unit res" where
  "outbox_record c source_id r =
     bindR (validate_sample c (rc_document r) True) (\<lambda>_.
     bindR (canonical_bytes c (rc_document r)) (\<lambda>s.
     check (py_eq (get (rc_document r) ''sourceId'') source_id \<and> is_string (get (rc_document r) ''epoch'') (rc_epoch r)
            \<and> py_eq (get (rc_document r) ''sequence'') (PInt (rc_seq r)) \<and> s = rc_payload r)
           (ObservationError ''OUTBOX_RECORD_INVALID'')))"

fun drain_records :: "spool_env \<Rightarrow> spool \<Rightarrow> report_env \<Rightarrow> spool_record list \<Rightarrow> progress \<Rightarrow> progress sio" where
  "drain_records env sp e [] pg = liftR (Inr pg)"
| "drain_records env sp e (r # rs) pg =
     (if max_exports e \<le> int (pg_attempts pg) \<or> pg_reason pg \<noteq> None then liftR (Inr pg)
      else bindIO (liftR (outbox_record (en_codec env) (source_of e) r)) (\<lambda>_.
        case map_of (rp_blocked (pg_state pg)) (record_key r) of
          Some (sha, _) \<Rightarrow>
            if sha \<noteq> rc_sha r then liftR (Inl (ObservationError ''QUARANTINED_CONTENT_CHANGED''))
            else drain_records env sp e rs pg
        | None \<Rightarrow>
            bindIO (deliver_record env sp e r (pg_state pg)) (\<lambda>(st, outcome).
            let pg = pg\<lparr>pg_state := st, pg_attempts := pg_attempts pg + 1\<rparr>
            in case outcome of
                 Inr _ \<Rightarrow> drain_records env sp e rs (pg\<lparr>pg_delivered := pg_delivered pg + 1\<rparr>)
               | Inl x \<Rightarrow> liftR (if delivery_fault x then Inr (pg\<lparr>pg_reason := Some (fault_reason ''DELIVERY_FAILED'' x)\<rparr>)
                                 else Inl x))))"

definition excluded_keys :: "reporter \<Rightarrow> (string \<times> int) list" where
  "excluded_keys st = map (\<lambda>(k, _). let (epoch, seq) = split_first CHR '':'' k in (epoch, decimal seq)) (rp_blocked st)"

definition drain :: "spool_env \<Rightarrow> spool \<Rightarrow> report_env \<Rightarrow> progress \<Rightarrow> progress sio" where
  "drain env sp e pg =
     bindIO (pending_records env sp (max_exports e) (excluded_keys (pg_state pg))) (\<lambda>rs. drain_records env sp e rs pg)"

section \<open>Import of the latest sample\<close>

definition candidate :: "codec \<Rightarrow> report_env \<Rightarrow> pyval res" where
  "candidate c e =
     bindR (re_source e) (\<lambda>payload.
     bindR (check (length payload \<le> MAX_SAMPLE_BYTES) (ObservationError ''REMOTE_SAMPLE_INVALID'')) (\<lambda>_.
     bindR (decoded c payload) (\<lambda>v.
     bindR (validate_sample c v False) (\<lambda>_.
     bindR (check (py_eq (get v ''sourceId'') (source_of e)) (ObservationError ''REMOTE_SOURCE_MISMATCH'')) (\<lambda>_. Inr v)))))"

definition import_sample :: "spool_env \<Rightarrow> spool \<Rightarrow> report_env \<Rightarrow> reporter \<Rightarrow> pyval \<Rightarrow> nat sio" where
  "import_sample env sp e st latest =
     bindIO (liftR (canonical_bytes (en_codec env) latest)) (\<lambda>core.
     let seq = the_int (get latest ''sequence'');
         behind = (case map_of (rp_checkpoints st) (the_str (get latest ''epoch'')) of
                     None \<Rightarrow> None | Some k \<Rightarrow> if seq \<le> ck_sequence k then Some k else None)
     in case behind of
          Some k \<Rightarrow> liftR (bindR (check (seq = ck_sequence k \<and> cd_sha (en_codec env) core = ck_producer k)
                                       (ObservationError ''SOURCE_SEQUENCE_ROLLBACK_OR_CONFLICT'')) (\<lambda>_. Inr 0))
        | None \<Rightarrow>
            bindIO (spool_get env sp (get latest ''epoch'') (get latest ''sequence'')) (\<lambda>existing.
            case existing of
              Some r \<Rightarrow> liftR (bindR (check (py_eq (producer_part (rc_document r)) latest) (ObservationError ''CONTENT_CONFLICT'')) (\<lambda>_. Inr 0))
            | None \<Rightarrow>
                bindIO (liftR (for_reporter (en_codec env) latest (PInt (re_now e)))) (\<lambda>request.
                bindIO (spool_put env sp (get latest ''epoch'') (get latest ''sequence'') request) (\<lambda>_. liftR (Inr 1)))))"

definition acquisition_fault :: "exn \<Rightarrow> bool" where
  "acquisition_fault x = (delivery_fault x \<or> x = ValueError \<or> x = TypeError)"

definition acquire :: "spool_env \<Rightarrow> spool \<Rightarrow> report_env \<Rightarrow> progress \<Rightarrow> (pyval option \<times> nat \<times> progress) sio" where
  "acquire env sp e pg =
     (let failed = (\<lambda>x. if acquisition_fault x
                        then Inr (if pg_reason pg = None then pg\<lparr>pg_reason := Some (fault_reason ''ACQUISITION_FAILED'' x)\<rparr> else pg)
                        else Inl x)
      in case candidate (en_codec env) e of
           Inl x \<Rightarrow> liftR (bindR (failed x) (\<lambda>pg. Inr (None, 0, pg)))
         | Inr latest \<Rightarrow>
             bindIO (trying (import_sample env sp e (pg_state pg) latest)) (\<lambda>r.
             case r of
               Inr n \<Rightarrow> liftR (Inr (Some latest, n, pg))
             | Inl x \<Rightarrow> liftR (bindR (failed x) (\<lambda>pg. Inr (Some latest, 0, pg)))))"

section \<open>A run\<close>

definition starting_state :: "spool_env \<Rightarrow> spool \<Rightarrow> report_env \<Rightarrow> reporter sio" where
  "starting_state env sp e =
     bindIO (load_control env sp ''state.json'') (\<lambda>state.
     case state of
       Some v \<Rightarrow> liftR (reporter_state v (source_of e))
     | None \<Rightarrow>
         bindIO (spool_stats env sp) (\<lambda>(samples, _).
         bindIO (liftR (check (samples = 0) (ObservationError ''REPORTER_STATE_LOST''))) (\<lambda>_.
         let st = \<lparr>rp_checkpoints = [], rp_blocked = []\<rparr>
         in bindIO (save_reporter env sp e st) (\<lambda>_. liftR (reporter_state (reporter_doc (source_of e) st) (source_of e))))))"

text \<open>\<open>max(checkpoints.values(), key=ack_millis)\<close>: the first of the greatest.\<close>

definition last_acknowledged :: "reporter \<Rightarrow> checkpoint option" where
  "last_acknowledged st =
     (case map snd (rp_checkpoints st) of
        [] \<Rightarrow> None
      | k # ks \<Rightarrow> Some (foldl (\<lambda>m k. if ack_millis (ck_received m) < ack_millis (ck_received k) then k else m) k ks))"

definition seconds_since :: "int \<Rightarrow> int \<Rightarrow> pyval" where
  "seconds_since later earlier = (if earlier \<le> later then PFloat (fl (of_int (later - earlier) / 1000)) else PNone)"

definition opt_str :: "string option \<Rightarrow> pyval" where
  "opt_str s = (case s of None \<Rightarrow> PNone | Some x \<Rightarrow> PStr x)"

definition report_result :: "report_env \<Rightarrow> pyval option \<Rightarrow> nat \<Rightarrow> progress \<Rightarrow> nat \<times> nat \<Rightarrow> pyval" where
  "report_result e latest imported pg stats =
     (let st = pg_state pg;
          reason = (if pg_reason pg = None \<and> rp_blocked st \<noteq> [] then Some ''SAMPLES_QUARANTINED'' else pg_reason pg);
          k = last_acknowledged st;
          observed = (case k of None \<Rightarrow> None | Some k \<Rightarrow> Some (millis_of (ck_observed k)))
      in PDict [(''status'', PStr (if reason = None then ''OK'' else ''OBSERVATION_ERROR'')), (''reason'', opt_str reason),
                (''imported'', PInt (int imported)), (''delivered'', PInt (int (pg_delivered pg))), (''pending'', PInt (int (fst stats))),
                (''pendingBytes'', PInt (int (snd stats))),
                (''latestSourceObservedAt'', case latest of None \<Rightarrow> PNone | Some v \<Rightarrow> get v ''observedAt''),
                (''quarantined'', PInt (int (length (rp_blocked st)))),
                (''latestAcknowledgedObservedAt'', opt_str (map_option ck_observed k)),
                (''acknowledgedAgeSeconds'', case observed of None \<Rightarrow> PNone | Some t \<Rightarrow> seconds_since (re_now e) t),
                (''deliveryLagSeconds'', case (k, observed) of (Some k, Some t) \<Rightarrow> seconds_since (ack_millis (ck_received k)) t | _ \<Rightarrow> PNone)])"

definition report_locked :: "spool_env \<Rightarrow> spool \<Rightarrow> report_env \<Rightarrow> pyval sio" where
  "report_locked env sp e =
     bindIO (starting_state env sp e) (\<lambda>st.
     bindIO (drain env sp e \<lparr>pg_state = st, pg_delivered = 0, pg_attempts = 0, pg_reason = None\<rparr>) (\<lambda>pg.
     bindIO (acquire env sp e pg) (\<lambda>(latest, imported, pg).
     bindIO (drain env sp e pg) (\<lambda>pg.
     bindIO (spool_stats env sp) (\<lambda>stats.
     let result = report_result e latest imported pg stats
     in bindIO (save_control env sp ''status.json'' result) (\<lambda>_. liftR (Inr result)))))))"

definition report_run :: "spool_env \<Rightarrow> report_env \<Rightarrow> pyval sio" where
  "report_run env e =
     bindIO (liftR (observation_config (re_urlsplit e) (re_hostname e) ReportRole (re_config e))) (\<lambda>_.
     bindIO (liftR (instant (PInt (re_now e)))) (\<lambda>_.
     bindIO (liftR (re_token e)) (\<lambda>_.
     bindIO (liftR (open_store (get (re_config e) ''max_pending_samples'') (get (re_config e) ''max_pending_bytes'') (PInt (512 * 1024)) False)) (\<lambda>sp.
     report_locked env sp e))))"

end
