(* ===== verification/SpoolSafety.thy ===== *)
theory SpoolSafety
  imports ObservationReport "HOL-Library.Multiset"
begin

text \<open>
  What holds of every effect of a reporter run, and so at every point where it can be interrupted.
  The argument follows the program once, in a locale over a guard on effects that asks for the facts
  the code has established when it links, removes or submits a record; the properties are
  interpretations of it.
\<close>

section \<open>Steps\<close>

lemma disk_at_snoc [simp]: "replay d (l @ [x]) = apply_event x (replay d l)"
  by (simp add: replay_def)

lemma does_emit_bind:
  assumes "\<And>x. Q l (Inl x)"
    and "op_error (disk_at env l) op = None \<Longrightarrow> does (f ()) (l @ [Did op]) Q"
  shows "does (bindIO (emit env op) f) l Q"
  using assms by (auto simp: does_def bindIO_def emit_def split: option.splits)

lemma does_emit:
  assumes "\<And>x. Q l (Inl x)" "op_error (disk_at env l) op = None \<Longrightarrow> Q (l @ [Did op]) (Inr ())"
  shows "does (emit env op) l Q"
  using assms by (auto simp: does_def emit_def split: option.splits)

lemma does_lift_bind:
  assumes "\<And>x. r = Inl x \<Longrightarrow> Q l (Inl x)" "\<And>y. r = Inr y \<Longrightarrow> does (f y) l Q"
  shows "does (bindIO (liftR r) f) l Q"
  using assms by (cases r) (auto simp: does_def bindIO_def liftR_def)

lemma does_look_bind:
  assumes "\<And>x. g (disk_at env l) = Inl x \<Longrightarrow> Q l (Inl x)" "\<And>y. g (disk_at env l) = Inr y \<Longrightarrow> does (f y) l Q"
  shows "does (bindIO (looking env g) f) l Q"
  using assms by (cases "g (disk_at env l)") (auto simp: does_def bindIO_def looking_def)

lemma does_look: "Q l (g (disk_at env l)) \<Longrightarrow> does (looking env g) l Q"
  by (simp add: does_def looking_def)

lemma does_trying: "does m l (\<lambda>l' r. Q l' (Inr r)) \<Longrightarrow> does (trying m) l Q"
  by (auto simp: does_def trying_def split: prod.splits)

section \<open>Record files\<close>

definition records :: "disk \<Rightarrow> disk" where
  "records d = filter (\<lambda>(k, _). record_match k \<noteq> None) d"

definition record_bytes :: "disk \<Rightarrow> nat" where
  "record_bytes d = sum_list (map (\<lambda>(_, f). length (fi_bytes f)) (records d))"

definition temporary :: "string \<Rightarrow> bool" where
  "temporary t = (\<exists>u. t = ''.tmp-'' @ u)"

lemma temporary_names: "temporary t \<Longrightarrow> record_match t = None" "temporary t \<Longrightarrow> n \<in> set CONTROLS \<Longrightarrow> n \<noteq> t"
  by (auto simp: temporary_def record_match_def Let_def CONTROLS_def)

lemma temporary_uuid [simp]: "temporary (''.tmp-'' @ u)"
  by (simp add: temporary_def)

lemma control_no_record: "n \<in> set CONTROLS \<Longrightarrow> record_match n = None"
  by (auto simp: CONTROLS_def record_match_def)

lemma records_update: "record_match k = None \<Longrightarrow> records (AList.update k f d) = records d"
  by (induction d) (auto simp: records_def)

lemma records_delete: "record_match k = None \<Longrightarrow> records (AList.delete k d) = records d"
  by (induction d) (auto simp: records_def AList.delete_eq)

lemma records_new: "map_of d k = None \<Longrightarrow> record_match k \<noteq> None \<Longrightarrow> records (AList.update k f d) = records d @ [(k, f)]"
  by (induction d) (auto simp: records_def split: if_splits)

lemma records_remove:
  "length (records (AList.delete k d)) \<le> length (records d) \<and> record_bytes (AList.delete k d) \<le> record_bytes d"
  by (induction d) (auto simp: records_def record_bytes_def AList.delete_eq)

lemma entry_rows:
  assumes "foldR (entry_row sp d) es rows = Inr rows'" "\<forall>r\<in>set rows. record_match (rw_name r) = Some (rw_epoch r, rw_seq r)"
  shows "length rows' = length rows + length (records es) \<and> row_bytes rows' = row_bytes rows + record_bytes es
    \<and> (\<forall>r\<in>set rows'. record_match (rw_name r) = Some (rw_epoch r, rw_seq r))"
  using assms
proof (induction es arbitrary: rows)
  case (Cons x es)
  obtain k f where x: "x = (k, f)" by (cases x)
  obtain mid where mid: "entry_row sp d x rows = Inr mid" "foldR (entry_row sp d) es mid = Inr rows'" using Cons.prems(1) by auto
  have m: "mid = (if record_match k = None then rows
      else rows @ [\<lparr>rw_name = k, rw_epoch = fst (the (record_match k)), rw_seq = snd (the (record_match k)), rw_size = length (fi_bytes f)\<rparr>])"
    using mid(1) by (auto simp: x entry_row_def Let_def control_no_record record_match_def [of "''.store.lock''"]
        split: if_splits option.splits)
  have "\<forall>r\<in>set mid. record_match (rw_name r) = Some (rw_epoch r, rw_seq r)"
    using Cons.prems(2) by (auto simp: m)
  from Cons.IH [OF mid(2) this] show ?case by (auto simp: m x records_def record_bytes_def)
qed (simp add: records_def record_bytes_def)

lemma entries_rows:
  assumes "entries sp d = Inr rows"
  shows "length rows = length (records d)" "row_bytes rows = record_bytes d"
    "\<forall>r\<in>set rows. record_match (rw_name r) = Some (rw_epoch r, rw_seq r)"
proof -
  obtain raw where raw: "foldR (entry_row sp d) d [] = Inr raw" "rows = sort_key (\<lambda>r. (rw_epoch r, rw_seq r)) raw"
    using assms by (auto simp: entries_def)
  have "sum_list (map rw_size rows) = sum_list (map rw_size raw)"
    unfolding raw(2) sum_mset_sum_list [symmetric] mset_map by simp
  then show "length rows = length (records d)" "row_bytes rows = record_bytes d"
    "\<forall>r\<in>set rows. record_match (rw_name r) = Some (rw_epoch r, rw_seq r)"
    using entry_rows [OF raw(1)] by (simp_all add: raw(2))
qed

lemma concat_split: "concat (split_on c s) = filter (\<lambda>x. x \<noteq> c) s"
  by (induction s) (auto split: list.split)

lemma join_split: "join_with [c] (split_on c s) = s"
proof (induction s)
  case (Cons x s)
  obtain w ws where w: "split_on c s = w # ws" by (cases "split_on c s") auto
  then show ?case using Cons by (cases ws) auto
qed simp

lemma uuid_parts:
  assumes "is_uuid e"
  obtains a b c d f where "split_on CHR ''-'' e = [a, b, c, d, f]" "length a = 8" "length b = 4" "length c = 4" "length d = 4"
    "length f = 12" "list_all is_hex (a @ b @ c @ d @ f)"
  using assms unfolding is_uuid_def map_eq_Cons_conv by auto

lemma pad_digits: "list_all is_digit (pad k n)"
  using str_of_nat_digits [of "nat n"] by (auto simp: pad_def Let_def list_all_iff is_digit_def)

text \<open>The name of a record says its epoch and sequence number.\<close>

lemma record_match_text:
  assumes "is_uuid e" "0 \<le> q" "q \<le> MAX_SEQUENCE"
  shows "record_match (record_text e q) = Some (e, q)"
proof -
  obtain a b c d f where p: "split_on CHR ''-'' e = [a, b, c, d, f]"
    and l: "length a = 8" "length b = 4" "length c = 4" "length d = 4" "length f = 12" and h: "list_all is_hex (a @ b @ c @ d @ f)"
    using uuid_parts [OF assms(1)] by blast
  have e: "e = a @ ''-'' @ b @ ''-'' @ c @ ''-'' @ d @ ''-'' @ f" using join_split [of "CHR ''-''" e] by (simp add: p)
  have n: "filter (\<lambda>x. x \<noteq> CHR ''-'') e = a @ b @ c @ d @ f" using concat_split [of "CHR ''-''" e] by (simp add: p)
  have q: "length (pad 16 q) = 16" using assms(2,3) by (intro pad_length) (simp_all add: MAX_SEQUENCE_def)
  show ?thesis
    unfolding record_match_def record_text_def n dashed_def Let_def
    using h by (simp add: l q pad_digits decimal_pad assms(2)) (simp add: e)
qed

lemma record_name_match: "record_name epoch seq = Inr n \<Longrightarrow> record_match n = Some (the_str epoch, the_int seq)"
  by (auto simp: record_name_def record_match_text split: if_splits)

lemma list_all2_right: "list_all2 (\<lambda>x y. P y) xs ys \<Longrightarrow> \<forall>y\<in>set ys. P y"
  by (induction xs ys rule: list_all2_induct) auto

section \<open>Guards on effects\<close>

definition upheld :: "(event list \<Rightarrow> event \<Rightarrow> bool) \<Rightarrow> event list \<Rightarrow> bool" where
  "upheld ok l = (\<forall>pre x post. l = pre @ x # post \<longrightarrow> ok pre x)"

lemma upheld_Nil [simp]: "upheld ok []"
  by (simp add: upheld_def)

lemma upheld_snoc [simp]: "upheld ok (l @ [x]) \<longleftrightarrow> upheld ok l \<and> ok l x"
proof
  assume "upheld ok (l @ [x])"
  then show "upheld ok l \<and> ok l x"
    by (fastforce simp: upheld_def)
next
  assume g: "upheld ok l \<and> ok l x"
  show "upheld ok (l @ [x])"
    unfolding upheld_def
  proof (intro allI impI)
    fix pre y post
    assume "l @ [x] = pre @ y # post"
    then show "ok pre y" using g by (cases post rule: rev_cases) (auto simp: upheld_def)
  qed
qed

fun is_sent :: "event \<Rightarrow> bool" where
  "is_sent (Sent p r) = True"
| "is_sent (Did op) = False"

definition sent_count :: "event list \<Rightarrow> nat" where
  "sent_count l = length (filter is_sent l)"

lemma sent_count_simps [simp]: "sent_count [] = 0" "sent_count (l @ [x]) = sent_count l + (if is_sent x then 1 else 0)"
  by (simp_all add: sent_count_def)

text \<open>Effects on temporary and control files only.\<close>

fun quiet_event :: "event \<Rightarrow> bool" where
  "quiet_event (Did (Create t)) = temporary t"
| "quiet_event (Did (Fill t s)) = temporary t"
| "quiet_event (Did (Rename t n)) = (temporary t \<and> n \<in> set CONTROLS)"
| "quiet_event (Did (Unlink t)) = temporary t"
| "quiet_event (Did Sync) = True"
| "quiet_event _ = False"

text \<open>What the code has checked when it links a record, and when it removes one.\<close>

definition linkable :: "spool \<Rightarrow> disk \<Rightarrow> string \<Rightarrow> string \<Rightarrow> bool" where
  "linkable sp d t n =
     (\<exists>f. map_of d t = Some f \<and> record_match n \<noteq> None \<and> map_of d n = None
        \<and> length (records d) < sp_samples sp \<and> record_bytes d + length (fi_bytes f) \<le> sp_bytes sp)"

definition fetched :: "codec \<Rightarrow> spool_record \<Rightarrow> bool" where
  "fetched c r = (record_match (rc_name r) = Some (rc_epoch r, rc_seq r) \<and> rc_sha r = cd_sha c (rc_payload r))"

definition accepted :: "pyval \<Rightarrow> event list \<Rightarrow> spool_record \<Rightarrow> bool" where
  "accepted source l r =
     (\<exists>v. Sent (rc_payload r) (Inr v) \<in> set l \<and> answered v \<and> (\<exists>received. verify_ack (get v ''ack'') r source = Inr received))"

definition checkpointed :: "codec \<Rightarrow> pyval \<Rightarrow> disk \<Rightarrow> spool_record \<Rightarrow> bool" where
  "checkpointed c source d r =
     (\<exists>f st k. map_of d ''state.json'' = Some f \<and> cd_dumps c (reporter_doc source st) = Some (fi_bytes f)
        \<and> map_of (rp_checkpoints st) (rc_epoch r) = Some k \<and> rc_seq r \<le> ck_sequence k)"

definition removable :: "spool_env \<Rightarrow> pyval \<Rightarrow> event list \<Rightarrow> spool_record \<Rightarrow> bool" where
  "removable env source l r =
     (fetched (en_codec env) r \<and> accepted source l r \<and> checkpointed (en_codec env) source (disk_at env l) r
      \<and> (\<exists>f. map_of (disk_at env l) (rc_name r) = Some f \<and> cd_sha (en_codec env) (fi_bytes f) = rc_sha r))"

locale spool_guard =
  fixes env :: spool_env and sp :: spool and e :: report_env and ok :: "event list \<Rightarrow> event \<Rightarrow> bool"
  assumes quiet: "quiet_event x \<Longrightarrow> ok l x"
    and link: "temporary t \<Longrightarrow> linkable sp (disk_at env l) t n \<Longrightarrow> ok l (Did (Link t n))"
    and unlink: "removable env (source_of e) l r \<Longrightarrow> ok l (Did (Unlink (rc_name r)))"
    and send: "int (sent_count l) < max_exports e \<Longrightarrow> ok l (Sent p a)"
begin

text \<open>A step that keeps the guard and submits nothing.\<close>

definition follows :: "event list \<Rightarrow> event list \<Rightarrow> bool" where
  "follows l l' = (upheld ok l' \<and> sent_count l' = sent_count l \<and> set l \<subseteq> set l')"

lemma follows_refl: "upheld ok l \<Longrightarrow> follows l l"
  by (simp add: follows_def)

lemma follows_trans: "follows l l' \<Longrightarrow> follows l' l'' \<Longrightarrow> follows l l''"
  by (auto simp: follows_def)

lemma follows_snoc: "follows l l' \<Longrightarrow> ok l' (Did op) \<Longrightarrow> follows l (l' @ [Did op])"
  by (auto simp: follows_def)

lemma follows_quiet: "follows l l' \<Longrightarrow> quiet_event (Did op) \<Longrightarrow> follows l (l' @ [Did op])"
  by (rule follows_snoc) (simp_all add: quiet)

lemma follows_guarded: "follows l l' \<Longrightarrow> upheld ok l'"
  by (simp add: follows_def)

lemma remove_temporary_follows:
  assumes "temporary t" "follows l0 l" "P (disk_at env l)" "P (AList.delete t (disk_at env l))"
  shows "does (remove_temporary env t) l (\<lambda>l' r. follows l0 l' \<and> P (disk_at env l'))"
  unfolding remove_temporary_def
  by (rule does_catchI [where P = "\<lambda>l' r. follows l0 l' \<and> P (disk_at env l')"])
    (use assms in \<open>auto intro!: does_emit does_lift follows_quiet\<close>)

text \<open>A whole write: what holds of the disk with the new file, whether the temporary is gone or not.\<close>

lemma write_follows:
  assumes body: "\<And>t l'. temporary t \<Longrightarrow> follows l l' \<Longrightarrow> disk_at env l' = apply_op (Create t) (disk_at env l) \<Longrightarrow>
      map_of (disk_at env l) t = None \<Longrightarrow>
      does (write_body env t n s b) l' (\<lambda>l'' r. follows l l'' \<and> (r = Inr () \<longrightarrow> P (disk_at env l'') \<and> P (AList.delete t (disk_at env l''))))"
    and "upheld ok l"
  shows "does (write_file env sp n s b) l (\<lambda>l' r. follows l l' \<and> (r = Inr () \<longrightarrow> P (disk_at env l')))"
proof -
  let ?t = "''.tmp-'' @ en_uuid env l"
  let ?m = "bindIO (liftR (check (\<not> sp_read_only sp) (StoreError ''STORE_READ_ONLY''))) (\<lambda>_.
      bindIO (emit env (Create ?t)) (\<lambda>_. finallyIO (write_body env ?t n s b) (remove_temporary env ?t)))"
  note f0 = follows_refl [OF assms(2)]
  have "does ?m l (\<lambda>l' r. follows l l' \<and> (r = Inr () \<longrightarrow> P (disk_at env l')))"
  proof (rule does_lift_bind, use f0 in simp, rule does_emit_bind, use f0 in simp)
    assume o: "op_error (disk_at env l) (Create ?t) = None"
    have f1: "follows l (l @ [Did (Create ?t)])" by (rule follows_quiet [OF f0]) (simp add: temporary_def)
    have "does (write_body env ?t n s b) (l @ [Did (Create ?t)])
        (\<lambda>l'' r. follows l l'' \<and> (r = Inr () \<longrightarrow> P (disk_at env l'') \<and> P (AList.delete ?t (disk_at env l''))))"
      by (rule body [OF _ f1]) (use o in \<open>auto simp: temporary_def split: if_splits\<close>)
    then show "does (finallyIO (write_body env ?t n s b) (remove_temporary env ?t)) (l @ [Did (Create ?t)])
        (\<lambda>l' r. follows l l' \<and> (r = Inr () \<longrightarrow> P (disk_at env l')))"
    proof (rule does_finallyI)
      fix l'' and r :: "unit res"
      assume r: "follows l l'' \<and> (r = Inr () \<longrightarrow> P (disk_at env l'') \<and> P (AList.delete ?t (disk_at env l'')))"
      have "does (remove_temporary env ?t) l'' (\<lambda>l' x. follows l l' \<and> (r = Inr () \<longrightarrow> P (disk_at env l')))"
        by (rule remove_temporary_follows) (use r in \<open>auto simp: temporary_def\<close>)
      then show "does (remove_temporary env ?t) l''
          (\<lambda>l' x. follows l l' \<and> ((case x of Inl y \<Rightarrow> Inl y | Inr _ \<Rightarrow> r) = Inr () \<longrightarrow> P (disk_at env l')))"
        by (rule does_mono) (auto split: sum.splits)
    qed
  qed
  then show ?thesis by (simp add: does_def write_file_def Let_def)
qed

lemma write_control:
  assumes "n \<in> set CONTROLS" "upheld ok l"
  shows "does (write_file env sp n s True) l
     (\<lambda>l' r. follows l l' \<and> (r = Inr () \<longrightarrow> (\<exists>f. map_of (disk_at env l') n = Some f \<and> fi_bytes f = s)))"
proof (rule write_follows [OF _ assms(2)])
  fix t l'
  assume t: "temporary t" and f: "follows l l'" and d: "disk_at env l' = apply_op (Create t) (disk_at env l)"
  let ?P = "\<lambda>d. \<exists>f. map_of d n = Some f \<and> fi_bytes f = s"
  have nt: "n \<noteq> t" using temporary_names(2) [OF t] assms(1) by blast
  define l1 where "l1 = l' @ [Did (Fill t s)]"
  define l2 where "l2 = l1 @ [Did (Rename t n)]"
  have f1: "follows l l1" unfolding l1_def by (rule follows_quiet [OF f]) (simp add: t)
  have f2: "follows l l2" unfolding l2_def by (rule follows_quiet [OF f1]) (simp add: t assms(1))
  have f3: "follows l (l2 @ [Did Sync])" by (rule follows_quiet [OF f2]) simp
  have p: "?P (disk_at env (l2 @ [Did Sync]))" "?P (AList.delete t (disk_at env (l2 @ [Did Sync])))"
    using nt unfolding l2_def l1_def disk_at_snoc d by (simp_all add: update_conv delete_conv)
  show "does (write_body env t n s True) l' (\<lambda>l'' r. follows l l'' \<and> (r = Inr () \<longrightarrow> ?P (disk_at env l'') \<and> ?P (AList.delete t (disk_at env l''))))"
    unfolding write_body_def if_True
    by (rule does_emit_bind, use f in simp, fold l1_def, rule does_emit_bind, use f1 in simp, fold l2_def, rule does_emit)
      (use f2 f3 p in simp_all)
qed

lemma write_record:
  assumes "record_match n \<noteq> None" "upheld ok l"
    "length (records (disk_at env l)) < sp_samples sp" "record_bytes (disk_at env l) + length s \<le> sp_bytes sp"
  shows "does (write_file env sp n s False) l (\<lambda>l' r. follows l l')"
proof -
  have "does (write_file env sp n s False) l (\<lambda>l' r. follows l l' \<and> (r = Inr () \<longrightarrow> True))"
  proof (rule write_follows [OF _ assms(2)])
    fix t l'
    assume t: "temporary t" and f: "follows l l'" and d: "disk_at env l' = apply_op (Create t) (disk_at env l)"
    have f1: "follows l (l' @ [Did (Fill t s)])" by (rule follows_quiet [OF f]) (simp add: t)
    let ?l = "l' @ [Did (Fill t s)]"
    have "ok ?l (Did (Link t n))" if "op_error (disk_at env ?l) (Link t n) = None"
    proof (rule link [OF t])
      have r: "records (disk_at env ?l) = records (disk_at env l)"
        by (simp add: d records_update temporary_names(1) [OF t] split: option.split)
      show "linkable sp (disk_at env ?l) t n"
        unfolding linkable_def record_bytes_def r
        using that assms(1,3,4) by (auto simp: d update_conv record_bytes_def split: if_splits)
    qed
    then have f2: "follows l (?l @ [Did (Link t n)])" if "op_error (disk_at env ?l) (Link t n) = None"
      using that by (intro follows_snoc [OF f1])
    have tail: "does (emit env Sync) l'' (\<lambda>l'' r. follows l l'' \<and> (r = Inr () \<longrightarrow> True \<and> True))" if "follows l l''" for l''
      by (rule does_emit) (use that in \<open>auto intro: follows_quiet\<close>)
    have "does (emit env (Unlink t)) l'' (\<lambda>l'' r. follows l l'')" if "follows l l''" for l''
      by (rule does_emit) (use that t in \<open>auto intro: follows_quiet\<close>)
    then have m: "does (bindIO (emit env (Link t n)) (\<lambda>_. emit env (Unlink t))) ?l (\<lambda>l'' r. follows l l'')"
      using f1 f2 by (intro does_emit_bind) blast+
    have "does (bindIO (bindIO (emit env (Link t n)) (\<lambda>_. emit env (Unlink t))) (\<lambda>_. emit env Sync)) ?l
        (\<lambda>l'' r. follows l l'' \<and> (r = Inr () \<longrightarrow> True \<and> True))"
      by (rule does_bindI [OF m _ tail]) simp_all
    then show "does (write_body env t n s False) l' (\<lambda>l'' r. follows l l'' \<and> (r = Inr () \<longrightarrow> True \<and> True))"
      unfolding write_body_def if_False by (intro does_emit_bind) (use f in simp)
  qed
  then show ?thesis by simp
qed

lemma save_control_follows:
  assumes "upheld ok l"
  shows "does (save_control env sp n v) l (\<lambda>l' r. follows l l' \<and> (r = Inr () \<longrightarrow>
     (\<exists>f. map_of (disk_at env l') n = Some f \<and> cd_dumps (en_codec env) v = Some (fi_bytes f))))"
  unfolding save_control_def
proof ((rule does_lift_bind | rule does_look_bind), use assms in \<open>simp add: follows_refl\<close>)+
  fix s r
  assume n: "check (n \<in> set CONTROLS) (StoreError ''CONTROL_NAME_INVALID'') = Inr r"
  fix s u w
  assume s: "encoded (en_codec env) v = Inr s"
  have d: "cd_dumps (en_codec env) v = Some s" using s by (auto simp: encoded_def split: if_splits option.splits)
  show "does (write_file env sp n s True) l (\<lambda>l' r. follows l l' \<and> (r = Inr () \<longrightarrow>
     (\<exists>f. map_of (disk_at env l') n = Some f \<and> cd_dumps (en_codec env) v = Some (fi_bytes f))))"
    by (rule does_mono [OF write_control]) (use n assms d in auto)
qed

lemma save_reporter_follows:
  assumes "upheld ok l"
  shows "does (save_reporter env sp e st) l (\<lambda>l' r. follows l l' \<and> (r = Inr () \<longrightarrow>
     (\<exists>f. map_of (disk_at env l') ''state.json'' = Some f \<and> cd_dumps (en_codec env) (reporter_doc (source_of e) st) = Some (fi_bytes f))))"
  unfolding save_reporter_def by (rule save_control_follows [OF assms])

lemma spool_put_follows:
  assumes "upheld ok l"
  shows "does (spool_put env sp epoch seq v) l (\<lambda>l' r. follows l l')"
  unfolding spool_put_def
proof (rule does_lift_bind, use assms in \<open>simp add: follows_refl\<close>,
    rule does_lift_bind, use assms in \<open>simp add: follows_refl\<close>,
    rule does_lift_bind, use assms in \<open>simp add: follows_refl\<close>,
    rule does_look_bind, use assms in \<open>simp add: follows_refl\<close>)
  fix name payload u existing
  assume name: "record_name epoch seq = Inr name" and payload: "encoded (en_codec env) v = Inr payload"
  show "does (case existing of
       Some old \<Rightarrow> liftR (if old = payload then Inr False else Inl (StoreError ''CONTENT_CONFLICT''))
     | None \<Rightarrow>
         bindIO (looking env (entries sp)) (\<lambda>rows.
         bindIO (liftR (check (length rows < sp_samples sp \<and> row_bytes rows + length payload \<le> sp_bytes sp)
                              (StoreError ''STORE_FULL''))) (\<lambda>_.
         bindIO (write_file env sp name payload False) (\<lambda>_. liftR (Inr True))))) l (\<lambda>l' r. follows l l')"
  proof (cases existing)
    case None
    have "does (write_file env sp name payload False) l (\<lambda>l' r. follows l l')"
      if "entries sp (disk_at env l) = Inr rows" "length rows < sp_samples sp" "row_bytes rows + length payload \<le> sp_bytes sp" for rows
      by (rule write_record [OF _ assms]) (use that entries_rows [OF that(1)] record_name_match [OF name] in simp_all)
    then show ?thesis
      unfolding None option.case
      by (intro does_look_bind does_lift_bind does_bindI [where P = "\<lambda>l' r. follows l l'"] does_lift)
        (use assms in \<open>auto simp: follows_refl\<close>)
  qed (use assms in \<open>simp add: does_lift follows_refl\<close>)
qed

lemma spool_ack_follows:
  assumes "upheld ok l" "fetched (en_codec env) r" "accepted (source_of e) l r"
    "checkpointed (en_codec env) (source_of e) (disk_at env l) r"
  shows "does (spool_ack env sp r) l (\<lambda>l' x. follows l l')"
proof -
  have "does (bindIO (emit env (Unlink (rc_name r))) (\<lambda>_. bindIO (emit env Sync) (\<lambda>_. liftR (Inr True)))) l (\<lambda>l' x. follows l l')"
    if p: "read_bytes (disk_at env l) (rc_name r) (sp_sample_bytes sp) = Inr (Some s)" "cd_sha (en_codec env) s = rc_sha r" for s
  proof -
    have "removable env (source_of e) l r"
      using p assms by (auto simp: removable_def read_bytes_def split: option.splits)
    then have f: "follows l (l @ [Did (Unlink (rc_name r))])"
      by (intro follows_snoc follows_refl assms unlink)
    moreover have "follows l (l @ [Did (Unlink (rc_name r))] @ [Did Sync])"
      using follows_quiet [OF f, of Sync] by simp
    ultimately show ?thesis
      by (intro does_emit_bind does_lift) (use assms in \<open>simp_all add: follows_refl\<close>)
  qed
  then show ?thesis
    unfolding spool_ack_def
    by (intro does_lift_bind does_look_bind) (use assms in \<open>auto simp: follows_refl does_lift intro!: does_lift_bind split: option.splits\<close>)
qed

lemma save_follows: "upheld ok l \<Longrightarrow> does (save_control env sp n v) l (\<lambda>l' r. follows l l')"
  by (rule does_mono [OF save_control_follows]) auto

lemma save_follows_from: "follows l l' \<Longrightarrow> does (save_control env sp n v) l' (\<lambda>l'' r. follows l l'')"
  by (rule does_mono [OF save_follows]) (auto intro: follows_guarded follows_trans)

lemma checkpoint_step_covers:
  assumes "checkpoint_step c st r received = Inr st'"
  shows "\<exists>k. map_of (rp_checkpoints st') (rc_epoch r) = Some k \<and> rc_seq r \<le> ck_sequence k"
  using assms by (auto simp: checkpoint_step_def Let_def update_conv split: if_splits option.splits)

lemma take_answer_follows:
  assumes "upheld ok l" "fetched (en_codec env) r" "Sent (rc_payload r) (Inr v) \<in> set l" "answered v"
  shows "does (take_answer env sp e r st (get v ''ack'')) l (\<lambda>l' x. follows l l')"
proof (cases "bindR (verify_ack (get v ''ack'') r (source_of e)) (checkpoint_step (en_codec env) st r)")
  case (Inr st')
  then obtain received where a: "verify_ack (get v ''ack'') r (source_of e) = Inr received" "checkpoint_step (en_codec env) st r received = Inr st'"
    by auto
  obtain k where k: "map_of (rp_checkpoints st') (rc_epoch r) = Some k" "rc_seq r \<le> ck_sequence k"
    using checkpoint_step_covers [OF a(2)] by blast
  have "does (bindIO (save_reporter env sp e st') (\<lambda>_. spool_ack env sp r)) l (\<lambda>l' x. follows l l')"
  proof (rule does_bindI [OF save_reporter_follows [OF assms(1)]])
    fix l' and u :: unit
    assume s: "follows l l' \<and> (Inr u = Inr () \<longrightarrow> (\<exists>f. map_of (disk_at env l') ''state.json'' = Some f
        \<and> cd_dumps (en_codec env) (reporter_doc (source_of e) st') = Some (fi_bytes f)))"
    have "does (spool_ack env sp r) l' (\<lambda>l'' x. follows l' l'')"
    proof (rule spool_ack_follows [OF _ assms(2)])
      show "accepted (source_of e) l' r" using s assms(3,4) a(1) by (auto simp: accepted_def follows_def)
      show "checkpointed (en_codec env) (source_of e) (disk_at env l') r"
        unfolding checkpointed_def using s k by auto
    qed (use s follows_guarded in blast)
    then show "does (spool_ack env sp r) l' (\<lambda>l'' x. follows l l'')"
      by (rule does_mono) (use s follows_trans in blast)
  qed simp
  then have t: "does (trying (bindIO (save_reporter env sp e st') (\<lambda>_. spool_ack env sp r))) l (\<lambda>l' x. follows l l')"
    by (rule does_trying)
  show ?thesis
    unfolding take_answer_def Inr sum.case by (rule does_bindI [OF t]) (simp_all add: does_lift)
qed (simp add: take_answer_def does_lift follows_refl assms(1))

lemma take_refusal_follows:
  assumes "upheld ok l"
  shows "does (take_refusal env sp e r st v) l (\<lambda>l' x. follows l l')"
  unfolding take_refusal_def Let_def save_reporter_def
  by (auto intro!: does_lift follows_refl assms does_bindI [where P = "\<lambda>l' x. follows l l'"] does_trying save_follows)

text \<open>A step that submits at most one record.\<close>

definition advances :: "nat \<Rightarrow> event list \<Rightarrow> event list \<Rightarrow> bool" where
  "advances n l l' = (upheld ok l' \<and> sent_count l' \<le> sent_count l + n)"

lemma follows_advances: "follows l l' \<Longrightarrow> advances n l l'"
  by (simp add: follows_def advances_def)

lemma deliver_record_advances:
  assumes "upheld ok l" "fetched (en_codec env) r" "int (sent_count l) < max_exports e"
  shows "does (deliver_record env sp e r st) l (\<lambda>l' x. advances 1 l l')"
proof -
  define a where "a = re_sender e l (rc_payload r)"
  define l1 where "l1 = l @ [Sent (rc_payload r) a]"
  have g: "upheld ok l1" using assms by (simp add: l1_def send)
  have adv: "advances 1 l l'" if "follows l1 l'" for l'
    using that by (simp add: l1_def advances_def follows_def)
  have "does (case a of
       Inl x \<Rightarrow> liftR (Inr (st, Inl x))
     | Inr v \<Rightarrow> if answered v then take_answer env sp e r st (get v ''ack'') else take_refusal env sp e r st v) l1
      (\<lambda>l' x. follows l1 l')"
    by (cases a) (auto intro!: does_lift follows_refl take_answer_follows take_refusal_follows g assms(2), simp add: l1_def)
  then have "does (case a of
       Inl x \<Rightarrow> liftR (Inr (st, Inl x))
     | Inr v \<Rightarrow> if answered v then take_answer env sp e r st (get v ''ack'') else take_refusal env sp e r st v) l1
      (\<lambda>l' x. advances 1 l l')"
    by (rule does_mono) (rule adv)
  then show ?thesis
    by (simp add: deliver_record_def does_def bindIO_def send_record_def Let_def a_def [symmetric] l1_def [symmetric])
qed

lemma drain_records_advances:
  assumes "upheld ok l" "\<forall>r\<in>set rs. fetched (en_codec env) r" "sent_count l \<le> pg_attempts pg"
  shows "does (drain_records env sp e rs pg) l (\<lambda>l' x. upheld ok l' \<and> (\<forall>pg'. x = Inr pg' \<longrightarrow> sent_count l' \<le> pg_attempts pg'))"
  using assms
proof (induction rs arbitrary: pg l)
  case (Cons r rs)
  let ?Q = "\<lambda>l' x. upheld ok l' \<and> (\<forall>pg'. x = Inr pg' \<longrightarrow> sent_count l' \<le> pg_attempts pg')"
  show ?case
  proof (cases "max_exports e \<le> int (pg_attempts pg) \<or> pg_reason pg \<noteq> None")
    case True
    then show ?thesis using Cons.prems by (simp add: does_lift)
  next
    case False
    then have room: "int (sent_count l) < max_exports e" using Cons.prems(3) by simp
    have deliver: "does (bindIO (deliver_record env sp e r (pg_state pg)) (\<lambda>(st, outcome).
            let pg = pg\<lparr>pg_state := st, pg_attempts := pg_attempts pg + 1\<rparr>
            in case outcome of
                 Inr _ \<Rightarrow> drain_records env sp e rs (pg\<lparr>pg_delivered := pg_delivered pg + 1\<rparr>)
               | Inl x \<Rightarrow> liftR (if delivery_fault x then Inr (pg\<lparr>pg_reason := Some (fault_reason ''DELIVERY_FAILED'' x)\<rparr>) else Inl x))) l ?Q"
    proof (rule does_bindI [OF deliver_record_advances [OF Cons.prems(1) _ room]])
      show "fetched (en_codec env) r" using Cons.prems(2) by simp
      fix l' and x :: "reporter \<times> unit res"
      assume a: "advances 1 l l'"
      then have s: "upheld ok l'" "sent_count l' \<le> pg_attempts pg + 1" using Cons.prems(3) by (auto simp: advances_def)
      obtain st outcome where x: "x = (st, outcome)" by (cases x)
      show "does (case x of (st, outcome) \<Rightarrow>
            let pg = pg\<lparr>pg_state := st, pg_attempts := pg_attempts pg + 1\<rparr>
            in case outcome of
                 Inr _ \<Rightarrow> drain_records env sp e rs (pg\<lparr>pg_delivered := pg_delivered pg + 1\<rparr>)
               | Inl x \<Rightarrow> liftR (if delivery_fault x then Inr (pg\<lparr>pg_reason := Some (fault_reason ''DELIVERY_FAILED'' x)\<rparr>) else Inl x)) l' ?Q"
        unfolding x prod.case Let_def
        by (cases outcome) (use s Cons.prems(2) in \<open>auto intro!: does_lift Cons.IH\<close>)
    qed (simp add: advances_def)
    show ?thesis
      unfolding drain_records.simps if_not_P [OF False]
    proof (rule does_lift_bind)
      show "does (case map_of (rp_blocked (pg_state pg)) (record_key r) of
          Some (sha, _) \<Rightarrow> if sha \<noteq> rc_sha r then liftR (Inl (ObservationError ''QUARANTINED_CONTENT_CHANGED'')) else drain_records env sp e rs pg
        | None \<Rightarrow> bindIO (deliver_record env sp e r (pg_state pg)) (\<lambda>(st, outcome).
            let pg = pg\<lparr>pg_state := st, pg_attempts := pg_attempts pg + 1\<rparr>
            in case outcome of
                 Inr _ \<Rightarrow> drain_records env sp e rs (pg\<lparr>pg_delivered := pg_delivered pg + 1\<rparr>)
               | Inl x \<Rightarrow> liftR (if delivery_fault x then Inr (pg\<lparr>pg_reason := Some (fault_reason ''DELIVERY_FAILED'' x)\<rparr>) else Inl x))) l ?Q"
        using deliver Cons.prems Cons.IH [OF Cons.prems(1) _ Cons.prems(3)]
        by (auto intro!: does_lift split: option.split)
    qed (use Cons.prems in simp)
  qed
qed (simp add: does_lift)

lemma read_row_fetched:
  assumes "read_row c sp r d = Inr x" "record_match (rw_name r) = Some (rw_epoch r, rw_seq r)"
  shows "fetched c x"
proof -
  obtain payload where p: "(case payload of None \<Rightarrow> Inl (StoreError ''CONTENT_CHANGED'')
      | Some s \<Rightarrow> record_of c (rw_name r) (rw_epoch r) (rw_seq r) s) = Inr x"
    using assms(1) unfolding read_row_def bindR_eq_Inr by blast
  then obtain s where "record_of c (rw_name r) (rw_epoch r) (rw_seq r) s = Inr x" by (cases payload) simp_all
  then obtain document where "x = \<lparr>rc_name = rw_name r, rc_epoch = rw_epoch r, rc_seq = rw_seq r, rc_document = document,
      rc_payload = s, rc_sha = cd_sha c s\<rparr>"
    unfolding record_of_def bindR_eq_Inr by blast
  then show ?thesis using assms(2) by (simp add: fetched_def)
qed

lemma pending_fetched:
  assumes "upheld ok l"
  shows "does (pending_records env sp limit excluded) l (\<lambda>l' x. l' = l \<and> (\<forall>rs. x = Inr rs \<longrightarrow> (\<forall>r\<in>set rs. fetched (en_codec env) r)))"
  unfolding pending_records_def
proof (rule does_lift_bind, simp, rule does_lift_bind, simp, rule does_look_bind, simp)
  fix rows
  assume "entries sp (disk_at env l) = Inr rows"
  note m = entries_rows(3) [OF this]
  let ?rows = "take (nat limit) (filter (\<lambda>r. (rw_epoch r, rw_seq r) \<notin> set excluded) rows)"
  have "does (mapIO (\<lambda>r. looking env (read_row (en_codec env) sp r)) ?rows) l
      (\<lambda>l' x. l' = l \<and> (\<forall>ys. x = Inr ys \<longrightarrow> list_all2 (\<lambda>r y. fetched (en_codec env) y) ?rows ys))"
    by (rule does_mapI [where I = "\<lambda>l'. l' = l"])
      (use m in \<open>auto intro!: does_look read_row_fetched dest!: in_set_takeD\<close>)
  then show "does (mapIO (\<lambda>r. looking env (read_row (en_codec env) sp r)) ?rows) l
      (\<lambda>l' x. l' = l \<and> (\<forall>rs. x = Inr rs \<longrightarrow> (\<forall>r\<in>set rs. fetched (en_codec env) r)))"
    by (rule does_mono) (blast dest: list_all2_right)
qed

abbreviation on_course :: "event list \<Rightarrow> progress \<Rightarrow> bool" where
  "on_course l pg \<equiv> upheld ok l \<and> sent_count l \<le> pg_attempts pg"

lemma drain_on_course:
  assumes "on_course l pg"
  shows "does (drain env sp e pg) l (\<lambda>l' x. upheld ok l' \<and> (\<forall>pg'. x = Inr pg' \<longrightarrow> sent_count l' \<le> pg_attempts pg'))"
  unfolding drain_def
proof (rule does_bindI [OF pending_fetched])
  fix l' and rs :: "spool_record list"
  assume "l' = l \<and> (\<forall>xs. Inr rs = Inr xs \<longrightarrow> (\<forall>r\<in>set xs. fetched (en_codec env) r))"
  then show "does (drain_records env sp e rs pg) l' (\<lambda>l' x. upheld ok l' \<and> (\<forall>pg'. x = Inr pg' \<longrightarrow> sent_count l' \<le> pg_attempts pg'))"
    by (intro drain_records_advances) (use assms in auto)
qed (use assms in auto)

lemma import_sample_follows:
  assumes "upheld ok l"
  shows "does (import_sample env sp e st v) l (\<lambda>l' x. follows l l')"
  unfolding import_sample_def spool_get_def Let_def
  by (auto intro!: does_lift_bind does_lift does_bindI [where P = "\<lambda>l' x. follows l l'"] does_look spool_put_follows
      follows_refl assms does_mono [OF spool_put_follows] elim: follows_trans dest: follows_guarded split: option.split)

lemma acquire_on_course:
  assumes "on_course l pg"
  shows "does (acquire env sp e pg) l (\<lambda>l' x. upheld ok l' \<and> (\<forall>v n pg'. x = Inr (v, n, pg') \<longrightarrow> sent_count l' \<le> pg_attempts pg'))"
proof -
  have t: "does (trying (import_sample env sp e (pg_state pg) v)) l (\<lambda>l' x. follows l l')" for v
    by (rule does_trying) (use assms import_sample_follows in blast)
  have f: "upheld ok l' \<and> sent_count l' \<le> pg_attempts pg" if "follows l l'" for l'
    using that assms by (simp add: follows_def)
  show ?thesis
    unfolding acquire_def Let_def
    by (cases "candidate (en_codec env) e")
      (auto intro!: does_lift does_bindI [OF t] simp: assms dest!: f split: sum.splits if_splits)
qed

lemma starting_follows:
  assumes "upheld ok l"
  shows "does (starting_state env sp e) l (\<lambda>l' x. follows l l')"
  unfolding starting_state_def load_control_def spool_stats_def save_reporter_def Let_def
  by (auto intro!: does_lift_bind does_lift does_bindI [where P = "\<lambda>l' x. follows l l'"] does_look does_look_bind save_follows_from
      follows_refl assms split: option.split)

lemma report_guarded: "does (report_locked env sp e) [] (\<lambda>l x. upheld ok l)"
proof -
  let ?on = "\<lambda>l x. upheld ok l \<and> (\<forall>pg. x = Inr pg \<longrightarrow> sent_count l \<le> pg_attempts pg)"
  have tail: "does (bindIO (spool_stats env sp) (\<lambda>stats. bindIO (save_control env sp ''status.json'' (report_result e v n pg stats))
        (\<lambda>_. liftR (Inr (report_result e v n pg stats))))) l (\<lambda>l x. upheld ok l)" if "upheld ok l" for l v n pg
    unfolding spool_stats_def
    by (rule does_look_bind, use that in simp, rule does_bindI [OF save_follows [OF that]])
      (auto intro: does_lift follows_guarded)
  have second: "does (bindIO (drain env sp e pg) (\<lambda>pg. bindIO (spool_stats env sp) (\<lambda>stats.
        bindIO (save_control env sp ''status.json'' (report_result e v n pg stats))
        (\<lambda>_. liftR (Inr (report_result e v n pg stats)))))) l (\<lambda>l x. upheld ok l)" if "on_course l pg" for l v n pg
    by (rule does_bindI [OF drain_on_course [OF that]]) (auto intro: tail)
  have first: "does (bindIO (drain env sp e pg) (\<lambda>pg. bindIO (acquire env sp e pg) (\<lambda>(v, n, pg). bindIO (drain env sp e pg) (\<lambda>pg.
        bindIO (spool_stats env sp) (\<lambda>stats. bindIO (save_control env sp ''status.json'' (report_result e v n pg stats))
        (\<lambda>_. liftR (Inr (report_result e v n pg stats)))))))) l (\<lambda>l x. upheld ok l)" if "on_course l pg" for l pg
    by (rule does_bindI [OF drain_on_course [OF that]], simp, rule does_bindI [OF acquire_on_course])
      (auto intro!: second split: prod.splits)
  show ?thesis
    unfolding report_locked_def Let_def
    by (rule does_bindI [OF starting_follows]) (auto intro!: first simp: follows_def)
qed

end

section \<open>The guards of the properties\<close>

definition removal_guard :: "spool_env \<Rightarrow> report_env \<Rightarrow> event list \<Rightarrow> event \<Rightarrow> bool" where
  "removal_guard env e l x =
     (\<forall>n. x = Did (Unlink n) \<longrightarrow> record_match n \<noteq> None \<longrightarrow> (\<exists>r. rc_name r = n \<and> removable env (source_of e) l r))"

definition in_limits :: "spool \<Rightarrow> disk \<Rightarrow> bool" where
  "in_limits sp d = (length (records d) \<le> sp_samples sp \<and> record_bytes d \<le> sp_bytes sp)"

definition limit_guard :: "spool_env \<Rightarrow> spool \<Rightarrow> event list \<Rightarrow> event \<Rightarrow> bool" where
  "limit_guard env sp l x = (in_limits sp (disk_at env l) \<longrightarrow> in_limits sp (apply_event x (disk_at env l)))"

definition submission_guard :: "report_env \<Rightarrow> event list \<Rightarrow> event \<Rightarrow> bool" where
  "submission_guard e l x = (is_sent x \<longrightarrow> int (sent_count l) < max_exports e)"

lemma quiet_events:
  "quiet_event x \<Longrightarrow> \<not> is_sent x \<and> (\<forall>n. x = Did (Unlink n) \<longrightarrow> record_match n = None) \<and> records (apply_event x d) = records d"
proof (cases x)
  case (Did op)
  assume "quiet_event x"
  then show ?thesis
    unfolding Did
    by (cases op) (auto simp: temporary_names records_update records_delete control_no_record split: option.split)
qed simp

lemma linkable_in_limits: "linkable sp d t n \<Longrightarrow> in_limits sp (apply_op (Link t n) d)"
  by (auto simp: linkable_def in_limits_def record_bytes_def records_new)

interpretation removal: spool_guard env sp e "removal_guard env e" for env sp e
  by unfold_locales (use quiet_events in \<open>auto simp: removal_guard_def\<close>)

interpretation limits: spool_guard env sp e "limit_guard env sp" for env sp e
proof
  show "limit_guard env sp l x" if "quiet_event x" for l x
    using quiet_events [OF that] by (simp add: limit_guard_def in_limits_def record_bytes_def)
  show "limit_guard env sp l (Did (Unlink (rc_name r)))" for l r
    using records_remove [of "rc_name r" "disk_at env l"] by (auto simp: limit_guard_def in_limits_def)
  show "limit_guard env sp l (Did (Link t n))" if "linkable sp (disk_at env l) t n" for l t n
    using linkable_in_limits [OF that] by (simp add: limit_guard_def del: apply_op.simps)
qed (simp add: limit_guard_def)

interpretation submissions: spool_guard env sp e "submission_guard e" for env sp e
  by unfold_locales (use quiet_events in \<open>auto simp: submission_guard_def\<close>)

interpretation temporaries: spool_guard env sp e "\<lambda>l x. \<forall>t. x = Did (Create t) \<longrightarrow> temporary t" for env sp e
  by unfold_locales auto

section \<open>A whole run of the reporter\<close>

lemma report_run_guarded:
  assumes "\<And>sp. open_store (get (re_config e) ''max_pending_samples'') (get (re_config e) ''max_pending_bytes'') (PInt (512 * 1024)) False = Inr sp
      \<Longrightarrow> does (report_locked env sp e) [] (\<lambda>l x. upheld ok l)"
  shows "upheld ok (fst (report_run env e []))"
proof -
  have "does (report_run env e) [] (\<lambda>l x. upheld ok l)"
    unfolding report_run_def by (intro does_lift_bind assms) simp_all
  then show ?thesis by (simp add: does_def split: prod.splits)
qed

lemma upheld_prefix: "upheld ok (l @ m) \<Longrightarrow> upheld ok l"
  by (auto simp: upheld_def)

lemma limits_kept: "upheld (limit_guard env sp) l \<Longrightarrow> in_limits sp (en_disk env) \<Longrightarrow> in_limits sp (disk_at env l)"
  by (induction l rule: rev_induct) (auto simp: limit_guard_def replay_def [of _ "[]"])

lemma submissions_bounded: "upheld (submission_guard e) l \<Longrightarrow> int (sent_count l) \<le> max 0 (max_exports e)"
  by (induction l rule: rev_induct) (auto simp: submission_guard_def split: if_splits)

lemma temporary_blocks:
  assumes "map_of es t = Some f" "temporary t"
  shows "\<exists>x. foldR (entry_row sp d) es rows = Inl x"
  using assms(1)
proof (induction es arbitrary: rows)
  case (Cons a es)
  show ?case
  proof (cases "entry_row sp d a rows")
    case (Inr mid)
    have "fst a \<noteq> t"
    proof
      assume "fst a = t"
      moreover have "t \<noteq> ''.store.lock''" "t \<notin> set CONTROLS" "record_match t = None"
        using temporary_names [OF assms(2)] assms(2) by (auto simp: temporary_def)
      ultimately show False using Inr by (cases a) (simp add: entry_row_def)
    qed
    then show ?thesis using Cons Inr by (cases a) auto
  qed simp
qed simp

lemma temporary_blocks_entries: "map_of d t = Some f \<Longrightarrow> temporary t \<Longrightarrow> \<exists>x. entries sp d = Inl x"
  using temporary_blocks [of d t f sp d "[]"] by (auto simp: entries_def)

end
