(* ===== verification/ObservationSafety.thy ===== *)
theory ObservationSafety
  imports SpoolSafety
begin

text \<open>
  The properties of the observation pipeline: what a run of the reporter has established when it
  removes a record, the bounds of the spool and of the submissions, and what an interrupted write
  does.
\<close>

section \<open>A configuration\<close>

definition sample_source :: string where "sample_source = ''00000000-0000-4000-8000-000000000001''"

definition sample_api :: url_parts where
  "sample_api = \<lparr>up_scheme = ''https'', up_host = Some ''api.example'', up_loopback = None, up_user = False, up_port = Inr None,
     up_path = ''/internal/inference-observations'', up_query = [], up_fragment = []\<rparr>"

definition reporter_config :: pyval where
  "reporter_config = PDict
     [(''version'', PInt 1), (''source_id'', PStr sample_source), (''expected_hostname'', PStr ''h1''), (''ssh'', PDict []),
      (''api_url'', PStr ''https://api.example/internal/inference-observations''), (''credential_file'', PStr ''/etc/token''),
      (''max_pending_samples'', PInt 10), (''max_pending_bytes'', PInt 1000), (''max_exports_per_run'', PInt 2)]"

definition sample_reporter :: report_env where
  "sample_reporter = \<lparr>re_config = reporter_config, re_hostname = ''h1'', re_urlsplit = \<lambda>_. Inr sample_api, re_now = 100000,
     re_token = Inr ''t'', re_source = Inl OSError, re_sender = \<lambda>_ _. Inl OSError\<rparr>"

definition sample_codec :: codec where
  "sample_codec = \<lparr>cd_dumps = \<lambda>_. Some ''{}'', cd_loads = \<lambda>_. None, cd_sha = \<lambda>_. replicate 64 CHR ''0''\<rparr>"

definition empty_spool :: spool_env where
  "empty_spool = \<lparr>en_codec = sample_codec, en_disk = [], en_fault = \<lambda>_ _. None, en_uuid = \<lambda>_. ''0''\<rparr>"

lemma sample_source_uuid: "is_uuid sample_source"
  by code_simp

lemma reporter_config_ok: "observation_config (\<lambda>_. Inr sample_api) ''h1'' ReportRole reporter_config = Inr ()"
proof -
  have a: "char_count ''https://api.example/internal/inference-observations'' \<le> 2048"
    "list_all (\<lambda>c. 32 \<le> code c) ''https://api.example/internal/inference-observations''" by code_simp+
  have b: "head_match is_alnum (\<lambda>c. is_alnum c \<or> one_of ''.-'' c) 0 127 ''h1''" by code_simp
  have c: "is_absolute ''/etc/token''" "\<not> has_dotdot ''/etc/token''" by code_simp+
  show ?thesis
    by (simp add: observation_config_def config_head_def reporter_config_def has_keys_def REPORTER_def COMMON_def b c
        canonical_uuid_def sample_source_uuid endpoint_def a endpoint_ok_def sample_api_def is_string_def observed_path_def
        reporter_ok_def int_between_def)
qed

lemma reporter_opens:
  "report_run env (sample_reporter\<lparr>re_sender := send\<rparr>) = report_locked env
     \<lparr>sp_samples = 10, sp_bytes = 1000, sp_sample_bytes = 524288, sp_read_only = False\<rparr> (sample_reporter\<lparr>re_sender := send\<rparr>)"
  using reporter_config_ok
  by (auto simp: fun_eq_iff report_run_def sample_reporter_def bindIO_def liftR_def instant_def MAX_INSTANT_def open_store_def
      int_between_def reporter_config_def)

section \<open>A run that delivers a record\<close>

definition pending_sample :: pyval where
  "pending_sample =
     PDict [(''version'', PInt 1), (''sourceId'', PStr sample_source), (''epoch'', PStr sample_source), (''sequence'', PInt 7),
       (''observedAt'', PStr (millis_text 100000)),
       (''host'', PDict [(''state'', PStr ''SOURCE_FAILED''), (''metrics'', PDict [])]),
       (''inference'', snapshot_of (PInt 100) ''SOURCE_FAILED''
          (PDict [(''sourceId'', PStr sample_source), (''bootId'', PNone), (''processId'', PNone), (''configId'', PNone)])
          [] [] (map fst DEFINITIONS)),
       (''reporterReceivedAt'', PStr (millis_text 100000))]"

definition delivering_codec :: codec where
  "delivering_codec =
     \<lparr>cd_dumps = \<lambda>v. Some (if get v ''kind'' = PStr ''reporter'' then ''s'' else ''x''),
      cd_loads = \<lambda>s. Some (if s = ''s'' then reporter_doc (PStr sample_source) \<lparr>rp_checkpoints = [], rp_blocked = []\<rparr> else pending_sample),
      cd_sha = \<lambda>_. replicate 64 CHR ''0''\<rparr>"

definition pending_name :: string where "pending_name = record_text sample_source 7"

definition delivering_spool :: spool_env where
  "delivering_spool =
     \<lparr>en_codec = delivering_codec,
      en_disk = [(''state.json'', \<lparr>fi_inode = 1, fi_owned = True, fi_bytes = ''s''\<rparr>),
                 (pending_name, \<lparr>fi_inode = 2, fi_owned = True, fi_bytes = ''x''\<rparr>)],
      en_fault = \<lambda>_ _. None, en_uuid = \<lambda>_. ''0''\<rparr>"

definition pending_answer :: pyval where
  "pending_answer = PDict [(''status'', PInt 200), (''ack'',
     PDict [(''sourceId'', PStr sample_source), (''epoch'', PStr sample_source), (''sequence'', PInt 7), (''status'', PStr ''ACCEPTED''),
            (''contentSha256'', PStr (replicate 64 CHR ''0'')), (''receivedAt'', PStr ''1970-01-01T00:01:40.000Z'')])]"

definition delivering_reporter :: report_env where
  "delivering_reporter = sample_reporter\<lparr>re_sender := \<lambda>_ _. Inr pending_answer\<rparr>"

lemma pending_time: "instant_millis (PStr (millis_text 100000)) = Inr 100000"
  by (simp add: instant_millis_def millis_of_text instant_def MAX_INSTANT_def)

lemma pending_identity:
  "metrics_identity (PDict [(''sourceId'', PStr sample_source), (''bootId'', PNone), (''processId'', PNone), (''configId'', PNone)])
     = Inr (PDict [(''sourceId'', PStr sample_source), (''bootId'', PNone), (''processId'', PNone), (''configId'', PNone)])"
  by code_simp

lemma pending_snapshot: "validate_snapshot (get pending_sample ''inference'') = Inr ()"
proof -
  have "number_up_to (10 ^ 12) (PInt 100) = Inr (PInt 100)" by (rule small_int_number(1)) simp_all
  then show ?thesis
    by (simp add: validate_snapshot_def snapshot_head_def pending_sample_def snapshot_of_def has_keys_def SNAPSHOT_KEYS_def
        SOURCE_STATES_def names_ok_def not_reported_def MAX_ENGINE_GROUPS_def pending_identity)
qed

lemma pending_interval: "\<exists>r. interval PNone (get pending_sample ''inference'') (PInt 180) = Inr r"
proof -
  have g: "any_number (PInt 180) = Inr (PInt 180)" by (rule small_int_number(1)) simp_all
  show ?thesis
    unfolding interval_def pending_snapshot g bindR_simps
    by (simp add: zero_number_def Let_def split: prod.splits)
qed

lemma pending_host: "\<exists>h. normalize_host (PDict [(''state'', PStr ''SOURCE_FAILED''), (''metrics'', PDict [])]) = Inr h"
  by (simp add: normalize_host_def has_keys_def HOST_STATES_def HOST_UNITS_def host_item_def missing_item_def is_string_def)

lemma pending_valid: "validate_sample delivering_codec pending_sample True = Inr ()"
proof -
  obtain r where i: "interval PNone (get pending_sample ''inference'') (PInt 180) = Inr r" using pending_interval by blast
  obtain host where host: "normalize_host (PDict [(''state'', PStr ''SOURCE_FAILED''), (''metrics'', PDict [])]) = Inr host"
    using pending_host by blast
  have h: "sample_head pending_sample True = Inr 100000"
    by (simp add: sample_head_def pending_sample_def has_keys_def CORE_FIELDS_def canonical_uuid_def sample_source_uuid MAX_SEQUENCE_def
        pending_time host)
  show ?thesis
    unfolding validate_sample_def h i bindR_simps Let_def inference_checked_def
    by (simp add: pending_sample_def snapshot_of_def has_nul_label_def pending_time canonical_bytes_def delivering_codec_def MAX_SAMPLE_BYTES_def)
qed

abbreviation run_spool :: spool where
  "run_spool \<equiv> \<lparr>sp_samples = 10, sp_bytes = 1000, sp_sample_bytes = 524288, sp_read_only = False\<rparr>"

definition pending_record :: spool_record where
  "pending_record = \<lparr>rc_name = pending_name, rc_epoch = sample_source, rc_seq = 7, rc_document = pending_sample, rc_payload = ''x'',
     rc_sha = replicate 64 CHR ''0''\<rparr>"

definition delivered_log :: "event list" where
  "delivered_log = [Sent ''x'' (Inr pending_answer), Did (Create ''.tmp-0''), Did (Fill ''.tmp-0'' ''s''),
     Did (Rename ''.tmp-0'' ''state.json''), Did Sync]"

lemma pending_match: "record_match pending_name = Some (sample_source, 7)"
  by (simp add: pending_name_def record_match_text sample_source_uuid MAX_SEQUENCE_def)

lemma pending_other: "pending_name \<notin> set CONTROLS" "pending_name \<noteq> ''state.json''" "pending_name \<noteq> ''status.json''"
    "pending_name \<noteq> ''.tmp-0''" "pending_name \<noteq> ''.store.lock''"
proof -
  have n: "record_match ''state.json'' = None" "record_match ''status.json'' = None" "record_match ''.tmp-0'' = None"
    "record_match ''.store.lock'' = None" by (simp_all add: record_match_def Let_def)
  show "pending_name \<notin> set CONTROLS" using control_no_record [of pending_name] pending_match by auto
  show "pending_name \<noteq> ''state.json''" "pending_name \<noteq> ''status.json''" "pending_name \<noteq> ''.tmp-0''" "pending_name \<noteq> ''.store.lock''"
    using n pending_match by (metis option.distinct(1))+
qed

lemma delivering_starts:
  "starting_state delivering_spool run_spool delivering_reporter [] = ([], Inr \<lparr>rp_checkpoints = [], rp_blocked = []\<rparr>)"
  by (simp add: starting_state_def load_control_def bindIO_def liftR_def looking_def CONTROLS_def read_bytes_def delivering_spool_def
      replay_def private_file_def links_def control_limit_def decoded_def delivering_codec_def encoded_def reporter_doc_def
      reporter_state_def has_keys_def is_string_def delivering_reporter_def sample_reporter_def reporter_config_def MAX_CHECKPOINTS_def)

lemma delivering_pending:
  "pending_records delivering_spool run_spool 2 [] [] = ([], Inr [pending_record])"
  using pending_other
  by (simp add: pending_records_def bindIO_def liftR_def looking_def entries_def replay_def delivering_spool_def entry_row_def
      CONTROLS_def private_file_def links_def pending_match MAX_SEQUENCE_def read_row_def read_bytes_def record_of_def decoded_def
      delivering_codec_def encoded_def pending_record_def pending_sample_def Let_def)

lemma ack_time: "ack_instant (PStr ''1970-01-01T00:01:40.000Z'') = Inr ''1970-01-01T00:01:40.000Z''"
  by code_simp

lemma delivering_step:
  "\<exists>st. checkpoint_step delivering_codec \<lparr>rp_checkpoints = [], rp_blocked = []\<rparr> pending_record ''1970-01-01T00:01:40.000Z'' = Inr st"
  by (simp add: checkpoint_step_def Let_def MAX_CHECKPOINTS_def canonical_bytes_def delivering_codec_def)

lemma delivering_ack: "verify_ack (get pending_answer ''ack'') pending_record (PStr sample_source) = Inr ''1970-01-01T00:01:40.000Z''"
  by (simp add: verify_ack_def pending_answer_def has_keys_def is_string_def pending_record_def ack_time)

lemma delivering_outbox: "outbox_record delivering_codec (PStr sample_source) pending_record = Inr ()"
  unfolding outbox_record_def using pending_valid
  by (simp add: pending_record_def canonical_bytes_def delivering_codec_def pending_sample_def is_string_def)

abbreviation state_disk :: disk where
  "state_disk \<equiv> [(''state.json'', \<lparr>fi_inode = 3, fi_owned = True, fi_bytes = ''s''\<rparr>),
     (pending_name, \<lparr>fi_inode = 2, fi_owned = True, fi_bytes = ''x''\<rparr>)]"

lemma delivered_disk: "disk_at delivering_spool delivered_log = state_disk"
  using pending_other by (simp add: delivered_log_def replay_def delivering_spool_def fresh_inode_def)

lemma delivering_saves:
  "save_reporter delivering_spool run_spool delivering_reporter st [Sent ''x'' (Inr pending_answer)] = (delivered_log, Inr ())"
  using pending_other
  by (simp add: save_reporter_def save_control_def bindIO_def liftR_def CONTROLS_def encoded_def reporter_doc_def delivering_spool_def
      delivering_codec_def control_limit_def looking_def read_bytes_def replay_def private_file_def links_def write_file_def Let_def
      emit_def finallyIO_def write_body_def remove_temporary_def catchIO_def fresh_inode_def delivered_log_def)

lemma delivering_removes:
  "spool_ack delivering_spool run_spool pending_record delivered_log = (delivered_log @ [Did (Unlink pending_name), Did Sync], Inr True)"
proof -
  have n: "record_name (PStr sample_source) (PInt 7) = Inr pending_name"
    by (simp add: record_name_def sample_source_uuid MAX_SEQUENCE_def pending_name_def)
  have e: "en_codec delivering_spool = delivering_codec" "en_fault delivering_spool = (\<lambda>_ _. None)" by (simp_all add: delivering_spool_def)
  show ?thesis
    using pending_other
    by (simp add: spool_ack_def bindIO_def liftR_def pending_record_def n looking_def delivered_disk read_bytes_def private_file_def
        links_def e delivering_codec_def emit_def)
qed

lemma delivering_delivers:
  "\<exists>pg. drain_records delivering_spool run_spool delivering_reporter [pending_record]
      \<lparr>pg_state = \<lparr>rp_checkpoints = [], rp_blocked = []\<rparr>, pg_delivered = 0, pg_attempts = 0, pg_reason = None\<rparr> []
    = (delivered_log @ [Did (Unlink pending_name), Did Sync], Inr pg)"
proof -
  obtain st where st: "checkpoint_step delivering_codec \<lparr>rp_checkpoints = [], rp_blocked = []\<rparr> pending_record ''1970-01-01T00:01:40.000Z'' = Inr st"
    using delivering_step by blast
  have e: "en_codec delivering_spool = delivering_codec" "source_of delivering_reporter = PStr sample_source" "max_exports delivering_reporter = 2"
    "re_sender delivering_reporter = (\<lambda>_ _. Inr pending_answer)" "rc_payload pending_record = ''x''"
    by (simp_all add: delivering_spool_def delivering_reporter_def sample_reporter_def reporter_config_def max_exports_def pending_record_def)
  have a: "answered pending_answer" by (simp add: answered_def pending_answer_def has_keys_def)
  have "deliver_record delivering_spool run_spool delivering_reporter pending_record \<lparr>rp_checkpoints = [], rp_blocked = []\<rparr> []
    = (delivered_log @ [Did (Unlink pending_name), Did Sync], Inr (st, Inr ()))"
    by (simp add: deliver_record_def send_record_def e bindIO_def a take_answer_def delivering_ack st trying_def delivering_saves
        delivering_removes liftR_def Let_def)
  then show ?thesis by (simp add: e delivering_outbox bindIO_def liftR_def)
qed

lemma delivering_status:
  assumes "disk_at delivering_spool l = [(''state.json'', f)]"
  shows "\<exists>post x. save_control delivering_spool run_spool ''status.json'' (PDict fs) l = (l @ post, x)"
proof -
  have e: "en_codec delivering_spool = delivering_codec" "en_fault delivering_spool = (\<lambda>_ _. None)" "en_uuid delivering_spool = (\<lambda>_. ''0'')"
    by (simp_all add: delivering_spool_def)
  show ?thesis
    by (simp add: e save_control_def bindIO_def liftR_def CONTROLS_def encoded_def looking_def read_bytes_def write_file_def replay_def
      assms [unfolded replay_def] delivering_codec_def control_limit_def emit_def finallyIO_def write_body_def remove_temporary_def
      catchIO_def Let_def)
qed

lemma delivering_run:
  "\<exists>post outcome. report_run delivering_spool delivering_reporter [] = (delivered_log @ Did (Unlink pending_name) # post, outcome)"
proof -
  let ?l = "delivered_log @ [Did (Unlink pending_name), Did Sync]"
  obtain pg where pg: "drain_records delivering_spool run_spool delivering_reporter [pending_record]
      \<lparr>pg_state = \<lparr>rp_checkpoints = [], rp_blocked = []\<rparr>, pg_delivered = 0, pg_attempts = 0, pg_reason = None\<rparr> [] = (?l, Inr pg)"
    using delivering_delivers by blast
  have e: "max_exports delivering_reporter = 2" "re_source delivering_reporter = Inl OSError"
    by (simp_all add: delivering_reporter_def sample_reporter_def reporter_config_def max_exports_def)
  have d: "drain delivering_spool run_spool delivering_reporter
      \<lparr>pg_state = \<lparr>rp_checkpoints = [], rp_blocked = []\<rparr>, pg_delivered = 0, pg_attempts = 0, pg_reason = None\<rparr> [] = (?l, Inr pg)"
    by (simp add: drain_def bindIO_def e excluded_keys_def delivering_pending pg del: drain_records.simps)
  have a: "\<exists>pg'. acquire delivering_spool run_spool delivering_reporter pg ?l = (?l, Inr (None, 0, pg')) \<and> pg_reason pg' \<noteq> None"
    by (simp add: acquire_def candidate_def e acquisition_fault_def delivery_fault_def liftR_def)
  then obtain pg' where a': "acquire delivering_spool run_spool delivering_reporter pg ?l = (?l, Inr (None, 0, pg'))" "pg_reason pg' \<noteq> None"
    by blast
  have s: "drain_records delivering_spool run_spool delivering_reporter rs pg' ?l = (?l, Inr pg')" for rs
    using a'(2) by (cases rs) (simp_all add: liftR_def)
  have k: "disk_at delivering_spool ?l = [(''state.json'', \<lparr>fi_inode = 3, fi_owned = True, fi_bytes = ''s''\<rparr>)]"
    using pending_other by (simp add: replay_def delivered_disk [unfolded replay_def])
  have n: "entries run_spool (disk_at delivering_spool ?l) = Inr []"
    unfolding k by (simp add: entries_def entry_row_def CONTROLS_def private_file_def links_def)
  have "\<exists>r. pending_records delivering_spool run_spool m xs ?l = (?l, r)" for m xs
    by (simp add: pending_records_def bindIO_def liftR_def looking_def n split: sum.splits)
  then obtain p where p: "pending_records delivering_spool run_spool (max_exports delivering_reporter) (excluded_keys (pg_state pg')) ?l = (?l, p)"
    by blast
  have "\<exists>r. drain delivering_spool run_spool delivering_reporter pg' ?l = (?l, r)"
    by (cases p) (simp_all add: drain_def bindIO_def p s)
  then obtain r where r: "drain delivering_spool run_spool delivering_reporter pg' ?l = (?l, r)" by blast
  have "\<exists>stats. spool_stats delivering_spool run_spool ?l = (?l, stats)" by (simp add: spool_stats_def looking_def)
  then obtain stats where stats: "spool_stats delivering_spool run_spool ?l = (?l, stats)" by blast
  note c = delivering_status [OF k]
  have "\<exists>post outcome. report_locked delivering_spool run_spool delivering_reporter [] = (?l @ post, outcome)"
  proof (cases r)
    case (Inl x)
    then show ?thesis by (simp add: report_locked_def bindIO_def delivering_starts d a' r)
  next
    case pg': (Inr pg'')
    show ?thesis
    proof (cases stats)
      case (Inl x)
      then show ?thesis by (simp add: report_locked_def bindIO_def delivering_starts d a' r pg' stats)
    next
      case counts: (Inr n)
      obtain fs where fs: "report_result delivering_reporter None 0 pg'' n = PDict fs" by (simp add: report_result_def Let_def)
      obtain post x where x: "save_control delivering_spool run_spool ''status.json'' (PDict fs) ?l = (?l @ post, x)"
        using c by blast
      then show ?thesis
        by (cases x) (simp_all add: report_locked_def bindIO_def delivering_starts d a' r pg' stats counts Let_def fs liftR_def)
    qed
  qed
  then show ?thesis by (auto simp: reporter_opens delivering_reporter_def)
qed

section \<open>The reporter\<close>

text \<open>C25: A record leaves the spool only after its delivery is on record. Whatever stops the run, at the moment a
  record file is removed its content has the SHA-256 that the server acknowledged for a submission of
  this run, for the epoch and the sequence number in its name, and the state file on disk holds a
  checkpoint of that epoch that covers the number.\<close>

theorem removed_record_was_acknowledged:
  assumes "report_run env e [] = (l, outcome)" "l = pre @ Did (Unlink n) # post" "record_match n = Some (epoch, seq)"
  shows "\<exists>payload v f g st k. Sent payload (Inr v) \<in> set pre
     \<and> get (get v ''ack'') ''epoch'' = PStr epoch \<and> get (get v ''ack'') ''sequence'' = PInt seq
     \<and> in_tuple (get (get v ''ack'') ''status'') [''ACCEPTED'', ''DUPLICATE'']
     \<and> get (get v ''ack'') ''contentSha256'' = PStr (cd_sha (en_codec env) payload)
     \<and> map_of (disk_at env pre) n = Some f \<and> cd_sha (en_codec env) (fi_bytes f) = cd_sha (en_codec env) payload
     \<and> map_of (disk_at env pre) ''state.json'' = Some g \<and> cd_dumps (en_codec env) (reporter_doc (source_of e) st) = Some (fi_bytes g)
     \<and> map_of (rp_checkpoints st) epoch = Some k \<and> seq \<le> ck_sequence k"
proof -
  have "upheld (removal_guard env e) (fst (report_run env e []))"
    by (rule report_run_guarded) (rule removal.report_guarded)
  then have "removal_guard env e pre (Did (Unlink n))" by (simp add: assms(1,2) upheld_def)
  then obtain r where r: "rc_name r = n" "removable env (source_of e) pre r" using assms(3) by (auto simp: removal_guard_def)
  then have m: "epoch = rc_epoch r" "seq = rc_seq r" "rc_sha r = cd_sha (en_codec env) (rc_payload r)"
    using assms(3) by (auto simp: removable_def fetched_def)
  obtain v received where v: "Sent (rc_payload r) (Inr v) \<in> set pre" "verify_ack (get v ''ack'') r (source_of e) = Inr received"
    using r(2) by (auto simp: removable_def accepted_def)
  have a: "get (get v ''ack'') ''epoch'' = PStr epoch" "get (get v ''ack'') ''sequence'' = PInt seq"
    "in_tuple (get (get v ''ack'') ''status'') [''ACCEPTED'', ''DUPLICATE'']"
    "get (get v ''ack'') ''contentSha256'' = PStr (cd_sha (en_codec env) (rc_payload r))"
    using v(2) by (simp_all add: verify_ack_def is_string_def m)
  with r v(1) m show ?thesis
    unfolding removable_def checkpointed_def by (intro exI [of _ "rc_payload r"] exI [of _ v]) auto
qed

theorem removed_record_was_acknowledged_witness:
  "\<exists>f. map_of (disk_at delivering_spool delivered_log) pending_name = Some f"
proof -
  obtain post outcome where r: "report_run delivering_spool delivering_reporter [] = (delivered_log @ Did (Unlink pending_name) # post, outcome)"
    using delivering_run by blast
  from removed_record_was_acknowledged [OF r refl pending_match] show ?thesis by blast
qed

text \<open>C26: The spool keeps its limits. A spool within the configured number of records and bytes is within both at
  every point of a run of the reporter, so after a crash at any point too.\<close>

theorem spool_keeps_limits:
  assumes "open_store (get (re_config e) ''max_pending_samples'') (get (re_config e) ''max_pending_bytes'') (PInt (512 * 1024)) False = Inr sp"
    and "in_limits sp (en_disk env)" "prefix l (fst (report_run env e []))"
  shows "in_limits sp (disk_at env l)"
proof -
  have "upheld (limit_guard env sp) (fst (report_run env e []))"
    by (rule report_run_guarded) (use assms(1) limits.report_guarded in simp)
  then have "upheld (limit_guard env sp) l" using assms(3) by (auto simp: prefix_def intro: upheld_prefix)
  then show ?thesis using assms(2) by (rule limits_kept)
qed

theorem spool_keeps_limits_witness:
  "in_limits \<lparr>sp_samples = 10, sp_bytes = 1000, sp_sample_bytes = 524288, sp_read_only = False\<rparr>
     (disk_at empty_spool (fst (report_run empty_spool sample_reporter [])))"
  by (rule spool_keeps_limits [where e = sample_reporter])
    (simp_all add: sample_reporter_def reporter_config_def open_store_def int_between_def in_limits_def records_def record_bytes_def empty_spool_def)

text \<open>A run of the reporter submits at most \<open>max_exports_per_run\<close> records, counting both passes over the
  spool, and never more than four.\<close>

theorem report_submits_at_most:
  "int (sent_count (fst (report_run env e []))) \<le> min 4 (max 0 (max_exports e))"
proof (cases "observation_config (re_urlsplit e) (re_hostname e) ReportRole (re_config e)")
  case Inl
  then show ?thesis by (simp add: report_run_def bindIO_def liftR_def)
next
  case (Inr u)
  then have "max_exports e \<le> 4" "1 \<le> max_exports e"
    by (auto simp: observation_config_def reporter_ok_def int_between_def max_exports_def)
  moreover have "upheld (submission_guard e) (fst (report_run env e []))"
    by (rule report_run_guarded) (rule submissions.report_guarded)
  ultimately show ?thesis using submissions_bounded by fastforce
qed

text \<open>C27: A write of the reporter that is interrupted right after it created its temporary file leaves a directory
  in which no later run, with whatever configuration and environment, gets past reading the spool: it
  ends with an exception, submits nothing and changes nothing.\<close>

theorem interrupted_write_blocks_reporter:
  assumes "fst (report_run env e []) = pre @ Did (Create t) # post" "en_disk env' = disk_at env (pre @ [Did (Create t)])"
  shows "\<exists>x. report_run env' e' [] = ([], Inl x)"
proof -
  have "upheld (\<lambda>l x. \<forall>t. x = Did (Create t) \<longrightarrow> temporary t) (fst (report_run env e []))"
    by (rule report_run_guarded) (rule temporaries.report_guarded)
  then have t: "temporary t" unfolding assms(1) upheld_def by blast
  obtain f where "map_of (en_disk env') t = Some f" by (simp add: assms(2) update_conv)
  then have b: "\<exists>x. entries sp (disk_at env' []) = Inl x" for sp
    using temporary_blocks_entries [OF _ t] by (simp add: replay_def)
  have look: "does (bindIO (looking env' (entries sp)) h) [] (\<lambda>l r. l = [] \<and> (\<exists>x. r = Inl x))"
    for sp and h :: "row list \<Rightarrow> 'x sio"
    by (rule does_look_bind) (use b [of sp] in auto)
  have p: "does (pending_records env' sp m xs) [] (\<lambda>l r. l = [] \<and> (\<exists>x. r = Inl x))" for sp m xs
    unfolding pending_records_def by (intro does_lift_bind look) auto
  have s: "does (starting_state env' sp e') [] (\<lambda>l r. l = [])" for sp
    unfolding starting_state_def load_control_def spool_stats_def save_reporter_def Let_def
    using b [of sp] by (auto intro!: does_lift_bind does_lift does_bindI [where P = "\<lambda>l r. l = []"] does_look does_look_bind split: option.split)
  have d: "does (drain env' sp e' pg) [] (\<lambda>l r. l = [] \<and> (\<exists>x. r = Inl x))" for sp pg
    unfolding drain_def by (rule does_bindI [OF p]) auto
  have "does (report_locked env' sp e') [] (\<lambda>l r. l = [] \<and> (\<exists>x. r = Inl x))" for sp
    unfolding report_locked_def
  proof (rule does_bindI [OF s])
    fix l' :: "event list" and st :: reporter
    assume "l' = []"
    then show "does (bindIO (drain env' sp e' \<lparr>pg_state = st, pg_delivered = 0, pg_attempts = 0, pg_reason = None\<rparr>)
       (\<lambda>pg. bindIO (acquire env' sp e' pg) (\<lambda>(latest, imported, pg). bindIO (drain env' sp e' pg) (\<lambda>pg.
         bindIO (spool_stats env' sp) (\<lambda>stats. let result = report_result e' latest imported pg stats
           in bindIO (save_control env' sp ''status.json'' result) (\<lambda>_. liftR (Inr result))))))) l' (\<lambda>l r. l = [] \<and> (\<exists>x. r = Inl x))"
      by (simp only:) (rule does_bindI [OF d], auto)
  qed auto
  then have "does (report_run env' e') [] (\<lambda>l r. l = [] \<and> (\<exists>x. r = Inl x))"
    unfolding report_run_def by (intro does_lift_bind) auto
  then show ?thesis by (auto simp: does_def split: prod.splits)
qed

text \<open>A run on an empty directory, stopped by a full disk after the first file was created.\<close>

definition full_spool :: spool_env where
  "full_spool = empty_spool\<lparr>en_fault := \<lambda>l _. if l = [] then None else Some OSError\<rparr>"

lemma full_run: "report_run full_spool sample_reporter [] = ([Did (Create ''.tmp-0'')], Inl OSError)"
  using reporter_opens [of full_spool "re_sender sample_reporter"]
  by (simp add: report_locked_def starting_state_def load_control_def bindIO_def liftR_def looking_def CONTROLS_def read_bytes_def
      full_spool_def empty_spool_def replay_def spool_stats_def entries_def save_reporter_def save_control_def encoded_def reporter_doc_def
      sample_codec_def control_limit_def write_file_def Let_def emit_def finallyIO_def write_body_def remove_temporary_def catchIO_def)

theorem interrupted_write_blocks_reporter_witness:
  "\<exists>x. report_run (empty_spool\<lparr>en_disk := disk_at full_spool ([] @ [Did (Create ''.tmp-0'')])\<rparr>) sample_reporter [] = ([], Inl x)"
proof (rule interrupted_write_blocks_reporter [where env = full_spool and e = sample_reporter and post = "[]"])
  show "fst (report_run full_spool sample_reporter []) = [] @ Did (Create ''.tmp-0'') # []" by (simp add: full_run)
qed simp

end
