(* ===== verification/NodeCapacity.thy ===== *)
theory NodeCapacity
  imports PyNet PyTime
begin

text \<open>
  \<open>scripts/lib/node_registration.py\<close>, first part: the configuration, the placement capacity of a
  node and the check of a stored capacity document, which are two descriptions of the same set of
  documents. \<open>urlsplit\<close> is a parameter. The message of a \<open>RegistrationError\<close> is not modelled, and an
  identifier that \<open>UUID\<close> refuses counts as one that it does not print. A time stamp is what
  \<open>isoformat\<close> writes, with a zone of whole minutes, or with \<open>Z\<close>; the other spellings that
  \<open>fromisoformat\<close> reads are refused here.
\<close>

section \<open>Refusals\<close>

abbreviation Refused :: exn where
  "Refused \<equiv> AppError ''RegistrationError'' []"

abbreviation require :: "bool \<Rightarrow> unit res" where
  "require b \<equiv> check b Refused"

definition positive_int :: "pyval \<Rightarrow> bool \<Rightarrow> int res" where
  "positive_int v zero = bindR (require (is_int v \<and> (if zero then 0 else 1) \<le> the_int v)) (\<lambda>_. Inr (the_int v))"

text \<open>\<open>re.fullmatch\<close> on a value that has not been checked to be a string.\<close>

definition full_match :: "(string \<Rightarrow> bool) \<Rightarrow> pyval \<Rightarrow> unit res" where
  "full_match p v = bindR (check (is_str v) TypeError) (\<lambda>_. require (p (the_str v)))"

text \<open>The same where the code has made sure that the value is a string.\<close>

definition text_match :: "(string \<Rightarrow> bool) \<Rightarrow> pyval \<Rightarrow> bool" where
  "text_match p v = (is_str v \<and> p (the_str v))"

definition uuid_text :: "string \<Rightarrow> bool" where
  "uuid_text s =
     (map length (split_on CHR ''-'' s) = [8, 4, 4, 4, 12] \<and> list_all (list_all is_hex) (split_on CHR ''-'' s))"

definition canonical_id :: "pyval \<Rightarrow> unit res" where
  "canonical_id v = bindR (check (is_str v) AttributeError) (\<lambda>_. require (uuid_text (the_str v)))"

section \<open>Time stamps\<close>

definition iso_fraction :: "string \<Rightarrow> (int \<times> string) option" where
  "iso_fraction s =
     (if take 1 s = ''.''
      then (let d = takeWhile is_digit (tl s)
            in if length d \<in> {3, 6} then Some (decimal d * (if length d = 3 then 1000 else 1), dropWhile is_digit (tl s)) else None)
      else Some (0, s))"

definition iso_zone :: "string \<Rightarrow> int option option" where
  "iso_zone s =
     (if s = [] then Some None
      else if s = ''Z'' then Some (Some 0)
      else let h = take 2 (tl s); m = drop 4 s
           in if length s = 6 \<and> one_of ''+-'' (hd s) \<and> list_all is_digit (h @ m) \<and> s ! 3 = CHR '':'' \<and> decimal h < 24 \<and> decimal m < 60
              then Some (Some ((if hd s = CHR ''-'' then -1 else 1) * (decimal h * 60 + decimal m)))
              else None)"

text \<open>\<open>datetime.fromisoformat\<close>: \<open>None\<close> is the \<open>ValueError\<close>, \<open>Some None\<close> a time without a zone, and an
  aware time is its microseconds since the epoch.\<close>

definition from_iso :: "string \<Rightarrow> int option option" where
  "from_iso s =
     (if 19 \<le> length s \<and> stamp_shape (take 19 s @ ''Z'')
      then (case (parse_stamp (take 19 s @ ''Z''), iso_fraction (drop 19 s)) of
              (Some t, Some (us, rest)) \<Rightarrow>
                map_option (map_option (\<lambda>minutes. (t - minutes * 60) * 1000000 + us)) (iso_zone rest)
            | _ \<Rightarrow> None)
      else None)"

section \<open>Configuration\<close>

record api_url =
  au_scheme :: string
  au_host :: "string option"
  au_port :: "int option res"
  au_bare :: bool

text \<open>\<open>au_bare\<close>: no user, password, path, query or fragment.\<close>

type_synonym split_url = "pyval \<Rightarrow> api_url res"

definition host_label :: "string \<Rightarrow> bool" where
  "host_label s =
     (s \<noteq> [] \<and> length s \<le> 63 \<and> list_all (\<lambda>c. is_alnum c \<or> c = CHR ''-'') s \<and> is_alnum (hd s) \<and> is_alnum (last s))"

definition api_url_ok :: "split_url \<Rightarrow> pyval \<Rightarrow> unit res" where
  "api_url_ok urlsplit v =
     bindR (urlsplit v) (\<lambda>u.
     bindR (andR (Inr (au_scheme u = ''https'' \<and> au_host u \<noteq> None))
                 (bindR (au_port u) (\<lambda>p. Inr (p = Some 8006 \<and> au_bare u)))) (\<lambda>ok.
     bindR (require ok) (\<lambda>_.
     require (list_all host_label (split_on CHR ''.'' (the (au_host u)))))))"

definition inventory_name :: "string \<Rightarrow> bool" where
  "inventory_name s = head_match is_lower (\<lambda>c. is_lower c \<or> is_digit c \<or> c = CHR ''-'') 0 62 s"

definition database_name :: "string \<Rightarrow> bool" where
  "database_name s = head_match is_lower (\<lambda>c. is_lower c \<or> is_digit c \<or> c = CHR ''_'') 0 62 s"

definition system_id :: "string \<Rightarrow> bool" where
  "system_id s = class_match is_digit 10 20 s"

definition bridge_name :: "string \<Rightarrow> bool" where
  "bridge_name s = head_match (\<lambda>c. is_lower c \<or> is_upper c) (\<lambda>c. is_alnum c \<or> one_of ''_-'' c) 0 14 s"

definition plain_path :: "pyval \<Rightarrow> bool" where
  "plain_path v = (is_str v \<and> is_absolute (the_str v) \<and> \<not> list_ex (\<lambda>c. code c \<in> {0, 10, 13}) (the_str v))"

definition CONFIG_FIELDS :: "string list" where
  "CONFIG_FIELDS =
     [''node'', ''cluster'', ''api_url'', ''api_address'', ''ca_file'', ''bridge'', ''bridge_mtu'', ''storage'', ''pool_name'',
      ''pool_cidr'', ''pool_gateway'', ''reserve_cpu_threads'', ''reserve_memory_mb'', ''reserve_disk_gb'', ''gpu_node'',
      ''database'', ''database_hostname'', ''database_system_identifier'', ''database_socket_dir'', ''existing_public_id'']"

definition CPU_FIELDS :: "string list" where
  "CPU_FIELDS = [''cpu_allocation_ratio'', ''committed_vcpu'']"

text \<open>\<open>Config\<close>, as the dict of its fields; the two fields with a default are always there.\<close>

definition with_defaults :: "pyval \<Rightarrow> pyval" where
  "with_defaults v =
     (if has_key v ''cpu_allocation_ratio'' then v
      else PDict (items v @ [(''cpu_allocation_ratio'', PInt 1), (''committed_vcpu'', PInt 0)]))"

definition gateway_ok :: "network \<Rightarrow> pyval \<Rightarrow> unit res" where
  "gateway_ok n v =
     (case ip_value v of
        None \<Rightarrow> Inl ValueError
      | Some a \<Rightarrow> require (in_network a n \<and> a \<noteq> fst n \<and> a \<noteq> broadcast n))"

definition signed64 :: int where "signed64 = 9223372036854775807"
definition signed32 :: int where "signed32 = 2147483647"

definition config_network :: "pyval \<Rightarrow> unit res" where
  "config_network c =
     bindR (check (ip_value (get c ''api_address'') \<noteq> None) ValueError) (\<lambda>_.
     case network_value (get c ''pool_cidr'') of
       None \<Rightarrow> Inl ValueError
     | Some n \<Rightarrow> gateway_ok n (get c ''pool_gateway''))"

definition config_numbers :: "pyval \<Rightarrow> unit res" where
  "config_numbers c =
     bindR (mapR (\<lambda>k. positive_int (get c k) True) [''reserve_cpu_threads'', ''reserve_memory_mb'', ''reserve_disk_gb'']) (\<lambda>_.
     bindR (require (get c ''cpu_allocation_ratio'' \<in> {PInt 1, PInt 2})) (\<lambda>_.
     bindR (positive_int (get c ''committed_vcpu'') True) (\<lambda>committed.
     bindR (require (committed \<le> signed64)) (\<lambda>_.
     require (is_bool (get c ''gpu_node''))))))"

definition config_validate :: "split_url \<Rightarrow> pyval \<Rightarrow> unit res" where
  "config_validate urlsplit c =
     bindR (require (list_all (\<lambda>k. is_str (get c k) \<and> inventory_name (the_str (get c k)))
                       [''node'', ''cluster'', ''storage'', ''pool_name'', ''database_hostname''])) (\<lambda>_.
     bindR (full_match database_name (get c ''database'')) (\<lambda>_.
     bindR (full_match system_id (get c ''database_system_identifier'')) (\<lambda>_.
     bindR (full_match bridge_name (get c ''bridge'')) (\<lambda>_.
     bindR (require (is_int (get c ''bridge_mtu'') \<and> 1280 \<le> the_int (get c ''bridge_mtu'') \<and> the_int (get c ''bridge_mtu'') \<le> 1500)) (\<lambda>_.
     bindR (require (list_all (\<lambda>k. plain_path (get c k)) [''ca_file'', ''database_socket_dir''])) (\<lambda>_.
     bindR (api_url_ok urlsplit (get c ''api_url'')) (\<lambda>_.
     bindR (config_network c) (\<lambda>_.
     bindR (config_numbers c) (\<lambda>_.
     if get c ''existing_public_id'' = PNone then Inr () else canonical_id (get c ''existing_public_id''))))))))))"

definition config_from_dict :: "split_url \<Rightarrow> pyval \<Rightarrow> pyval res" where
  "config_from_dict urlsplit v =
     bindR (require (has_keys v CONFIG_FIELDS \<or> has_keys v (CONFIG_FIELDS @ CPU_FIELDS))) (\<lambda>_.
     bindR (config_validate urlsplit (with_defaults v)) (\<lambda>_. Inr (with_defaults v)))"

definition config_document :: "pyval \<Rightarrow> pyval" where
  "config_document c =
     (if get c ''cpu_allocation_ratio'' = PInt 1 \<and> get c ''committed_vcpu'' = PInt 0
      then PDict (filter (\<lambda>(k, _). k \<notin> set CPU_FIELDS) (items c)) else c)"

section \<open>Placement capacity\<close>

text \<open>The dimensions are visited by name: the keys have been compared with them before.\<close>

definition DIMENSIONS :: "string list" where
  "DIMENSIONS = [''cpu_threads'', ''memory_mb'', ''disk_gb'']"

definition physical_limit :: "string \<Rightarrow> int" where
  "physical_limit k = (if k \<in> {''cpu_threads'', ''memory_mb''} then signed32 else signed64)"

definition reserve_of :: "pyval \<Rightarrow> string \<Rightarrow> int" where
  "reserve_of c k = the_int (get c (''reserve_'' @ k))"

definition ratio_of :: "pyval \<Rightarrow> int" where
  "ratio_of c = the_int (get c ''cpu_allocation_ratio'')"

definition committed_of :: "pyval \<Rightarrow> int" where
  "committed_of c = the_int (get c ''committed_vcpu'')"

abbreviation int_dict :: "(string \<Rightarrow> int) \<Rightarrow> string list \<Rightarrow> pyval" where
  "int_dict f ks \<equiv> PDict (map (\<lambda>k. (k, PInt (f k))) ks)"

definition allocatable_part :: "(string \<Rightarrow> int) \<Rightarrow> (string \<Rightarrow> int) \<Rightarrow> int \<Rightarrow> int \<Rightarrow> string \<Rightarrow> int" where
  "allocatable_part physical reserved ratio committed k =
     (if k = ''cpu_threads'' then (physical k - reserved k) * ratio - committed else physical k - reserved k)"

definition dimension_ok :: "pyval \<Rightarrow> pyval \<Rightarrow> string \<Rightarrow> unit res" where
  "dimension_ok physical c k =
     bindR (positive_int (get physical k) False) (\<lambda>n.
     bindR (require (n \<le> physical_limit k)) (\<lambda>_. require (reserve_of c k < n)))"

definition placement :: "pyval \<Rightarrow> pyval \<Rightarrow> pyval \<Rightarrow> pyval res" where
  "placement physical c measured_at =
     bindR (require (has_keys physical DIMENSIONS)) (\<lambda>_.
     bindR (mapR (dimension_ok physical c) DIMENSIONS) (\<lambda>_.
     let amount = \<lambda>k. the_int (get physical k); ratio = ratio_of c; committed = committed_of c;
         budget = (amount ''cpu_threads'' - reserve_of c ''cpu_threads'') * ratio
     in bindR (require (budget \<le> signed64 \<and> committed < budget)) (\<lambda>_.
        let default = (ratio = 1 \<and> committed = 0)
        in Inr (PDict ([(''schema_version'', PInt (if default then 1 else 2)), (''physical'', physical),
                        (''reserved'', int_dict (reserve_of c) DIMENSIONS),
                        (''allocatable'', int_dict (allocatable_part amount (reserve_of c) ratio committed) (map fst (items physical))),
                        (''measured_at'', measured_at)]
                       @ (if default then []
                          else [(''cpu_policy'', PDict [(''allocation_ratio'', PInt ratio), (''committed_vcpu'', PInt committed)])]))))))"

definition capacity :: "split_url \<Rightarrow> pyval \<Rightarrow> pyval \<Rightarrow> pyval \<Rightarrow> pyval res" where
  "capacity urlsplit physical c measured_at =
     bindR (config_validate urlsplit c) (\<lambda>_. placement physical c measured_at)"

definition CAPACITY_FIELDS :: "string list" where
  "CAPACITY_FIELDS = [''schema_version'', ''physical'', ''reserved'', ''allocatable'', ''measured_at'']"

definition stored_shape :: "pyval \<Rightarrow> bool" where
  "stored_shape v =
     (is_dict v \<and> is_int (get v ''schema_version'')
      \<and> (get v ''schema_version'' = PInt 1 \<and> has_keys v CAPACITY_FIELDS
         \<or> get v ''schema_version'' = PInt 2 \<and> has_keys v (CAPACITY_FIELDS @ [''cpu_policy''])))"

definition stored_group :: "pyval \<Rightarrow> string \<Rightarrow> unit res" where
  "stored_group v g =
     bindR (require (has_keys (get v g) DIMENSIONS)) (\<lambda>_.
     bindR (mapR (\<lambda>k. bindR (positive_int (get (get v g) k) (g = ''reserved'')) (\<lambda>n.
                       require (n \<le> (if g = ''physical'' then physical_limit k else signed64)))) DIMENSIONS) (\<lambda>_. Inr ()))"

definition stored_policy :: "pyval \<Rightarrow> (int \<times> int) res" where
  "stored_policy v =
     (if get v ''schema_version'' = PInt 2
      then let policy = get v ''cpu_policy''
           in bindR (require (has_keys policy [''allocation_ratio'', ''committed_vcpu''])) (\<lambda>_.
              bindR (require (get policy ''allocation_ratio'' \<in> {PInt 1, PInt 2})) (\<lambda>_.
              bindR (positive_int (get policy ''committed_vcpu'') True) (\<lambda>committed.
              bindR (require (committed \<le> signed64)) (\<lambda>_. Inr (the_int (get policy ''allocation_ratio''), committed)))))
      else Inr (1, 0))"

definition aware_time :: "pyval \<Rightarrow> unit res" where
  "aware_time v =
     bindR (require (is_str v)) (\<lambda>_.
     case from_iso (the_str v) of None \<Rightarrow> Inl ValueError | Some zone \<Rightarrow> require (zone \<noteq> None))"

definition validate_capacity_document :: "pyval \<Rightarrow> unit res" where
  "validate_capacity_document v =
     bindR (require (stored_shape v)) (\<lambda>_.
     bindR (mapR (stored_group v) [''physical'', ''reserved'', ''allocatable'']) (\<lambda>_.
     let amount = \<lambda>k. the_int (get (get v ''physical'') k); reserved = \<lambda>k. the_int (get (get v ''reserved'') k)
     in bindR (require (list_all (\<lambda>k. reserved k < amount k) DIMENSIONS)) (\<lambda>_.
        bindR (stored_policy v) (\<lambda>(ratio, committed).
        let budget = (amount ''cpu_threads'' - reserved ''cpu_threads'') * ratio
        in bindR (require (budget \<le> signed64 \<and> committed < budget)) (\<lambda>_.
           bindR (require (list_all (\<lambda>k. the_int (get (get v ''allocatable'') k) = allocatable_part amount reserved ratio committed k)
                             DIMENSIONS)) (\<lambda>_.
           aware_time (get v ''measured_at'')))))))"

section \<open>The two descriptions agree\<close>

text \<open>Equality of dicts up to the order of the keys, on the two levels a capacity document has.\<close>

definition same_dict :: "pyval \<Rightarrow> pyval \<Rightarrow> bool" where
  "same_dict v w = (is_dict v \<and> is_dict w \<and> keys v = keys w \<and> (\<forall>k\<in>keys v. get v k = get w k))"

definition same_capacity :: "pyval \<Rightarrow> pyval \<Rightarrow> bool" where
  "same_capacity v w =
     (is_dict v \<and> is_dict w \<and> keys v = keys w
      \<and> (\<forall>k\<in>keys v. if k \<in> {''physical'', ''reserved'', ''allocatable'', ''cpu_policy''} then same_dict (get v k) (get w k)
                     else get v k = get w k))"

definition spells_default :: "pyval \<Rightarrow> bool" where
  "spells_default v =
     (get v ''schema_version'' = PInt 2 \<and> get (get v ''cpu_policy'') ''allocation_ratio'' = PInt 1
      \<and> get (get v ''cpu_policy'') ''committed_vcpu'' = PInt 0)"

lemma positive_int_Inr [simp]: "positive_int v z = Inr n \<longleftrightarrow> v = PInt n \<and> (if z then 0 else 1) \<le> n"
  by (cases v) (auto simp: positive_int_def)

lemma dimension_cases: "(\<forall>k\<in>set DIMENSIONS. P k) \<longleftrightarrow> P ''cpu_threads'' \<and> P ''memory_mb'' \<and> P ''disk_gb''"
  by (auto simp: DIMENSIONS_def)

lemma mapR_unit: "(\<exists>ys. mapR f xs = Inr ys) \<longleftrightarrow> (\<forall>x\<in>set xs. \<exists>y. f x = Inr y)"
  by (induction xs) auto

lemma placement_Inr:
  "placement physical c measured = Inr w \<longleftrightarrow>
     has_keys physical DIMENSIONS
     \<and> (\<forall>k\<in>set DIMENSIONS. \<exists>n. get physical k = PInt n \<and> 1 \<le> n \<and> n \<le> physical_limit k \<and> reserve_of c k < n)
     \<and> (the_int (get physical ''cpu_threads'') - reserve_of c ''cpu_threads'') * ratio_of c \<le> signed64
     \<and> committed_of c < (the_int (get physical ''cpu_threads'') - reserve_of c ''cpu_threads'') * ratio_of c
     \<and> w = PDict ([(''schema_version'', PInt (if ratio_of c = 1 \<and> committed_of c = 0 then 1 else 2)), (''physical'', physical),
              (''reserved'', int_dict (reserve_of c) DIMENSIONS),
              (''allocatable'', int_dict (allocatable_part (\<lambda>k. the_int (get physical k)) (reserve_of c) (ratio_of c) (committed_of c))
                 (map fst (items physical))), (''measured_at'', measured)]
            @ (if ratio_of c = 1 \<and> committed_of c = 0 then []
               else [(''cpu_policy'', PDict [(''allocation_ratio'', PInt (ratio_of c)), (''committed_vcpu'', PInt (committed_of c))])]))"
proof -
  have d: "(\<exists>ys. mapR (dimension_ok physical c) DIMENSIONS = Inr ys) \<longleftrightarrow>
      (\<forall>k\<in>set DIMENSIONS. \<exists>n. get physical k = PInt n \<and> 1 \<le> n \<and> n \<le> physical_limit k \<and> reserve_of c k < n)"
    unfolding mapR_unit by (auto simp: dimension_ok_def)
  show ?thesis
    unfolding placement_def Let_def bindR_eq_Inr using d by auto
qed

lemma validate_capacity_Inr:
  "validate_capacity_document v = Inr () \<longleftrightarrow>
     stored_shape v
     \<and> (\<forall>g\<in>{''physical'', ''reserved'', ''allocatable''}. has_keys (get v g) DIMENSIONS
          \<and> (\<forall>k\<in>set DIMENSIONS. \<exists>n. get (get v g) k = PInt n \<and> (if g = ''reserved'' then 0 else 1) \<le> n
               \<and> n \<le> (if g = ''physical'' then physical_limit k else signed64)))
     \<and> (\<forall>k\<in>set DIMENSIONS. the_int (get (get v ''reserved'') k) < the_int (get (get v ''physical'') k))
     \<and> (\<exists>ratio committed. stored_policy v = Inr (ratio, committed)
          \<and> (the_int (get (get v ''physical'') ''cpu_threads'') - the_int (get (get v ''reserved'') ''cpu_threads'')) * ratio \<le> signed64
          \<and> committed < (the_int (get (get v ''physical'') ''cpu_threads'') - the_int (get (get v ''reserved'') ''cpu_threads'')) * ratio
          \<and> (\<forall>k\<in>set DIMENSIONS. the_int (get (get v ''allocatable'') k)
               = allocatable_part (\<lambda>k. the_int (get (get v ''physical'') k)) (\<lambda>k. the_int (get (get v ''reserved'') k)) ratio committed k))
     \<and> aware_time (get v ''measured_at'') = Inr ()"
proof -
  have g: "stored_group v g = Inr () \<longleftrightarrow> has_keys (get v g) DIMENSIONS
          \<and> (\<forall>k\<in>set DIMENSIONS. \<exists>n. get (get v g) k = PInt n \<and> (if g = ''reserved'' then 0 else 1) \<le> n
               \<and> n \<le> (if g = ''physical'' then physical_limit k else signed64))" for g
  proof -
    have "(\<exists>ys. mapR (\<lambda>k. bindR (positive_int (get (get v g) k) (g = ''reserved'')) (\<lambda>n.
        require (n \<le> (if g = ''physical'' then physical_limit k else signed64)))) DIMENSIONS = Inr ys) \<longleftrightarrow>
      (\<forall>k\<in>set DIMENSIONS. \<exists>n. get (get v g) k = PInt n \<and> (if g = ''reserved'' then 0 else 1) \<le> n
               \<and> n \<le> (if g = ''physical'' then physical_limit k else signed64))"
      unfolding mapR_unit by auto
    then show ?thesis unfolding stored_group_def bindR_eq_Inr by auto
  qed
  have "(\<exists>ys. mapR (stored_group v) [''physical'', ''reserved'', ''allocatable''] = Inr ys) \<longleftrightarrow>
     (\<forall>g\<in>{''physical'', ''reserved'', ''allocatable''}. stored_group v g = Inr ())"
    by auto
  then show ?thesis
    unfolding validate_capacity_document_def Let_def bindR_eq_Inr
    by (simp only: check_eq_Inr list_all_iff g split_paired_Ex prod.case bindR_eq_Inr) blast
qed

lemma get_int_dict [simp]: "k \<in> set ks \<Longrightarrow> get (int_dict f ks) k = PInt (f k)"
  by (induction ks) auto

lemma keys_int_dict [simp]: "keys (int_dict f ks) = set ks"
  by force

lemma same_dict_get: "same_dict v w \<Longrightarrow> k \<in> keys w \<Longrightarrow> get v k = get w k"
  unfolding same_dict_def by blast

lemma same_dict_keys: "same_dict v w \<Longrightarrow> has_keys w ks \<Longrightarrow> has_keys v ks"
  by (simp add: same_dict_def has_keys_iff)

lemma has_keys_int_dict: "has_keys (int_dict f ks) ls \<longleftrightarrow> set ks = set ls"
  by (simp add: has_keys_iff image_image)

lemma same_int_dict:
  assumes "is_dict v" "keys v = set ks" "\<And>k. k \<in> set ks \<Longrightarrow> get v k = PInt (f k)"
  shows "same_dict v (int_dict f ks)"
  unfolding same_dict_def keys_int_dict using assms by (simp del: get_or_dict)

lemma same_capacityI:
  assumes "is_dict v" "is_dict w" "keys v = keys w" "keys v \<subseteq> set (CAPACITY_FIELDS @ [''cpu_policy''])"
    and "get v ''schema_version'' = get w ''schema_version''" "get v ''measured_at'' = get w ''measured_at''"
    and "same_dict (get v ''physical'') (get w ''physical'')" "same_dict (get v ''reserved'') (get w ''reserved'')"
    and "same_dict (get v ''allocatable'') (get w ''allocatable'')"
    and "''cpu_policy'' \<in> keys v \<Longrightarrow> same_dict (get v ''cpu_policy'') (get w ''cpu_policy'')"
  shows "same_capacity v w"
  unfolding same_capacity_def
proof (intro conjI ballI)
  fix k assume k: "k \<in> keys v"
  then have "k \<in> set CAPACITY_FIELDS \<or> k = ''cpu_policy''" using assms(4) by auto
  then have "k = ''schema_version'' \<or> k = ''physical'' \<or> k = ''reserved'' \<or> k = ''allocatable'' \<or> k = ''measured_at''
      \<or> k = ''cpu_policy''"
    by (simp only: CAPACITY_FIELDS_def list.set insert_iff empty_iff simp_thms disj_assoc)
  then show "if k \<in> {''physical'', ''reserved'', ''allocatable'', ''cpu_policy''} then same_dict (get v k) (get w k) else get v k = get w k"
  proof (elim disjE)
    assume 1: "k = ''schema_version''" show ?thesis unfolding 1 using assms(5) by simp
  next
    assume 2: "k = ''physical''" show ?thesis unfolding 2 using assms(7) by simp
  next
    assume 3: "k = ''reserved''" show ?thesis unfolding 3 using assms(8) by simp
  next
    assume 4: "k = ''allocatable''" show ?thesis unfolding 4 using assms(9) by simp
  next
    assume 5: "k = ''measured_at''" show ?thesis unfolding 5 using assms(6) by simp
  next
    assume 6: "k = ''cpu_policy''" show ?thesis using assms(10) k unfolding 6 by simp
  qed
qed (rule assms)+

lemma config_numbers_Inr:
  "config_numbers c = Inr () \<longleftrightarrow>
     (\<forall>k\<in>set DIMENSIONS. \<exists>n. get c (''reserve_'' @ k) = PInt n \<and> 0 \<le> n)
     \<and> get c ''cpu_allocation_ratio'' \<in> {PInt 1, PInt 2}
     \<and> (\<exists>n. get c ''committed_vcpu'' = PInt n \<and> 0 \<le> n \<and> n \<le> signed64) \<and> is_bool (get c ''gpu_node'')"
  unfolding config_numbers_def bindR_eq_Inr DIMENSIONS_def by auto

lemma placement_stored:
  assumes numbers: "config_numbers c = Inr ()" and placed: "placement physical c measured = Inr w"
    and aware: "aware_time measured = Inr ()" and same: "same_capacity v w"
  shows "validate_capacity_document v = Inr () \<and> \<not> spells_default v"
proof -
  let ?r = "ratio_of c" and ?m = "committed_of c"
  let ?default = "?r = 1 \<and> ?m = 0"
  note p = placed [unfolded placement_Inr]
  have w: "w = PDict ([(''schema_version'', PInt (if ?default then 1 else 2)), (''physical'', physical),
              (''reserved'', int_dict (reserve_of c) DIMENSIONS),
              (''allocatable'', int_dict (allocatable_part (\<lambda>k. the_int (get physical k)) (reserve_of c) ?r ?m)
                 (map fst (items physical))), (''measured_at'', measured)]
            @ (if ?default then [] else [(''cpu_policy'', PDict [(''allocation_ratio'', PInt ?r), (''committed_vcpu'', PInt ?m)])]))"
    using p by blast
  have r: "?r \<in> {1, 2}" "0 \<le> ?m" "?m \<le> signed64"
    using numbers unfolding config_numbers_Inr by (auto simp: ratio_of_def committed_of_def)
  have kw: "keys w = set (CAPACITY_FIELDS @ (if ?default then [] else [''cpu_policy'']))" by (auto simp: w CAPACITY_FIELDS_def)
  have gw: "get w ''schema_version'' = PInt (if ?default then 1 else 2)" "get w ''physical'' = physical"
    "get w ''reserved'' = int_dict (reserve_of c) DIMENSIONS"
    "get w ''allocatable'' = int_dict (allocatable_part (\<lambda>k. the_int (get physical k)) (reserve_of c) ?r ?m) (map fst (items physical))"
    "get w ''measured_at'' = measured"
    "\<not> ?default \<Longrightarrow> get w ''cpu_policy'' = PDict [(''allocation_ratio'', PInt ?r), (''committed_vcpu'', PInt ?m)]"
    by (auto simp: w)
  have kv: "keys v = set (CAPACITY_FIELDS @ (if ?default then [] else [''cpu_policy'']))" "is_dict v"
    using same kw by (simp_all add: same_capacity_def)
  have gv: "get v ''schema_version'' = PInt (if ?default then 1 else 2)" "same_dict (get v ''physical'') physical"
    "same_dict (get v ''reserved'') (int_dict (reserve_of c) DIMENSIONS)"
    "same_dict (get v ''allocatable'') (int_dict (allocatable_part (\<lambda>k. the_int (get physical k)) (reserve_of c) ?r ?m) (map fst (items physical)))"
    "get v ''measured_at'' = measured"
    "\<not> ?default \<Longrightarrow> same_dict (get v ''cpu_policy'') (PDict [(''allocation_ratio'', PInt ?r), (''committed_vcpu'', PInt ?m)])"
    using same gw kv(1) by (auto simp: same_capacity_def CAPACITY_FIELDS_def split: if_splits)
  have kp: "has_keys physical DIMENSIONS" "keys physical = set DIMENSIONS" using p by (auto simp: has_keys_iff)
  then have ks: "set (map fst (items physical)) = set DIMENSIONS" by simp
  have ph: "has_keys (get v ''physical'') DIMENSIONS" "\<And>k. k \<in> set DIMENSIONS \<Longrightarrow> get (get v ''physical'') k = get physical k"
    using same_dict_keys [OF gv(2)] same_dict_get [OF gv(2)] kp by blast+
  have re: "has_keys (get v ''reserved'') DIMENSIONS"
    "\<And>k. k \<in> set DIMENSIONS \<Longrightarrow> get (get v ''reserved'') k = PInt (reserve_of c k)"
    using same_dict_keys [OF gv(3)] same_dict_get [OF gv(3)] by (simp_all only: has_keys_int_dict keys_int_dict get_int_dict)
  have al: "has_keys (get v ''allocatable'') DIMENSIONS"
    "\<And>k. k \<in> set DIMENSIONS \<Longrightarrow> get (get v ''allocatable'') k
       = PInt (allocatable_part (\<lambda>k. the_int (get physical k)) (reserve_of c) ?r ?m k)"
    using same_dict_keys [OF gv(4)] same_dict_get [OF gv(4)] by (simp_all only: has_keys_int_dict keys_int_dict get_int_dict ks)
  let ?p = "\<lambda>k. the_int (get physical k)"
  have pn: "get physical k = PInt (?p k) \<and> 1 \<le> ?p k \<and> ?p k \<le> physical_limit k \<and> reserve_of c k < ?p k" if "k \<in> set DIMENSIONS" for k
    using p that by (metis the_int.simps(1))
  have rn: "0 \<le> reserve_of c k" if "k \<in> set DIMENSIONS" for k
    using numbers that unfolding config_numbers_Inr reserve_of_def by fastforce
  have lim: "physical_limit k \<le> signed64" for k by (simp add: physical_limit_def signed32_def signed64_def)
  have budget: "(?p ''cpu_threads'' - reserve_of c ''cpu_threads'') * ?r \<le> signed64"
    "?m < (?p ''cpu_threads'' - reserve_of c ''cpu_threads'') * ?r" using p by blast+
  have an: "1 \<le> allocatable_part ?p (reserve_of c) ?r ?m k \<and> allocatable_part ?p (reserve_of c) ?r ?m k \<le> signed64"
    if "k \<in> set DIMENSIONS" for k
    using pn [OF that] rn [OF that] lim [of k] budget r(2) by (auto simp: allocatable_part_def)
  have policy: "stored_policy v = Inr (?r, ?m)"
  proof (cases ?default)
    case False
    note s = gv(6) [OF False]
    have "get (get v ''cpu_policy'') ''allocation_ratio'' = PInt ?r" "get (get v ''cpu_policy'') ''committed_vcpu'' = PInt ?m"
      using same_dict_get [OF s, of "''allocation_ratio''"] same_dict_get [OF s, of "''committed_vcpu''"] by simp_all
    moreover have "has_keys (get v ''cpu_policy'') [''allocation_ratio'', ''committed_vcpu'']"
      by (rule same_dict_keys [OF s]) (auto simp: has_keys_iff)
    ultimately show ?thesis using False r gv(1) by (auto simp: stored_policy_def positive_int_def)
  qed (simp add: stored_policy_def gv(1))
  have "stored_shape v" using kv gv(1) by (auto simp: stored_shape_def has_keys_iff)
  moreover have "\<not> spells_default v"
  proof (cases ?default)
    case False
    then show ?thesis
      using same_dict_get [OF gv(6) [OF False], of "''allocation_ratio''"] same_dict_get [OF gv(6) [OF False], of "''committed_vcpu''"]
      by (auto simp: spells_default_def)
  qed (simp add: spells_default_def gv(1))
  moreover have "the_int (get (get v ''reserved'') k) < the_int (get (get v ''physical'') k)" if "k \<in> set DIMENSIONS" for k
    using pn [OF that] by (simp add: ph(2) re(2) that)
  moreover have "\<exists>n. get (get v g) k = PInt n \<and> (if g = ''reserved'' then 0 else 1) \<le> n \<and> n \<le> (if g = ''physical'' then physical_limit k else signed64)"
    if "g \<in> {''physical'', ''reserved'', ''allocatable''}" "k \<in> set DIMENSIONS" for g k
    using that(1) pn [OF that(2)] rn [OF that(2)] an [OF that(2)] lim [of k] by (auto simp: ph(2) re(2) al(2) that(2))
  moreover have d: "''cpu_threads'' \<in> set DIMENSIONS" by (simp add: DIMENSIONS_def)
  moreover have "the_int (get (get v ''allocatable'') k)
      = allocatable_part (\<lambda>k. the_int (get (get v ''physical'') k)) (\<lambda>k. the_int (get (get v ''reserved'') k)) ?r ?m k"
    if "k \<in> set DIMENSIONS" for k
    using that d by (simp add: al(2) ph(2) re(2) allocatable_part_def)
  ultimately show ?thesis
    unfolding validate_capacity_Inr using ph re al policy budget aware gv(5) by auto
qed

lemma stored_placement:
  assumes "validate_capacity_document v = Inr ()" "\<not> spells_default v"
  shows "\<exists>c physical w. config_numbers c = Inr () \<and> placement physical c (get v ''measured_at'') = Inr w \<and> same_capacity v w"
proof -
  note a = assms(1) [unfolded validate_capacity_Inr]
  let ?p = "\<lambda>k. the_int (get (get v ''physical'') k)" and ?s = "\<lambda>k. the_int (get (get v ''reserved'') k)"
  obtain r m where policy: "stored_policy v = Inr (r, m)" and budget: "(?p ''cpu_threads'' - ?s ''cpu_threads'') * r \<le> signed64"
      "m < (?p ''cpu_threads'' - ?s ''cpu_threads'') * r"
    and alloc: "\<And>k. k \<in> set DIMENSIONS \<Longrightarrow> the_int (get (get v ''allocatable'') k) = allocatable_part ?p ?s r m k"
    using a by blast
  have keysg: "has_keys (get v g) DIMENSIONS" if "g \<in> {''physical'', ''reserved'', ''allocatable''}" for g using a that by blast
  have ints: "get (get v g) k = PInt (the_int (get (get v g) k)) \<and> (if g = ''reserved'' then 0 else 1) \<le> the_int (get (get v g) k)
      \<and> the_int (get (get v g) k) \<le> (if g = ''physical'' then physical_limit k else signed64)"
    if "g \<in> {''physical'', ''reserved'', ''allocatable''}" "k \<in> set DIMENSIONS" for g k
  proof -
    have "\<exists>n. get (get v g) k = PInt n \<and> (if g = ''reserved'' then 0 else 1) \<le> n \<and> n \<le> (if g = ''physical'' then physical_limit k else signed64)"
      using a that by blast
    then show ?thesis by auto
  qed
  have less: "?s k < ?p k" if "k \<in> set DIMENSIONS" for k using a that by blast
  define c where "c = PDict (map (\<lambda>k. (''reserve_'' @ k, PInt (?s k))) DIMENSIONS
      @ [(''cpu_allocation_ratio'', PInt r), (''committed_vcpu'', PInt m), (''gpu_node'', PBool False)])"
  have rc: "reserve_of c k = ?s k" "get c (''reserve_'' @ k) = PInt (?s k)" if "k \<in> set DIMENSIONS" for k
    using that by (auto simp: reserve_of_def c_def DIMENSIONS_def)
  have cc: "ratio_of c = r" "committed_of c = m" "get c ''cpu_allocation_ratio'' = PInt r" "get c ''committed_vcpu'' = PInt m"
    "get c ''gpu_node'' = PBool False"
    by (simp_all add: ratio_of_def committed_of_def c_def DIMENSIONS_def)
  have rm: "r \<in> {1, 2}" "0 \<le> m" "m \<le> signed64"
    using policy by (auto simp: stored_policy_def Let_def positive_int_def signed64_def split: if_splits)
  have numbers: "config_numbers c = Inr ()"
    unfolding config_numbers_Inr
  proof (intro conjI ballI)
    show "\<exists>n. get c (''reserve_'' @ k) = PInt n \<and> 0 \<le> n" if "k \<in> set DIMENSIONS" for k
      using ints [of "''reserved''" k] rc(2) [OF that] that by (intro exI [of _ "?s k"]) simp
  qed (use rm in \<open>auto simp: cc\<close>)
  have d: "''cpu_threads'' \<in> set DIMENSIONS" by (simp add: DIMENSIONS_def)
  have dims: "\<exists>n. get (get v ''physical'') k = PInt n \<and> 1 \<le> n \<and> n \<le> physical_limit k \<and> reserve_of c k < n" if "k \<in> set DIMENSIONS" for k
    using ints [of "''physical''" k] less [OF that] rc(1) [OF that] that by (intro exI [of _ "?p k"]) simp
  have "\<exists>w. placement (get v ''physical'') c (get v ''measured_at'') = Inr w"
    unfolding placement_Inr using dims keysg budget by (simp add: rc(1) [OF d] cc)
  then obtain w where w: "placement (get v ''physical'') c (get v ''measured_at'') = Inr w" by blast
  note wd = w [unfolded placement_Inr, THEN conjunct2, THEN conjunct2, THEN conjunct2, THEN conjunct2]
  let ?default = "r = 1 \<and> m = 0"
  have schema: "get v ''schema_version'' = PInt (if ?default then 1 else 2)" "keys v = set (CAPACITY_FIELDS @ (if ?default then [] else [''cpu_policy'']))"
      "is_dict v"
    using a policy assms(2) by (auto simp: stored_shape_def stored_policy_def spells_default_def has_keys_iff Let_def split: if_splits)
  have kp: "set (map fst (items (get v ''physical''))) = set DIMENSIONS" using keysg by (auto simp: has_keys_iff)
  have gw: "keys w = set (CAPACITY_FIELDS @ (if ?default then [] else [''cpu_policy'']))" "is_dict w"
    "get w ''schema_version'' = PInt (if ?default then 1 else 2)" "get w ''physical'' = get v ''physical''"
    "get w ''reserved'' = int_dict (reserve_of c) DIMENSIONS"
    "get w ''allocatable'' = int_dict (allocatable_part ?p (reserve_of c) r m) (map fst (items (get v ''physical'')))"
    "get w ''measured_at'' = get v ''measured_at''"
    "\<not> ?default \<Longrightarrow> get w ''cpu_policy'' = PDict [(''allocation_ratio'', PInt r), (''committed_vcpu'', PInt m)]"
    using wd by (auto simp: cc CAPACITY_FIELDS_def)
  have s: "same_dict (get v ''physical'') (get w ''physical'')" "same_dict (get v ''reserved'') (get w ''reserved'')"
    "same_dict (get v ''allocatable'') (get w ''allocatable'')"
  proof -
    have dict: "is_dict (get v g)" "keys (get v g) = set DIMENSIONS" if "g \<in> {''physical'', ''reserved'', ''allocatable''}" for g
      using keysg [OF that] by (simp_all add: has_keys_iff)
    show "same_dict (get v ''physical'') (get w ''physical'')" using dict [of "''physical''"] by (simp add: same_dict_def gw(4))
    show "same_dict (get v ''reserved'') (get w ''reserved'')"
      unfolding gw(5)
    proof (rule same_int_dict [OF dict])
      show "get (get v ''reserved'') k = PInt (reserve_of c k)" if "k \<in> set DIMENSIONS" for k
        using ints [of "''reserved''" k] that by (simp add: rc(1) [OF that])
    qed simp_all
    show "same_dict (get v ''allocatable'') (get w ''allocatable'')"
      unfolding gw(6)
    proof (rule same_int_dict)
      fix k assume "k \<in> set (map fst (items (get v ''physical'')))"
      then have k: "k \<in> set DIMENSIONS" using kp by blast
      show "get (get v ''allocatable'') k = PInt (allocatable_part ?p (reserve_of c) r m k)"
        using ints [of "''allocatable''" k] k alloc [OF k] by (simp add: rc(1) [OF k] rc(1) [OF d] allocatable_part_def)
    qed (use dict [of "''allocatable''"] kp in auto)
  qed
  have cp: "\<not> ?default \<Longrightarrow> same_dict (get v ''cpu_policy'') (get w ''cpu_policy'')"
  proof -
    assume n: "\<not> ?default"
    define q where "q = get v ''cpu_policy''"
    have "get v ''schema_version'' = PInt 2" using schema(1) n by simp
    then have "has_keys q [''allocation_ratio'', ''committed_vcpu'']" "get q ''allocation_ratio'' = PInt r" "get q ''committed_vcpu'' = PInt m"
      using policy unfolding stored_policy_def q_def [symmetric] by (auto simp: Let_def)
    then have "same_dict q (PDict [(''allocation_ratio'', PInt r), (''committed_vcpu'', PInt m)])"
      unfolding same_dict_def has_keys_iff by auto
    then show ?thesis by (simp only: q_def gw(8) [OF n])
  qed
  have "same_capacity v w"
  proof (rule same_capacityI)
    show "keys v \<subseteq> set (CAPACITY_FIELDS @ [''cpu_policy''])" using schema(2) by (auto split: if_splits)
    show "same_dict (get v ''cpu_policy'') (get w ''cpu_policy'')" if "''cpu_policy'' \<in> keys v"
    proof (rule cp)
      have "''cpu_policy'' \<notin> set CAPACITY_FIELDS" by (simp add: CAPACITY_FIELDS_def)
      then show "\<not> ?default" using that unfolding schema(2) by auto
    qed
    show "keys v = keys w" unfolding schema(2) gw(1) ..
    show "get v ''schema_version'' = get w ''schema_version''" unfolding schema(1) gw(3) ..
  qed (use schema(3) gw(2,7) s in \<open>simp_all only:\<close>)
  then show ?thesis using numbers w by blast
qed

text \<open>A document of the second schema may spell out the default policy; it then says what the document
  without it says.\<close>

definition without_policy :: "pyval \<Rightarrow> pyval" where
  "without_policy v =
     PDict ((''schema_version'', PInt 1) # map (\<lambda>k. (k, get v k)) [''physical'', ''reserved'', ''allocatable'', ''measured_at''])"

definition spelled_out :: "pyval \<Rightarrow> pyval" where
  "spelled_out w =
     PDict ((''schema_version'', PInt 2) # map (\<lambda>k. (k, get w k)) [''physical'', ''reserved'', ''allocatable'', ''measured_at'']
            @ [(''cpu_policy'', PDict [(''allocation_ratio'', PInt 1), (''committed_vcpu'', PInt 0)])])"

lemma without_policy_gets:
  "get (without_policy v) ''schema_version'' = PInt 1" "get (without_policy v) ''physical'' = get v ''physical''"
  "get (without_policy v) ''reserved'' = get v ''reserved''" "get (without_policy v) ''allocatable'' = get v ''allocatable''"
  "get (without_policy v) ''measured_at'' = get v ''measured_at''" "is_dict (without_policy v)"
  "keys (without_policy v) = set CAPACITY_FIELDS"
  by (auto simp: without_policy_def CAPACITY_FIELDS_def)

lemma spelled_out_gets:
  "get (spelled_out v) ''schema_version'' = PInt 2" "get (spelled_out v) ''physical'' = get v ''physical''"
  "get (spelled_out v) ''reserved'' = get v ''reserved''" "get (spelled_out v) ''allocatable'' = get v ''allocatable''"
  "get (spelled_out v) ''measured_at'' = get v ''measured_at''" "is_dict (spelled_out v)"
  "get (spelled_out v) ''cpu_policy'' = PDict [(''allocation_ratio'', PInt 1), (''committed_vcpu'', PInt 0)]"
  "keys (spelled_out v) = set (CAPACITY_FIELDS @ [''cpu_policy''])"
  by (auto simp: spelled_out_def CAPACITY_FIELDS_def)

lemma same_capacityD:
  "same_capacity v w \<Longrightarrow> k \<in> keys v \<Longrightarrow>
     if k \<in> {''physical'', ''reserved'', ''allocatable'', ''cpu_policy''} then same_dict (get v k) (get w k) else get v k = get w k"
  unfolding same_capacity_def by (elim conjE) (rule bspec)

lemma without_policy_valid:
  assumes "stored_shape v" "stored_policy v = Inr (1, 0)"
  shows "validate_capacity_document (without_policy v) = Inr () \<longleftrightarrow> validate_capacity_document v = Inr ()"
proof -
  have policy: "stored_policy (without_policy v) = Inr (1, 0)" by (simp add: stored_policy_def without_policy_gets)
  have shape: "stored_shape (without_policy v)"
    using without_policy_gets(6) unfolding stored_shape_def has_keys_iff without_policy_gets by simp
  have groups: "get (without_policy v) g = get v g" if "g \<in> {''physical'', ''reserved'', ''allocatable''}" for g
    using that by (auto simp: without_policy_gets)
  show ?thesis
    unfolding validate_capacity_Inr without_policy_gets(2-5) assms(2) policy using assms(1) shape groups by simp
qed

lemma default_spelled_out:
  assumes "validate_capacity_document v = Inr ()" "spells_default v"
  shows "\<exists>c physical w. config_numbers c = Inr () \<and> placement physical c (get v ''measured_at'') = Inr w
    \<and> get w ''schema_version'' = PInt 1 \<and> same_capacity v (spelled_out w)"
proof -
  note a = assms(1) [unfolded validate_capacity_Inr]
  have shape: "stored_shape v" and two: "get v ''schema_version'' = PInt 2" using a assms(2) by (auto simp: spells_default_def)
  have keys: "is_dict v" "keys v = set (CAPACITY_FIELDS @ [''cpu_policy''])"
    using shape two unfolding stored_shape_def has_keys_iff by auto
  obtain r m where "stored_policy v = Inr (r, m)" using a by blast
  then have p: "has_keys (get v ''cpu_policy'') [''allocation_ratio'', ''committed_vcpu'']" "stored_policy v = Inr (1, 0)"
    using two assms(2) by (auto simp: stored_policy_def spells_default_def Let_def)
  have policy: "same_dict (get v ''cpu_policy'') (PDict [(''allocation_ratio'', PInt 1), (''committed_vcpu'', PInt 0)])"
    using p(1) assms(2) unfolding same_dict_def has_keys_iff spells_default_def by auto
  have "validate_capacity_document (without_policy v) = Inr ()" using without_policy_valid [OF shape p(2)] assms(1) by simp
  moreover have "\<not> spells_default (without_policy v)" by (simp add: spells_default_def without_policy_gets)
  ultimately obtain c physical w where w: "config_numbers c = Inr ()" "placement physical c (get v ''measured_at'') = Inr w"
    and same: "same_capacity (without_policy v) w"
    using stored_placement [of "without_policy v"] unfolding without_policy_gets by blast
  have each: "if k \<in> {''physical'', ''reserved'', ''allocatable'', ''cpu_policy''} then same_dict (get (without_policy v) k) (get w k)
      else get (without_policy v) k = get w k" if "k \<in> set CAPACITY_FIELDS" for k
    using same that unfolding without_policy_gets(7) [of v, symmetric] by (rule same_capacityD)
  have parts: "get w ''schema_version'' = PInt 1" "get v ''measured_at'' = get w ''measured_at''"
    "same_dict (get v ''physical'') (get w ''physical'')" "same_dict (get v ''reserved'') (get w ''reserved'')"
    "same_dict (get v ''allocatable'') (get w ''allocatable'')"
    using each [of "''schema_version''"] each [of "''measured_at''"] each [of "''physical''"] each [of "''reserved''"] each [of "''allocatable''"]
    by (simp_all add: without_policy_gets CAPACITY_FIELDS_def)
  have "same_capacity v (spelled_out w)"
    by (rule same_capacityI) (simp_all only: spelled_out_gets keys two parts(2-5) policy subset_refl)
  with w parts(1) show ?thesis by blast
qed

lemma spelled_out_stored:
  assumes numbers: "config_numbers c = Inr ()" and placed: "placement physical c measured = Inr w"
    and aware: "aware_time measured = Inr ()" and one: "get w ''schema_version'' = PInt 1" and same: "same_capacity v (spelled_out w)"
  shows "validate_capacity_document v = Inr ()"
proof -
  have "get w ''schema_version'' = PInt (if ratio_of c = 1 \<and> committed_of c = 0 then 1 else 2)"
    using placed unfolding placement_Inr by (elim conjE) simp
  then have default: "ratio_of c = 1 \<and> committed_of c = 0" using one by (auto split: if_splits)
  then have "\<exists>p s al. w = PDict [(''schema_version'', PInt 1), (''physical'', p), (''reserved'', s), (''allocatable'', al), (''measured_at'', measured)]"
    using placed unfolding placement_Inr by (elim conjE) (simp only: simp_thms if_True append_Nil2, intro exI, rule refl)
  then obtain p s al where
    doc: "w = PDict [(''schema_version'', PInt 1), (''physical'', p), (''reserved'', s), (''allocatable'', al), (''measured_at'', measured)]" by blast
  have w: "is_dict w" "keys w = set CAPACITY_FIELDS" by (auto simp: doc CAPACITY_FIELDS_def)
  have v: "is_dict v" "keys v = set (CAPACITY_FIELDS @ [''cpu_policy''])"
    using same unfolding same_capacity_def spelled_out_gets by blast+
  have each: "if k \<in> {''physical'', ''reserved'', ''allocatable'', ''cpu_policy''} then same_dict (get v k) (get (spelled_out w) k)
      else get v k = get (spelled_out w) k" if "k \<in> set (CAPACITY_FIELDS @ [''cpu_policy''])" for k
    using same that unfolding v(2) [symmetric] by (rule same_capacityD)
  have parts: "get v ''schema_version'' = PInt 2" "get v ''measured_at'' = get w ''measured_at''"
    "same_dict (get v ''physical'') (get w ''physical'')" "same_dict (get v ''reserved'') (get w ''reserved'')"
    "same_dict (get v ''allocatable'') (get w ''allocatable'')"
    "same_dict (get v ''cpu_policy'') (PDict [(''allocation_ratio'', PInt 1), (''committed_vcpu'', PInt 0)])"
    using each [of "''schema_version''"] each [of "''measured_at''"] each [of "''physical''"] each [of "''reserved''"] each [of "''allocatable''"]
      each [of "''cpu_policy''"]
    by (simp_all add: spelled_out_gets CAPACITY_FIELDS_def)
  have "same_capacity (without_policy v) w"
    by (rule same_capacityI) (simp_all only: without_policy_gets w one parts(2-5), simp_all add: CAPACITY_FIELDS_def)
  then have valid: "validate_capacity_document (without_policy v) = Inr ()"
    using placement_stored [OF numbers placed aware] by blast
  have shape: "stored_shape v" using v parts(1) unfolding stored_shape_def has_keys_iff by simp
  have "get (get v ''cpu_policy'') ''allocation_ratio'' = PInt 1" "get (get v ''cpu_policy'') ''committed_vcpu'' = PInt 0"
    using same_dict_get [OF parts(6), of "''allocation_ratio''"] same_dict_get [OF parts(6), of "''committed_vcpu''"] by simp_all
  moreover have "has_keys (get v ''cpu_policy'') [''allocation_ratio'', ''committed_vcpu'']"
    by (rule same_dict_keys [OF parts(6)]) (auto simp: has_keys_iff)
  ultimately have "stored_policy v = Inr (1, 0)"
    using parts(1) by (simp add: stored_policy_def positive_int_def signed64_def)
  with without_policy_valid [OF shape] valid show ?thesis by simp
qed

text \<open>C31: Two descriptions of the placement capacity agree. The check of a stored document accepts, up to the
  order of keys, exactly the documents that \<open>capacity\<close> computes from some measured amounts, reserves and
  CPU policy within their ranges and from any aware time, and those of them with the default policy
  rewritten in the second schema with this policy spelled out.\<close>

theorem capacity_documents_agree:
  "validate_capacity_document v = Inr () \<longleftrightarrow>
     (\<exists>c physical measured w. config_numbers c = Inr () \<and> placement physical c measured = Inr w \<and> aware_time measured = Inr ()
        \<and> (same_capacity v w \<or> get w ''schema_version'' = PInt 1 \<and> same_capacity v (spelled_out w)))"
proof
  assume a: "validate_capacity_document v = Inr ()"
  then have aware: "aware_time (get v ''measured_at'') = Inr ()" unfolding validate_capacity_Inr by blast
  show "\<exists>c physical measured w. config_numbers c = Inr () \<and> placement physical c measured = Inr w \<and> aware_time measured = Inr ()
        \<and> (same_capacity v w \<or> get w ''schema_version'' = PInt 1 \<and> same_capacity v (spelled_out w))"
    using stored_placement [OF a] default_spelled_out [OF a] aware by blast
qed (blast intro: placement_stored [THEN conjunct1] spelled_out_stored)

end
