(* ===== verification/NodeRegistration.thy ===== *)
theory NodeRegistration
  imports NodeCapacity Effects
begin

text \<open>
  \<open>scripts/lib/node_registration.py\<close>, second part: the collection of the evidence on a node, the check
  of a report, the preview against the rows of the database, and a whole registration. The SQL of
  \<open>snapshot_sql\<close> and \<open>apply_sql\<close> is modelled as what PostgreSQL does with the tables: a row is the
  JSON object \<open>to_jsonb\<close> makes of it, a transaction either commits or leaves the database as it was,
  and its locks keep other sessions out while it runs. What other sessions do between the preview and
  the transaction is a parameter. A row has every column the code reads, so subscripts of rows do not
  raise here. An answer of a command that has the wrong shape ends with some exception; the model
  says which one only where it is simple.
\<close>

section \<open>SQL text\<close>

definition sql_quote :: "string \<Rightarrow> string" where
  "sql_quote s = concat (map (\<lambda>c. if c = CHR 0x27 then [CHR 0x27, CHR 0x27] else [c]) s)"

definition literal :: "string \<Rightarrow> string" where
  "literal s = CHR 0x27 # sql_quote s @ [CHR 0x27]"

definition base64_char :: "nat \<Rightarrow> char" where
  "base64_char n =
     (if n < 26 then char_of (65 + n) else if n < 52 then char_of (71 + n) else if n < 62 then char_of (n - 4)
      else if n = 62 then CHR ''+'' else CHR ''/'')"

text \<open>\<open>b64encode\<close>\<close>

fun base64 :: "string \<Rightarrow> string" where
  "base64 (a # b # c # s) =
     (let n = code a * 65536 + code b * 256 + code c
      in [base64_char (n div 262144), base64_char (n div 4096 mod 64), base64_char (n div 64 mod 64), base64_char (n mod 64)] @ base64 s)"
| "base64 [a, b] =
     (let n = code a * 1024 + code b * 4
      in [base64_char (n div 4096), base64_char (n div 64 mod 64), base64_char (n mod 64), CHR 0x3D])"
| "base64 [a] = (let n = code a * 16 in [base64_char (n div 64), base64_char (n mod 64), CHR 0x3D, CHR 0x3D])"
| "base64 [] = []"

text \<open>\<open>dumps\<close> is \<open>json.dumps\<close> with compact separators.\<close>

definition json_literal :: "(pyval \<Rightarrow> string) \<Rightarrow> pyval \<Rightarrow> string" where
  "json_literal dumps v =
     (if v = PNone then ''NULL::jsonb''
      else ''convert_from(decode('' @ literal (base64 (dumps v)) @ '', '' @ literal ''base64'' @ ''), '' @ literal ''UTF8'' @ '')::jsonb'')"

section \<open>Collection\<close>

record node_commands =
  nc_euid :: nat
  nc_hostname :: string
  nc_run :: "string list \<Rightarrow> string res"
  nc_loads :: "string \<Rightarrow> pyval res"
  nc_split_url :: split_url
  nc_ca_sha :: "string res"

definition run_json :: "node_commands \<Rightarrow> string list \<Rightarrow> pyval res" where
  "run_json e argv = bindR (nc_run e argv) (nc_loads e)"

definition pvesh :: "node_commands \<Rightarrow> string \<Rightarrow> pyval res" where
  "pvesh e path = run_json e [''pvesh'', ''get'', path, ''--output-format'', ''json'']"

definition rows_of :: "pyval \<Rightarrow> pyval list res" where
  "rows_of v = bindR (check (is_list v) TypeError) (\<lambda>_. bindR (check (list_all is_dict (the_list v)) AttributeError) (\<lambda>_. Inr (the_list v)))"

definition dict_of :: "pyval \<Rightarrow> pyval res" where
  "dict_of v = bindR (check (is_dict v) AttributeError) (\<lambda>_. Inr v)"

definition short_host :: "string \<Rightarrow> string" where
  "short_host s = hd (split_on CHR ''.'' s)"

definition cluster_ok :: "pyval \<Rightarrow> pyval list \<Rightarrow> unit res" where
  "cluster_ok c rows =
     (let cluster = filter (\<lambda>r. is_string (get r ''type'') ''cluster'') rows
      in bindR (require (length cluster = 1 \<and> py_eq (get (hd cluster) ''name'') (get c ''cluster'') \<and> py_eq (get (hd cluster) ''quorate'') (PInt 1)))
           (\<lambda>_. require (list_ex (\<lambda>r. is_string (get r ''type'') ''node'' \<and> py_eq (get r ''name'') (get c ''node'')
                                      \<and> py_eq (get r ''online'') (PInt 1)) rows)))"

definition bridge_ok :: "pyval \<Rightarrow> pyval list \<Rightarrow> unit res" where
  "bridge_ok c links =
     bindR (require (length links = 1)) (\<lambda>_.
     let link = hd links
     in bindR (dict_of (get_or link ''linkinfo'' (PDict []))) (\<lambda>info.
        require (is_string (get info ''info_kind'') ''bridge'' \<and> py_eq (get link ''mtu'') (get c ''bridge_mtu'')
                 \<and> list_ex (\<lambda>f. is_string f ''UP'') (the_list (get_or link ''flags'' (PList []))))))"

definition address_ok :: "pyval \<Rightarrow> pyval list \<Rightarrow> unit res" where
  "address_ok c rows =
     bindR (mapR (\<lambda>r. rows_of (get_or r ''addr_info'' (PList []))) rows) (\<lambda>infos.
     require (list_ex (\<lambda>i. py_eq (get i ''local'') (get c ''api_address'')) (concat infos)))"

definition lvm_name :: "pyval \<Rightarrow> unit res" where
  "lvm_name v = full_match (head_match is_alnum (\<lambda>c. is_alnum c \<or> one_of ''_+.-'' c) 0 126) v"

definition volume_of :: "string \<Rightarrow> string \<Rightarrow> pyval \<Rightarrow> pyval res" where
  "volume_of vg pool report =
     bindR (dict_of report) (\<lambda>report.
     bindR (rows_of (get_or report ''report'' (PList []))) (\<lambda>sections.
     bindR (mapR (\<lambda>s. rows_of (get_or s ''lv'' (PList []))) sections) (\<lambda>lists.
     let volumes = concat lists; v = hd volumes
     in bindR (require (length volumes = 1 \<and> is_string (get v ''vg_name'') vg \<and> is_string (get v ''lv_name'') pool
                        \<and> is_string (get v ''segtype'') ''thin-pool'' \<and> is_string (get v ''lv_active'') ''active'')) (\<lambda>_.
        Inr v))))"

text \<open>\<open>Decimal(size) == n\<close> for the whole number of bytes that \<open>lvs\<close> prints.\<close>

definition size_equals :: "pyval \<Rightarrow> int \<Rightarrow> bool" where
  "size_equals v n = (is_str v \<and> the_str v \<noteq> [] \<and> list_all is_digit (the_str v) \<and> decimal (the_str v) = n)"

definition lvs_command :: "string \<Rightarrow> string \<Rightarrow> string list" where
  "lvs_command vg pool =
     [''lvs'', ''--reportformat'', ''json'', ''--units'', ''b'', ''--nosuffix'', ''-o'',
      ''vg_name,lv_name,lv_size,segtype,lv_active'', vg @ ''/'' @ pool]"

definition curl_command :: "pyval \<Rightarrow> string \<Rightarrow> string list" where
  "curl_command c host =
     [''curl'', ''--noproxy'', ''*'', ''--fail'', ''--silent'', ''--show-error'', ''--connect-timeout'', ''5'',
      ''--max-time'', ''15'', ''--cacert'', the_str (get c ''ca_file''), ''--resolve'',
      host @ '':8006:'' @ the_str (get c ''api_address''), the_str (get c ''api_url'') @ ''/'', ''-o'', ''/dev/null'', ''-w'', ''%{http_code}'']"

record thin_pool =
  tp_vg :: string
  tp_pool :: string
  tp_total :: int
  tp_available :: int

definition thin_pool_of :: "node_commands \<Rightarrow> pyval \<Rightarrow> pyval \<Rightarrow> pyval \<Rightarrow> thin_pool res" where
  "thin_pool_of e c storage storage_config =
     bindR (require (is_string (get storage_config ''type'') ''lvmthin'' \<and> py_eq (get storage ''active'') (PInt 1)
                     \<and> py_eq (get_or storage ''enabled'' (PInt 1)) (PInt 1))) (\<lambda>_.
     let vg = get_or storage_config ''vgname'' (PStr []); pool = get_or storage_config ''thinpool'' (PStr [])
     in bindR (lvm_name vg) (\<lambda>_.
        bindR (lvm_name pool) (\<lambda>_.
        bindR (run_json e (lvs_command (the_str vg) (the_str pool))) (\<lambda>report.
        bindR (volume_of (the_str vg) (the_str pool) report) (\<lambda>volume.
        bindR (positive_int (get storage ''total'') False) (\<lambda>total.
        bindR (indexR volume ''lv_size'') (\<lambda>size.
        bindR (require (size_equals size total)) (\<lambda>_.
        bindR (positive_int (get storage ''avail'') True) (\<lambda>available.
        bindR (require (reserve_of c ''disk_gb'' * 1024 ^ 3 \<le> available)) (\<lambda>_.
        Inr \<lparr>tp_vg = the_str vg, tp_pool = the_str pool, tp_total = total, tp_available = available\<rparr>))))))))))"

definition CHECKS :: pyval where
  "CHECKS =
     PDict [(''cluster'', PBool True), (''local_api_address'', PBool True), (''bridge'', PBool True), (''thin_pool'', PBool True),
            (''ca_hostname_https'', PBool True), (''local_gateway_required'', PBool False)]"

definition measured_physical :: "pyval \<Rightarrow> thin_pool \<Rightarrow> pyval res" where
  "measured_physical status pool =
     bindR (dict_of (get_or status ''cpuinfo'' (PDict []))) (\<lambda>cpu.
     bindR (positive_int (get cpu ''cpus'') False) (\<lambda>threads.
     bindR (dict_of (get_or status ''memory'' (PDict []))) (\<lambda>memory.
     bindR (positive_int (get memory ''total'') False) (\<lambda>bytes.
     Inr (PDict [(''cpu_threads'', PInt threads), (''memory_mb'', PInt (bytes div 1024 ^ 2)), (''disk_gb'', PInt (tp_total pool div 1024 ^ 3))])))))"

definition collect :: "node_commands \<Rightarrow> pyval \<Rightarrow> string \<Rightarrow> pyval res" where
  "collect e c measured_at =
     bindR (require (nc_euid e = 0 \<and> PStr (short_host (nc_hostname e)) = get c ''node'')) (\<lambda>_.
     bindR (bindR (pvesh e ''/cluster/status'') rows_of) (\<lambda>rows.
     bindR (cluster_ok c rows) (\<lambda>_.
     bindR (bindR (run_json e [''ip'', ''-j'', ''-d'', ''link'', ''show'', ''dev'', the_str (get c ''bridge'')]) rows_of) (\<lambda>links.
     bindR (bridge_ok c links) (\<lambda>_.
     bindR (bindR (run_json e [''ip'', ''-j'', ''-4'', ''address'']) rows_of) (\<lambda>addresses.
     bindR (address_ok c addresses) (\<lambda>_.
     bindR (pvesh e (''/nodes/'' @ the_str (get c ''node'') @ ''/status'')) (\<lambda>status.
     bindR (bindR (pvesh e (''/nodes/'' @ the_str (get c ''node'') @ ''/storage/'' @ the_str (get c ''storage'') @ ''/status'')) dict_of) (\<lambda>storage.
     bindR (bindR (pvesh e (''/storage/'' @ the_str (get c ''storage''))) dict_of) (\<lambda>storage_config.
     bindR (thin_pool_of e c storage storage_config) (\<lambda>pool.
     bindR (nc_split_url e (get c ''api_url'')) (\<lambda>url.
     bindR (nc_run e (curl_command c (the (au_host url)))) (\<lambda>answer.
     bindR (require (answer = ''200'')) (\<lambda>_.
     bindR (bindR (dict_of status) (\<lambda>status. measured_physical status pool)) (\<lambda>physical.
     bindR (nc_run e [''cat'', ''/proc/sys/kernel/random/boot_id'']) (\<lambda>boot_id.
     bindR (capacity (nc_split_url e) physical c (PStr measured_at)) (\<lambda>placed.
     bindR (nc_ca_sha e) (\<lambda>sha.
     Inr (PDict [(''schema_version'', PInt 1), (''config'', config_document c), (''measured_at'', PStr measured_at),
                 (''boot_id'', PStr boot_id), (''placement_capacity'', placed),
                 (''thin_pool'', PDict [(''vg'', PStr (tp_vg pool)), (''pool'', PStr (tp_pool pool)),
                                       (''total_bytes'', PInt (tp_total pool)), (''available_bytes'', PInt (tp_available pool))]),
                 (''checks'', CHECKS), (''ca_sha256'', PStr sha)])))))))))))))))))))"

section \<open>Reports\<close>

definition whole_units :: "pyval \<Rightarrow> int \<Rightarrow> int res" where
  "whole_units v unit = (case num_of v of None \<Rightarrow> Inl TypeError | Some q \<Rightarrow> Inr \<lfloor>q / of_int unit\<rfloor>)"

definition at_least :: "pyval \<Rightarrow> int \<Rightarrow> bool res" where
  "at_least v n = (case num_of v of None \<Rightarrow> Inl TypeError | Some q \<Rightarrow> Inr (of_int n \<le> q))"

definition fresh :: "int \<Rightarrow> pyval \<Rightarrow> unit res" where
  "fresh now v =
     bindR (check (is_str v) TypeError) (\<lambda>_.
     case from_iso (the_str v) of
       None \<Rightarrow> Inl ValueError
     | Some zone \<Rightarrow> require (case zone of None \<Rightarrow> False | Some t \<Rightarrow> 0 \<le> now - t \<and> now - t \<le> 900 * 1000000))"

definition validate_report :: "split_url \<Rightarrow> int \<Rightarrow> pyval \<Rightarrow> pyval res" where
  "validate_report urlsplit now report =
     bindR (getR report ''schema_version'') (\<lambda>version.
     bindR (require (py_eq version (PInt 1))) (\<lambda>_.
     bindR (bindR (indexR report ''config'') (config_from_dict urlsplit)) (\<lambda>c.
     bindR (bindR (indexR report ''measured_at'') (fresh now)) (\<lambda>_.
     bindR (indexR report ''placement_capacity'') (\<lambda>placed.
     bindR (validate_capacity_document placed) (\<lambda>_.
     bindR (capacity urlsplit (get placed ''physical'') c (get report ''measured_at'')) (\<lambda>expected.
     bindR (require (py_eq placed expected)) (\<lambda>_.
     bindR (bindR (indexR report ''checks'') (\<lambda>v. require (py_eq v CHECKS))) (\<lambda>_.
     bindR (bindR (indexR report ''boot_id'') canonical_id) (\<lambda>_.
     bindR (bindR (indexR report ''ca_sha256'') (full_match (class_match is_hex 64 64))) (\<lambda>_.
     let physical = get placed ''physical''
     in bindR (require (the_int (get physical ''cpu_threads'') \<le> signed32 \<and> the_int (get physical ''memory_mb'') \<le> signed32)) (\<lambda>_.
        bindR (indexR report ''thin_pool'') (\<lambda>pool.
        bindR (bindR (indexR pool ''total_bytes'') (\<lambda>v. whole_units v (1024 ^ 3))) (\<lambda>total.
        bindR (andR (Inr (total = the_int (get physical ''disk_gb'')))
                    (bindR (indexR pool ''available_bytes'') (\<lambda>v. at_least v (reserve_of c ''disk_gb'' * 1024 ^ 3)))) (\<lambda>ok.
        bindR (require ok) (\<lambda>_. Inr c))))))))))))))))"

section \<open>Preview\<close>

record node_snapshot =
  sn_identity :: pyval
  sn_pool :: pyval
  sn_node :: pyval
  sn_memory :: int
  sn_vcpu :: int
  sn_disk :: int

definition database_identity :: "pyval \<Rightarrow> pyval" where
  "database_identity c =
     PDict [(''database'', get c ''database''), (''user'', PStr ''postgres''), (''local_socket'', PBool True), (''primary'', PBool True),
            (''system_identifier'', get c ''database_system_identifier'')]"

definition validate_database :: "pyval \<Rightarrow> pyval \<Rightarrow> unit res" where
  "validate_database c v = require (py_eq v (database_identity c))"

text \<open>\<open>str(ip_interface(v).ip)\<close> of an IPv4 address with an optional prefix.\<close>

definition interface_ip :: "pyval \<Rightarrow> pyval res" where
  "interface_ip v =
     (case split_on CHR ''/'' (the_str v) of
        [w] \<Rightarrow> (case parse_ipv4 w of None \<Rightarrow> Inl ValueError | Some a \<Rightarrow> Inr (PStr (ipv4_text a)))
      | [w, m] \<Rightarrow> (case (parse_ipv4 w, prefix_of m) of (Some a, Some _) \<Rightarrow> Inr (PStr (ipv4_text a)) | _ \<Rightarrow> Inl ValueError)
      | _ \<Rightarrow> Inl ValueError)"

definition pool_ok :: "pyval \<Rightarrow> pyval \<Rightarrow> unit res" where
  "pool_ok c pool =
     bindR (andR (Inr (pool \<noteq> PNone \<and> py_eq (get pool ''name'') (get c ''pool_name'') \<and> py_eq (get pool ''cidr'') (get c ''pool_cidr'')))
                 (bindR (interface_ip (get pool ''gateway'')) (\<lambda>g. Inr (py_eq g (get c ''pool_gateway''))))) require"

definition nic_requirements :: "pyval \<Rightarrow> pyval" where
  "nic_requirements c = PDict [(''schema_version'', PInt 1), (''mtu'', get c ''bridge_mtu''), (''firewall'', PBool True)]"

definition nic_matches :: "pyval \<Rightarrow> pyval \<Rightarrow> bool" where
  "nic_matches c v =
     (py_eq v (nic_requirements c) \<and> is_int (get v ''schema_version'') \<and> is_int (get v ''mtu'') \<and> get v ''firewall'' = PBool True)"

definition without_time :: "pyval \<Rightarrow> pyval" where
  "without_time v = PDict (filter (\<lambda>(k, _). k \<noteq> ''measured_at'') (items v))"

definition capacity_columns :: "pyval \<Rightarrow> (string \<times> pyval) list" where
  "capacity_columns cap =
     [(''cpu_threads'', get (get cap ''physical'') ''cpu_threads''), (''memory_mb'', get (get cap ''allocatable'') ''memory_mb''),
      (''disk_capacity_gb'', get (get cap ''physical'') ''disk_gb'')]"

definition unchanged :: "pyval \<Rightarrow> pyval \<Rightarrow> bool" where
  "unchanged cap old =
     (py_eq (without_time (get_or (get old ''labels'') ''placement_capacity'' (PDict []))) (without_time cap)
      \<and> list_all (\<lambda>(k, v). py_eq (get old k) v) (capacity_columns cap))"

definition allocatable_of :: "pyval \<Rightarrow> string \<Rightarrow> int" where
  "allocatable_of cap k = the_int (get (get cap ''allocatable'') k)"

definition fits :: "pyval \<Rightarrow> int \<Rightarrow> int \<Rightarrow> int \<Rightarrow> bool" where
  "fits cap memory vcpu disk =
     (memory \<le> allocatable_of cap ''memory_mb'' \<and> vcpu \<le> allocatable_of cap ''cpu_threads'' \<and> disk \<le> allocatable_of cap ''disk_gb'')"

definition origin_of :: "pyval \<Rightarrow> pyval" where
  "origin_of old = get_or (get old ''labels'') ''node_registration'' (PDict [])"

definition existing_ok :: "pyval \<Rightarrow> pyval \<Rightarrow> node_snapshot \<Rightarrow> unit res" where
  "existing_ok c cap s =
     (let old = sn_node s; labels = get old ''labels''
      in bindR (require (py_eq (get c ''existing_public_id'') (get old ''public_id''))) (\<lambda>_.
         bindR (require (py_eq (get old ''api_host'') (get c ''api_url'') \<and> py_eq (get old ''vm_bridge'') (get c ''bridge'')
                         \<and> py_eq (get old ''storage'') (get c ''storage'') \<and> py_eq (get old ''ip_pool_id'') (get (sn_pool s) ''id''))) (\<lambda>_.
         bindR (require (is_dict labels)) (\<lambda>_.
         bindR (require (is_dict (origin_of old))) (\<lambda>_.
         bindR (require (\<not> truthy (origin_of old) \<or> py_eq (get (origin_of old) ''cluster'') (get c ''cluster''))) (\<lambda>_.
         bindR (if has_key labels ''placement_capacity'' then validate_capacity_document (get labels ''placement_capacity'') else Inr ()) (\<lambda>_.
         bindR (require (has_key labels ''vm_nic_requirements'' \<longrightarrow> nic_matches c (get labels ''vm_nic_requirements''))) (\<lambda>_.
         let gpu = get_or labels ''gpu'' (PBool False)
         in bindR (require (is_bool gpu \<and> gpu = get c ''gpu_node'')) (\<lambda>_.
            bindR (require (\<not> is_string (get old ''status'') ''ACTIVE'' \<or> unchanged cap old)) (\<lambda>_.
            require (fits cap (sn_memory s) (sn_vcpu s) (sn_disk s))))))))))))"

definition new_labels :: "pyval \<Rightarrow> pyval \<Rightarrow> pyval \<Rightarrow> (string \<times> pyval) list" where
  "new_labels c cap origin =
     [(''gpu'', get c ''gpu_node''), (''placement_capacity'', cap), (''node_registration'', merged origin [(''cluster'', get c ''cluster'')])]"

record desired_node =
  ds_status :: pyval
  ds_pool_id :: pyval
  ds_public_id :: pyval
  ds_labels :: pyval

abbreviation desired_capacity :: "desired_node \<Rightarrow> pyval" where
  "desired_capacity d \<equiv> get (ds_labels d) ''placement_capacity''"

definition desired_doc :: "pyval \<Rightarrow> desired_node \<Rightarrow> pyval" where
  "desired_doc c d =
     PDict ([(''name'', get c ''node''), (''api_host'', get c ''api_url''), (''status'', ds_status d)]
            @ capacity_columns (desired_capacity d)
            @ [(''vm_bridge'', get c ''bridge''), (''storage'', get c ''storage''), (''ip_pool_id'', ds_pool_id d),
               (''labels'', ds_labels d), (''public_id'', ds_public_id d)])"

definition preview_node :: "pyval \<Rightarrow> pyval \<Rightarrow> node_snapshot \<Rightarrow> desired_node res" where
  "preview_node c cap s =
     bindR (validate_database c (sn_identity s)) (\<lambda>_.
     bindR (pool_ok c (sn_pool s)) (\<lambda>_.
     let pool_id = get (sn_pool s) ''id''; old = sn_node s
     in if old = PNone
        then bindR (require (get c ''existing_public_id'' = PNone)) (\<lambda>_.
             Inr \<lparr>ds_status = PStr ''MAINTENANCE'', ds_pool_id = pool_id, ds_public_id = PNone,
                  ds_labels = PDict (new_labels c cap (PDict []) @ [(''vm_nic_requirements'', nic_requirements c)])\<rparr>)
        else bindR (existing_ok c cap s) (\<lambda>_.
             Inr \<lparr>ds_status = get old ''status'', ds_pool_id = pool_id, ds_public_id = get old ''public_id'',
                  ds_labels = merged (get old ''labels'') (new_labels c cap (origin_of old))\<rparr>)))"

section \<open>The database\<close>

record vm_row =
  vm_node :: int
  vm_memory :: int
  vm_vcpu :: int
  vm_disk :: int
  vm_deleted :: bool
  vm_status :: string

record inventory =
  iv_identity :: pyval
  iv_pools :: "pyval list"
  iv_nodes :: "pyval list"
  iv_vms :: "vm_row list"

definition named :: "pyval list \<Rightarrow> pyval \<Rightarrow> pyval list" where
  "named rows name = filter (\<lambda>r. get r ''name'' = name) rows"

text \<open>A scalar subquery fails on more than one row, \<open>SELECT INTO\<close> takes the first.\<close>

definition scalar :: "pyval list \<Rightarrow> pyval res" where
  "scalar rows = (case rows of [] \<Rightarrow> Inr PNone | [r] \<Rightarrow> Inr r | _ \<Rightarrow> Inl Refused)"

definition first_row :: "pyval list \<Rightarrow> pyval" where
  "first_row rows = (case rows of [] \<Rightarrow> PNone | r # _ \<Rightarrow> r)"

definition live :: "vm_row \<Rightarrow> bool" where
  "live v = (\<not> vm_deleted v \<and> vm_status v \<noteq> ''DELETED'')"

definition allocated :: "(vm_row \<Rightarrow> int) \<Rightarrow> inventory \<Rightarrow> pyval list \<Rightarrow> int" where
  "allocated amount db nodes =
     sum_list (map amount (filter (\<lambda>v. live v \<and> PInt (vm_node v) \<in> (\<lambda>r. get r ''id'') ` set nodes) (iv_vms db)))"

text \<open>\<open>snapshot_sql\<close>\<close>

definition node_snapshot_of :: "inventory \<Rightarrow> pyval \<Rightarrow> node_snapshot res" where
  "node_snapshot_of db c =
     (let nodes = named (iv_nodes db) (get c ''node'')
      in bindR (scalar (named (iv_pools db) (get c ''pool_name''))) (\<lambda>pool.
         bindR (scalar nodes) (\<lambda>node.
         Inr \<lparr>sn_identity = iv_identity db, sn_pool = pool, sn_node = node, sn_memory = allocated vm_memory db nodes,
              sn_vcpu = allocated vm_vcpu db nodes, sn_disk = allocated vm_disk db nodes\<rparr>)))"

definition snapshot_doc :: "node_snapshot \<Rightarrow> pyval" where
  "snapshot_doc s =
     PDict [(''identity'', sn_identity s), (''pool'', sn_pool s), (''node'', sn_node s),
            (''allocated_memory_mb'', PInt (sn_memory s)), (''allocated_vcpu'', PInt (sn_vcpu s)),
            (''allocated_disk_gb'', PInt (sn_disk s))]"

text \<open>Equality of \<open>jsonb\<close>: numbers by value, objects without the order of their keys.\<close>

fun number_of :: "pyval \<Rightarrow> rat option" where
  "number_of (PInt i) = Some (of_int i)"
| "number_of (PFloat q) = Some q"
| "number_of _ = None"

fun jsonb_eq :: "pyval \<Rightarrow> pyval \<Rightarrow> bool"
  and jsonb_eq_list :: "pyval list \<Rightarrow> pyval list \<Rightarrow> bool"
  and jsonb_eq_items :: "(string \<times> pyval) list \<Rightarrow> (string \<times> pyval) list \<Rightarrow> bool" where
  "jsonb_eq (PList xs) w = (case w of PList ys \<Rightarrow> jsonb_eq_list xs ys | _ \<Rightarrow> False)"
| "jsonb_eq (PDict d) w = (case w of PDict e \<Rightarrow> length d = length e \<and> jsonb_eq_items d e | _ \<Rightarrow> False)"
| "jsonb_eq (PInt i) w = (number_of w = Some (of_int i))"
| "jsonb_eq (PFloat q) w = (number_of w = Some q)"
| "jsonb_eq PNone w = (w = PNone)"
| "jsonb_eq (PStr s) w = (w = PStr s)"
| "jsonb_eq (PBool b) w = (w = PBool b)"
| "jsonb_eq (PInf s) w = False"
| "jsonb_eq PNan w = False"
| "jsonb_eq_list [] ys = (ys = [])"
| "jsonb_eq_list (x # xs) ys = (case ys of [] \<Rightarrow> False | y # zs \<Rightarrow> jsonb_eq x y \<and> jsonb_eq_list xs zs)"
| "jsonb_eq_items [] e = True"
| "jsonb_eq_items ((k, x) # d) e = ((case map_of e k of None \<Rightarrow> False | Some y \<Rightarrow> jsonb_eq x y) \<and> jsonb_eq_items d e)"

section \<open>The transaction\<close>

text \<open>What the database fills in: the columns of a new row that the statement does not name, and \<open>now()\<close>.\<close>

record generated =
  gn_columns :: "(string \<times> pyval) list"
  gn_now :: pyval

definition inserted_row :: "pyval \<Rightarrow> pyval \<Rightarrow> desired_node \<Rightarrow> generated \<Rightarrow> pyval" where
  "inserted_row c pool d g =
     PDict ([(''name'', get c ''node''), (''api_host'', get c ''api_url''), (''status'', PStr ''MAINTENANCE'')]
            @ capacity_columns (desired_capacity d)
            @ [(''vm_bridge'', get c ''bridge''), (''storage'', get c ''storage''), (''ip_pool_id'', get pool ''id''),
               (''labels'', ds_labels d)] @ gn_columns g)"

definition updated_row :: "desired_node \<Rightarrow> generated \<Rightarrow> pyval \<Rightarrow> pyval" where
  "updated_row d g r = merged r (capacity_columns (desired_capacity d) @ [(''labels'', ds_labels d), (''updated_at'', gn_now g)])"

text \<open>The statement that follows the comparisons, given the row \<open>n\<close> of the node, \<open>PNone\<close> when there is none.\<close>

definition write_node :: "pyval \<Rightarrow> pyval \<Rightarrow> pyval \<Rightarrow> desired_node \<Rightarrow> generated \<Rightarrow> inventory \<Rightarrow> inventory" where
  "write_node c pool n d g db =
     (if n = PNone then db\<lparr>iv_nodes := iv_nodes db @ [inserted_row c pool d g]\<rparr>
      else db\<lparr>iv_nodes := map (\<lambda>r. if get r ''id'' = get n ''id'' then updated_row d g r else r) (iv_nodes db)\<rparr>)"

text \<open>\<open>apply_sql\<close>: the database after the transaction; an exception rolls it back.\<close>

definition apply_node :: "pyval \<Rightarrow> node_snapshot \<Rightarrow> desired_node \<Rightarrow> generated \<Rightarrow> inventory \<Rightarrow> inventory res" where
  "apply_node c s d g db =
     (let pool = first_row (named (iv_pools db) (get c ''pool_name'')); n = first_row (named (iv_nodes db) (get c ''node''));
          cap = desired_capacity d
      in bindR (require (jsonb_eq (iv_identity db) (sn_identity s))) (\<lambda>_.
         bindR (require (jsonb_eq pool (sn_pool s))) (\<lambda>_.
         bindR (require (jsonb_eq n (sn_node s))) (\<lambda>_.
         bindR (require (n \<noteq> PNone \<longrightarrow> fits cap (allocated vm_memory db [n]) (allocated vm_vcpu db [n]) (allocated vm_disk db [n]))) (\<lambda>_.
         Inr (write_node c pool n d g db))))))"

text \<open>The \<open>SELECT\<close> that ends the script; its output is one JSON document when the name is unique.\<close>

definition applied_row :: "pyval \<Rightarrow> inventory \<Rightarrow> pyval res" where
  "applied_row c db = (case named (iv_nodes db) (get c ''node'') of [r] \<Rightarrow> Inr r | _ \<Rightarrow> Inl ValueError)"

section \<open>A registration\<close>

datatype reply = Answered | Rejected exn | Lost exn

record backup_dir =
  bd_path :: string
  bd_stat :: "(bool \<times> nat \<times> nat) res"

text \<open>\<open>rg_before\<close> is the database at the preview, \<open>rg_second\<close> when the transaction has its locks. A
  rejected transaction never ran to its end, the answer of a lost one did not arrive.\<close>

record 'db registration_env =
  rg_euid :: nat
  rg_hostname :: string
  rg_split_url :: split_url
  rg_now :: int
  rg_first :: "'db res"
  rg_second :: 'db
  rg_reply :: reply
  rg_generated :: generated
  rg_backup :: "backup_dir option"
  rg_operation :: string
  rg_write :: "string \<Rightarrow> exn option"

datatype 'db registration_event = Wrote string pyval | Committed 'db

type_synonym ('db, 'a) rio = "('db registration_event list, 'a) io"

definition on_database_host :: "'db registration_env \<Rightarrow> pyval \<Rightarrow> unit res" where
  "on_database_host e c = require (rg_euid e = 0 \<and> PStr (short_host (rg_hostname e)) = get c ''database_hostname'')"

text \<open>\<open>write_private\<close>\<close>

definition write_private :: "'db registration_env \<Rightarrow> string \<Rightarrow> pyval \<Rightarrow> ('db, unit) rio" where
  "write_private e path v l = (case rg_write e path of Some x \<Rightarrow> (l, Inl x) | None \<Rightarrow> (l @ [Wrote path v], Inr ()))"

definition protected_backup :: "'db registration_env \<Rightarrow> string res" where
  "protected_backup e =
     (case rg_backup e of
        None \<Rightarrow> Inl Refused
      | Some b \<Rightarrow>
          bindR (require (is_absolute (bd_path b))) (\<lambda>_.
          bindR (bd_stat b) (\<lambda>(directory, owner, mode).
          bindR (require (directory \<and> owner = 0 \<and> mode = 448)) (\<lambda>_. Inr (bd_path b)))))"

text \<open>The transaction, whose outcome on the database of that moment is given, and its answer.\<close>

definition run_apply :: "'db registration_env \<Rightarrow> 'db res \<Rightarrow> ('db \<Rightarrow> pyval res) \<Rightarrow> ('db, pyval) rio" where
  "run_apply e outcome answer l =
     (case (rg_reply e, outcome) of
        (Rejected x, _) \<Rightarrow> (l, Inl x)
      | (_, Inl x) \<Rightarrow> (l, Inl x)
      | (Lost x, Inr db) \<Rightarrow> (l @ [Committed db], Inl x)
      | (Answered, Inr db) \<Rightarrow> (l @ [Committed db], answer db))"

definition record_path :: "string \<Rightarrow> string \<Rightarrow> string \<Rightarrow> string" where
  "record_path directory operation phase = directory @ ''/'' @ operation @ ''-'' @ phase @ ''.json''"

text \<open>The part the three registrations share: the backup directory, the record before, the transaction,
  the comparison of its answer and the record after. It returns the path of the first record.\<close>

definition backed_apply ::
  "'db registration_env \<Rightarrow> pyval \<Rightarrow> 'db res \<Rightarrow> ('db \<Rightarrow> pyval res) \<Rightarrow> (pyval \<Rightarrow> bool) \<Rightarrow> (pyval \<Rightarrow> pyval) \<Rightarrow> ('db, string \<times> pyval) rio" where
  "backed_apply e before outcome answer expected after =
     bindIO (liftR (protected_backup e)) (\<lambda>directory.
     let path = record_path directory (rg_operation e) ''before''
     in bindIO (write_private e path before) (\<lambda>_.
        bindIO (run_apply e outcome answer) (\<lambda>row.
        bindIO (liftR (require (expected row))) (\<lambda>_.
        bindIO (write_private e (record_path directory (rg_operation e) ''after'') (after row)) (\<lambda>_.
        liftR (Inr (path, row)))))))"

definition BOUNDARY :: string where
  "BOUNDARY = ''CPU and disk reservations require the placement consumer to honor allocatable labels before activation. Disk capacity remains a physical advisory total.''"

definition summary_doc :: "pyval \<Rightarrow> desired_node \<Rightarrow> bool \<Rightarrow> pyval \<Rightarrow> pyval" where
  "summary_doc c d apply public_id =
     PDict ([(''name'', get c ''node''), (''public_id'', public_id), (''status'', ds_status d)]
            @ capacity_columns (desired_capacity d)
            @ [(''mode'', PStr (if apply then ''apply'' else ''dry-run'')), (''gpu_node'', get c ''gpu_node''),
               (''placement_capacity'', desired_capacity d), (''vm_nic_requirements'', get (ds_labels d) ''vm_nic_requirements''),
               (''image_registration'', PBool False), (''automatic_activation'', PBool False), (''boundary'', PStr BOUNDARY)])"

definition before_record :: "'db registration_env \<Rightarrow> string \<Rightarrow> pyval \<Rightarrow> node_snapshot \<Rightarrow> desired_node \<Rightarrow> pyval" where
  "before_record e digest c s d =
     PDict [(''operation_id'', PStr (rg_operation e)), (''inventory_sha256'', PStr digest), (''snapshot'', snapshot_doc s),
            (''requested'', desired_doc c d), (''phase'', PStr ''before_apply'')]"

definition register_node :: "inventory registration_env \<Rightarrow> pyval \<Rightarrow> string \<Rightarrow> bool \<Rightarrow> (inventory, pyval) rio" where
  "register_node e report digest apply =
     bindIO (liftR (validate_report (rg_split_url e) (rg_now e) report)) (\<lambda>c.
     bindIO (liftR (on_database_host e c)) (\<lambda>_.
     bindIO (liftR (bindR (rg_first e) (\<lambda>db. node_snapshot_of db c))) (\<lambda>s.
     bindIO (liftR (preview_node c (get report ''placement_capacity'') s)) (\<lambda>d.
     if \<not> apply then liftR (Inr (summary_doc c d False (ds_public_id d)))
     else bindIO (backed_apply e (before_record e digest c s d) (apply_node c s d (rg_generated e) (rg_second e)) (applied_row c)
            (\<lambda>row. py_eq (get row ''status'') (ds_status d)
                   \<and> (ds_public_id d = PNone \<or> py_eq (get row ''public_id'') (ds_public_id d)))
            (\<lambda>row. PDict [(''operation_id'', PStr (rg_operation e)), (''node'', row), (''phase'', PStr ''applied'')])) (\<lambda>(before, row).
          liftR (Inr (merged (summary_doc c d True (get row ''public_id'')) [(''before_record'', PStr before)])))))))"

end
