(* ===== verification/RecordedRun.thy ===== *)
theory RecordedRun
  imports NodeRegistration
begin

text \<open>
  The contract of a run that records what it changes: a transaction commits only after the run has
  written its opening record, nothing but records follows, and a run that was not asked to apply has
  no effect. The lemmas speak of any history of such runs in which each may be cut off at any point.
\<close>

fun wrote :: "'db registration_event \<Rightarrow> bool" where
  "wrote (Wrote p v) = True"
| "wrote (Committed db) = False"

text \<open>Every commit comes directly after a record, and \<open>P\<close> relates the two.\<close>

definition recorded :: "('db \<Rightarrow> pyval \<Rightarrow> bool) \<Rightarrow> 'db registration_event list \<Rightarrow> bool" where
  "recorded P h = (\<forall>xs db ys. h = xs @ Committed db # ys \<longrightarrow> (\<exists>zs p v. xs = zs @ [Wrote p v] \<and> P db v))"

lemma recordedI:
  "(\<And>xs db ys. h = xs @ Committed db # ys \<Longrightarrow> \<exists>zs p v. xs = zs @ [Wrote p v] \<and> P db v) \<Longrightarrow> recorded P h"
  by (simp add: recorded_def)

lemma recordedD: "recorded P h \<Longrightarrow> h = xs @ Committed db # ys \<Longrightarrow> \<exists>zs p v. xs = zs @ [Wrote p v] \<and> P db v"
  by (simp add: recorded_def)

lemma recorded_weaken: "recorded P h \<Longrightarrow> (\<And>db v. P db v \<Longrightarrow> Q db v) \<Longrightarrow> recorded Q h"
  unfolding recorded_def by metis

lemma recorded_take: "recorded P h \<Longrightarrow> recorded P (take k h)"
proof (rule recordedI)
  fix xs db ys
  assume h: "recorded P h" and "take k h = xs @ Committed db # ys"
  then have "h = xs @ Committed db # (ys @ drop k h)" by (metis append_Cons append_assoc append_take_drop_id)
  with h show "\<exists>zs p v. xs = zs @ [Wrote p v] \<and> P db v" by (rule recordedD)
qed

lemma recorded_append: "recorded P g \<Longrightarrow> recorded P h \<Longrightarrow> recorded P (g @ h)"
proof (rule recordedI)
  fix xs db ys
  assume g: "recorded P g" and h: "recorded P h" and "g @ h = xs @ Committed db # ys"
  then consider us where "g = xs @ us" "us @ h = Committed db # ys" | us where "xs = g @ us" "h = us @ Committed db # ys"
    by (auto simp: append_eq_append_conv2)
  then show "\<exists>zs p v. xs = zs @ [Wrote p v] \<and> P db v"
  proof cases
    case 1
    show ?thesis
    proof (cases us)
      case Nil
      then show ?thesis using recordedD [OF h, of "[]"] 1 by simp
    next
      case (Cons u us')
      then show ?thesis using recordedD [OF g, of xs db us'] 1 by simp
    qed
  next
    case 2
    with recordedD [OF h] obtain zs p v where "us = zs @ [Wrote p v]" "P db v" by blast
    then show ?thesis using 2(1) by (intro exI [of _ "g @ zs"]) auto
  qed
qed

lemma recorded_single: "list_all wrote rest \<Longrightarrow> P db v \<Longrightarrow> recorded P (Wrote p v # Committed db # rest)"
proof (rule recordedI)
  fix xs db' ys
  assume rest: "list_all wrote rest" and v: "P db v" and eq: "Wrote p v # Committed db # rest = xs @ Committed db' # ys"
  have "Committed db' \<notin> set rest" using rest by (auto simp: list_all_iff)
  then have "xs = [Wrote p v] \<and> db' = db" using eq by (auto simp: Cons_eq_append_conv)
  then show "\<exists>zs p v. xs = zs @ [Wrote p v] \<and> P db' v" using v by simp
qed

text \<open>The same events in another database.\<close>

abbreviation in_database :: "('db \<Rightarrow> 'any) \<Rightarrow> 'db registration_event list \<Rightarrow> 'any registration_event list" where
  "in_database f \<equiv> map (map_registration_event f)"

lemma wrote_map [simp]: "wrote (map_registration_event f x) = wrote x"
  by (cases x) simp_all

lemma in_database_split:
  assumes "in_database f h = xs @ Committed db # ys"
  obtains xs' db' ys' where "h = xs' @ Committed db' # ys'" "xs = in_database f xs'" "db = f db'" "ys = in_database f ys'"
proof -
  from assms obtain xs' rest where h: "h = xs' @ rest" "in_database f xs' = xs" "in_database f rest = Committed db # ys"
    by (auto simp: map_eq_append_conv)
  then obtain x ys' where rest: "rest = x # ys'" "map_registration_event f x = Committed db" "in_database f ys' = ys" by (auto simp: map_eq_Cons_conv)
  from rest(2) obtain db' where "x = Committed db'" "db = f db'" by (cases x) auto
  with h rest that show thesis by blast
qed

lemma recorded_map:
  assumes "recorded P h" "\<And>db v. P db v \<Longrightarrow> Q (f db) v"
  shows "recorded Q (in_database f h)"
proof (rule recordedI)
  fix xs db ys
  assume "in_database f h = xs @ Committed db # ys"
  then obtain xs' db' ys' where h: "h = xs' @ Committed db' # ys'" "xs = in_database f xs'" "db = f db'" by (rule in_database_split)
  from recordedD [OF assms(1) h(1)] obtain zs p v where "xs' = zs @ [Wrote p v]" "P db' v" by blast
  then show "\<exists>zs p v. xs = zs @ [Wrote p v] \<and> Q db v" using h assms(2) by (intro exI [of _ "in_database f zs"]) auto
qed

lemma commit_first_map:
  assumes "\<And>xs db ys. xs @ Committed db # ys = h \<Longrightarrow> list_all wrote xs \<and> list_all wrote ys" "xs @ Committed db # ys = in_database f h"
  shows "list_all wrote xs \<and> list_all wrote ys"
proof -
  from assms(2) obtain xs' db' ys' where h: "h = xs' @ Committed db' # ys'" "xs = in_database f xs'" "ys = in_database f ys'"
    by (metis in_database_split)
  with assms(1) [of xs' db' ys'] show ?thesis by (simp add: list.pred_map comp_def)
qed

text \<open>What a run has to show for the contract: the shape of its effects when it commits.\<close>

lemma committed_shape:
  assumes "\<And>db. Committed db \<in> set l \<Longrightarrow> \<exists>p v rest. l = Wrote p v # Committed db # rest \<and> list_all wrote rest \<and> P db v"
  shows "recorded P l" "xs @ Committed db # ys = l \<Longrightarrow> list_all wrote xs \<and> list_all wrote ys"
proof -
  show "recorded P l"
  proof (cases "\<exists>db. Committed db \<in> set l")
    case True
    then obtain db where "Committed db \<in> set l" ..
    from assms [OF this] show ?thesis by (elim exE conjE) (simp add: recorded_single)
  next
    case False
    then show ?thesis by (auto simp: recorded_def)
  qed
next
  assume l: "xs @ Committed db # ys = l"
  from assms [of db] obtain p v rest where rest: "l = Wrote p v # Committed db # rest" "list_all wrote rest" by (auto simp: l [symmetric])
  have "Committed db \<notin> set rest" using rest(2) by (auto simp: list_all_iff)
  then have "xs = [Wrote p v]" "ys = rest" using l rest(1) by (auto simp: append_eq_Cons_conv)
  then show "list_all wrote xs \<and> list_all wrote ys" using rest(2) by simp
qed

locale recorded_run =
  fixes run :: "'e \<Rightarrow> 'db registration_event list \<times> 'a res"
    and asked :: "'e \<Rightarrow> bool"
    and is_record :: "'e \<Rightarrow> 'db \<Rightarrow> pyval \<Rightarrow> bool"
  assumes run_recorded: "recorded (is_record e) (fst (run e))"
    and commit_first: "xs @ Committed db # ys = fst (run e) \<Longrightarrow> list_all wrote xs \<and> list_all wrote ys"
    and dry_run: "\<not> asked e \<Longrightarrow> fst (run e) = []"
begin

text \<open>The effects of a history: each run with the number of its effects that happened. Every commit in it
  comes directly after the record of a run that was asked to apply.\<close>

abbreviation record_in :: "('e \<times> nat) list \<Rightarrow> 'db \<Rightarrow> pyval \<Rightarrow> bool" where
  "record_in runs db v \<equiv> \<exists>e k. (e, k) \<in> set runs \<and> asked e \<and> is_record e db v"

lemma asked_recorded: "recorded (\<lambda>db v. asked e \<and> is_record e db v) (fst (run e))"
proof (cases "asked e")
  case True
  then show ?thesis using recorded_weaken [OF run_recorded] by simp
qed (simp add: dry_run recorded_def)

lemma history_recorded: "recorded (record_in runs) (concat (map (\<lambda>(e, k). take k (fst (run e))) runs))"
proof (induction runs)
  case Nil
  then show ?case by (simp add: recorded_def)
next
  case (Cons r runs)
  obtain e k where r: "r = (e, k)" by (cases r)
  have "recorded (record_in (r # runs)) (take k (fst (run e)))"
    by (rule recorded_take, rule recorded_weaken [OF asked_recorded]) (auto simp: r)
  moreover have "recorded (record_in (r # runs)) (concat (map (\<lambda>(e, k). take k (fst (run e))) runs))"
    using Cons.IH by (rule recorded_weaken) auto
  ultimately show ?case by (simp add: r recorded_append)
qed

lemma one_commit: "length (filter (\<lambda>x. \<not> wrote x) (fst (run e))) \<le> 1"
proof (cases "\<exists>db. Committed db \<in> set (fst (run e))")
  case True
  then obtain db xs ys where "fst (run e) = xs @ Committed db # ys" by (meson split_list)
  with commit_first [of xs db ys e] show ?thesis by (simp add: list_all_iff filter_False)
next
  case False
  have "list_all wrote (fst (run e))"
    unfolding list_all_iff
  proof
    fix x
    assume "x \<in> set (fst (run e))"
    with False show "wrote x" by (cases x) auto
  qed
  then have "filter (\<lambda>x. \<not> wrote x) (fst (run e)) = []" by (simp add: list_all_iff filter_empty_conv)
  then show ?thesis by simp
qed

lemma commits_at_most_asked:
  "length (filter (\<lambda>x. \<not> wrote x) (concat (map (\<lambda>(e, k). take k (fst (run e))) runs))) \<le> length (filter (\<lambda>(e, k). asked e) runs)"
proof (induction runs)
  case (Cons r runs)
  obtain e k where r: "r = (e, k)" by (cases r)
  have "length (filter (\<lambda>x. \<not> wrote x) (take k (fst (run e)))) \<le> length (filter (\<lambda>x. \<not> wrote x) (fst (run e)))"
    by (metis append_take_drop_id filter_append length_append le_add1)
  also have "\<dots> \<le> (if asked e then 1 else 0)" using one_commit [of e] dry_run [of e] by simp
  finally have "length (filter (\<lambda>x. \<not> wrote x) (take k (fst (run e)))) \<le> (if asked e then 1 else 0)" .
  with Cons.IH show ?case unfolding r by (cases "asked e") (simp_all add: case_prod_unfold)
qed simp

end

end
