(* ===== verification/RegistrationSafety.thy ===== *)
theory RegistrationSafety
  imports RecordedRun
begin

text \<open>
  The properties of a node registration: what a committed transaction rests on, what it may change,
  and that the machines of the node fit into the capacity it stores. One lemma follows the program up
  to the commit; the properties read their facts off it.
\<close>

section \<open>A run that commits\<close>

lemma lift_commits:
  assumes "bindIO (liftR m) f l0 = (l, r)" "l \<noteq> l0"
  obtains x where "m = Inr x" "f x l0 = (l, r)"
  using assms by (cases m) (auto simp: bindIO_def liftR_def)

lemma run_apply_commits:
  assumes "run_apply e outcome answer l = (l', r)"
  shows "l' = l \<and> (\<exists>x. r = Inl x) \<or> (\<exists>db. l' = l @ [Committed db] \<and> outcome = Inr db)"
  using assms by (auto simp: run_apply_def split: reply.splits sum.splits)

text \<open>A commit lies between the two records and comes from the transaction.\<close>

lemma backed_apply_commits:
  assumes run: "backed_apply e before outcome answer expected after [] = (l, r)" and commit: "Committed db \<in> set l"
  shows "\<exists>directory rest. protected_backup e = Inr directory \<and> outcome = Inr db
    \<and> l = Wrote (record_path directory (rg_operation e) ''before'') before # Committed db # rest \<and> list_all wrote rest"
proof -
  have "l \<noteq> []" using commit by auto
  from lift_commits [OF run [unfolded backed_apply_def Let_def] this]
  obtain directory where directory: "protected_backup e = Inr directory"
    and m: "bindIO (write_private e (record_path directory (rg_operation e) ''before'') before) (\<lambda>_.
        bindIO (run_apply e outcome answer) (\<lambda>row.
        bindIO (liftR (require (expected row))) (\<lambda>_.
        bindIO (write_private e (record_path directory (rg_operation e) ''after'') (after row)) (\<lambda>_.
        liftR (Inr (record_path directory (rg_operation e) ''before'', row)))))) [] = (l, r)" .
  let ?b = "Wrote (record_path directory (rg_operation e) ''before'') before"
  obtain l2 row where a: "run_apply e outcome answer [?b] = (l2, row)" by (cases "run_apply e outcome answer [?b]")
  consider "l2 = [?b]" "\<exists>x. row = Inl x" | db' where "l2 = [?b, Committed db']" "outcome = Inr db'"
    using run_apply_commits [OF a] by auto
  then show ?thesis
  proof cases
    case 1
    then have False using m commit a
      by (auto simp: bindIO_def write_private_def split: option.splits)
    then show ?thesis ..
  next
    case 2
    have "l = l2 \<or> (\<exists>p v. l = l2 @ [Wrote p v])" "l2 = [?b, Committed db']"
      using m commit a 2 by (auto simp: bindIO_def liftR_def write_private_def split: option.splits sum.splits)
    then show ?thesis using commit directory 2(2) by auto
  qed
qed

text \<open>What follows the shared part only changes the result.\<close>

lemma bind_backed_apply:
  assumes "bindIO (backed_apply e before outcome answer expected after) (\<lambda>(path, row). liftR (f path row)) [] = (l, r)"
  shows "\<exists>r'. backed_apply e before outcome answer expected after [] = (l, r')"
  using assms
  by (cases "backed_apply e before outcome answer expected after []"; cases "snd (backed_apply e before outcome answer expected after [])")
    (auto simp: bindIO_def liftR_def split: prod.splits)

text \<open>The plan of the three registrations: checks, a snapshot, a preview, and the shared part.\<close>

lemma reviewed_commits:
  assumes "bindIO (liftR host) (\<lambda>_. bindIO (liftR snapshot) (\<lambda>s. bindIO (liftR (preview s)) (\<lambda>d.
      if \<not> apply then liftR (dry s d)
      else bindIO (backed_apply e (before s d) (outcome s d) (answer s d) (expected s d) (after s d)) (\<lambda>(path, row).
           liftR (summary s d path row))))) [] = (l, r)"
    and commit: "Committed db \<in> set l"
  obtains s d directory rest where "apply" "host = Inr ()" "snapshot = Inr s" "preview s = Inr d" "protected_backup e = Inr directory"
    "outcome s d = Inr db" "l = Wrote (record_path directory (rg_operation e) ''before'') (before s d) # Committed db # rest" "list_all wrote rest"
proof -
  have ne: "l \<noteq> []" using commit by auto
  note step = lift_commits [OF _ ne]
  let ?end_of = "\<lambda>s d. if \<not> apply then liftR (dry s d)
      else bindIO (backed_apply e (before s d) (outcome s d) (answer s d) (expected s d) (after s d)) (\<lambda>(path, row).
           liftR (summary s d path row))"
  let ?seen = "bindIO (liftR snapshot) (\<lambda>s. bindIO (liftR (preview s)) (?end_of s))"
  obtain u where "host = Inr u" and 1: "?seen [] = (l, r)" using assms(1) by (rule step)
  from 1 obtain s where s: "snapshot = Inr s" and 2: "bindIO (liftR (preview s)) (?end_of s) [] = (l, r)" by (rule step)
  from 2 obtain d where d: "preview s = Inr d" and 3: "?end_of s d [] = (l, r)" by (rule step)
  have "apply" using 3 ne by (auto simp: liftR_def split: if_splits)
  then obtain r' where "backed_apply e (before s d) (outcome s d) (answer s d) (expected s d) (after s d) [] = (l, r')"
    using 3 by (auto dest: bind_backed_apply)
  from backed_apply_commits [OF this commit] obtain directory rest where
    b: "protected_backup e = Inr directory" "outcome s d = Inr db"
      "l = Wrote (record_path directory (rg_operation e) ''before'') (before s d) # Committed db # rest" "list_all wrote rest"
    by blast
  have "host = Inr ()" using \<open>host = Inr u\<close> by simp
  from that [OF \<open>apply\<close> this s d b] show thesis .
qed

lemma register_commits:
  assumes "register_node e report digest apply [] = (l, r)" and commit: "Committed db \<in> set l"
  obtains c db0 s d directory rest where "apply" "validate_report (rg_split_url e) (rg_now e) report = Inr c" "rg_first e = Inr db0"
    "node_snapshot_of db0 c = Inr s" "preview_node c (get report ''placement_capacity'') s = Inr d"
    "protected_backup e = Inr directory" "apply_node c s d (rg_generated e) (rg_second e) = Inr db"
    "l = Wrote (record_path directory (rg_operation e) ''before'') (before_record e digest c s d) # Committed db # rest"
    "list_all wrote rest"
proof -
  have "l \<noteq> []" using commit by auto
  with assms(1) show thesis unfolding register_node_def
  proof (rule lift_commits)
    fix c
    assume c: "validate_report (rg_split_url e) (rg_now e) report = Inr c"
    assume "bindIO (liftR (on_database_host e c)) (\<lambda>_. bindIO (liftR (bindR (rg_first e) (\<lambda>db. node_snapshot_of db c))) (\<lambda>s.
      bindIO (liftR (preview_node c (get report ''placement_capacity'') s)) (\<lambda>d.
      if \<not> apply then liftR (Inr (summary_doc c d False (ds_public_id d)))
      else bindIO (backed_apply e (before_record e digest c s d) (apply_node c s d (rg_generated e) (rg_second e)) (applied_row c)
            (\<lambda>row. py_eq (get row ''status'') (ds_status d) \<and> (ds_public_id d = PNone \<or> py_eq (get row ''public_id'') (ds_public_id d)))
            (\<lambda>row. PDict [(''operation_id'', PStr (rg_operation e)), (''node'', row), (''phase'', PStr ''applied'')])) (\<lambda>(before, row).
          liftR (Inr (merged (summary_doc c d True (get row ''public_id'')) [(''before_record'', PStr before)])))))) [] = (l, r)"
    then show thesis using commit
    proof (rule reviewed_commits)
      fix s d directory rest
      assume "bindR (rg_first e) (\<lambda>db. node_snapshot_of db c) = Inr s"
      then obtain db0 where "rg_first e = Inr db0" "node_snapshot_of db0 c = Inr s" by (auto simp: bindR_eq_Inr)
      moreover assume "apply" "preview_node c (get report ''placement_capacity'') s = Inr d" "protected_backup e = Inr directory"
        "apply_node c s d (rg_generated e) (rg_second e) = Inr db"
        "l = Wrote (record_path directory (rg_operation e) ''before'') (before_record e digest c s d) # Committed db # rest" "list_all wrote rest"
      ultimately show thesis using that c by blast
    qed
  qed
qed

lemma lift_quiet: "(\<And>x. m = Inr x \<Longrightarrow> fst (f x []) = []) \<Longrightarrow> fst (bindIO (liftR m) f []) = []"
  by (cases m) (simp_all add: bindIO_def liftR_def)

lemma reviewed_dry:
  "fst (bindIO (liftR host) (\<lambda>_. bindIO (liftR snapshot) (\<lambda>s. bindIO (liftR (preview s)) (\<lambda>d.
      if \<not> False then liftR (dry s d) else rest s d))) []) = []"
  by (intro lift_quiet) (simp add: liftR_def)

text \<open>A request: what the run meets, the report with its digest, and whether it is to apply.\<close>

definition registration :: "inventory registration_env \<times> pyval \<times> string \<times> bool \<Rightarrow> inventory registration_event list \<times> pyval res" where
  "registration = (\<lambda>(e, report, digest, apply). register_node e report digest apply [])"

definition opening_record :: "pyval \<Rightarrow> bool" where
  "opening_record v = (get v ''phase'' = PStr ''before_apply'')"

text \<open>The opening record of a request: its operation and its report.\<close>

fun registration_record :: "inventory registration_env \<times> pyval \<times> string \<times> bool \<Rightarrow> inventory \<Rightarrow> pyval \<Rightarrow> bool" where
  "registration_record (e, report, digest, apply) db v =
     (opening_record v \<and> get v ''operation_id'' = PStr (rg_operation e) \<and> get v ''inventory_sha256'' = PStr digest)"

lemma registration_shape:
  assumes "Committed db \<in> set (fst (registration q))"
  shows "\<exists>p v rest. fst (registration q) = Wrote p v # Committed db # rest \<and> list_all wrote rest \<and> registration_record q db v"
proof -
  obtain e report digest asked l r where q: "q = (e, report, digest, asked)" and run: "register_node e report digest asked [] = (l, r)"
    by (metis prod.collapse)
  with assms have "Committed db \<in> set l" by (simp add: registration_def)
  from register_commits [OF run this] obtain c s d directory rest where
    "l = Wrote (record_path directory (rg_operation e) ''before'') (before_record e digest c s d) # Committed db # rest" "list_all wrote rest"
    by metis
  then show ?thesis by (simp add: q run registration_def opening_record_def before_record_def)
qed

interpretation registrations: recorded_run registration "\<lambda>(e, report, digest, apply). apply" registration_record
proof
  fix q xs db ys
  show "recorded (registration_record q) (fst (registration q))" by (rule committed_shape) (rule registration_shape)
  show "list_all wrote xs \<and> list_all wrote ys" if "xs @ Committed db # ys = fst (registration q)"
    using that by (rule committed_shape(2) [rotated]) (rule registration_shape)
  show "fst (registration q) = []" if "\<not> (case q of (e, report, digest, apply) \<Rightarrow> apply)"
    using that by (cases q) (simp add: registration_def register_node_def lift_quiet reviewed_dry [unfolded not_False_eq_True if_True])
qed

section \<open>Previewed rows\<close>

lemma desired_capacity_previewed:
  assumes "preview_node c cap s = Inr d"
  shows "desired_capacity d = cap"
  using assms by (auto simp: preview_node_def Let_def new_labels_def get_merged split: if_splits)

lemma previewed_status:
  assumes "preview_node c cap s = Inr d" "sn_node s = PNone"
  shows "ds_status d = PStr ''MAINTENANCE''"
  using assms by (auto simp: preview_node_def Let_def)

lemma jsonb_eq_None: "jsonb_eq v PNone \<Longrightarrow> v = PNone"
  by (cases v) simp_all

lemma reported_capacity_valid:
  assumes "validate_report urlsplit now report = Inr c"
  shows "validate_capacity_document (get report ''placement_capacity'') = Inr ()"
proof -
  obtain placed where "indexR report ''placement_capacity'' = Inr placed" "validate_capacity_document placed = Inr ()"
    using assms unfolding validate_report_def Let_def bindR_eq_Inr by auto
  then show ?thesis by (auto simp: indexR_eq_Inr get_or_def)
qed

section \<open>Properties\<close>

text \<open>C28: A registration writes what was reviewed. If a run commits, it was asked to apply, it first wrote the
  record of the snapshot and of the request, the database at the commit still has the identity, the
  pool row and the node row of that snapshot, and nothing but the closing record follows.\<close>

theorem registration_applies_reviewed_rows:
  assumes "register_node e report digest apply [] = (l, r)" "Committed db \<in> set l"
  shows "\<exists>c db0 s d path rest. apply \<and> rg_first e = Inr db0 \<and> node_snapshot_of db0 c = Inr s \<and> py_eq (sn_identity s) (database_identity c)
    \<and> l = Wrote path (before_record e digest c s d) # Committed db # rest \<and> list_all wrote rest
    \<and> jsonb_eq (iv_identity (rg_second e)) (sn_identity s)
    \<and> jsonb_eq (first_row (named (iv_pools (rg_second e)) (get c ''pool_name''))) (sn_pool s)
    \<and> jsonb_eq (first_row (named (iv_nodes (rg_second e)) (get c ''node''))) (sn_node s)"
proof -
  obtain c db0 s d directory rest where run: "apply" "rg_first e = Inr db0" "node_snapshot_of db0 c = Inr s"
    "preview_node c (get report ''placement_capacity'') s = Inr d" "apply_node c s d (rg_generated e) (rg_second e) = Inr db"
    "l = Wrote (record_path directory (rg_operation e) ''before'') (before_record e digest c s d) # Committed db # rest" "list_all wrote rest"
    using register_commits [OF assms] by metis
  have "py_eq (sn_identity s) (database_identity c)" using run(4) by (simp add: preview_node_def validate_database_def)
  then show ?thesis using run by (auto simp: apply_node_def Let_def)
qed

text \<open>C29: A registration changes one row and starts nothing. The transaction leaves pools, machines and every
  node with another identifier alone. A node that is not in the database is added in MAINTENANCE; of a
  node that is, only the capacity columns, the labels and the time of the change are written, and of
  its labels only the capacity, the GPU role and the origin: its status and its addresses stay.\<close>

theorem registration_changes_one_row:
  assumes "register_node e report digest apply [] = (l, r)" "Committed db \<in> set l"
  shows "\<exists>c (s :: node_snapshot) n. n = first_row (named (iv_nodes (rg_second e)) (get c ''node'')) \<and> jsonb_eq n (sn_node s)
    \<and> iv_identity db = iv_identity (rg_second e) \<and> iv_pools db = iv_pools (rg_second e) \<and> iv_vms db = iv_vms (rg_second e)
    \<and> (n = PNone \<longrightarrow> (\<exists>row. iv_nodes db = iv_nodes (rg_second e) @ [row] \<and> get row ''name'' = get c ''node'' \<and> get row ''status'' = PStr ''MAINTENANCE''))
    \<and> (n \<noteq> PNone \<longrightarrow> (\<exists>f. iv_nodes db = map (\<lambda>r. if get r ''id'' = get n ''id'' then f r else r) (iv_nodes (rg_second e))
          \<and> (\<forall>r k. k \<notin> {''cpu_threads'', ''memory_mb'', ''disk_capacity_gb'', ''labels'', ''updated_at''} \<longrightarrow> get (f r) k = get r k)
          \<and> (\<forall>r k. k \<notin> {''gpu'', ''placement_capacity'', ''node_registration''} \<longrightarrow>
                get (get (f r) ''labels'') k = get (get (sn_node s) ''labels'') k)))"
proof -
  obtain c db0 s d directory rest where run: "apply" "rg_first e = Inr db0" "node_snapshot_of db0 c = Inr s"
    "preview_node c (get report ''placement_capacity'') s = Inr d" "apply_node c s d (rg_generated e) (rg_second e) = Inr db"
    using register_commits [OF assms] by metis
  let ?n = "first_row (named (iv_nodes (rg_second e)) (get c ''node''))" and ?g = "rg_generated e"
  let ?pool = "first_row (named (iv_pools (rg_second e)) (get c ''pool_name''))"
  have db: "db = write_node c ?pool ?n d ?g (rg_second e)" and n: "jsonb_eq ?n (sn_node s)"
    using run(5) by (auto simp: apply_node_def Let_def)
  have new: "\<exists>row. iv_nodes db = iv_nodes (rg_second e) @ [row] \<and> get row ''name'' = get c ''node'' \<and> get row ''status'' = PStr ''MAINTENANCE''"
    if "?n = PNone"
    by (simp add: db write_node_def that inserted_row_def)
  have labels: "get (ds_labels d) k = get (get (sn_node s) ''labels'') k"
    if "?n \<noteq> PNone" "k \<notin> {''gpu'', ''placement_capacity'', ''node_registration''}" for k
  proof -
    have "sn_node s \<noteq> PNone" using n that(1) jsonb_eq_None by metis
    then have "ds_labels d = merged (get (sn_node s) ''labels'') (new_labels c (get report ''placement_capacity'') (origin_of (sn_node s)))"
      using run(4) by (auto simp: preview_node_def Let_def)
    then show ?thesis using that(2) by (simp add: get_merged_other new_labels_def del: get_or_dict)
  qed
  have update: "get (updated_row d ?g r) k = get r k"
    if "k \<notin> {''cpu_threads'', ''memory_mb'', ''disk_capacity_gb'', ''labels'', ''updated_at''}" for r k
    using that by (simp add: updated_row_def capacity_columns_def get_merged_other del: get_or_dict)
  have stored: "get (updated_row d ?g r) ''labels'' = ds_labels d" for r
    by (simp add: updated_row_def get_merged del: get_or_dict)
  have old: "\<exists>f. iv_nodes db = map (\<lambda>r. if get r ''id'' = get ?n ''id'' then f r else r) (iv_nodes (rg_second e))
          \<and> (\<forall>r k. k \<notin> {''cpu_threads'', ''memory_mb'', ''disk_capacity_gb'', ''labels'', ''updated_at''} \<longrightarrow> get (f r) k = get r k)
          \<and> (\<forall>r k. k \<notin> {''gpu'', ''placement_capacity'', ''node_registration''} \<longrightarrow>
                get (get (f r) ''labels'') k = get (get (sn_node s) ''labels'') k)" if "?n \<noteq> PNone"
  proof (rule exI [of _ "updated_row d ?g"], intro conjI allI impI)
    show "iv_nodes db = map (\<lambda>r. if get r ''id'' = get ?n ''id'' then updated_row d ?g r else r) (iv_nodes (rg_second e))"
      using that by (simp add: db write_node_def)
  next
    fix r k
    show "get (updated_row d ?g r) k = get r k"
      if "k \<notin> {''cpu_threads'', ''memory_mb'', ''disk_capacity_gb'', ''labels'', ''updated_at''}" by (rule update [OF that])
    show "get (get (updated_row d ?g r) ''labels'') k = get (get (sn_node s) ''labels'') k"
      if "k \<notin> {''gpu'', ''placement_capacity'', ''node_registration''}" unfolding stored by (rule labels [OF \<open>?n \<noteq> PNone\<close> that])
  qed
  have same: "iv_identity db = iv_identity (rg_second e)" "iv_pools db = iv_pools (rg_second e)" "iv_vms db = iv_vms (rg_second e)"
    by (simp_all add: db write_node_def)
  show ?thesis
    by (rule exI [of _ c], rule exI [of _ s], rule exI [of _ ?n], intro conjI)
      (rule refl n same | rule impI, rule new, assumption | rule impI, rule old, assumption)+
qed

text \<open>What a row holds of a capacity document: the document itself, and the three columns read off it.\<close>

definition holds_capacity :: "pyval \<Rightarrow> pyval \<Rightarrow> bool" where
  "holds_capacity cap row =
     (get (get row ''labels'') ''placement_capacity'' = cap
      \<and> get row ''cpu_threads'' = get (get cap ''physical'') ''cpu_threads''
      \<and> get row ''memory_mb'' = get (get cap ''allocatable'') ''memory_mb''
      \<and> get row ''disk_capacity_gb'' = get (get cap ''physical'') ''disk_gb'')"

lemma inserted_capacity: "desired_capacity d = cap \<Longrightarrow> holds_capacity cap (inserted_row c pool d g)"
  by (simp add: holds_capacity_def inserted_row_def capacity_columns_def)

lemma updated_capacity: "desired_capacity d = cap \<Longrightarrow> holds_capacity cap (updated_row d g r)"
  by (simp add: holds_capacity_def updated_row_def get_merged capacity_columns_def del: get_or_dict)

text \<open>C30: The machines of a node fit into what it stores. When a run commits, the capacity of its report is a
  valid capacity document. A node that is not in the database yet is inserted as a row that holds this
  capacity, as document and in its columns. When the node is there, every row with its identifier comes to
  hold it, and the live machines of the node use at most its allocatable memory, CPU and disk at the
  moment of the commit.\<close>

theorem registered_capacity_covers_machines:
  assumes "register_node e report digest apply [] = (l, r)" "Committed db \<in> set l"
  shows "\<exists>c n. validate_report (rg_split_url e) (rg_now e) report = Inr c
    \<and> validate_capacity_document (get report ''placement_capacity'') = Inr ()
    \<and> n = first_row (named (iv_nodes (rg_second e)) (get c ''node''))
    \<and> (n = PNone \<longrightarrow>
          (\<exists>row. iv_nodes db = iv_nodes (rg_second e) @ [row] \<and> holds_capacity (get report ''placement_capacity'') row))
    \<and> (n \<noteq> PNone \<longrightarrow>
          fits (get report ''placement_capacity'') (allocated vm_memory db [n]) (allocated vm_vcpu db [n]) (allocated vm_disk db [n])
          \<and> (\<exists>f. iv_nodes db = map (\<lambda>r. if get r ''id'' = get n ''id'' then f r else r) (iv_nodes (rg_second e))
               \<and> (\<forall>r. holds_capacity (get report ''placement_capacity'') (f r))))"
proof -
  obtain c db0 s d directory rest where run: "validate_report (rg_split_url e) (rg_now e) report = Inr c"
    "preview_node c (get report ''placement_capacity'') s = Inr d" "apply_node c s d (rg_generated e) (rg_second e) = Inr db"
    using register_commits [OF assms] by metis
  let ?n = "first_row (named (iv_nodes (rg_second e)) (get c ''node''))" and ?cap = "get report ''placement_capacity''"
  let ?pool = "first_row (named (iv_pools (rg_second e)) (get c ''pool_name''))"
  note cap = desired_capacity_previewed [OF run(2)]
  have db: "db = write_node c ?pool ?n d (rg_generated e) (rg_second e)" using run(3) by (auto simp: apply_node_def Let_def)
  have valid: "validate_capacity_document ?cap = Inr ()" using run(1) by (rule reported_capacity_valid)
  have fit: "fits ?cap (allocated vm_memory (rg_second e) [?n]) (allocated vm_vcpu (rg_second e) [?n]) (allocated vm_disk (rg_second e) [?n])"
    if "?n \<noteq> PNone" using run(3) that by (simp add: apply_node_def Let_def cap)
  have same: "allocated amount db [?n] = allocated amount (rg_second e) [?n]" for amount
    by (simp add: db write_node_def allocated_def)
  have new: "\<exists>row. iv_nodes db = iv_nodes (rg_second e) @ [row] \<and> holds_capacity ?cap row" if "?n = PNone"
    unfolding db write_node_def that by (simp add: inserted_capacity [OF cap])
  have old: "fits ?cap (allocated vm_memory db [?n]) (allocated vm_vcpu db [?n]) (allocated vm_disk db [?n])
          \<and> (\<exists>f. iv_nodes db = map (\<lambda>r. if get r ''id'' = get ?n ''id'' then f r else r) (iv_nodes (rg_second e))
               \<and> (\<forall>r. holds_capacity ?cap (f r)))" if "?n \<noteq> PNone"
    using fit [OF that] updated_capacity [OF cap] that unfolding same
    by (intro conjI exI [of _ "updated_row d (rg_generated e)"]) (simp_all add: db write_node_def)
  show ?thesis
    by (rule exI [of _ c], rule exI [of _ ?n], intro conjI) (rule run(1) valid refl | rule impI, rule old, assumption | rule impI, rule new, assumption)+
qed

section \<open>A concrete run\<close>

text \<open>A node that is in the database and whose report is ten minutes old.\<close>

definition example_id :: string where "example_id = ''00000000-0000-4000-8000-000000000001''"
definition example_time :: string where "example_time = ''2025-01-01T12:43:02+00:00''"

definition example_config :: pyval where
  "example_config = PDict
     [(''node'', PStr ''n1''), (''cluster'', PStr ''c1''), (''api_url'', PStr ''https://n1:8006''), (''api_address'', PStr ''10.0.0.2''),
      (''ca_file'', PStr ''/ca''), (''bridge'', PStr ''b''), (''bridge_mtu'', PInt 1400), (''storage'', PStr ''s1''),
      (''pool_name'', PStr ''p1''), (''pool_cidr'', PStr ''10.0.0.0/24''), (''pool_gateway'', PStr ''10.0.0.1''),
      (''reserve_cpu_threads'', PInt 1), (''reserve_memory_mb'', PInt 1), (''reserve_disk_gb'', PInt 1), (''gpu_node'', PBool False),
      (''database'', PStr ''d''), (''database_hostname'', PStr ''h''), (''database_system_identifier'', PStr ''1234567890''),
      (''database_socket_dir'', PStr ''/s''), (''existing_public_id'', PStr example_id)]"

definition example_split :: split_url where
  "example_split = (\<lambda>_. Inr \<lparr>au_scheme = ''https'', au_host = Some ''n1'', au_port = Inr (Some 8006), au_bare = True\<rparr>)"

lemma example_network: "config_network (with_defaults example_config) = Inr ()"
  by code_simp

lemma example_time_value: "from_iso example_time = Some (Some 1735735382000000)"
  by code_simp

lemma example_valid: "config_validate example_split (with_defaults example_config) = Inr ()"
  by code_simp

definition example_capacity :: pyval where
  "example_capacity = PDict
     [(''schema_version'', PInt 1),
      (''physical'', PDict [(''cpu_threads'', PInt 8), (''memory_mb'', PInt 64), (''disk_gb'', PInt 10)]),
      (''reserved'', PDict [(''cpu_threads'', PInt 1), (''memory_mb'', PInt 1), (''disk_gb'', PInt 1)]),
      (''allocatable'', PDict [(''cpu_threads'', PInt 7), (''memory_mb'', PInt 63), (''disk_gb'', PInt 9)]),
      (''measured_at'', PStr example_time)]"

definition example_report :: pyval where
  "example_report = PDict
     [(''schema_version'', PInt 1), (''config'', example_config), (''measured_at'', PStr example_time), (''boot_id'', PStr example_id),
      (''placement_capacity'', example_capacity),
      (''thin_pool'', PDict [(''total_bytes'', PInt 10737418240), (''available_bytes'', PInt 1073741824)]),
      (''checks'', CHECKS), (''ca_sha256'', PStr (replicate 64 CHR ''0''))]"

definition example_inventory :: inventory where
  "example_inventory = \<lparr>iv_identity = database_identity example_config,
     iv_pools = [PDict [(''id'', PInt 3), (''name'', PStr ''p1''), (''cidr'', PStr ''10.0.0.0/24''), (''gateway'', PStr ''10.0.0.1'')]],
     iv_nodes = [PDict [(''id'', PInt 5), (''name'', PStr ''n1''), (''public_id'', PStr example_id), (''status'', PStr ''MAINTENANCE''),
        (''api_host'', PStr ''https://n1:8006''), (''vm_bridge'', PStr ''b''), (''storage'', PStr ''s1''), (''ip_pool_id'', PInt 3),
        (''labels'', PDict [(''zone'', PStr ''z'')])]],
     iv_vms = [\<lparr>vm_node = 5, vm_memory = 8, vm_vcpu = 2, vm_disk = 4, vm_deleted = False, vm_status = ''RUNNING''\<rparr>]\<rparr>"

definition example_registration :: "inventory registration_env" where
  "example_registration = \<lparr>rg_euid = 0, rg_hostname = ''h'', rg_split_url = example_split, rg_now = 1735735400000000,
     rg_first = Inr example_inventory, rg_second = example_inventory, rg_reply = Answered,
     rg_generated = \<lparr>gn_columns = [], gn_now = PStr ''now''\<rparr>, rg_backup = Some \<lparr>bd_path = ''/b'', bd_stat = Inr (True, 0, 448)\<rparr>,
     rg_operation = ''o'', rg_write = \<lambda>_. None\<rparr>"

lemma example_placed:
  "placement (PDict [(''cpu_threads'', PInt 8), (''memory_mb'', PInt 64), (''disk_gb'', PInt 10)]) (with_defaults example_config) (PStr example_time)
     = Inr example_capacity"
  by code_simp

lemma example_document: "validate_capacity_document example_capacity = Inr ()"
  by code_simp

lemma example_config_accepted: "config_from_dict example_split example_config = Inr (with_defaults example_config)"
proof -
  have "has_keys example_config CONFIG_FIELDS" by code_simp
  then show ?thesis by (simp add: config_from_dict_def example_valid)
qed

lemma example_same: "py_eq example_capacity example_capacity" "py_eq CHECKS CHECKS"
  by code_simp+

lemma example_reserve: "reserve_of (with_defaults example_config) ''disk_gb'' = 1"
  by code_simp

lemma example_shapes: "uuid_text example_id" "class_match is_hex 64 64 (replicate 64 CHR ''0'')"
  by code_simp+

lemma example_reported: "validate_report example_split 1735735400000000 example_report = Inr (with_defaults example_config)"
proof -
  have "get example_capacity ''physical'' = PDict [(''cpu_threads'', PInt 8), (''memory_mb'', PInt 64), (''disk_gb'', PInt 10)]"
    by (simp add: example_capacity_def)
  note capacity_facts = this example_placed example_document example_same
  show ?thesis
    by (simp add: validate_report_def example_report_def getR_def indexR_def example_config_accepted fresh_def example_time_value
        capacity_def example_valid capacity_facts canonical_id_def full_match_def example_shapes signed32_def whole_units_def
        at_least_def example_reserve)
qed

definition example_snapshot :: node_snapshot where
  "example_snapshot = \<lparr>sn_identity = iv_identity example_inventory, sn_pool = hd (iv_pools example_inventory),
     sn_node = hd (iv_nodes example_inventory), sn_memory = 8, sn_vcpu = 2, sn_disk = 4\<rparr>"

lemma example_fields:
  "get (with_defaults example_config) ''node'' = PStr ''n1''" "get (with_defaults example_config) ''pool_name'' = PStr ''p1''"
  "get (with_defaults example_config) ''pool_cidr'' = PStr ''10.0.0.0/24''" "get (with_defaults example_config) ''pool_gateway'' = PStr ''10.0.0.1''"
  "get (with_defaults example_config) ''existing_public_id'' = PStr example_id" "get (with_defaults example_config) ''api_url'' = PStr ''https://n1:8006''"
  "get (with_defaults example_config) ''bridge'' = PStr ''b''" "get (with_defaults example_config) ''storage'' = PStr ''s1''"
  "get (with_defaults example_config) ''cluster'' = PStr ''c1''" "get (with_defaults example_config) ''gpu_node'' = PBool False"
  "get (with_defaults example_config) ''database_hostname'' = PStr ''h''" "get (with_defaults example_config) ''database'' = PStr ''d''"
  "get (with_defaults example_config) ''database_system_identifier'' = PStr ''1234567890''"
  by (simp_all add: with_defaults_def example_config_def has_key_def)

lemma example_snapshot_taken: "node_snapshot_of example_inventory (with_defaults example_config) = Inr example_snapshot"
  by (simp add: node_snapshot_of_def example_fields example_inventory_def named_def scalar_def allocated_def live_def example_snapshot_def
      del: get_or_dict) (simp add: live_def)

definition example_desired :: desired_node where
  "example_desired = \<lparr>ds_status = PStr ''MAINTENANCE'', ds_pool_id = PInt 3, ds_public_id = PStr example_id,
     ds_labels = merged (PDict [(''zone'', PStr ''z'')]) (new_labels (with_defaults example_config) example_capacity (PDict []))\<rparr>"

lemma example_interface: "interface_ip (PStr ''10.0.0.1'') = Inr (PStr ''10.0.0.1'')"
proof -
  have "split_on CHR ''/'' ''10.0.0.1'' = [''10.0.0.1'']" by simp
  moreover have "parse_ipv4 ''10.0.0.1'' = Some (word_of_int 167772161)"
    by (simp add: parse_ipv4_def ip_octet_def class_match_def is_digit_def decimal_def digit_val_def ip_of_octets_def)
  moreover have "ipv4_text (word_of_int 167772161) = ''10.0.0.1''"
    by (simp add: ipv4_text_def octet_of_def str_of_nat.simps digit_chars)
  ultimately show ?thesis by (simp add: interface_ip_def)
qed

lemma example_previewed: "preview_node (with_defaults example_config) example_capacity example_snapshot = Inr example_desired"
proof -
  have i: "py_eq (sn_identity example_snapshot) (database_identity (with_defaults example_config))"
    by (simp add: example_snapshot_def example_inventory_def database_identity_def example_fields del: get_or_dict)
      (simp add: example_config_def)
  have p: "pool_ok (with_defaults example_config) (sn_pool example_snapshot) = Inr ()"
    by (simp add: pool_ok_def example_snapshot_def example_inventory_def example_fields example_interface)
  have f: "fits example_capacity 8 2 4" by (simp add: fits_def allocatable_of_def example_capacity_def)
  have e: "existing_ok (with_defaults example_config) example_capacity example_snapshot = Inr ()"
    by (simp add: existing_ok_def Let_def example_snapshot_def example_inventory_def example_fields origin_of_def has_key_def
        is_string_def f)
  show ?thesis
    by (simp add: preview_node_def validate_database_def i p e Let_def) (simp add: example_snapshot_def example_inventory_def example_desired_def origin_of_def)
qed

lemma example_applied:
  "\<exists>db. apply_node (with_defaults example_config) example_snapshot example_desired \<lparr>gn_columns = [], gn_now = PStr ''now''\<rparr> example_inventory = Inr db"
proof -
  have c: "desired_capacity example_desired = example_capacity"
    using example_previewed by (rule desired_capacity_previewed)
  have f: "fits example_capacity 8 2 4" by (simp add: fits_def allocatable_of_def example_capacity_def)
  show ?thesis
    by (simp add: apply_node_def Let_def c named_def first_row_def example_inventory_def example_fields example_snapshot_def
        database_identity_def allocated_def live_def f del: get_or_dict) (simp add: example_config_def live_def f)
qed

lemma example_run:
  "\<exists>l r db. register_node example_registration example_report ''x'' True [] = (l, r) \<and> Committed db \<in> set l"
proof -
  obtain db where db: "apply_node (with_defaults example_config) example_snapshot example_desired \<lparr>gn_columns = [], gn_now = PStr ''now''\<rparr>
      example_inventory = Inr db"
    using example_applied by blast
  have e: "rg_split_url example_registration = example_split" "rg_now example_registration = 1735735400000000"
    "rg_euid example_registration = 0" "short_host (rg_hostname example_registration) = ''h''"
    "rg_first example_registration = Inr example_inventory" "protected_backup example_registration = Inr ''/b''"
    "rg_write example_registration = (\<lambda>_. None)" "rg_reply example_registration = Answered" "rg_second example_registration = example_inventory"
    "rg_generated example_registration = \<lparr>gn_columns = [], gn_now = PStr ''now''\<rparr>"
    by (simp_all add: example_registration_def short_host_def protected_backup_def is_absolute_slash starts_with_def)
  have p: "get example_report ''placement_capacity'' = example_capacity" by (simp add: example_report_def)
  define b where "b = Wrote (record_path ''/b'' (rg_operation example_registration) ''before'')
    (before_record example_registration ''x'' (with_defaults example_config) example_snapshot example_desired)"
  have "Committed db \<in> set (fst (register_node example_registration example_report ''x'' True []))"
    by (auto simp: register_node_def bindIO_def liftR_def e p example_reported example_fields example_snapshot_taken example_previewed
        backed_apply_def on_database_host_def write_private_def run_apply_def db b_def [symmetric] Let_def split: sum.split simp del: get_or_dict)
  then show ?thesis by (metis prod.collapse)
qed

theorem registration_applies_reviewed_rows_witness:
  "\<exists>l r path v db rest. register_node example_registration example_report ''x'' True [] = (l, r) \<and> l = Wrote path v # Committed db # rest"
proof -
  obtain l r db where run: "register_node example_registration example_report ''x'' True [] = (l, r)" "Committed db \<in> set l"
    using example_run by (elim exE conjE)
  from registration_applies_reviewed_rows [OF run] show ?thesis
    by (elim exE conjE, intro exI conjI) (rule run(1))
qed

theorem registration_changes_one_row_witness:
  "\<exists>l r db. register_node example_registration example_report ''x'' True [] = (l, r) \<and> Committed db \<in> set l
     \<and> iv_vms db = iv_vms (rg_second example_registration)"
proof -
  obtain l r db where run: "register_node example_registration example_report ''x'' True [] = (l, r)" "Committed db \<in> set l"
    using example_run by (elim exE conjE)
  from registration_changes_one_row [OF run] have "iv_vms db = iv_vms (rg_second example_registration)" by (elim exE conjE)
  with run show ?thesis by (intro exI conjI)
qed

lemma example_node: "first_row (named (iv_nodes example_inventory) (PStr ''n1'')) = hd (iv_nodes example_inventory)"
  "hd (iv_nodes example_inventory) \<noteq> PNone"
  by (simp_all add: example_inventory_def named_def first_row_def)

theorem registered_capacity_covers_machines_witness:
  "\<exists>l r db. register_node example_registration example_report ''x'' True [] = (l, r) \<and> Committed db \<in> set l
     \<and> fits (get example_report ''placement_capacity'') (allocated vm_memory db [hd (iv_nodes example_inventory)])
         (allocated vm_vcpu db [hd (iv_nodes example_inventory)]) (allocated vm_disk db [hd (iv_nodes example_inventory)])"
proof -
  obtain l r db where run: "register_node example_registration example_report ''x'' True [] = (l, r)" "Committed db \<in> set l"
    using example_run by (elim exE conjE)
  have e: "rg_split_url example_registration = example_split" "rg_now example_registration = 1735735400000000"
    "rg_second example_registration = example_inventory" by (simp_all add: example_registration_def)
  from registered_capacity_covers_machines [OF run]
  have "fits (get example_report ''placement_capacity'') (allocated vm_memory db [hd (iv_nodes example_inventory)])
         (allocated vm_vcpu db [hd (iv_nodes example_inventory)]) (allocated vm_disk db [hd (iv_nodes example_inventory)])"
    unfolding e example_reported sum.inject
  proof (elim exE conjE)
    fix c n
    assume c: "with_defaults example_config = c" and n: "n = first_row (named (iv_nodes example_inventory) (get c ''node''))"
      and f: "n \<noteq> PNone \<longrightarrow> fits (get example_report ''placement_capacity'') (allocated vm_memory db [n]) (allocated vm_vcpu db [n]) (allocated vm_disk db [n])
        \<and> (\<exists>f. iv_nodes db = map (\<lambda>r. if get r ''id'' = get n ''id'' then f r else r) (iv_nodes example_inventory)
               \<and> (\<forall>r. holds_capacity (get example_report ''placement_capacity'') (f r)))"
    have h: "n = hd (iv_nodes example_inventory)" unfolding n c [symmetric] example_fields example_node ..
    show ?thesis using f [unfolded h] example_node(2) by (rule impE) (rule conjunct1)
  qed
  with run show ?thesis by (intro exI conjI)
qed

section \<open>Values in the SQL text\<close>

text \<open>How PostgreSQL reads a string literal with \<open>standard_conforming_strings\<close>: the value and what follows.\<close>

fun read_quoted :: "string \<Rightarrow> (string \<times> string) option" where
  "read_quoted [] = None"
| "read_quoted (c # s) =
     (if c \<noteq> CHR 0x27 then map_option (apfst (Cons c)) (read_quoted s)
      else case s of
             [] \<Rightarrow> Some ([], [])
           | d # s' \<Rightarrow> if d = CHR 0x27 then map_option (apfst (Cons d)) (read_quoted s') else Some ([], s))"

fun read_literal :: "string \<Rightarrow> (string \<times> string) option" where
  "read_literal [] = None"
| "read_literal (c # s) = (if c = CHR 0x27 then read_quoted s else None)"

lemma read_quoted_append: "read_quoted (sql_quote s @ t) = map_option (apfst ((@) s)) (read_quoted t)"
  by (induction s; cases "read_quoted t") (auto simp: sql_quote_def)

lemma base64_char_plain: "base64_char n \<notin> {CHR ''$'', CHR 0x27}"
proof -
  have "code (base64_char n) \<in> {43, 47} \<union> {48..57} \<union> {65..90} \<union> {97..122}"
    by (auto simp: base64_char_def)
  then show ?thesis by auto
qed

lemma base64_plain: "set (base64 s) \<inter> {CHR ''$'', CHR 0x27} = {}"
  using base64_char_plain by (induction s rule: base64.induct) (auto simp: Let_def)

lemma quote_plain: "CHR 0x27 \<notin> set s \<Longrightarrow> sql_quote s = s"
  by (induction s) (auto simp: sql_quote_def)

text \<open>Values cannot leave their place in the SQL text. A quoted string is read back as itself whatever
  it contains, unless the text goes on with another quote, which the templates never do; and the
  expression for a JSON document holds no dollar sign, so it cannot close the quoting of the block
  around it, and between its quotes only what was encoded.\<close>

theorem sql_values_stay_inside:
  "(read_literal (literal s @ rest) = Some (s, rest) \<longleftrightarrow> take 1 rest \<noteq> [CHR 0x27]) \<and> CHR ''$'' \<notin> set (json_literal dumps v)
   \<and> read_literal (literal (base64 (dumps v)) @ '', '' @ rest) = Some (base64 (dumps v), '', '' @ rest)"
proof -
  have read: "read_literal (literal s @ rest) = map_option (apfst ((@) s)) (read_quoted (CHR 0x27 # rest))" for s rest
    by (simp add: literal_def read_quoted_append)
  have "read_literal (literal s @ rest) = Some (s, rest) \<longleftrightarrow> take 1 rest \<noteq> [CHR 0x27]"
    unfolding read by (cases rest) (auto simp: apfst_def)
  moreover have "CHR ''$'' \<notin> set (json_literal dumps v)"
    using base64_plain [of "dumps v"] by (auto simp: json_literal_def literal_def quote_plain)
  moreover have "read_literal (literal (base64 (dumps v)) @ '', '' @ rest) = Some (base64 (dumps v), '', '' @ rest)"
    unfolding read by simp
  ultimately show ?thesis by blast
qed

end
