(* ===== verification/InventoryReadiness.thy ===== *)
theory InventoryReadiness
  imports NodeRegistration "HOL-Library.Product_Lexorder"
begin

text \<open>
  \<open>scripts/lib/inventory_readiness.py\<close>: the registration of an address pool and the firewall opt-in of a
  node. Both follow the plan of \<open>node_registration.py\<close>: a snapshot, a preview that refuses or says what
  would change, and one transaction that compares the database with the snapshot before it writes.
  The tables are those of \<open>NodeRegistration\<close> with the address allocations and the server version; a
  table is the list of its rows in the order of their identifiers.
\<close>

section \<open>Shared checks\<close>

definition given_uuid :: "pyval \<Rightarrow> unit res" where
  "given_uuid v = bindR (require (is_str v)) (\<lambda>_. canonical_id v)"

definition database_fields :: "pyval \<Rightarrow> unit res" where
  "database_fields c =
     require (text_match database_name (get c ''database'') \<and> text_match inventory_name (get c ''database_hostname'')
              \<and> text_match system_id (get c ''database_system_identifier'') \<and> plain_path (get c ''database_socket_dir''))"

definition readiness_identity :: "pyval \<Rightarrow> pyval \<Rightarrow> unit res" where
  "readiness_identity c actual =
     (let version = get actual ''server_version_num''
      in require (py_eq actual (merged (database_identity c) [(''server_version_num'', version)])
                  \<and> is_int version \<and> 180000 \<le> the_int version \<and> the_int version < 190000))"

section \<open>Reserved ranges\<close>

definition usable :: "network \<Rightarrow> ipv4 \<Rightarrow> bool" where
  "usable n a = (in_network a n \<and> a \<noteq> fst n \<and> a \<noteq> broadcast n)"

definition address_of :: "pyval \<Rightarrow> ipv4 res" where
  "address_of v = (case ip_value v of None \<Rightarrow> Inl ValueError | Some a \<Rightarrow> Inr a)"

definition parse_range :: "network \<Rightarrow> pyval \<Rightarrow> (ipv4 \<times> ipv4) res" where
  "parse_range n v =
     bindR (require (has_keys v [''from'', ''to''])) (\<lambda>_.
     bindR (address_of (get v ''from'')) (\<lambda>start.
     bindR (address_of (get v ''to'')) (\<lambda>stop.
     bindR (require (usable n start \<and> usable n stop \<and> start \<le> stop)) (\<lambda>_. Inr (start, stop)))))"

fun separate :: "(ipv4 \<times> ipv4) list \<Rightarrow> bool" where
  "separate (r # s # rest) = (snd r < fst s \<and> separate (s # rest))"
| "separate _ = True"

definition range_doc :: "ipv4 \<times> ipv4 \<Rightarrow> pyval" where
  "range_doc r = PDict [(''from'', PStr (ipv4_text (fst r))), (''to'', PStr (ipv4_text (snd r)))]"

definition sorted_ranges :: "pyval \<Rightarrow> network \<Rightarrow> pyval res" where
  "sorted_ranges v n =
     bindR (require (is_list v)) (\<lambda>_.
     bindR (mapR (parse_range n) (the_list v)) (\<lambda>parsed.
     bindR (require (separate (sort parsed))) (\<lambda>_.
     Inr (PList (map range_doc (sort parsed))))))"

section \<open>Configuration of a pool\<close>

definition POOL_FIELDS :: "string list" where
  "POOL_FIELDS =
     [''name'', ''cidr'', ''gateway'', ''dns'', ''reserved_ranges'', ''database'', ''database_hostname'',
      ''database_system_identifier'', ''database_socket_dir'', ''existing_public_id'']"

definition network_text :: "network \<Rightarrow> string" where
  "network_text n = ipv4_text (fst n) @ ''/'' @ str_of_nat (snd n)"

definition network_of :: "pyval \<Rightarrow> network res" where
  "network_of v = (case network_value v of None \<Rightarrow> Inl ValueError | Some n \<Rightarrow> Inr n)"

definition dns_ok :: "pyval \<Rightarrow> unit res" where
  "dns_ok v =
     bindR (require (is_list v \<and> 1 \<le> length (the_list v) \<and> length (the_list v) \<le> 8)) (\<lambda>_.
     bindR (mapR address_of (the_list v)) (\<lambda>addresses.
     require (map (\<lambda>a. PStr (ipv4_text a)) addresses = the_list v \<and> distinct addresses)))"

definition pool_validate :: "pyval \<Rightarrow> unit res" where
  "pool_validate c =
     bindR (require (text_match inventory_name (get c ''name''))) (\<lambda>_.
     bindR (network_of (get c ''cidr'')) (\<lambda>n.
     bindR (require (PStr (network_text n) = get c ''cidr'')) (\<lambda>_.
     bindR (require (snd n \<le> 30)) (\<lambda>_.
     bindR (address_of (get c ''gateway'')) (\<lambda>gateway.
     bindR (require (PStr (ipv4_text gateway) = get c ''gateway'' \<and> usable n gateway)) (\<lambda>_.
     bindR (dns_ok (get c ''dns'')) (\<lambda>_.
     bindR (sorted_ranges (get c ''reserved_ranges'') n) (\<lambda>ranges.
     bindR (require (py_eq ranges (get c ''reserved_ranges''))) (\<lambda>_.
     bindR (database_fields c) (\<lambda>_.
     if get c ''existing_public_id'' = PNone then Inr () else given_uuid (get c ''existing_public_id'')))))))))))"

definition pool_from_dict :: "pyval \<Rightarrow> pyval res" where
  "pool_from_dict v = bindR (require (has_keys v POOL_FIELDS)) (\<lambda>_. bindR (pool_validate v) (\<lambda>_. Inr v))"

definition pool_columns :: "pyval \<Rightarrow> (string \<times> pyval) list" where
  "pool_columns c = map (\<lambda>k. (k, get c k)) [''name'', ''cidr'', ''gateway'', ''dns'', ''reserved_ranges'']"

section \<open>The tables\<close>

text \<open>An allocation: the columns that the queries read, and the whole row.\<close>

record allocation =
  al_id :: int
  al_pool :: pyval
  al_ip :: network
  al_row :: pyval

record pool_inventory = inventory +
  iv_version :: int
  iv_allocations :: "allocation list"

definition identity_doc :: "pool_inventory \<Rightarrow> pyval" where
  "identity_doc db = merged (iv_identity db) [(''server_version_num'', PInt (iv_version db))]"

text \<open>\<open>ip << cidr\<close>\<close>

definition inside :: "network \<Rightarrow> network \<Rightarrow> bool" where
  "inside m n = (snd n < snd m \<and> in_network (fst m) n)"

definition pool_doc :: "pyval \<Rightarrow> pyval" where
  "pool_doc r = PDict (map (\<lambda>k. (k, get r k)) [''id'', ''public_id'', ''name'', ''cidr''])"

definition pools_doc :: "pool_inventory \<Rightarrow> pyval" where
  "pools_doc db = PList (map pool_doc (iv_pools db))"

definition pool_id :: "pool_inventory \<Rightarrow> pyval \<Rightarrow> pyval res" where
  "pool_id db name = bindR (scalar (named (iv_pools db) name)) (\<lambda>pool. Inr (get pool ''id''))"

text \<open>A row whose column equals \<open>NULL\<close> is not selected.\<close>

definition nodes_of :: "pool_inventory \<Rightarrow> pyval \<Rightarrow> pyval list" where
  "nodes_of db i = filter (\<lambda>r. i \<noteq> PNone \<and> get r ''ip_pool_id'' = i) (iv_nodes db)"

definition allocations_of :: "pool_inventory \<Rightarrow> pyval \<Rightarrow> pyval list" where
  "allocations_of db i = map al_row (filter (\<lambda>a. i \<noteq> PNone \<and> al_pool a = i) (iv_allocations db))"

definition addresses_in :: "pool_inventory \<Rightarrow> network \<Rightarrow> allocation list" where
  "addresses_in db n = filter (\<lambda>a. inside (al_ip a) n) (iv_allocations db)"

definition address_doc :: "allocation \<Rightarrow> pyval" where
  "address_doc a =
     PDict [(''id'', PInt (al_id a)), (''pool_id'', al_pool a),
            (''ip'', PStr (if snd (al_ip a) = 32 then ipv4_text (fst (al_ip a)) else network_text (al_ip a)))]"

record pool_snapshot =
  ps_identity :: pyval
  ps_pool :: pyval
  ps_pools :: pyval
  ps_nodes :: "pyval list"
  ps_allocations :: "pyval list"
  ps_addresses :: "pyval list"

text \<open>\<open>ip_pool_snapshot_sql\<close>\<close>

definition pool_snapshot_of :: "pool_inventory \<Rightarrow> pyval \<Rightarrow> pool_snapshot res" where
  "pool_snapshot_of db c =
     bindR (network_of (get c ''cidr'')) (\<lambda>n.
     bindR (scalar (named (iv_pools db) (get c ''name''))) (\<lambda>pool.
     bindR (pool_id db (get c ''name'')) (\<lambda>i.
     Inr \<lparr>ps_identity = identity_doc db, ps_pool = pool, ps_pools = pools_doc db, ps_nodes = nodes_of db i,
          ps_allocations = allocations_of db i, ps_addresses = map address_doc (addresses_in db n)\<rparr>)))"

definition pool_snapshot_doc :: "pool_snapshot \<Rightarrow> pyval" where
  "pool_snapshot_doc s =
     PDict [(''identity'', ps_identity s), (''pool'', ps_pool s), (''pools'', ps_pools s), (''nodes'', PList (ps_nodes s)),
            (''allocations'', PList (ps_allocations s)), (''addresses_in_cidr'', PList (ps_addresses s))]"

section \<open>Preview of a pool\<close>

definition no_overlap :: "pyval \<Rightarrow> network \<Rightarrow> pyval \<Rightarrow> unit res" where
  "no_overlap c n pool =
     bindR (network_of (get pool ''cidr'')) (\<lambda>m.
     require (py_eq (get pool ''name'') (get c ''name'') \<or> \<not> overlaps m n))"

definition pool_actual :: "pyval \<Rightarrow> pyval res" where
  "pool_actual pool =
     bindR (interface_ip (get pool ''gateway'')) (\<lambda>gateway.
     Inr (PDict [(''name'', get pool ''name''), (''cidr'', get pool ''cidr''), (''gateway'', gateway),
                 (''dns'', get pool ''dns''), (''reserved_ranges'', get pool ''reserved_ranges'')]))"

definition preview_pool :: "pyval \<Rightarrow> pool_snapshot \<Rightarrow> pyval res" where
  "preview_pool c s =
     bindR (readiness_identity c (ps_identity s)) (\<lambda>_.
     bindR (network_of (get c ''cidr'')) (\<lambda>n.
     bindR (mapR (no_overlap c n) (the_list (ps_pools s))) (\<lambda>_.
     let pool = ps_pool s
     in if pool = PNone
        then bindR (require (get c ''existing_public_id'' = PNone)) (\<lambda>_.
             bindR (require (ps_addresses s = [])) (\<lambda>_.
             Inr (PDict (pool_columns c @ [(''public_id'', PNone), (''mode'', PStr ''insert'')]))))
        else bindR (require (py_eq (get c ''existing_public_id'') (get pool ''public_id''))) (\<lambda>_.
             bindR (pool_actual pool) (\<lambda>actual.
             bindR (require (py_eq actual (PDict (pool_columns c)))) (\<lambda>_.
             bindR (require (list_all (\<lambda>r. py_eq (get r ''pool_id'') (get pool ''id'')) (ps_addresses s))) (\<lambda>_.
             Inr (merged actual [(''public_id'', get pool ''public_id''), (''mode'', PStr ''noop'')]))))))))"

section \<open>The transaction of a pool\<close>

definition inserted_pool :: "pyval \<Rightarrow> generated \<Rightarrow> pyval" where
  "inserted_pool c g = PDict (pool_columns c @ gn_columns g)"

text \<open>\<open>ip_pool_apply_sql\<close>\<close>

definition apply_pool :: "pyval \<Rightarrow> pool_snapshot \<Rightarrow> generated \<Rightarrow> pool_inventory \<Rightarrow> pool_inventory res" where
  "apply_pool c s g db =
     (let pool = first_row (named (iv_pools db) (get c ''name''))
      in bindR (require (jsonb_eq (identity_doc db) (ps_identity s))) (\<lambda>_.
         bindR (require (jsonb_eq pool (ps_pool s) \<and> jsonb_eq (pools_doc db) (ps_pools s))) (\<lambda>_.
         bindR (pool_id db (get c ''name'')) (\<lambda>i.
         bindR (require (jsonb_eq (PList (nodes_of db i)) (PList (ps_nodes s))
                         \<and> jsonb_eq (PList (allocations_of db i)) (PList (ps_allocations s)))) (\<lambda>_.
         if pool = PNone
         then bindR (network_of (get c ''cidr'')) (\<lambda>n.
              bindR (require (addresses_in db n = [])) (\<lambda>_.
              Inr (db\<lparr>iv_pools := iv_pools db @ [inserted_pool c g]\<rparr>)))
         else Inr db)))))"

definition applied_pool :: "pyval \<Rightarrow> pool_inventory \<Rightarrow> pyval res" where
  "applied_pool c db =
     (case named (iv_pools db) (get c ''name'') of
        [r] \<Rightarrow> Inr (PDict [(''pool'', r), (''node_count'', PInt (int (length (nodes_of db (get r ''id''))))),
                            (''allocation_count'', PInt (int (length (allocations_of db (get r ''id'')))))])
      | _ \<Rightarrow> Inl ValueError)"

section \<open>Registration of a pool\<close>

definition pool_operation :: pyval where "pool_operation = PStr ''ip-pool-registration''"

definition pool_summary :: "pyval \<Rightarrow> pool_snapshot \<Rightarrow> bool \<Rightarrow> pyval" where
  "pool_summary desired s apply =
     merged desired [(''operation'', pool_operation), (''apply'', PBool apply),
                     (''nodes_preserved'', PInt (int (length (ps_nodes s)))),
                     (''allocations_preserved'', PInt (int (length (ps_allocations s))))]"

definition pool_before :: "'db registration_env \<Rightarrow> pyval \<Rightarrow> pool_snapshot \<Rightarrow> pyval \<Rightarrow> pyval" where
  "pool_before e c s desired =
     PDict [(''operation_id'', PStr (rg_operation e)), (''operation'', pool_operation), (''config'', c),
            (''snapshot'', pool_snapshot_doc s), (''requested'', desired), (''phase'', PStr ''before_apply'')]"

definition pool_after :: "'db registration_env \<Rightarrow> pyval \<Rightarrow> pyval" where
  "pool_after e applied =
     PDict [(''operation_id'', PStr (rg_operation e)), (''operation'', pool_operation), (''result'', applied),
            (''phase'', PStr ''applied'')]"

definition pool_expected :: "pyval \<Rightarrow> pool_snapshot \<Rightarrow> pyval \<Rightarrow> bool" where
  "pool_expected c s applied =
     (py_eq (get (get applied ''pool'') ''name'') (get c ''name'') \<and> py_eq (get (get applied ''pool'') ''cidr'') (get c ''cidr'')
      \<and> get applied ''node_count'' = PInt (int (length (ps_nodes s)))
      \<and> get applied ''allocation_count'' = PInt (int (length (ps_allocations s))))"

definition register_pool :: "pool_inventory registration_env \<Rightarrow> pyval \<Rightarrow> bool \<Rightarrow> (pool_inventory, pyval) rio" where
  "register_pool e c apply =
     bindIO (liftR (on_database_host e c)) (\<lambda>_.
     bindIO (liftR (bindR (rg_first e) (\<lambda>db. pool_snapshot_of db c))) (\<lambda>s.
     bindIO (liftR (preview_pool c s)) (\<lambda>desired.
     if \<not> apply then liftR (Inr (pool_summary desired s False))
     else bindIO (backed_apply e (pool_before e c s desired) (apply_pool c s (rg_generated e) (rg_second e)) (applied_pool c)
            (pool_expected c s) (pool_after e)) (\<lambda>(before, applied).
          liftR (Inr (merged (pool_summary desired s True)
            [(''public_id'', get (get applied ''pool'') ''public_id''), (''before_record'', PStr before)]))))))"

section \<open>Firewall opt-in of a node\<close>

definition FIREWALL_FIELDS :: "string list" where
  "FIREWALL_FIELDS =
     [''node'', ''node_public_id'', ''api_host'', ''bridge'', ''storage'', ''bridge_mtu'', ''capability_evidence_id'', ''database'',
      ''database_hostname'', ''database_system_identifier'', ''database_socket_dir'']"

definition evidence_id :: "string \<Rightarrow> bool" where
  "evidence_id s =
     (head_match is_alnum (\<lambda>c. is_alnum c \<or> one_of ''._:-'' c) 7 127 s
      \<and> map lower_char s \<notin> {''placeholder'', ''changeme'', ''example-evidence''})"

definition firewall_validate :: "split_url \<Rightarrow> pyval \<Rightarrow> unit res" where
  "firewall_validate urlsplit c =
     bindR (require (text_match inventory_name (get c ''node'') \<and> text_match inventory_name (get c ''storage''))) (\<lambda>_.
     bindR (require (text_match bridge_name (get c ''bridge''))) (\<lambda>_.
     bindR (api_url_ok urlsplit (get c ''api_host'')) (\<lambda>_.
     bindR (require (is_int (get c ''bridge_mtu'') \<and> 1280 \<le> the_int (get c ''bridge_mtu'') \<and> the_int (get c ''bridge_mtu'') \<le> 1500)) (\<lambda>_.
     bindR (given_uuid (get c ''node_public_id'')) (\<lambda>_.
     bindR (require (text_match evidence_id (get c ''capability_evidence_id''))) (\<lambda>_.
     database_fields c))))))"

definition firewall_from_dict :: "split_url \<Rightarrow> pyval \<Rightarrow> pyval res" where
  "firewall_from_dict urlsplit v =
     bindR (require (has_keys v FIREWALL_FIELDS)) (\<lambda>_. bindR (firewall_validate urlsplit v) (\<lambda>_. Inr v))"

record firewall_snapshot =
  fs_identity :: pyval
  fs_node :: pyval

text \<open>\<open>vm_firewall_node_snapshot_sql\<close>\<close>

definition firewall_snapshot_of :: "pool_inventory \<Rightarrow> pyval \<Rightarrow> firewall_snapshot res" where
  "firewall_snapshot_of db c =
     bindR (scalar (named (iv_nodes db) (get c ''node''))) (\<lambda>node. Inr \<lparr>fs_identity = identity_doc db, fs_node = node\<rparr>)"

definition firewall_policy :: pyval where "firewall_policy = PDict [(''schema_version'', PInt 1)]"

definition parked_node :: "pyval \<Rightarrow> pyval \<Rightarrow> unit res" where
  "parked_node c node =
     bindR (require (node \<noteq> PNone \<and> py_eq (get node ''public_id'') (get c ''node_public_id'') \<and> py_eq (get node ''api_host'') (get c ''api_host'')
                     \<and> py_eq (get node ''vm_bridge'') (get c ''bridge'') \<and> py_eq (get node ''storage'') (get c ''storage''))) (\<lambda>_.
     require (is_string (get node ''status'') ''MAINTENANCE''))"

text \<open>\<open>preview_vm_firewall_node\<close>: the labels the node gets, and whether it has the policy already.\<close>

definition preview_firewall :: "pyval \<Rightarrow> firewall_snapshot \<Rightarrow> (pyval \<times> bool) res" where
  "preview_firewall c s =
     bindR (readiness_identity c (fs_identity s)) (\<lambda>_.
     let node = fs_node s; labels = get node ''labels''; present = has_key labels ''vm_firewall_policy'';
         existing = get labels ''vm_firewall_policy''
     in bindR (parked_node c node) (\<lambda>_.
        bindR (require (is_dict labels)) (\<lambda>_.
        bindR (require (nic_matches c (get labels ''vm_nic_requirements''))) (\<lambda>_.
        bindR (require (\<not> present \<or> py_eq existing firewall_policy \<and> is_int (get existing ''schema_version''))) (\<lambda>_.
        Inr (merged labels [(''vm_firewall_policy'', firewall_policy)], present))))))"

definition firewall_desired :: "pyval \<Rightarrow> pyval \<times> bool \<Rightarrow> pyval" where
  "firewall_desired c d =
     PDict [(''node'', get c ''node''), (''public_id'', get c ''node_public_id''), (''status'', PStr ''MAINTENANCE''), (''labels'', fst d),
            (''mode'', PStr (if snd d then ''noop'' else ''label-add'')), (''capability_evidence_id'', get c ''capability_evidence_id'')]"

text \<open>\<open>vm_firewall_node_apply_sql\<close>\<close>

definition apply_firewall :: "pyval \<Rightarrow> firewall_snapshot \<Rightarrow> pyval \<Rightarrow> generated \<Rightarrow> pool_inventory \<Rightarrow> pool_inventory res" where
  "apply_firewall c s labels g db =
     (let n = first_row (named (iv_nodes db) (get c ''node''))
      in bindR (require (jsonb_eq (identity_doc db) (fs_identity s))) (\<lambda>_.
         bindR (require (jsonb_eq n (fs_node s))) (\<lambda>_.
         bindR (require (get n ''status'' = PStr ''MAINTENANCE'' \<and> get n ''public_id'' = get c ''node_public_id''
                         \<and> get n ''api_host'' = get c ''api_host'' \<and> get n ''vm_bridge'' = get c ''bridge''
                         \<and> get n ''storage'' = get c ''storage'')) (\<lambda>_.
         Inr (if jsonb_eq (get n ''labels'') labels then db
              else db\<lparr>iv_nodes := map (\<lambda>r. if get r ''id'' = get n ''id''
                                            then merged r [(''labels'', labels), (''updated_at'', gn_now g)] else r) (iv_nodes db)\<rparr>)))))"

definition firewall_operation :: pyval where "firewall_operation = PStr ''vm-firewall-node-opt-in''"

definition firewall_summary :: "pyval \<Rightarrow> pyval \<times> bool \<Rightarrow> bool \<Rightarrow> pyval" where
  "firewall_summary c d apply =
     PDict (filter (\<lambda>(k, _). k \<noteq> ''labels'') (items (firewall_desired c d))
            @ [(''operation'', firewall_operation), (''apply'', PBool apply), (''automatic_activation'', PBool False)])"

definition firewall_before :: "'db registration_env \<Rightarrow> pyval \<Rightarrow> firewall_snapshot \<Rightarrow> pyval \<times> bool \<Rightarrow> pyval" where
  "firewall_before e c s d =
     PDict [(''operation_id'', PStr (rg_operation e)), (''operation'', firewall_operation), (''config'', c),
            (''snapshot'', PDict [(''identity'', fs_identity s), (''node'', fs_node s)]), (''requested'', firewall_desired c d),
            (''phase'', PStr ''before_apply'')]"

definition firewall_after :: "'db registration_env \<Rightarrow> pyval \<Rightarrow> pyval \<Rightarrow> pyval" where
  "firewall_after e c node =
     PDict [(''operation_id'', PStr (rg_operation e)), (''operation'', firewall_operation),
            (''capability_evidence_id'', get c ''capability_evidence_id''), (''node'', node), (''phase'', PStr ''applied'')]"

definition firewall_expected :: "pyval \<Rightarrow> pyval \<Rightarrow> pyval \<Rightarrow> bool" where
  "firewall_expected c labels node =
     (py_eq (get node ''public_id'') (get c ''node_public_id'') \<and> is_string (get node ''status'') ''MAINTENANCE''
      \<and> py_eq (get node ''labels'') labels)"

definition arm_firewall :: "pool_inventory registration_env \<Rightarrow> pyval \<Rightarrow> bool \<Rightarrow> (pool_inventory, pyval) rio" where
  "arm_firewall e c apply =
     bindIO (liftR (on_database_host e c)) (\<lambda>_.
     bindIO (liftR (bindR (rg_first e) (\<lambda>db. firewall_snapshot_of db c))) (\<lambda>s.
     bindIO (liftR (preview_firewall c s)) (\<lambda>d.
     if \<not> apply then liftR (Inr (firewall_summary c d False))
     else bindIO (backed_apply e (firewall_before e c s d) (apply_firewall c s (fst d) (rg_generated e) (rg_second e))
            (\<lambda>db. applied_row c (inventory.truncate db)) (firewall_expected c (fst d)) (firewall_after e c)) (\<lambda>(before, node).
          liftR (Inr (merged (firewall_summary c d True) [(''before_record'', PStr before)]))))))"

end
