(* ===== verification/ReadinessSafety.thy ===== *)
theory ReadinessSafety
  imports RegistrationSafety InventoryReadiness NetConfig
begin

text \<open>
  The properties of \<open>InventoryReadiness\<close>: reserved ranges are in order and apart, a pool that a run
  inserts shares no address with another pool, and the firewall opt-in changes one label of one parked
  node. Both writers keep the contract of \<open>RecordedRun\<close>.
\<close>

section \<open>Reserved ranges\<close>

lemma network_ends: "in_network a n \<Longrightarrow> fst n \<le> a \<and> a \<le> broadcast n"
proof -
  assume "in_network a n"
  then have n: "fst n = a AND netmask (snd n)" by (simp add: in_network_def)
  have "a AND broadcast n = a" unfolding broadcast_def n by (rule bit_word_eqI) (auto simp: bit_simps)
  then have "a \<le> broadcast n" by (metis word_and_le1)
  moreover have "fst n \<le> a" unfolding n by (rule word_and_le2)
  ultimately show ?thesis by simp
qed

lemma parse_range_Inr:
  assumes "parse_range n v = Inr r"
  shows "usable n (fst r) \<and> usable n (snd r) \<and> fst r \<le> snd r"
  using assms by (auto simp: parse_range_def)

lemma parse_range_doc: "usable n a \<Longrightarrow> usable n b \<Longrightarrow> a \<le> b \<Longrightarrow> parse_range n (range_doc (a, b)) = Inr (a, b)"
  by (simp add: parse_range_def range_doc_def has_keys_def address_of_def parse_ipv4_text)

lemma separate_sorted:
  assumes "separate rs" "\<forall>r\<in>set rs. fst r \<le> snd r"
  shows "sorted_wrt (\<lambda>r s. snd r < fst s) rs"
  using assms
proof (induction rs rule: separate.induct)
  case (1 r s rest)
  then have IH: "sorted_wrt (\<lambda>r s. snd r < fst s) (s # rest)" by simp
  have "snd r < fst t" if "t \<in> set rest" for t
  proof -
    have "snd s < fst t" using IH that by simp
    moreover have "snd r < fst s" "fst s \<le> snd s" using 1 by simp_all
    ultimately show ?thesis by (meson le_less_trans less_trans order_less_le_trans)
  qed
  then show ?case using 1(2) IH by simp
qed simp_all

lemma mapR_range_docs: "\<forall>r\<in>set rs. usable n (fst r) \<and> usable n (snd r) \<and> fst r \<le> snd r \<Longrightarrow> mapR (parse_range n) (map range_doc rs) = Inr rs"
  using parse_range_doc [of n] by (auto simp: mapR_eq_Inr list_all2_map1 list_all2_same)

text \<open>What \<open>_sorted_ranges\<close> returns is accepted again and returned unchanged.\<close>

lemma sorted_ranges_Inr:
  assumes "sorted_ranges v n = Inr w"
  obtains rs where "w = PList (map range_doc rs)" "sorted rs" "separate rs" "\<forall>r\<in>set rs. usable n (fst r) \<and> usable n (snd r) \<and> fst r \<le> snd r"
proof -
  from assms obtain parsed where p: "mapR (parse_range n) (the_list v) = Inr parsed" "separate (sort parsed)" "w = PList (map range_doc (sort parsed))"
    by (auto simp: sorted_ranges_def)
  have "\<forall>r\<in>set parsed. usable n (fst r) \<and> usable n (snd r) \<and> fst r \<le> snd r"
  proof
    fix r
    assume "r \<in> set parsed"
    then obtain x where "parse_range n x = Inr r" using p(1) by (auto simp: mapR_eq_Inr list_all2_conv_all_nth in_set_conv_nth)
    then show "usable n (fst r) \<and> usable n (snd r) \<and> fst r \<le> snd r" by (rule parse_range_Inr)
  qed
  with p that [of "sort parsed"] show thesis by simp
qed

lemma sorted_ranges_stable:
  assumes "sorted_ranges v n = Inr w"
  shows "sorted_ranges w n = Inr w"
  using assms
proof (rule sorted_ranges_Inr)
  fix rs
  assume "w = PList (map range_doc rs)" "sorted rs" "separate rs" "\<forall>r\<in>set rs. usable n (fst r) \<and> usable n (snd r) \<and> fst r \<le> snd r"
  then show ?thesis by (simp add: sorted_ranges_def mapR_range_docs sorted_sort_id)
qed

text \<open>C33: The reserved ranges of an accepted pool are in order and apart. They are returned by
  \<open>_sorted_ranges\<close> as they stand, each is a range of usable addresses (in the network, neither its first
  nor its last), and no address is in two of them.\<close>

theorem accepted_ranges_are_separate:
  assumes "pool_validate c = Inr ()"
  shows "\<exists>n rs. network_value (get c ''cidr'') = Some n
    \<and> sorted_ranges (get c ''reserved_ranges'') n = Inr (PList (map range_doc rs))
    \<and> sorted_ranges (PList (map range_doc rs)) n = Inr (PList (map range_doc rs))
    \<and> py_eq (PList (map range_doc rs)) (get c ''reserved_ranges'')
    \<and> sorted_wrt (\<lambda>r s. snd r < fst s) rs
    \<and> (\<forall>(a, b)\<in>set rs. a \<le> b \<and> (\<forall>x. a \<le> x \<and> x \<le> b \<longrightarrow> usable n x))"
proof -
  obtain n ranges where n: "network_value (get c ''cidr'') = Some n" and r: "sorted_ranges (get c ''reserved_ranges'') n = Inr ranges"
    "py_eq ranges (get c ''reserved_ranges'')"
    using assms by (auto simp: pool_validate_def network_of_def simp del: get_or_dict split: option.splits)
  from r(1) obtain rs where rs: "ranges = PList (map range_doc rs)" "separate rs"
    "\<forall>r\<in>set rs. usable n (fst r) \<and> usable n (snd r) \<and> fst r \<le> snd r" by (rule sorted_ranges_Inr)
  have between: "usable n x" if "(a, b) \<in> set rs" "a \<le> x" "x \<le> b" for a b x
  proof -
    have u: "usable n a" "usable n b" using rs(3) that(1) by force+
    have len: "snd n \<le> 32" using n by (rule network_value_length)
    have mem: "in_network x n" using u that(2,3) len network_interval [of a n b x] by (simp add: usable_def)
    have "fst n \<le> a" "b \<le> broadcast n" using u network_ends by (simp_all add: usable_def)
    then have "x \<noteq> fst n" "x \<noteq> broadcast n" using u that(2,3) by (auto simp: usable_def)
    with mem show ?thesis by (simp add: usable_def)
  qed
  show ?thesis
    using n r rs between sorted_ranges_stable [OF r(1)] separate_sorted [OF rs(2)] by (intro exI [of _ n] exI [of _ rs]) auto
qed

section \<open>Runs that commit\<close>

lemma pool_commits:
  assumes "register_pool e c apply [] = (l, r)" "Committed db \<in> set l"
  obtains db0 s desired directory rest where "apply" "rg_first e = Inr db0" "pool_snapshot_of db0 c = Inr s" "preview_pool c s = Inr desired"
    "apply_pool c s (rg_generated e) (rg_second e) = Inr db"
    "l = Wrote (record_path directory (rg_operation e) ''before'') (pool_before e c s desired) # Committed db # rest" "list_all wrote rest"
  using assms unfolding register_pool_def
proof (rule reviewed_commits)
  fix s desired directory rest
  assume s: "bindR (rg_first e) (\<lambda>db. pool_snapshot_of db c) = Inr s"
    and run: "apply" "preview_pool c s = Inr desired" "apply_pool c s (rg_generated e) (rg_second e) = Inr db"
    "l = Wrote (record_path directory (rg_operation e) ''before'') (pool_before e c s desired) # Committed db # rest" "list_all wrote rest"
  from s obtain db0 where "rg_first e = Inr db0" "pool_snapshot_of db0 c = Inr s" by (auto simp: bindR_eq_Inr)
  from that [OF run(1) this run(2-5)] show thesis .
qed

lemma firewall_commits:
  assumes "arm_firewall e c apply [] = (l, r)" "Committed db \<in> set l"
  obtains db0 s d directory rest where "apply" "rg_first e = Inr db0" "firewall_snapshot_of db0 c = Inr s" "preview_firewall c s = Inr d"
    "apply_firewall c s (fst d) (rg_generated e) (rg_second e) = Inr db"
    "l = Wrote (record_path directory (rg_operation e) ''before'') (firewall_before e c s d) # Committed db # rest" "list_all wrote rest"
  using assms unfolding arm_firewall_def
proof (rule reviewed_commits)
  fix s d directory rest
  assume s: "bindR (rg_first e) (\<lambda>db. firewall_snapshot_of db c) = Inr s"
    and run: "apply" "preview_firewall c s = Inr d" "apply_firewall c s (fst d) (rg_generated e) (rg_second e) = Inr db"
    "l = Wrote (record_path directory (rg_operation e) ''before'') (firewall_before e c s d) # Committed db # rest" "list_all wrote rest"
  from s obtain db0 where "rg_first e = Inr db0" "firewall_snapshot_of db0 c = Inr s" by (auto simp: bindR_eq_Inr)
  from that [OF run(1) this run(2-5)] show thesis .
qed

section \<open>Histories\<close>

datatype readiness_request =
    PoolRequest "pool_inventory registration_env" pyval bool
  | FirewallRequest "pool_inventory registration_env" pyval bool

fun readiness_run :: "readiness_request \<Rightarrow> pool_inventory registration_event list \<times> pyval res" where
  "readiness_run (PoolRequest e c apply) = register_pool e c apply []"
| "readiness_run (FirewallRequest e c apply) = arm_firewall e c apply []"

fun to_apply :: "readiness_request \<Rightarrow> bool" where
  "to_apply (PoolRequest e c apply) = apply"
| "to_apply (FirewallRequest e c apply) = apply"

fun readiness_record :: "readiness_request \<Rightarrow> pool_inventory \<Rightarrow> pyval \<Rightarrow> bool" where
  "readiness_record (PoolRequest e c apply) db v =
     (opening_record v \<and> get v ''operation_id'' = PStr (rg_operation e) \<and> get v ''operation'' = pool_operation \<and> get v ''config'' = c)"
| "readiness_record (FirewallRequest e c apply) db v =
     (opening_record v \<and> get v ''operation_id'' = PStr (rg_operation e) \<and> get v ''operation'' = firewall_operation \<and> get v ''config'' = c)"

lemma readiness_shape:
  assumes "Committed db \<in> set (fst (readiness_run q))"
  shows "\<exists>p v rest. fst (readiness_run q) = Wrote p v # Committed db # rest \<and> list_all wrote rest \<and> readiness_record q db v"
proof (cases q)
  case (PoolRequest e c asked)
  obtain l r where run: "register_pool e c asked [] = (l, r)" by (cases "register_pool e c asked []")
  with assms PoolRequest have "Committed db \<in> set l" by simp
  from pool_commits [OF run this] obtain s d directory rest where
    "l = Wrote (record_path directory (rg_operation e) ''before'') (pool_before e c s d) # Committed db # rest" "list_all wrote rest" by metis
  then show ?thesis by (simp add: PoolRequest run opening_record_def pool_before_def)
next
  case (FirewallRequest e c asked)
  obtain l r where run: "arm_firewall e c asked [] = (l, r)" by (cases "arm_firewall e c asked []")
  with assms FirewallRequest have "Committed db \<in> set l" by simp
  from firewall_commits [OF run this] obtain s d directory rest where
    "l = Wrote (record_path directory (rg_operation e) ''before'') (firewall_before e c s d) # Committed db # rest" "list_all wrote rest" by metis
  then show ?thesis by (simp add: FirewallRequest run opening_record_def firewall_before_def)
qed

interpretation readiness: recorded_run readiness_run to_apply readiness_record
proof
  fix q xs db ys
  show "recorded (readiness_record q) (fst (readiness_run q))" by (rule committed_shape) (rule readiness_shape)
  show "list_all wrote xs \<and> list_all wrote ys" if "xs @ Committed db # ys = fst (readiness_run q)"
    using that by (rule committed_shape(2) [rotated]) (rule readiness_shape)
  show "fst (readiness_run q) = []" if "\<not> to_apply q"
    using that by (cases q)
      (simp_all add: register_pool_def arm_firewall_def reviewed_dry [unfolded not_False_eq_True if_True])
qed

section \<open>Pools\<close>

lemma jsonb_eq_list_all2: "jsonb_eq_list xs ys \<longleftrightarrow> list_all2 jsonb_eq xs ys"
  by (induction xs arbitrary: ys) (auto split: list.splits simp: list_all2_Cons1)

lemma jsonb_eq_pool_doc:
  "jsonb_eq (pool_doc r) (pool_doc r') \<Longrightarrow> jsonb_eq (get r ''name'') (get r' ''name'') \<and> jsonb_eq (get r ''cidr'') (get r' ''cidr'')"
  by (simp add: pool_doc_def del: get_or_dict)

lemma jsonb_eq_PStr: "jsonb_eq v (PStr s) \<Longrightarrow> v = PStr s"
  by (cases v) simp_all

lemma jsonb_eq_network: "jsonb_eq v w \<Longrightarrow> network_value v = Some m \<Longrightarrow> network_value w = Some k \<Longrightarrow> k = m"
  by (cases v; cases w) auto

text \<open>Every pool of the database has its counterpart in the snapshot, whose network was compared.\<close>

lemma compared_pool:
  assumes "jsonb_eq (pools_doc db) (pools_doc db0)" "mapR (no_overlap c n) (the_list (pools_doc db0)) = Inr us" "pool \<in> set (iv_pools db)"
    "network_value (get pool ''cidr'') = Some m" "get pool ''name'' \<noteq> get c ''name''" "is_str (get c ''name'')"
  shows "\<not> overlaps m n"
proof -
  from assms(3) obtain i where i: "i < length (iv_pools db)" "iv_pools db ! i = pool" by (auto simp: in_set_conv_nth)
  let ?pool = "iv_pools db0 ! i"
  have "list_all2 jsonb_eq (map pool_doc (iv_pools db)) (map pool_doc (iv_pools db0))"
    using assms(1) by (simp add: pools_doc_def jsonb_eq_list_all2)
  then have i0: "i < length (iv_pools db0)" and "jsonb_eq (pool_doc pool) (pool_doc ?pool)"
    using i by (auto simp: list_all2_conv_all_nth)
  then have same: "jsonb_eq (get pool ''name'') (get ?pool ''name'')" "jsonb_eq (get pool ''cidr'') (get ?pool ''cidr'')"
    by (simp_all add: jsonb_eq_pool_doc)
  have "no_overlap c n (pool_doc ?pool) = Inr (us ! i)"
    using assms(2) i0 by (auto simp: mapR_eq_Inr pools_doc_def list_all2_conv_all_nth)
  then obtain k where k: "network_value (get ?pool ''cidr'') = Some k" "py_eq (get ?pool ''name'') (get c ''name'') \<or> \<not> overlaps k n"
    by (auto simp: no_overlap_def network_of_def pool_doc_def simp del: get_or_dict split: option.splits) (auto simp: get_or_def)
  obtain s where s: "get c ''name'' = PStr s" using assms(6) by (cases "get c ''name''") simp_all
  have "\<not> py_eq (get ?pool ''name'') (get c ''name'')"
  proof
    assume "py_eq (get ?pool ''name'') (get c ''name'')"
    then have "get ?pool ''name'' = PStr s" unfolding s by (cases "get ?pool ''name''") simp_all
    with same(1) jsonb_eq_PStr have "get pool ''name'' = PStr s" by simp
    with assms(5) s show False by simp
  qed
  moreover have "k = m" using same(2) assms(4) k(1) by (rule jsonb_eq_network)
  ultimately show ?thesis using k(2) by simp
qed

text \<open>C32: A pool that is inserted is apart from all others. When a run commits an accepted configuration
  whose pool is not in the database, it adds one row with the name and the network of the
  configuration and changes nothing else; no address is in the network of this row and in that of
  another pool, and no allocation lies in it. When the pool is there, the commit changes nothing.\<close>

theorem inserted_pool_is_separate:
  assumes "register_pool e c apply [] = (l, r)" "Committed db \<in> set l" "pool_validate c = Inr ()"
  shows "(named (iv_pools (rg_second e)) (get c ''name'') \<noteq> [] \<and> first_row (named (iv_pools (rg_second e)) (get c ''name'')) \<noteq> PNone \<longrightarrow>
           db = rg_second e)
    \<and> (named (iv_pools (rg_second e)) (get c ''name'') = [] \<longrightarrow>
        (\<exists>n row. network_value (get c ''cidr'') = Some n \<and> get row ''name'' = get c ''name'' \<and> get row ''cidr'' = get c ''cidr''
          \<and> db = (rg_second e)\<lparr>iv_pools := iv_pools (rg_second e) @ [row]\<rparr>
          \<and> (\<forall>pool\<in>set (iv_pools (rg_second e)). \<forall>m a. network_value (get pool ''cidr'') = Some m \<longrightarrow> \<not> (in_network a m \<and> in_network a n))
          \<and> (\<forall>x\<in>set (iv_allocations db). \<not> inside (al_ip x) n)))"
proof -
  obtain db0 s desired where run: "pool_snapshot_of db0 c = Inr s" "preview_pool c s = Inr desired"
    "apply_pool c s (rg_generated e) (rg_second e) = Inr db"
    using pool_commits [OF assms(1,2)] by metis
  let ?named = "named (iv_pools (rg_second e)) (get c ''name'')"
  obtain n where n: "network_value (get c ''cidr'') = Some n" and str: "is_str (get c ''name'')"
    using assms(3) by (auto simp: pool_validate_def network_of_def text_match_def simp del: get_or_dict split: option.splits)
  have doc: "ps_pools s = pools_doc db0" using run(1) by (auto simp: pool_snapshot_of_def)
  have same: "jsonb_eq (pools_doc (rg_second e)) (pools_doc db0)"
    using run(3) by (simp add: apply_pool_def Let_def doc del: get_or_dict split: if_splits)
  obtain us where compared: "mapR (no_overlap c n) (the_list (pools_doc db0)) = Inr us"
    using run(2) by (auto simp: preview_pool_def network_of_def n doc simp del: get_or_dict)
  have new: "\<exists>row. get row ''name'' = get c ''name'' \<and> get row ''cidr'' = get c ''cidr''
      \<and> db = (rg_second e)\<lparr>iv_pools := iv_pools (rg_second e) @ [row]\<rparr> \<and> addresses_in (rg_second e) n = []"
    if "?named = []"
  proof (rule exI [of _ "inserted_pool c (rg_generated e)"], intro conjI)
    show "get (inserted_pool c (rg_generated e)) ''name'' = get c ''name''" "get (inserted_pool c (rg_generated e)) ''cidr'' = get c ''cidr''"
      by (simp_all add: inserted_pool_def pool_columns_def)
    show "db = (rg_second e)\<lparr>iv_pools := iv_pools (rg_second e) @ [inserted_pool c (rg_generated e)]\<rparr>" "addresses_in (rg_second e) n = []"
      using run(3) that by (auto simp: apply_pool_def Let_def first_row_def network_of_def n simp del: get_or_dict)
  qed
  have apart: "\<not> (in_network a m \<and> in_network a n)"
    if "?named = []" "pool \<in> set (iv_pools (rg_second e))" "network_value (get pool ''cidr'') = Some m" for pool m a
  proof -
    have "get pool ''name'' \<noteq> get c ''name''" using that(1,2) by (auto simp: named_def filter_empty_conv)
    from compared_pool [OF same compared that(2,3) this str] have "\<not> overlaps m n" .
    then show ?thesis
      using disjoint_networks network_value_length network_value_strict that(3) n by metis
  qed
  have kept: "db = rg_second e" if "first_row ?named \<noteq> PNone"
    using run(3) that by (auto simp: apply_pool_def Let_def simp del: get_or_dict)
  show ?thesis
  proof (intro conjI impI)
    assume empty: "?named = []"
    from new [OF this] obtain row where row: "get row ''name'' = get c ''name''" "get row ''cidr'' = get c ''cidr''"
      "db = (rg_second e)\<lparr>iv_pools := iv_pools (rg_second e) @ [row]\<rparr>" "addresses_in (rg_second e) n = []" by blast
    have "\<forall>x\<in>set (iv_allocations db). \<not> inside (al_ip x) n" using row(3,4) by (auto simp: addresses_in_def filter_empty_conv)
    with n row(1-3) apart [OF empty]
    show "\<exists>n row. network_value (get c ''cidr'') = Some n \<and> get row ''name'' = get c ''name'' \<and> get row ''cidr'' = get c ''cidr''
          \<and> db = (rg_second e)\<lparr>iv_pools := iv_pools (rg_second e) @ [row]\<rparr>
          \<and> (\<forall>pool\<in>set (iv_pools (rg_second e)). \<forall>m a. network_value (get pool ''cidr'') = Some m \<longrightarrow> \<not> (in_network a m \<and> in_network a n))
          \<and> (\<forall>x\<in>set (iv_allocations db). \<not> inside (al_ip x) n)"
      by blast
  qed (use kept in simp)
qed

section \<open>Firewall opt-in\<close>

lemma jsonb_eq_get:
  assumes "jsonb_eq v w" "has_key v k"
  shows "jsonb_eq (get v k) (get w k)"
proof -
  have "\<exists>y. map_of e k = Some y \<and> jsonb_eq x y" if "jsonb_eq_items d e" "map_of d k = Some x" for d e x
    using that by (induction d) (auto split: option.splits if_splits)
  with assms show ?thesis by (cases v; cases w) (fastforce simp: get_or_def has_key_def)+
qed

text \<open>The firewall opt-in changes one label of one parked node. When a run commits, the node of the
  configuration is in the database in MAINTENANCE with the configured identifier and addresses, and
  the transaction either changes nothing or, in the rows with the identifier of this node, the time of
  the change and the labels: the policy label has the reviewed value and the labels that were there
  keep theirs.\<close>

theorem optin_changes_one_label:
  assumes "arm_firewall e c apply [] = (l, r)" "Committed db \<in> set l"
  shows "\<exists>n f. n = first_row (named (iv_nodes (rg_second e)) (get c ''node'')) \<and> get n ''status'' = PStr ''MAINTENANCE''
    \<and> get n ''public_id'' = get c ''node_public_id'' \<and> get n ''api_host'' = get c ''api_host''
    \<and> db \<in> {rg_second e, (rg_second e)\<lparr>iv_nodes := map (\<lambda>r. if get r ''id'' = get n ''id'' then f r else r) (iv_nodes (rg_second e))\<rparr>}
    \<and> (\<forall>r k. k \<notin> {''labels'', ''updated_at''} \<longrightarrow> get (f r) k = get r k)
    \<and> (\<forall>r. get (get (f r) ''labels'') ''vm_firewall_policy'' = firewall_policy)
    \<and> (\<forall>r k. has_key n ''labels'' \<and> has_key (get n ''labels'') k \<and> k \<noteq> ''vm_firewall_policy'' \<longrightarrow>
          jsonb_eq (get (get n ''labels'') k) (get (get (f r) ''labels'') k))"
proof -
  obtain s d where run: "preview_firewall c s = Inr d" "apply_firewall c s (fst d) (rg_generated e) (rg_second e) = Inr db"
    using firewall_commits [OF assms] by metis
  let ?n = "first_row (named (iv_nodes (rg_second e)) (get c ''node''))"
  let ?f = "\<lambda>r. merged r [(''labels'', fst d), (''updated_at'', gn_now (rg_generated e))]"
  have d: "fst d = merged (get (fs_node s) ''labels'') [(''vm_firewall_policy'', firewall_policy)]"
    using run(1) by (auto simp: preview_firewall_def Let_def simp del: get_or_dict)
  have node: "jsonb_eq ?n (fs_node s)" "get ?n ''status'' = PStr ''MAINTENANCE''" "get ?n ''public_id'' = get c ''node_public_id''"
    "get ?n ''api_host'' = get c ''api_host''"
    "db \<in> {rg_second e, (rg_second e)\<lparr>iv_nodes := map (\<lambda>r. if get r ''id'' = get ?n ''id'' then ?f r else r) (iv_nodes (rg_second e))\<rparr>}"
    using run(2) by (auto simp: apply_firewall_def Let_def simp del: get_or_dict)
  have other: "get (?f r) k = get r k" if "k \<notin> {''labels'', ''updated_at''}" for r k
    using that by (simp add: get_merged_other del: get_or_dict)
  have labels: "get (?f r) ''labels'' = fst d" for r by (simp add: get_merged del: get_or_dict)
  have policy: "get (fst d) ''vm_firewall_policy'' = firewall_policy" by (simp add: d get_merged del: get_or_dict)
  have kept: "jsonb_eq (get (get ?n ''labels'') k) (get (fst d) k)"
    if "has_key ?n ''labels'' \<and> has_key (get ?n ''labels'') k \<and> k \<noteq> ''vm_firewall_policy''" for k
  proof -
    have "jsonb_eq (get ?n ''labels'') (get (fs_node s) ''labels'')" using node(1) that jsonb_eq_get by blast
    then have "jsonb_eq (get (get ?n ''labels'') k) (get (get (fs_node s) ''labels'') k)" using that jsonb_eq_get by blast
    then show ?thesis using that by (simp add: d get_merged_other del: get_or_dict)
  qed
  show ?thesis
    by (rule exI [of _ ?n], rule exI [of _ ?f], intro conjI, unfold labels)
      (rule refl node | rule allI, rule policy | intro allI impI, rule kept, assumption | intro allI impI, rule other, assumption)+
qed

section \<open>Concrete runs\<close>

definition example_pool :: pyval where
  "example_pool = PDict
     [(''name'', PStr ''p2''), (''cidr'', PStr ''10.1.0.0/24''), (''gateway'', PStr ''10.1.0.1''), (''dns'', PList [PStr ''1.1.1.1'']),
      (''reserved_ranges'', PList [PDict [(''from'', PStr ''10.1.0.2''), (''to'', PStr ''10.1.0.9'')]]), (''database'', PStr ''d''),
      (''database_hostname'', PStr ''h''), (''database_system_identifier'', PStr ''1234567890''), (''database_socket_dir'', PStr ''/s''),
      (''existing_public_id'', PNone)]"

abbreviation pool_address :: "int \<Rightarrow> ipv4" where
  "pool_address i \<equiv> word_of_int (167837696 + i)"

lemma example_addresses:
  "parse_ipv4 ''10.1.0.0'' = Some (pool_address 0)" "parse_ipv4 ''10.1.0.1'' = Some (pool_address 1)"
  "parse_ipv4 ''10.1.0.2'' = Some (pool_address 2)" "parse_ipv4 ''10.1.0.9'' = Some (pool_address 9)"
  "parse_ipv4 ''1.1.1.1'' = Some (word_of_int 16843009)"
  by code_simp+

lemma example_texts:
  "ipv4_text (pool_address 0) = ''10.1.0.0''" "ipv4_text (pool_address 1) = ''10.1.0.1''" "ipv4_text (pool_address 2) = ''10.1.0.2''"
  "ipv4_text (pool_address 9) = ''10.1.0.9''" "ipv4_text (word_of_int 16843009) = ''1.1.1.1''"
  by (simp_all add: ipv4_text_def octet_of_def str_of_nat.simps digit_chars)

lemma example_usable:
  "usable (pool_address 0, 24) (pool_address 1)" "usable (pool_address 0, 24) (pool_address 2)" "usable (pool_address 0, 24) (pool_address 9)"
  "pool_address 2 \<le> pool_address 9"
  by code_simp+

lemma example_network_value: "network_value (PStr ''10.1.0.0/24'') = Some (pool_address 0, 24)"
  by code_simp

lemma example_fields_ok: "text_match inventory_name (get example_pool ''name'')" "database_fields example_pool = Inr ()"
  by code_simp+

lemma example_get:
  "get example_pool ''name'' = PStr ''p2''" "get example_pool ''cidr'' = PStr ''10.1.0.0/24''" "get example_pool ''gateway'' = PStr ''10.1.0.1''"
  "get example_pool ''dns'' = PList [PStr ''1.1.1.1'']"
  "get example_pool ''reserved_ranges'' = PList [PDict [(''from'', PStr ''10.1.0.2''), (''to'', PStr ''10.1.0.9'')]]"
  "get example_pool ''existing_public_id'' = PNone" "get example_pool ''database_hostname'' = PStr ''h''"
  by (simp_all add: example_pool_def)

lemma example_ranges: "sorted_ranges (get example_pool ''reserved_ranges'') (pool_address 0, 24) = Inr (get example_pool ''reserved_ranges'')"
  unfolding example_get
  by (simp add: sorted_ranges_def parse_range_def has_keys_def address_of_def range_doc_def example_addresses [simplified] example_texts [simplified]
      example_usable [simplified])

lemma example_network_text: "network_text (pool_address 0, 24) = ''10.1.0.0/24''"
  unfolding network_text_def fst_conv snd_conv example_texts by (simp add: str_of_nat.simps digit_chars)

lemma example_dns: "dns_ok (get example_pool ''dns'') = Inr ()"
  unfolding example_get by (simp add: dns_ok_def address_of_def example_addresses example_texts [simplified])

lemma example_gateway: "address_of (get example_pool ''gateway'') = Inr (pool_address 1)"
  unfolding example_get by (simp add: address_of_def example_addresses)

lemma example_cidr: "network_of (get example_pool ''cidr'') = Inr (pool_address 0, 24)"
  unfolding example_get network_of_def example_network_value option.case ..

lemma example_same_ranges: "py_eq (get example_pool ''reserved_ranges'') (get example_pool ''reserved_ranges'')"
  unfolding example_get by simp

lemma example_pool_valid: "pool_validate example_pool = Inr ()"
  unfolding pool_validate_def example_cidr example_gateway bindR_simps example_ranges example_dns example_network_text example_texts snd_conv
  by (simp only: example_fields_ok example_get(2,3,6) example_usable example_same_ranges check_simps bindR_simps simp_thms if_True) simp

theorem accepted_ranges_are_separate_witness:
  "\<exists>n rs. network_value (get example_pool ''cidr'') = Some n \<and> py_eq (PList (map range_doc rs)) (get example_pool ''reserved_ranges'')"
  using accepted_ranges_are_separate [OF example_pool_valid] by (elim exE conjE) (intro exI conjI)

definition example_tables :: pool_inventory where
  "example_tables = \<lparr>iv_identity = database_identity example_pool,
     iv_pools = [PDict [(''id'', PInt 3), (''public_id'', PStr ''x''), (''name'', PStr ''p1''), (''cidr'', PStr ''10.0.0.0/24'')]],
     iv_nodes = [PDict [(''id'', PInt 5), (''name'', PStr ''n1''), (''public_id'', PStr example_id), (''status'', PStr ''MAINTENANCE''),
        (''api_host'', PStr ''https://n1:8006''), (''vm_bridge'', PStr ''b''), (''storage'', PStr ''s1''), (''ip_pool_id'', PInt 3),
        (''labels'', PDict [(''vm_nic_requirements'',
            PDict [(''schema_version'', PInt 1), (''mtu'', PInt 1400), (''firewall'', PBool True)])])]],
     iv_vms = [], iv_version = 180001, iv_allocations = []\<rparr>"

definition example_change :: "pool_inventory registration_env" where
  "example_change = \<lparr>rg_euid = 0, rg_hostname = ''h'', rg_split_url = example_split, rg_now = 0, rg_first = Inr example_tables,
     rg_second = example_tables, rg_reply = Answered, rg_generated = \<lparr>gn_columns = [], gn_now = PStr ''now''\<rparr>,
     rg_backup = Some \<lparr>bd_path = ''/b'', bd_stat = Inr (True, 0, 448)\<rparr>, rg_operation = ''o'', rg_write = \<lambda>_. None\<rparr>"

definition example_optin :: pyval where
  "example_optin = PDict
     [(''node'', PStr ''n1''), (''node_public_id'', PStr example_id), (''api_host'', PStr ''https://n1:8006''), (''bridge'', PStr ''b''),
      (''storage'', PStr ''s1''), (''bridge_mtu'', PInt 1400), (''capability_evidence_id'', PStr ''evidence-1''), (''database'', PStr ''d''),
      (''database_hostname'', PStr ''h''), (''database_system_identifier'', PStr ''1234567890''), (''database_socket_dir'', PStr ''/s'')]"


lemma example_change_fields:
  "rg_euid example_change = 0" "short_host (rg_hostname example_change) = ''h''" "rg_first example_change = Inr example_tables"
  "rg_second example_change = example_tables" "rg_reply example_change = Answered" "protected_backup example_change = Inr ''/b''"
  "rg_write example_change = (\<lambda>_. None)" "rg_generated example_change = \<lparr>gn_columns = [], gn_now = PStr ''now''\<rparr>"
  by (simp_all add: example_change_def short_host_def protected_backup_def is_absolute_slash starts_with_def)

definition example_pool_snapshot :: pool_snapshot where
  "example_pool_snapshot = \<lparr>ps_identity = identity_doc example_tables, ps_pool = PNone, ps_pools = pools_doc example_tables, ps_nodes = [],
     ps_allocations = [], ps_addresses = []\<rparr>"

lemma example_absent: "named (iv_pools example_tables) (PStr ''p2'') = []"
  by (simp add: named_def example_tables_def)

lemma example_pool_id: "pool_id example_tables (PStr ''p2'') = Inr PNone"
  by (simp add: pool_id_def example_absent scalar_def get_or_def)

lemma example_snapshotted: "pool_snapshot_of example_tables example_pool = Inr example_pool_snapshot"
  unfolding pool_snapshot_of_def example_cidr example_get(1) example_absent example_pool_id bindR_simps
  by (simp add: scalar_def nodes_of_def allocations_of_def addresses_in_def example_pool_snapshot_def) (simp add: example_tables_def)

lemma example_identity: "readiness_identity example_pool (identity_doc example_tables) = Inr ()"
  by code_simp

lemma example_no_overlap: "no_overlap example_pool (pool_address 0, 24) (pool_doc (hd (iv_pools example_tables))) = Inr ()"
  by code_simp

lemma example_pool_previewed: "\<exists>desired. preview_pool example_pool example_pool_snapshot = Inr desired"
proof -
  have "the_list (pools_doc example_tables) = [pool_doc (hd (iv_pools example_tables))]" by (simp add: pools_doc_def example_tables_def)
  then show ?thesis
    unfolding preview_pool_def example_cidr
    by (simp add: example_pool_snapshot_def example_identity example_no_overlap [simplified] example_get)
qed

lemma example_jsonb: "jsonb_eq (identity_doc example_tables) (identity_doc example_tables)" "jsonb_eq (pools_doc example_tables) (pools_doc example_tables)"
  by code_simp+

lemma example_pool_applied: "\<exists>db. apply_pool example_pool example_pool_snapshot g example_tables = Inr db"
  unfolding apply_pool_def example_cidr example_get(1) example_absent example_pool_id bindR_simps
  by (simp add: example_pool_snapshot_def example_jsonb first_row_def nodes_of_def allocations_of_def addresses_in_def)
    (simp add: example_tables_def)

lemma example_pool_run: "\<exists>l r db. register_pool example_change example_pool True [] = (l, r) \<and> Committed db \<in> set l"
proof -
  obtain desired where desired: "preview_pool example_pool example_pool_snapshot = Inr desired" using example_pool_previewed ..
  obtain db where db: "apply_pool example_pool example_pool_snapshot (rg_generated example_change) example_tables = Inr db"
    using example_pool_applied ..
  have "Committed db \<in> set (fst (register_pool example_change example_pool True []))"
    by (auto simp: register_pool_def bindIO_def liftR_def on_database_host_def example_change_fields(1-7) example_get example_snapshotted desired
        backed_apply_def write_private_def run_apply_def db Let_def split: sum.split simp del: get_or_dict)
  then show ?thesis by (metis prod.collapse)
qed

theorem inserted_pool_is_separate_witness:
  "\<exists>l r db row. register_pool example_change example_pool True [] = (l, r) \<and> Committed db \<in> set l
     \<and> iv_pools db = iv_pools example_tables @ [row] \<and> get row ''name'' = PStr ''p2''"
proof -
  obtain l r db where run: "register_pool example_change example_pool True [] = (l, r)" "Committed db \<in> set l"
    using example_pool_run by (elim exE conjE)
  from inserted_pool_is_separate [OF run example_pool_valid, unfolded example_change_fields(4) example_get(1)] example_absent
  obtain row where "get row ''name'' = PStr ''p2''" "db = example_tables\<lparr>iv_pools := iv_pools example_tables @ [row]\<rparr>" by metis
  then have "iv_pools db = iv_pools example_tables @ [row]" "get row ''name'' = PStr ''p2''" by simp_all
  with run show ?thesis by blast
qed

definition example_firewall_snapshot :: firewall_snapshot where
  "example_firewall_snapshot = \<lparr>fs_identity = identity_doc example_tables, fs_node = hd (iv_nodes example_tables)\<rparr>"

lemma example_optin_get:
  "get example_optin ''node'' = PStr ''n1''" "get example_optin ''database_hostname'' = PStr ''h''"
  by (simp_all add: example_optin_def)

lemma example_optin_node: "named (iv_nodes example_tables) (PStr ''n1'') = [hd (iv_nodes example_tables)]"
  by (simp add: named_def example_tables_def)

lemma example_firewall_seen: "firewall_snapshot_of example_tables example_optin = Inr example_firewall_snapshot"
  by (simp add: firewall_snapshot_of_def example_optin_get example_optin_node scalar_def example_firewall_snapshot_def)

lemma example_optin_identity: "readiness_identity example_optin (identity_doc example_tables) = Inr ()"
  by code_simp

lemma example_parked: "parked_node example_optin (hd (iv_nodes example_tables)) = Inr ()"
  by code_simp

lemma example_nic: "nic_matches example_optin (get (get (hd (iv_nodes example_tables)) ''labels'') ''vm_nic_requirements'')"
  by code_simp

lemma example_firewall_previewed: "\<exists>d. preview_firewall example_optin example_firewall_snapshot = Inr d"
  unfolding preview_firewall_def Let_def example_firewall_snapshot_def firewall_snapshot.simps example_optin_identity example_parked bindR_simps
  by (simp add: example_nic del: get_or_dict) (simp add: example_tables_def)

lemma example_node_same: "jsonb_eq (hd (iv_nodes example_tables)) (hd (iv_nodes example_tables))"
  by code_simp

lemma example_firewall_applied: "\<exists>db. apply_firewall example_optin example_firewall_snapshot labels g example_tables = Inr db"
  unfolding apply_firewall_def Let_def example_optin_get example_optin_node first_row_def list.case
  by (simp add: example_firewall_snapshot_def example_jsonb example_node_same del: get_or_dict) (simp add: example_tables_def example_optin_def)

lemma example_optin_run: "\<exists>l r db. arm_firewall example_change example_optin True [] = (l, r) \<and> Committed db \<in> set l"
proof -
  obtain d where d: "preview_firewall example_optin example_firewall_snapshot = Inr d" using example_firewall_previewed ..
  obtain db where db: "apply_firewall example_optin example_firewall_snapshot (fst d) (rg_generated example_change) example_tables = Inr db"
    using example_firewall_applied ..
  have "Committed db \<in> set (fst (arm_firewall example_change example_optin True []))"
    by (auto simp: arm_firewall_def bindIO_def liftR_def on_database_host_def example_change_fields(1-7) example_optin_get example_firewall_seen d
        backed_apply_def write_private_def run_apply_def db Let_def split: sum.split simp del: get_or_dict)
  then show ?thesis by (metis prod.collapse)
qed

theorem optin_changes_one_label_witness:
  "\<exists>l r db n. arm_firewall example_change example_optin True [] = (l, r) \<and> Committed db \<in> set l
     \<and> n = first_row (named (iv_nodes example_tables) (PStr ''n1'')) \<and> get n ''status'' = PStr ''MAINTENANCE''"
proof -
  obtain l r db where run: "arm_firewall example_change example_optin True [] = (l, r)" "Committed db \<in> set l"
    using example_optin_run by (elim exE conjE)
  from optin_changes_one_label [OF run, unfolded example_change_fields(4) example_optin_get(1)] run show ?thesis
    by (elim exE conjE) (intro exI conjI)
qed

end
