(* ===== verification/ImageRegistration.thy ===== *)
theory ImageRegistration
  imports NodeRegistration "HOL-Library.Sublist"
begin

text \<open>
  \<open>scripts/lib/image_registration.py\<close>: a stopped template of a hypervisor is measured, and registered as
  a disabled image in the catalog of the database. The plan is that of \<open>node_registration.py\<close>, from which
  the code takes its runner, its SQL quoting and its private files. The catalog is the list of the rows
  of \<open>os_images\<close> in the order of their identifiers; \<open>node_scoped_unique_sql\<close> asks which uniqueness
  constraint the table has, so it is a flag of the database. The build manifest is a file that is given
  with its kind and its text.
\<close>

section \<open>Configuration\<close>

definition IMAGE_FIELDS :: "string list" where
  "IMAGE_FIELDS =
     [''node'', ''node_public_id'', ''cluster'', ''api_url'', ''storage'', ''bridge_mtu'', ''template_vmid'', ''name'', ''version'',
      ''display_name'', ''os_family'', ''os_version'', ''ssh_username'', ''min_disk_gb'', ''notes'', ''build_manifest_file'',
      ''database'', ''database_hostname'', ''database_system_identifier'', ''database_socket_dir'', ''existing_public_id'']"

definition image_name :: "string \<Rightarrow> bool" where
  "image_name s = head_match is_lower (\<lambda>c. is_lower c \<or> is_digit c \<or> one_of ''._-'' c) 0 63 s"

definition account_name :: "string \<Rightarrow> bool" where
  "account_name s =
     head_match (\<lambda>c. is_lower c \<or> c = CHR ''_'') (\<lambda>c. is_lower c \<or> is_digit c \<or> one_of ''_-'' c) 0 62 s"

definition os_release :: "string \<Rightarrow> bool" where
  "os_release s = list_all (\<lambda>part. part \<noteq> [] \<and> list_all is_digit part) (split_on CHR ''.'' s)"

definition display_ok :: "pyval \<Rightarrow> bool" where
  "display_ok v =
     (is_str v \<and> 0 < char_count (the_str v) \<and> char_count (the_str v) \<le> 128 \<and> \<not> list_ex (\<lambda>c. code c < 32) (the_str v))"

definition optional_id :: "pyval \<Rightarrow> unit res" where
  "optional_id v = (if v = PNone then Inr () else canonical_id v)"

definition optional_path :: "pyval \<Rightarrow> unit res" where
  "optional_path v = require (v = PNone \<or> plain_path v)"

definition image_number :: "pyval \<Rightarrow> string \<Rightarrow> unit res" where
  "image_number c k = bindR (positive_int (get c k) False) (\<lambda>n. require (n \<le> 2147483647))"

definition node_url_ok :: "split_url \<Rightarrow> pyval \<Rightarrow> unit res" where
  "node_url_ok urlsplit v =
     bindR (urlsplit v) (\<lambda>u.
     bindR (andR (Inr (au_scheme u = ''https'' \<and> au_host u \<noteq> None \<and> au_host u \<noteq> Some []))
                 (bindR (au_port u) (\<lambda>p. Inr (p = Some 8006 \<and> au_bare u)))) require)"

definition image_config_ok :: "split_url \<Rightarrow> pyval \<Rightarrow> unit res" where
  "image_config_ok urlsplit c =
     bindR (require (list_all (\<lambda>k. text_match inventory_name (get c k)) [''node'', ''cluster'', ''storage'', ''os_family'', ''database_hostname''])) (\<lambda>_.
     bindR (require (text_match image_name (get c ''name''))) (\<lambda>_.
     bindR (require (list_all (\<lambda>k. text_match account_name (get c k)) [''database'', ''ssh_username''])) (\<lambda>_.
     bindR (full_match os_release (get c ''os_version'')) (\<lambda>_.
     bindR (require (display_ok (get c ''display_name''))) (\<lambda>_.
     bindR (require (get c ''notes'' = PNone \<or> is_str (get c ''notes'') \<and> char_count (the_str (get c ''notes'')) \<le> 4096)) (\<lambda>_.
     bindR (mapR (image_number c) [''version'', ''min_disk_gb'', ''template_vmid'']) (\<lambda>_.
     bindR (require (100 \<le> the_int (get c ''template_vmid'') \<and> the_int (get c ''template_vmid'') < 100000)) (\<lambda>_.
     bindR (require (is_int (get c ''bridge_mtu'') \<and> 1280 \<le> the_int (get c ''bridge_mtu'') \<and> the_int (get c ''bridge_mtu'') \<le> 1500)) (\<lambda>_.
     bindR (mapR (\<lambda>k. optional_id (get c k)) [''node_public_id'', ''existing_public_id'']) (\<lambda>_.
     bindR (require (get c ''node_public_id'' \<noteq> PNone)) (\<lambda>_.
     bindR (node_url_ok urlsplit (get c ''api_url'')) (\<lambda>_.
     bindR (full_match system_id (get c ''database_system_identifier'')) (\<lambda>_.
     bindR (mapR (\<lambda>k. optional_path (get c k)) [''database_socket_dir'', ''build_manifest_file'']) (\<lambda>_.
     Inr ()))))))))))))))"

definition image_from_dict :: "split_url \<Rightarrow> pyval \<Rightarrow> pyval res" where
  "image_from_dict urlsplit v = bindR (require (has_keys v IMAGE_FIELDS)) (\<lambda>_. bindR (image_config_ok urlsplit v) (\<lambda>_. Inr v))"

text \<open>\<open>asdict\<close>\<close>

definition image_document :: "pyval \<Rightarrow> pyval" where
  "image_document c = PDict (map (\<lambda>k. (k, get c k)) IMAGE_FIELDS)"

section \<open>The build manifest\<close>

definition hex_digest :: "nat \<Rightarrow> (char \<Rightarrow> bool) \<Rightarrow> string \<Rightarrow> bool" where
  "hex_digest n p s = class_match p n n s"

definition any_hex :: "char \<Rightarrow> bool" where
  "any_hex c = is_hex (lower_char c)"

definition digest_length :: "pyval \<Rightarrow> nat" where
  "digest_length algorithm = (if is_string algorithm ''sha256'' then 64 else 128)"

definition recipe_revision :: "string \<Rightarrow> bool" where
  "recipe_revision s =
     (let n = length s - 9
      in class_match is_hex 7 40 s \<or> 9 \<le> length s \<and> drop n s = ''-modified'' \<and> class_match is_hex 7 40 (take n s))"

definition zoned :: "pyval \<Rightarrow> unit res" where
  "zoned v =
     bindR (check (is_str v) TypeError) (\<lambda>_.
     case from_iso (the_str v) of None \<Rightarrow> Inl ValueError | Some zone \<Rightarrow> require (zone \<noteq> None))"

definition SCOPE :: string where
  "SCOPE = ''Upstream image checksum and recipe record; not a final PVE disk hash''"

record manifest_file =
  mf_regular :: bool
  mf_size :: nat
  mf_text :: string

text \<open>What the collection meets: \<open>ie_api\<close> takes the arguments of \<open>runner.api\<close>.\<close>

record image_commands =
  ie_euid :: nat
  ie_hostname :: string
  ie_api :: "string list \<Rightarrow> pyval res"
  ie_manifest :: "string \<Rightarrow> manifest_file res"
  ie_loads :: "string \<Rightarrow> pyval res"
  ie_sha :: "string \<Rightarrow> string"

definition manifest_matches :: "pyval \<Rightarrow> pyval \<Rightarrow> bool" where
  "manifest_matches c v =
     (is_dict v \<and> py_eq (get v ''templateVmid'') (get c ''template_vmid'') \<and> py_eq (get v ''osFamily'') (get c ''os_family'')
      \<and> py_eq (get v ''osVersion'') (get c ''os_version'') \<and> py_eq (get v ''ciUser'') (get c ''ssh_username''))"

definition read_manifest :: "image_commands \<Rightarrow> pyval \<Rightarrow> pyval res" where
  "read_manifest e c =
     (if get c ''build_manifest_file'' = PNone then Inr PNone
      else bindR (ie_manifest e (the_str (get c ''build_manifest_file''))) (\<lambda>m.
           bindR (require (mf_regular m \<and> 0 < mf_size m \<and> mf_size m \<le> 1024 * 1024)) (\<lambda>_.
           let raw = take (1024 * 1024 + 1) (mf_text m)
           in bindR (require (length raw \<le> 1024 * 1024)) (\<lambda>_.
              bindR (ie_loads e raw) (\<lambda>v.
              bindR (require (manifest_matches c v)) (\<lambda>_.
              let algorithm = get v ''checksumAlgorithm''; checksum = get v ''imageChecksum''; revision = get v ''recipeRevision''
              in bindR (require (in_tuple algorithm [''sha256'', ''sha512'']
                                 \<and> text_match (hex_digest (digest_length algorithm) any_hex) checksum)) (\<lambda>_.
                 bindR (require (text_match recipe_revision revision)) (\<lambda>_.
                 bindR (bindR (indexR v ''builtAt'') zoned) (\<lambda>_.
                 Inr (PDict [(''manifest_sha256'', PStr (ie_sha e raw)), (''source_checksum_algorithm'', algorithm),
                             (''source_image_checksum'', PStr (map lower_char (the_str checksum))), (''recipe_revision'', revision),
                             (''built_at'', get v ''builtAt''), (''scope'', PStr SCOPE)]))))))))))"

section \<open>Collection\<close>

text \<open>\<open>dict(part.split('=', 1) for part in net0.split(','))\<close>\<close>

definition nic_options :: "string \<Rightarrow> (string \<times> string) list res" where
  "nic_options net0 =
     (let parts = split_on CHR '','' net0
      in bindR (require (list_all (\<lambda>part. CHR ''='' \<in> set part) parts \<and> distinct (map (\<lambda>part. fst (split_first CHR ''='' part)) parts))) (\<lambda>_.
         Inr (map (split_first CHR ''='') parts)))"

definition nic_ok :: "pyval \<Rightarrow> string \<Rightarrow> unit res" where
  "nic_ok c net0 =
     bindR (nic_options net0) (\<lambda>nic.
     require (map_of nic ''mtu'' = Some (str_of_int (the_int (get c ''bridge_mtu''))) \<and> map_of nic ''firewall'' = Some ''1''))"

definition one_template :: "pyval \<Rightarrow> pyval list \<Rightarrow> unit res" where
  "one_template c guests =
     (let candidates = filter (\<lambda>r. py_eq (get r ''vmid'') (get c ''template_vmid'')) guests; row = hd candidates
      in require (length candidates = 1 \<and> is_string (get row ''type'') ''qemu'' \<and> py_eq (get row ''node'') (get c ''node'')
                  \<and> py_eq (get row ''template'') (PInt 1) \<and> is_string (get row ''status'') ''stopped''))"

definition root_disk :: "pyval \<Rightarrow> pyval \<Rightarrow> string res" where
  "root_disk c template =
     (let disk = get_or template ''scsi0'' (PStr [])
      in bindR (require (is_str disk \<and> starts_with (the_str disk) (the_str (get c ''storage'') @ '':'') \<and> \<not> sublist ''media=cdrom'' (the_str disk))) (\<lambda>_.
         Inr (hd (split_on CHR '','' (the_str disk)))))"

definition volume_size :: "pyval \<Rightarrow> string \<Rightarrow> pyval list \<Rightarrow> int res" where
  "volume_size c volume_id volumes =
     (let found = filter (\<lambda>v. is_string (get v ''volid'') volume_id) volumes
      in bindR (require (length found = 1 \<and> is_string (get (hd found) ''content'') ''images'')) (\<lambda>_.
         bindR (positive_int (get (hd found) ''size'') False) (\<lambda>size.
         bindR (require (size \<le> the_int (get c ''min_disk_gb'') * 1024 ^ 3)) (\<lambda>_. Inr size))))"

definition config_digest :: "string \<Rightarrow> bool" where
  "config_digest s = class_match is_hex 40 64 s"

definition node_path :: "pyval \<Rightarrow> string \<Rightarrow> string" where
  "node_path c rest = ''/nodes/'' @ the_str (get c ''node'') @ rest"

definition vmid_text :: "pyval \<Rightarrow> string" where
  "vmid_text c = str_of_int (the_int (get c ''template_vmid''))"

definition collect_image :: "image_commands \<Rightarrow> pyval \<Rightarrow> string \<Rightarrow> pyval res" where
  "collect_image e c measured_at =
     bindR (require (ie_euid e = 0 \<and> PStr (short_host (ie_hostname e)) = get c ''node'')) (\<lambda>_.
     bindR (bindR (ie_api e [''/cluster/status'']) rows_of) (\<lambda>cluster.
     bindR (require (list_ex (\<lambda>r. is_string (get r ''type'') ''cluster'' \<and> py_eq (get r ''name'') (get c ''cluster'')
                                  \<and> py_eq (get r ''quorate'') (PInt 1)) cluster)) (\<lambda>_.
     bindR (bindR (ie_api e [''/cluster/resources'', ''--type'', ''vm'']) rows_of) (\<lambda>guests.
     bindR (one_template c guests) (\<lambda>_.
     bindR (bindR (ie_api e [node_path c (''/qemu/'' @ vmid_text c @ ''/config'')]) dict_of) (\<lambda>template.
     bindR (require (py_eq (get template ''template'') (PInt 1) \<and> \<not> truthy (get template ''lock''))) (\<lambda>_.
     let net0 = get_or template ''net0'' (PStr [])
     in bindR (require (is_str net0)) (\<lambda>_.
        bindR (nic_ok c (the_str net0)) (\<lambda>_.
        bindR (root_disk c template) (\<lambda>volume_id.
        bindR (bindR (ie_api e [node_path c (''/storage/'' @ the_str (get c ''storage'') @ ''/content''), ''--vmid'', vmid_text c]) rows_of) (\<lambda>volumes.
        bindR (volume_size c volume_id volumes) (\<lambda>size.
        bindR (full_match config_digest (get_or template ''digest'' (PStr []))) (\<lambda>_.
        bindR (read_manifest e c) (\<lambda>provenance.
        Inr (PDict [(''schema_version'', PInt 1), (''config'', image_document c), (''measured_at'', PStr measured_at),
                    (''template'', PDict [(''vmid'', get c ''template_vmid''), (''node'', get c ''node''), (''template'', PBool True),
                       (''stopped'', PBool True), (''config_digest'', get template ''digest''), (''net0'', net0),
                       (''root_volume'', PStr volume_id), (''root_volume_bytes'', PInt size)]),
                    (''build_provenance'', provenance), (''mutations'', PStr ''none'')])))))))))))))))"

section \<open>Reports\<close>

definition REPORT_FIELDS :: "string list" where
  "REPORT_FIELDS = [''schema_version'', ''config'', ''measured_at'', ''template'', ''build_provenance'', ''mutations'']"

definition PROOF_FIELDS :: "string list" where
  "PROOF_FIELDS =
     [''manifest_sha256'', ''source_checksum_algorithm'', ''source_image_checksum'', ''recipe_revision'', ''built_at'', ''scope'']"

definition template_evidence :: "pyval \<Rightarrow> pyval \<Rightarrow> unit res" where
  "template_evidence c t =
     bindR (require (py_eq (get t ''vmid'') (get c ''template_vmid'') \<and> py_eq (get t ''node'') (get c ''node'') \<and> get t ''template'' = PBool True
                     \<and> get t ''stopped'' = PBool True \<and> is_int (get t ''root_volume_bytes'') \<and> 0 < the_int (get t ''root_volume_bytes'')
                     \<and> the_int (get t ''root_volume_bytes'') \<le> the_int (get c ''min_disk_gb'') * 1024 ^ 3
                     \<and> text_match (\<lambda>s. starts_with s (the_str (get c ''storage'') @ '':'')) (get t ''root_volume''))) (\<lambda>_.
     bindR (full_match config_digest (get_or t ''config_digest'' (PStr []))) (\<lambda>_.
     let net0 = get_or t ''net0'' (PStr [])
     in bindR (check (is_str net0) AttributeError) (\<lambda>_. nic_ok c (the_str net0))))"

definition provenance_ok :: "pyval \<Rightarrow> unit res" where
  "provenance_ok p =
     bindR (require (has_keys p PROOF_FIELDS)) (\<lambda>_.
     bindR (full_match (hex_digest 64 is_hex) (get p ''manifest_sha256'')) (\<lambda>_.
     bindR (require (in_tuple (get p ''source_checksum_algorithm'') [''sha256'', ''sha512''])) (\<lambda>_.
     bindR (full_match (hex_digest (digest_length (get p ''source_checksum_algorithm'')) is_hex) (get p ''source_image_checksum'')) (\<lambda>_.
     bindR (full_match recipe_revision (get p ''recipe_revision'')) (\<lambda>_.
     bindR (zoned (get p ''built_at'')) (\<lambda>_.
     require (is_string (get p ''scope'') SCOPE)))))))"

definition validate_image_report :: "split_url \<Rightarrow> int \<Rightarrow> pyval \<Rightarrow> pyval res" where
  "validate_image_report urlsplit now report =
     bindR (require (has_keys report REPORT_FIELDS \<and> get report ''schema_version'' = PInt 1 \<and> is_string (get report ''mutations'') ''none'')) (\<lambda>_.
     bindR (image_from_dict urlsplit (get report ''config'')) (\<lambda>c.
     bindR (fresh now (get report ''measured_at'')) (\<lambda>_.
     bindR (dict_of (get report ''template'')) (\<lambda>t.
     bindR (template_evidence c t) (\<lambda>_.
     let p = get report ''build_provenance''
     in bindR (require ((get c ''build_manifest_file'' = PNone) = (p = PNone))) (\<lambda>_.
        bindR (if p = PNone then Inr () else provenance_ok p) (\<lambda>_. Inr c)))))))"

section \<open>The catalog\<close>

record catalog = inventory +
  iv_unique :: bool
  iv_images :: "pyval list"

definition of_revision :: "pyval \<Rightarrow> pyval list \<Rightarrow> pyval list" where
  "of_revision c rows = filter (\<lambda>r. get r ''name'' = get c ''name'' \<and> get r ''version'' = get c ''version'') rows"

record image_snapshot =
  im_identity :: pyval
  im_unique :: bool
  im_node :: pyval
  im_images :: "pyval list"

text \<open>\<open>snapshot_sql\<close>\<close>

definition image_snapshot_of :: "catalog \<Rightarrow> pyval \<Rightarrow> image_snapshot res" where
  "image_snapshot_of db c =
     bindR (scalar (named (iv_nodes db) (get c ''node''))) (\<lambda>node.
     Inr \<lparr>im_identity = iv_identity db, im_unique = iv_unique db, im_node = node, im_images = of_revision c (iv_images db)\<rparr>)"

definition image_snapshot_doc :: "image_snapshot \<Rightarrow> pyval" where
  "image_snapshot_doc s =
     PDict [(''identity'', im_identity s), (''node_unique'', PBool (im_unique s)), (''node'', im_node s), (''images'', PList (im_images s))]"

section \<open>Preview\<close>

definition REPLICA_FIELDS :: "string list" where
  "REPLICA_FIELDS = [''name'', ''version'', ''os_family'', ''os_version'', ''ssh_username'', ''min_disk_gb'']"

definition IMAGE_COLUMNS :: "string list" where
  "IMAGE_COLUMNS = [''name'', ''display_name'', ''os_family'', ''os_version'', ''ssh_username'', ''version'', ''min_disk_gb'', ''notes'']"

definition desired_image :: "pyval \<Rightarrow> pyval \<Rightarrow> pyval \<Rightarrow> pyval \<Rightarrow> pyval" where
  "desired_image c node status public_id =
     PDict (map (\<lambda>k. (k, get c k)) IMAGE_COLUMNS
            @ [(''node_id'', get node ''id''), (''proxmox_vmid'', get c ''template_vmid''), (''status'', status), (''public_id'', public_id)])"

definition same_columns :: "string list \<Rightarrow> pyval \<Rightarrow> pyval \<Rightarrow> bool" where
  "same_columns ks row desired = list_all (\<lambda>k. py_eq (get row k) (get desired k)) ks"

definition registered_node_ok :: "pyval \<Rightarrow> pyval \<Rightarrow> unit res" where
  "registered_node_ok c node =
     bindR (require (node \<noteq> PNone \<and> py_eq (get node ''public_id'') (get c ''node_public_id'') \<and> is_string (get node ''status'') ''MAINTENANCE''
                     \<and> py_eq (get node ''api_host'') (get c ''api_url'') \<and> py_eq (get node ''storage'') (get c ''storage''))) (\<lambda>_.
     let labels = get node ''labels''
     in bindR (require (is_dict labels \<and> is_dict (get labels ''node_registration'')
                        \<and> py_eq (get (get labels ''node_registration'') ''cluster'') (get c ''cluster''))) (\<lambda>_.
        require (nic_matches c (get labels ''vm_nic_requirements''))))"

definition preview_image :: "pyval \<Rightarrow> image_snapshot \<Rightarrow> pyval res" where
  "preview_image c s =
     bindR (validate_database c (im_identity s)) (\<lambda>_.
     bindR (require (im_unique s)) (\<lambda>_.
     let node = im_node s; desired = desired_image c node (PStr ''DISABLED'') PNone
     in bindR (registered_node_ok c node) (\<lambda>_.
        bindR (require (list_all (\<lambda>row. same_columns REPLICA_FIELDS row desired) (im_images s))) (\<lambda>_.
        case filter (\<lambda>row. py_eq (get row ''node_id'') (get node ''id'')) (im_images s) of
          [] \<Rightarrow> bindR (require (get c ''existing_public_id'' = PNone)) (\<lambda>_. Inr desired)
        | [row] \<Rightarrow>
            bindR (require (py_eq (get row ''public_id'') (get c ''existing_public_id''))) (\<lambda>_.
            bindR (require (same_columns (IMAGE_COLUMNS @ [''node_id'', ''proxmox_vmid'']) row desired)) (\<lambda>_.
            Inr (desired_image c node (get row ''status'') (get row ''public_id''))))
        | _ \<Rightarrow> Inl Refused))))"

section \<open>The transaction\<close>

definition inserted_image :: "pyval \<Rightarrow> pyval \<Rightarrow> generated \<Rightarrow> pyval" where
  "inserted_image d node g =
     PDict (map (\<lambda>k. (k, get d k)) IMAGE_COLUMNS
            @ [(''proxmox_vmid'', get d ''proxmox_vmid''), (''node_id'', get node ''id''), (''status'', PStr ''DISABLED'')] @ gn_columns g)"

text \<open>\<open>apply_sql\<close>\<close>

definition apply_image :: "pyval \<Rightarrow> image_snapshot \<Rightarrow> pyval \<Rightarrow> generated \<Rightarrow> catalog \<Rightarrow> catalog res" where
  "apply_image c s d g db =
     (let n = first_row (named (iv_nodes db) (get c ''node''))
      in bindR (require (jsonb_eq (iv_identity db) (im_identity s) \<and> iv_unique db)) (\<lambda>_.
         bindR (require (jsonb_eq n (im_node s) \<and> get n ''status'' = PStr ''MAINTENANCE'')) (\<lambda>_.
         bindR (require (jsonb_eq (PList (of_revision c (iv_images db))) (PList (im_images s)))) (\<lambda>_.
         Inr (if get d ''public_id'' = PNone then db\<lparr>iv_images := iv_images db @ [inserted_image d n g]\<rparr> else db)))))"

definition applied_image :: "pyval \<Rightarrow> catalog \<Rightarrow> pyval res" where
  "applied_image c db =
     bindR (scalar (named (iv_nodes db) (get c ''node''))) (\<lambda>node.
     case filter (\<lambda>r. get r ''node_id'' = get node ''id'') (of_revision c (iv_images db)) of
       [r] \<Rightarrow> Inr r
     | _ \<Rightarrow> Inl ValueError)"

section \<open>A registration\<close>

definition image_summary :: "pyval \<Rightarrow> pyval \<Rightarrow> bool \<Rightarrow> pyval" where
  "image_summary report desired apply =
     PDict (map (\<lambda>k. (k, get desired k)) [''name'', ''version'', ''node_id'', ''proxmox_vmid'', ''status'', ''public_id'']
            @ [(''mode'', PStr (if apply then ''apply'' else ''dry-run'')), (''node_status'', PStr ''MAINTENANCE''),
               (''automatic_activation'', PBool False), (''build_provenance'', get report ''build_provenance''),
               (''template_config_digest'', get (get report ''template'') ''config_digest'')])"

definition image_before :: "'db registration_env \<Rightarrow> string \<Rightarrow> pyval \<Rightarrow> image_snapshot \<Rightarrow> pyval \<Rightarrow> pyval" where
  "image_before e digest report s desired =
     PDict [(''operation_id'', PStr (rg_operation e)), (''inventory_sha256'', PStr digest), (''inventory'', report),
            (''snapshot'', image_snapshot_doc s), (''desired'', desired)]"

definition image_after :: "'db registration_env \<Rightarrow> pyval \<Rightarrow> pyval" where
  "image_after e applied = PDict [(''operation_id'', PStr (rg_operation e)), (''image'', applied)]"

definition image_expected :: "pyval \<Rightarrow> pyval \<Rightarrow> bool" where
  "image_expected desired applied =
     (list_all (\<lambda>(k, v). k = ''public_id'' \<or> py_eq (get applied k) v) (items desired)
      \<and> (get desired ''public_id'' = PNone \<or> py_eq (get applied ''public_id'') (get desired ''public_id'')))"

text \<open>The names of the records have \<open>image-\<close> after the operation.\<close>

definition image_files :: "'db registration_env \<Rightarrow> 'db registration_env" where
  "image_files e = e\<lparr>rg_operation := rg_operation e @ ''-image''\<rparr>"

definition register_image :: "catalog registration_env \<Rightarrow> pyval \<Rightarrow> string \<Rightarrow> bool \<Rightarrow> (catalog, pyval) rio" where
  "register_image e report digest apply =
     bindIO (liftR (validate_image_report (rg_split_url e) (rg_now e) report)) (\<lambda>c.
     bindIO (liftR (on_database_host e c)) (\<lambda>_.
     bindIO (liftR (bindR (rg_first e) (\<lambda>db. image_snapshot_of db c))) (\<lambda>s.
     bindIO (liftR (preview_image c s)) (\<lambda>desired.
     if \<not> apply then liftR (Inr (image_summary report desired False))
     else bindIO (backed_apply (image_files e) (image_before e digest report s desired) (apply_image c s desired (rg_generated e) (rg_second e))
            (applied_image c) (image_expected desired) (image_after e)) (\<lambda>(before, applied).
          liftR (Inr (merged (image_summary report desired True)
            [(''public_id'', get applied ''public_id''), (''before_record'', PStr before)])))))))"

end
