(* ===== verification/ImageSafety.thy ===== *)
theory ImageSafety
  imports ReadinessSafety ImageRegistration
begin

text \<open>
  The properties of \<open>ImageRegistration\<close>: the report of a collection passes the check of the registration
  on the other host, and a registration keeps the catalog consistent. Its runs keep the contract of
  \<open>RecordedRun\<close>.
\<close>

section \<open>Collected reports\<close>

lemma get_document: "k \<in> set IMAGE_FIELDS \<Longrightarrow> get (image_document c) k = get c k"
proof -
  have "k \<in> set ks \<Longrightarrow> map_of (map (\<lambda>k. (k, get c k)) ks) k = Some (get c k)" for ks by (induction ks) auto
  then show "k \<in> set IMAGE_FIELDS \<Longrightarrow> get (image_document c) k = get c k" by (simp add: image_document_def get_or_def)
qed

lemma document_fields: "has_keys (image_document c) IMAGE_FIELDS"
  by (force simp: image_document_def has_keys_iff)

lemmas document_gets = get_document [unfolded IMAGE_FIELDS_def list.set insert_iff empty_iff]

lemma document_config: "image_config_ok urlsplit (image_document c) = image_config_ok urlsplit c"
  by (simp add: image_config_ok_def image_number_def document_gets del: get_or_dict)

lemma document_evidence: "template_evidence (image_document c) t = template_evidence c t"
  by (simp add: template_evidence_def nic_ok_def document_gets del: get_or_dict)

text \<open>What the rest needs of an accepted configuration.\<close>

lemma image_config_types:
  assumes "image_config_ok urlsplit c = Inr ()"
  shows "is_str (get c ''node'')" "is_int (get c ''template_vmid'')" "inventory_name (the_str (get c ''storage''))"
  using assms by (auto simp: image_config_ok_def image_number_def positive_int_def text_match_def simp del: get_or_dict)

lemma hd_split_on: "hd (split_on c s) = takeWhile (\<lambda>x. x \<noteq> c) s"
  by (induction s) (auto split: list.split)

lemma starts_takeWhile: "starts_with s p \<Longrightarrow> c \<notin> set p \<Longrightarrow> starts_with (takeWhile (\<lambda>x. x \<noteq> c) s) p"
  unfolding starts_with_def
proof (induction p arbitrary: s)
  case (Cons a p)
  then show ?case by (cases s) auto
qed simp

lemma inventory_name_plain: "inventory_name s \<Longrightarrow> CHR '','' \<notin> set s"
  by (auto simp: inventory_name_def head_match_def class_match_def list_all_iff is_lower_def is_digit_def split: list.splits)

lemma get_or_missing: "get_or v k (PStr []) \<noteq> PStr [] \<Longrightarrow> get_or v k (PStr []) = get v k"
  by (auto simp: get_or_def split: option.splits)

lemma template_accepted:
  assumes "collect_image e c measured_at = Inr report" "image_config_ok urlsplit c = Inr ()"
  shows "\<exists>t. get report ''template'' = t \<and> is_dict t \<and> template_evidence c t = Inr ()"
proof -
  note types = image_config_types [OF assms(2)]
  obtain template volume_id volumes size where run:
    "nic_ok c (the_str (get_or template ''net0'' (PStr []))) = Inr ()" "is_str (get_or template ''net0'' (PStr []))"
    "root_disk c template = Inr volume_id" "volume_size c volume_id volumes = Inr size"
    "full_match config_digest (get_or template ''digest'' (PStr [])) = Inr ()"
    "get report ''template'' = PDict [(''vmid'', get c ''template_vmid''), (''node'', get c ''node''), (''template'', PBool True),
       (''stopped'', PBool True), (''config_digest'', get template ''digest''), (''net0'', get_or template ''net0'' (PStr [])),
       (''root_volume'', PStr volume_id), (''root_volume_bytes'', PInt size)]"
    using assms(1) unfolding collect_image_def Let_def by auto
  have volume: "starts_with volume_id (the_str (get c ''storage'') @ '':'')"
    using run(3) starts_takeWhile inventory_name_plain [OF types(3)] by (auto simp: root_disk_def Let_def hd_split_on)
  have digest: "full_match config_digest (get template ''digest'') = Inr ()" "is_str (get template ''digest'')"
    using run(5) get_or_missing [of template "''digest''"]
    by (auto simp: full_match_def config_digest_def class_match_def) (metis list.size(3) not_numeral_le_zero the_str.simps(1))+
  have size: "0 < size" "size \<le> the_int (get c ''min_disk_gb'') * 1024 ^ 3"
    using run(4) by (auto simp: volume_size_def positive_int_def Let_def)
  have "py_eq (get c ''template_vmid'') (get c ''template_vmid'')" "py_eq (get c ''node'') (get c ''node'')"
    using types(1,2) by (cases "get c ''template_vmid''"; simp; cases "get c ''node''"; simp)+
  then show ?thesis
    using run(1,2) volume digest size unfolding run(6)
    by (simp add: template_evidence_def text_match_def)
qed

text \<open>A manifest is read exactly when the configuration names one, and what is kept of it is accepted.\<close>

lemma lower_hex: "list_all any_hex s \<Longrightarrow> list_all is_hex (map lower_char s)"
  by (simp add: list_all_iff any_hex_def)

lemma manifest_accepted:
  assumes "read_manifest e c = Inr p" "\<And>raw. class_match is_hex 64 64 (ie_sha e raw)"
  shows "(get c ''build_manifest_file'' = PNone) = (p = PNone) \<and> (p \<noteq> PNone \<longrightarrow> provenance_ok p = Inr ())"
proof (cases "get c ''build_manifest_file'' = PNone")
  case True
  then show ?thesis using assms(1) by (simp add: read_manifest_def)
next
  case False
  then obtain raw v where v: "in_tuple (get v ''checksumAlgorithm'') [''sha256'', ''sha512'']"
    "text_match (hex_digest (digest_length (get v ''checksumAlgorithm'')) any_hex) (get v ''imageChecksum'')"
    "text_match recipe_revision (get v ''recipeRevision'')" "bindR (indexR v ''builtAt'') zoned = Inr ()"
    "p = PDict [(''manifest_sha256'', PStr (ie_sha e raw)), (''source_checksum_algorithm'', get v ''checksumAlgorithm''),
       (''source_image_checksum'', PStr (map lower_char (the_str (get v ''imageChecksum'')))), (''recipe_revision'', get v ''recipeRevision''),
       (''built_at'', get v ''builtAt''), (''scope'', PStr SCOPE)]"
    using assms(1) unfolding read_manifest_def Let_def by (auto simp del: get_or_dict)
  have "zoned (get v ''builtAt'') = Inr ()" using v(4) by (auto simp: indexR_eq_Inr get_or_def)
  moreover have "class_match is_hex 64 64 (ie_sha e raw)" by (rule assms(2))
  ultimately have "provenance_ok p = Inr ()"
    using v(1-3) unfolding v(5)
    by (simp add: provenance_ok_def has_keys_iff PROOF_FIELDS_def full_match_def text_match_def hex_digest_def class_match_def lower_hex is_string_def)
  then show ?thesis using False by (simp add: v(5))
qed

lemma report_accepted:
  assumes "collect_image e c measured_at = Inr report" "image_from_dict urlsplit c = Inr c'"
    "from_iso measured_at = Some (Some t)" "t \<le> now" "now \<le> t + 900 * 1000000" "\<And>raw. class_match is_hex 64 64 (ie_sha e raw)"
  shows "validate_image_report urlsplit now report = Inr (image_document c)"
proof -
  have config: "image_config_ok urlsplit c = Inr ()" using assms(2) by (auto simp: image_from_dict_def)
  obtain p t' where p: "read_manifest e c = Inr p" and report:
    "report = PDict [(''schema_version'', PInt 1), (''config'', image_document c), (''measured_at'', PStr measured_at),
       (''template'', t'), (''build_provenance'', p), (''mutations'', PStr ''none'')]"
    using assms(1) unfolding collect_image_def Let_def by auto
  have t': "is_dict t'" "template_evidence c t' = Inr ()"
    using template_accepted [OF assms(1) config] by (simp_all add: report)
  have "image_from_dict urlsplit (image_document c) = Inr (image_document c)"
    by (simp add: image_from_dict_def document_fields document_config config)
  moreover have "fresh now (PStr measured_at) = Inr ()" using assms(3-5) by (simp add: fresh_def)
  moreover have "get (image_document c) ''build_manifest_file'' = get c ''build_manifest_file''" by (simp add: document_gets del: get_or_dict)
  ultimately show ?thesis
    using t' manifest_accepted [OF p assms(6)]
    by (simp add: validate_image_report_def report has_keys_iff REPORT_FIELDS_def is_string_def dict_of_def document_evidence)
qed

text \<open>C35: A collected report is accepted by the registration. When the collection of a valid configuration
  succeeds, the check of the registration accepts its report for the next fifteen minutes and returns
  the configuration, provided that both hosts split URLs in the same way.\<close>

theorem collected_image_is_accepted:
  assumes "collect_image e c measured_at = Inr report" "image_from_dict urlsplit c = Inr c'"
    "from_iso measured_at = Some (Some t)" "t \<le> now" "now \<le> t + 900 * 1000000" "\<And>raw. class_match is_hex 64 64 (ie_sha e raw)"
  shows "validate_image_report urlsplit now report = Inr (image_document c)
    \<and> (\<forall>k\<in>set IMAGE_FIELDS. get (image_document c) k = get c k)"
  using report_accepted [OF assms] get_document by blast

section \<open>Runs that commit\<close>

lemma image_commits:
  assumes "register_image e report digest apply [] = (l, r)" and commit: "Committed db \<in> set l"
  obtains c db0 s desired directory rest where "apply" "validate_image_report (rg_split_url e) (rg_now e) report = Inr c" "rg_first e = Inr db0"
    "image_snapshot_of db0 c = Inr s" "preview_image c s = Inr desired" "apply_image c s desired (rg_generated e) (rg_second e) = Inr db"
    "l = Wrote (record_path directory (rg_operation (image_files e)) ''before'') (image_before e digest report s desired) # Committed db # rest"
    "list_all wrote rest"
proof -
  have "l \<noteq> []" using commit by auto
  with assms(1) show thesis unfolding register_image_def
  proof (rule lift_commits)
    fix c
    assume c: "validate_image_report (rg_split_url e) (rg_now e) report = Inr c"
    assume "bindIO (liftR (on_database_host e c)) (\<lambda>_. bindIO (liftR (bindR (rg_first e) (\<lambda>db. image_snapshot_of db c))) (\<lambda>s.
      bindIO (liftR (preview_image c s)) (\<lambda>desired.
      if \<not> apply then liftR (Inr (image_summary report desired False))
      else bindIO (backed_apply (image_files e) (image_before e digest report s desired) (apply_image c s desired (rg_generated e) (rg_second e))
            (applied_image c) (image_expected desired) (image_after e)) (\<lambda>(before, applied).
          liftR (Inr (merged (image_summary report desired True)
            [(''public_id'', get applied ''public_id''), (''before_record'', PStr before)])))))) [] = (l, r)"
    then show thesis using commit
    proof (rule reviewed_commits)
      fix s desired directory rest
      assume "bindR (rg_first e) (\<lambda>db. image_snapshot_of db c) = Inr s"
      then obtain db0 where "rg_first e = Inr db0" "image_snapshot_of db0 c = Inr s" by (auto simp: bindR_eq_Inr)
      moreover assume "apply" "preview_image c s = Inr desired" "apply_image c s desired (rg_generated e) (rg_second e) = Inr db"
        "l = Wrote (record_path directory (rg_operation (image_files e)) ''before'') (image_before e digest report s desired) # Committed db # rest"
        "list_all wrote rest"
      ultimately show thesis using that c by blast
    qed
  qed
qed

definition image_run :: "catalog registration_env \<times> pyval \<times> string \<times> bool \<Rightarrow> catalog registration_event list \<times> pyval res" where
  "image_run = (\<lambda>(e, report, digest, apply). register_image e report digest apply [])"

text \<open>The record of an image registration names its operation, its report and what is desired.\<close>

fun image_record :: "catalog registration_env \<times> pyval \<times> string \<times> bool \<Rightarrow> catalog \<Rightarrow> pyval \<Rightarrow> bool" where
  "image_record (e, report, digest, apply) db v =
     (get v ''operation_id'' = PStr (rg_operation e) \<and> get v ''inventory_sha256'' = PStr digest \<and> get v ''inventory'' = report
      \<and> has_key v ''desired'')"

lemma image_run_shape:
  assumes "Committed db \<in> set (fst (image_run q))"
  shows "\<exists>p v rest. fst (image_run q) = Wrote p v # Committed db # rest \<and> list_all wrote rest \<and> image_record q db v"
proof -
  obtain e report digest asked l r where q: "q = (e, report, digest, asked)" and run: "register_image e report digest asked [] = (l, r)"
    by (metis prod.collapse)
  with assms have "Committed db \<in> set l" by (simp add: image_run_def)
  from image_commits [OF run this] obtain s desired directory rest where
    "l = Wrote (record_path directory (rg_operation (image_files e)) ''before'') (image_before e digest report s desired) # Committed db # rest"
    "list_all wrote rest" by metis
  then show ?thesis by (simp add: q run image_run_def image_before_def has_key_def)
qed

interpretation image_registrations: recorded_run image_run "\<lambda>(e, report, digest, apply). apply" image_record
proof
  fix q xs db ys
  show "recorded (image_record q) (fst (image_run q))" by (rule committed_shape) (rule image_run_shape)
  show "list_all wrote xs \<and> list_all wrote ys" if "xs @ Committed db # ys = fst (image_run q)"
    using that by (rule committed_shape(2) [rotated]) (rule image_run_shape)
  show "fst (image_run q) = []" if "\<not> (case q of (e, report, digest, apply) \<Rightarrow> apply)"
    using that by (cases q) (simp add: image_run_def register_image_def lift_quiet reviewed_dry [unfolded not_False_eq_True if_True])
qed

section \<open>The catalog\<close>

definition image_row :: "pyval \<Rightarrow> bool" where
  "image_row r =
     (list_all (\<lambda>k. is_str (get r k)) [''name'', ''os_family'', ''os_version'', ''ssh_username'', ''public_id'']
      \<and> list_all (\<lambda>k. is_int (get r k)) [''version'', ''min_disk_gb'', ''node_id''])"

definition image_key :: "pyval \<Rightarrow> pyval \<times> pyval \<times> pyval" where
  "image_key r = (get r ''name'', get r ''version'', get r ''node_id'')"

text \<open>Typed rows, one per node and revision, and the images of a revision agree on the system, the account
  and the disk floor.\<close>

definition catalog_ok :: "catalog \<Rightarrow> bool" where
  "catalog_ok db =
     ((\<forall>n\<in>set (iv_nodes db). is_int (get n ''id'')) \<and> (\<forall>r\<in>set (iv_images db). image_row r)
      \<and> distinct (map image_key (iv_images db))
      \<and> (\<forall>r\<in>set (iv_images db). \<forall>r'\<in>set (iv_images db).
           get r ''name'' = get r' ''name'' \<and> get r ''version'' = get r' ''version'' \<longrightarrow> (\<forall>k\<in>set REPLICA_FIELDS. get r k = get r' k)))"

lemma jsonb_eq_column: "jsonb_eq v w \<Longrightarrow> get v k \<noteq> PNone \<Longrightarrow> jsonb_eq (get v k) (get w k)"
  by (rule jsonb_eq_get) (auto simp: has_key_def get_or_def split: option.splits)

lemma jsonb_py_str: "jsonb_eq x y \<Longrightarrow> py_eq y z \<Longrightarrow> is_str x \<Longrightarrow> is_str z \<Longrightarrow> x = z"
  by (cases x; cases y; cases z) auto

lemma jsonb_py_int: "jsonb_eq x y \<Longrightarrow> py_eq y z \<Longrightarrow> is_int x \<Longrightarrow> is_int z \<Longrightarrow> x = z"
  by (cases x; cases y; cases z) auto

lemma jsonb_same_number: "is_int x \<Longrightarrow> jsonb_eq x y \<Longrightarrow> jsonb_eq x z \<Longrightarrow> py_eq y z"
  by (cases x; cases y; cases z) auto

text \<open>A row of the revision at the commit has its counterpart in the snapshot.\<close>

lemma snapshot_row:
  assumes "jsonb_eq (PList rows) (PList rows')"
  shows "r \<in> set rows \<Longrightarrow> \<exists>r'\<in>set rows'. jsonb_eq r r'" "r' \<in> set rows' \<Longrightarrow> \<exists>r\<in>set rows. jsonb_eq r r'"
proof -
  have "list_all2 jsonb_eq rows rows'" using assms by (simp add: jsonb_eq_list_all2)
  then show "r \<in> set rows \<Longrightarrow> \<exists>r'\<in>set rows'. jsonb_eq r r'" "r' \<in> set rows' \<Longrightarrow> \<exists>r\<in>set rows. jsonb_eq r r'"
    by (induction rows rows' rule: list_all2_induct) auto
qed

lemma image_report_config:
  assumes "validate_image_report urlsplit now report = Inr c"
  shows "c = get report ''config''" "list_all (\<lambda>k. is_str (get c k)) [''name'', ''os_family'', ''os_version'', ''ssh_username'']"
    "list_all (\<lambda>k. is_int (get c k)) [''version'', ''min_disk_gb'']"
proof -
  have c: "image_from_dict urlsplit (get report ''config'') = Inr c"
    using assms by (auto simp: validate_image_report_def Let_def)
  then show "c = get report ''config''" by (auto simp: image_from_dict_def)
  from c have "image_config_ok urlsplit c = Inr ()" by (auto simp: image_from_dict_def)
  then show "list_all (\<lambda>k. is_str (get c k)) [''name'', ''os_family'', ''os_version'', ''ssh_username'']"
    "list_all (\<lambda>k. is_int (get c k)) [''version'', ''min_disk_gb'']"
    by (auto simp: image_config_ok_def image_number_def positive_int_def text_match_def full_match_def simp del: get_or_dict)
qed

lemma get_desired: "k \<in> set IMAGE_COLUMNS \<Longrightarrow> get (desired_image c node status public_id) k = get c k"
  by (auto simp: desired_image_def IMAGE_COLUMNS_def)

lemma get_desired_id: "get (desired_image c node status public_id) ''public_id'' = public_id"
  by (simp add: desired_image_def IMAGE_COLUMNS_def)

lemma inserted_gets:
  "k \<in> set IMAGE_COLUMNS \<Longrightarrow> get (inserted_image (desired_image c node status public_id) n g) k = get c k"
  "get (inserted_image d n g) ''node_id'' = get n ''id''" "get (inserted_image d n g) ''status'' = PStr ''DISABLED''"
  "get (inserted_image (desired_image c node status public_id) n g) ''proxmox_vmid'' = get c ''template_vmid''"
  "map_of (gn_columns g) ''public_id'' = Some v \<Longrightarrow> get (inserted_image d n g) ''public_id'' = v"
  by (auto simp: inserted_image_def desired_image_def IMAGE_COLUMNS_def get_or_def)

text \<open>What the preview says about the rows of the revision.\<close>

lemma previewed_image:
  assumes "preview_image c s = Inr desired"
  shows "im_node s \<noteq> PNone" "\<forall>r\<in>set (im_images s). \<forall>k\<in>set REPLICA_FIELDS. py_eq (get r k) (get c k)"
    "(\<exists>status public_id. desired = desired_image c (im_node s) status public_id)"
    "get desired ''public_id'' = PNone \<Longrightarrow>
       (\<forall>r\<in>set (im_images s). \<not> py_eq (get r ''node_id'') (get (im_node s) ''id'')) \<or> (\<exists>r\<in>set (im_images s). get r ''public_id'' = PNone)"
proof -
  let ?first = "desired_image c (im_node s) (PStr ''DISABLED'') PNone"
  let ?existing = "filter (\<lambda>row. py_eq (get row ''node_id'') (get (im_node s) ''id'')) (im_images s)"
  from assms have node: "registered_node_ok c (im_node s) = Inr ()" and rows: "list_all (\<lambda>row. same_columns REPLICA_FIELDS row ?first) (im_images s)"
    by (auto simp: preview_image_def Let_def)
  show "im_node s \<noteq> PNone" using node by (auto simp: registered_node_ok_def)
  have "get ?first k = get c k" if "k \<in> set REPLICA_FIELDS" for k
    using that by (intro get_desired) (auto simp: REPLICA_FIELDS_def IMAGE_COLUMNS_def)
  then show "\<forall>r\<in>set (im_images s). \<forall>k\<in>set REPLICA_FIELDS. py_eq (get r k) (get c k)"
    using rows by (simp add: list_all_iff same_columns_def)
  let ?quiet = "(\<forall>r\<in>set (im_images s). \<not> py_eq (get r ''node_id'') (get (im_node s) ''id'')) \<or> (\<exists>r\<in>set (im_images s). get r ''public_id'' = PNone)"
  consider "?existing = []" "desired = ?first" | row where "?existing = [row]" "desired = desired_image c (im_node s) (get row ''status'') (get row ''public_id'')"
    using assms by (auto simp: preview_image_def Let_def split: list.splits)
  then have "(\<exists>status public_id. desired = desired_image c (im_node s) status public_id) \<and> (get desired ''public_id'' = PNone \<longrightarrow> ?quiet)"
  proof cases
    case 1
    then show ?thesis by (auto simp: filter_empty_conv)
  next
    case 2
    have "row \<in> set ?existing" unfolding 2(1) by simp
    then have "row \<in> set (im_images s)" by simp
    then have "get desired ''public_id'' = PNone \<longrightarrow> ?quiet" using 2(2) get_desired_id by metis
    with 2(2) show ?thesis by blast
  qed
  then show "\<exists>status public_id. desired = desired_image c (im_node s) status public_id" "get desired ''public_id'' = PNone \<Longrightarrow> ?quiet"
    by blast+
qed

text \<open>A row that is inserted fits into the catalog.\<close>

lemma catalog_extended:
  assumes "catalog_ok db" "image_row row" "image_key row \<notin> image_key ` set (iv_images db)"
    "\<And>r. r \<in> set (iv_images db) \<Longrightarrow> get r ''name'' = get row ''name'' \<Longrightarrow> get r ''version'' = get row ''version'' \<Longrightarrow>
      \<forall>k\<in>set REPLICA_FIELDS. get r k = get row k"
  shows "catalog_ok (db\<lparr>iv_images := iv_images db @ [row]\<rparr>)"
proof -
  let ?agree = "\<lambda>r r'. get r ''name'' = get r' ''name'' \<and> get r ''version'' = get r' ''version'' \<longrightarrow> (\<forall>k\<in>set REPLICA_FIELDS. get r k = get r' k)"
  have "?agree r r'" if "r \<in> insert row (set (iv_images db))" "r' \<in> insert row (set (iv_images db))" for r r'
  proof (cases "r = row"; cases "r' = row")
    assume "r = row" "r' \<noteq> row"
    then show ?thesis using assms(4) [of r'] that(2) by (metis insertE)
  next
    assume "r \<noteq> row" "r' = row"
    then show ?thesis using assms(4) [of r] that(1) by (metis insertE)
  next
    assume "r \<noteq> row" "r' \<noteq> row"
    then show ?thesis using assms(1) that unfolding catalog_ok_def by blast
  qed simp
  then have agree: "\<forall>r\<in>set (iv_images db @ [row]). \<forall>r'\<in>set (iv_images db @ [row]). ?agree r r'"
    by (simp only: set_append list.set Un_insert_right Un_empty_right) blast
  have ok: "\<forall>n\<in>set (iv_nodes db). is_int (get n ''id'')" "\<forall>r\<in>set (iv_images db). image_row r" "distinct (map image_key (iv_images db))"
    using assms(1) unfolding catalog_ok_def by blast+
  have "distinct (map image_key (iv_images db @ [row]))" using ok(3) assms(3) by simp
  moreover have "\<forall>r\<in>set (iv_images db @ [row]). image_row r" using ok(2) assms(2) by simp
  moreover have "iv_nodes (db\<lparr>iv_images := iv_images db @ [row]\<rparr>) = iv_nodes db"
    "iv_images (db\<lparr>iv_images := iv_images db @ [row]\<rparr>) = iv_images db @ [row]" by simp_all
  ultimately show ?thesis using ok(1) agree unfolding catalog_ok_def by (simp only: simp_thms)
qed

lemma replica_columns: "k \<in> set REPLICA_FIELDS \<Longrightarrow> image_row r \<Longrightarrow> get r k \<noteq> PNone"
  by (auto simp: REPLICA_FIELDS_def image_row_def)

lemma inserted_image_fits:
  assumes preview: "preview_image c s = Inr desired" and commit: "apply_image c s desired g db0 = Inr db" and new: "get desired ''public_id'' = PNone"
    and ok: "catalog_ok db0" and public: "map_of (gn_columns g) ''public_id'' = Some (PStr p)"
    and strs: "list_all (\<lambda>k. is_str (get c k)) [''name'', ''os_family'', ''os_version'', ''ssh_username'']"
    and ints: "list_all (\<lambda>k. is_int (get c k)) [''version'', ''min_disk_gb'']"
  defines "n \<equiv> first_row (named (iv_nodes db0) (get c ''node''))"
  shows "n \<in> set (iv_nodes db0)" "catalog_ok (db0\<lparr>iv_images := iv_images db0 @ [inserted_image desired n g]\<rparr>)"
proof -
  let ?rows = "of_revision c (iv_images db0)" and ?row = "inserted_image desired n g"
  note pre = previewed_image [OF preview]
  have node: "jsonb_eq n (im_node s)" and rows: "jsonb_eq (PList ?rows) (PList (im_images s))"
    using commit by (auto simp: apply_image_def Let_def n_def simp del: jsonb_eq.simps)
  have "n \<noteq> PNone" using node pre(1) by auto
  then show n: "n \<in> set (iv_nodes db0)" unfolding n_def first_row_def named_def
    by (metis (no_types, lifting) filter_is_subset list.case_eq_if list.set_sel(1) subsetD)
  then have id: "is_int (get n ''id'')" using ok by (simp add: catalog_ok_def)
  then have same_id: "jsonb_eq (get n ''id'') (get (im_node s) ''id'')" using node by (intro jsonb_eq_column) auto
  obtain status public_id where desired: "desired = desired_image c (im_node s) status public_id" using pre(3) by blast
  note gets = inserted_gets(1) [of _ c "im_node s" status public_id n g, folded desired]
  have row: "image_row ?row"
    using strs ints id public by (simp add: image_row_def inserted_gets gets IMAGE_COLUMNS_def)
  have typed: "image_row r" if "r \<in> set (iv_images db0)" for r using ok that by (simp add: catalog_ok_def)
  have revision: "r \<in> set ?rows" if "r \<in> set (iv_images db0)" "get r ''name'' = get ?row ''name''" "get r ''version'' = get ?row ''version''" for r
    using that by (simp add: of_revision_def gets IMAGE_COLUMNS_def)
  have agree: "get r k = get ?row k" if r: "r \<in> set ?rows" and k: "k \<in> set REPLICA_FIELDS" for r k
  proof -
    obtain r' where r': "r' \<in> set (im_images s)" "jsonb_eq r r'" using snapshot_row(1) [OF rows r] ..
    have t: "image_row r" using r by (intro typed) (auto simp: of_revision_def)
    then have "jsonb_eq (get r k) (get r' k)" using r'(2) replica_columns [OF k] by (intro jsonb_eq_column)
    moreover have "py_eq (get r' k) (get c k)" using pre(2) r'(1) k by blast
    moreover have "is_str (get r k) \<and> is_str (get c k) \<or> is_int (get r k) \<and> is_int (get c k)"
      using t k strs ints by (auto simp: image_row_def REPLICA_FIELDS_def)
    ultimately have "get r k = get c k" using jsonb_py_str jsonb_py_int by blast
    then show ?thesis using k by (subst gets) (auto simp: REPLICA_FIELDS_def IMAGE_COLUMNS_def)
  qed
  have "image_key ?row \<notin> image_key ` set (iv_images db0)"
  proof
    assume "image_key ?row \<in> image_key ` set (iv_images db0)"
    then obtain r where r: "r \<in> set (iv_images db0)" "get r ''name'' = get ?row ''name''" "get r ''version'' = get ?row ''version''"
      "get r ''node_id'' = get n ''id''" by (auto simp: image_key_def inserted_gets)
    obtain r' where r': "r' \<in> set (im_images s)" "jsonb_eq r r'" using snapshot_row(1) [OF rows revision [OF r(1-3)]] ..
    have t: "image_row r" using r(1) by (rule typed)
    have "jsonb_eq (get n ''id'') (get r' ''node_id'')" using jsonb_eq_column [OF r'(2), of "''node_id''"] id unfolding r(4) by force
    then have "py_eq (get r' ''node_id'') (get (im_node s) ''id'')" using id same_id by (intro jsonb_same_number)
    then obtain q where q: "q \<in> set (im_images s)" "get q ''public_id'' = PNone" using pre(4) new r'(1) by blast
    obtain r0 where r0: "r0 \<in> set ?rows" "jsonb_eq r0 q" using snapshot_row(2) [OF rows q(1)] ..
    then have "is_str (get r0 ''public_id'')" using typed by (auto simp: of_revision_def image_row_def)
    moreover from this have "jsonb_eq (get r0 ''public_id'') PNone" using jsonb_eq_column [OF r0(2), of "''public_id''"] unfolding q(2) by force
    ultimately show False using jsonb_eq_None by fastforce
  qed
  with ok row show "catalog_ok (db0\<lparr>iv_images := iv_images db0 @ [?row]\<rparr>)"
    using revision agree by (intro catalog_extended) blast+
qed

text \<open>C34: A registration of an image keeps the catalog consistent. If a run commits on a database whose rows
  are typed, with one image per node and revision and with images of a revision that agree on the
  system, the account and the disk floor, then the database is left as it was, or one disabled image
  is added that belongs to a node in MAINTENANCE and to the measured template; and the database is
  consistent in the same way afterwards, so the insertion meets no image of the same node and revision.\<close>

theorem registered_image_keeps_catalog:
  assumes "register_image e report digest apply [] = (l, r)" "Committed db \<in> set l" "catalog_ok (rg_second e)"
    "map_of (gn_columns (rg_generated e)) ''public_id'' = Some (PStr p)"
  shows "catalog_ok db \<and> (db = rg_second e \<or>
    (\<exists>row n. db = (rg_second e)\<lparr>iv_images := iv_images (rg_second e) @ [row]\<rparr> \<and> image_key row \<notin> image_key ` set (iv_images (rg_second e))
       \<and> get row ''status'' = PStr ''DISABLED'' \<and> get row ''proxmox_vmid'' = get (get report ''config'') ''template_vmid''
       \<and> n \<in> set (iv_nodes (rg_second e)) \<and> get n ''status'' = PStr ''MAINTENANCE'' \<and> get row ''node_id'' = get n ''id''))"
proof -
  obtain c s desired where run: "validate_image_report (rg_split_url e) (rg_now e) report = Inr c" "preview_image c s = Inr desired"
    "apply_image c s desired (rg_generated e) (rg_second e) = Inr db"
    using image_commits [OF assms(1,2)] by metis
  note config = image_report_config [OF run(1)]
  let ?n = "first_row (named (iv_nodes (rg_second e)) (get c ''node''))" and ?row = "inserted_image desired (first_row (named (iv_nodes (rg_second e)) (get c ''node''))) (rg_generated e)"
  have outcome: "db = (if get desired ''public_id'' = PNone then (rg_second e)\<lparr>iv_images := iv_images (rg_second e) @ [?row]\<rparr> else rg_second e)"
    "get ?n ''status'' = PStr ''MAINTENANCE''"
    using run(3) by (auto simp: apply_image_def Let_def simp del: jsonb_eq.simps get_or_dict)
  show ?thesis
  proof (cases "get desired ''public_id'' = PNone")
    case True
    note fits = inserted_image_fits [OF run(2,3) True assms(3,4) config(2,3)]
    have db: "db = (rg_second e)\<lparr>iv_images := iv_images (rg_second e) @ [?row]\<rparr>" using outcome(1) True by simp
    obtain status public_id where "desired = desired_image c (im_node s) status public_id" using previewed_image(3) [OF run(2)] by blast
    then have "get ?row ''proxmox_vmid'' = get c ''template_vmid''" by (simp only: inserted_gets)
    moreover have "distinct (map image_key (iv_images (rg_second e) @ [?row]))" using fits(2) by (simp only: catalog_ok_def) simp
    then have "image_key ?row \<notin> image_key ` set (iv_images (rg_second e))" by simp
    ultimately show ?thesis using fits db outcome(2) inserted_gets(2,3) config(1) by blast
  qed (use outcome(1) assms(3) in simp)
qed

section \<open>Histories\<close>

text \<open>The requests of all the tools together, over whichever part of the database each works on.\<close>

datatype any_database = Nodes inventory | Pools pool_inventory | Catalog catalog

datatype any_request =
    NodeRun "inventory registration_env" pyval string bool
  | ReadinessRun readiness_request
  | ImageRun "catalog registration_env" pyval string bool

fun any_run :: "any_request \<Rightarrow> any_database registration_event list \<times> pyval res" where
  "any_run (NodeRun e report digest apply) = apfst (in_database Nodes) (registration (e, report, digest, apply))"
| "any_run (ReadinessRun q) = apfst (in_database Pools) (readiness_run q)"
| "any_run (ImageRun e report digest apply) = apfst (in_database Catalog) (image_run (e, report, digest, apply))"

fun any_asked :: "any_request \<Rightarrow> bool" where
  "any_asked (NodeRun e report digest apply) = apply"
| "any_asked (ReadinessRun q) = to_apply q"
| "any_asked (ImageRun e report digest apply) = apply"

text \<open>The record belongs to the request, and the commit to its part of the database.\<close>

fun any_record :: "any_request \<Rightarrow> any_database \<Rightarrow> pyval \<Rightarrow> bool" where
  "any_record (NodeRun e report digest apply) (Nodes db) v = registration_record (e, report, digest, apply) db v"
| "any_record (ReadinessRun q) (Pools db) v = readiness_record q db v"
| "any_record (ImageRun e report digest apply) (Catalog db) v = image_record (e, report, digest, apply) db v"
| "any_record q db v = False"

interpretation any_registration: recorded_run any_run any_asked any_record
proof
  fix q xs db ys
  show "recorded (any_record q) (fst (any_run q))"
    by (cases q) (auto intro!: recorded_map registrations.run_recorded readiness.run_recorded image_registrations.run_recorded)
  show "list_all wrote xs \<and> list_all wrote ys" if "xs @ Committed db # ys = fst (any_run q)"
    using that by (cases q)
      (auto elim!: commit_first_map [rotated] dest: registrations.commit_first readiness.commit_first image_registrations.commit_first)
  show "fst (any_run q) = []" if "\<not> any_asked q"
    using that by (cases q) (simp_all add: registrations.dry_run readiness.dry_run image_registrations.dry_run)
qed

text \<open>C36: No database change without its record. In any one history of requests to register nodes, pools and
  images and to arm firewalls, in any order and each run cut off at any point, the event right before each
  commit is the writing of the record of a run that was asked to apply: its operation, its report, and the
  part of the database it works on; and there are at most as many commits as such runs.\<close>

theorem commits_follow_records:
  "recorded (\<lambda>db v. \<exists>q k. (q, k) \<in> set runs \<and> any_asked q \<and> any_record q db v) (concat (map (\<lambda>(q, k). take k (fst (any_run q))) runs))
   \<and> length (filter (\<lambda>x. \<not> wrote x) (concat (map (\<lambda>(q, k). take k (fst (any_run q))) runs))) \<le> length (filter (\<lambda>(q, k). any_asked q) runs)"
  by (intro conjI any_registration.history_recorded any_registration.commits_at_most_asked)

section \<open>A template\<close>

text \<open>A template of a node whose image another node has already.\<close>

definition example_image :: pyval where
  "example_image = PDict
     [(''node'', PStr ''n1''), (''node_public_id'', PStr example_id), (''cluster'', PStr ''c1''), (''api_url'', PStr ''https://n1:8006''),
      (''storage'', PStr ''s1''), (''bridge_mtu'', PInt 1400), (''template_vmid'', PInt 9000), (''name'', PStr ''debian''),
      (''version'', PInt 1), (''display_name'', PStr ''Debian''), (''os_family'', PStr ''debian''), (''os_version'', PStr ''13.1''),
      (''ssh_username'', PStr ''debian''), (''min_disk_gb'', PInt 8), (''notes'', PNone), (''build_manifest_file'', PStr ''/m''),
      (''database'', PStr ''d''), (''database_hostname'', PStr ''h''), (''database_system_identifier'', PStr ''1234567890''),
      (''database_socket_dir'', PStr ''/s''), (''existing_public_id'', PNone)]"

definition example_manifest :: pyval where
  "example_manifest = PDict
     [(''templateVmid'', PInt 9000), (''osFamily'', PStr ''debian''), (''osVersion'', PStr ''13.1''), (''ciUser'', PStr ''debian''),
      (''checksumAlgorithm'', PStr ''sha256''), (''imageChecksum'', PStr (replicate 64 CHR ''A'')), (''recipeRevision'', PStr ''abcdef0''),
      (''builtAt'', PStr example_time)]"

definition example_net0 :: string where "example_net0 = ''virtio=02:00:00:00:00:01,mtu=1400,firewall=1''"
definition example_digest :: string where "example_digest = replicate 40 CHR ''d''"

definition example_answers :: "(string list \<times> pyval) list" where
  "example_answers =
     [([''/cluster/status''], PList [PDict [(''type'', PStr ''cluster''), (''name'', PStr ''c1''), (''quorate'', PInt 1)]]),
      ([''/cluster/resources'', ''--type'', ''vm''],
       PList [PDict [(''vmid'', PInt 9000), (''type'', PStr ''qemu''), (''node'', PStr ''n1''), (''template'', PInt 1), (''status'', PStr ''stopped'')]]),
      ([''/nodes/n1/qemu/9000/config''],
       PDict [(''template'', PInt 1), (''net0'', PStr example_net0), (''scsi0'', PStr ''s1:base-9000,size=8G''), (''digest'', PStr example_digest)]),
      ([''/nodes/n1/storage/s1/content'', ''--vmid'', ''9000''],
       PList [PDict [(''volid'', PStr ''s1:base-9000''), (''content'', PStr ''images''), (''size'', PInt 8589934592)]])]"

definition example_hypervisor :: image_commands where
  "example_hypervisor = \<lparr>ie_euid = 0, ie_hostname = ''n1.example'',
     ie_api = (\<lambda>args. case map_of example_answers args of None \<Rightarrow> Inl OSError | Some v \<Rightarrow> Inr v),
     ie_manifest = (\<lambda>_. Inr \<lparr>mf_regular = True, mf_size = 2, mf_text = ''{}''\<rparr>), ie_loads = (\<lambda>_. Inr example_manifest),
     ie_sha = (\<lambda>_. replicate 64 CHR ''0'')\<rparr>"

definition example_proof :: pyval where
  "example_proof = PDict
     [(''manifest_sha256'', PStr (replicate 64 CHR ''0'')), (''source_checksum_algorithm'', PStr ''sha256''),
      (''source_image_checksum'', PStr (replicate 64 CHR ''a'')), (''recipe_revision'', PStr ''abcdef0''), (''built_at'', PStr example_time),
      (''scope'', PStr SCOPE)]"

definition example_image_report :: pyval where
  "example_image_report = PDict
     [(''schema_version'', PInt 1), (''config'', image_document example_image), (''measured_at'', PStr example_time),
      (''template'', PDict [(''vmid'', PInt 9000), (''node'', PStr ''n1''), (''template'', PBool True), (''stopped'', PBool True),
         (''config_digest'', PStr example_digest), (''net0'', PStr example_net0), (''root_volume'', PStr ''s1:base-9000''),
         (''root_volume_bytes'', PInt 8589934592)]),
      (''build_provenance'', example_proof), (''mutations'', PStr ''none'')]"

lemma example_manifest_facts:
  "manifest_matches example_image example_manifest"
  "text_match (hex_digest 64 any_hex) (PStr (replicate 64 CHR ''A''))" "recipe_revision ''abcdef0''"
  "map lower_char (replicate 64 CHR ''A'') = replicate 64 CHR ''a''"
  by code_simp+

lemma example_manifest_read: "read_manifest example_hypervisor example_image = Inr example_proof"
proof -
  have "get example_image ''build_manifest_file'' = PStr ''/m''" by (simp add: example_image_def)
  moreover have "get example_manifest ''checksumAlgorithm'' = PStr ''sha256''" "get example_manifest ''imageChecksum'' = PStr (replicate 64 CHR ''A'')"
    "get example_manifest ''recipeRevision'' = PStr ''abcdef0''" "get example_manifest ''builtAt'' = PStr example_time"
    "indexR example_manifest ''builtAt'' = Inr (PStr example_time)"
    by (simp_all add: example_manifest_def)
  ultimately show ?thesis
    using example_manifest_facts
    by (simp add: read_manifest_def Let_def example_hypervisor_def zoned_def example_time_value in_tuple_def digest_length_def is_string_def
        text_match_def example_proof_def del: get_or_dict)
qed

lemma example_image_ok: "image_config_ok example_split example_image = Inr ()"
  by code_simp

lemma example_image_fields: "has_keys example_image IMAGE_FIELDS"
  by code_simp

lemma example_nic_ok: "nic_ok example_image example_net0 = Inr ()"
  by code_simp

lemma example_image_gets:
  "get example_image ''node'' = PStr ''n1''" "get example_image ''template_vmid'' = PInt 9000" "get example_image ''storage'' = PStr ''s1''"
  "get example_image ''cluster'' = PStr ''c1''" "get example_image ''min_disk_gb'' = PInt 8"
  by (simp_all add: example_image_def)

lemma example_paths: "node_path example_image s = ''/nodes/n1'' @ s" "vmid_text example_image = ''9000''"
  by (simp_all add: node_path_def vmid_text_def example_image_gets str_of_int_def str_of_nat.simps digit_chars)

lemma example_root_disk: "root_disk example_image (PDict [(''template'', PInt 1), (''net0'', PStr example_net0), (''scsi0'', PStr ''s1:base-9000,size=8G''),
    (''digest'', PStr example_digest)]) = Inr ''s1:base-9000''"
  by code_simp

lemma example_digest_ok: "config_digest example_digest"
  by code_simp

lemma example_collected: "collect_image example_hypervisor example_image example_time = Inr example_image_report"
proof -
  have "ie_euid example_hypervisor = 0" "short_host (ie_hostname example_hypervisor) = ''n1''"
    "ie_api example_hypervisor = (\<lambda>args. case map_of example_answers args of None \<Rightarrow> Inl OSError | Some v \<Rightarrow> Inr v)"
    by (simp_all add: example_hypervisor_def short_host_def)
  then show ?thesis
    by (simp add: collect_image_def Let_def example_answers_def example_image_gets example_paths rows_of_def dict_of_def one_template_def is_string_def
        example_nic_ok example_root_disk volume_size_def positive_int_def full_match_def example_digest_ok example_manifest_read example_image_report_def)
qed

lemma example_accepted_config: "image_from_dict example_split example_image = Inr example_image"
  by (simp add: image_from_dict_def example_image_fields example_image_ok)

lemma example_sha: "class_match is_hex 64 64 (ie_sha example_hypervisor raw)"
proof -
  have "ie_sha example_hypervisor raw = replicate 64 CHR ''0''" by (simp add: example_hypervisor_def)
  then show ?thesis using example_shapes(2) by (simp only:)
qed

lemma example_accepted: "validate_image_report example_split 1735735400000000 example_image_report = Inr (image_document example_image)"
  by (rule report_accepted [OF example_collected example_accepted_config example_time_value]) (simp_all add: example_sha)

theorem collected_image_is_accepted_witness:
  "validate_image_report example_split 1735735400000000 example_image_report = Inr (image_document example_image)
   \<and> get (image_document example_image) ''template_vmid'' = PInt 9000"
proof -
  have "validate_image_report example_split 1735735400000000 example_image_report = Inr (image_document example_image)
      \<and> (\<forall>k\<in>set IMAGE_FIELDS. get (image_document example_image) k = get example_image k)"
    by (rule collected_image_is_accepted [OF example_collected example_accepted_config example_time_value]) (simp_all add: example_sha)
  then show ?thesis by (simp add: IMAGE_FIELDS_def example_image_gets del: get_or_dict)
qed

section \<open>A registration\<close>

definition example_catalog :: catalog where
  "example_catalog = \<lparr>iv_identity = database_identity example_image, iv_pools = [],
     iv_nodes = [PDict [(''id'', PInt 5), (''name'', PStr ''n1''), (''public_id'', PStr example_id), (''status'', PStr ''MAINTENANCE''),
        (''api_host'', PStr ''https://n1:8006''), (''storage'', PStr ''s1''),
        (''labels'', PDict [(''node_registration'', PDict [(''cluster'', PStr ''c1'')]),
          (''vm_nic_requirements'', PDict [(''schema_version'', PInt 1), (''mtu'', PInt 1400), (''firewall'', PBool True)])])]],
     iv_vms = [], iv_unique = True,
     iv_images = [PDict [(''name'', PStr ''debian''), (''version'', PInt 1), (''os_family'', PStr ''debian''), (''os_version'', PStr ''13.1''),
        (''ssh_username'', PStr ''debian''), (''min_disk_gb'', PInt 8), (''node_id'', PInt 4), (''public_id'', PStr ''x''), (''status'', PStr ''ACTIVE'')]]\<rparr>"

definition example_enrolment :: "catalog registration_env" where
  "example_enrolment = \<lparr>rg_euid = 0, rg_hostname = ''h'', rg_split_url = example_split, rg_now = 1735735400000000,
     rg_first = Inr example_catalog, rg_second = example_catalog, rg_reply = Answered,
     rg_generated = \<lparr>gn_columns = [(''public_id'', PStr ''y'')], gn_now = PStr ''now''\<rparr>,
     rg_backup = Some \<lparr>bd_path = ''/b'', bd_stat = Inr (True, 0, 448)\<rparr>, rg_operation = ''o'', rg_write = \<lambda>_. None\<rparr>"

definition example_image_snapshot :: image_snapshot where
  "example_image_snapshot = \<lparr>im_identity = iv_identity example_catalog, im_unique = True, im_node = hd (iv_nodes example_catalog),
     im_images = iv_images example_catalog\<rparr>"

lemma example_catalog_ok: "catalog_ok example_catalog"
  by (simp add: catalog_ok_def example_catalog_def image_row_def)

lemma example_image_same: "image_document example_image = example_image"
  by code_simp

lemma example_image_previewed: "\<exists>desired. preview_image example_image example_image_snapshot = Inr desired"
proof -
  have "preview_image example_image example_image_snapshot
    = Inr (desired_image example_image (hd (iv_nodes example_catalog)) (PStr ''DISABLED'') PNone)"
    by code_simp
  then show ?thesis ..
qed

lemma example_image_applied: "\<exists>db. apply_image example_image example_image_snapshot desired g example_catalog = Inr db"
proof -
  have "jsonb_eq (iv_identity example_catalog) (im_identity example_image_snapshot)" "iv_unique example_catalog"
    "first_row (named (iv_nodes example_catalog) (get example_image ''node'')) = hd (iv_nodes example_catalog)"
    "jsonb_eq (hd (iv_nodes example_catalog)) (im_node example_image_snapshot)" "get (hd (iv_nodes example_catalog)) ''status'' = PStr ''MAINTENANCE''"
    "jsonb_eq (PList (of_revision example_image (iv_images example_catalog))) (PList (im_images example_image_snapshot))"
    by code_simp+
  then show ?thesis by (simp add: apply_image_def del: get_or_dict jsonb_eq.simps)
qed

lemma example_image_seen: "image_snapshot_of example_catalog example_image = Inr example_image_snapshot"
proof -
  have "scalar (named (iv_nodes example_catalog) (get example_image ''node'')) = Inr (hd (iv_nodes example_catalog))"
    "of_revision example_image (iv_images example_catalog) = iv_images example_catalog" "iv_unique example_catalog"
    by code_simp+
  then show ?thesis by (simp add: image_snapshot_of_def example_image_snapshot_def)
qed

lemma example_enrolment_fields:
  "rg_euid example_enrolment = 0" "short_host (rg_hostname example_enrolment) = ''h''" "rg_first example_enrolment = Inr example_catalog"
  "rg_second example_enrolment = example_catalog" "rg_split_url example_enrolment = example_split" "rg_now example_enrolment = 1735735400000000"
  "rg_reply (image_files example_enrolment) = Answered" "protected_backup (image_files example_enrolment) = Inr ''/b''"
  "rg_write (image_files example_enrolment) = (\<lambda>_. None)" "gn_columns (rg_generated example_enrolment) = [(''public_id'', PStr ''y'')]"
  by (simp_all add: example_enrolment_def image_files_def short_host_def protected_backup_def is_absolute_slash starts_with_def)

lemma example_image_run: "\<exists>l r db. register_image example_enrolment example_image_report ''d'' True [] = (l, r) \<and> Committed db \<in> set l"
proof -
  obtain desired where desired: "preview_image example_image example_image_snapshot = Inr desired" using example_image_previewed ..
  obtain db where db: "apply_image example_image example_image_snapshot desired (rg_generated example_enrolment) example_catalog = Inr db"
    using example_image_applied ..
  have host: "get example_image ''database_hostname'' = PStr ''h''" by (simp add: example_image_def)
  have report: "validate_image_report example_split 1735735400000000 example_image_report = Inr example_image"
    using example_accepted by (simp only: example_image_same)
  have "Committed db \<in> set (fst (register_image example_enrolment example_image_report ''d'' True []))"
    by (auto simp: register_image_def bindIO_def liftR_def on_database_host_def example_enrolment_fields report host example_image_seen desired
        backed_apply_def write_private_def run_apply_def db Let_def split: sum.split simp del: get_or_dict)
  then show ?thesis by (metis prod.collapse)
qed

theorem registered_image_keeps_catalog_witness:
  "\<exists>l r db. register_image example_enrolment example_image_report ''d'' True [] = (l, r) \<and> Committed db \<in> set l \<and> catalog_ok db"
proof -
  obtain l r db where run: "register_image example_enrolment example_image_report ''d'' True [] = (l, r)" "Committed db \<in> set l"
    using example_image_run by (elim exE conjE)
  have "catalog_ok (rg_second example_enrolment)" "map_of (gn_columns (rg_generated example_enrolment)) ''public_id'' = Some (PStr ''y'')"
    by (simp_all add: example_enrolment_fields example_catalog_ok)
  from registered_image_keeps_catalog [OF run this] run show ?thesis by blast
qed

end
