(* ===== verification/CpuPolicy.thy ===== *)
theory CpuPolicy
  imports NodeCapacity "HOL-Library.Char_ord" "HOL-Library.List_Lexorder"
begin

text \<open>
  The policy of \<open>scripts/lib/cpu_isolation.py\<close>: texts of CPU sets, the configuration, and \<open>derive\<close>, which
  divides the threads of a hypervisor into those of the host, of the platform containers and of the
  students, by whole cores. The program ends in the same way for \<open>IsolationError\<close>, \<open>ValueError\<close>,
  \<open>KeyError\<close> and \<open>TypeError\<close>, so which of them is raised first is not kept. A digit is an ASCII digit.
  SHA-256 and \<open>json.dumps\<close> are parameters.
\<close>

section \<open>Values\<close>

abbreviation Unmet :: exn where
  "Unmet \<equiv> AppError ''IsolationError'' []"

abbreviation need :: "bool \<Rightarrow> unit res" where
  "need b \<equiv> check b Unmet"

record digests =
  dg_sha :: "string \<Rightarrow> string"
  dg_dumps :: "pyval \<Rightarrow> string"

definition canonical :: "digests \<Rightarrow> pyval \<Rightarrow> string" where
  "canonical d v = dg_dumps d v @ [CHR 0x0A]"

text \<open>\<open>sorted\<close> of distinct strings by their bytes, which is the order of the code points.\<close>

definition STORAGE_BASE :: "string list" where
  "STORAGE_BASE = [''backup'', ''vztmpl'', ''import'', ''iso'']"

definition storage_projection :: "pyval \<Rightarrow> pyval res" where
  "storage_projection v =
     bindR (need (is_dict v \<and> is_str (get v ''content''))) (\<lambda>_.
     let members = split_on CHR '','' (the_str (get v ''content''))
     in bindR (need (list_all (\<lambda>m. m \<noteq> [] \<and> list_all is_lower m) members \<and> distinct members
                     \<and> (set members = set STORAGE_BASE \<or> set members = insert ''snippets'' (set STORAGE_BASE)))) (\<lambda>_.
        Inr (merged v [(''content'', PStr (join_with '','' (sort members)))])))"

definition whole :: "pyval \<Rightarrow> int \<Rightarrow> int res" where
  "whole v least = bindR (need (is_int v \<and> least \<le> the_int v \<and> the_int v \<le> 2147483647)) (\<lambda>_. Inr (the_int v))"

definition pin :: "pyval \<Rightarrow> string res" where
  "pin v = bindR (need (is_str v \<and> class_match is_hex 64 64 (the_str v))) (\<lambda>_. Inr (the_str v))"

section \<open>CPU sets\<close>

definition digits_value :: "string \<Rightarrow> nat option" where
  "digits_value w = (if w \<noteq> [] \<and> list_all is_digit w then Some (nat (decimal w)) else None)"

definition cpu_part :: "string \<Rightarrow> (nat \<times> nat) option" where
  "cpu_part s =
     (case map digits_value (split_on CHR ''-'' s) of
        [Some a] \<Rightarrow> Some (a, a)
      | [Some a, Some b] \<Rightarrow> Some (a, b)
      | _ \<Rightarrow> None)"

definition cpu_parts :: "string \<Rightarrow> (nat \<times> nat) option list" where
  "cpu_parts s = map cpu_part (split_on CHR '','' s)"

definition cpus :: "pyval \<Rightarrow> nat set res" where
  "cpus v =
     bindR (need (is_str v \<and> None \<notin> set (cpu_parts (the_str v)))) (\<lambda>_.
     let pairs = map the (cpu_parts (the_str v))
     in bindR (need (list_all (\<lambda>(a, b). a \<le> b \<and> b \<le> 4095) pairs)) (\<lambda>_.
        let threads = concat (map (\<lambda>(a, b). [a..<Suc b]) pairs)
        in bindR (need (distinct threads)) (\<lambda>_. Inr (set threads))))"

definition cpu_text :: "nat set \<Rightarrow> string res" where
  "cpu_text s = bindR (need (s \<noteq> {})) (\<lambda>_. Inr (join_with '','' (map str_of_nat (sorted_list_of_set s))))"

section \<open>Configuration\<close>

definition POLICY_FIELDS :: "string list" where
  "POLICY_FIELDS =
     [''schema_version'', ''node'', ''physical_cores'', ''host_core_ids'', ''platform_core_ids'', ''platform_cts'', ''parked_ct_ids'',
      ''committed_vcpu'', ''expected_kernel'', ''expected_pve_release'', ''expected_systemd_major'', ''required_code_sha256'',
      ''clone_inheritance_review_ref'']"

definition CODE_PATHS :: "string list" where
  "CODE_PATHS =
     [''/usr/share/perl5/PVE/QemuServer.pm'', ''/usr/share/perl5/PVE/API2/Qemu.pm'', ''/usr/share/perl5/PVE/GuestHelpers.pm'',
      ''/usr/share/perl5/PVE/LXC.pm'', ''/usr/share/perl5/PVE/LXC/Config.pm'', ''/usr/share/perl5/PVE/Service/pvestatd.pm'']"

definition HOST_CORES :: "nat list" where "HOST_CORES = [0, 1]"
definition PLATFORM_CORES :: "nat list" where "PLATFORM_CORES = [2, 3, 4, 5]"

abbreviation int_list :: "nat list \<Rightarrow> pyval" where
  "int_list ns \<equiv> PList (map (\<lambda>n. PInt (int n)) ns)"

definition core_ids :: "pyval \<Rightarrow> nat list" where
  "core_ids ct = map (\<lambda>v. nat (the_int v)) (the_list (get ct ''core_ids''))"

definition platform_ct_ok :: "pyval \<Rightarrow> int res" where
  "platform_ct_ok ct =
     bindR (need (has_keys ct [''vmid'', ''cores'', ''core_ids''])) (\<lambda>_.
     bindR (whole (get ct ''vmid'') 100) (\<lambda>vmid.
     let ids = get ct ''core_ids''
     in bindR (need (is_list ids \<and> the_list ids \<noteq> [] \<and> list_all (\<lambda>v. v \<in> (\<lambda>n. PInt (int n)) ` set PLATFORM_CORES) (the_list ids)
                     \<and> distinct (the_list ids))) (\<lambda>_.
        bindR (whole (get ct ''cores'') 2) (\<lambda>cores.
        bindR (need (cores \<in> {2, 4} \<and> cores = 2 * int (length (the_list ids)))) (\<lambda>_. Inr vmid)))))"

definition cpu_policy_ok :: "pyval \<Rightarrow> unit res" where
  "cpu_policy_ok c =
     bindR (need (has_keys c POLICY_FIELDS)) (\<lambda>_.
     bindR (need (get c ''schema_version'' = PInt 1)) (\<lambda>_.
     bindR (need (is_str (get c ''node'') \<and> inventory_name (the_str (get c ''node'')))) (\<lambda>_.
     bindR (whole (get c ''physical_cores'') 7) (\<lambda>cores.
     bindR (need (cores \<in> {12, 16})) (\<lambda>_.
     bindR (need (get c ''host_core_ids'' = int_list HOST_CORES \<and> get c ''platform_core_ids'' = int_list PLATFORM_CORES)) (\<lambda>_.
     bindR (whole (get c ''committed_vcpu'') 0) (\<lambda>committed.
     bindR (need (committed < (cores * 2 - 12) * 2)) (\<lambda>_.
     bindR (need (is_string (get c ''expected_kernel'') ''7.0.14-15-pve'' \<and> is_string (get c ''expected_pve_release'') ''9.2.11''
                  \<and> get c ''expected_systemd_major'' = PInt 257)) (\<lambda>_.
     bindR (need (has_keys (get c ''required_code_sha256'') CODE_PATHS)) (\<lambda>_.
     bindR (mapR (\<lambda>(_, v). pin v) (items (get c ''required_code_sha256''))) (\<lambda>_.
     bindR (let ref = get c ''clone_inheritance_review_ref''
            in need (is_str ref \<and> 1 \<le> char_count (the_str ref) \<and> char_count (the_str ref) \<le> 512)) (\<lambda>_.
     bindR (need (is_list (get c ''platform_cts'') \<and> is_list (get c ''parked_ct_ids''))) (\<lambda>_.
     bindR (mapR platform_ct_ok (the_list (get c ''platform_cts''))) (\<lambda>platform.
     bindR (mapR (\<lambda>v. whole v 100) (the_list (get c ''parked_ct_ids''))) (\<lambda>parked.
     need (distinct (platform @ parked)))))))))))))))))"

section \<open>Masks\<close>

text \<open>A row of the topology is a thread with its core.\<close>

definition topology_row :: "nat \<Rightarrow> pyval \<Rightarrow> (nat \<times> nat) res" where
  "topology_row cores v =
     bindR (need (has_keys v [''cpu'', ''core'', ''socket'', ''online'', ''siblings''])) (\<lambda>_.
     bindR (whole (get v ''cpu'') 0) (\<lambda>cpu.
     bindR (whole (get v ''core'') 0) (\<lambda>core.
     bindR (need (get v ''online'' = PBool True \<and> get v ''socket'' = PInt 0)) (\<lambda>_.
     bindR (need (core < int cores)) (\<lambda>_. Inr (nat cpu, nat core))))))"

definition threads_of :: "(nat \<times> nat) list \<Rightarrow> nat \<Rightarrow> nat set" where
  "threads_of rows core = set (map fst (filter (\<lambda>r. snd r = core) rows))"

definition select_cores :: "(nat \<times> nat) list \<Rightarrow> nat list \<Rightarrow> nat set" where
  "select_cores rows cores = \<Union> (threads_of rows ` set cores)"

definition siblings_ok :: "(nat \<times> nat) list \<Rightarrow> pyval \<Rightarrow> unit res" where
  "siblings_ok rows v =
     bindR (cpus (get v ''siblings'')) (\<lambda>s. need (s = threads_of rows (nat (the_int (get v ''core'')))))"

definition ct_mask :: "(nat \<times> nat) list \<Rightarrow> pyval \<Rightarrow> (string \<times> pyval) res" where
  "ct_mask rows ct =
     bindR (cpu_text (select_cores rows (core_ids ct))) (\<lambda>t. Inr (str_of_int (the_int (get ct ''vmid'')), PStr t))"

definition derive :: "digests \<Rightarrow> pyval \<Rightarrow> pyval \<Rightarrow> pyval res" where
  "derive d c topology =
     bindR (cpu_policy_ok c) (\<lambda>_.
     let n = nat (the_int (get c ''physical_cores''))
     in bindR (need (is_list topology \<and> length (the_list topology) = 2 * n)) (\<lambda>_.
        bindR (mapR (topology_row n) (the_list topology)) (\<lambda>rows.
        bindR (need (distinct (map fst rows))) (\<lambda>_.
        bindR (need (list_all (\<lambda>core. card (threads_of rows core) = 2) [0..<n])) (\<lambda>_.
        bindR (mapR (siblings_ok rows) (the_list topology)) (\<lambda>_.
        let seen = set (map fst rows); host = select_cores rows HOST_CORES; platform = select_cores rows PLATFORM_CORES;
            student = seen - host - platform
        in bindR (need (card host = 4 \<and> card platform = 8 \<and> int (card student) = int (card seen) - 12
                        \<and> host \<inter> platform = {} \<and> host \<inter> student = {} \<and> platform \<inter> student = {})) (\<lambda>_.
           bindR (cpu_text host) (\<lambda>host_text.
           bindR (cpu_text platform) (\<lambda>platform_text.
           bindR (cpu_text student) (\<lambda>student_text.
           bindR (mapR (ct_mask rows) (the_list (get c ''platform_cts''))) (\<lambda>cts.
           Inr (PDict [(''host'', PStr host_text), (''platform'', PStr platform_text), (''student'', PStr student_text),
                       (''platform_cts'', PDict cts),
                       (''topology_sha256'', PStr (dg_sha d (canonical d (PList (sort_key (\<lambda>v. the_int (get v ''cpu'')) (the_list topology)))))),
                       (''reserved_cpu_threads'', PInt 12), (''allocation_ratio'', PInt 2), (''committed_vcpu'', get c ''committed_vcpu''),
                       (''allocatable_vcpu'', PInt (int (card student) * 2 - the_int (get c ''committed_vcpu'')))]))))))))))))"

section \<open>Existing drop-ins\<close>

definition DROPIN_GROUPS :: "string list" where
  "DROPIN_GROUPS =
     [''system.slice'', ''user.slice'', ''init.scope'', ''qemu.slice'', ''pve-container@.service'', ''pve-guests.service'']"

definition CPU_DROPIN :: string where "CPU_DROPIN = ''90-pickle-cpu-isolation.conf''"

text \<open>\<open>EXISTING_DROPINS.get(group, {}).get(name)\<close>\<close>

definition existing_dropin :: "string \<Rightarrow> string \<Rightarrow> pyval" where
  "existing_dropin g name =
     (if g = ''pve-guests.service'' \<and> name = ''example-production-network.conf''
      then PStr ''4bd160888cfc1743de5f7fd89b59b9dbba37ddd10080506fd03b95a0868e587e'' else PNone)"

definition dropin_custody :: "pyval \<Rightarrow> bool" where
  "dropin_custody row =
     (is_dict row \<and> get row ''uid'' = PInt 0 \<and> get row ''gid'' = PInt 0 \<and> get row ''mode'' = PInt 384 \<and> get row ''nlink'' = PInt 1)"

definition same_names :: "pyval \<Rightarrow> pyval \<Rightarrow> bool" where
  "same_names v w = (is_dict v \<and> is_dict w \<and> keys v = keys w)"

definition permitted_existing_dropins :: "pyval \<Rightarrow> unit res" where
  "permitted_existing_dropins report =
     bindR (getR report ''systemd_dropins'') (\<lambda>controls.
     let metadata = get report ''systemd_dropin_metadata''
     in bindR (need (has_keys controls DROPIN_GROUPS \<and> has_keys metadata DROPIN_GROUPS)) (\<lambda>_.
        bindR (mapR (\<lambda>(g, entries).
                 bindR (need (same_names entries (get metadata g))) (\<lambda>_.
                 need (list_all (\<lambda>(name, v). py_eq (existing_dropin g name) v \<and> dropin_custody (get (get metadata g) name)) (items entries))))
               (items controls)) (\<lambda>_. Inr ())))"

definition dropin_path :: "string \<Rightarrow> string" where
  "dropin_path g = ''/etc/systemd/system/'' @ g @ ''.d/'' @ CPU_DROPIN"

definition preserved_group :: "digests \<Rightarrow> pyval \<Rightarrow> pyval \<Rightarrow> (string \<times> string) list \<Rightarrow> string \<Rightarrow> unit res" where
  "preserved_group d before after files g =
     (let controls = get after ''systemd_dropins''; metadata = get after ''systemd_dropin_metadata''
      in case map_of files (dropin_path g) of
           None \<Rightarrow> Inl Unmet
         | Some raw \<Rightarrow>
             let expected = merged (get (get before ''systemd_dropins'') g) [(CPU_DROPIN, PStr (dg_sha d raw))]
             in bindR (need (py_eq (get controls g) expected \<and> same_names (get metadata g) expected)) (\<lambda>_.
                need (list_all (\<lambda>(name, v). py_eq (get (get metadata g) name) v) (items (get (get before ''systemd_dropin_metadata'') g)))))"

definition preserved_dropins :: "digests \<Rightarrow> pyval \<Rightarrow> pyval \<Rightarrow> (string \<times> string) list \<Rightarrow> unit res" where
  "preserved_dropins d before after files =
     bindR (permitted_existing_dropins before) (\<lambda>_.
     bindR (getR after ''systemd_dropins'') (\<lambda>controls.
     bindR (need (has_keys controls DROPIN_GROUPS \<and> has_keys (get after ''systemd_dropin_metadata'') DROPIN_GROUPS)) (\<lambda>_.
     bindR (mapR (preserved_group d before after files) DROPIN_GROUPS) (\<lambda>_. Inr ()))))"

end
