(* ===== verification/CpuVerify.thy ===== *)
theory CpuVerify
  imports CpuPolicy
begin

text \<open>
  \<open>validate_observation\<close>, \<open>verify\<close>, \<open>render\<close>, \<open>approval\<close> and \<open>completed_phase\<close> of
  \<open>scripts/lib/cpu_isolation.py\<close>: an observation of the hypervisor is compared with the policy, and the
  files of the installation are made from it. The identifiers of guests are \<open>int\<close>s, as the collector
  makes them. The clock is a parameter.
\<close>

section \<open>Observations\<close>

definition CONTROL_NAMES :: "string list" where
  "CONTROL_NAMES = [''system.slice'', ''user.slice'', ''init.scope'', ''lxc.monitor'', ''lxc.pivot'']"

definition HOOK_VOLUME :: string where "HOOK_VOLUME = ''local:snippets/pickle-cpu-isolation-hook.py''"

definition matches :: "pyval \<Rightarrow> string \<Rightarrow> pyval \<Rightarrow> bool res" where
  "matches v k w = bindR (indexR v k) (\<lambda>x. Inr (py_eq x w))"

definition runtime_ok :: "pyval \<Rightarrow> pyval \<Rightarrow> unit res" where
  "runtime_ok c report =
     bindR (andR (matches report ''node'' (get c ''node''))
           (andR (matches report ''kernel'' (get c ''expected_kernel''))
           (andR (matches report ''pve_release'' (get c ''expected_pve_release''))
                 (matches report ''systemd_major'' (get c ''expected_systemd_major''))))) need"

definition aware :: "pyval \<Rightarrow> int res" where
  "aware v =
     bindR (check (is_str v) TypeError) (\<lambda>_.
     case from_iso (the_str v) of None \<Rightarrow> Inl ValueError | Some None \<Rightarrow> Inl TypeError | Some (Some t) \<Rightarrow> Inr t)"

definition observation_fresh :: "int \<Rightarrow> pyval \<Rightarrow> unit res" where
  "observation_fresh now report =
     bindR (bindR (indexR report ''observed_at_utc'') aware) (\<lambda>t. need (0 \<le> now - t \<and> now - t \<le> 300 * 1000000))"

definition platform_ct :: "pyval \<Rightarrow> pyval \<Rightarrow> pyval option" where
  "platform_ct c vmid = find (\<lambda>ct. py_eq (get ct ''vmid'') vmid) (the_list (get c ''platform_cts''))"

definition is_parked :: "pyval \<Rightarrow> pyval \<Rightarrow> bool" where
  "is_parked c vmid = list_ex (\<lambda>v. py_eq v vmid) (the_list (get c ''parked_ct_ids''))"

definition cpus_within :: "pyval \<Rightarrow> pyval \<Rightarrow> bool res" where
  "cpus_within v w = bindR (cpus v) (\<lambda>s. bindR (cpus w) (\<lambda>t. Inr (s \<subseteq> t)))"

definition native_lxc :: "pyval \<Rightarrow> pyval \<Rightarrow> unit res" where
  "native_lxc c g =
     (case platform_ct c (get g ''vmid'') of
        Some ct \<Rightarrow> bindR (matches g ''cores'' (get ct ''cores'')) need
      | None \<Rightarrow>
          bindR (need (is_parked c (get g ''vmid''))) (\<lambda>_.
          bindR (andR (Inr (is_string (get g ''status'') ''stopped'')) (bindR (indexR g ''onboot'') (\<lambda>v. Inr (v = PInt 0)))) need))"

definition native_qemu :: "pyval \<Rightarrow> pyval \<Rightarrow> unit res" where
  "native_qemu student g =
     bindR (need (get g ''template'' = PBool False \<or> is_string (get g ''status'') ''stopped'')) (\<lambda>_.
     bindR (indexR g ''affinity'') (\<lambda>a. if a = PNone then Inr () else bindR (cpus_within a student) need))"

definition native_guest :: "pyval \<Rightarrow> pyval \<Rightarrow> pyval \<Rightarrow> unit res" where
  "native_guest c student g =
     bindR (mapR (indexR g) [''kind'', ''vmid'', ''status'', ''template'']) (\<lambda>_.
     bindR (need ((is_string (get g ''status'') ''running'' \<or> is_string (get g ''status'') ''stopped'') \<and> is_bool (get g ''template''))) (\<lambda>_.
     if is_string (get g ''kind'') ''lxc'' then native_lxc c g
     else if is_string (get g ''kind'') ''qemu'' then native_qemu student g
     else Inl Unmet))"

definition guest_key :: "pyval \<Rightarrow> pyval \<times> pyval" where
  "guest_key g = (get g ''kind'', get g ''vmid'')"

definition listR :: "pyval \<Rightarrow> string \<Rightarrow> pyval list res" where
  "listR v k = bindR (indexR v k) (\<lambda>x. bindR (check (is_list x) TypeError) (\<lambda>_. Inr (the_list x)))"

text \<open>\<open>validate_observation\<close>; without a clock it is the call with \<open>fresh=False\<close>.\<close>

definition validate_observation :: "digests \<Rightarrow> pyval \<Rightarrow> pyval \<Rightarrow> int option \<Rightarrow> pyval res" where
  "validate_observation d c report clock =
     bindR (runtime_ok c report) (\<lambda>_.
     bindR (bindR (matches report ''required_code_sha256'' (get c ''required_code_sha256'')) need) (\<lambda>_.
     bindR (bindR (indexR report ''topology'') (derive d c)) (\<lambda>masks.
     bindR (bindR (matches report ''masks'' masks) need) (\<lambda>_.
     bindR (case clock of None \<Rightarrow> Inr () | Some now \<Rightarrow> observation_fresh now report) (\<lambda>_.
     bindR (listR report ''guests'') (\<lambda>guests.
     bindR (mapR (native_guest c (get masks ''student'')) guests) (\<lambda>_.
     bindR (need (distinct (map guest_key guests))) (\<lambda>_.
     bindR (need (list_all (\<lambda>ct. list_ex (\<lambda>g. is_string (get g ''kind'') ''lxc'' \<and> py_eq (get g ''vmid'') (get ct ''vmid'')) guests)
                     (the_list (get c ''platform_cts'')))) (\<lambda>_.
     Inr masks)))))))))"

section \<open>Verification\<close>

text \<open>\<open>cpus(v or '') == cpus(w)\<close>\<close>

definition or_empty :: "pyval \<Rightarrow> pyval" where
  "or_empty v = (if truthy v then v else PStr [])"

definition mask_is :: "pyval \<Rightarrow> string \<Rightarrow> pyval \<Rightarrow> bool res" where
  "mask_is g f w = bindR (indexR g f) (\<lambda>v. bindR (cpus (or_empty v)) (\<lambda>s. bindR (cpus w) (\<lambda>t. Inr (s = t))))"

definition control_ok :: "pyval \<Rightarrow> pyval \<Rightarrow> string \<Rightarrow> unit res" where
  "control_ok groups masks name =
     bindR (indexR groups name) (\<lambda>g.
     bindR (andR (mask_is g ''cpuset.cpus'' (get masks ''host'')) (mask_is g ''cpuset.cpus.effective'' (get masks ''host''))) need)"

definition parent_ok :: "pyval \<Rightarrow> pyval \<Rightarrow> string \<times> string \<Rightarrow> unit res" where
  "parent_ok groups masks = (\<lambda>(name, which).
     bindR (indexR groups name) (\<lambda>g.
     bindR (andR (mask_is g ''cpuset.cpus'' (get masks which))
           (andR (mask_is g ''cpuset.cpus.effective'' (get masks which))
                 (bindR (indexR g ''cgroup.subtree_control'') (\<lambda>v. Inr (''cpuset'' \<in> set (words (the_str (or_empty v)))))))) need))"

definition partition_ok :: "pyval \<Rightarrow> pyval \<Rightarrow> unit res" where
  "partition_ok groups masks =
     bindR (indexR groups ''lxc'') (\<lambda>g.
     bindR (andR (matches g ''cpuset.cpus.partition'' (PStr ''root''))
           (andR (matches g ''direct_process_count'' (PInt 0))
           (andR (mask_is g ''cpuset.cpus.exclusive'' (get masks ''platform''))
                 (mask_is g ''cpuset.cpus.exclusive.effective'' (get masks ''platform''))))) need)"

definition threads_within :: "pyval \<Rightarrow> pyval \<Rightarrow> bool res" where
  "threads_within g given =
     bindR (listR g ''thread_cpu_sets'') (\<lambda>sets. bindR (mapR (\<lambda>v. cpus_within v given) sets) (\<lambda>bs. Inr (list_all id bs)))"

definition running_ct_ok :: "pyval \<Rightarrow> string \<Rightarrow> pyval \<Rightarrow> unit res" where
  "running_ct_ok groups base given =
     bindR (mapR (\<lambda>name. bindR (andR (Inr (has_key groups name)) (mask_is (get groups name) ''cpuset.cpus.effective'' given)) need)
              [base, base @ ''/ns'']) (\<lambda>_.
     bindR (andR (bindR (listR (get groups base) ''thread_cpu_sets'') (\<lambda>sets. Inr (sets \<noteq> []))) (threads_within (get groups base) given)) need)"

definition enrolled :: "pyval \<Rightarrow> pyval \<Rightarrow> pyval \<Rightarrow> pyval \<Rightarrow> unit res" where
  "enrolled c groups masks g =
     (if is_string (get g ''kind'') ''qemu'' then bindR (matches g ''hookscript'' (PStr HOOK_VOLUME)) need
      else if is_parked c (get g ''vmid'') then Inr ()
      else let vmid = str_of_int (the_int (get g ''vmid''))
           in bindR (bindR (indexR masks ''platform_cts'') (\<lambda>cts. indexR cts vmid)) (\<lambda>given.
              bindR (indexR g ''cpuset'') (\<lambda>v.
              bindR (bindR (andR (Inr (v \<noteq> PNone)) (bindR (cpus v) (\<lambda>s. bindR (cpus given) (\<lambda>t. Inr (s = t))))) need) (\<lambda>_.
              if is_string (get g ''status'') ''running'' then running_ct_ok groups (''lxc/'' @ vmid) given else Inr ()))))"

definition running_vmids :: "pyval list \<Rightarrow> int list" where
  "running_vmids guests =
     sort (map (\<lambda>g. the_int (get g ''vmid'')) (filter (\<lambda>g. is_string (get g ''kind'') ''qemu'' \<and> is_string (get g ''status'') ''running'') guests))"

definition native_thread :: "int list \<Rightarrow> pyval \<Rightarrow> pyval \<Rightarrow> unit res" where
  "native_thread running student t =
     bindR (mapR (indexR t) [''tid'', ''start_ticks'', ''vmid'', ''kind'', ''cgroup'', ''allowed_cpus'']) (\<lambda>_.
     bindR (need (is_int (get t ''tid'') \<and> 0 < the_int (get t ''tid'') \<and> the_int (get t ''tid'') \<le> 2147483647
                  \<and> is_int (get t ''start_ticks'') \<and> 0 < the_int (get t ''start_ticks'')
                  \<and> is_int (get t ''vmid'') \<and> the_int (get t ''vmid'') \<in> set running
                  \<and> in_tuple (get t ''kind'') [''qemu'', ''vhost'']
                  \<and> is_string (get t ''cgroup'') (''/qemu.slice/'' @ str_of_int (the_int (get t ''vmid'')) @ ''.scope''))) (\<lambda>_.
     bindR (cpus_within (get t ''allowed_cpus'') student) need))"

definition census_ok :: "pyval list \<Rightarrow> pyval \<Rightarrow> pyval \<Rightarrow> unit res" where
  "census_ok guests student inventory =
     (let running = running_vmids guests; numbers = PList (map PInt running)
      in bindR (bindR (andR (matches inventory ''scope_vmids'' numbers)
                      (andR (matches inventory ''qemu_process_vmids'' numbers)
                            (Inr (get inventory ''vhost_scan_complete'' = PBool True \<and> get inventory ''thread_scan_complete'' = PBool True)))) need) (\<lambda>_.
         bindR (listR inventory ''threads'') (\<lambda>threads.
         bindR (mapR (native_thread running student) threads) (\<lambda>_.
         bindR (need (distinct (map (\<lambda>t. get t ''tid'') threads))) (\<lambda>_.
         need (set (map (\<lambda>t. the_int (get t ''vmid'')) (filter (\<lambda>t. is_string (get t ''kind'') ''qemu'') threads)) = set running))))))"

text \<open>\<open>hook_bytes\<close>, line by line.\<close>

definition text_lines :: "string list \<Rightarrow> string" where
  "text_lines ls = concat (map (\<lambda>l. l @ [CHR 0x0A]) ls)"

definition in_quotes :: "string \<Rightarrow> string" where
  "in_quotes s = CHR 0x27 # s @ [CHR 0x27]"

definition hook_text :: "string \<Rightarrow> string" where
  "hook_text program =
     text_lines
       [''#!/usr/bin/python3'',
        ''import hashlib, os, stat, sys'',
        ''P='' @ in_quotes ''/usr/local/libexec/pickle-cpu-isolation.py'',
        ''fd=os.open(P,os.O_RDONLY|os.O_NOFOLLOW)'',
        ''s=os.fstat(fd)'',
        ''if not stat.S_ISREG(s.st_mode) or s.st_uid!=0 or s.st_nlink!=1 or s.st_mode&0o022:'',
        ''    raise SystemExit(1)'',
        ''raw=os.read(fd,1048577); os.close(fd)'',
        ''if len(raw)>1048576 or hashlib.sha256(raw).hexdigest()!='' @ in_quotes program @ '':'',
        ''    raise SystemExit(1)'',
        ''if len(sys.argv)!=3 or not sys.argv[1].isdigit():'',
        ''    raise SystemExit(1)'',
        ''if sys.argv[2]=='' @ in_quotes ''pre-start'' @ '':'',
        ''    sys.argv=[P,'' @ in_quotes ''qemu-pre-start'' @ '','' @ in_quotes ''--vmid'' @ '',sys.argv[1]]'',
        ''    exec(compile(raw,P,'' @ in_quotes ''exec'' @ ''),{'' @ in_quotes ''__name__'' @ '':'' @ in_quotes ''__main__'' @ '',''
          @ in_quotes ''__file__'' @ '':P})'',
        ''elif sys.argv[2] not in ('' @ in_quotes ''post-start'' @ '','' @ in_quotes ''pre-stop'' @ '','' @ in_quotes ''post-stop'' @ ''):'',
        ''    raise SystemExit(1)'']"

definition verdict :: "digests \<Rightarrow> pyval \<Rightarrow> pyval \<Rightarrow> pyval \<Rightarrow> string \<Rightarrow> pyval \<Rightarrow> pyval" where
  "verdict d c report masks program authority =
     PDict [(''producer'', PStr ''pve-cpu-isolation-native-v1''), (''node'', get c ''node''), (''boot_id'', get report ''boot_id''),
            (''observed_at_utc'', get report ''observed_at_utc''), (''policy_sha256'', PStr (dg_sha d (canonical d c))),
            (''topology_sha256'', get masks ''topology_sha256''), (''partition'', PStr ''root''), (''userland_masks_equal'', PBool True),
            (''known_qemu_and_templates_enrolled'', PBool True), (''program_sha256'', PStr program),
            (''observation_sha256'', PStr (dg_sha d (canonical d report))),
            (''inventory_sha256'', PStr (dg_sha d (canonical d (get report ''inventory'')))),
            (''authority_sha256'', authority), (''global_hook_for_arbitrary_unenrolled_qemu'', PBool False),
            (''irq_and_kernel_workers_verified'', PBool False), (''performance_or_full_protection_claim'', PBool False),
            (''masks'', masks), (''host_or_guest_changed'', PBool False)]"

definition verify :: "digests \<Rightarrow> pyval \<Rightarrow> pyval \<Rightarrow> int option \<Rightarrow> pyval \<Rightarrow> pyval res" where
  "verify d c report clock authority =
     bindR (pin authority) (\<lambda>_.
     bindR (validate_observation d c report clock) (\<lambda>masks.
     bindR (indexR report ''cgroups'') (\<lambda>groups.
     bindR (indexR report ''installed_files'') (\<lambda>installed.
     bindR (bindR (indexR installed ''program_sha256'') pin) (\<lambda>program.
     bindR (need (py_eq (get installed ''hook_sha256'') (PStr (dg_sha d (hook_text program))))) (\<lambda>_.
     bindR (mapR (control_ok groups masks) CONTROL_NAMES) (\<lambda>_.
     bindR (mapR (parent_ok groups masks) [(''lxc'', ''platform''), (''qemu.slice'', ''student'')]) (\<lambda>_.
     bindR (partition_ok groups masks) (\<lambda>_.
     bindR (listR report ''guests'') (\<lambda>guests.
     bindR (mapR (enrolled c groups masks) guests) (\<lambda>_.
     bindR (bindR (threads_within (get groups ''qemu.slice'') (get masks ''student'')) need) (\<lambda>_.
     bindR (bindR (indexR report ''inventory'') (census_ok guests (get masks ''student''))) (\<lambda>_.
     bindR (indexR report ''boot_id'') (\<lambda>_.
     bindR (indexR report ''observed_at_utc'') (\<lambda>_.
     Inr (verdict d c report masks program authority))))))))))))))))"

section \<open>Files of the installation\<close>

definition POLICY_PATH :: string where "POLICY_PATH = ''/etc/pickle/cpu-isolation/policy.json''"
definition PROGRAM_PATH :: string where "PROGRAM_PATH = ''/usr/local/libexec/pickle-cpu-isolation.py''"
definition HOOK_PATH :: string where "HOOK_PATH = ''/var/lib/vz/snippets/pickle-cpu-isolation-hook.py''"

definition NEEDS_ISOLATION :: "string list" where
  "NEEDS_ISOLATION = [''[Unit]'', ''Requires=pickle-cpu-isolation.service'', ''After=pickle-cpu-isolation.service'']"

definition slice_file :: "pyval \<Rightarrow> string \<Rightarrow> string \<times> string" where
  "slice_file masks name =
     (dropin_path name,
      text_lines ((if name = ''qemu.slice'' then NEEDS_ISOLATION else [])
        @ [if name = ''init.scope'' then ''[Scope]'' else ''[Slice]'',
           ''AllowedCPUs='' @ the_str (get masks (if name = ''qemu.slice'' then ''student'' else ''host''))]))"

definition render_files :: "digests \<Rightarrow> pyval \<Rightarrow> pyval \<Rightarrow> string \<Rightarrow> (string \<times> string) list" where
  "render_files d c masks program =
     map (slice_file masks) [''system.slice'', ''user.slice'', ''init.scope'', ''qemu.slice'']
     @ [(dropin_path ''pve-container@.service'',
         text_lines (NEEDS_ISOLATION @ [''[Service]'',
           ''ExecStartPre=/usr/bin/python3 /usr/local/libexec/pickle-cpu-isolation.py lxc-pre-start --vmid %i''])),
        (dropin_path ''pve-guests.service'', text_lines NEEDS_ISOLATION),
        (''/etc/systemd/system/pickle-cpu-isolation.service'',
         text_lines [''[Unit]'', ''Description=Pickle whole-SMT CPU parent boundaries'', ''After=pve-cluster.service'',
           ''Requires=pve-cluster.service'', ''Before=pve-guests.service qemu.slice'', ''[Service]'', ''Type=oneshot'',
           ''ExecStart=/usr/bin/python3 /usr/local/libexec/pickle-cpu-isolation.py boot-apply'', ''RemainAfterExit=yes'',
           ''[Install]'', ''WantedBy=multi-user.target'']),
        (POLICY_PATH, canonical d c), (PROGRAM_PATH, program), (HOOK_PATH, hook_text (dg_sha d program))]"

definition file_mode :: "string \<Rightarrow> string" where
  "file_mode path = (if path = HOOK_PATH then ''0755'' else if path = POLICY_PATH then ''0600'' else ''0644'')"

definition render :: "digests \<Rightarrow> pyval \<Rightarrow> pyval \<Rightarrow> string \<Rightarrow> (pyval \<times> (string \<times> string) list) res" where
  "render d c topology program =
     bindR (derive d c topology) (\<lambda>masks.
     bindR (pin (PStr (dg_sha d program))) (\<lambda>_.
     let files = render_files d c masks program
     in Inr (PDict [(''schema_version'', PInt 1), (''policy_sha256'', PStr (dg_sha d (canonical d c))), (''masks'', masks),
                    (''files'', PDict (map (\<lambda>(path, raw). (path,
                        PDict [(''sha256'', PStr (dg_sha d raw)), (''bytes'', PInt (int (length raw))), (''mode'', PStr (file_mode path))])) files)),
                    (''install_executed'', PBool False), (''native_verify_executed'', PBool False),
                    (''clone_inheritance_review_ref'', get c ''clone_inheritance_review_ref'')], files)))"

section \<open>Approval\<close>

definition APPROVAL_FIELDS :: "string list" where
  "APPROVAL_FIELDS =
     [''schema_version'', ''node'', ''policy_sha256'', ''program_sha256'', ''user_approval_ref'', ''user_approval_sha256'',
      ''window_start_utc'', ''window_end_utc'', ''persistent_boot_reapply'', ''nonce'', ''authority_sha256'']"

definition iso_time :: "pyval \<Rightarrow> int option res" where
  "iso_time v = bindR (check (is_str v) TypeError) (\<lambda>_. case from_iso (the_str v) of None \<Rightarrow> Inl ValueError | Some t \<Rightarrow> Inr t)"

definition window_of :: "pyval \<Rightarrow> (int \<times> int) res" where
  "window_of r =
     bindR (iso_time (get r ''window_start_utc'')) (\<lambda>start.
     bindR (iso_time (get r ''window_end_utc'')) (\<lambda>stop.
     case (start, stop) of
       (Some a, Some b) \<Rightarrow> bindR (need (0 < b - a \<and> b - a \<le> 7200 * 1000000)) (\<lambda>_. Inr (a, b))
     | _ \<Rightarrow> Inl Unmet))"

text \<open>\<open>approval\<close> of the record that was read; without a clock it is the call with \<open>boot=True\<close>.\<close>

definition approval :: "digests \<Rightarrow> pyval \<Rightarrow> pyval \<Rightarrow> string \<Rightarrow> int option \<Rightarrow> unit res" where
  "approval d r c program clock =
     bindR (need (has_keys r APPROVAL_FIELDS)) (\<lambda>_.
     bindR (need (get r ''schema_version'' = PInt 1 \<and> py_eq (get r ''node'') (get c ''node'')
                  \<and> py_eq (get r ''policy_sha256'') (PStr (dg_sha d (canonical d c)))
                  \<and> py_eq (get r ''program_sha256'') (PStr (dg_sha d program)))) (\<lambda>_.
     bindR (pin (get r ''user_approval_sha256'')) (\<lambda>_.
     bindR (pin (get r ''authority_sha256'')) (\<lambda>_.
     bindR (let ref = get r ''user_approval_ref''
            in need (is_str ref \<and> 1 \<le> char_count (the_str ref) \<and> char_count (the_str ref) \<le> 512)) (\<lambda>_.
     bindR (need (is_str (get r ''nonce'') \<and> class_match is_hex 32 32 (the_str (get r ''nonce'')))) (\<lambda>_.
     bindR (window_of r) (\<lambda>(start, stop).
     bindR (need (get r ''persistent_boot_reapply'' = PBool True)) (\<lambda>_.
     case clock of None \<Rightarrow> Inr () | Some now \<Rightarrow> need (start \<le> now \<and> now < stop)))))))))"

definition receipt_ok :: "digests \<Rightarrow> pyval \<Rightarrow> pyval \<Rightarrow> pyval \<Rightarrow> string \<Rightarrow> pyval \<Rightarrow> unit res" where
  "receipt_ok d c expected r program receipt =
     bindR (need (is_dict receipt)) (\<lambda>_.
     bindR (need (list_all (\<lambda>(k, v). get receipt k = v)
              [(''producer'', PStr ''pve-cpu-isolation-native-v1''), (''node'', get c ''node''), (''policy_sha256'', get expected ''policy_sha256''),
               (''program_sha256'', PStr (dg_sha d program)), (''authority_sha256'', get r ''authority_sha256''),
               (''topology_sha256'', get (get expected ''masks'') ''topology_sha256''), (''partition'', PStr ''root''),
               (''userland_masks_equal'', PBool True), (''known_qemu_and_templates_enrolled'', PBool True),
               (''host_or_guest_changed'', PBool False)])) (\<lambda>_.
     bindR (bindR (indexR receipt ''observed_at_utc'') aware) (\<lambda>seen.
     bindR (bindR (indexR r ''window_start_utc'') aware) (\<lambda>start.
     bindR (bindR (indexR r ''window_end_utc'') aware) (\<lambda>stop.
     need (start \<le> seen \<and> seen < stop))))))"

text \<open>\<open>completed_phase\<close>: whether the initial activation is still to come. A receipt that is absent is
  \<open>None\<close>.\<close>

definition completed_phase ::
  "digests \<Rightarrow> pyval \<Rightarrow> pyval \<Rightarrow> pyval \<Rightarrow> string \<Rightarrow> int \<Rightarrow> pyval option \<Rightarrow> pyval option \<Rightarrow> bool \<Rightarrow> bool res" where
  "completed_phase d c expected r program now installation activation allow_initial =
     bindR (mapR (receipt_ok d c expected r program) ((case installation of None \<Rightarrow> [] | Some v \<Rightarrow> [v]) @ (case activation of None \<Rightarrow> [] | Some v \<Rightarrow> [v]))) (\<lambda>_.
     bindR (need (installation \<noteq> None)) (\<lambda>_.
     if activation \<noteq> None then Inr False
     else bindR (need allow_initial) (\<lambda>_.
          bindR (approval d r c program (Some now)) (\<lambda>_. Inr True))))"

end
