(* ===== verification/CpuApply.thy ===== *)
theory CpuApply
  imports CpuVerify Effects
begin

text \<open>
  What \<open>scripts/lib/cpu_isolation.py\<close> does to a hypervisor: \<open>apply_parents\<close>, \<open>installed_custody\<close>,
  \<open>native_start\<close> and the mode \<open>boot-apply\<close> of \<open>main\<close>. Files, cgroups, commands and clocks are parameters,
  and each effect may fail. \<open>APPLY_REVIEWED\<close>, which the source sets to false, is a parameter as well:
  with it the program refuses before any effect. The checks of \<open>trusted_directory\<close>, the \<open>chmod\<close> after the
  directory of an attempt is made, and the printed verdict of the unit at boot are left out.
\<close>

section \<open>Effects\<close>

datatype cpu_effect =
    MakeGroup string
  | Control string string string
  | MakeAttempt string
  | Store string string

text \<open>\<open>ch_control g f\<close>: the control file exists; \<open>ch_clock l\<close>: the time after the effects \<open>l\<close>.\<close>

record cpu_host =
  ch_reviewed :: bool
  ch_digests :: digests
  ch_topology :: "pyval res"
  ch_direct :: "int res"
  ch_exists :: "string \<Rightarrow> bool"
  ch_control :: "string \<Rightarrow> string \<Rightarrow> bool"
  ch_fault :: "cpu_effect \<Rightarrow> exn option"
  ch_clock :: "cpu_effect list \<Rightarrow> int"

type_synonym 'a cio = "(cpu_effect list, 'a) io"

definition effect :: "cpu_host \<Rightarrow> cpu_effect \<Rightarrow> unit cio" where
  "effect e x l = (case ch_fault e x of Some y \<Rightarrow> (l, Inl y) | None \<Rightarrow> (l @ [x], Inr ()))"

definition write_cgroup :: "cpu_host \<Rightarrow> string \<times> string \<times> string \<Rightarrow> unit cio" where
  "write_cgroup e = (\<lambda>(g, f, v). bindIO (liftR (need (ch_control e g f))) (\<lambda>_. effect e (Control g f v)))"

text \<open>A step that is authorised first; the authorisation reads the clock.\<close>

definition authorised :: "unit cio \<Rightarrow> ('a \<Rightarrow> unit cio) \<Rightarrow> 'a \<Rightarrow> unit cio" where
  "authorised auth step x = bindIO auth (\<lambda>_. step x)"

section \<open>Parents\<close>

definition host_writes :: "pyval \<Rightarrow> (string \<times> string \<times> string) list" where
  "host_writes masks = map (\<lambda>g. (g, ''cpuset.cpus'', the_str (get masks ''host''))) CONTROL_NAMES"

definition parent_writes :: "pyval \<Rightarrow> (string \<times> string \<times> string) list" where
  "parent_writes masks =
     (let student = the_str (get masks ''student''); platform = the_str (get masks ''platform'')
      in [(''qemu.slice'', ''cpuset.cpus'', student), (''qemu.slice'', ''cgroup.subtree_control'', ''+cpuset''),
          (''lxc'', ''cpuset.cpus'', platform), (''lxc'', ''cpuset.cpus.exclusive'', platform),
          (''lxc'', ''cgroup.subtree_control'', ''+cpuset''), (''lxc'', ''cpuset.cpus.partition'', ''root'')])"

definition ct_writes :: "cpu_host \<Rightarrow> string \<times> pyval \<Rightarrow> (string \<times> string \<times> string) list" where
  "ct_writes e = (\<lambda>(vmid, given).
     let base = ''lxc/'' @ vmid
     in if ch_exists e base
        then [(base, ''cpuset.cpus'', the_str given), (base, ''cgroup.subtree_control'', ''+cpuset''), (base @ ''/ns'', ''cpuset.cpus'', the_str given)]
        else [])"

definition apply_parents :: "cpu_host \<Rightarrow> pyval \<Rightarrow> unit cio \<Rightarrow> unit cio" where
  "apply_parents e c auth =
     bindIO (liftR (need (ch_reviewed e))) (\<lambda>_.
     bindIO (liftR (bindR (ch_topology e) (derive (ch_digests e) c))) (\<lambda>masks.
     bindIO (mapIO (authorised auth (\<lambda>g. effect e (MakeGroup g))) (CONTROL_NAMES @ [''lxc'', ''qemu.slice''])) (\<lambda>_.
     bindIO (liftR (bindR (ch_direct e) (\<lambda>n. need (n = 0)))) (\<lambda>_.
     bindIO (mapIO (authorised auth (write_cgroup e)) (host_writes masks)) (\<lambda>_.
     bindIO (mapIO (authorised auth (write_cgroup e)) (parent_writes masks)) (\<lambda>_.
     bindIO (mapIO (authorised auth (write_cgroup e)) (concat (map (ct_writes e) (items (get masks ''platform_cts''))))) (\<lambda>_.
     liftR (Inr ()))))))))"

section \<open>Custody of the installation\<close>

text \<open>What is read from the protected files; an installed file comes with its mode.\<close>

record custody =
  cu_program :: "string res"
  cu_manifest :: "pyval res"
  cu_file :: "string \<Rightarrow> (string \<times> string) res"
  cu_approval :: "pyval res"
  cu_authority :: "string res"
  cu_complete :: bool
  cu_incomplete :: bool
  cu_installation :: "pyval res"
  cu_activation :: "pyval res option"

definition installed_custody :: "cpu_host \<Rightarrow> custody \<Rightarrow> pyval \<Rightarrow> int \<Rightarrow> bool \<Rightarrow> bool res" where
  "installed_custody e u c now allow_initial =
     (let d = ch_digests e
      in bindR (cu_program u) (\<lambda>program.
         bindR (bindR (ch_topology e) (\<lambda>topology. render d c topology program)) (\<lambda>(expected, files).
         bindR (bindR (cu_manifest u) (\<lambda>actual. need (py_eq actual expected))) (\<lambda>_.
         bindR (mapR (\<lambda>(path, raw). bindR (cu_file u path) (\<lambda>found. need (found = (raw, file_mode path)))) files) (\<lambda>_.
         bindR (cu_approval u) (\<lambda>r.
         bindR (approval d r c program None) (\<lambda>_.
         bindR (bindR (cu_authority u) (\<lambda>raw. need (py_eq (PStr (dg_sha d raw)) (get r ''authority_sha256'')))) (\<lambda>_.
         bindR (need (cu_complete u \<and> \<not> cu_incomplete u)) (\<lambda>_.
         bindR (cu_installation u) (\<lambda>installation.
         bindR (case cu_activation u of None \<Rightarrow> Inr None | Some m \<Rightarrow> bindR m (\<lambda>v. Inr (if v = PNone then None else Some v))) (\<lambda>activation.
         completed_phase d c expected r program now (if installation = PNone then None else Some installation) activation allow_initial)))))))))))"

section \<open>The gate before a guest starts\<close>

text \<open>\<open>native_start\<close>: the answer of \<open>systemctl is-active\<close> and the observation are given.\<close>

definition native_start :: "cpu_host \<Rightarrow> custody \<Rightarrow> pyval \<Rightarrow> int \<Rightarrow> string res \<Rightarrow> pyval res \<Rightarrow> bool \<Rightarrow> pyval \<Rightarrow> unit res" where
  "native_start e u c now active observed lxc vmid =
     bindR (whole vmid 100) (\<lambda>_.
     bindR (installed_custody e u c now False) (\<lambda>_.
     bindR (bindR active (\<lambda>s. need (strip s = ''active''))) (\<lambda>_.
     bindR observed (\<lambda>report.
     bindR (bindR (cu_authority u) (\<lambda>raw. verify (ch_digests e) c report (Some now) (PStr (dg_sha (ch_digests e) raw)))) (\<lambda>_.
     if lxc then need (list_ex (\<lambda>ct. get ct ''vmid'' = vmid) (the_list (get c ''platform_cts'')))
     else need (list_ex (\<lambda>g. is_string (get g ''kind'') ''qemu'' \<and> get g ''vmid'' = vmid \<and> get g ''template'' = PBool False
                          \<and> is_string (get g ''hookscript'') HOOK_VOLUME) (the_list (get report ''guests''))))))))"

section \<open>The unit at boot\<close>

definition attempt_path :: "pyval \<Rightarrow> string" where
  "attempt_path report = ''/var/lib/pickle-cpu-isolation-boot-'' @ the_str (get report ''boot_id'')"

definition INCOMPLETE :: pyval where
  "INCOMPLETE =
     PDict [(''partial_effects_possible'', PBool True), (''automatic_replay_permitted'', PBool False), (''native_verify_complete'', PBool False)]"

text \<open>The two observations are given: before the parents are changed, and after it, where it depends on
  what was written. \<open>except BaseException\<close> catches everything.\<close>

definition boot_attempt ::
  "cpu_host \<Rightarrow> pyval \<Rightarrow> pyval \<Rightarrow> string \<Rightarrow> bool \<Rightarrow> string \<Rightarrow> (cpu_effect list \<Rightarrow> pyval res) \<Rightarrow> pyval cio" where
  "boot_attempt e r c program initial attempt observed =
     (let d = ch_digests e;
          authorisation = (\<lambda>l. (l, if initial then approval d r c program (Some (ch_clock e l)) else Inr ()))
      in bindIO (apply_parents e c authorisation) (\<lambda>_.
         bindIO (\<lambda>l. (l, observed l)) (\<lambda>final.
         bindIO (\<lambda>l. (l, verify d c final (Some (ch_clock e l)) (get r ''authority_sha256''))) (\<lambda>result.
         bindIO authorisation (\<lambda>_.
         bindIO (effect e (Store (attempt @ ''/after.json'') (canonical d final))) (\<lambda>_.
         bindIO (effect e (Store (attempt @ ''/complete.json'') (canonical d result))) (\<lambda>_.
         liftR (Inr result))))))))"

definition boot_apply :: "cpu_host \<Rightarrow> custody \<Rightarrow> pyval \<Rightarrow> int \<Rightarrow> pyval res \<Rightarrow> (cpu_effect list \<Rightarrow> pyval res) \<Rightarrow> pyval cio" where
  "boot_apply e u c now before observed =
     (let d = ch_digests e
      in bindIO (liftR (need (ch_reviewed e))) (\<lambda>_.
         bindIO (liftR (cpu_policy_ok c)) (\<lambda>_.
         bindIO (liftR (cu_approval u)) (\<lambda>r.
         bindIO (liftR (cu_program u)) (\<lambda>program.
         bindIO (liftR (approval d r c program None)) (\<lambda>_.
         bindIO (liftR (installed_custody e u c now True)) (\<lambda>initial.
         bindIO (liftR (need (cu_complete u \<and> \<not> cu_incomplete u))) (\<lambda>_.
         bindIO (liftR before) (\<lambda>report.
         bindIO (liftR (validate_observation d c report (Some now))) (\<lambda>_.
         let attempt = attempt_path report
         in bindIO (effect e (MakeAttempt attempt)) (\<lambda>_.
            bindIO (effect e (Store (attempt @ ''/before.json'') (canonical d report))) (\<lambda>_.
            catchIO (\<lambda>_. True) (boot_attempt e r c program initial attempt observed)
              (\<lambda>x. bindIO (effect e (Store (attempt @ ''/incomplete.json'') (canonical d INCOMPLETE))) (\<lambda>_. liftR (Inl x)))))))))))))))"

end
