(* ===== verification/CpuSafety.thy ===== *)
theory CpuSafety
  imports CpuApply
begin

text \<open>
  The properties of the CPU isolation: texts of CPU sets are read back, the masks of \<open>derive\<close> are a
  partition by whole cores, a verified observation keeps the threads of the machines among the CPUs of
  the students.
\<close>

section \<open>Texts of CPU sets\<close>

lemma split_join: "\<forall>w\<in>set ws. c \<notin> set w \<Longrightarrow> ws \<noteq> [] \<Longrightarrow> split_on c (join_with [c] ws) = ws"
proof (induction "[c]" ws rule: join_with.induct)
  case (3 w v ws)
  then show ?case by (simp add: split_on_append)
qed (simp_all add: split_on_plain)

lemma str_of_nat_plain: "\<not> is_digit c \<Longrightarrow> c \<notin> set (str_of_nat n)"
  using str_of_nat_digits [of n] by (auto simp: list_all_iff)

lemma cpu_part_number: "cpu_part (str_of_nat n) = Some (n, n)"
proof -
  have "CHR ''-'' \<notin> set (str_of_nat n)" by (rule str_of_nat_plain) (simp add: is_digit_def)
  moreover have "str_of_nat n \<noteq> []" using str_of_nat_head [of n] by (cases "n = 0") (simp_all add: str_of_nat_small)
  ultimately show ?thesis
    by (simp add: cpu_part_def split_on_plain digits_value_def str_of_nat_digits decimal_str_of_nat)
qed

lemma cpus_bounded: "cpus v = Inr s \<Longrightarrow> s \<subseteq> {..4095}"
  by (auto simp: cpus_def list_all_iff Let_def)

lemma cpu_text_exact:
  assumes "s \<subseteq> {..4095}" "s \<noteq> {}"
  shows "\<exists>t. cpu_text s = Inr t \<and> cpus (PStr t) = Inr s"
proof -
  let ?ns = "sorted_list_of_set s" and ?t = "join_with '','' (map str_of_nat (sorted_list_of_set s))"
  have fin: "finite s" using assms finite_subset by blast
  have ne: "?ns \<noteq> []" using assms(2) fin by simp
  have "CHR '','' \<notin> set (str_of_nat n)" for n by (rule str_of_nat_plain) (simp add: is_digit_def)
  then have parts: "cpu_parts ?t = map (\<lambda>n. Some (n, n)) ?ns"
    using ne by (simp add: cpu_parts_def split_join cpu_part_number)
  have single: "concat (map (\<lambda>(a, b). [a..<Suc b]) (map (\<lambda>n. (n, n)) ns)) = ns" for ns by (induction ns) simp_all
  have "cpus (PStr ?t) = Inr s"
    using assms fin single [of ?ns] by (auto simp: cpus_def parts comp_def list_all_iff le_less_Suc_eq simp del: upt_Suc)
  then show ?thesis using assms(2) by (simp add: cpu_text_def)
qed

lemma cpu_text_read: "cpu_text s = Inr t \<Longrightarrow> s \<subseteq> {..4095} \<Longrightarrow> cpus (PStr t) = Inr s"
  using cpu_text_exact [of s] by (cases "s = {}") (auto simp: cpu_text_def)

text \<open>The text of a CPU set is read back. For every set of CPU numbers up to 4095, \<open>cpu_text\<close> returns
  a text that \<open>cpus\<close> reads as the same set, or the set is empty and both refuse: \<open>cpu_text\<close> the set,
  \<open>cpus\<close> the empty text. What \<open>cpus\<close> reads is always such a set.\<close>

theorem cpu_text_round_trip:
  assumes "s \<subseteq> {..4095}"
  shows "(if s = {} then cpu_text s = Inl Unmet \<and> cpus (PStr []) = Inl Unmet
    else \<exists>t. cpu_text s = Inr t \<and> cpus (PStr t) = Inr s) \<and> (\<forall>r. cpus v = Inr r \<longrightarrow> r \<subseteq> {..4095})"
  using cpu_text_exact [OF assms] cpus_bounded
  by (auto simp: cpu_text_def cpus_def cpu_parts_def cpu_part_def digits_value_def)

theorem cpu_text_round_trip_witness: "\<exists>t. cpu_text {0, 1, 5} = Inr t \<and> cpus (PStr t) = Inr {0, 1, 5}"
  using cpu_text_round_trip [of "{0, 1, 5}"] by simp

section \<open>The masks\<close>

text \<open>What a successful \<open>derive\<close> has established.\<close>

lemma derive_Inr:
  assumes "derive d c topology = Inr m"
  obtains rows H P S where
    "mapR (topology_row (nat (the_int (get c ''physical_cores'')))) (the_list topology) = Inr rows" "cpu_policy_ok c = Inr ()"
    "H = select_cores rows HOST_CORES" "P = select_cores rows PLATFORM_CORES" "S = set (map fst rows) - H - P"
    "\<forall>v\<in>set (the_list topology). cpus (get v ''siblings'') = Inr (threads_of rows (nat (the_int (get v ''core''))))"
    "card H = 4" "card P = 8" "int (card S) = int (card (set (map fst rows))) - 12" "H \<inter> P = {}"
    "cpu_text H = Inr (the_str (get m ''host''))" "cpu_text P = Inr (the_str (get m ''platform''))"
    "cpu_text S = Inr (the_str (get m ''student''))"
    "is_str (get m ''host'')" "is_str (get m ''platform'')" "is_str (get m ''student'')"
    "mapR (ct_mask rows) (the_list (get c ''platform_cts'')) = Inr (items (get m ''platform_cts''))"
    "the_int (get m ''allocatable_vcpu'') = int (card S) * 2 - the_int (get c ''committed_vcpu'')"
    "distinct (map fst rows)" "length (the_list topology) = 2 * nat (the_int (get c ''physical_cores''))"
proof -
  from assms obtain rows us host platform student cts where
    r: "cpu_policy_ok c = Inr ()" "mapR (topology_row (nat (the_int (get c ''physical_cores'')))) (the_list topology) = Inr rows"
      "distinct (map fst rows)" "mapR (siblings_ok rows) (the_list topology) = Inr us"
      "length (the_list topology) = 2 * nat (the_int (get c ''physical_cores''))" and
    s: "card (select_cores rows HOST_CORES) = 4" "card (select_cores rows PLATFORM_CORES) = 8"
      "int (card (set (map fst rows) - select_cores rows HOST_CORES - select_cores rows PLATFORM_CORES)) = int (card (set (map fst rows))) - 12"
      "select_cores rows HOST_CORES \<inter> select_cores rows PLATFORM_CORES = {}" and
    t: "cpu_text (select_cores rows HOST_CORES) = Inr host" "cpu_text (select_cores rows PLATFORM_CORES) = Inr platform"
      "cpu_text (set (map fst rows) - select_cores rows HOST_CORES - select_cores rows PLATFORM_CORES) = Inr student"
      "mapR (ct_mask rows) (the_list (get c ''platform_cts'')) = Inr cts" and
    m: "get m ''host'' = PStr host" "get m ''platform'' = PStr platform" "get m ''student'' = PStr student" "get m ''platform_cts'' = PDict cts"
      "get m ''allocatable_vcpu'' = PInt (int (card (set (map fst rows) - select_cores rows HOST_CORES - select_cores rows PLATFORM_CORES)) * 2
         - the_int (get c ''committed_vcpu''))"
    unfolding derive_def Let_def bindR_eq_Inr check_eq_Inr by fastforce
  have "\<forall>v\<in>set (the_list topology). cpus (get v ''siblings'') = Inr (threads_of rows (nat (the_int (get v ''core''))))"
    using r(4) by (auto simp: mapR_eq_Inr list_all2_conv_all_nth in_set_conv_nth siblings_ok_def)
  then show thesis using that [OF r(2,1) refl refl refl _ s] t m r(3,5) by simp
qed

lemma topology_rows:
  assumes "mapR (topology_row n) vs = Inr rows"
  shows "map fst rows = map (\<lambda>v. nat (the_int (get v ''cpu''))) vs" "map snd rows = map (\<lambda>v. nat (the_int (get v ''core''))) vs"
proof -
  have "list_all2 (\<lambda>v r. topology_row n v = Inr r) vs rows" using assms by (simp add: mapR_eq_Inr)
  then show "map fst rows = map (\<lambda>v. nat (the_int (get v ''cpu''))) vs" "map snd rows = map (\<lambda>v. nat (the_int (get v ''core''))) vs"
    by (induction rule: list_all2_induct) (auto simp: topology_row_def whole_def simp del: get_or_dict)
qed

lemma threads_of_row: "(cpu, core) \<in> set rows \<Longrightarrow> cpu \<in> threads_of rows core"
  by (force simp: threads_of_def)

lemma threads_of_seen: "threads_of rows core \<subseteq> set (map fst rows)"
  by (auto simp: threads_of_def)

lemma threads_of_disjoint: "distinct (map fst rows) \<Longrightarrow> i \<noteq> j \<Longrightarrow> threads_of rows i \<inter> threads_of rows j = {}"
  by (auto simp: threads_of_def dest: eq_key_imp_eq_value)

lemma select_seen: "select_cores rows cores \<subseteq> set (map fst rows)"
  unfolding select_cores_def using threads_of_seen by (intro UN_least)

lemma select_mono: "set ks \<subseteq> set ls \<Longrightarrow> select_cores rows ks \<subseteq> select_cores rows ls"
  by (auto simp: select_cores_def)

lemma core_whole:
  assumes "distinct (map fst rows)"
  shows "threads_of rows k \<subseteq> select_cores rows ks \<or> threads_of rows k \<inter> select_cores rows ks = {}"
proof (cases "k \<in> set ks")
  case False
  then have "threads_of rows k \<inter> threads_of rows j = {}" if "j \<in> set ks" for j using threads_of_disjoint [OF assms, of k j] that by auto
  then show ?thesis by (auto simp: select_cores_def)
qed (auto simp: select_cores_def)

lemma platform_ct_cores: "platform_ct_ok ct = Inr i \<Longrightarrow> set (core_ids ct) \<subseteq> set PLATFORM_CORES"
  by (auto simp: platform_ct_ok_def core_ids_def list_all_iff Let_def simp del: get_or_dict)

lemma policy_cts:
  assumes "cpu_policy_ok c = Inr ()" "ct \<in> set (the_list (get c ''platform_cts''))"
  shows "set (core_ids ct) \<subseteq> set PLATFORM_CORES"
proof -
  from assms(1) obtain ids where ids: "mapR platform_ct_ok (the_list (get c ''platform_cts'')) = Inr ids"
    unfolding cpu_policy_ok_def bindR_eq_Inr Let_def by (elim exE conjE)
  then obtain i where "platform_ct_ok ct = Inr i" using mapR_member [OF ids assms(2)] by (elim bexE)
  then show ?thesis by (rule platform_ct_cores)
qed

lemma policy_budget:
  assumes "cpu_policy_ok c = Inr ()"
  shows "the_int (get c ''committed_vcpu'') < (the_int (get c ''physical_cores'') * 2 - 12) * 2" "0 \<le> the_int (get c ''physical_cores'')"
  using assms unfolding cpu_policy_ok_def bindR_eq_Inr check_eq_Inr whole_def by auto

text \<open>The sets behind the masks.\<close>

lemma derived_sets:
  assumes "derive d c topology = Inr m"
  obtains H P S where "cpus (get m ''host'') = Inr H" "cpus (get m ''platform'') = Inr P" "cpus (get m ''student'') = Inr S"
    "H \<inter> P = {}" "H \<inter> S = {}" "P \<inter> S = {}" "H \<union> P \<union> S = (\<lambda>v. nat (the_int (get v ''cpu''))) ` set (the_list topology)"
    "card H = 4" "card P = 8" "int (card S) = the_int (get c ''physical_cores'') * 2 - 12"
    "\<forall>v\<in>set (the_list topology). \<exists>s. cpus (get v ''siblings'') = Inr s \<and> nat (the_int (get v ''cpu'')) \<in> s \<and> (s \<subseteq> H \<or> s \<subseteq> P \<or> s \<subseteq> S)"
    "\<forall>(vmid, t)\<in>set (items (get m ''platform_cts'')). \<exists>T. cpus t = Inr T \<and> T \<subseteq> P"
    "the_int (get m ''allocatable_vcpu'') = int (card S) * 2 - the_int (get c ''committed_vcpu'')" "0 < the_int (get m ''allocatable_vcpu'')"
proof -
  from assms obtain rows H P S where f: "mapR (topology_row (nat (the_int (get c ''physical_cores'')))) (the_list topology) = Inr rows"
    "cpu_policy_ok c = Inr ()" "H = select_cores rows HOST_CORES" "P = select_cores rows PLATFORM_CORES" "S = set (map fst rows) - H - P"
    "\<forall>v\<in>set (the_list topology). cpus (get v ''siblings'') = Inr (threads_of rows (nat (the_int (get v ''core''))))"
    "card H = 4" "card P = 8" "int (card S) = int (card (set (map fst rows))) - 12" "H \<inter> P = {}"
    "cpu_text H = Inr (the_str (get m ''host''))" "cpu_text P = Inr (the_str (get m ''platform''))"
    "cpu_text S = Inr (the_str (get m ''student''))"
    "is_str (get m ''host'')" "is_str (get m ''platform'')" "is_str (get m ''student'')"
    "mapR (ct_mask rows) (the_list (get c ''platform_cts'')) = Inr (items (get m ''platform_cts''))"
    "the_int (get m ''allocatable_vcpu'') = int (card S) * 2 - the_int (get c ''committed_vcpu'')"
    "distinct (map fst rows)" "length (the_list topology) = 2 * nat (the_int (get c ''physical_cores''))"
    by (rule derive_Inr)
  have seen: "set (map fst rows) = (\<lambda>v. nat (the_int (get v ''cpu''))) ` set (the_list topology)"
    unfolding topology_rows(1) [OF f(1)] by simp
  have row: "nat (the_int (get v ''cpu'')) \<in> threads_of rows (nat (the_int (get v ''core'')))" if v: "v \<in> set (the_list topology)" for v
  proof -
    have "length rows = length (the_list topology)" using f(1) by (simp add: mapR_eq_Inr list_all2_lengthD)
    moreover obtain i where i: "i < length (the_list topology)" "the_list topology ! i = v" using v by (auto simp: in_set_conv_nth)
    ultimately have "rows ! i = (nat (the_int (get v ''cpu'')), nat (the_int (get v ''core'')))"
      using arg_cong [OF topology_rows(1) [OF f(1)], of "\<lambda>xs. xs ! i"] arg_cong [OF topology_rows(2) [OF f(1)], of "\<lambda>xs. xs ! i"]
      by (simp add: prod_eq_iff)
    then show ?thesis using i \<open>length rows = _\<close> by (metis nth_mem threads_of_row)
  qed
  have bounded: "set (map fst rows) \<subseteq> {..4095}"
    unfolding seen using row f(6) cpus_bounded by blast
  have H: "H \<subseteq> set (map fst rows)" and P: "P \<subseteq> set (map fst rows)" unfolding f(3,4) by (rule select_seen)+
  have subsets: "H \<subseteq> {..4095}" "P \<subseteq> {..4095}" "S \<subseteq> {..4095}" using bounded H P f(5) by auto
  have read: "cpus (get m ''host'') = Inr H" "cpus (get m ''platform'') = Inr P" "cpus (get m ''student'') = Inr S"
    using cpu_text_read [OF f(11)] cpu_text_read [OF f(12)] cpu_text_read [OF f(13)] subsets f(14-16)
    by (auto elim!: is_str.elims)
  have whole: "s \<subseteq> H \<or> s \<subseteq> P \<or> s \<subseteq> S" if "s = threads_of rows k" for s k
    using core_whole [OF f(19), of k HOST_CORES] core_whole [OF f(19), of k PLATFORM_CORES] threads_of_seen [of rows k]
    unfolding that f(3-5) by blast
  have cts: "\<forall>(vmid, t)\<in>set (items (get m ''platform_cts'')). \<exists>T. cpus t = Inr T \<and> T \<subseteq> P"
  proof (intro ballI)
    fix x
    assume "x \<in> set (items (get m ''platform_cts''))"
    then obtain ct where ct: "ct \<in> set (the_list (get c ''platform_cts''))" "ct_mask rows ct = Inr x"
      using mapR_source [OF f(17)] by blast
    then obtain t where t: "cpu_text (select_cores rows (core_ids ct)) = Inr t" "x = (str_of_int (the_int (get ct ''vmid'')), PStr t)"
      by (auto simp: ct_mask_def)
    have sub: "select_cores rows (core_ids ct) \<subseteq> P" unfolding f(4) by (rule select_mono) (rule policy_cts [OF f(2) ct(1)])
    then have "cpus (PStr t) = Inr (select_cores rows (core_ids ct))" using t(1) bounded P by (intro cpu_text_read) auto
    then show "case x of (vmid, t) \<Rightarrow> \<exists>T. cpus t = Inr T \<and> T \<subseteq> P" using sub t(2) by simp
  qed
  have "card (set (map fst rows)) = 2 * nat (the_int (get c ''physical_cores''))"
    using f(19,20) distinct_card [OF f(19)] arg_cong [OF topology_rows(1) [OF f(1)], of length] by simp
  then have size: "int (card S) = the_int (get c ''physical_cores'') * 2 - 12" using f(9) policy_budget(2) [OF f(2)] by simp
  then have "0 < the_int (get m ''allocatable_vcpu'')" using f(18) policy_budget(1) [OF f(2)] by simp
  moreover have "H \<inter> S = {}" "P \<inter> S = {}" "H \<union> P \<union> S = (\<lambda>v. nat (the_int (get v ''cpu''))) ` set (the_list topology)"
    unfolding seen [symmetric] using H P by (auto simp: f(5))
  ultimately show thesis using that read f(7,8,10,18) size cts row f(6) whole by simp
qed

text \<open>C40: The masks divide the threads of the hypervisor by whole cores. When \<open>derive\<close> succeeds, its three
  masks are texts of disjoint sets of four, eight and all other threads that together are the threads of
  the topology; each thread lies with all its siblings in one of them; the mask of each platform
  container lies within that of the platform; and some virtual CPUs are left to allocate.\<close>

theorem derived_masks_partition:
  assumes "derive d c topology = Inr m"
  shows "\<exists>H P S. cpus (get m ''host'') = Inr H \<and> cpus (get m ''platform'') = Inr P \<and> cpus (get m ''student'') = Inr S
    \<and> H \<inter> P = {} \<and> H \<inter> S = {} \<and> P \<inter> S = {} \<and> H \<union> P \<union> S = (\<lambda>v. nat (the_int (get v ''cpu''))) ` set (the_list topology)
    \<and> card H = 4 \<and> card P = 8 \<and> int (card S) = the_int (get c ''physical_cores'') * 2 - 12
    \<and> (\<forall>v\<in>set (the_list topology). \<exists>s. cpus (get v ''siblings'') = Inr s \<and> nat (the_int (get v ''cpu'')) \<in> s \<and> (s \<subseteq> H \<or> s \<subseteq> P \<or> s \<subseteq> S))
    \<and> (\<forall>(vmid, t)\<in>set (items (get m ''platform_cts'')). \<exists>T. cpus t = Inr T \<and> T \<subseteq> P)
    \<and> the_int (get m ''allocatable_vcpu'') = int (card S) * 2 - the_int (get c ''committed_vcpu'') \<and> 0 < the_int (get m ''allocatable_vcpu'')"
  using assms by (rule derived_sets) (intro exI conjI)

section \<open>Verified observations\<close>

lemma validate_observation_derives:
  assumes "validate_observation d c report clock = Inr masks"
  shows "\<exists>topology. indexR report ''topology'' = Inr topology \<and> derive d c topology = Inr masks"
  using assms unfolding validate_observation_def bindR_eq_Inr by blast

lemma cpus_within_True: "cpus_within v w = Inr True \<Longrightarrow> cpus w = Inr t \<Longrightarrow> \<exists>s. cpus v = Inr s \<and> s \<subseteq> t"
  by (auto simp: cpus_within_def)

lemma threads_within_True:
  assumes "threads_within g m = Inr True" "cpus m = Inr t" "v \<in> set (the_list (get g ''thread_cpu_sets''))"
  shows "\<exists>s. cpus v = Inr s \<and> s \<subseteq> t"
proof -
  from assms(1) obtain sets bs where sets: "listR g ''thread_cpu_sets'' = Inr sets" "mapR (\<lambda>v. cpus_within v m) sets = Inr bs" "list_all id bs"
    by (auto simp: threads_within_def)
  have "sets = the_list (get g ''thread_cpu_sets'')" using sets(1) by (auto simp: listR_def indexR_eq_Inr get_or_def)
  with sets(2) assms(3) obtain b where "b \<in> set bs" "cpus_within v m = Inr b" using mapR_member by metis
  then have "cpus_within v m = Inr True" using sets(3) by (auto simp: list_all_iff)
  then show ?thesis using assms(2) by (rule cpus_within_True)
qed

lemma need_bind [simp]: "bindR m need = Inr u \<longleftrightarrow> m = Inr True"
  by (cases m) auto

lemma census_thread:
  assumes "census_ok guests student inventory = Inr u" "t \<in> set (the_list (get inventory ''threads''))" "cpus student = Inr S"
  shows "\<exists>s. cpus (get t ''allowed_cpus'') = Inr s \<and> s \<subseteq> S"
proof -
  from assms(1) obtain threads ws where w: "listR inventory ''threads'' = Inr threads"
    "mapR (native_thread (running_vmids guests) student) threads = Inr ws"
    by (auto simp: census_ok_def Let_def)
  have "threads = the_list (get inventory ''threads'')" using w(1) by (auto simp: listR_def indexR_eq_Inr get_or_def)
  then obtain u where "native_thread (running_vmids guests) student t = Inr u" using mapR_member [OF w(2)] assms(2) by blast
  then have "cpus_within (get t ''allowed_cpus'') student = Inr True" by (auto simp: native_thread_def simp del: get_or_dict)
  then show ?thesis using assms(3) by (rule cpus_within_True)
qed

lemma enrolled_ct_threads:
  assumes "enrolled c groups masks g = Inr u"
    and g: "\<not> is_string (get g ''kind'') ''qemu''" "\<not> is_parked c (get g ''vmid'')" "is_string (get g ''status'') ''running''"
    and t: "t \<in> set (the_list (get (get groups (''lxc/'' @ str_of_int (the_int (get g ''vmid'')))) ''thread_cpu_sets''))"
    and cts: "\<forall>(vmid, t)\<in>set (items (get masks ''platform_cts'')). \<exists>T. cpus t = Inr T \<and> T \<subseteq> P"
  shows "\<exists>s. cpus t = Inr s \<and> s \<subseteq> P"
proof -
  let ?base = "''lxc/'' @ str_of_int (the_int (get g ''vmid''))"
  obtain all_cts given where m: "indexR masks ''platform_cts'' = Inr all_cts" "indexR all_cts (str_of_int (the_int (get g ''vmid''))) = Inr given"
    "threads_within (get groups ?base) given = Inr True"
    using assms(1) g by (auto simp: enrolled_def running_ct_ok_def Let_def simp del: get_or_dict)
  have "(str_of_int (the_int (get g ''vmid'')), given) \<in> set (items (get masks ''platform_cts''))"
    using m(1,2) by (auto simp: indexR_eq_Inr get_or_def dest: map_of_SomeD)
  then obtain T where "cpus given = Inr T" "T \<subseteq> P" using cts by blast
  with threads_within_True [OF m(3) _ t] show ?thesis by blast
qed

text \<open>C39: In a verified observation the machines run on the CPUs of the students. When \<open>verify\<close> accepts, there
  are disjoint sets of CPUs for the host, the platform and the students such that the control groups of
  the host have the first as their mask, the container parent is a root partition with exactly the
  second, every thread of a machine and every thread below the parent of the machines is confined to
  the third, and every thread of a running platform container to the second.\<close>

theorem verified_threads_are_confined:
  assumes "verify d c report clock authority = Inr v"
  shows "\<exists>H P S groups. indexR report ''cgroups'' = Inr groups \<and> H \<inter> P = {} \<and> H \<inter> S = {} \<and> P \<inter> S = {}
    \<and> (\<forall>name\<in>set CONTROL_NAMES. cpus (or_empty (get (get groups name) ''cpuset.cpus'')) = Inr H)
    \<and> py_eq (get (get groups ''lxc'') ''cpuset.cpus.partition'') (PStr ''root'')
    \<and> cpus (or_empty (get (get groups ''lxc'') ''cpuset.cpus.exclusive'')) = Inr P
    \<and> (\<forall>t\<in>set (the_list (get (get report ''inventory'') ''threads'')). \<exists>s. cpus (get t ''allowed_cpus'') = Inr s \<and> s \<subseteq> S)
    \<and> (\<forall>t\<in>set (the_list (get (get groups ''qemu.slice'') ''thread_cpu_sets'')). \<exists>s. cpus t = Inr s \<and> s \<subseteq> S)
    \<and> (\<forall>g\<in>set (the_list (get report ''guests'')). \<not> is_string (get g ''kind'') ''qemu'' \<and> \<not> is_parked c (get g ''vmid'')
          \<and> is_string (get g ''status'') ''running'' \<longrightarrow>
          (\<forall>t\<in>set (the_list (get (get groups (''lxc/'' @ str_of_int (the_int (get g ''vmid'')))) ''thread_cpu_sets'')). \<exists>s. cpus t = Inr s \<and> s \<subseteq> P))"
proof -
  from assms obtain masks groups guests inventory us vs where
    masks: "validate_observation d c report clock = Inr masks" and groups: "indexR report ''cgroups'' = Inr groups"
    and control: "mapR (control_ok groups masks) CONTROL_NAMES = Inr us" and part: "partition_ok groups masks = Inr ()"
    and guests: "listR report ''guests'' = Inr guests" and enrolled: "mapR (enrolled c groups masks) guests = Inr vs"
    and qemu: "threads_within (get groups ''qemu.slice'') (get masks ''student'') = Inr True"
    and inventory: "indexR report ''inventory'' = Inr inventory" "census_ok guests (get masks ''student'') inventory = Inr ()"
    unfolding verify_def bindR_eq_Inr [of "bindR _ _"] bindR_eq_Inr check_eq_Inr by auto
  from validate_observation_derives [OF masks] obtain topology where "derive d c topology = Inr masks" by blast
  then obtain H P S where s: "cpus (get masks ''host'') = Inr H" "cpus (get masks ''platform'') = Inr P" "cpus (get masks ''student'') = Inr S"
    "H \<inter> P = {}" "H \<inter> S = {}" "P \<inter> S = {}" and cts: "\<forall>(vmid, t)\<in>set (items (get masks ''platform_cts'')). \<exists>T. cpus t = Inr T \<and> T \<subseteq> P"
    by (rule derived_sets)
  have host: "cpus (or_empty (get (get groups name) ''cpuset.cpus'')) = Inr H" if "name \<in> set CONTROL_NAMES" for name
    using mapR_member [OF control that] s(1) by (auto simp: control_ok_def mask_is_def indexR_eq_Inr get_or_def)
  have root: "py_eq (get (get groups ''lxc'') ''cpuset.cpus.partition'') (PStr ''root'')"
    "cpus (or_empty (get (get groups ''lxc'') ''cpuset.cpus.exclusive'')) = Inr P"
    using part s(2) by (auto simp: partition_ok_def matches_def mask_is_def indexR_eq_Inr get_or_def)
  have thread: "\<exists>s. cpus (get t ''allowed_cpus'') = Inr s \<and> s \<subseteq> S" if "t \<in> set (the_list (get inventory ''threads''))" for t
    using inventory(2) that s(3) by (rule census_thread)
  have ct: "\<exists>s. cpus t = Inr s \<and> s \<subseteq> P"
    if g: "g \<in> set guests" "\<not> is_string (get g ''kind'') ''qemu''" "\<not> is_parked c (get g ''vmid'')" "is_string (get g ''status'') ''running''"
      and t: "t \<in> set (the_list (get (get groups (''lxc/'' @ str_of_int (the_int (get g ''vmid'')))) ''thread_cpu_sets''))" for g t
  proof -
    obtain u where "enrolled c groups masks g = Inr u" using mapR_member [OF enrolled g(1)] by blast
    then show ?thesis using g(2-4) t cts by (rule enrolled_ct_threads)
  qed
  have eq: "the_list (get report ''guests'') = guests" "get report ''inventory'' = inventory"
    using guests inventory(1) by (auto simp: listR_def indexR_eq_Inr get_or_def)
  show ?thesis
    unfolding eq
    by (rule exI [of _ H], rule exI [of _ P], rule exI [of _ S], rule exI [of _ groups], intro conjI ballI impI)
      (rule groups s(4-6) root | rule host, assumption | rule thread, assumption | rule threads_within_True [OF qemu s(3)], assumption
        | elim conjE, rule ct, assumption+)+
qed

section \<open>A hypervisor\<close>

text \<open>Twelve cores, a running platform container and a running machine.\<close>

definition sample_digests :: digests where
  "sample_digests = \<lparr>dg_sha = \<lambda>_. replicate 64 CHR ''0'', dg_dumps = \<lambda>_. []\<rparr>"

definition sample_policy :: pyval where
  "sample_policy = PDict
     [(''schema_version'', PInt 1), (''node'', PStr ''n1''), (''physical_cores'', PInt 12), (''host_core_ids'', int_list HOST_CORES),
      (''platform_core_ids'', int_list PLATFORM_CORES),
      (''platform_cts'', PList [PDict [(''vmid'', PInt 101), (''cores'', PInt 2), (''core_ids'', PList [PInt 2])]]),
      (''parked_ct_ids'', PList []), (''committed_vcpu'', PInt 4), (''expected_kernel'', PStr ''7.0.14-15-pve''),
      (''expected_pve_release'', PStr ''9.2.11''), (''expected_systemd_major'', PInt 257),
      (''required_code_sha256'', PDict (map (\<lambda>p. (p, PStr (replicate 64 CHR ''a''))) CODE_PATHS)),
      (''clone_inheritance_review_ref'', PStr ''r'')]"

definition sample_row :: "nat \<Rightarrow> pyval" where
  "sample_row k = PDict [(''cpu'', PInt (int k)), (''core'', PInt (int (k mod 12))), (''socket'', PInt 0), (''online'', PBool True),
     (''siblings'', PStr (str_of_nat (k mod 12) @ '','' @ str_of_nat (k mod 12 + 12)))]"

definition sample_topology :: pyval where "sample_topology = PList (map sample_row [0..<24])"

definition sample_rows :: "(nat \<times> nat) list" where "sample_rows = map (\<lambda>k. (k, k mod 12)) [0..<24]"

lemma sample_policy_ok: "cpu_policy_ok sample_policy = Inr ()"
  by code_simp

lemma sample_topology_rows: "mapR (topology_row 12) (the_list sample_topology) = Inr sample_rows"
  by code_simp

lemma sample_cores: "distinct (map fst sample_rows)" "list_all (\<lambda>core. card (threads_of sample_rows core) = 2) [0..<12]"
  by code_simp+

lemma sample_siblings: "mapR (siblings_ok sample_rows) (the_list sample_topology) = Inr (replicate 24 ())"
  by code_simp

lemma sample_sets:
  "select_cores sample_rows HOST_CORES = {0, 1, 12, 13}" "select_cores sample_rows PLATFORM_CORES = {2, 3, 4, 5, 14, 15, 16, 17}"
  "set (map fst sample_rows) = {0..<24}"
  by code_simp+

lemma sample_mask_texts:
  "cpu_text {0, 1, 12, 13} = Inr ''0,1,12,13''" "cpu_text {2, 3, 4, 5, 14, 15, 16, 17} = Inr ''2,3,4,5,14,15,16,17''"
  "cpu_text ({0..<24} - {0, 1, 12, 13} - {2, 3, 4, 5, 14, 15, 16, 17}) = Inr ''6,7,8,9,10,11,18,19,20,21,22,23''"
  by code_simp+

lemma sample_sizes:
  "card {0, 1, 12, 13 :: nat} = 4" "card {2, 3, 4, 5, 14, 15, 16, 17 :: nat} = 8" "card {0..<24 :: nat} = 24"
  "card ({0..<24 :: nat} - {0, 1, 12, 13} - {2, 3, 4, 5, 14, 15, 16, 17}) = 12"
  by code_simp+

lemma sample_ct: "mapR (ct_mask sample_rows) (the_list (get sample_policy ''platform_cts'')) = Inr [(''101'', PStr ''2,14'')]"
  by code_simp

definition sample_masks :: pyval where
  "sample_masks = PDict
     [(''host'', PStr ''0,1,12,13''), (''platform'', PStr ''2,3,4,5,14,15,16,17''), (''student'', PStr ''6,7,8,9,10,11,18,19,20,21,22,23''),
      (''platform_cts'', PDict [(''101'', PStr ''2,14'')]), (''topology_sha256'', PStr (replicate 64 CHR ''0'')),
      (''reserved_cpu_threads'', PInt 12), (''allocation_ratio'', PInt 2), (''committed_vcpu'', PInt 4), (''allocatable_vcpu'', PInt 20)]"

lemma sample_counts:
  "nat (the_int (get sample_policy ''physical_cores'')) = 12" "get sample_policy ''committed_vcpu'' = PInt 4"
  "length (the_list sample_topology) = 24"
  by code_simp+

lemma sample_is_list: "is_list sample_topology"
  by (simp add: sample_topology_def)

lemma sample_derived: "derive sample_digests sample_policy sample_topology = Inr sample_masks"
  unfolding derive_def Let_def sample_policy_ok bindR_simps sample_counts sample_is_list sample_topology_rows sample_siblings sample_sets sample_mask_texts sample_sizes
    sample_ct
  by (auto simp add: sample_cores sample_is_list sample_digests_def sample_masks_def simp del: get_or_dict)

definition sample_group :: "string \<Rightarrow> (string \<times> pyval) list \<Rightarrow> pyval" where
  "sample_group text rest = PDict ([(''cpuset.cpus'', PStr text), (''cpuset.cpus.effective'', PStr text),
     (''cgroup.subtree_control'', PStr ''cpuset'')] @ rest)"

definition sample_time :: string where "sample_time = ''2026-01-01T00:00:00+00:00''"
definition sample_now :: int where "sample_now = 1767225660000000"

definition sample_report :: pyval where
  "sample_report = PDict
     [(''node'', PStr ''n1''), (''kernel'', PStr ''7.0.14-15-pve''), (''pve_release'', PStr ''9.2.11''), (''systemd_major'', PInt 257),
      (''required_code_sha256'', get sample_policy ''required_code_sha256''), (''topology'', sample_topology), (''masks'', sample_masks),
      (''observed_at_utc'', PStr sample_time), (''boot_id'', PStr ''b''),
      (''guests'', PList
        [PDict [(''kind'', PStr ''lxc''), (''vmid'', PInt 101), (''status'', PStr ''running''), (''template'', PBool False), (''cores'', PInt 2),
           (''onboot'', PInt 1), (''cpuset'', PStr ''2,14'')],
         PDict [(''kind'', PStr ''qemu''), (''vmid'', PInt 200), (''status'', PStr ''running''), (''template'', PBool False),
           (''affinity'', PNone), (''hookscript'', PStr HOOK_VOLUME)]]),
      (''installed_files'', PDict [(''program_sha256'', PStr (replicate 64 CHR ''0'')), (''hook_sha256'', PStr (replicate 64 CHR ''0''))]),
      (''cgroups'', PDict (map (\<lambda>n. (n, sample_group ''0-1,12-13'' [])) CONTROL_NAMES
        @ [(''lxc'', sample_group ''2-5,14-17'' [(''cpuset.cpus.partition'', PStr ''root''), (''direct_process_count'', PInt 0),
              (''cpuset.cpus.exclusive'', PStr ''2-5,14-17''), (''cpuset.cpus.exclusive.effective'', PStr ''2-5,14-17'')]),
           (''qemu.slice'', sample_group ''6-11,18-23'' [(''thread_cpu_sets'', PList [PStr ''6-11,18-23''])]),
           (''lxc/101'', sample_group ''2,14'' [(''thread_cpu_sets'', PList [PStr ''2,14''])]), (''lxc/101/ns'', sample_group ''2,14'' [])])),
      (''inventory'', PDict [(''scope_vmids'', PList [PInt 200]), (''qemu_process_vmids'', PList [PInt 200]), (''vhost_scan_complete'', PBool True),
         (''thread_scan_complete'', PBool True),
         (''threads'', PList [PDict [(''vmid'', PInt 200), (''tid'', PInt 7), (''start_ticks'', PInt 9), (''kind'', PStr ''qemu''),
            (''cgroup'', PStr ''/qemu.slice/200.scope''), (''allowed_cpus'', PStr ''6-11,18-23'')]])])]"

lemma sample_runtime: "runtime_ok sample_policy sample_report = Inr ()"
  by code_simp

lemma sample_same:
  "matches sample_report ''required_code_sha256'' (get sample_policy ''required_code_sha256'') = Inr True"
  "matches sample_report ''masks'' sample_masks = Inr True"
  by code_simp+

lemma sample_native: "\<exists>us. mapR (native_guest sample_policy (get sample_masks ''student'')) (the_list (get sample_report ''guests'')) = Inr us"
proof -
  have "mapR (native_guest sample_policy (get sample_masks ''student'')) (the_list (get sample_report ''guests'')) = Inr [(), ()]"
    by code_simp
  then show ?thesis ..
qed

lemma sample_fields:
  "indexR sample_report ''topology'' = Inr sample_topology" "indexR sample_report ''cgroups'' = Inr (get sample_report ''cgroups'')"
  "indexR sample_report ''installed_files'' = Inr (get sample_report ''installed_files'')"
  "indexR sample_report ''inventory'' = Inr (get sample_report ''inventory'')" "indexR sample_report ''boot_id'' = Inr (PStr ''b'')"
  "indexR sample_report ''observed_at_utc'' = Inr (PStr sample_time)" "listR sample_report ''guests'' = Inr (the_list (get sample_report ''guests''))"
  by (simp_all add: sample_report_def listR_def)

lemma sample_guest_list:
  "distinct (map guest_key (the_list (get sample_report ''guests'')))"
  "list_all (\<lambda>ct. list_ex (\<lambda>g. is_string (get g ''kind'') ''lxc'' \<and> py_eq (get g ''vmid'') (get ct ''vmid''))
     (the_list (get sample_report ''guests''))) (the_list (get sample_policy ''platform_cts''))"
  by code_simp+

lemma sample_fresh: "observation_fresh sample_now sample_report = Inr ()"
proof -
  have "aware (PStr sample_time) = Inr 1767225600000000" by code_simp
  then show ?thesis by (simp add: observation_fresh_def sample_fields sample_now_def del: get_or_dict)
qed

lemma sample_validated:
  assumes "clock = None \<or> clock = Some sample_now"
  shows "validate_observation sample_digests sample_policy sample_report clock = Inr sample_masks"
proof -
  have clock: "(case clock of None \<Rightarrow> Inr () | Some now \<Rightarrow> observation_fresh now sample_report) = Inr ()"
    using assms sample_fresh by auto
  obtain us where "mapR (native_guest sample_policy (get sample_masks ''student'')) (the_list (get sample_report ''guests'')) = Inr us"
    using sample_native ..
  then show ?thesis
    by (simp add: validate_observation_def sample_runtime sample_same sample_fields sample_derived sample_guest_list clock del: get_or_dict)
qed

lemma sample_pins: "pin (PStr (replicate 64 CHR ''0'')) = Inr (replicate 64 CHR ''0'')"
  by code_simp

lemma sample_installed: "bindR (indexR (get sample_report ''installed_files'') ''program_sha256'') pin = Inr (replicate 64 CHR ''0'')"
  by code_simp

lemma sample_hook: "py_eq (get (get sample_report ''installed_files'') ''hook_sha256'') (PStr (dg_sha sample_digests text))"
  by (simp add: sample_report_def sample_digests_def)

lemma sample_cpus:
  "cpus (PStr ''0,1,12,13'') = Inr {0, 1, 12, 13}" "cpus (PStr ''0-1,12-13'') = Inr {0, 1, 12, 13}"
  "cpus (PStr ''2,3,4,5,14,15,16,17'') = Inr {2, 3, 4, 5, 14, 15, 16, 17}" "cpus (PStr ''2-5,14-17'') = Inr {2, 3, 4, 5, 14, 15, 16, 17}"
  "cpus (PStr ''6,7,8,9,10,11,18,19,20,21,22,23'') = Inr {6, 7, 8, 9, 10, 11, 18, 19, 20, 21, 22, 23}"
  "cpus (PStr ''6-11,18-23'') = Inr {6, 7, 8, 9, 10, 11, 18, 19, 20, 21, 22, 23}" "cpus (PStr ''2,14'') = Inr {2, 14}"
  by code_simp+

lemmas sample_state = sample_cpus sample_report_def sample_group_def sample_masks_def CONTROL_NAMES_def mask_is_def or_empty_def matches_def
  listR_def

lemma sample_words: "words ''cpuset'' = [''cpuset'']"
  by code_simp

lemma sample_control: "mapR (control_ok (get sample_report ''cgroups'') sample_masks) CONTROL_NAMES = Inr [(), (), (), (), ()]"
  by (simp add: sample_state control_ok_def)

lemma sample_parents:
  "mapR (parent_ok (get sample_report ''cgroups'') sample_masks) [(''lxc'', ''platform''), (''qemu.slice'', ''student'')] = Inr [(), ()]"
  by (simp add: sample_state parent_ok_def sample_words del: words.simps)

lemma sample_partition: "partition_ok (get sample_report ''cgroups'') sample_masks = Inr ()"
  by (simp add: sample_state partition_ok_def)

lemma sample_enrolled:
  "mapR (enrolled sample_policy (get sample_report ''cgroups'') sample_masks) (the_list (get sample_report ''guests'')) = Inr [(), ()]"
  by (simp add: sample_state enrolled_def running_ct_ok_def threads_within_def cpus_within_def is_parked_def sample_policy_def is_string_def
      str_of_int_def str_of_nat.simps digit_chars)

lemma sample_slice: "threads_within (get (get sample_report ''cgroups'') ''qemu.slice'') (get sample_masks ''student'') = Inr True"
  by (simp add: sample_state threads_within_def cpus_within_def)

lemma sample_census: "census_ok (the_list (get sample_report ''guests'')) (get sample_masks ''student'') (get sample_report ''inventory'') = Inr ()"
  by (simp add: sample_state census_ok_def native_thread_def running_vmids_def cpus_within_def is_string_def in_tuple_def
      str_of_int_def str_of_nat.simps digit_chars del: set_filter cong: filter_cong)

lemma sample_verified:
  assumes "clock = None \<or> clock = Some sample_now"
  shows "\<exists>v. verify sample_digests sample_policy sample_report clock (PStr (replicate 64 CHR ''0'')) = Inr v"
  unfolding verify_def sample_pins bindR_simps sample_validated [OF assms] sample_fields sample_installed sample_control sample_parents
    sample_partition sample_enrolled sample_slice sample_census
  by (simp add: sample_hook del: get_or_dict)

theorem derived_masks_partition_witness:
  "\<exists>S. cpus (get sample_masks ''student'') = Inr S \<and> card S = 12 \<and> 0 < the_int (get sample_masks ''allocatable_vcpu'')"
proof -
  have "the_int (get sample_policy ''physical_cores'') = 12" by (simp add: sample_policy_def)
  with derived_masks_partition [OF sample_derived] show ?thesis by auto
qed

theorem verified_threads_are_confined_witness:
  "\<exists>v S. verify sample_digests sample_policy sample_report None (PStr (replicate 64 CHR ''0'')) = Inr v
     \<and> (\<forall>t\<in>set (the_list (get (get sample_report ''inventory'') ''threads'')). \<exists>s. cpus (get t ''allowed_cpus'') = Inr s \<and> s \<subseteq> S)"
proof -
  obtain v where v: "verify sample_digests sample_policy sample_report None (PStr (replicate 64 CHR ''0'')) = Inr v"
    using sample_verified by blast
  from verified_threads_are_confined [OF v] v show ?thesis by (elim exE conjE) (intro exI conjI)
qed

end
