(* ===== verification/CpuPlan.thy ===== *)
theory CpuPlan
  imports CpuSafety
begin

text \<open>
  What \<open>apply_parents\<close> and the unit at boot do to the control groups, against a plan: the list of all
  effects in their order, written out from the masks and not from the lists of writes in the code. A run
  carries out a beginning of the plan, and succeeds exactly when it has carried out all of it.
\<close>

section \<open>Computations with a plan\<close>

definition planned :: "'a cio \<Rightarrow> cpu_effect list \<Rightarrow> bool" where
  "planned m gs = (\<forall>l. does m l (\<lambda>l' r. \<exists>ys. prefix ys gs \<and> l' = l @ ys \<and> ((\<exists>x. r = Inr x) \<longrightarrow> ys = gs)))"

lemma plannedD: "planned m gs \<Longrightarrow> m l0 = (l, r) \<Longrightarrow> \<exists>ys. prefix ys gs \<and> l = l0 @ ys \<and> ((\<exists>x. r = Inr x) \<longrightarrow> ys = gs)"
  unfolding planned_def does_def by (drule spec [of _ l0]) simp

lemma planned_lift: "planned (liftR r) []"
  by (simp add: planned_def does_lift)

lemma planned_quiet: "(\<And>l. fst (m l) = l) \<Longrightarrow> planned m []"
  by (auto simp: planned_def does_def split: prod.splits) (metis fst_conv)

lemma lift_Inr: "bindIO (liftR (Inr x)) f = f x"
  by (rule ext) (simp add: bindIO_def liftR_def)

text \<open>With a plan, and finished exactly when all of it is done.\<close>

definition finishes :: "'a cio \<Rightarrow> cpu_effect list \<Rightarrow> bool" where
  "finishes m gs = (\<forall>l l' r. m l = (l', r) \<longrightarrow> (\<exists>ys. prefix ys gs \<and> l' = l @ ys \<and> ((\<exists>x. r = Inr x) \<longleftrightarrow> ys = gs)))"

lemma finishesD: "finishes m gs \<Longrightarrow> m l0 = (l, r) \<Longrightarrow> \<exists>ys. prefix ys gs \<and> l = l0 @ ys \<and> ((\<exists>x. r = Inr x) \<longleftrightarrow> ys = gs)"
  unfolding finishes_def by blast

lemma finishes_planned: "finishes m gs \<Longrightarrow> planned m gs"
  by (auto simp: planned_def does_def dest!: finishesD split: prod.splits)

lemma finishes_done: "finishes (liftR (Inr x)) []"
  by (simp add: finishes_def liftR_def)

lemma finishes_effect: "finishes (effect e x) [x]"
  by (auto simp: finishes_def effect_def split: option.splits)

text \<open>The last part decides: it has something to do, or the first part is finished as well.\<close>

lemma finishes_bind:
  fixes m :: "'a cio" and f :: "'a \<Rightarrow> 'b cio"
  assumes m: "planned m gs" and f: "\<And>x. finishes (f x) hs" and last: "hs \<noteq> [] \<or> finishes m gs"
  shows "finishes (bindIO m f) (gs @ hs)"
  unfolding finishes_def
proof (intro allI impI)
  fix l l' r
  assume run: "bindIO m f l = (l', r)"
  obtain k s where first: "m l = (k, s)" by (cases "m l")
  show "\<exists>ys. prefix ys (gs @ hs) \<and> l' = l @ ys \<and> ((\<exists>x. r = Inr x) \<longleftrightarrow> ys = gs @ hs)"
  proof (cases s)
    case (Inl x)
    then have r: "l' = k" "r = Inl x" using run first by (simp_all add: bindIO_def)
    obtain ys where ys: "prefix ys gs" "k = l @ ys" using plannedD [OF m first] by blast
    have "ys \<noteq> gs @ hs"
    proof (cases "hs = []")
      case True
      then have "finishes m gs" using last by simp
      from finishesD [OF this first] show ?thesis using ys(2) Inl True by auto
    next
      case False
      then show ?thesis using ys(1) by (auto dest: prefix_length_le)
    qed
    then show ?thesis using ys r by (auto intro: prefix_prefix)
  next
    case (Inr x)
    then have k: "k = l @ gs" using plannedD [OF m first] by auto
    have "f x k = (l', r)" using run first Inr by (simp add: bindIO_def)
    from finishesD [OF f this] show ?thesis unfolding k by auto
  qed
qed

lemma finishes_write: "finishes (write_cgroup e (g, f, v)) [Control g f v]"
  using finishes_bind [OF planned_lift finishes_effect] by (simp add: write_cgroup_def)

lemma finishes_authorised: "(\<And>l. fst (auth l) = l) \<Longrightarrow> finishes (step x) [y] \<Longrightarrow> finishes (authorised auth step x) [y]"
  using finishes_bind [OF planned_quiet, of auth "\<lambda>_. step x" "[y]"] by (simp add: authorised_def)

lemma finishes_map:
  assumes "\<And>x. x \<in> set xs \<Longrightarrow> finishes (f x) [g x]"
  shows "finishes (mapIO f xs) (map g xs)"
  using assms
proof (induction xs)
  case (Cons x xs)
  have rest: "finishes (bindIO (mapIO f xs) (\<lambda>ys. liftR (Inr (y # ys)))) (map g xs)" for y
    using finishes_bind [OF finishes_planned finishes_done, of "mapIO f xs" "map g xs"] Cons by simp
  have "finishes (f x) [g x]" using Cons.prems by simp
  then have "finishes (mapIO f (x # xs)) ([g x] @ map g xs)"
    unfolding mapIO.simps by (intro finishes_bind finishes_planned rest) auto
  then show ?case by simp
qed (simp add: finishes_done)

section \<open>The plan of the parents\<close>

text \<open>The plan is written out group by group and control by control; it shares nothing with the lists of
  writes in \<open>apply_parents\<close> but the masks.\<close>

definition host_groups :: "string list" where
  "host_groups = [''system.slice'', ''user.slice'', ''init.scope'', ''lxc.monitor'', ''lxc.pivot'']"

fun container_plan :: "cpu_host \<Rightarrow> string \<times> pyval \<Rightarrow> cpu_effect list" where
  "container_plan e (vmid, own) =
     (if ch_exists e (''lxc/'' @ vmid)
      then [Control (''lxc/'' @ vmid) ''cpuset.cpus'' (the_str own), Control (''lxc/'' @ vmid) ''cgroup.subtree_control'' ''+cpuset'',
            Control (''lxc/'' @ vmid @ ''/ns'') ''cpuset.cpus'' (the_str own)]
      else [])"

definition parents_plan :: "cpu_host \<Rightarrow> pyval \<Rightarrow> cpu_effect list" where
  "parents_plan e masks =
     (let host = the_str (get masks ''host''); student = the_str (get masks ''student''); platform = the_str (get masks ''platform'')
      in map MakeGroup (host_groups @ [''lxc'', ''qemu.slice''])
         @ map (\<lambda>g. Control g ''cpuset.cpus'' host) host_groups
         @ [Control ''qemu.slice'' ''cpuset.cpus'' student, Control ''qemu.slice'' ''cgroup.subtree_control'' ''+cpuset'',
            Control ''lxc'' ''cpuset.cpus'' platform, Control ''lxc'' ''cpuset.cpus.exclusive'' platform,
            Control ''lxc'' ''cgroup.subtree_control'' ''+cpuset'', Control ''lxc'' ''cpuset.cpus.partition'' ''root'']
         @ concat (map (container_plan e) (items (get masks ''platform_cts''))))"

fun control :: "string \<times> string \<times> string \<Rightarrow> cpu_effect" where
  "control (g, f, v) = Control g f v"

text \<open>The writes of the code are those of the plan.\<close>

lemma host_writes_planned: "map control (host_writes masks) = map (\<lambda>g. Control g ''cpuset.cpus'' (the_str (get masks ''host''))) host_groups"
  by (simp add: host_writes_def host_groups_def CONTROL_NAMES_def)

lemma parents_plan_writes:
  "parents_plan e masks =
     map MakeGroup (CONTROL_NAMES @ [''lxc'', ''qemu.slice''])
     @ map control (host_writes masks) @ map control (parent_writes masks)
     @ map control (concat (map (ct_writes e) (items (get masks ''platform_cts''))))"
proof -
  have cts: "map control (concat (map (ct_writes e) cts)) =
     concat (map (container_plan e) cts)" for cts
    by (induction cts) (auto simp: ct_writes_def Let_def)
  have parents: "map control (parent_writes masks) =
     [Control ''qemu.slice'' ''cpuset.cpus'' (the_str (get masks ''student'')), Control ''qemu.slice'' ''cgroup.subtree_control'' ''+cpuset'',
      Control ''lxc'' ''cpuset.cpus'' (the_str (get masks ''platform'')), Control ''lxc'' ''cpuset.cpus.exclusive'' (the_str (get masks ''platform'')),
      Control ''lxc'' ''cgroup.subtree_control'' ''+cpuset'', Control ''lxc'' ''cpuset.cpus.partition'' ''root'']"
    by (simp add: parent_writes_def Let_def)
  have groups: "host_groups = CONTROL_NAMES" by (simp add: host_groups_def CONTROL_NAMES_def)
  show ?thesis
    unfolding host_writes_planned parents cts parents_plan_def Let_def groups by simp
qed

lemma parents_plan_nonempty: "parents_plan e masks \<noteq> []"
  by (simp add: parents_plan_def Let_def)

lemma finishes_writes: "(\<And>l. fst (auth l) = l) \<Longrightarrow> finishes (mapIO (authorised auth (write_cgroup e)) ws) (map control ws)"
  by (intro finishes_map finishes_authorised) (auto intro: finishes_write)

lemma finishes_groups: "(\<And>l. fst (auth l) = l) \<Longrightarrow> finishes (mapIO (authorised auth (\<lambda>g. effect e (MakeGroup g))) gs) (map MakeGroup gs)"
  by (intro finishes_map finishes_authorised) (auto intro: finishes_effect)

lemma parents_finish:
  assumes auth: "\<And>l. fst (auth l) = l" and topology: "ch_topology e = Inr topology" "derive (ch_digests e) c topology = Inr masks"
  shows "finishes (apply_parents e c auth) (parents_plan e masks)"
proof -
  let ?writes = "\<lambda>ws. mapIO (authorised auth (write_cgroup e)) ws"
  let ?cts = "concat (map (ct_writes e) (items (get masks ''platform_cts'')))"
  let ?last = "bindIO (?writes ?cts) (\<lambda>_. liftR (Inr ()))"
  let ?parents = "bindIO (?writes (parent_writes masks)) (\<lambda>_. ?last)"
  let ?hosts = "bindIO (?writes (host_writes masks)) (\<lambda>_. ?parents)"
  let ?rest = "bindIO (mapIO (authorised auth (\<lambda>g. effect e (MakeGroup g))) (CONTROL_NAMES @ [''lxc'', ''qemu.slice''])) (\<lambda>_.
     bindIO (liftR (bindR (ch_direct e) (\<lambda>n. need (n = 0)))) (\<lambda>_. ?hosts))"
  have last: "finishes ?last (map control ?cts @ [])"
    by (intro finishes_bind finishes_done finishes_planned finishes_writes auth disjI2)
  have parents: "finishes ?parents (map control (parent_writes masks) @ map control ?cts @ [])"
    by (intro finishes_bind last finishes_planned finishes_writes auth disjI2)
  have hosts: "finishes ?hosts (map control (host_writes masks) @ map control (parent_writes masks) @ map control ?cts @ [])"
    by (intro finishes_bind parents finishes_planned finishes_writes auth disjI2)
  have ne: "map control (host_writes masks) @ map control (parent_writes masks) @ map control ?cts @ [] \<noteq> []"
    by (simp add: host_writes_def CONTROL_NAMES_def)
  have "finishes ?rest (map MakeGroup (CONTROL_NAMES @ [''lxc'', ''qemu.slice'']) @ []
      @ map control (host_writes masks) @ map control (parent_writes masks) @ map control ?cts @ [])"
    by (intro finishes_bind hosts planned_lift finishes_planned finishes_groups auth disjI1 [OF ne] disjI2)
  then have rest: "finishes ?rest (parents_plan e masks)" by (simp add: parents_plan_writes)
  have "apply_parents e c auth = bindIO (liftR (need (ch_reviewed e))) (\<lambda>_. ?rest)"
    by (simp add: apply_parents_def topology lift_Inr)
  then show ?thesis using finishes_bind [OF planned_lift rest] parents_plan_nonempty by simp
qed

lemma parents_cases:
  assumes auth: "\<And>l. fst (auth l) = l" and run: "apply_parents e c auth l0 = (l, r)"
  obtains x where "r = Inl x" "l = l0"
  | topology masks ys where "ch_reviewed e" "ch_topology e = Inr topology" "derive (ch_digests e) c topology = Inr masks"
      "prefix ys (parents_plan e masks)" "l = l0 @ ys" "(\<exists>x. r = Inr x) \<longleftrightarrow> ys = parents_plan e masks"
proof (cases "\<exists>topology masks. ch_reviewed e \<and> ch_topology e = Inr topology \<and> derive (ch_digests e) c topology = Inr masks")
  case True
  then obtain topology masks where t: "ch_reviewed e" "ch_topology e = Inr topology" "derive (ch_digests e) c topology = Inr masks" by blast
  have "finishes (apply_parents e c auth) (parents_plan e masks)" using auth t(2,3) by (rule parents_finish)
  from finishesD [OF this run] show thesis using t that(2) by blast
next
  case False
  have "l = l0 \<and> (\<exists>x. r = Inl x)"
  proof (cases "ch_reviewed e")
    case reviewed: True
    show ?thesis
    proof (cases "ch_topology e")
      case (Inr topology)
      with False reviewed obtain x where "derive (ch_digests e) c topology = Inl x" by (cases "derive (ch_digests e) c topology") auto
      with Inr reviewed run show ?thesis by (auto simp: apply_parents_def bindIO_def liftR_def)
    qed (use reviewed run in \<open>auto simp: apply_parents_def bindIO_def liftR_def\<close>)
  qed (use run in \<open>auto simp: apply_parents_def bindIO_def liftR_def\<close>)
  then show thesis using that(1) by blast
qed

section \<open>Properties\<close>

abbreviation partition_root :: cpu_effect where
  "partition_root \<equiv> Control ''lxc'' ''cpuset.cpus.partition'' ''root''"

text \<open>What has to be in place before the container parent becomes a partition.\<close>

definition before_partition :: "pyval \<Rightarrow> cpu_effect set" where
  "before_partition masks =
     (\<lambda>g. Control g ''cpuset.cpus'' (the_str (get masks ''host''))) ` set host_groups
     \<union> {Control ''qemu.slice'' ''cpuset.cpus'' (the_str (get masks ''student'')),
        Control ''lxc'' ''cpuset.cpus'' (the_str (get masks ''platform'')),
        Control ''lxc'' ''cpuset.cpus.exclusive'' (the_str (get masks ''platform''))}"

text \<open>Which mask a group may get.\<close>

definition mask_of_group :: "pyval \<Rightarrow> string \<Rightarrow> string \<Rightarrow> bool" where
  "mask_of_group masks g v =
     (g \<in> set host_groups \<and> v = the_str (get masks ''host'')
      \<or> g = ''qemu.slice'' \<and> v = the_str (get masks ''student'')
      \<or> g = ''lxc'' \<and> v = the_str (get masks ''platform'')
      \<or> list_ex (\<lambda>(vmid, own). (g = ''lxc/'' @ vmid \<or> g = ''lxc/'' @ vmid @ ''/ns'') \<and> v = the_str own) (items (get masks ''platform_cts'')))"

lemma container_planD:
  "x \<in> set (container_plan e (vmid, own)) \<Longrightarrow>
     \<exists>g f v. x = Control g f v \<and> (g = ''lxc/'' @ vmid \<or> g = ''lxc/'' @ vmid @ ''/ns'') \<and> (f = ''cpuset.cpus'' \<and> v = the_str own \<or> f = ''cgroup.subtree_control'')"
  by (auto split: if_split_asm)

lemma container_plan_member:
  "x \<in> set (concat (map (container_plan e) cts)) \<Longrightarrow> \<exists>vmid own. (vmid, own) \<in> set cts \<and> x \<in> set (container_plan e (vmid, own))"
proof (induction cts)
  case (Cons ct cts)
  show ?case
  proof (cases "x \<in> set (container_plan e ct)")
    case True
    then show ?thesis by (intro exI [of _ "fst ct"] exI [of _ "snd ct"]) (simp del: container_plan.simps)
  next
    case False
    then have "x \<in> set (concat (map (container_plan e) cts))" using Cons.prems by simp
    then show ?thesis using Cons.IH by (meson list.set_intros(2))
  qed
qed simp

lemma plan_split:
  "\<exists>earlier later. parents_plan e masks = earlier @ partition_root # later \<and> partition_root \<notin> set earlier \<and> partition_root \<notin> set later
     \<and> before_partition masks \<subseteq> set earlier"
proof -
  let ?earlier = "map MakeGroup (host_groups @ [''lxc'', ''qemu.slice'']) @ map (\<lambda>g. Control g ''cpuset.cpus'' (the_str (get masks ''host''))) host_groups
     @ [Control ''qemu.slice'' ''cpuset.cpus'' (the_str (get masks ''student'')), Control ''qemu.slice'' ''cgroup.subtree_control'' ''+cpuset'',
        Control ''lxc'' ''cpuset.cpus'' (the_str (get masks ''platform'')), Control ''lxc'' ''cpuset.cpus.exclusive'' (the_str (get masks ''platform'')),
        Control ''lxc'' ''cgroup.subtree_control'' ''+cpuset'']"
  let ?later = "concat (map (container_plan e) (items (get masks ''platform_cts'')))"
  have "parents_plan e masks = ?earlier @ partition_root # ?later" by (simp add: parents_plan_def Let_def)
  moreover have "partition_root \<notin> set ?earlier" by auto
  moreover have "partition_root \<notin> set ?later"
  proof
    assume "partition_root \<in> set ?later"
    then obtain vmid own where "partition_root \<in> set (container_plan e (vmid, own))" by (metis container_plan_member)
    from container_planD [OF this] show False by simp
  qed
  moreover have "x \<in> set ?earlier" if "x \<in> before_partition masks" for x
    using that unfolding before_partition_def Un_iff insert_iff empty_iff set_append set_map list.set by (elim disjE; simp only: simp_thms)
  ultimately show ?thesis by blast
qed

lemma plan_masks:
  assumes "Control g ''cpuset.cpus'' v \<in> set (parents_plan e masks)"
  shows "mask_of_group masks g v"
proof -
  let ?cts = "items (get masks ''platform_cts'')"
  from assms consider "Control g ''cpuset.cpus'' v \<in> set (concat (map (container_plan e) ?cts))" | "g \<in> set host_groups \<and> v = the_str (get masks ''host'')"
    | "g = ''qemu.slice'' \<and> v = the_str (get masks ''student'')" | "g = ''lxc'' \<and> v = the_str (get masks ''platform'')"
    unfolding parents_plan_def Let_def set_append Un_iff by auto
  then show ?thesis
  proof cases
    case 1
    then obtain vmid own where ct: "(vmid, own) \<in> set ?cts" "Control g ''cpuset.cpus'' v \<in> set (container_plan e (vmid, own))"
      by (metis container_plan_member)
    from container_planD [OF ct(2)] have "(g = ''lxc/'' @ vmid \<or> g = ''lxc/'' @ vmid @ ''/ns'') \<and> v = the_str own" by simp
    then show ?thesis using ct(1) unfolding mask_of_group_def list_ex_iff by blast
  qed (auto simp: mask_of_group_def)
qed

text \<open>C37: The parents are changed by a plan and in its order. A run of \<open>apply_parents\<close> has no effect and
  fails, or it carries out a beginning of the plan of the masks that \<open>derive\<close> makes from the topology,
  and it succeeds exactly when that is all of the plan. The groups of the host only ever get the mask of
  the host, the parent of the machines that of the students, the container parent that of the platform,
  and a container its own; the container parent is made a partition root only after the groups of the
  host, the parent of the machines and the container parent have their masks (the containers get theirs
  after it); and with the review guard closed the run refuses before any effect.\<close>

theorem parents_follow_plan:
  assumes "apply_parents e c auth [] = (l, r)" "\<And>h. fst (auth h) = h"
  shows "(\<not> ch_reviewed e \<longrightarrow> l = [] \<and> r = Inl Unmet)
    \<and> (l = [] \<and> (\<exists>x. r = Inl x) \<or>
       (\<exists>topology masks. ch_topology e = Inr topology \<and> derive (ch_digests e) c topology = Inr masks
          \<and> prefix l (parents_plan e masks) \<and> (r = Inr () \<longleftrightarrow> l = parents_plan e masks)
          \<and> (\<forall>g v. Control g ''cpuset.cpus'' v \<in> set l \<longrightarrow> mask_of_group masks g v)
          \<and> (\<forall>xs ys. l = xs @ partition_root # ys \<longrightarrow> before_partition masks \<subseteq> set xs)))"
proof (intro conjI impI)
  assume "\<not> ch_reviewed e"
  then show "l = []" "r = Inl Unmet" using assms(1) by (auto simp: apply_parents_def bindIO_def liftR_def)
next
  from assms(2,1) show "l = [] \<and> (\<exists>x. r = Inl x) \<or>
       (\<exists>topology masks. ch_topology e = Inr topology \<and> derive (ch_digests e) c topology = Inr masks
          \<and> prefix l (parents_plan e masks) \<and> (r = Inr () \<longleftrightarrow> l = parents_plan e masks)
          \<and> (\<forall>g v. Control g ''cpuset.cpus'' v \<in> set l \<longrightarrow> mask_of_group masks g v)
          \<and> (\<forall>xs ys. l = xs @ partition_root # ys \<longrightarrow> before_partition masks \<subseteq> set xs))"
  proof (rule parents_cases)
    fix topology masks ys
    assume run: "ch_topology e = Inr topology" "derive (ch_digests e) c topology = Inr masks" "prefix ys (parents_plan e masks)" "l = [] @ ys"
      "(\<exists>x. r = Inr x) \<longleftrightarrow> ys = parents_plan e masks"
    have within: "set l \<subseteq> set (parents_plan e masks)" using set_mono_prefix [OF run(3)] run(4) by simp
    have order: "before_partition masks \<subseteq> set xs" if l: "l = xs @ partition_root # zs" for xs zs
    proof -
      obtain earlier later where plan: "parents_plan e masks = earlier @ partition_root # later" "partition_root \<notin> set earlier"
        "partition_root \<notin> set later" "before_partition masks \<subseteq> set earlier" using plan_split by blast
      obtain us where "parents_plan e masks = l @ us" using run(3,4) by (auto simp: prefix_def)
      then have "earlier @ partition_root # later = xs @ partition_root # (zs @ us)" using plan(1) l by simp
      then have "earlier = xs" using append_Cons_eq_iff [OF plan(2,3)] by blast
      then show ?thesis using plan(4) by simp
    qed
    have "r = Inr () \<longleftrightarrow> l = parents_plan e masks" using run(4,5) by auto
    then show ?thesis using run(1-4) order plan_masks within by (intro disjI2 exI [of _ topology] exI [of _ masks]) auto
  qed blast
qed

section \<open>The unit at boot\<close>

fun stores :: "string \<Rightarrow> cpu_effect \<Rightarrow> bool" where
  "stores p (Store q v) = (p = q)"
| "stores p _ = False"

lemma plan_stores_nothing: "x \<in> set (parents_plan e masks) \<Longrightarrow> \<not> stores p x"
  unfolding parents_plan_writes by auto

abbreviation complete_of :: "string \<Rightarrow> string" where
  "complete_of attempt \<equiv> attempt @ ''/complete.json''"

text \<open>An attempt: when it fails, nothing has been stored as complete.\<close>

lemma boot_attempt_cases:
  assumes "boot_attempt e r c program initial attempt observed l0 = (l, res)"
  shows "\<exists>ys. l = l0 @ ys \<and>
    (case res of
       Inl x \<Rightarrow> \<forall>y\<in>set ys. \<not> stores (complete_of attempt) y
     | Inr result \<Rightarrow> (\<exists>topology masks final.
         ch_topology e = Inr topology \<and> derive (ch_digests e) c topology = Inr masks
         \<and> ys = parents_plan e masks @ [Store (attempt @ ''/after.json'') (canonical (ch_digests e) final),
                                         Store (complete_of attempt) (canonical (ch_digests e) result)]
         \<and> observed (l0 @ parents_plan e masks) = Inr final
         \<and> verify (ch_digests e) c final (Some (ch_clock e (l0 @ parents_plan e masks))) (get r ''authority_sha256'') = Inr result))"
proof -
  let ?auth = "\<lambda>l. (l, if initial then approval (ch_digests e) r c program (Some (ch_clock e l)) else Inr ())"
  obtain l1 r1 where parents: "apply_parents e c ?auth l0 = (l1, r1)" by (cases "apply_parents e c ?auth l0")
  have quiet: "fst (?auth h) = h" for h by simp
  from quiet parents show ?thesis
  proof (rule parents_cases)
    fix x
    assume "r1 = Inl x" "l1 = l0"
    then show ?thesis using assms parents by (auto simp: boot_attempt_def Let_def bindIO_def)
  next
    fix topology masks ys
    assume t: "ch_topology e = Inr topology" "derive (ch_digests e) c topology = Inr masks" "prefix ys (parents_plan e masks)" "l1 = l0 @ ys"
      "(\<exists>x. r1 = Inr x) \<longleftrightarrow> ys = parents_plan e masks"
    have none: "\<forall>y\<in>set ys. \<not> stores (complete_of attempt) y"
      using plan_stores_nothing set_mono_prefix [OF t(3)] by blast
    show ?thesis
    proof (cases r1)
      case (Inl x)
      then show ?thesis using assms parents t(4) none by (auto simp: boot_attempt_def Let_def bindIO_def)
    next
      case (Inr u)
      then have ys: "ys = parents_plan e masks" using t(5) by simp
      show ?thesis
        using assms parents t(1,2) none unfolding Inr t(4) ys
        by (auto simp: boot_attempt_def Let_def bindIO_def liftR_def effect_def split: sum.splits option.splits if_splits)
    qed
  qed
qed

text \<open>C38: The unit at boot reports completion only for a verified host. If a run at boot has stored its
  completion, then the effects before it are the attempt with the first observation, all of the plan,
  and the second observation; this observation was verified after the plan was carried out, the stored
  text is the verdict, and the run ends with this verdict and without a record of an incomplete attempt.\<close>

theorem boot_completion_is_verified:
  assumes "boot_apply e u c now before observed [] = (l, res)" "\<exists>x\<in>set l. stores (complete_of attempt) x"
    "before = Inr report" "attempt = attempt_path report"
  shows "\<exists>topology masks final result authority.
      ch_topology e = Inr topology \<and> derive (ch_digests e) c topology = Inr masks
    \<and> l = [MakeAttempt attempt, Store (attempt @ ''/before.json'') (canonical (ch_digests e) report)] @ parents_plan e masks
          @ [Store (attempt @ ''/after.json'') (canonical (ch_digests e) final), Store (complete_of attempt) (canonical (ch_digests e) result)]
    \<and> observed (take 2 l @ parents_plan e masks) = Inr final
    \<and> verify (ch_digests e) c final (Some (ch_clock e (take 2 l @ parents_plan e masks))) authority = Inr result
    \<and> res = Inr result \<and> (\<forall>x\<in>set l. \<not> stores (attempt @ ''/incomplete.json'') x)"
proof -
  let ?d = "ch_digests e"
  let ?start = "[MakeAttempt attempt, Store (attempt @ ''/before.json'') (canonical ?d report)]"
  have ne: "\<exists>x\<in>set l. stores (complete_of attempt) x" by (rule assms(2))
  from assms(1,3,4) ne obtain r program initial where
    "catchIO (\<lambda>_. True) (boot_attempt e r c program initial attempt observed)
       (\<lambda>x. bindIO (effect e (Store (attempt @ ''/incomplete.json'') (canonical ?d INCOMPLETE))) (\<lambda>_. liftR (Inl x))) ?start = (l, res)"
    by (auto simp: boot_apply_def Let_def bindIO_def liftR_def effect_def split: sum.splits option.splits prod.splits)
  moreover obtain l1 res1 where attempt: "boot_attempt e r c program initial attempt observed ?start = (l1, res1)"
    by (cases "boot_attempt e r c program initial attempt observed ?start")
  ultimately have rest: "(case res1 of Inl x \<Rightarrow> bindIO (effect e (Store (attempt @ ''/incomplete.json'') (canonical ?d INCOMPLETE))) (\<lambda>_. liftR (Inl x)) l1
      | Inr y \<Rightarrow> (l1, Inr y)) = (l, res)"
    by (auto simp: catchIO_def split: sum.splits)
  from boot_attempt_cases [OF attempt] obtain ys where ys: "l1 = ?start @ ys" and
    outcome: "case res1 of
       Inl x \<Rightarrow> \<forall>y\<in>set ys. \<not> stores (complete_of attempt) y
     | Inr result \<Rightarrow> (\<exists>topology masks final.
         ch_topology e = Inr topology \<and> derive ?d c topology = Inr masks
         \<and> ys = parents_plan e masks @ [Store (attempt @ ''/after.json'') (canonical ?d final), Store (complete_of attempt) (canonical ?d result)]
         \<and> observed (?start @ parents_plan e masks) = Inr final
         \<and> verify ?d c final (Some (ch_clock e (?start @ parents_plan e masks))) (get r ''authority_sha256'') = Inr result)"
    by blast
  show ?thesis
  proof (cases res1)
    case (Inl x)
    then have False using rest outcome ne ys
      by (auto simp: bindIO_def liftR_def effect_def split: option.splits)
    then show ?thesis ..
  next
    case (Inr result)
    with outcome obtain topology masks final where o: "ch_topology e = Inr topology" "derive ?d c topology = Inr masks"
      "ys = parents_plan e masks @ [Store (attempt @ ''/after.json'') (canonical ?d final), Store (complete_of attempt) (canonical ?d result)]"
      "observed (?start @ parents_plan e masks) = Inr final"
      "verify ?d c final (Some (ch_clock e (?start @ parents_plan e masks))) (get r ''authority_sha256'') = Inr result" by auto
    have l: "l = ?start @ parents_plan e masks @ [Store (attempt @ ''/after.json'') (canonical ?d final), Store (complete_of attempt) (canonical ?d result)]"
      "res = Inr result" using rest Inr ys o(3) by auto
    have "\<forall>x\<in>set l. \<not> stores (attempt @ ''/incomplete.json'') x" using plan_stores_nothing by (auto simp: l(1))
    moreover have "take 2 l = ?start" by (simp add: l(1))
    ultimately show ?thesis using o(1,2,4,5) l by metis
  qed
qed

section \<open>A boot\<close>

text \<open>The first boot of the sample hypervisor: installed and approved, its parents still to be changed.\<close>

definition sample_zeros :: string where "sample_zeros = replicate 64 CHR ''0''"

definition sample_host :: cpu_host where
  "sample_host = \<lparr>ch_reviewed = True, ch_digests = sample_digests, ch_topology = Inr sample_topology, ch_direct = Inr 0,
     ch_exists = (\<lambda>_. True), ch_control = (\<lambda>_ _. True), ch_fault = (\<lambda>_. None), ch_clock = (\<lambda>_. sample_now)\<rparr>"

definition sample_approval :: pyval where
  "sample_approval = PDict
     [(''schema_version'', PInt 1), (''node'', PStr ''n1''), (''policy_sha256'', PStr sample_zeros), (''program_sha256'', PStr sample_zeros),
      (''user_approval_ref'', PStr ''r''), (''user_approval_sha256'', PStr sample_zeros),
      (''window_start_utc'', PStr sample_time), (''window_end_utc'', PStr ''2026-01-01T01:00:00+00:00''),
      (''persistent_boot_reapply'', PBool True), (''nonce'', PStr (replicate 32 CHR ''0'')), (''authority_sha256'', PStr sample_zeros)]"

definition sample_receipt :: pyval where
  "sample_receipt = PDict
     [(''producer'', PStr ''pve-cpu-isolation-native-v1''), (''node'', PStr ''n1''), (''policy_sha256'', PStr sample_zeros),
      (''program_sha256'', PStr sample_zeros), (''authority_sha256'', PStr sample_zeros), (''topology_sha256'', PStr sample_zeros),
      (''partition'', PStr ''root''), (''userland_masks_equal'', PBool True), (''known_qemu_and_templates_enrolled'', PBool True),
      (''host_or_guest_changed'', PBool False), (''observed_at_utc'', PStr sample_time)]"

definition sample_custody :: "pyval \<Rightarrow> (string \<times> string) list \<Rightarrow> custody" where
  "sample_custody manifest files = \<lparr>cu_program = Inr [], cu_manifest = Inr manifest,
     cu_file = (\<lambda>path. case map_of files path of None \<Rightarrow> Inl OSError | Some raw \<Rightarrow> Inr (raw, file_mode path)),
     cu_approval = Inr sample_approval, cu_authority = Inr [], cu_complete = True, cu_incomplete = False,
     cu_installation = Inr sample_receipt, cu_activation = None\<rparr>"

lemma sample_times:
  "iso_time (PStr sample_time) = Inr (Some 1767225600000000)" "aware (PStr sample_time) = Inr 1767225600000000"
  "iso_time (PStr ''2026-01-01T01:00:00+00:00'') = Inr (Some 1767229200000000)"
  "aware (PStr ''2026-01-01T01:00:00+00:00'') = Inr 1767229200000000"
  by code_simp+

lemma sample_approval_fields: "has_keys sample_approval APPROVAL_FIELDS"
  "class_match is_hex 32 32 (replicate 32 CHR ''0'')" "char_count ''r'' = 1"
  "py_eq (get sample_approval ''node'') (get sample_policy ''node'')"
  by code_simp+

lemma sample_sha [simp]: "dg_sha sample_digests x = sample_zeros"
  by (simp add: sample_digests_def sample_zeros_def)

lemma zeros_pin: "pin (PStr sample_zeros) = Inr sample_zeros"
  by (simp add: sample_zeros_def sample_pins)

lemma sample_approved:
  assumes "clock = None \<or> clock = Some sample_now"
  shows "approval sample_digests sample_approval sample_policy [] clock = Inr ()"
proof -
  have "window_of sample_approval = Inr (1767225600000000, 1767229200000000)"
    by (simp add: window_of_def sample_approval_def sample_times)
  moreover have "get sample_approval ''schema_version'' = PInt 1" "get sample_approval ''policy_sha256'' = PStr sample_zeros"
    "get sample_approval ''program_sha256'' = PStr sample_zeros" "get sample_approval ''user_approval_ref'' = PStr ''r''"
    "get sample_approval ''user_approval_sha256'' = PStr sample_zeros" "get sample_approval ''persistent_boot_reapply'' = PBool True"
    "get sample_approval ''nonce'' = PStr (replicate 32 CHR ''0'')" "get sample_approval ''authority_sha256'' = PStr sample_zeros"
    by (simp_all add: sample_approval_def)
  ultimately show ?thesis
    using assms by (auto simp add: approval_def sample_approval_fields zeros_pin Let_def sample_now_def simp del: get_or_dict)
qed

lemma files_found:
  "distinct (map fst files) \<Longrightarrow> \<exists>us. mapR (\<lambda>(path, raw). bindR (cu_file (sample_custody m files) path) (\<lambda>found. need (found = (raw, file_mode path)))) files = Inr us"
proof -
  assume files: "distinct (map fst files)"
  let ?f = "\<lambda>(path, raw). bindR (cu_file (sample_custody m files) path) (\<lambda>found. need (found = (raw, file_mode path)))"
  have "?f x = Inr ()" if "x \<in> set files" for x
  proof (cases x)
    case (Pair path raw)
    then have "map_of files path = Some raw" using that files by simp
    then show ?thesis by (simp add: Pair sample_custody_def)
  qed
  then have "mapR ?f xs = Inr (map (\<lambda>_. ()) xs)" if "set xs \<subseteq> set files" for xs
    using that by (induction xs) auto
  then show ?thesis by blast
qed

lemma rendered_distinct: "distinct (map fst (render_files d c masks program))"
  by (simp add: render_files_def slice_file_def dropin_path_def POLICY_PATH_def PROGRAM_PATH_def HOOK_PATH_def)

lemma items_same:
  "distinct (map fst e) \<Longrightarrow> set d \<subseteq> set e \<Longrightarrow> list_all (\<lambda>(_, v). py_eq v v) d \<Longrightarrow> py_eq_items d e"
  by (induction d) (auto simp: map_of_eq_Some_iff)

lemma sample_manifest_same:
  assumes "render sample_digests sample_policy sample_topology [] = Inr (m, files)"
  shows "py_eq m m"
proof -
  let ?row = "\<lambda>(path, raw). (path, PDict [(''sha256'', PStr sample_zeros), (''bytes'', PInt (int (length raw))), (''mode'', PStr (file_mode path))])"
  let ?files = "render_files sample_digests sample_policy sample_masks []"
  have "distinct (map fst (map ?row ?files))"
    using rendered_distinct [of sample_digests sample_policy sample_masks "[]"] by (simp add: comp_def case_prod_unfold)
  then have "py_eq_items (map ?row ?files) (map ?row ?files)"
    by (rule items_same) (auto simp: list_all_iff)
  moreover have "py_eq sample_masks sample_masks" by code_simp
  moreover have "py_eq (get sample_policy ''clone_inheritance_review_ref'') (get sample_policy ''clone_inheritance_review_ref'')" by code_simp
  moreover have "m = PDict [(''schema_version'', PInt 1), (''policy_sha256'', PStr sample_zeros), (''masks'', sample_masks),
      (''files'', PDict (map ?row ?files)), (''install_executed'', PBool False), (''native_verify_executed'', PBool False),
      (''clone_inheritance_review_ref'', get sample_policy ''clone_inheritance_review_ref'')]"
    using assms unfolding render_def sample_derived by (auto simp: Let_def zeros_pin)
  ultimately show ?thesis by simp
qed

lemma sample_receipt_ok:
  assumes "get expected ''policy_sha256'' = PStr sample_zeros" "get expected ''masks'' = sample_masks"
  shows "receipt_ok sample_digests sample_policy expected sample_approval [] sample_receipt = Inr ()"
proof -
  have "get sample_policy ''node'' = PStr ''n1''" "get sample_masks ''topology_sha256'' = PStr sample_zeros"
    by (simp_all add: sample_policy_def sample_masks_def sample_zeros_def)
  then show ?thesis
    by (simp add: receipt_ok_def sample_receipt_def sample_approval_def assms sample_times)
qed

lemma sample_installed_custody:
  assumes "render sample_digests sample_policy sample_topology [] = Inr (m, files)"
  shows "installed_custody sample_host (sample_custody m files) sample_policy sample_now True = Inr True"
proof -
  have m: "files = render_files sample_digests sample_policy sample_masks []"
    "get m ''policy_sha256'' = PStr sample_zeros" "get m ''masks'' = sample_masks"
    using assms unfolding render_def sample_derived by (auto simp: Let_def zeros_pin sample_sha)
  have distinct: "distinct (map fst files)" by (simp only: m(1) rendered_distinct)
  obtain us where files: "mapR (\<lambda>(path, raw). bindR (cu_file (sample_custody m files) path) (\<lambda>found. need (found = (raw, file_mode path)))) files = Inr us"
    using files_found [OF distinct, of m] ..
  have phase: "completed_phase sample_digests sample_policy m sample_approval [] sample_now (Some sample_receipt) None True = Inr True"
    unfolding completed_phase_def by (simp add: sample_receipt_ok [OF m(2,3)] sample_approved del: get_or_dict)
  have eq: "py_eq m m = True" "py_eq (PStr (dg_sha sample_digests [])) (get sample_approval ''authority_sha256'') = True" "(sample_receipt = PNone) = False"
    by (simp_all add: sample_manifest_same [OF assms] sample_approval_def sample_receipt_def)
  have custody: "cu_program (sample_custody m files) = Inr []" "cu_manifest (sample_custody m files) = Inr m"
    "cu_approval (sample_custody m files) = Inr sample_approval" "cu_authority (sample_custody m files) = Inr []"
    "cu_complete (sample_custody m files)" "\<not> cu_incomplete (sample_custody m files)"
    "cu_installation (sample_custody m files) = Inr sample_receipt" "cu_activation (sample_custody m files) = None"
    by (simp_all add: sample_custody_def)
  have host: "ch_topology sample_host = Inr sample_topology" "ch_digests sample_host = sample_digests"
    by (simp_all add: sample_host_def)
  show ?thesis
    unfolding installed_custody_def Let_def custody host bindR_simps assms prod.case files sample_approved [OF disjI1, OF refl]
    by (simp only: eq custody bindR_simps check_simps if_False option.case not_False_eq_True simp_thms phase)
qed

definition lucky :: "'a cio \<Rightarrow> bool" where
  "lucky m = (\<forall>l. \<exists>l' x. m l = (l', Inr x))"

lemma lucky_bind: "lucky m \<Longrightarrow> (\<And>x. lucky (f x)) \<Longrightarrow> lucky (bindIO m f)"
  unfolding lucky_def bindIO_def by (metis (no_types, lifting) case_prod_conv old.sum.simps(6))

lemma lucky_map: "(\<And>x. lucky (f x)) \<Longrightarrow> lucky (mapIO f xs)"
proof (induction xs)
  case (Cons x xs)
  then have "lucky (bindIO (f x) (\<lambda>y. bindIO (mapIO f xs) (\<lambda>ys. liftR (Inr (y # ys)))))"
    by (intro lucky_bind) (auto simp: lucky_def liftR_def)
  then show ?case by simp
qed (simp add: lucky_def liftR_def)

lemma now_Inr: "bindIO (\<lambda>l. (l, Inr x)) f = f x"
  by (rule ext) (simp add: bindIO_def)

lemma lucky_lift: "lucky (liftR (Inr x))"
  by (simp add: lucky_def liftR_def)

lemma lucky_effect: "lucky (effect sample_host x)"
  by (simp add: lucky_def effect_def sample_host_def)

lemma lucky_write: "lucky (write_cgroup sample_host x)"
  using lucky_effect by (cases x) (simp add: write_cgroup_def sample_host_def lift_Inr)

lemma sample_parents_applied: "lucky auth \<Longrightarrow> lucky (apply_parents sample_host sample_policy auth)"
  unfolding apply_parents_def authorised_def
  by (intro lucky_bind lucky_map lucky_effect lucky_write; (assumption | simp add: sample_host_def sample_derived lucky_lift))

lemma sample_attempt:
  assumes "verify sample_digests sample_policy sample_report (Some sample_now) (PStr sample_zeros) = Inr v"
  shows "lucky (boot_attempt sample_host sample_approval sample_policy [] True attempt (\<lambda>_. Inr sample_report))"
proof -
  have host: "ch_digests sample_host = sample_digests" "ch_clock sample_host l = sample_now" for l by (simp_all add: sample_host_def)
  have auth: "approval sample_digests sample_approval sample_policy [] (Some sample_now) = Inr ()" by (simp add: sample_approved)
  have authority: "get sample_approval ''authority_sha256'' = PStr sample_zeros" by (simp add: sample_approval_def)
  show ?thesis
    unfolding boot_attempt_def Let_def host auth authority now_Inr assms if_True
    by (intro lucky_bind sample_parents_applied lucky_effect lucky_lift) (simp_all add: lucky_def)
qed

lemma sample_booted:
  assumes "render sample_digests sample_policy sample_topology [] = Inr (m, files)"
  shows "\<exists>v l. boot_apply sample_host (sample_custody m files) sample_policy sample_now (Inr sample_report) (\<lambda>_. Inr sample_report) [] = (l, Inr v)
    \<and> (\<exists>x\<in>set l. stores (complete_of (attempt_path sample_report)) x)"
proof -
  let ?attempt = "attempt_path sample_report"
  let ?start = "[MakeAttempt ?attempt, Store (?attempt @ ''/before.json'') (canonical sample_digests sample_report)]"
  obtain v where "verify sample_digests sample_policy sample_report (Some sample_now) (PStr sample_zeros) = Inr v"
    using sample_verified unfolding sample_zeros_def by blast
  from sample_attempt [OF this] obtain l x where run:
    "boot_attempt sample_host sample_approval sample_policy [] True ?attempt (\<lambda>_. Inr sample_report) ?start = (l, Inr x)"
    unfolding lucky_def by blast
  have "\<exists>y\<in>set l. stores (complete_of ?attempt) y"
    using boot_attempt_cases [OF run] by auto
  moreover have "boot_apply sample_host (sample_custody m files) sample_policy sample_now (Inr sample_report) (\<lambda>_. Inr sample_report) [] = (l, Inr x)"
  proof -
    have custody: "cu_program (sample_custody m files) = Inr []" "cu_approval (sample_custody m files) = Inr sample_approval"
      "(cu_complete (sample_custody m files) \<and> \<not> cu_incomplete (sample_custody m files)) = True" by (simp_all add: sample_custody_def)
    have host: "ch_digests sample_host = sample_digests" "ch_reviewed sample_host = True" by (simp_all add: sample_host_def)
    have effects: "effect sample_host y l0 = (l0 @ [y], Inr ())" for y l0 by (simp add: effect_def sample_host_def)
    show ?thesis
      unfolding boot_apply_def Let_def host custody check_simps lift_Inr sample_policy_ok sample_installed_custody [OF assms]
        sample_approved [OF disjI1 [OF refl]] sample_validated [OF disjI2 [OF refl]]
      by (simp add: bindIO_def effects catchIO_def run del: get_or_dict)
  qed
  ultimately show ?thesis by blast
qed

theorem parents_follow_plan_witness:
  "\<exists>masks. derive sample_digests sample_policy sample_topology = Inr masks
    \<and> fst (apply_parents sample_host sample_policy (\<lambda>h. (h, Inr ())) []) = parents_plan sample_host masks"
proof -
  have "lucky (\<lambda>h. (h, Inr ()) :: cpu_effect list \<times> unit res)" by (simp add: lucky_def)
  then obtain l where run: "apply_parents sample_host sample_policy (\<lambda>h. (h, Inr ())) [] = (l, Inr ())"
    using sample_parents_applied unfolding lucky_def by (metis (full_types) unit.exhaust)
  have "ch_topology sample_host = Inr sample_topology" "ch_digests sample_host = sample_digests" by (simp_all add: sample_host_def)
  with parents_follow_plan [OF run] run show ?thesis by auto
qed

theorem boot_completion_is_verified_witness:
  "\<exists>m files masks l v. boot_apply sample_host (sample_custody m files) sample_policy sample_now (Inr sample_report) (\<lambda>_. Inr sample_report) [] = (l, Inr v)
    \<and> derive sample_digests sample_policy sample_topology = Inr masks \<and> set (parents_plan sample_host masks) \<subseteq> set l"
proof -
  obtain m files where "render sample_digests sample_policy sample_topology [] = Inr (m, files)"
    by (simp add: render_def sample_derived Let_def zeros_pin)
  then obtain v l where run:
    "boot_apply sample_host (sample_custody m files) sample_policy sample_now (Inr sample_report) (\<lambda>_. Inr sample_report) [] = (l, Inr v)"
    "\<exists>x\<in>set l. stores (complete_of (attempt_path sample_report)) x"
    using sample_booted by blast
  have host: "ch_topology sample_host = Inr sample_topology" "ch_digests sample_host = sample_digests" by (simp_all add: sample_host_def)
  obtain masks xs ys where l: "derive sample_digests sample_policy sample_topology = Inr masks" "l = xs @ parents_plan sample_host masks @ ys"
    using boot_completion_is_verified [OF run refl refl] unfolding host by blast
  then have "set (parents_plan sample_host masks) \<subseteq> set l" by auto
  with run(1) l(1) show ?thesis by blast
qed

end
