(* ===== verification/Spec2Isabelle.thy ===== *)
theory Spec2Isabelle
  imports DiscordDispatch AlertContract PbsCapacity BackupContract FirewallPlan SshTransit HealthExchange
    MetricsInterval ObservationSafety ImageSafety CpuPlan
begin

text \<open>
  A verification library for the operations tools of this repository: the Python programs under
  \<open>scripts/\<close> and \<open>scripts/lib/\<close> that watch the services and the backups of the platform, send
  alerts, move health results and inference observations between hosts, and generate the packet
  filter of the production network.

  \<^bold>\<open>The programs and how they interact.\<close> Probes on several hosts write small JSON reports.
  \<open>health-result-reader.py\<close> answers a forced SSH command with a bundle of such reports and the
  policy of its host, \<open>health-result-importer.py\<close> fetches the bundle, verifies it and stores its
  parts as files. \<open>service-health-monitor.py\<close> reads all report files once per interval, feeds each
  into the incident tracker of \<open>lib/llm_health.py\<close>, reserves alert mails and hands them to the
  mail server. \<open>discord-ops-alerts.py\<close> reads the files this monitor leaves, and those of the backup
  monitors, and keeps an outbox of Discord messages. \<open>core-pbs-monitor.py\<close> and
  \<open>pbs-capacity-monitor.py\<close> (with \<open>pbs-capacity-probe.py\<close>) are two more monitors with a state
  file and one alert mail per incident; \<open>backup-health-summary.py\<close> reads what the first one and
  the database check left and writes one report over both. A second pipeline samples the
  inference server: \<open>lib/inference_metrics.py\<close> reads its metrics text and compares snapshots,
  \<open>lib/inference_observation.py\<close> makes the typed sample, the sampler of
  \<open>lib/observation_runtime.py\<close> stores the latest one in a spool directory
  (\<open>lib/observation_spool.py\<close>), and the reporter on another host imports it over SSH, queues it in
  its own spool and submits it to the API. \<open>lib/production_network.py\<close> and \<open>lib/ssh_transit.py\<close>
  validate the network configuration and generate firewall rules and systemd units from it.
  \<open>lib/node_registration.py\<close> measures a hypervisor, checks the report on the database host, shows
  what a registration would do and, when asked to, writes the row of the node in one transaction
  between two private records; \<open>lib/inventory_readiness.py\<close> does the same for address pools and for
  the firewall label of a node, and \<open>lib/image_registration.py\<close> measures a template and adds it to the
  catalog of images. \<open>lib/cpu_isolation.py\<close> divides the CPUs of a hypervisor between the host,
  the platform containers and the machines of the students: it changes the control groups, checks that
  what is observed afterwards is what the policy says, and guards the start of every guest.

  \<^bold>\<open>Theories.\<close> In the order of the imports:

  \<^item> The language and its library. \<open>PyFloat\<close>: binary64 floats as rationals with the rounding \<open>fl\<close>.
    \<open>PyValue\<close>: exceptions as values (\<open>'a res\<close>, an exception or a value), JSON values, character
    classes and the regular expressions of the code, paths. \<open>PyTime\<close>, \<open>PyDate\<close>: the calendar and
    time stamps in both directions. \<open>PyNet\<close>: IPv4 addresses and networks on \<open>32 word\<close>.
  \<^item> Shared interfaces. \<open>Delivery\<close>: effects of an alert sender (writes and submissions), the locale
    of the senders that write before they submit, interpreted for each of them. \<open>Effects\<close>: a log
    monad with exceptions, \<open>try\<close> and \<open>finally\<close>, and the rules of \<open>does\<close>.
  \<^item> Service health. \<open>LlmHealth\<close> (\<open>observe\<close>, \<open>reserve_event\<close>, \<open>deliver\<close> of \<open>lib/llm_health.py\<close>),
    \<open>ServiceHealthMonitor\<close> (\<open>validate\<close>, \<open>sampled\<close>), \<open>ServiceHealthCollect\<close> (\<open>collect\<close>, \<open>run\<close>).
  \<^item> Discord alerts. \<open>DiscordConfig\<close> (\<open>load_config\<close>, \<open>collect\<close>, \<open>validate_state\<close>), \<open>DiscordService\<close>
    (\<open>collect_service_health\<close>), \<open>DiscordOutbox\<close> (\<open>enqueue\<close> and the service events),
    \<open>DiscordDispatch\<close> (\<open>dispatch\<close>, \<open>run\<close>). \<open>AlertContract\<close>: what the monitor writes is what this
    program reads.
  \<^item> Backups. \<open>PbsCapacity\<close> (probe and monitor), \<open>CorePbsMonitor\<close>, \<open>BackupHealthSummary\<close>;
    \<open>BackupContract\<close>: the summary reads the file the core monitor wrote.
  \<^item> Network. \<open>NetConfig\<close> (\<open>validate_config\<close>, \<open>validate_sdn_inventory\<close>,
    \<open>parse_netbird_accept_mark\<close>), \<open>FirewallPlan\<close> (\<open>firewall_plan\<close>, \<open>nft_guard_text\<close>),
    \<open>SshTransit\<close> (\<open>lib/ssh_transit.py\<close>).
  \<^item> Health results. \<open>HealthTransport\<close> (\<open>lib/health_result_transport.py\<close>), \<open>HealthExchange\<close> (reader
    and importer).
  \<^item> Inference. \<open>MetricsText\<close>, \<open>MetricsSnapshot\<close>, \<open>MetricsInterval\<close> (\<open>lib/inference_metrics.py\<close>),
    \<open>ObservationSample\<close> (\<open>lib/inference_observation.py\<close>), \<open>ObservationSpool\<close>
    (\<open>lib/observation_spool.py\<close>), \<open>ObservationRuntime\<close> (configuration, \<open>read_host\<close>, \<open>sample\<close>,
    \<open>read_latest\<close>) and \<open>ObservationReport\<close> (\<open>report\<close>) for \<open>lib/observation_runtime.py\<close>;
    \<open>SpoolSafety\<close> and \<open>ObservationSafety\<close> hold the proofs about them.
  \<^item> Inventory. \<open>NodeCapacity\<close> (configuration, \<open>capacity\<close>, \<open>validate_capacity_document\<close>) and
    \<open>NodeRegistration\<close> (\<open>collect\<close>, \<open>validate_report\<close>, \<open>preview\<close>, \<open>apply_sql\<close>, \<open>register\<close>) for
    \<open>lib/node_registration.py\<close>, where the SQL is modelled as what PostgreSQL does with the rows of the
    tables; \<open>InventoryReadiness\<close> for the address pools and the firewall opt-in of
    \<open>lib/inventory_readiness.py\<close>. \<open>ImageRegistration\<close> for \<open>lib/image_registration.py\<close>. \<open>RecordedRun\<close> is the contract that
    these programs share (a commit comes after its record), a locale interpreted for each of them in
    \<open>RegistrationSafety\<close>, \<open>ReadinessSafety\<close> and \<open>ImageSafety\<close>, which hold the proofs, and in the last one
    for any mixture of their requests.
  \<^item> CPU isolation (\<open>lib/cpu_isolation.py\<close>). \<open>CpuPolicy\<close> (\<open>validate_config\<close>, \<open>derive\<close>, drop-ins), \<open>CpuVerify\<close>
    (\<open>validate_observation\<close>, \<open>verify\<close>, \<open>render\<close>, \<open>approval\<close>, \<open>completed_phase\<close>), \<open>CpuApply\<close> (\<open>apply_parents\<close>,
    \<open>installed_custody\<close>, \<open>native_start\<close>, the boot unit); \<open>CpuSafety\<close> and \<open>CpuPlan\<close> hold the proofs.
\<close>

text \<open>
  \<^bold>\<open>Conventions.\<close> Names are those of the code, with a prefix or suffix where HOL has the name. A
  Python exception is a value of \<open>exn\<close>; a function that can raise returns \<open>'a res\<close>, and each
  \<open>raise\<close>, early return and \<open>except\<close> clause of the code is a branch. JSON documents are values of
  \<open>pyval\<close>, whose dictionaries keep their order; a state file that the code has validated is a record.
  Integers of Python are \<open>int\<close>, floats are rationals rounded by \<open>fl\<close>, addresses are words, strings
  are the bytes of their UTF-8 form. A program that writes files or sends messages is a list of
  effects in order, or a step of the log monad, so that a prefix of it is what a crash leaves; a
  write may also fail. Clocks, files, the network, subprocess output, \<open>json.dumps\<close>, \<open>json.loads\<close>,
  SHA-256, \<open>urlsplit\<close> and random identifiers are parameters. Loops of the code run over finite
  lists and are recursion over them; where the recursion is on something else (the digits of a
  number, the tokens of a metrics line) it is on a length that decreases, so no fuel is needed and
  every definition is total.

  \<^bold>\<open>What the properties show.\<close>

  \<^item> Alerts. Over any sequence of runs and crashes no alert is handed to the transport more often
    than its limit, and a submission that was interrupted is not repeated (all four senders share
    the locale of \<open>Delivery\<close>). An open incident gets its alert; the tracker opens and closes
    incidents exactly on complete streaks; a collection round and an outbox keep their state
    consistent. One malformed time stamp can end a whole round with an uncaught exception, and a
    capacity alert can be repeated after a refused mail: both are findings with a theorem.
  \<^item> Evidence. A status of the service monitor, the capacity probe, the core monitor and the summary
    that is not a failure is backed by fresh and complete evidence; a valid interval of metrics is
    backed by two consistent observations of every series.
  \<^item> Contracts. The Discord side accepts the monitor's files; the summary repeats the core monitor's
    verdict; a bundle of the reader passes the importer, and a sanitised report has the type of the
    schema; the importer never leaves a policy that it has not verified.
  \<^item> Spool. A record of the reporter is removed only after its acknowledgement and its checkpoint
    are on record; the spool and the submissions stay within their limits; a write that is
    interrupted at the wrong point blocks every later run, which is a finding.
  \<^item> Network. Guests reach no inner network, accepted networks are disjoint, the acceptance mark is
    exact, the guard table can be written for every accepted configuration that names its four service
    sources (validation does not ask for them: a finding), and the transit rule is inserted once in its place.
  \<^item> Inventory. A transaction that commits rests on the reviewed rows and changes the row of one node
    only; the capacity it stores covers the machines of the node; an inserted address pool is apart
    from all others, and its reserved ranges are apart from each other; an inserted image keeps the catalog
    consistent, and the report of a template is accepted by the other host; values cannot leave their place in
    the SQL text; the two descriptions of a capacity document agree.
  \<^item> CPUs. The masks made from a policy and a topology divide the threads by whole cores; control groups
    are changed by a plan in a fixed order, and nothing is changed while the review guard is closed; when
    an observation is verified, the threads of the machines stay on the CPUs of the students; a boot is
    recorded as complete only after such a verification.
  \<^item> Round trips. The text of a CPU set, a metrics sample line and a time in the text form are read back as they were.

  \<^bold>\<open>Not modelled.\<close> The system calls behind private files, locks, atomic replacement and bounded
  subprocesses; the HTTP and SMTP exchanges themselves; shell scripts, systemd units and runbooks.
  The programs that only run external commands in sequence (deployment, provisioning of containers,
  the database backup pipe, the installation of the CPU isolation) are listed with their
  reasons in the manifest.
\<close>

end
